(* ===== verification/Prelude.thy ===== *)
theory Prelude
  imports Main
    "HOL-Library.State_Monad"
    "HOL-Library.Char_ord"
    "HOL-Library.List_Lexorder"
    "HOL-Library.Sublist"
begin

text \<open>
  Shared vocabulary of the development.

  \<^item> Go's machine integers and clock: \<open>wrap64\<close> and \<open>wrap32\<close> are two's-complement wrap-around,
    \<open>quot\<close> is Go's truncating division, times are nanoseconds since Go's zero
    \<open>time.Time\<close> and durations are nanoseconds (\<open>time.Duration\<close>).
  \<^item> The parts of Go's \<open>strings\<close> package that the controller uses, on byte strings.
  \<^item> The weakest-precondition calculus for the state monad in which the reconcilers are
    written: \<open>wp m Q s\<close> says that running \<open>m\<close> from \<open>s\<close> ends in a value and a state
    that satisfy \<open>Q\<close>. The rules in the collection \<open>wp_simps\<close> push it through the
    program constructs.
  \<^item> The keyed-store interface (\<open>keyed_store\<close>) behind the API objects, and the election
    interface (\<open>precedence\<close>) behind every deterministic "oldest, then by name" choice.
\<close>

named_theorems wp_simps \<open>weakest preconditions of the program constructs\<close>
named_theorems const_defs \<open>definitions of the string and duration constants\<close>

section \<open>Definitions\<close>

subsection \<open>Integers and time\<close>

definition wrap64 :: "int \<Rightarrow> int" where
  "wrap64 x = (x + 2 ^ 63) mod 2 ^ 64 - 2 ^ 63"

definition wrap32 :: "int \<Rightarrow> int" where
  "wrap32 x = (x + 2 ^ 31) mod 2 ^ 32 - 2 ^ 31"

definition quot :: "int \<Rightarrow> int \<Rightarrow> int" where
  "quot a b = sgn a * sgn b * (\<bar>a\<bar> div \<bar>b\<bar>)"

type_synonym time = int
type_synonym duration = int

abbreviation (input) zero_time :: time where
  "zero_time \<equiv> 0"

abbreviation (input) nanosecond :: duration where
  "nanosecond \<equiv> 1"

abbreviation (input) second :: duration where
  "second \<equiv> 1000000000"

abbreviation (input) minute :: duration where
  "minute \<equiv> 60000000000"

abbreviation (input) hour :: duration where
  "hour \<equiv> 3600000000000"

text \<open>\<open>t.Sub(u)\<close> saturates at the largest and the smallest \<open>time.Duration\<close>.\<close>

definition time_sub :: "time \<Rightarrow> time \<Rightarrow> duration" where
  "time_sub t u = max (- (2 ^ 63)) (min (2 ^ 63 - 1) (t - u))"

subsection \<open>Strings\<close>

abbreviation (input) empty_str :: string where
  "empty_str \<equiv> []"

fun contains :: "string \<Rightarrow> string \<Rightarrow> bool" where
  "contains [] sub = (sub = [])"
| "contains (c # cs) sub = (prefix sub (c # cs) \<or> contains cs sub)"

definition hasPrefix :: "string \<Rightarrow> string \<Rightarrow> bool" where
  "hasPrefix s p = prefix p s"

definition hasSuffix :: "string \<Rightarrow> string \<Rightarrow> bool" where
  "hasSuffix s p = prefix (rev p) (rev s)"

definition trimPrefix :: "string \<Rightarrow> string \<Rightarrow> string" where
  "trimPrefix s p = (if prefix p s then drop (length p) s else s)"

definition toLowerChar :: "char \<Rightarrow> char" where
  "toLowerChar c =
     (if CHR ''A'' \<le> c \<and> c \<le> CHR ''Z'' then char_of (of_char c + (32 :: nat)) else c)"

definition toLower :: "string \<Rightarrow> string" where
  "toLower s = map toLowerChar s"

definition isSpace :: "char \<Rightarrow> bool" where
  "isSpace c = (c = CHR '' '' \<or> c = CHR 0x09 \<or> c = CHR 0x0A \<or> c = CHR 0x0B \<or> c = CHR 0x0C \<or> c = CHR 0x0D)"

definition trimSpace :: "string \<Rightarrow> string" where
  "trimSpace s = rev (dropWhile isSpace (rev (dropWhile isSpace s)))"

fun splitOn :: "char \<Rightarrow> string \<Rightarrow> string list" where
  "splitOn d [] = [[]]"
| "splitOn d (c # cs) =
     (if c = d then [] # splitOn d cs
      else (case splitOn d cs of [] \<Rightarrow> [[c]] | x # xs \<Rightarrow> (c # x) # xs))"

fun joinWith :: "string \<Rightarrow> string list \<Rightarrow> string" where
  "joinWith sep [] = []"
| "joinWith sep [x] = x"
| "joinWith sep (x # y # ys) = x @ sep @ joinWith sep (y # ys)"

text \<open>Decimal rendering of a natural number, as \<open>%d\<close> and \<open>strconv.Itoa\<close> print it.\<close>

definition digitChar :: "nat \<Rightarrow> char" where
  "digitChar n = char_of (48 + n mod 10 :: nat)"

fun showNat :: "nat \<Rightarrow> string" where
  "showNat n = (if n < 10 then [digitChar n] else showNat (n div 10) @ [digitChar n])"

declare showNat.simps [simp del]

definition showInt :: "int \<Rightarrow> string" where
  "showInt i = (if i < 0 then CHR ''-'' # showNat (nat (- i)) else showNat (nat i))"

text \<open>\<open>%q\<close> of a string without quotes, backslashes or control characters, such as an object's name.\<close>

definition quoted :: "string \<Rightarrow> string" where
  "quoted s = CHR 0x22 # s @ [CHR 0x22]"

subsection \<open>Go maps with string values\<close>

type_synonym strmap = "string \<rightharpoonup> string"

text \<open>Indexing a Go map yields the zero value for a missing key.\<close>

definition mget :: "strmap \<Rightarrow> string \<Rightarrow> string" where
  "mget m k = (case m k of None \<Rightarrow> [] | Some v \<Rightarrow> v)"

subsection \<open>Objects stored by key\<close>

definition store_get :: "('o \<Rightarrow> 'k) \<Rightarrow> 'o list \<Rightarrow> 'k \<Rightarrow> 'o option" where
  "store_get key os k = find (\<lambda>x. key x = k) os"

definition store_put :: "('o \<Rightarrow> 'k) \<Rightarrow> 'o \<Rightarrow> 'o list \<Rightarrow> 'o list" where
  "store_put key x os = x # filter (\<lambda>y. key y \<noteq> key x) os"

definition store_del :: "('o \<Rightarrow> 'k) \<Rightarrow> 'k \<Rightarrow> 'o list \<Rightarrow> 'o list" where
  "store_del key k os = filter (\<lambda>y. key y \<noteq> k) os"

subsection \<open>The loop that keeps the candidate that precedes the one it has\<close>

fun elect :: "('a \<Rightarrow> 'a \<Rightarrow> bool) \<Rightarrow> 'a option \<Rightarrow> 'a list \<Rightarrow> 'a option" where
  "elect lt best [] = best"
| "elect lt None (x # xs) = elect lt (Some x) xs"
| "elect lt (Some b) (x # xs) = elect lt (Some (if lt x b then x else b)) xs"

text \<open>
  Sorting with a comparison function: insertion sort. \<open>sort.SliceStable\<close> and
  \<open>slices.SortStableFunc\<close> return exactly this list; \<open>sort.Slice\<close> returns it when the
  order is total on the elements.
\<close>

fun ins_by :: "('a \<Rightarrow> 'a \<Rightarrow> bool) \<Rightarrow> 'a \<Rightarrow> 'a list \<Rightarrow> 'a list" where
  "ins_by lt x [] = [x]"
| "ins_by lt x (y # ys) = (if lt y x then y # ins_by lt x ys else x # y # ys)"

fun sort_by :: "('a \<Rightarrow> 'a \<Rightarrow> bool) \<Rightarrow> 'a list \<Rightarrow> 'a list" where
  "sort_by lt [] = []"
| "sort_by lt (x # xs) = ins_by lt x (sort_by lt xs)"

subsection \<open>Weakest preconditions\<close>

definition wp :: "('s, 'a) state \<Rightarrow> ('a \<Rightarrow> 's \<Rightarrow> bool) \<Rightarrow> 's \<Rightarrow> bool" where
  "wp m Q s = (case run_state m s of (a, s') \<Rightarrow> Q a s')"

definition modify :: "('s \<Rightarrow> 's) \<Rightarrow> ('s, unit) state" where
  "modify f = State (\<lambda>s. ((), f s))"

definition gets :: "('s \<Rightarrow> 'a) \<Rightarrow> ('s, 'a) state" where
  "gets f = State (\<lambda>s. (f s, s))"

section \<open>Lemmas\<close>

subsection \<open>Weakest-precondition rules\<close>

lemma wp_return [wp_simps]: "wp (State_Monad.return a) Q s = Q a s"
  by (simp add: wp_def)

lemma wp_bind [wp_simps]: "wp (State_Monad.bind m f) Q s = wp m (\<lambda>a. wp (f a) Q) s"
  by (simp add: wp_def split: prod.splits)

lemma wp_modify [wp_simps]: "wp (modify f) Q s = Q () (f s)"
  by (simp add: wp_def modify_def)

lemma wp_gets [wp_simps]: "wp (gets f) Q s = Q (f s) s"
  by (simp add: wp_def gets_def)

lemma wp_if [wp_simps]: "wp (if b then m else n) Q s = (if b then wp m Q s else wp n Q s)"
  by simp

lemma wp_case_option [wp_simps]:
  "wp (case x of None \<Rightarrow> m | Some y \<Rightarrow> f y) Q s = (case x of None \<Rightarrow> wp m Q s | Some y \<Rightarrow> wp (f y) Q s)"
  by (cases x) simp_all

lemma wp_case_sum [wp_simps]:
  "wp (case x of Inl e \<Rightarrow> f e | Inr y \<Rightarrow> g y) Q s = (case x of Inl e \<Rightarrow> wp (f e) Q s | Inr y \<Rightarrow> wp (g y) Q s)"
  by (cases x) simp_all

lemma wp_case_prod [wp_simps]:
  "wp (case x of (a, b) \<Rightarrow> f a b) Q s = (case x of (a, b) \<Rightarrow> wp (f a b) Q s)"
  by (cases x) simp_all

lemma wp_case_list [wp_simps]:
  "wp (case x of [] \<Rightarrow> m | y # ys \<Rightarrow> f y ys) Q s = (case x of [] \<Rightarrow> wp m Q s | y # ys \<Rightarrow> wp (f y ys) Q s)"
  by (cases x) simp_all

lemma wp_let [wp_simps]: "wp (Let x f) Q s = (let y = x in wp (f y) Q s)"
  by (simp add: Let_def)

lemma wp_mono: "wp m Q s \<Longrightarrow> (\<And>a s'. Q a s' \<Longrightarrow> R a s') \<Longrightarrow> wp m R s"
  by (simp add: wp_def split: prod.splits)

lemma wp_conj: "wp m (\<lambda>a s'. Q a s' \<and> R a s') s = (wp m Q s \<and> wp m R s)"
  by (simp add: wp_def split: prod.splits)

lemma wp_run: "wp m Q s \<Longrightarrow> run_state m s = (a, s') \<Longrightarrow> Q a s'"
  by (simp add: wp_def)

lemma wp_runI: "(\<And>a s'. run_state m s = (a, s') \<Longrightarrow> Q a s') \<Longrightarrow> wp m Q s"
  by (simp add: wp_def split: prod.splits)

lemma wp_returns: "wp m (\<lambda>r s'. r = a \<and> Q s') s \<Longrightarrow> \<exists>s'. run_state m s = (a, s') \<and> Q s'"
  by (auto simp: wp_def split: prod.splits)

lemma run_state_modify [simp]: "run_state (modify f) s = ((), f s)"
  by (simp add: modify_def)

lemma run_state_gets [simp]: "run_state (gets f) s = (f s, s)"
  by (simp add: gets_def)

subsection \<open>Wrap-around\<close>

lemma wrap64_id: "- (2 ^ 63) \<le> x \<Longrightarrow> x < 2 ^ 63 \<Longrightarrow> wrap64 x = x"
  by (simp add: wrap64_def)

lemma wrap64_range: "- (2 ^ 63) \<le> wrap64 x \<and> wrap64 x < 2 ^ 63"
proof -
  have "(0::int) \<le> (x + 2 ^ 63) mod 2 ^ 64" and "(x + 2 ^ 63) mod 2 ^ 64 < (2::int) ^ 64"
    by simp_all
  then show ?thesis unfolding wrap64_def by simp
qed

lemma wrap32_id: "- (2 ^ 31) \<le> x \<Longrightarrow> x < 2 ^ 31 \<Longrightarrow> wrap32 x = x"
  by (simp add: wrap32_def)

lemma quot_pos: "0 \<le> a \<Longrightarrow> 0 < b \<Longrightarrow> quot a b = a div b"
  by (cases "a = 0") (simp_all add: quot_def)

lemma time_sub_exact: "\<bar>t - u\<bar> < 2 ^ 63 \<Longrightarrow> time_sub t u = t - u"
  by (simp add: time_sub_def)

subsection \<open>String lemmas\<close>

lemma contains_iff_sublist: "contains s sub \<longleftrightarrow> sublist sub s"
  by (induction s) (auto simp: sublist_Cons_right)

lemma contains_append: "contains s sub \<Longrightarrow> contains (a @ s @ b) sub"
  by (simp add: contains_iff_sublist sublist_append)

lemma splitOn_not_Nil [simp]: "splitOn d s \<noteq> []"
  by (induction s) (auto split: list.splits)

lemma splitOn_no_sep: "d \<notin> set s \<Longrightarrow> splitOn d s = [s]"
  by (induction s) auto

lemma splitOn_append:
  "d \<notin> set x \<Longrightarrow> splitOn d (x @ d # rest) = x # splitOn d rest"
  by (induction x) auto

text \<open>Splitting undoes joining, as long as no element contains the separator.\<close>

lemma splitOn_joinWith:
  "xs \<noteq> [] \<Longrightarrow> \<forall>x \<in> set xs. d \<notin> set x \<Longrightarrow> splitOn d (joinWith [d] xs) = xs"
proof (induction "[d]" xs rule: joinWith.induct)
  case (3 x y ys)
  then show ?case by (simp add: splitOn_append)
qed (simp_all add: splitOn_no_sep)

lemma trimSpace_id:
  assumes "s \<noteq> [] \<Longrightarrow> \<not> isSpace (hd s)" and "s \<noteq> [] \<Longrightarrow> \<not> isSpace (last s)"
  shows "trimSpace s = s"
proof (cases "s = []")
  case False
  with assms have "dropWhile isSpace s = s"
    by (cases s) auto
  moreover from False assms have "dropWhile isSpace (rev s) = rev s"
    by (cases "rev s") (auto simp: hd_rev [symmetric])
  ultimately show ?thesis by (simp add: trimSpace_def)
qed (simp add: trimSpace_def)

subsection \<open>Maps\<close>

lemma mget_upd [simp]: "mget (m(k \<mapsto> v)) k' = (if k' = k then v else mget m k')"
  by (simp add: mget_def)

lemma mget_empty [simp]: "mget Map.empty k = []"
  by (simp add: mget_def)

lemma mget_nonempty: "mget m k = v \<Longrightarrow> v \<noteq> [] \<Longrightarrow> m k = Some v"
  by (auto simp: mget_def split: option.splits)

subsection \<open>Keyed stores\<close>

text \<open>
  What the reconcilers rely on when they read an object back after a write: the written
  object is found under its own key, and every other key is untouched.
\<close>

locale keyed_store =
  fixes key :: "'o \<Rightarrow> 'k"
    and get :: "'o list \<Rightarrow> 'k \<Rightarrow> 'o option"
    and put :: "'o \<Rightarrow> 'o list \<Rightarrow> 'o list"
    and del :: "'k \<Rightarrow> 'o list \<Rightarrow> 'o list"
  assumes get_put: "get (put x os) k = (if k = key x then Some x else get os k)"
    and get_del: "get (del k' os) k = (if k = k' then None else get os k)"
    and get_key: "get os k = Some x \<Longrightarrow> key x = k \<and> x \<in> set os"
begin

lemma put_put_other: "key x \<noteq> key y \<Longrightarrow> get (put x (put y os)) (key y) = Some y"
  by (simp add: get_put)

lemma put_del: "get (put x (del (key x) os)) (key x) = Some x"
  by (simp add: get_put)

lemma del_put: "get (del (key x) (put x os)) (key x) = None"
  by (simp add: get_del)

lemma update_found: "get os k = Some x \<Longrightarrow> key x' = k \<Longrightarrow> get (put x' os) k = Some x'"
  by (simp add: get_put)

end

lemma store_get_put:
  "store_get key (store_put key x os) k = (if k = key x then Some x else store_get key os k)"
  unfolding store_get_def store_put_def by (induction os) auto

lemma store_get_del:
  "store_get key (store_del key k' os) k = (if k = k' then None else store_get key os k)"
  unfolding store_get_def store_del_def by (induction os) auto

lemma store_get_key: "store_get key os k = Some x \<Longrightarrow> key x = k \<and> x \<in> set os"
  by (auto simp: store_get_def find_Some_iff)

interpretation store: keyed_store key "store_get key" "store_put key" "store_del key" for key
  by unfold_locales (auto simp: store_get_put store_get_del dest: store_get_key)

subsection \<open>Elections\<close>

lemma set_ins_by [simp]: "set (ins_by lt x ys) = insert x (set ys)"
  by (induction ys) auto

lemma set_sort_by [simp]: "set (sort_by lt xs) = set xs"
  by (induction xs) auto

lemma length_sort_by [simp]: "length (sort_by lt xs) = length xs"
proof -
  have "length (ins_by lt x ys) = Suc (length ys)" for x ys
    by (induction ys) auto
  then show ?thesis by (induction xs) auto
qed

lemma sort_by_Nil [simp]: "sort_by lt xs = [] \<longleftrightarrow> xs = []"
  using length_sort_by [of lt xs] by fastforce

text \<open>Sorted by a key, the first element has the least key.\<close>

lemma sort_by_key_head:
  fixes f :: "'a \<Rightarrow> 'b :: linorder"
  assumes "xs \<noteq> []"
  shows "hd (sort_by (\<lambda>a b. f a < f b) xs) \<in> set xs \<and> (\<forall>x \<in> set xs. f (hd (sort_by (\<lambda>a b. f a < f b) xs)) \<le> f x)"
  using assms
proof (induction xs)
  case (Cons x xs)
  have hd_ins: "hd (ins_by (\<lambda>a b. f a < f b) x ys) = (if ys \<noteq> [] \<and> f (hd ys) < f x then hd ys else x)" for ys
    by (cases ys) auto
  show ?case
  proof (cases "xs = []")
    case False
    with Cons show ?thesis by (auto simp: hd_ins)
  qed simp
qed simp

text \<open>
  A strict order in which two different candidates are always comparable. The controller
  uses such an order to elect the active \<open>PodMigration\<close> of a namespace and to settle two
  pods that claim one job; the client lemmas say that the winner precedes everyone else,
  whatever order the API server listed the candidates in.
\<close>

locale precedence =
  fixes lt :: "'a \<Rightarrow> 'a \<Rightarrow> bool" and ident :: "'a \<Rightarrow> 'k"
  assumes irrefl: "\<not> lt x x"
    and trans: "lt x y \<Longrightarrow> lt y z \<Longrightarrow> lt x z"
    and total: "ident x \<noteq> ident y \<Longrightarrow> lt x y \<or> lt y x"
begin

lemma asym: "lt x y \<Longrightarrow> \<not> lt y x"
  using irrefl trans by blast

lemma elect_Some_in: "elect lt (Some b) xs = Some w \<Longrightarrow> w = b \<or> w \<in> set xs"
  by (induction xs arbitrary: b) (fastforce split: if_splits)+

lemma elect_Some_least:
  "elect lt (Some b) xs = Some w \<Longrightarrow> x = b \<or> x \<in> set xs \<Longrightarrow> inj_on ident (insert b (set xs)) \<Longrightarrow> x = w \<or> lt w x"
proof (induction xs arbitrary: b x)
  case Nil
  then show ?case by simp
next
  case (Cons y ys)
  let ?c = "if lt y b then y else b"
  have w: "elect lt (Some ?c) ys = Some w"
    using Cons.prems(1) by simp
  have inj: "inj_on ident (insert ?c (set ys))"
    using Cons.prems(3) by (rule inj_on_subset) auto
  note IH = Cons.IH [OF w _ inj]
  show ?case
  proof (cases "x = ?c \<or> x \<in> set ys")
    case True
    then show ?thesis by (rule IH)
  next
    case False
    with Cons.prems(2) have "x \<noteq> ?c" and "x = y \<or> x = b" by auto
    moreover have "y = b \<or> ident y \<noteq> ident b"
      using Cons.prems(3) by (auto simp: inj_on_def)
    ultimately have "lt ?c x"
      using total [of y b] by (auto split: if_splits)
    with IH [of ?c] trans show ?thesis by blast
  qed
qed

lemma elect_None: "elect lt None xs = None \<longleftrightarrow> xs = []"
proof (cases xs)
  case (Cons y ys)
  have "elect lt (Some y) ys \<noteq> None" for y
    by (induction ys arbitrary: y) auto
  with Cons show ?thesis by simp
qed simp

lemma elect_winner:
  assumes "elect lt None xs = Some w"
  shows "w \<in> set xs" and "inj_on ident (set xs) \<Longrightarrow> x \<in> set xs \<Longrightarrow> x = w \<or> lt w x"
proof -
  obtain y ys where xs: "xs = y # ys" using assms by (cases xs) auto
  show "w \<in> set xs" using assms xs elect_Some_in by auto
  show "x = w \<or> lt w x" if "inj_on ident (set xs)" "x \<in> set xs"
    using assms that xs elect_Some_least [of y ys w x] by auto
qed

text \<open>The winner does not depend on the order of the list.\<close>

lemma elect_order_irrelevant:
  assumes "set xs = set ys" and "inj_on ident (set xs)"
  shows "elect lt None xs = elect lt None ys"
proof (cases "xs = []")
  case True
  then show ?thesis using assms by simp
next
  case False
  with assms(1) have "ys \<noteq> []" by auto
  with False obtain w v where w: "elect lt None xs = Some w" and v: "elect lt None ys = Some v"
    using elect_None by fastforce
  have "v = w \<or> lt w v" using elect_winner [OF w] elect_winner(1) [OF v] assms by auto
  moreover have "w = v \<or> lt v w"
    using elect_winner(2) [OF v, of w] elect_winner(1) [OF w] assms by auto
  ultimately show ?thesis using w v asym by auto
qed

lemma hd_ins_by: "hd (ins_by lt x ys) = (if ys \<noteq> [] \<and> lt (hd ys) x then hd ys else x)"
  by (cases ys) auto

text \<open>The head of the sorted list precedes every other element.\<close>

lemma sort_by_head:
  "xs \<noteq> [] \<Longrightarrow> inj_on ident (set xs) \<Longrightarrow> x \<in> set xs \<Longrightarrow> x = hd (sort_by lt xs) \<or> lt (hd (sort_by lt xs)) x"
proof (induction xs arbitrary: x)
  case (Cons y ys)
  show ?case
  proof (cases "ys = []")
    case True
    with Cons.prems show ?thesis by simp
  next
    case False
    let ?h = "hd (sort_by lt ys)"
    have h: "?h \<in> set ys"
      using False by (metis hd_in_set set_sort_by sort_by_Nil)
    have inj: "inj_on ident (set ys)"
      using Cons.prems(2) by (rule inj_on_subset) auto
    have IH: "z = ?h \<or> lt ?h z" if "z \<in> set ys" for z
      using Cons.IH [OF False inj that] .
    have cmp: "?h = y \<or> lt ?h y \<or> lt y ?h"
      using h Cons.prems(2) total [of "?h" y] by (auto simp: inj_on_def)
    from Cons.prems(3) consider "x = y" | "x \<in> set ys" by auto
    then show ?thesis
      using cmp IH trans False by cases (auto simp: hd_ins_by)
  qed
qed simp

lemma hd_sort_by_in: "xs \<noteq> [] \<Longrightarrow> hd (sort_by lt xs) \<in> set xs"
  by (metis hd_in_set set_sort_by sort_by_Nil)

end

end
