(* ===== verification/Kube.thy ===== *)
theory Kube
  imports Prelude
begin

text \<open>
  The Kubernetes objects the controller reads and writes, and the library the controller is
  linked with.

  \<^item> Each API object is a record of the fields the controller uses. Labels and annotations
    are maps, a missing optional field is \<open>None\<close>, and a \<open>metav1.Time\<close> is a
    \<open>time\<close> whose zero value is \<open>0\<close>.
  \<^item> An API error is its status reason, the message of its \<open>DisruptionBudget\<close> cause if it has
    one, and its text.
  \<^item> \<open>kubelib\<close> collects the code the controller calls but does not contain: apimachinery's
    \<open>meta.SetStatusCondition\<close>, label selectors and name validation, \<open>wait.Jitter\<close>,
    the JSON and RFC 3339 codecs, JSON merge patches, SHA-256, and the floating-point step of \<open>time.ParseDuration\<close>
    (\<open>FracNanos\<close>). It is a parameter of every definition that uses it.
    What the proofs rely on is stated by the predicates \<open>lawful_conditions\<close>,
    \<open>lawful_baseline\<close>, \<open>lawful_merge\<close>, \<open>lawful_dns1123\<close> and \<open>lawful_jitter\<close>, which restate the documented behaviour of
    those functions.
\<close>

section \<open>Definitions\<close>

subsection \<open>Errors and results\<close>

datatype err_reason =
    NotFound | AlreadyExists | Conflict | TooManyRequests | InternalError | Forbidden
  | Invalid | BadRequest | NoMatch | EngineNotRegistered | OtherReason

datatype api_error = ApiError (ae_reason: err_reason) (ae_cause: "string option") (ae_text: string)

definition isNotFound :: "api_error \<Rightarrow> bool" where
  "isNotFound e = (ae_reason e = NotFound)"

definition isConflict :: "api_error \<Rightarrow> bool" where
  "isConflict e = (ae_reason e = Conflict)"

definition isTooManyRequests :: "api_error \<Rightarrow> bool" where
  "isTooManyRequests e = (ae_reason e = TooManyRequests)"

definition isInternalError :: "api_error \<Rightarrow> bool" where
  "isInternalError e = (ae_reason e = InternalError)"

text \<open>\<open>fmt.Errorf("...: %w", err)\<close> keeps the wrapped error's reason and prefixes its text.\<close>

definition wrapErr :: "string \<Rightarrow> api_error \<Rightarrow> api_error" where
  "wrapErr pre e = ApiError (ae_reason e) (ae_cause e) (pre @ '': '' @ ae_text e)"

text \<open>\<open>ctrl.Result\<close>: whether to requeue at once, and after how long.\<close>

record result =
  Requeue :: bool
  RequeueAfter :: duration

definition no_requeue :: result where
  "no_requeue = \<lparr>Requeue = False, RequeueAfter = 0\<rparr>"

definition requeue_now :: result where
  "requeue_now = \<lparr>Requeue = True, RequeueAfter = 0\<rparr>"

definition requeue_after :: "duration \<Rightarrow> result" where
  "requeue_after d = \<lparr>Requeue = False, RequeueAfter = d\<rparr>"

subsection \<open>Conditions\<close>

datatype cond_status = CondTrue | CondFalse | CondUnknown

record condition =
  c_Type :: string
  c_Status :: cond_status
  c_Reason :: string
  c_Message :: string
  c_ObservedGeneration :: int
  c_LastTransitionTime :: time

definition FindStatusCondition :: "condition list \<Rightarrow> string \<Rightarrow> condition option" where
  "FindStatusCondition cs t = find (\<lambda>c. c_Type c = t) cs"

definition IsStatusConditionTrue :: "condition list \<Rightarrow> string \<Rightarrow> bool" where
  "IsStatusConditionTrue cs t =
     (case FindStatusCondition cs t of None \<Rightarrow> False | Some c \<Rightarrow> c_Status c = CondTrue)"

subsection \<open>Pods\<close>

record owner_ref =
  or_Kind :: string
  or_Name :: string
  or_UID :: string
  or_Controller :: "bool option"

record terminated =
  tm_Reason :: string
  tm_Message :: string
  tm_ExitCode :: int

record waiting =
  wt_Reason :: string
  wt_Message :: string

record container_status =
  cs_Name :: string
  cs_ContainerID :: string
  cs_RestartCount :: int
  cs_Running :: bool
  cs_Waiting :: "waiting option"
  cs_Terminated :: "terminated option"
  cs_LastTerminated :: "terminated option"

record container =
  ct_Name :: string
  ct_RestartPolicy :: "string option"
  ct_RequestsMemory :: int
  ct_LimitsMemory :: int

datatype pod_phase = PodPending | PodRunning | PodSucceeded | PodFailed | PodUnknown

record pod =
  pod_Name :: string
  pod_Namespace :: string
  pod_GenerateName :: string
  pod_UID :: string
  pod_ResourceVersion :: nat
  pod_Labels :: strmap
  pod_Annotations :: strmap
  pod_OwnerReferences :: "owner_ref list"
  pod_CreationTimestamp :: time
  pod_DeletionTimestamp :: "time option"
  pod_DeletionGracePeriodSeconds :: "int option"
  pod_NodeName :: string
  pod_RuntimeClassName :: "string option"
  pod_SchedulingGates :: "string list"
  pod_ReadinessGates :: "string list"
  pod_Containers :: "container list"
  pod_InitContainers :: "container list"
  pod_VolumeClaims :: "string list"
  pod_Phase :: pod_phase
  pod_Reason :: string
  pod_Message :: string
  pod_Conditions :: "condition list"
  pod_ContainerStatuses :: "container_status list"
  pod_InitContainerStatuses :: "container_status list"

text \<open>\<open>metav1.GetControllerOf\<close>: the owner reference marked as the controller.\<close>

definition GetControllerOf :: "pod \<Rightarrow> owner_ref option" where
  "GetControllerOf p = find (\<lambda>r. or_Controller r = Some True) (pod_OwnerReferences p)"

definition pod_phase_string :: "pod_phase \<Rightarrow> string" where
  "pod_phase_string ph =
     (case ph of PodPending \<Rightarrow> ''Pending'' | PodRunning \<Rightarrow> ''Running''
      | PodSucceeded \<Rightarrow> ''Succeeded'' | PodFailed \<Rightarrow> ''Failed'' | PodUnknown \<Rightarrow> ''Unknown'')"

subsection \<open>Other objects\<close>

record node =
  nd_Name :: string
  nd_Labels :: strmap
  nd_Taints :: "string list"
  nd_Unschedulable :: bool
  nd_Conditions :: "condition list"

record pvc =
  pvc_Name :: string
  pvc_VolumeName :: string

record volume_attachment =
  va_Name :: string
  va_PVName :: string
  va_NodeName :: string
  va_Attached :: bool

datatype label_selector =
  LabelSelector (matchLabels: "(string \<times> string) list")
    (matchExpressions: "(string \<times> string \<times> string list) list")

datatype unhealthy_policy = IfHealthyBudget | AlwaysAllow

record pdb =
  pdb_Name :: string
  pdb_Namespace :: string
  pdb_Generation :: int
  pdb_Selector :: "label_selector option"
  pdb_UnhealthyPolicy :: "unhealthy_policy option"
  pdb_ObservedGeneration :: int
  pdb_DisruptionsAllowed :: int
  pdb_DesiredHealthy :: int
  pdb_CurrentHealthy :: int

record workload =
  wl_Name :: string
  wl_UID :: string
  wl_Labels :: strmap
  wl_OwnerReferences :: "owner_ref list"
  wl_Replicas :: "int option"
  wl_Selector :: "label_selector option"

text \<open>
  Objects the controller handles as unstructured maps: a kind, a namespace (empty for a
  cluster-scoped object), a name, labels (an association list) and a JSON \<open>spec\<close>.
\<close>

datatype json = JNull | JBool bool | JStr string | JList "json list" | JObj "(string \<times> json) list"

record uobject =
  uo_Kind :: string
  uo_Namespace :: string
  uo_Name :: string
  uo_Labels :: "(string \<times> string) list"
  uo_Spec :: json

type_synonym ukey = "string \<times> string \<times> string"

definition uo_key :: "uobject \<Rightarrow> ukey" where
  "uo_key o1 = (uo_Kind o1, uo_Namespace o1, uo_Name o1)"

subsection \<open>The fence baseline\<close>

record fencedContainer =
  fc_ID :: string
  fc_Restarts :: int

type_synonym fenceBaseline = "(string \<times> fencedContainer) list"

subsection \<open>Library parameters\<close>

record kubelib =
  SetStatusCondition :: "time \<Rightarrow> condition list \<Rightarrow> condition \<Rightarrow> condition list \<times> bool"
  RemoveStatusCondition :: "condition list \<Rightarrow> string \<Rightarrow> condition list"
  LabelSelectorAsSelector :: "label_selector \<Rightarrow> (strmap \<Rightarrow> bool) option"
  IsDNS1123Subdomain :: "string \<Rightarrow> bool"
  Jitter :: "duration \<Rightarrow> duration"
  MarshalBaseline :: "fenceBaseline \<Rightarrow> string"
  UnmarshalBaseline :: "string \<Rightarrow> fenceBaseline option"
  ParseRFC3339Nano :: "string \<Rightarrow> time option"
  ParseRFC3339 :: "string \<Rightarrow> time option"
  FormatRFC3339Nano :: "time \<Rightarrow> string"
  FormatRFC3339 :: "time \<Rightarrow> string"
  Sha256Hex :: "string \<Rightarrow> string"
  MergeDiff :: "json \<Rightarrow> json \<Rightarrow> json"
  MergeApply :: "json \<Rightarrow> json \<Rightarrow> json"
  FracNanos :: "nat \<Rightarrow> nat \<Rightarrow> nat \<Rightarrow> nat"

text \<open>
  \<open>meta.SetStatusCondition\<close>: the condition of the given type ends up with the given
  status, reason, message and generation; its transition time is the current time when the
  status changed or the condition is new, and is kept otherwise; other types are untouched;
  the flag reports whether anything changed.
\<close>

definition lawful_conditions :: "kubelib \<Rightarrow> bool" where
  "lawful_conditions K \<longleftrightarrow>
     (\<forall>now cs c t. FindStatusCondition (fst (SetStatusCondition K now cs c)) t =
        (if t = c_Type c
         then Some (c\<lparr>c_LastTransitionTime :=
                (case FindStatusCondition cs t of
                   None \<Rightarrow> now
                 | Some old \<Rightarrow> if c_Status old = c_Status c then c_LastTransitionTime old else now)\<rparr>)
         else FindStatusCondition cs t)) \<and>
     (\<forall>now cs c. \<not> snd (SetStatusCondition K now cs c) \<longrightarrow> fst (SetStatusCondition K now cs c) = cs)"

text \<open>The baseline's JSON encoding is not empty and decodes to what was encoded.\<close>

definition lawful_baseline :: "kubelib \<Rightarrow> bool" where
  "lawful_baseline K \<longleftrightarrow>
     (\<forall>b. UnmarshalBaseline K (MarshalBaseline K b) = Some b \<and> MarshalBaseline K b \<noteq> [])"

text \<open>A DNS-1123 subdomain is not empty and has only lower-case letters, digits, \<open>-\<close> and \<open>.\<close>.\<close>

definition dns1123Char :: "char \<Rightarrow> bool" where
  "dns1123Char c \<longleftrightarrow> (CHR ''a'' \<le> c \<and> c \<le> CHR ''z'') \<or> (CHR ''0'' \<le> c \<and> c \<le> CHR ''9'') \<or> c = CHR ''-'' \<or> c = CHR ''.''"

definition lawful_dns1123 :: "kubelib \<Rightarrow> bool" where
  "lawful_dns1123 K \<longleftrightarrow> (\<forall>s. IsDNS1123Subdomain K s \<longrightarrow> s \<noteq> [] \<and> (\<forall>c \<in> set s. dns1123Char c))"

text \<open>\<open>wait.Jitter(d, 0.2)\<close> lies between \<open>d\<close> and a fifth above it.\<close>

definition lawful_jitter :: "kubelib \<Rightarrow> bool" where
  "lawful_jitter K \<longleftrightarrow> (\<forall>d. 0 \<le> d \<longrightarrow> d \<le> Jitter K d \<and> Jitter K d \<le> d + d div 5)"

text \<open>
  The JSON merge patch made from two documents turns the first into the second (a patch cannot
  set a value to null), and it is empty exactly when they are equal.
\<close>

fun noNull :: "json \<Rightarrow> bool" where
  "noNull JNull = False"
| "noNull (JList xs) = (\<forall>x \<in> set xs. noNull x)"
| "noNull (JObj fs) = (\<forall>(k, v) \<in> set fs. noNull v)"
| "noNull _ = True"

definition lawful_merge :: "kubelib \<Rightarrow> bool" where
  "lawful_merge K \<longleftrightarrow> (\<forall>a b. noNull b \<longrightarrow> MergeApply K a (MergeDiff K a b) = b \<and> (MergeDiff K a b = JObj [] \<longleftrightarrow> a = b))"

section \<open>Lemmas\<close>

lemma wrapErr_reason [simp]: "ae_reason (wrapErr p e) = ae_reason e"
  by (simp add: wrapErr_def)

lemma FindStatusCondition_Some_type: "FindStatusCondition cs t = Some c \<Longrightarrow> c_Type c = t"
  by (auto simp: FindStatusCondition_def find_Some_iff)

lemma find_set_condition:
  "lawful_conditions K \<Longrightarrow>
   FindStatusCondition (fst (SetStatusCondition K now cs c)) t =
     (if t = c_Type c
      then Some (c\<lparr>c_LastTransitionTime :=
             (case FindStatusCondition cs t of
                None \<Rightarrow> now
              | Some old \<Rightarrow> if c_Status old = c_Status c then c_LastTransitionTime old else now)\<rparr>)
      else FindStatusCondition cs t)"
  by (simp add: lawful_conditions_def)

lemma set_condition_other:
  "lawful_conditions K \<Longrightarrow> c_Type c \<noteq> t \<Longrightarrow>
   FindStatusCondition (fst (SetStatusCondition K now cs c)) t = FindStatusCondition cs t"
  by (simp add: find_set_condition)

lemma set_condition_true:
  "lawful_conditions K \<Longrightarrow> c_Type c = t \<Longrightarrow>
   IsStatusConditionTrue (fst (SetStatusCondition K now cs c)) t \<longleftrightarrow> c_Status c = CondTrue"
  by (simp add: IsStatusConditionTrue_def find_set_condition)

lemma unmarshal_marshal:
  "lawful_baseline K \<Longrightarrow> UnmarshalBaseline K (MarshalBaseline K b) = Some b"
  by (simp add: lawful_baseline_def)

lemma marshal_nonempty: "lawful_baseline K \<Longrightarrow> MarshalBaseline K b \<noteq> []"
  by (simp add: lawful_baseline_def)

end
