(* ===== verification/Sample.thy ===== *)
theory Sample
  imports Kube
begin

text \<open>
  A concrete instance of the library parameters, on which the theorems with hypotheses
  about the library are exercised: \<open>sampleLib\<close> implements \<open>meta.SetStatusCondition\<close>, an
  equality-based label selector, DNS-1123 validation, a jitter of zero, and codecs that
  escape every byte. It satisfies the laws of theory \<open>Kube\<close>.
\<close>

section \<open>Definitions\<close>

definition sampleSetCondition :: "time \<Rightarrow> condition list \<Rightarrow> condition \<Rightarrow> condition list \<times> bool" where
  "sampleSetCondition t cs c =
     (case FindStatusCondition cs (c_Type c) of
        None \<Rightarrow> (cs @ [c\<lparr>c_LastTransitionTime := t\<rparr>], True)
      | Some old \<Rightarrow>
          (let new = c\<lparr>c_LastTransitionTime := (if c_Status old = c_Status c then c_LastTransitionTime old else t)\<rparr>
           in if new = old then (cs, False)
              else (map (\<lambda>x. if c_Type x = c_Type c then new else x) cs, True)))"

definition sampleSelector :: "label_selector \<Rightarrow> (strmap \<Rightarrow> bool) option" where
  "sampleSelector s =
     (if matchExpressions s = [] then Some (\<lambda>m. list_all (\<lambda>(k, v). m k = Some v) (matchLabels s)) else None)"

definition sampleDNS :: "string \<Rightarrow> bool" where
  "sampleDNS s = (s \<noteq> [] \<and> list_all dns1123Char s)"

fun encStr :: "string \<Rightarrow> string" where
  "encStr [] = ''z''"
| "encStr (c # cs) = CHR ''a'' # c # encStr cs"

fun decStr :: "string \<Rightarrow> (string \<times> string) option" where
  "decStr [] = None"
| "decStr [c] = (if c = CHR ''z'' then Some ([], []) else None)"
| "decStr (c # d # cs) =
     (if c = CHR ''z'' then Some ([], d # cs)
      else case decStr cs of None \<Rightarrow> None | Some (s, rest) \<Rightarrow> Some (d # s, rest))"

definition encInt :: "int \<Rightarrow> string" where
  "encInt i = encStr ((if i < 0 then CHR ''-'' else CHR ''+'') # replicate (nat \<bar>i\<bar>) (CHR ''u''))"

definition decInt :: "string \<Rightarrow> (int \<times> string) option" where
  "decInt s =
     (case decStr s of
        Some (c # us, rest) \<Rightarrow> Some ((if c = CHR ''-'' then - int (length us) else int (length us)), rest)
      | _ \<Rightarrow> None)"

fun encBaseline :: "fenceBaseline \<Rightarrow> string" where
  "encBaseline [] = ''e''"
| "encBaseline ((n, fc) # b) = ''c'' @ encStr n @ encStr (fc_ID fc) @ encInt (fc_Restarts fc) @ encBaseline b"

fun decBaselineN :: "nat \<Rightarrow> string \<Rightarrow> fenceBaseline option" where
  "decBaselineN 0 s = None"
| "decBaselineN (Suc k) s =
     (case s of
        [] \<Rightarrow> None
      | c # s0 \<Rightarrow>
          if c = CHR ''e'' then Some []
          else case decStr s0 of None \<Rightarrow> None | Some (n, s1) \<Rightarrow>
               (case decStr s1 of None \<Rightarrow> None | Some (i, s2) \<Rightarrow>
               (case decInt s2 of None \<Rightarrow> None | Some (r, s3) \<Rightarrow>
               (case decBaselineN k s3 of None \<Rightarrow> None
                | Some b \<Rightarrow> Some ((n, \<lparr>fc_ID = i, fc_Restarts = r\<rparr>) # b)))))"

definition sampleLib :: kubelib where
  "sampleLib = \<lparr>
     SetStatusCondition = sampleSetCondition,
     RemoveStatusCondition = (\<lambda>cs t. filter (\<lambda>c. c_Type c \<noteq> t) cs),
     LabelSelectorAsSelector = sampleSelector,
     IsDNS1123Subdomain = sampleDNS,
     Jitter = (\<lambda>d. d),
     MarshalBaseline = encBaseline,
     UnmarshalBaseline = (\<lambda>s. decBaselineN (Suc (length s)) s),
     ParseRFC3339Nano = (\<lambda>s. map_option fst (decInt s)),
     ParseRFC3339 = (\<lambda>s. map_option fst (decInt s)),
     FormatRFC3339Nano = encInt,
     FormatRFC3339 = encInt,
     Sha256Hex = (\<lambda>s. ''0123456789abcdef'' @ s),
     MergeDiff = (\<lambda>a b. if a = b then JObj [] else JList [b]),
     MergeApply = (\<lambda>a p. case p of JList [b] \<Rightarrow> b | _ \<Rightarrow> a),
     FracNanos = (\<lambda>f un scale. f * un div scale)\<rparr>"

section \<open>Lemmas\<close>

lemma decStr_encStr [simp]: "decStr (encStr s @ rest) = Some (s, rest)"
proof (induction s)
  case Nil
  then show ?case by (cases rest) simp_all
qed simp

lemma decInt_encInt [simp]: "decInt (encInt i @ rest) = Some (i, rest)"
  by (auto simp: decInt_def encInt_def simp del: encStr.simps)

lemma decBaseline_encBaseline: "length b < k \<Longrightarrow> decBaselineN k (encBaseline b) = Some b"
proof (induction b arbitrary: k rule: encBaseline.induct)
  case (1 k)
  then show ?case by (cases k) simp_all
next
  case (2 n fc b)
  then show ?case by (cases k) (auto split: option.splits)
qed

lemma length_encBaseline: "length b < length (encBaseline b)"
  by (induction b rule: encBaseline.induct) auto

lemma find_map_other: "t \<noteq> c_Type new \<Longrightarrow>
  FindStatusCondition (map (\<lambda>x. if c_Type x = c_Type new then new else x) cs) t = FindStatusCondition cs t"
  unfolding FindStatusCondition_def by (induction cs) auto

lemma find_map_same: "FindStatusCondition cs (c_Type new) \<noteq> None \<Longrightarrow>
  FindStatusCondition (map (\<lambda>x. if c_Type x = c_Type new then new else x) cs) (c_Type new) = Some new"
  unfolding FindStatusCondition_def by (induction cs) auto

lemma find_append: "FindStatusCondition (cs @ [c]) t =
  (case FindStatusCondition cs t of None \<Rightarrow> if c_Type c = t then Some c else None | Some x \<Rightarrow> Some x)"
  unfolding FindStatusCondition_def by (induction cs) auto

lemma sampleSetCondition_find:
  "FindStatusCondition (fst (sampleSetCondition t cs c)) ty =
     (if ty = c_Type c
      then Some (c\<lparr>c_LastTransitionTime :=
             (case FindStatusCondition cs ty of
                None \<Rightarrow> t
              | Some old \<Rightarrow> if c_Status old = c_Status c then c_LastTransitionTime old else t)\<rparr>)
      else FindStatusCondition cs ty)"
proof (cases "FindStatusCondition cs (c_Type c)")
  case None
  then show ?thesis
    by (auto simp: sampleSetCondition_def find_append split: option.splits)
next
  case (Some old)
  let ?new = "c\<lparr>c_LastTransitionTime := (if c_Status old = c_Status c then c_LastTransitionTime old else t)\<rparr>"
  have ty: "c_Type ?new = c_Type c" by simp
  show ?thesis
    using Some find_map_other [of ty ?new cs] find_map_same [of cs ?new]
    by (auto simp: sampleSetCondition_def Let_def ty)
qed

lemma sampleLib_conditions: "lawful_conditions sampleLib"
proof -
  have "\<not> snd (sampleSetCondition t cs c) \<longrightarrow> fst (sampleSetCondition t cs c) = cs" for t cs c
    by (simp add: sampleSetCondition_def Let_def split: option.splits)
  then show ?thesis
    by (simp add: lawful_conditions_def sampleLib_def sampleSetCondition_find)
qed

lemma sampleLib_baseline: "lawful_baseline sampleLib"
proof -
  have "encBaseline b \<noteq> []" for b using length_encBaseline [of b] by auto
  moreover have "decBaselineN (Suc (length (encBaseline b))) (encBaseline b) = Some b" for b
    using length_encBaseline [of b] by (intro decBaseline_encBaseline) simp
  ultimately show ?thesis by (simp add: lawful_baseline_def sampleLib_def)
qed

lemma sampleLib_dns: "lawful_dns1123 sampleLib"
  by (simp add: lawful_dns1123_def sampleLib_def sampleDNS_def list_all_iff)

lemma sampleLib_jitter: "lawful_jitter sampleLib"
  by (simp add: lawful_jitter_def sampleLib_def pos_imp_zdiv_nonneg_iff)

lemma sampleLib_merge: "lawful_merge sampleLib"
  by (simp add: lawful_merge_def sampleLib_def)

lemmas sampleLib_laws = sampleLib_merge sampleLib_conditions sampleLib_baseline sampleLib_dns sampleLib_jitter

end
