(* ===== verification/Timeout.thy ===== *)
theory Timeout
  imports Sample
begin

text \<open>
  Migration timeouts (\<open>util/timeout.go\<close>).

  The timeout of a job comes from an annotation, or from the controller's base timeout plus
  the time the pod's memory takes to upload. The controller records it on the job as a
  string and reads it back on every later pass, so the theory models Go's
  \<open>time.ParseDuration\<close> and \<open>Duration.String\<close> in full, with the overflow checks of the
  former, and proves that what was recorded is what is read. Arithmetic on
  \<open>time.Duration\<close> wraps at 64 bits.
\<close>

section \<open>Definitions\<close>

subsection \<open>Go's duration syntax\<close>

definition isDigit :: "char \<Rightarrow> bool" where
  "isDigit c \<longleftrightarrow> CHR ''0'' \<le> c \<and> c \<le> CHR ''9''"

definition digitVal :: "char \<Rightarrow> nat" where
  "digitVal c = of_char c - 48"

text \<open>The digits of a leading integer; \<open>None\<close> is the overflow error.\<close>

fun leadingInt :: "nat \<Rightarrow> string \<Rightarrow> nat option" where
  "leadingInt x [] = Some x"
| "leadingInt x (c # cs) =
     (if x > 2 ^ 63 div 10 then None
      else let y = x * 10 + digitVal c in if y > 2 ^ 63 then None else leadingInt y cs)"

text \<open>The digits of a fraction and its scale; digits that would overflow are dropped.\<close>

fun leadingFraction :: "nat \<Rightarrow> nat \<Rightarrow> bool \<Rightarrow> string \<Rightarrow> nat \<times> nat" where
  "leadingFraction x scale overflow [] = (x, scale)"
| "leadingFraction x scale overflow (c # cs) =
     (if overflow \<or> x > (2 ^ 63 - 1) div 10 then leadingFraction x scale True cs
      else let y = x * 10 + digitVal c in
           if y > 2 ^ 63 then leadingFraction x scale True cs
           else leadingFraction y (scale * 10) False cs)"

definition unitMap :: "string \<Rightarrow> nat option" where
  "unitMap u =
     (if u = ''ns'' then Some 1
      else if u = ''us'' \<or> u = [CHR 0xC2, CHR 0xB5, CHR ''s''] \<or> u = [CHR 0xCE, CHR 0xBC, CHR ''s''] then Some 1000
      else if u = ''ms'' then Some 1000000
      else if u = ''s'' then Some 1000000000
      else if u = ''m'' then Some 60000000000
      else if u = ''h'' then Some 3600000000000
      else None)"

definition isUnitChar :: "char \<Rightarrow> bool" where
  "isUnitChar c \<longleftrightarrow> c \<noteq> CHR ''.'' \<and> \<not> isDigit c"

text \<open>One \<open>[0-9]*(\.[0-9]*)?unit\<close> group: its nanoseconds and the rest of the input.\<close>

definition parseGroup :: "kubelib \<Rightarrow> string \<Rightarrow> (nat \<times> string) option" where
  "parseGroup K s =
     (let s1 = dropWhile isDigit s; ds = takeWhile isDigit s;
          frac = (case s1 of c # cs \<Rightarrow> c = CHR ''.'' | [] \<Rightarrow> False);
          fs = (if frac then takeWhile isDigit (tl s1) else []);
          s2 = (if frac then dropWhile isDigit (tl s1) else s1);
          u = takeWhile isUnitChar s2; s3 = dropWhile isUnitChar s2
      in if ds = [] \<and> fs = [] \<or> u = [] then None
         else case leadingInt 0 ds of
                None \<Rightarrow> None
              | Some v \<Rightarrow>
                  (case unitMap u of
                     None \<Rightarrow> None
                   | Some un \<Rightarrow>
                       if v > 2 ^ 63 div un then None
                       else (case leadingFraction 0 1 False fs of (f, scale) \<Rightarrow>
                               if f = 0 then Some (v * un, s3)
                               else let v' = (v * un + FracNanos K f un scale) mod 2 ^ 64 in
                                    if v' > 2 ^ 63 then None else Some (v', s3))))"

text \<open>A group ends with a unit, so every group consumes input: the loop over groups ends.\<close>

lemma parseGroup_shorter: "parseGroup K s = Some (v, rest) \<Longrightarrow> length rest < length s"
proof -
  assume a: "parseGroup K s = Some (v, rest)"
  define s1 where "s1 = dropWhile isDigit s"
  define frac where "frac = (case s1 of c # cs \<Rightarrow> c = CHR ''.'' | [] \<Rightarrow> False)"
  define s2 where "s2 = (if frac then dropWhile isDigit (tl s1) else s1)"
  have rest: "rest = dropWhile isUnitChar s2" and u: "takeWhile isUnitChar s2 \<noteq> []"
    using a unfolding parseGroup_def Let_def s1_def frac_def s2_def
    by (auto split: option.splits if_splits prod.splits)
  have "length s2 \<le> length s1"
    using length_dropWhile_le [of isDigit "tl s1"] by (auto simp: s2_def)
  also have "length s1 \<le> length s" by (simp add: s1_def length_dropWhile_le)
  finally have "length s2 \<le> length s" .
  moreover have "length s2 = length (takeWhile isUnitChar s2) + length rest"
    unfolding rest by (metis length_append takeWhile_dropWhile_id)
  ultimately show ?thesis using u by (cases "takeWhile isUnitChar s2") auto
qed

function parseGroups :: "kubelib \<Rightarrow> nat \<Rightarrow> string \<Rightarrow> nat option" where
  "parseGroups K d s =
     (if s = [] then Some d
      else case parseGroup K s of
             None \<Rightarrow> None
           | Some (v, rest) \<Rightarrow>
               if (d + v) mod 2 ^ 64 > 2 ^ 63 then None
               else parseGroups K ((d + v) mod 2 ^ 64) rest)"
  by pat_completeness auto

termination by (relation "measure (\<lambda>(_, _, s). length s)") (auto dest: parseGroup_shorter)

declare parseGroups.simps [simp del]

definition parseDuration :: "kubelib \<Rightarrow> string \<Rightarrow> duration option" where
  "parseDuration K raw =
     (let neg = (case raw of c # _ \<Rightarrow> c = CHR ''-'' | [] \<Rightarrow> False);
          s = (case raw of c # cs \<Rightarrow> if c = CHR ''-'' \<or> c = CHR ''+'' then cs else raw | [] \<Rightarrow> [])
      in if s = ''0'' then Some 0
         else if s = [] then None
         else case parseGroups K 0 s of
                None \<Rightarrow> None
              | Some d \<Rightarrow> if neg then Some (- int d) else if d > 2 ^ 63 - 1 then None else Some (int d))"

text \<open>\<open>fmtFrac\<close>: the fraction \<open>v / 10^prec\<close> without trailing zeros.\<close>

fun fracDigits :: "nat \<Rightarrow> nat \<Rightarrow> string" where
  "fracDigits 0 v = []"
| "fracDigits (Suc p) v = fracDigits p (v div 10) @ [digitChar v]"

definition fmtFrac :: "nat \<Rightarrow> nat \<Rightarrow> string" where
  "fmtFrac prec v =
     (let ds = rev (dropWhile (\<lambda>c. c = CHR ''0'') (rev (fracDigits prec v)))
      in if ds = [] then [] else CHR ''.'' # ds)"

definition formatSeconds :: "nat \<Rightarrow> string \<Rightarrow> string" where
  "formatSeconds t frac =
     (if t \<ge> 3600 then showNat (t div 3600) @ ''h'' else []) @
     (if t \<ge> 60 then showNat (t div 60 mod 60) @ ''m'' else []) @
     showNat (t mod 60) @ frac @ ''s''"

definition durationString :: "duration \<Rightarrow> string" where
  "durationString d =
     (let u = nat \<bar>d\<bar>;
          body = (if u = 0 then ''0s''
                  else if u < 1000 then showNat u @ ''ns''
                  else if u < 1000000 then showNat (u div 1000) @ fmtFrac 3 u @ [CHR 0xC2, CHR 0xB5, CHR ''s'']
                  else if u < 1000000000 then showNat (u div 1000000) @ fmtFrac 6 u @ ''ms''
                  else formatSeconds (u div 1000000000) (fmtFrac 9 u))
      in if d < 0 then CHR ''-'' # body else body)"

subsection \<open>Migration timeouts\<close>

definition DefaultMigrationTimeout :: duration where
  "DefaultMigrationTimeout = 10 * minute"

definition MinMigrationTimeout :: duration where
  "MinMigrationTimeout = 1 * minute"

definition MaxMigrationTimeout :: duration where
  "MaxMigrationTimeout = 2 * hour"

definition DefaultThroughputBytesPerSec :: int where
  "DefaultThroughputBytesPerSec = 50 * 1024 * 1024"

definition ContainerRestartPolicyAlways :: string where
  "ContainerRestartPolicyAlways = ''Always''"

definition isSidecar :: "container \<Rightarrow> bool" where
  "isSidecar c = (ct_RestartPolicy c = Some ContainerRestartPolicyAlways)"

definition CalculatePodMemoryRequest :: "pod \<Rightarrow> int" where
  "CalculatePodMemoryRequest p =
     fold (\<lambda>c total. wrap64 (total + ct_RequestsMemory c))
       (pod_Containers p @ filter isSidecar (pod_InitContainers p)) 0"

definition ParseClampedTimeout :: "kubelib \<Rightarrow> string \<Rightarrow> duration option" where
  "ParseClampedTimeout K raw =
     (if raw = [] then None
      else case parseDuration K raw of
             None \<Rightarrow> None
           | Some d \<Rightarrow>
               if d \<le> 0 then None
               else if d < MinMigrationTimeout then Some MinMigrationTimeout
               else if d > MaxMigrationTimeout then Some MaxMigrationTimeout
               else Some d)"

definition CalculateMigrationTimeout :: "kubelib \<Rightarrow> string \<Rightarrow> int \<Rightarrow> duration \<Rightarrow> duration" where
  "CalculateMigrationTimeout K annotatedTimeout memBytes baseTimeout0 =
     (let baseTimeout = (if baseTimeout0 \<le> 0 then DefaultMigrationTimeout else baseTimeout0)
      in case ParseClampedTimeout K annotatedTimeout of
           Some d \<Rightarrow> d
         | None \<Rightarrow>
             if memBytes > 0
             then let additionalSec = quot memBytes DefaultThroughputBytesPerSec;
                      calculated = wrap64 (baseTimeout + wrap64 (additionalSec * second))
                  in if calculated > MaxMigrationTimeout then MaxMigrationTimeout else calculated
             else baseTimeout)"

section \<open>Lemmas\<close>

lemmas timeout_consts =
  DefaultMigrationTimeout_def MinMigrationTimeout_def MaxMigrationTimeout_def DefaultThroughputBytesPerSec_def

subsection \<open>Digits\<close>

lemma isDigit_digitChar [simp]: "isDigit (digitChar n)"
  by (simp add: isDigit_def digitChar_def less_eq_char_def)

lemma digitVal_digitChar [simp]: "digitVal (digitChar n) = n mod 10"
  by (simp add: digitVal_def digitChar_def)

lemma isDigit_showNat: "\<forall>c \<in> set (showNat n). isDigit c"
  by (induction n rule: showNat.induct) (subst showNat.simps, auto)

lemma showNat_not_Nil [simp]: "showNat n \<noteq> []"
  by (subst showNat.simps) simp

lemma leadingInt_append:
  "leadingInt x (ds @ es) = (case leadingInt x ds of None \<Rightarrow> None | Some y \<Rightarrow> leadingInt y es)"
  by (induction ds arbitrary: x) (auto simp: Let_def)

lemma leadingInt_showNat: "n \<le> 2 ^ 63 \<Longrightarrow> leadingInt 0 (showNat n) = Some n"
proof (induction n rule: showNat.induct)
  case (1 n)
  show ?case
  proof (cases "n < 10")
    case True
    then show ?thesis by (subst showNat.simps) (simp add: Let_def)
  next
    case False
    then have "leadingInt 0 (showNat (n div 10)) = Some (n div 10)"
      using 1 by simp
    moreover have "n div 10 \<le> 2 ^ 63 div 10" using 1(2) by (rule div_le_mono)
    moreover have "n div 10 * 10 + n mod 10 = n" by simp
    ultimately show ?thesis
      using False 1(2) by (subst showNat.simps) (simp add: leadingInt_append Let_def)
  qed
qed

subsection \<open>A recorded duration reads back\<close>

lemma parseGroup_nat:
  assumes un: "unitMap u = Some un" and uc: "\<forall>c \<in> set u. isUnitChar c" and unz: "0 < un"
    and rest: "rest = [] \<or> isDigit (hd rest)"
    and n: "n * un \<le> 2 ^ 63"
  shows "parseGroup K (showNat n @ u @ rest) = Some (n * un, rest)"
proof -
  have une: "u \<noteq> []" using un by (auto simp: unitMap_def)
  then obtain c cs where u: "u = c # cs" by (cases u) auto
  have cd: "\<not> isDigit c" "c \<noteq> CHR ''.''" using uc u by (auto simp: isUnitChar_def)
  have d1: "dropWhile isDigit (showNat n @ u @ rest) = u @ rest"
    using isDigit_showNat [of n] cd u by (simp add: dropWhile_append3 dropWhile_append)
  have t1: "takeWhile isDigit (showNat n @ u @ rest) = showNat n"
    using isDigit_showNat [of n] cd u by (simp add: takeWhile_append)
  have hr: "rest = [] \<or> \<not> isUnitChar (hd rest)"
    using rest by (auto simp: isUnitChar_def)
  have d2: "dropWhile isUnitChar (u @ rest) = rest" and t2: "takeWhile isUnitChar (u @ rest) = u"
    using uc hr by (cases rest; auto simp: dropWhile_append takeWhile_append)+
  have nle: "n \<le> 2 ^ 63 div un" using n unz by (simp add: less_eq_div_iff_mult_less_eq)
  have "n \<le> n * un" using unz by simp
  then have n63: "n \<le> 2 ^ 63" using n by linarith
  show ?thesis
    unfolding parseGroup_def Let_def d1 t1
    using cd u d2 t2 nle une un leadingInt_showNat [OF n63] by simp
qed

lemma unit_hms:
  "unitMap ''h'' = Some 3600000000000" "unitMap ''m'' = Some 60000000000" "unitMap ''s'' = Some 1000000000"
  by (simp_all add: unitMap_def)

lemma unitChar_hms [simp]: "isUnitChar (CHR ''h'')" "isUnitChar (CHR ''m'')" "isUnitChar (CHR ''s'')"
  by (simp_all add: isUnitChar_def isDigit_def less_eq_char_def)

lemma hd_showNat [simp]: "isDigit (hd (showNat n))"
  using isDigit_showNat [of n] hd_in_set [of "showNat n"] by simp

lemma parseGroups_step:
  assumes "unitMap u = Some un" "\<forall>c \<in> set u. isUnitChar c" "0 < un"
    and "rest = [] \<or> isDigit (hd rest)" and "d + n * un \<le> 2 ^ 63"
  shows "parseGroups K d (showNat n @ u @ rest) = parseGroups K (d + n * un) rest"
proof -
  have "parseGroup K (showNat n @ u @ rest) = Some (n * un, rest)"
    using assms by (intro parseGroup_nat) auto
  then show ?thesis
    using assms(5) by (subst parseGroups.simps) simp
qed

lemma parseGroups_end [simp]: "parseGroups K d [] = Some d"
  by (subst parseGroups.simps) simp

lemma parseGroups_formatSeconds:
  assumes "t * 1000000000 \<le> 2 ^ 63"
  shows "parseGroups K 0 (formatSeconds t []) = Some (t * 1000000000)"
proof -
  let ?h = "t div 3600" and ?m = "t div 60 mod 60" and ?s = "t mod 60"
  have hms: "?h * 3600 + ?m * 60 + ?s = t"
  proof -
    have "t div 3600 = t div 60 div 60" using div_mult2_eq [of t 60 60] by simp
    then show ?thesis
      using div_mult_mod_eq [of t 60] div_mult_mod_eq [of "t div 60" 60] by linarith
  qed
  have total: "?h * 3600000000000 + ?m * 60000000000 + ?s * 1000000000 = t * 1000000000"
    using hms by linarith
  have s: "parseGroups K d (showNat ?s @ ''s'') = Some (d + ?s * 1000000000)"
    if "d + ?s * 1000000000 \<le> 2 ^ 63" for d
    using parseGroups_step [of "''s''" 1000000000 "[]" d ?s K] that by (simp add: unit_hms)
  have m: "parseGroups K d (showNat ?m @ ''m'' @ showNat ?s @ ''s'') =
           Some (d + ?m * 60000000000 + ?s * 1000000000)"
    if "d + ?m * 60000000000 + ?s * 1000000000 \<le> 2 ^ 63" for d
    using parseGroups_step [of "''m''" 60000000000 "showNat ?s @ ''s''" d ?m K] s that
    by (simp add: unit_hms)
  have b: "?h * 3600000000000 + ?m * 60000000000 + ?s * 1000000000 \<le> 2 ^ 63"
    unfolding total by (rule assms)
  then have "0 + ?h * 3600000000000 \<le> 2 ^ 63" by linarith
  then have "parseGroups K 0 (showNat ?h @ ''h'' @ showNat ?m @ ''m'' @ showNat ?s @ ''s'') =
             parseGroups K (0 + ?h * 3600000000000) (showNat ?m @ ''m'' @ showNat ?s @ ''s'')"
    by (intro parseGroups_step) (simp_all add: unit_hms)
  also have "\<dots> = Some (t * 1000000000)"
    unfolding add_0 m [OF b] total by (rule refl)
  finally have h: "parseGroups K 0 (showNat ?h @ ''h'' @ showNat ?m @ ''m'' @ showNat ?s @ ''s'') = Some (t * 1000000000)" .
  consider "t < 60" | "60 \<le> t" "t < 3600" | "3600 \<le> t" by linarith
  then show ?thesis
  proof cases
    case 1
    then show ?thesis using s [of 0] assms by (simp add: formatSeconds_def)
  next
    case 2
    then have "?h = 0" by simp
    with 2 m [of 0] b total show ?thesis by (simp add: formatSeconds_def)
  next
    case 3
    then show ?thesis using h by (simp add: formatSeconds_def)
  qed
qed

lemma fracDigits_zero: "fracDigits p 0 = replicate p (CHR ''0'')"
proof (induction p)
  case (Suc p)
  have "digitChar 0 = CHR ''0''" by (simp add: digitChar_def) code_simp
  with Suc show ?case by (simp add: replicate_append_same)
qed simp

lemma fracDigits_mod: "fracDigits p (k * 10 ^ p) = fracDigits p 0"
proof (induction p arbitrary: k)
  case (Suc p)
  have "k * 10 ^ Suc p div 10 = k * 10 ^ p" by simp
  moreover have "digitChar (k * 10 ^ Suc p) = digitChar 0" by (simp add: digitChar_def)
  ultimately show ?case using Suc by (metis div_0 fracDigits.simps(2))
qed simp

lemma fmtFrac_whole: "fmtFrac p (k * 10 ^ p) = []"
  by (simp add: fmtFrac_def fracDigits_mod fracDigits_zero)

lemma formatSeconds_start: "\<exists>c cs. formatSeconds t f = c # cs \<and> isDigit c \<and> cs \<noteq> []"
proof -
  obtain n rest where "formatSeconds t f = showNat n @ rest" "rest \<noteq> []"
  proof (cases "t \<ge> 3600")
    case True
    then show thesis using that [of "t div 3600"] by (auto simp: formatSeconds_def)
  next
    case False
    then show thesis
      using that [of "t div 60 mod 60"] that [of "t mod 60"] by (cases "t \<ge> 60") (auto simp: formatSeconds_def)
  qed
  moreover obtain c cs where "showNat n = c # cs" by (cases "showNat n") auto
  ultimately show ?thesis using isDigit_showNat [of n] by auto
qed

lemma parseDuration_durationString:
  assumes t: "0 < t" "t * 1000000000 < 2 ^ 63"
  shows "parseDuration K (durationString (int t * 1000000000)) = Some (int t * 1000000000)"
proof -
  have frac: "fmtFrac 9 (t * 1000000000) = []"
    using fmtFrac_whole [of 9 t] by simp
  have nat_t: "nat (int t * 1000000000) = t * 1000000000" by (simp add: nat_mult_distrib)
  have "\<not> t * 1000000000 < 1000000000" using t by simp
  then have str: "durationString (int t * 1000000000) = formatSeconds t []"
    using t frac by (simp add: durationString_def Let_def nat_t abs_mult)
  obtain c cs where cs: "formatSeconds t [] = c # cs" "isDigit c" "cs \<noteq> []"
    using formatSeconds_start by blast
  have "c \<noteq> CHR ''-''" "c \<noteq> CHR ''+''"
    using cs(2) by (auto simp: isDigit_def less_eq_char_def)
  moreover have "t * 1000000000 \<le> 2 ^ 63" using t by simp
  note parseGroups_formatSeconds [OF this, of K]
  ultimately show ?thesis
    using cs t unfolding parseDuration_def str by simp
qed

subsection \<open>Bounds\<close>


text \<open>The largest memory request whose upload time fits a \<open>time.Duration\<close> next to the base.\<close>

lemma wrap64_add: "wrap64 (a + wrap64 b) = wrap64 (a + b)"
proof -
  have "(a + wrap64 b + 2 ^ 63) mod 2 ^ 64 = (a + b + 2 ^ 63) mod 2 ^ 64"
    unfolding wrap64_def by (simp add: mod_simps algebra_simps)
  then show ?thesis by (simp add: wrap64_def)
qed

text \<open>The upload time in whole seconds, added to the base timeout without a bound on the integers.\<close>

definition unboundedTimeout :: "int \<Rightarrow> duration \<Rightarrow> int" where
  "unboundedTimeout mem base = (if base \<le> 0 then DefaultMigrationTimeout else base) + max 0 mem div DefaultThroughputBytesPerSec * second"

lemma CalculateMigrationTimeout_annotated:
  "ParseClampedTimeout K a = Some d \<Longrightarrow> CalculateMigrationTimeout K a mem base = d"
  by (simp add: CalculateMigrationTimeout_def Let_def)

lemma CalculateMigrationTimeout_sized:
  assumes "ParseClampedTimeout K a = None" "0 < mem"
  shows "CalculateMigrationTimeout K a mem base = min MaxMigrationTimeout (wrap64 (unboundedTimeout mem base))"
proof -
  have "quot mem DefaultThroughputBytesPerSec = max 0 mem div DefaultThroughputBytesPerSec"
    using assms(2) by (simp add: quot_pos timeout_consts)
  then show ?thesis
    using assms by (simp add: CalculateMigrationTimeout_def unboundedTimeout_def Let_def min_def wrap64_add)
qed




text \<open>
  C27 (bounds). The bound on the sum is needed, since the code multiplies and adds at 64 bits without a
  check: for every memory request and base timeout without an annotation, when the sum reaches \<open>2^63\<close>
  nanoseconds (and is below \<open>2^64\<close>) the timeout is the sum less \<open>2^64\<close>, which is negative, so the
  migration is over before it starts.
\<close>

theorem migration_timeout_overflow:
  assumes "ParseClampedTimeout K a = None" and "2 ^ 63 \<le> unboundedTimeout mem base" and "unboundedTimeout mem base < 2 ^ 64" and "base \<le> MaxMigrationTimeout"
  shows "CalculateMigrationTimeout K a mem base = unboundedTimeout mem base - 2 ^ 64 \<and> CalculateMigrationTimeout K a mem base < 0"
proof -
  let ?x = "unboundedTimeout mem base"
  have mem: "0 < mem"
    using assms(2,4) by (rule_tac ccontr) (simp add: unboundedTimeout_def timeout_consts split: if_splits)
  have "(?x + 2 ^ 63) mod 2 ^ 64 = ?x + 2 ^ 63 - 2 ^ 64"
    using mod_pos_pos_trivial [of "?x + 2 ^ 63 - 2 ^ 64" "2 ^ 64"] mod_add_self2 [of "?x + 2 ^ 63 - 2 ^ 64" "2 ^ 64"] assms(2,3) by (simp add: add.commute)
  then have "wrap64 ?x = ?x - 2 ^ 64" by (simp add: wrap64_def)
  with CalculateMigrationTimeout_sized [OF assms(1) mem, of base] assms(3) show ?thesis by (simp add: timeout_consts)
qed

lemma migration_timeout_overflow_witness:
  "CalculateMigrationTimeout sampleLib [] 487587840000000000 (10 * minute) = - 9146743473709551616 \<and>
   CalculateMigrationTimeout sampleLib [] 487587840000000000 (10 * minute) < 0"
  using migration_timeout_overflow [of sampleLib "[]" 487587840000000000 "10 * minute"]
  by (simp add: unboundedTimeout_def timeout_consts ParseClampedTimeout_def)

text \<open>
  The Pending phase records the timeout it computed on the job as a
  string, and every later pass parses it again: for a timeout of whole seconds between one
  minute and two hours, whatever the base timeout then is, the job's effective timeout is
  the recorded one.
\<close>

theorem recorded_timeout_reads_back:
  assumes t: "MinMigrationTimeout \<le> int t * second" "int t * second \<le> MaxMigrationTimeout"
  shows "CalculateMigrationTimeout K (durationString (int t * second)) 0 base = int t * second"
proof -
  have t': "60 \<le> t" "t \<le> 7200" using t by (simp_all add: timeout_consts)
  then have p: "parseDuration K (durationString (int t * 1000000000)) = Some (int t * 1000000000)"
    by (intro parseDuration_durationString) simp_all
  then have "durationString (int t * second) \<noteq> []" by (auto simp: parseDuration_def)
  with p t have "ParseClampedTimeout K (durationString (int t * second)) = Some (int t * second)"
    by (simp add: ParseClampedTimeout_def timeout_consts)
  then show ?thesis by (rule CalculateMigrationTimeout_annotated)
qed

lemma recorded_timeout_reads_back_witness:
  "CalculateMigrationTimeout sampleLib (durationString (927 * second)) 0 (10 * minute) = 927 * second"
  using recorded_timeout_reads_back [of 927 sampleLib "10 * minute"] by (simp add: timeout_consts)

end
