(* ===== verification/Eligibility.thy ===== *)
theory Eligibility
  imports Sample
begin

text \<open>
  Which pods may be migrated, by runtime class (\<open>eligibility/runtimeclass.go\<close>).

  A \<open>RuntimeClassPolicy\<close> is the set of class names, kept here as a list without duplicates,
  and whether pods without a runtime class are allowed. \<open>None\<close> stands for the nil policy.
  The theory proves that printing a policy and parsing the result gives the policy back.
\<close>

section \<open>Definitions\<close>

definition DefaultRuntimeClassToken :: string where
  "DefaultRuntimeClassToken = ''@default''"

definition DefaultMigratableRuntimeClasses :: string where
  "DefaultMigratableRuntimeClasses = ''gvisor''"

record runtimeClassPolicy =
  rc_names :: "string list"
  rc_allowDefault :: bool

definition parseElem :: "kubelib \<Rightarrow> string \<Rightarrow> string \<Rightarrow> runtimeClassPolicy \<Rightarrow> string + runtimeClassPolicy" where
  "parseElem K raw elem p =
     (let name = trimSpace elem in
      if name = [] then Inl (''invalid runtime class list '' @ raw @ '': empty element (use '' @ DefaultRuntimeClassToken @ '' for pods without a runtimeClassName)'')
      else if name = DefaultRuntimeClassToken then Inr (p\<lparr>rc_allowDefault := True\<rparr>)
      else if \<not> IsDNS1123Subdomain K name then Inl (''invalid runtime class name '' @ name)
      else Inr (p\<lparr>rc_names := List.insert name (rc_names p)\<rparr>))"

fun parseElems :: "kubelib \<Rightarrow> string \<Rightarrow> string list \<Rightarrow> runtimeClassPolicy \<Rightarrow> string + runtimeClassPolicy" where
  "parseElems K raw [] p = Inr p"
| "parseElems K raw (e # es) p =
     (case parseElem K raw e p of Inl err \<Rightarrow> Inl err | Inr p' \<Rightarrow> parseElems K raw es p')"

definition ParseRuntimeClassPolicy :: "kubelib \<Rightarrow> string \<Rightarrow> string + runtimeClassPolicy" where
  "ParseRuntimeClassPolicy K raw =
     parseElems K raw (splitOn (CHR '','') raw) \<lparr>rc_names = [], rc_allowDefault = False\<rparr>"

text \<open>The package variable \<open>defaultPolicy\<close>: parsing the default list, which must not fail.\<close>

definition defaultPolicy :: "kubelib \<Rightarrow> runtimeClassPolicy option" where
  "defaultPolicy K =
     (case ParseRuntimeClassPolicy K DefaultMigratableRuntimeClasses of Inl _ \<Rightarrow> None | Inr p \<Rightarrow> Some p)"

definition orDefault :: "kubelib \<Rightarrow> runtimeClassPolicy option \<Rightarrow> runtimeClassPolicy" where
  "orDefault K p =
     (case p of
        Some q \<Rightarrow> q
      | None \<Rightarrow> (case defaultPolicy K of Some q \<Rightarrow> q | None \<Rightarrow> \<lparr>rc_names = [], rc_allowDefault = False\<rparr>))"

definition Allows :: "kubelib \<Rightarrow> runtimeClassPolicy option \<Rightarrow> string option \<Rightarrow> bool" where
  "Allows K p0 runtimeClassName =
     (let p = orDefault K p0 in
      case runtimeClassName of
        None \<Rightarrow> rc_allowDefault p
      | Some n \<Rightarrow> if n = [] then rc_allowDefault p else n \<in> set (rc_names p))"

definition Classes :: "kubelib \<Rightarrow> runtimeClassPolicy option \<Rightarrow> string list" where
  "Classes K p0 =
     (let p = orDefault K p0 in
      sort (rc_names p) @ (if rc_allowDefault p then [DefaultRuntimeClassToken] else []))"

definition policyString :: "kubelib \<Rightarrow> runtimeClassPolicy option \<Rightarrow> string" where
  "policyString K p = joinWith '','' (Classes K p)"

definition RuntimeClassLabel :: "string option \<Rightarrow> string" where
  "RuntimeClassLabel runtimeClassName =
     (case runtimeClassName of
        None \<Rightarrow> DefaultRuntimeClassToken
      | Some n \<Rightarrow> if n = [] then DefaultRuntimeClassToken else n)"

text \<open>What \<open>ParseRuntimeClassPolicy\<close> establishes of a policy.\<close>

definition wfPolicy :: "kubelib \<Rightarrow> runtimeClassPolicy \<Rightarrow> bool" where
  "wfPolicy K p \<longleftrightarrow> distinct (rc_names p) \<and> (\<forall>n \<in> set (rc_names p). IsDNS1123Subdomain K n)"

section \<open>Lemmas\<close>

lemma dns1123Char_plain: "dns1123Char c \<Longrightarrow> c \<noteq> CHR '','' \<and> c \<noteq> CHR ''@'' \<and> \<not> isSpace c"
  by (auto simp: dns1123Char_def isSpace_def less_eq_char_def)

lemma dns_name:
  assumes "lawful_dns1123 K" "IsDNS1123Subdomain K n"
  shows "n \<noteq> []" "CHR '','' \<notin> set n" "trimSpace n = n" "n \<noteq> DefaultRuntimeClassToken"
proof -
  have n: "n \<noteq> []" "\<forall>c \<in> set n. dns1123Char c"
    using assms by (auto simp: lawful_dns1123_def)
  show "n \<noteq> []" by (rule n)
  show "CHR '','' \<notin> set n" using n(2) dns1123Char_plain [of "CHR '',''"] by auto
  have "dns1123Char (hd n)" "dns1123Char (last n)" using n by simp_all
  then have sp: "\<not> isSpace (hd n)" "\<not> isSpace (last n)"
    using dns1123Char_plain by simp_all
  show "trimSpace n = n" by (rule trimSpace_id) (simp_all add: sp)
  show "n \<noteq> DefaultRuntimeClassToken"
    using n(2) dns1123Char_plain [of "CHR ''@''"] by (auto simp: DefaultRuntimeClassToken_def)
qed

lemma token_plain: "CHR '','' \<notin> set DefaultRuntimeClassToken" "trimSpace DefaultRuntimeClassToken = DefaultRuntimeClassToken"
  "DefaultRuntimeClassToken \<noteq> []"
  by (simp_all add: DefaultRuntimeClassToken_def trimSpace_def isSpace_def)

lemma parseElem_wf: "wfPolicy K p \<Longrightarrow> parseElem K raw e p = Inr q \<Longrightarrow> wfPolicy K q"
  by (auto simp: parseElem_def wfPolicy_def Let_def split: if_splits)

lemma parseElems_wf: "wfPolicy K p \<Longrightarrow> parseElems K raw es p = Inr q \<Longrightarrow> wfPolicy K q"
  by (induction es arbitrary: p) (auto split: sum.splits dest: parseElem_wf)

lemma parse_wf: "ParseRuntimeClassPolicy K raw = Inr p \<Longrightarrow> wfPolicy K p"
  unfolding ParseRuntimeClassPolicy_def by (rule parseElems_wf) (auto simp: wfPolicy_def)

text \<open>A list of valid names, parsed, is added to the policy name by name.\<close>

lemma parseElems_names:
  assumes "lawful_dns1123 K"
  shows "\<forall>n \<in> set ns. IsDNS1123Subdomain K n \<Longrightarrow>
     parseElems K raw (ns @ es) p = parseElems K raw es (p\<lparr>rc_names := fold List.insert ns (rc_names p)\<rparr>)"
proof (induction ns arbitrary: p)
  case (Cons n ns)
  then show ?case
    using dns_name [OF assms, of n] by (simp add: parseElem_def Let_def)
qed simp

lemma set_fold_insert: "set (fold List.insert ns acc) = set ns \<union> set acc"
  by (induction ns arbitrary: acc) auto

text \<open>
  A policy that allows something is printed in flag syntax and parsed
  back to a policy that allows exactly the same runtime classes, in particular the same
  answer for pods without one. So the value the controller prints at startup can be used as
  its \<open>--migratable-runtime-classes\<close> flag.
\<close>

theorem policy_round_trip:
  assumes dns: "lawful_dns1123 K" and wf: "ParseRuntimeClassPolicy K raw = Inr p"
    and ne: "Classes K (Some p) \<noteq> []"
  shows "\<exists>q. ParseRuntimeClassPolicy K (policyString K (Some p)) = Inr q \<and>
             (\<forall>rc. Allows K (Some q) rc = Allows K (Some p) rc)"
proof -
  let ?ns = "sort (rc_names p)" and ?tok = "if rc_allowDefault p then [DefaultRuntimeClassToken] else []"
  let ?p0 = "\<lparr>rc_names = [], rc_allowDefault = False\<rparr>"
  have w: "\<forall>n \<in> set ?ns. IsDNS1123Subdomain K n"
    using parse_wf [OF wf] by (auto simp: wfPolicy_def)
  have cls: "Classes K (Some p) = ?ns @ ?tok" by (simp add: Classes_def orDefault_def)
  have "\<forall>x \<in> set (Classes K (Some p)). CHR '','' \<notin> set x"
    unfolding cls using dns_name(2) [OF dns] w token_plain(1) by auto
  then have split: "splitOn (CHR '','') (policyString K (Some p)) = ?ns @ ?tok"
    unfolding policyString_def using splitOn_joinWith [OF ne, of "CHR '',''"] cls by simp
  define q where "q = \<lparr>rc_names = fold List.insert ?ns [], rc_allowDefault = rc_allowDefault p\<rparr>"
  have "ParseRuntimeClassPolicy K (policyString K (Some p)) = Inr q"
    unfolding ParseRuntimeClassPolicy_def split parseElems_names [OF dns w]
    by (simp add: q_def parseElem_def token_plain)
  moreover have "Allows K (Some q) rc = Allows K (Some p) rc" for rc
    by (simp add: Allows_def orDefault_def q_def set_fold_insert split: option.splits)
  ultimately show ?thesis by blast
qed

lemma policy_round_trip_witness:
  "\<exists>q. ParseRuntimeClassPolicy sampleLib (policyString sampleLib (Some \<lparr>rc_names = [''kata'', ''gvisor''], rc_allowDefault = True\<rparr>)) = Inr q \<and>
       (\<forall>rc. Allows sampleLib (Some q) rc =
             Allows sampleLib (Some \<lparr>rc_names = [''kata'', ''gvisor''], rc_allowDefault = True\<rparr>) rc)"
proof (rule policy_round_trip [OF sampleLib_dns])
  show "ParseRuntimeClassPolicy sampleLib ''gvisor, kata,@default,gvisor'' =
        Inr \<lparr>rc_names = [''kata'', ''gvisor''], rc_allowDefault = True\<rparr>"
    by code_simp
  show "Classes sampleLib (Some \<lparr>rc_names = [''kata'', ''gvisor''], rc_allowDefault = True\<rparr>) \<noteq> []"
    by code_simp
qed

text \<open>
  With no flag set, exactly the pods of runtime class \<open>gvisor\<close> may be
  migrated, provided the library accepts \<open>gvisor\<close> as a class name.
\<close>

theorem default_policy_gvisor_only:
  assumes "IsDNS1123Subdomain K ''gvisor''"
  shows "Allows K None rc \<longleftrightarrow> rc = Some ''gvisor''"
proof -
  have "ParseRuntimeClassPolicy K DefaultMigratableRuntimeClasses = Inr \<lparr>rc_names = [''gvisor''], rc_allowDefault = False\<rparr>"
    using assms
    by (simp add: ParseRuntimeClassPolicy_def DefaultMigratableRuntimeClasses_def parseElem_def Let_def
        trimSpace_def isSpace_def DefaultRuntimeClassToken_def)
  then show ?thesis
    by (auto simp: Allows_def orDefault_def defaultPolicy_def split: option.splits)
qed

lemma default_policy_gvisor_only_witness:
  "Allows sampleLib None (Some ''gvisor'') \<and> \<not> Allows sampleLib None None"
proof -
  have "IsDNS1123Subdomain sampleLib ''gvisor''" by code_simp
  then show ?thesis using default_policy_gvisor_only by simp
qed

end
