(* ===== verification/Api.thy ===== *)
theory Api
  imports Kube
begin

text \<open>
  The custom resources (\<open>api/v1alpha1\<close>) and the names shared by the controller's packages.

  \<^item> \<open>phase\<close>, \<open>pmj_status\<close> and \<open>pmj\<close> are \<open>PodMigrationJobPhase\<close>,
    \<open>PodMigrationJobStatus\<close> and \<open>PodMigrationJob\<close>; \<open>podMigration\<close> is the
    namespace configuration.
  \<^item> Phases are ordered by how far a migration has come (\<open>phase_rank\<close>), so "the job never
    goes back" is \<open>\<le>\<close>.
  \<^item> The label, annotation, condition and reason names are constants; their definitions are
    in the collection \<open>const_defs\<close>, and the distinctness facts the proofs need are proved
    once.
  \<^item> The predicates of \<open>util/budget.go\<close> and the naming and indexing helpers of
    \<open>util/assignment.go\<close> that only need a job or a pod.
\<close>

section \<open>Definitions\<close>

subsection \<open>Resources\<close>

datatype phase =
    PhaseNone | PhasePending | PhaseSnapshotting | PhaseEvicting | PhaseRestoring
  | PhaseSucceeded | PhaseSucceededWithoutRestore | PhaseFailed

record pmj_status =
  st_Phase :: phase
  st_SnapshotRef :: string
  st_PVsToDetach :: "string list"
  st_OriginNodeName :: string
  st_CompletionTime :: "time option"
  st_SnapshottingStartTime :: "time option"
  st_EvictingStartTime :: "time option"
  st_RestoringStartTime :: "time option"
  st_Consumed :: bool
  st_RestoredPodUID :: string
  st_RestoredPodName :: string
  st_GateReleased :: bool
  st_Conditions :: "condition list"

record pmj =
  pmj_Name :: string
  pmj_Namespace :: string
  pmj_UID :: string
  pmj_ResourceVersion :: nat
  pmj_Generation :: int
  pmj_Labels :: strmap
  pmj_Annotations :: strmap
  pmj_Finalizers :: "string list"
  pmj_OwnerReferences :: "owner_ref list"
  pmj_CreationTimestamp :: time
  pmj_DeletionTimestamp :: "time option"
  pmj_PodRefName :: string
  pmj_TargetPodUID :: string
  pmj_Status :: pmj_status

record podMigration =
  pm_Name :: string
  pm_Namespace :: string
  pm_UID :: string
  pm_ResourceVersion :: nat
  pm_Generation :: int
  pm_Annotations :: strmap
  pm_Finalizers :: "string list"
  pm_CreationTimestamp :: time
  pm_DeletionTimestamp :: "time option"
  pm_StorageLocation :: string
  pm_Conditions :: "condition list"

definition phase_string :: "phase \<Rightarrow> string" where
  "phase_string ph =
     (case ph of PhaseNone \<Rightarrow> '''' | PhasePending \<Rightarrow> ''Pending''
      | PhaseSnapshotting \<Rightarrow> ''Snapshotting'' | PhaseEvicting \<Rightarrow> ''Evicting''
      | PhaseRestoring \<Rightarrow> ''Restoring'' | PhaseSucceeded \<Rightarrow> ''Succeeded''
      | PhaseSucceededWithoutRestore \<Rightarrow> ''SucceededWithoutRestore'' | PhaseFailed \<Rightarrow> ''Failed'')"

definition IsTerminalPhase :: "phase \<Rightarrow> bool" where
  "IsTerminalPhase ph =
     (ph = PhaseSucceeded \<or> ph = PhaseSucceededWithoutRestore \<or> ph = PhaseFailed)"

fun phase_rank :: "phase \<Rightarrow> nat" where
  "phase_rank PhaseNone = 0"
| "phase_rank PhasePending = 1"
| "phase_rank PhaseSnapshotting = 2"
| "phase_rank PhaseEvicting = 3"
| "phase_rank PhaseRestoring = 4"
| "phase_rank PhaseSucceeded = 5"
| "phase_rank PhaseSucceededWithoutRestore = 6"
| "phase_rank PhaseFailed = 7"

instantiation phase :: linorder
begin

definition less_eq_phase :: "phase \<Rightarrow> phase \<Rightarrow> bool" where
  "p \<le> q \<longleftrightarrow> phase_rank p \<le> phase_rank q"

definition less_phase :: "phase \<Rightarrow> phase \<Rightarrow> bool" where
  "p < q \<longleftrightarrow> phase_rank p < phase_rank q"

instance
proof
  fix p q r :: phase
  show "p < q \<longleftrightarrow> p \<le> q \<and> \<not> q \<le> p"
    by (simp add: less_eq_phase_def less_phase_def less_le_not_le)
  show "p \<le> p" by (simp add: less_eq_phase_def)
  show "p \<le> q \<Longrightarrow> q \<le> r \<Longrightarrow> p \<le> r" by (simp add: less_eq_phase_def)
  show "p \<le> q \<Longrightarrow> q \<le> p \<Longrightarrow> p = q"
    by (cases p; cases q) (simp_all add: less_eq_phase_def)
  show "p \<le> q \<or> q \<le> p" by (auto simp: less_eq_phase_def)
qed

end

subsection \<open>Names\<close>

definition LabelParentName :: string where
  [const_defs]: "LabelParentName = ''pod-migration.gke.io/parent-name''"
definition LabelParentKind :: string where
  [const_defs]: "LabelParentKind = ''pod-migration.gke.io/parent-kind''"
definition LabelParentUID :: string where
  [const_defs]: "LabelParentUID = ''pod-migration.gke.io/parent-uid''"
definition LabelPodTemplateHash :: string where
  [const_defs]: "LabelPodTemplateHash = ''pod-migration.gke.io/pod-template-hash''"
definition LabelControllerRevisionHash :: string where
  [const_defs]: "LabelControllerRevisionHash = ''controller-revision-hash''"
definition LabelJobCompletionIndex :: string where
  [const_defs]: "LabelJobCompletionIndex = ''batch.kubernetes.io/job-completion-index''"
definition DefaultDeploymentUniqueLabelKey :: string where
  [const_defs]: "DefaultDeploymentUniqueLabelKey = ''pod-template-hash''"
definition AnnotationAssignedPMJ :: string where
  [const_defs]: "AnnotationAssignedPMJ = ''pod-migration.gke.io/assigned-pmj''"
definition AnnotationColdStartBypassJob :: string where
  [const_defs]: "AnnotationColdStartBypassJob = ''pod-migration.gke.io/cold-start-bypass-job''"
definition AnnotationRestoreCompleted :: string where
  [const_defs]: "AnnotationRestoreCompleted = ''pod-migration.gke.io/restore-completed''"
definition AnnotationMismatchSince :: string where
  [const_defs]: "AnnotationMismatchSince = ''pod-migration.gke.io/mismatch-since''"
definition AnnotationPDBEvictionTimeout :: string where
  [const_defs]: "AnnotationPDBEvictionTimeout = ''pod-migration.gke.io/pdb-eviction-timeout''"
definition AnnotationPodSnapshotPolicy :: string where
  [const_defs]: "AnnotationPodSnapshotPolicy = ''pod-migration.gke.io/pod-snapshot-policy''"
definition AnnotationReplicaIdentityKey :: string where
  [const_defs]: "AnnotationReplicaIdentityKey = ''pod-migration.gke.io/replica-identity''"
definition LabelReplicaKey :: string where
  [const_defs]: "LabelReplicaKey = ''pod-migration.gke.io/replica-key''"
definition LabelTriggerSource :: string where
  [const_defs]: "LabelTriggerSource = ''pod-migration.gke.io/trigger-source''"
definition AnnotationTriggerSource :: string where
  [const_defs]: "AnnotationTriggerSource = ''pod-migration.gke.io/trigger-source''"
definition TriggerSourceSpotPreemption :: string where
  [const_defs]: "TriggerSourceSpotPreemption = ''spot-preemption''"
definition TriggerSourceEviction :: string where
  [const_defs]: "TriggerSourceEviction = ''eviction-webhook''"
definition LabelEnabled :: string where
  [const_defs]: "LabelEnabled = ''pod-migration.gke.io/enabled''"
definition AnnotationMigrationTimeout :: string where
  [const_defs]: "AnnotationMigrationTimeout = ''pod-migration.gke.io/timeout''"
definition AnnotationEvictingSince :: string where
  [const_defs]: "AnnotationEvictingSince = ''pod-migration.gke.io/evicting-since''"
definition AnnotationEngine :: string where
  [const_defs]: "AnnotationEngine = ''pod-migration.gke.io/engine''"
definition AnnotationAllowUnfenced :: string where
  [const_defs]: "AnnotationAllowUnfenced = ''pod-migration.gke.io/allow-unfenced''"
definition psNameAnnotation :: string where
  [const_defs]: "psNameAnnotation = ''podsnapshot.gke.io/ps-name''"
definition StorageCleanupFinalizer :: string where
  [const_defs]: "StorageCleanupFinalizer = ''podmigration.gke.io/storage-cleanup''"
definition MigrationGateName :: string where
  [const_defs]: "MigrationGateName = ''gke.io/pod-migration-gate''"

definition LabelFenced :: string where
  [const_defs]: "LabelFenced = ''pod-migration.gke.io/fenced''"
definition ReasonPodMigrationFenced :: string where
  [const_defs]: "ReasonPodMigrationFenced = ''PodMigrationFenced''"
definition FenceReadyMessage :: string where
  [const_defs]: "FenceReadyMessage =
     ''Readiness is held False while this pod is a migration source (label '' @ LabelFenced @
     ''); the ContainersReady condition shows the kubelet's view.''"
definition ConditionSourceFenced :: string where
  [const_defs]: "ConditionSourceFenced = ''SourceFenced''"
definition SourceFenceFinalizer :: string where
  [const_defs]: "SourceFenceFinalizer = ''pod-migration.gke.io/source-fence''"
definition ReasonFenced :: string where
  [const_defs]: "ReasonFenced = ''Fenced''"
definition ReasonFenceKept :: string where
  [const_defs]: "ReasonFenceKept = ''FenceKept''"
definition ReasonUnfenced :: string where
  [const_defs]: "ReasonUnfenced = ''Unfenced''"
definition AnnotationFenceBaseline :: string where
  [const_defs]: "AnnotationFenceBaseline = ''pod-migration.gke.io/fence-baseline''"

definition ConditionDisruptionBudgetChecked :: string where
  [const_defs]: "ConditionDisruptionBudgetChecked = ''DisruptionBudgetChecked''"
definition ReasonDisruptionBudgetTimeout :: string where
  [const_defs]: "ReasonDisruptionBudgetTimeout = ''DisruptionBudgetTimeout''"
definition ConditionReady :: string where
  [const_defs]: "ConditionReady = ''Ready''"
definition ConditionRestored :: string where
  [const_defs]: "ConditionRestored = ''Restored''"

subsection \<open>Disruption-budget predicates (util/budget.go)\<close>

definition WaitingForDisruptionBudget :: "pmj \<Rightarrow> bool" where
  "WaitingForDisruptionBudget job =
     (if st_Phase (pmj_Status job) \<noteq> PhasePending then False
      else case FindStatusCondition (st_Conditions (pmj_Status job)) ConditionDisruptionBudgetChecked of
             None \<Rightarrow> False
           | Some cond \<Rightarrow> c_Status cond \<noteq> CondTrue)"

definition FailedOnDisruptionBudget :: "pmj \<Rightarrow> bool" where
  "FailedOnDisruptionBudget job =
     (if st_Phase (pmj_Status job) \<noteq> PhaseFailed then False
      else case FindStatusCondition (st_Conditions (pmj_Status job)) ConditionReady of
             None \<Rightarrow> False
           | Some ready \<Rightarrow> c_Reason ready = ReasonDisruptionBudgetTimeout)"

subsection \<open>Names and index keys (util/assignment.go)\<close>

definition ShortUID :: "string \<Rightarrow> string" where
  "ShortUID uid = (if length uid \<le> 8 then uid else take 8 uid)"

definition FormatPMJName :: "string \<Rightarrow> string \<Rightarrow> string" where
  "FormatPMJName podName uid = ''pmj-'' @ podName @ ''-'' @ ShortUID uid"

definition FormatPSMTName :: "string \<Rightarrow> string \<Rightarrow> string" where
  "FormatPSMTName podName uid = ''psmt-'' @ podName @ ''-'' @ ShortUID uid"

definition FormatParentKey :: "string \<Rightarrow> string \<Rightarrow> string \<Rightarrow> string" where
  "FormatParentKey parentName parentKind podName =
     (if parentName \<noteq> [] \<and> parentKind \<noteq> [] then parentName @ ''/'' @ parentKind
      else if podName \<noteq> [] then podName @ ''/Pod''
      else [])"

definition PMJParentKeyIndexValue :: "pmj \<Rightarrow> string list" where
  "PMJParentKeyIndexValue job =
     (let parentName = mget (pmj_Labels job) LabelParentName;
          parentKind = mget (pmj_Labels job) LabelParentKind
      in if parentName \<noteq> [] \<and> parentKind \<noteq> [] then [parentName @ ''/'' @ parentKind]
         else if parentName = [] \<and> pmj_PodRefName job \<noteq> [] then [pmj_PodRefName job @ ''/Pod'']
         else [])"

definition PodAssignedPMJIndexValue :: "pod \<Rightarrow> string list" where
  "PodAssignedPMJIndexValue p =
     (let v = mget (pod_Annotations p) AnnotationAssignedPMJ in if v \<noteq> [] then [v] else [])"

section \<open>Lemmas\<close>

lemma terminal_phase_cases:
  "IsTerminalPhase ph \<Longrightarrow> ph = PhaseSucceeded \<or> ph = PhaseSucceededWithoutRestore \<or> ph = PhaseFailed"
  by (simp add: IsTerminalPhase_def)

lemma IsTerminalPhase_simps [simp]:
  "\<not> IsTerminalPhase PhaseNone" "\<not> IsTerminalPhase PhasePending"
  "\<not> IsTerminalPhase PhaseSnapshotting" "\<not> IsTerminalPhase PhaseEvicting"
  "\<not> IsTerminalPhase PhaseRestoring" "IsTerminalPhase PhaseSucceeded"
  "IsTerminalPhase PhaseSucceededWithoutRestore" "IsTerminalPhase PhaseFailed"
  by (simp_all add: IsTerminalPhase_def)

lemma condition_types_distinct [simp]:
  "ConditionSourceFenced \<noteq> ConditionReady" "ConditionReady \<noteq> ConditionSourceFenced"
  "ConditionSourceFenced \<noteq> ConditionRestored" "ConditionRestored \<noteq> ConditionSourceFenced"
  "ConditionDisruptionBudgetChecked \<noteq> ConditionReady" "ConditionReady \<noteq> ConditionDisruptionBudgetChecked"
  "ConditionDisruptionBudgetChecked \<noteq> ConditionSourceFenced"
  "ConditionSourceFenced \<noteq> ConditionDisruptionBudgetChecked"
  "ConditionRestored \<noteq> ConditionReady" "ConditionReady \<noteq> ConditionRestored"
  by (simp_all add: const_defs)

lemma fence_reasons_distinct [simp]:
  "ReasonFenced \<noteq> ReasonFenceKept" "ReasonFenceKept \<noteq> ReasonFenced"
  "ReasonFenced \<noteq> ReasonUnfenced" "ReasonUnfenced \<noteq> ReasonFenced"
  "ReasonFenceKept \<noteq> ReasonUnfenced" "ReasonUnfenced \<noteq> ReasonFenceKept"
  by (simp_all add: const_defs)

lemma annotation_names_distinct [simp]:
  "AnnotationFenceBaseline \<noteq> AnnotationEvictingSince" "AnnotationEvictingSince \<noteq> AnnotationFenceBaseline"
  "AnnotationFenceBaseline \<noteq> AnnotationMigrationTimeout" "AnnotationMigrationTimeout \<noteq> AnnotationFenceBaseline"
  "AnnotationAssignedPMJ \<noteq> psNameAnnotation" "psNameAnnotation \<noteq> AnnotationAssignedPMJ"
  "AnnotationRestoreCompleted \<noteq> psNameAnnotation" "psNameAnnotation \<noteq> AnnotationRestoreCompleted"
  by (simp_all add: const_defs)

end
