(* ===== verification/Cluster.thy ===== *)
theory Cluster
  imports Api
begin

text \<open>
  The API server and the informer cache, as the controller's client sees them.

  \<^item> \<open>cluster\<close> is the set of API objects of one namespace (plus the cluster-scoped ones).
    A \<open>world\<close> has two of them: \<open>w_live\<close>, what the API server stores, and \<open>w_cache\<close>, the
    informer cache, which may be arbitrarily stale and which the controller's own writes do
    not touch.
  \<^item> Every call goes through \<open>api_call\<close>: the oracle \<open>w_fault\<close> decides, per call, whether
    the call is served, refused with an error before it has any effect, or executed with its
    reply lost. So each theorem about an operation covers every pattern of failed calls.
  \<^item> Each accepted write is appended to \<open>w_log\<close> together with the state of the API server
    just before it, so a property can say what held at the instant of a write.
  \<^item> Writes have the API server's semantics: a merge patch changes only the fields that
    differ between the two objects it was made from; a UID or a resource version sent with a
    write is a precondition; the status subresource is separate from the object; an object
    with finalizers is only marked when it is deleted.
\<close>

named_theorems reads_rules \<open>rules for operations that only read\<close>

section \<open>Definitions\<close>

subsection \<open>Snapshot objects\<close>

text \<open>
  The engine's objects are read as unstructured maps: an entry that is not a map is
  \<open>None\<close>, and a missing or non-string field reads as the empty string.
\<close>

record ucond =
  uc_Type :: string
  uc_Status :: string
  uc_Reason :: string
  uc_Message :: string
  uc_LastTransitionTime :: "string option"

datatype nested_string = NestedAbsent | NestedStr string | NestedErr

record trigger =
  tg_Name :: string
  tg_TargetPod :: string
  tg_OwnerUIDs :: "string list"
  tg_DeletionTimestamp :: "time option"
  tg_Conditions :: "ucond option list"
  tg_SnapshotCreated :: nested_string

record snapStatusObj =
  ss_Conditions :: "ucond option list"
  ss_Phase :: "string option"

record podSnapshot =
  sn_Name :: string
  sn_Labels :: strmap
  sn_CreationTimestamp :: time
  sn_DeletionTimestamp :: "time option"
  sn_Status :: "snapStatusObj option"

record managedField =
  mf_Operation :: string
  mf_Time :: "time option"

record snapshotPolicy =
  psp_Name :: string
  psp_CreationTimestamp :: time
  psp_ManagedFields :: "managedField list"
  psp_TriggerType :: nested_string
  psp_PostCheckpoint :: nested_string
  psp_Selector :: "label_selector option"
  psp_Conditions :: "ucond option list option"

record event =
  ev_InvolvedUID :: string
  ev_Type :: string
  ev_Reason :: string
  ev_Message :: string
  ev_LastTimestamp :: time

subsection \<open>The cluster\<close>

record cluster =
  cl_pods :: "pod list"
  cl_jobs :: "pmj list"
  cl_nodes :: "node list"
  cl_pvcs :: "pvc list"
  cl_vas :: "volume_attachment list"
  cl_pdbs :: "pdb list"
  cl_replicasets :: "workload list"
  cl_deployments :: "workload list"
  cl_statefulsets :: "workload list"
  cl_podmigrations :: "podMigration list"
  cl_triggers :: "trigger list"
  cl_snapshots :: "podSnapshot list"
  cl_policies :: "snapshotPolicy list"
  cl_resources :: "uobject list"
  cl_events :: "event list"

type_synonym metaPatch = "(string \<times> string option) list"

datatype effect =
    PatchPodMeta string metaPatch metaPatch
  | PatchPodStatus string condition
  | UpdatePod pod
  | DeletePod string
  | EvictPod string "int option"
  | PatchJobStatus pmj pmj
  | PatchJobMeta pmj pmj
  | UpdateJobStatus pmj
  | UpdateJob pmj
  | CreateJob pmj
  | DeleteJob string
  | CreateTrigger trigger
  | DeleteTrigger string
  | UpdatePM podMigration
  | PatchPMStatus podMigration podMigration
  | CreateResource uobject
  | PatchResource uobject uobject
  | DeleteResource ukey
  | Event string string string

datatype fault = Served | Refused api_error | LostReply api_error

datatype reader = Cached | Live

record world =
  w_now :: time
  w_cache :: cluster
  w_live :: cluster
  w_fault :: "nat \<Rightarrow> fault"
  w_calls :: nat
  w_log :: "(effect \<times> cluster) list"
  w_probes :: "string \<rightharpoonup> time"
  w_reserved :: "string \<Rightarrow> (string \<times> time) list"
  w_processed :: "string \<rightharpoonup> time"
  w_newUID :: "nat \<Rightarrow> string"

type_synonym 'a io = "(world, 'a) state"

definition view :: "reader \<Rightarrow> world \<Rightarrow> cluster" where
  "view rd w = (case rd of Cached \<Rightarrow> w_cache w | Live \<Rightarrow> w_live w)"

text \<open>\<open>time.Now()\<close>\<close>

definition timeNow :: "time io" where
  "timeNow = gets w_now"

text \<open>\<open>time.Since(t)\<close>\<close>

definition timeSince :: "time \<Rightarrow> duration io" where
  "timeSince t = gets (\<lambda>w. time_sub (w_now w) t)"

subsection \<open>Calls\<close>

definition api_call :: "(world \<Rightarrow> (api_error + 'a) \<times> world) \<Rightarrow> (api_error + 'a) io" where
  "api_call f =
     State (\<lambda>w. let w' = w\<lparr>w_calls := Suc (w_calls w)\<rparr> in
       case w_fault w (w_calls w) of
         Served \<Rightarrow> f w'
       | Refused e \<Rightarrow> (Inl e, w')
       | LostReply e \<Rightarrow> (Inl e, snd (f w')))"

definition err :: "err_reason \<Rightarrow> string \<Rightarrow> api_error" where
  "err rsn txt = ApiError rsn None txt"

definition read_call :: "(world \<Rightarrow> api_error + 'a) \<Rightarrow> (api_error + 'a) io" where
  "read_call f = api_call (\<lambda>w. (f w, w))"

text \<open>A write is refused by the server or applied to the live cluster and logged.\<close>

definition write_call :: "(world \<Rightarrow> api_error + ('a \<times> effect \<times> cluster)) \<Rightarrow> (api_error + 'a) io" where
  "write_call f =
     api_call (\<lambda>w. case f w of
        Inl e \<Rightarrow> (Inl e, w)
      | Inr (a, eff, c') \<Rightarrow> (Inr a, w\<lparr>w_live := c', w_log := w_log w @ [(eff, w_live w)]\<rparr>))"

definition found :: "string \<Rightarrow> 'a option \<Rightarrow> api_error + 'a" where
  "found what x = (case x of None \<Rightarrow> Inl (err NotFound (what @ '' not found'')) | Some y \<Rightarrow> Inr y)"

subsection \<open>Reads\<close>

definition get_pod :: "reader \<Rightarrow> string \<Rightarrow> (api_error + pod) io" where
  "get_pod rd name = read_call (\<lambda>w. found ''pod'' (store_get pod_Name (cl_pods (view rd w)) name))"

definition list_pods :: "reader \<Rightarrow> (api_error + pod list) io" where
  "list_pods rd = read_call (\<lambda>w. Inr (cl_pods (view rd w)))"

definition list_pods_assigned :: "reader \<Rightarrow> string \<Rightarrow> (api_error + pod list) io" where
  "list_pods_assigned rd pmjName =
     read_call (\<lambda>w. Inr (filter (\<lambda>p. pmjName \<in> set (PodAssignedPMJIndexValue p)) (cl_pods (view rd w))))"

definition list_pods_label :: "reader \<Rightarrow> string \<Rightarrow> string \<Rightarrow> (api_error + pod list) io" where
  "list_pods_label rd k v =
     read_call (\<lambda>w. Inr (filter (\<lambda>p. pod_Labels p k = Some v) (cl_pods (view rd w))))"

definition list_pods_matching :: "reader \<Rightarrow> (strmap \<Rightarrow> bool) \<Rightarrow> (api_error + pod list) io" where
  "list_pods_matching rd sel =
     read_call (\<lambda>w. Inr (filter (\<lambda>p. sel (pod_Labels p)) (cl_pods (view rd w))))"

definition get_job :: "reader \<Rightarrow> string \<Rightarrow> (api_error + pmj) io" where
  "get_job rd name = read_call (\<lambda>w. found ''podmigrationjob'' (store_get pmj_Name (cl_jobs (view rd w)) name))"

definition list_jobs :: "reader \<Rightarrow> (api_error + pmj list) io" where
  "list_jobs rd = read_call (\<lambda>w. Inr (cl_jobs (view rd w)))"

definition list_jobs_parent :: "reader \<Rightarrow> string \<Rightarrow> (api_error + pmj list) io" where
  "list_jobs_parent rd key =
     read_call (\<lambda>w. Inr (filter (\<lambda>j. key \<in> set (PMJParentKeyIndexValue j)) (cl_jobs (view rd w))))"

definition get_node :: "reader \<Rightarrow> string \<Rightarrow> (api_error + node) io" where
  "get_node rd name = read_call (\<lambda>w. found ''node'' (store_get nd_Name (cl_nodes (view rd w)) name))"

definition get_pvc :: "reader \<Rightarrow> string \<Rightarrow> (api_error + pvc) io" where
  "get_pvc rd name = read_call (\<lambda>w. found ''pvc'' (store_get pvc_Name (cl_pvcs (view rd w)) name))"

definition list_vas :: "reader \<Rightarrow> string \<Rightarrow> (api_error + volume_attachment list) io" where
  "list_vas rd pv = read_call (\<lambda>w. Inr (filter (\<lambda>v. va_PVName v = pv) (cl_vas (view rd w))))"

definition list_pdbs :: "reader \<Rightarrow> (api_error + pdb list) io" where
  "list_pdbs rd = read_call (\<lambda>w. Inr (cl_pdbs (view rd w)))"

definition get_replicaset :: "reader \<Rightarrow> string \<Rightarrow> (api_error + workload) io" where
  "get_replicaset rd name = read_call (\<lambda>w. found ''replicaset'' (store_get wl_Name (cl_replicasets (view rd w)) name))"

definition list_replicasets :: "reader \<Rightarrow> string \<Rightarrow> string \<Rightarrow> (api_error + workload list) io" where
  "list_replicasets rd k v =
     read_call (\<lambda>w. Inr (filter (\<lambda>x. wl_Labels x k = Some v) (cl_replicasets (view rd w))))"

definition get_deployment :: "reader \<Rightarrow> string \<Rightarrow> (api_error + workload) io" where
  "get_deployment rd name = read_call (\<lambda>w. found ''deployment'' (store_get wl_Name (cl_deployments (view rd w)) name))"

definition get_statefulset :: "reader \<Rightarrow> string \<Rightarrow> (api_error + workload) io" where
  "get_statefulset rd name = read_call (\<lambda>w. found ''statefulset'' (store_get wl_Name (cl_statefulsets (view rd w)) name))"

definition list_podmigrations :: "reader \<Rightarrow> (api_error + podMigration list) io" where
  "list_podmigrations rd = read_call (\<lambda>w. Inr (cl_podmigrations (view rd w)))"

definition get_trigger :: "reader \<Rightarrow> string \<Rightarrow> (api_error + trigger) io" where
  "get_trigger rd name = read_call (\<lambda>w. found ''trigger'' (store_get tg_Name (cl_triggers (view rd w)) name))"

definition get_snapshot :: "reader \<Rightarrow> string \<Rightarrow> (api_error + podSnapshot) io" where
  "get_snapshot rd name = read_call (\<lambda>w. found ''snapshot'' (store_get sn_Name (cl_snapshots (view rd w)) name))"

definition list_snapshots :: "reader \<Rightarrow> string \<Rightarrow> string \<Rightarrow> (api_error + podSnapshot list) io" where
  "list_snapshots rd k v =
     read_call (\<lambda>w. Inr (filter (\<lambda>x. sn_Labels x k = Some v) (cl_snapshots (view rd w))))"

definition list_policies :: "reader \<Rightarrow> (api_error + snapshotPolicy list) io" where
  "list_policies rd = read_call (\<lambda>w. Inr (cl_policies (view rd w)))"

definition list_pods_on_node :: "reader \<Rightarrow> string \<Rightarrow> (api_error + pod list) io" where
  "list_pods_on_node rd n = read_call (\<lambda>w. Inr (filter (\<lambda>p. pod_NodeName p = n) (cl_pods (view rd w))))"

definition get_podmigration :: "reader \<Rightarrow> string \<Rightarrow> (api_error + podMigration) io" where
  "get_podmigration rd name = read_call (\<lambda>w. found ''podmigration'' (store_get pm_Name (cl_podmigrations (view rd w)) name))"

definition get_resource :: "reader \<Rightarrow> ukey \<Rightarrow> (api_error + uobject) io" where
  "get_resource rd k = read_call (\<lambda>w. found ''resource'' (store_get uo_key (cl_resources (view rd w)) k))"

definition list_events :: "reader \<Rightarrow> string \<Rightarrow> (api_error + event list) io" where
  "list_events rd uid = read_call (\<lambda>w. Inr (filter (\<lambda>x. ev_InvolvedUID x = uid) (cl_events (view rd w))))"

subsection \<open>Writes to pods\<close>

definition merge_map :: "strmap \<Rightarrow> metaPatch \<Rightarrow> strmap" where
  "merge_map m p = fold (\<lambda>(k, v) m. m(k := v)) p m"

text \<open>The preconditions a write may carry; an empty UID and \<open>None\<close> are not sent.\<close>

definition precond :: "string \<Rightarrow> nat option \<Rightarrow> pod \<Rightarrow> bool" where
  "precond uid rv p \<longleftrightarrow> (uid \<noteq> [] \<longrightarrow> pod_UID p = uid) \<and> (case rv of None \<Rightarrow> True | Some n \<Rightarrow> pod_ResourceVersion p = n)"

definition write_pod :: "string \<Rightarrow> string \<Rightarrow> nat option \<Rightarrow> effect \<Rightarrow> (time \<Rightarrow> pod \<Rightarrow> pod) \<Rightarrow> (api_error + pod) io" where
  "write_pod name uid rv eff upd =
     write_call (\<lambda>w. case store_get pod_Name (cl_pods (w_live w)) name of
        None \<Rightarrow> Inl (err NotFound ''pod not found'')
      | Some p \<Rightarrow>
          if \<not> precond uid rv p then Inl (err Conflict ''precondition failed'')
          else let p' = (upd (w_now w) p)\<lparr>pod_ResourceVersion := Suc (pod_ResourceVersion p)\<rparr>
               in Inr (p', eff, (w_live w)\<lparr>cl_pods := store_put pod_Name p' (cl_pods (w_live w))\<rparr>))"

definition patch_pod_meta :: "string \<Rightarrow> string \<Rightarrow> nat option \<Rightarrow> metaPatch \<Rightarrow> metaPatch \<Rightarrow> (api_error + pod) io" where
  "patch_pod_meta name uid rv lbls anns =
     write_pod name uid rv (PatchPodMeta name lbls anns)
       (\<lambda>_ p. p\<lparr>pod_Labels := merge_map (pod_Labels p) lbls, pod_Annotations := merge_map (pod_Annotations p) anns\<rparr>)"

text \<open>A strategic merge patch of one status condition: conditions merge by type.\<close>

definition merge_condition :: "condition \<Rightarrow> condition list \<Rightarrow> condition list" where
  "merge_condition c cs =
     (if c_Type c \<in> c_Type ` set cs
      then map (\<lambda>x. if c_Type x = c_Type c then c else x) cs
      else cs @ [c])"

definition patch_pod_condition :: "string \<Rightarrow> string \<Rightarrow> condition \<Rightarrow> (api_error + pod) io" where
  "patch_pod_condition name uid c =
     write_pod name uid None (PatchPodStatus name c)
       (\<lambda>_ p. p\<lparr>pod_Conditions := merge_condition c (pod_Conditions p)\<rparr>)"

text \<open>\<open>Update\<close> sends the object's resource version and leaves the status alone.\<close>

definition update_pod :: "pod \<Rightarrow> (api_error + pod) io" where
  "update_pod p =
     write_pod (pod_Name p) (pod_UID p) (Some (pod_ResourceVersion p)) (UpdatePod p)
       (\<lambda>_ q. q\<lparr>pod_Labels := pod_Labels p, pod_Annotations := pod_Annotations p,
                pod_SchedulingGates := pod_SchedulingGates p\<rparr>)"

definition mark_deleted :: "time \<Rightarrow> int option \<Rightarrow> pod \<Rightarrow> pod" where
  "mark_deleted t grace p =
     p\<lparr>pod_DeletionTimestamp := (case pod_DeletionTimestamp p of None \<Rightarrow> Some t | Some d \<Rightarrow> Some d),
       pod_DeletionGracePeriodSeconds := (case grace of None \<Rightarrow> pod_DeletionGracePeriodSeconds p | Some g \<Rightarrow> Some g)\<rparr>"

definition delete_pod :: "string \<Rightarrow> string \<Rightarrow> (api_error + pod) io" where
  "delete_pod name uid = write_pod name uid None (DeletePod name) (\<lambda>t. mark_deleted t None)"

text \<open>
  The eviction subresource. Whether a disruption budget allows the eviction is the API
  server's answer, so a refusal (429 with the budget's cause, 500, ...) comes from the
  oracle. A dry run has no effect.
\<close>

definition evict_pod :: "string \<Rightarrow> string \<Rightarrow> int option \<Rightarrow> (api_error + pod) io" where
  "evict_pod name uid grace = write_pod name uid None (EvictPod name grace) (\<lambda>t. mark_deleted t grace)"

definition evict_dry_run :: "string \<Rightarrow> string \<Rightarrow> (api_error + unit) io" where
  "evict_dry_run name uid =
     read_call (\<lambda>w. case store_get pod_Name (cl_pods (w_live w)) name of
        None \<Rightarrow> Inl (err NotFound ''pod not found'')
      | Some p \<Rightarrow> if precond uid None p then Inr () else Inl (err Conflict ''precondition failed''))"

subsection \<open>Writes to jobs\<close>

definition merge_field :: "'a \<Rightarrow> 'a \<Rightarrow> 'a \<Rightarrow> 'a" where
  "merge_field orig new live = (if new = orig then live else new)"

definition merge_status :: "pmj_status \<Rightarrow> pmj_status \<Rightarrow> pmj_status \<Rightarrow> pmj_status" where
  "merge_status a b l = \<lparr>
     st_Phase = merge_field (st_Phase a) (st_Phase b) (st_Phase l),
     st_SnapshotRef = merge_field (st_SnapshotRef a) (st_SnapshotRef b) (st_SnapshotRef l),
     st_PVsToDetach = merge_field (st_PVsToDetach a) (st_PVsToDetach b) (st_PVsToDetach l),
     st_OriginNodeName = merge_field (st_OriginNodeName a) (st_OriginNodeName b) (st_OriginNodeName l),
     st_CompletionTime = merge_field (st_CompletionTime a) (st_CompletionTime b) (st_CompletionTime l),
     st_SnapshottingStartTime = merge_field (st_SnapshottingStartTime a) (st_SnapshottingStartTime b) (st_SnapshottingStartTime l),
     st_EvictingStartTime = merge_field (st_EvictingStartTime a) (st_EvictingStartTime b) (st_EvictingStartTime l),
     st_RestoringStartTime = merge_field (st_RestoringStartTime a) (st_RestoringStartTime b) (st_RestoringStartTime l),
     st_Consumed = merge_field (st_Consumed a) (st_Consumed b) (st_Consumed l),
     st_RestoredPodUID = merge_field (st_RestoredPodUID a) (st_RestoredPodUID b) (st_RestoredPodUID l),
     st_RestoredPodName = merge_field (st_RestoredPodName a) (st_RestoredPodName b) (st_RestoredPodName l),
     st_GateReleased = merge_field (st_GateReleased a) (st_GateReleased b) (st_GateReleased l),
     st_Conditions = merge_field (st_Conditions a) (st_Conditions b) (st_Conditions l)\<rparr>"

definition merge_strmap :: "strmap \<Rightarrow> strmap \<Rightarrow> strmap \<Rightarrow> strmap" where
  "merge_strmap a b l = (\<lambda>k. merge_field (a k) (b k) (l k))"

definition merge_labels :: "(string \<times> string) list \<Rightarrow> (string \<times> string) list \<Rightarrow> (string \<times> string) list \<Rightarrow> (string \<times> string) list" where
  "merge_labels a b l = filter (\<lambda>(k, _). map_of a k \<noteq> map_of b k) b @ filter (\<lambda>(k, _). map_of a k = map_of b k) l"

text \<open>An object that is being deleted goes away with its last finalizer.\<close>

definition put_job :: "pmj \<Rightarrow> pmj list \<Rightarrow> pmj list" where
  "put_job l js =
     (if pmj_DeletionTimestamp l \<noteq> None \<and> pmj_Finalizers l = [] then store_del pmj_Name (pmj_Name l) js else store_put pmj_Name l js)"

definition write_job :: "pmj \<Rightarrow> nat option \<Rightarrow> effect \<Rightarrow> (pmj \<Rightarrow> pmj) \<Rightarrow> (api_error + pmj) io" where
  "write_job job rv eff upd =
     write_call (\<lambda>w. case store_get pmj_Name (cl_jobs (w_live w)) (pmj_Name job) of
        None \<Rightarrow> Inl (err NotFound ''podmigrationjob not found'')
      | Some l \<Rightarrow>
          if (case rv of None \<Rightarrow> False | Some n \<Rightarrow> pmj_ResourceVersion l \<noteq> n) then Inl (err Conflict ''the object has been modified'')
          else let l' = (upd l)\<lparr>pmj_ResourceVersion := Suc (pmj_ResourceVersion l)\<rparr>
               in Inr (l', eff, (w_live w)\<lparr>cl_jobs := put_job l' (cl_jobs (w_live w))\<rparr>))"

text \<open>
  \<open>r.patchStatus(job, origJob)\<close>. On success the client replaces \<open>job\<close> by the server's
  copy, which is the returned value.
\<close>

definition patchStatus :: "pmj \<Rightarrow> pmj \<Rightarrow> (api_error + pmj) io" where
  "patchStatus job orig =
     write_job job None (PatchJobStatus orig job)
       (\<lambda>l. l\<lparr>pmj_Status := merge_status (pmj_Status orig) (pmj_Status job) (pmj_Status l)\<rparr>)"

definition patchJobMeta :: "pmj \<Rightarrow> pmj \<Rightarrow> bool \<Rightarrow> (api_error + pmj) io" where
  "patchJobMeta job prior optimisticLock =
     write_job job (if optimisticLock then Some (pmj_ResourceVersion prior) else None) (PatchJobMeta prior job)
       (\<lambda>l. l\<lparr>pmj_Labels := merge_strmap (pmj_Labels prior) (pmj_Labels job) (pmj_Labels l),
              pmj_Annotations := merge_strmap (pmj_Annotations prior) (pmj_Annotations job) (pmj_Annotations l),
              pmj_Finalizers := merge_field (pmj_Finalizers prior) (pmj_Finalizers job) (pmj_Finalizers l)\<rparr>)"

definition updateJob :: "pmj \<Rightarrow> (api_error + pmj) io" where
  "updateJob job =
     write_job job (Some (pmj_ResourceVersion job)) (UpdateJob job)
       (\<lambda>l. l\<lparr>pmj_Labels := pmj_Labels job, pmj_Annotations := pmj_Annotations job,
              pmj_Finalizers := pmj_Finalizers job\<rparr>)"

text \<open>\<open>r.Status().Update(job)\<close> replaces the whole status and sends the resource version.\<close>

definition updateJobStatus :: "pmj \<Rightarrow> (api_error + pmj) io" where
  "updateJobStatus job =
     write_job job (Some (pmj_ResourceVersion job)) (UpdateJobStatus job) (\<lambda>l. l\<lparr>pmj_Status := pmj_Status job\<rparr>)"

text \<open>The server names the instance and stamps its creation; the status of a new job is empty.\<close>

definition emptyStatus :: pmj_status where
  "emptyStatus = \<lparr>st_Phase = PhaseNone, st_SnapshotRef = [], st_PVsToDetach = [], st_OriginNodeName = [],
     st_CompletionTime = None, st_SnapshottingStartTime = None, st_EvictingStartTime = None, st_RestoringStartTime = None,
     st_Consumed = False, st_RestoredPodUID = [], st_RestoredPodName = [], st_GateReleased = False, st_Conditions = []\<rparr>"

definition admitted :: "world \<Rightarrow> pmj \<Rightarrow> pmj" where
  "admitted w job = job\<lparr>pmj_UID := w_newUID w (w_calls w), pmj_ResourceVersion := 1, pmj_Generation := 1,
     pmj_CreationTimestamp := w_now w, pmj_DeletionTimestamp := None, pmj_Status := emptyStatus\<rparr>"

definition createJob :: "pmj \<Rightarrow> (api_error + unit) io" where
  "createJob job =
     write_call (\<lambda>w. case store_get pmj_Name (cl_jobs (w_live w)) (pmj_Name job) of
        Some _ \<Rightarrow> Inl (err AlreadyExists ''podmigrationjob already exists'')
      | None \<Rightarrow> Inr ((), CreateJob (admitted w job), (w_live w)\<lparr>cl_jobs := store_put pmj_Name (admitted w job) (cl_jobs (w_live w))\<rparr>))"

text \<open>A delete with a UID precondition; an empty UID is not sent.\<close>

definition deleteJobUID :: "string \<Rightarrow> string \<Rightarrow> (api_error + unit) io" where
  "deleteJobUID name uid =
     write_call (\<lambda>w. case store_get pmj_Name (cl_jobs (w_live w)) name of
        None \<Rightarrow> Inl (err NotFound ''podmigrationjob not found'')
      | Some l \<Rightarrow>
          if uid \<noteq> [] \<and> pmj_UID l \<noteq> uid then Inl (err Conflict ''precondition failed'')
          else Inr ((), DeleteJob name,
          (w_live w)\<lparr>cl_jobs :=
            (if pmj_Finalizers l = [] then store_del pmj_Name name (cl_jobs (w_live w))
             else store_put pmj_Name
                    (l\<lparr>pmj_DeletionTimestamp := (case pmj_DeletionTimestamp l of None \<Rightarrow> Some (w_now w) | Some d \<Rightarrow> Some d),
                       pmj_ResourceVersion := Suc (pmj_ResourceVersion l)\<rparr>)
                    (cl_jobs (w_live w)))\<rparr>))"

definition deleteJob :: "string \<Rightarrow> (api_error + unit) io" where
  "deleteJob name = deleteJobUID name []"

subsection \<open>Writes to PodMigrations and to unstructured objects\<close>

definition write_pm :: "podMigration \<Rightarrow> nat option \<Rightarrow> effect \<Rightarrow> (podMigration \<Rightarrow> podMigration) \<Rightarrow> (api_error + podMigration) io" where
  "write_pm pm rv eff upd =
     write_call (\<lambda>w. case store_get pm_Name (cl_podmigrations (w_live w)) (pm_Name pm) of
        None \<Rightarrow> Inl (err NotFound ''podmigration not found'')
      | Some l \<Rightarrow>
          if (case rv of None \<Rightarrow> False | Some n \<Rightarrow> pm_ResourceVersion l \<noteq> n) then Inl (err Conflict ''the object has been modified'')
          else let l' = (upd l)\<lparr>pm_ResourceVersion := Suc (pm_ResourceVersion l)\<rparr>
               in Inr (l', eff, (w_live w)\<lparr>cl_podmigrations :=
                    (if pm_DeletionTimestamp l' \<noteq> None \<and> pm_Finalizers l' = []
                     then store_del pm_Name (pm_Name l') (cl_podmigrations (w_live w))
                     else store_put pm_Name l' (cl_podmigrations (w_live w)))\<rparr>))"

definition updatePM :: "podMigration \<Rightarrow> (api_error + podMigration) io" where
  "updatePM pm = write_pm pm (Some (pm_ResourceVersion pm)) (UpdatePM pm)
     (\<lambda>l. l\<lparr>pm_Annotations := pm_Annotations pm, pm_Finalizers := pm_Finalizers pm\<rparr>)"

definition patchPMStatus :: "podMigration \<Rightarrow> podMigration \<Rightarrow> (api_error + podMigration) io" where
  "patchPMStatus pm orig = write_pm pm None (PatchPMStatus orig pm)
     (\<lambda>l. l\<lparr>pm_Conditions := merge_field (pm_Conditions orig) (pm_Conditions pm) (pm_Conditions l)\<rparr>)"

definition createResource :: "uobject \<Rightarrow> (api_error + unit) io" where
  "createResource x =
     write_call (\<lambda>w. case store_get uo_key (cl_resources (w_live w)) (uo_key x) of
        Some _ \<Rightarrow> Inl (err AlreadyExists ''resource already exists'')
      | None \<Rightarrow> Inr ((), CreateResource x, (w_live w)\<lparr>cl_resources := store_put uo_key x (cl_resources (w_live w))\<rparr>))"

text \<open>A JSON merge patch made from \<open>existing\<close> and \<open>updated\<close>: labels merge by key, the spec by the patch.\<close>

definition patchResource :: "kubelib \<Rightarrow> uobject \<Rightarrow> uobject \<Rightarrow> (api_error + unit) io" where
  "patchResource K updated existing =
     write_call (\<lambda>w. case store_get uo_key (cl_resources (w_live w)) (uo_key existing) of
        None \<Rightarrow> Inl (err NotFound ''resource not found'')
      | Some l \<Rightarrow> Inr ((), PatchResource existing updated, (w_live w)\<lparr>cl_resources :=
          store_put uo_key (l\<lparr>uo_Labels := merge_labels (uo_Labels existing) (uo_Labels updated) (uo_Labels l),
              uo_Spec := MergeApply K (uo_Spec l) (MergeDiff K (uo_Spec existing) (uo_Spec updated))\<rparr>) (cl_resources (w_live w))\<rparr>))"

definition deleteResource :: "ukey \<Rightarrow> (api_error + unit) io" where
  "deleteResource k =
     write_call (\<lambda>w. case store_get uo_key (cl_resources (w_live w)) k of
        None \<Rightarrow> Inl (err NotFound ''resource not found'')
      | Some _ \<Rightarrow> Inr ((), DeleteResource k, (w_live w)\<lparr>cl_resources := store_del uo_key k (cl_resources (w_live w))\<rparr>))"

subsection \<open>Writes to triggers, and events\<close>

definition createTrigger :: "trigger \<Rightarrow> (api_error + unit) io" where
  "createTrigger t =
     write_call (\<lambda>w. case store_get tg_Name (cl_triggers (w_live w)) (tg_Name t) of
        Some _ \<Rightarrow> Inl (err AlreadyExists ''trigger already exists'')
      | None \<Rightarrow> Inr ((), CreateTrigger t, (w_live w)\<lparr>cl_triggers := store_put tg_Name t (cl_triggers (w_live w))\<rparr>))"

definition deleteTrigger :: "string \<Rightarrow> (api_error + unit) io" where
  "deleteTrigger name =
     write_call (\<lambda>w. case store_get tg_Name (cl_triggers (w_live w)) name of
        None \<Rightarrow> Inl (err NotFound ''trigger not found'')
      | Some _ \<Rightarrow> Inr ((), DeleteTrigger name, (w_live w)\<lparr>cl_triggers := store_del tg_Name name (cl_triggers (w_live w))\<rparr>))"

text \<open>Events are fire-and-forget; they are logged, and nothing else changes.\<close>

definition emitEvent :: "string \<Rightarrow> string \<Rightarrow> string \<Rightarrow> unit io" where
  "emitEvent obj typ reason =
     modify (\<lambda>w. w\<lparr>w_log := w_log w @ [(Event obj typ reason, w_live w)]\<rparr>)"

subsection \<open>Properties of the write log\<close>

text \<open>Every accepted write so far satisfies \<open>P\<close>, in the state the API server was in then.\<close>

definition all_writes :: "(effect \<Rightarrow> cluster \<Rightarrow> bool) \<Rightarrow> world \<Rightarrow> bool" where
  "all_writes P w \<longleftrightarrow> (\<forall>(e, c) \<in> set (w_log w). P e c)"

text \<open>
  The writes \<open>es\<close> take the API server from one state to another, each satisfying \<open>P\<close> of the
  write, the state before it and the state after it.
\<close>

fun chain :: "(effect \<Rightarrow> cluster \<Rightarrow> cluster \<Rightarrow> bool) \<Rightarrow> cluster \<Rightarrow> (effect \<times> cluster) list \<Rightarrow> cluster \<Rightarrow> bool" where
  "chain P c [] c' \<longleftrightarrow> c' = c"
| "chain P c ((e, d) # es) c' \<longleftrightarrow> d = c \<and> (\<exists>m. P e c m \<and> chain P m es c')"

text \<open>
  No failed call claims that an object or its kind does not exist: a failure is a timeout, a
  throttled or a refused call. \<open>NotFound\<close> then comes only from an object that is not there.
\<close>

definition denial :: "api_error \<Rightarrow> bool" where
  "denial e = (isNotFound e \<or> ae_reason e = NoMatch)"

definition honest :: "world \<Rightarrow> bool" where
  "honest w \<longleftrightarrow> (\<forall>n. case w_fault w n of Served \<Rightarrow> True | Refused e \<Rightarrow> \<not> denial e | LostReply e \<Rightarrow> \<not> denial e)"

text \<open>Nothing happened but calls; an operation that only reads.\<close>

definition quiet :: "world \<Rightarrow> world \<Rightarrow> bool" where
  "quiet w w' \<longleftrightarrow> (\<exists>k. w' = w\<lparr>w_calls := k\<rparr>)"

definition onlyReads :: "'a io \<Rightarrow> bool" where
  "onlyReads m \<longleftrightarrow> (\<forall>w. wp m (\<lambda>_. quiet w) w)"

text \<open>Every call is served.\<close>

definition served :: "world \<Rightarrow> bool" where
  "served w \<longleftrightarrow> (\<forall>n. w_fault w n = Served)"

section \<open>Lemmas\<close>

lemma all_writes_calls [simp]: "all_writes P (w\<lparr>w_calls := n\<rparr>) = all_writes P w"
  by (simp add: all_writes_def)

lemma all_writes_probes [simp]: "all_writes P (w\<lparr>w_probes := n\<rparr>) = all_writes P w"
  by (simp add: all_writes_def)

lemma all_writes_reserved [simp]: "all_writes P (w\<lparr>w_reserved := n\<rparr>) = all_writes P w"
  by (simp add: all_writes_def)

lemma all_writes_live [simp]: "all_writes P (w\<lparr>w_live := n\<rparr>) = all_writes P w"
  by (simp add: all_writes_def)

lemma all_writes_snoc [simp]:
  "all_writes P (u\<lparr>w_log := w_log w @ [(e, c)]\<rparr>) \<longleftrightarrow> all_writes P w \<and> P e c"
  by (auto simp: all_writes_def)

lemma all_writes_empty: "w_log w = [] \<Longrightarrow> all_writes P w"
  by (simp add: all_writes_def)

lemma all_writesD: "all_writes P w \<Longrightarrow> (e, c) \<in> set (w_log w) \<Longrightarrow> P e c"
  by (auto simp: all_writes_def)

lemma all_writes_mono: "all_writes P w \<Longrightarrow> (\<And>e c. P e c \<Longrightarrow> R e c) \<Longrightarrow> all_writes R w"
  by (auto simp: all_writes_def)

lemma chain_append: "chain P c (es @ es') c'' \<longleftrightarrow> (\<exists>c'. chain P c es c' \<and> chain P c' es' c'')"
  by (induction es arbitrary: c) (auto, blast+)

lemma chain_mono: "chain P c es c' \<Longrightarrow> (\<And>e c c'. P e c c' \<Longrightarrow> R e c c') \<Longrightarrow> chain R c es c'"
  by (induction es arbitrary: c) (auto, blast)

text \<open>An invariant of the states the writes go through.\<close>

lemma chain_invariant:
  assumes "chain P c es c'" and "I c" and "\<And>e c c'. P e c c' \<Longrightarrow> I c \<Longrightarrow> I c'"
  shows "I c'" and "(e, d) \<in> set es \<Longrightarrow> I d \<and> (\<exists>d'. P e d d')"
proof -
  have "I c' \<and> (\<forall>(e, d) \<in> set es. I d \<and> (\<exists>d'. P e d d'))"
    using assms(1,2) by (induction es arbitrary: c) (use assms(3) in fastforce)+
  then show "I c'" and "(e, d) \<in> set es \<Longrightarrow> I d \<and> (\<exists>d'. P e d d')" by auto
qed

subsection \<open>Weakest preconditions of the calls\<close>

lemma wp_timeNow [wp_simps]: "wp timeNow Q w = Q (w_now w) w"
  by (simp add: timeNow_def wp_gets)

lemma wp_timeSince [wp_simps]: "wp (timeSince t) Q w = Q (time_sub (w_now w) t) w"
  by (simp add: timeSince_def wp_gets)

lemma wp_api_call:
  "wp (api_call f) Q w =
     (let w' = w\<lparr>w_calls := Suc (w_calls w)\<rparr> in
      case w_fault w (w_calls w) of
        Served \<Rightarrow> (case f w' of (a, w'') \<Rightarrow> Q a w'')
      | Refused e \<Rightarrow> Q (Inl e) w'
      | LostReply e \<Rightarrow> Q (Inl e) (snd (f w')))"
  by (simp add: api_call_def wp_def Let_def split: fault.splits)

lemma wp_read_callI:
  assumes "\<And>e n. Q (Inl e) (w\<lparr>w_calls := n\<rparr>)"
    and "\<And>n. Q (f (w\<lparr>w_calls := n\<rparr>)) (w\<lparr>w_calls := n\<rparr>)"
  shows "wp (read_call f) Q w"
  using assms by (simp add: read_call_def wp_api_call Let_def split: fault.splits)

lemma wp_write_callI:
  assumes "\<And>e n. Q (Inl e) (w\<lparr>w_calls := n\<rparr>)"
    and "\<And>a eff c' n r. f (w\<lparr>w_calls := n\<rparr>) = Inr (a, eff, c') \<Longrightarrow> r = Inr a \<or> (\<exists>e. r = Inl e) \<Longrightarrow>
           Q r (w\<lparr>w_calls := n, w_live := c', w_log := w_log w @ [(eff, w_live w)]\<rparr>)"
  shows "wp (write_call f) Q w"
  using assms
  by (auto simp: write_call_def wp_api_call Let_def split: fault.splits sum.splits prod.splits)

text \<open>Reads in general, and reads of one object.\<close>

lemma wp_readI:
  assumes "\<And>r n. Q r (w\<lparr>w_calls := n\<rparr>)"
  shows "wp (read_call f) Q w"
  using assms by (intro wp_read_callI) auto

lemmas read_defs =
  get_pod_def list_pods_def list_pods_assigned_def list_pods_label_def list_pods_matching_def
  get_job_def list_jobs_def list_jobs_parent_def get_node_def get_pvc_def list_vas_def list_pdbs_def
  get_replicaset_def list_replicasets_def get_deployment_def get_statefulset_def
  list_podmigrations_def get_trigger_def get_snapshot_def list_snapshots_def evict_dry_run_def
  list_policies_def list_events_def list_pods_on_node_def get_podmigration_def get_resource_def

lemma view_calls [simp]: "view rd (w\<lparr>w_calls := n\<rparr>) = view rd w"
  by (cases rd) (simp_all add: view_def)

lemma found_Inr [simp]: "found x y = Inr z \<longleftrightarrow> y = Some z"
  by (simp add: found_def split: option.splits)

lemma found_Inl [simp]: "found x y = Inl e \<longleftrightarrow> y = None \<and> e = err NotFound (x @ '' not found'')"
  by (auto simp: found_def split: option.splits)

lemma wp_get_podI:
  assumes "\<And>e n. Q (Inl e) (w\<lparr>w_calls := n\<rparr>)"
    and "\<And>p n. store_get pod_Name (cl_pods (view rd w)) name = Some p \<Longrightarrow> Q (Inr p) (w\<lparr>w_calls := n\<rparr>)"
  shows "wp (get_pod rd name) Q w"
  unfolding get_pod_def using assms
  by (intro wp_read_callI) (auto simp: found_def split: option.splits)

lemma wp_get_jobI:
  assumes "\<And>e n. Q (Inl e) (w\<lparr>w_calls := n\<rparr>)"
    and "\<And>p n. store_get pmj_Name (cl_jobs (view rd w)) name = Some p \<Longrightarrow> Q (Inr p) (w\<lparr>w_calls := n\<rparr>)"
  shows "wp (get_job rd name) Q w"
  unfolding get_job_def using assms
  by (intro wp_read_callI) (auto simp: found_def split: option.splits)

lemma honest_calls [simp]: "honest (w\<lparr>w_calls := n\<rparr>) = honest w"
  by (simp add: honest_def)

lemma wp_read_honestI:
  assumes "honest w"
    and "\<And>e n. \<not> denial e \<Longrightarrow> Q (Inl e) (w\<lparr>w_calls := n\<rparr>)"
    and "\<And>n. Q (f (w\<lparr>w_calls := n\<rparr>)) (w\<lparr>w_calls := n\<rparr>)"
  shows "wp (read_call f) Q w"
  using assms unfolding honest_def read_call_def wp_api_call Let_def
  by (auto split: fault.splits elim!: allE [of _ "w_calls w"])

lemma wp_write_honestI:
  assumes "honest w"
    and "\<And>e n. \<not> denial e \<Longrightarrow> Q (Inl e) (w\<lparr>w_calls := n\<rparr>)"
    and "\<And>e n. f (w\<lparr>w_calls := n\<rparr>) = Inl e \<Longrightarrow> Q (Inl e) (w\<lparr>w_calls := n\<rparr>)"
    and "\<And>a eff c' n r. f (w\<lparr>w_calls := n\<rparr>) = Inr (a, eff, c') \<Longrightarrow> r = Inr a \<or> (\<exists>e. r = Inl e \<and> \<not> denial e) \<Longrightarrow>
           Q r (w\<lparr>w_calls := n, w_live := c', w_log := w_log w @ [(eff, w_live w)]\<rparr>)"
  shows "wp (write_call f) Q w"
proof -
  have h: "\<not> denial e" if "w_fault w (w_calls w) = Refused e \<or> w_fault w (w_calls w) = LostReply e" for e
    using assms(1) that unfolding honest_def by (auto elim!: allE [of _ "w_calls w"])
  let ?w = "w\<lparr>w_calls := Suc (w_calls w)\<rparr>"
  show ?thesis
  proof (cases "f ?w")
    case (Inl e)
    then show ?thesis using assms(2,3) h
      by (auto simp: write_call_def wp_api_call Let_def split: fault.splits)
  next
    case (Inr y)
    then obtain a eff c' where y: "f ?w = Inr (a, eff, c')" by (cases y) auto
    show ?thesis using assms(2) assms(4) [OF y] h
      by (auto simp: write_call_def wp_api_call Let_def y split: fault.splits)
  qed
qed

lemma honest_world [simp]:
  "honest (w\<lparr>w_live := c\<rparr>) = honest w" "honest (w\<lparr>w_log := l\<rparr>) = honest w"
  by (simp_all add: honest_def)

lemma wp_emitEvent [wp_simps]:
  "wp (emitEvent obj typ rsn) Q w = Q () (w\<lparr>w_log := w_log w @ [(Event obj typ rsn, w_live w)]\<rparr>)"
  by (simp add: emitEvent_def wp_modify)

subsection \<open>What a write to a pod or a job does\<close>

lemma wp_write_podI:
  assumes "\<And>e n. Q (Inl e) (w\<lparr>w_calls := n\<rparr>)"
    and "\<And>p p' n r. store_get pod_Name (cl_pods (w_live w)) name = Some p \<Longrightarrow> pod_Name p = name \<Longrightarrow> precond uid rv p \<Longrightarrow>
           p' = (upd (w_now w) p)\<lparr>pod_ResourceVersion := Suc (pod_ResourceVersion p)\<rparr> \<Longrightarrow>
           r = Inr p' \<or> (\<exists>e. r = Inl e) \<Longrightarrow>
           Q r (w\<lparr>w_calls := n,
                  w_live := (w_live w)\<lparr>cl_pods := store_put pod_Name p' (cl_pods (w_live w))\<rparr>,
                  w_log := w_log w @ [(eff, w_live w)]\<rparr>)"
  shows "wp (write_pod name uid rv eff upd) Q w"
  unfolding write_pod_def using assms
  by (intro wp_write_callI) (auto simp: Let_def dest: store_get_key split: option.splits if_splits)

lemma wp_write_pod_honestI:
  assumes "honest w"
    and "\<And>e n. \<not> denial e \<Longrightarrow> Q (Inl e) (w\<lparr>w_calls := n\<rparr>)"
    and "\<And>e n. store_get pod_Name (cl_pods (w_live w)) name = None \<Longrightarrow> isNotFound e \<Longrightarrow> Q (Inl e) (w\<lparr>w_calls := n\<rparr>)"
    and "\<And>p p' n r. store_get pod_Name (cl_pods (w_live w)) name = Some p \<Longrightarrow> pod_Name p = name \<Longrightarrow> precond uid rv p \<Longrightarrow>
           p' = (upd (w_now w) p)\<lparr>pod_ResourceVersion := Suc (pod_ResourceVersion p)\<rparr> \<Longrightarrow>
           r = Inr p' \<or> (\<exists>e. r = Inl e \<and> \<not> denial e) \<Longrightarrow>
           Q r (w\<lparr>w_calls := n,
                  w_live := (w_live w)\<lparr>cl_pods := store_put pod_Name p' (cl_pods (w_live w))\<rparr>,
                  w_log := w_log w @ [(eff, w_live w)]\<rparr>)"
  shows "wp (write_pod name uid rv eff upd) Q w"
  unfolding write_pod_def using assms
  by (intro wp_write_honestI)
    (auto simp: Let_def denial_def err_def isNotFound_def dest: store_get_key split: option.splits if_splits)

lemma wp_write_jobI:
  assumes "\<And>e n. Q (Inl e) (w\<lparr>w_calls := n\<rparr>)"
    and "\<And>l l' n r. store_get pmj_Name (cl_jobs (w_live w)) (pmj_Name job) = Some l \<Longrightarrow> pmj_Name l = pmj_Name job \<Longrightarrow>
           l' = (upd l)\<lparr>pmj_ResourceVersion := Suc (pmj_ResourceVersion l)\<rparr> \<Longrightarrow>
           (\<And>v. rv = Some v \<Longrightarrow> pmj_ResourceVersion l = v) \<Longrightarrow>
           r = Inr l' \<or> (\<exists>e. r = Inl e) \<Longrightarrow>
           Q r (w\<lparr>w_calls := n,
                  w_live := (w_live w)\<lparr>cl_jobs := put_job l' (cl_jobs (w_live w))\<rparr>,
                  w_log := w_log w @ [(eff, w_live w)]\<rparr>)"
  shows "wp (write_job job rv eff upd) Q w"
  unfolding write_job_def using assms
  by (intro wp_write_callI) (auto simp: Let_def dest: store_get_key split: option.splits if_splits)

subsection \<open>Operations that only read\<close>

lemma quiet_calls [simp]: "quiet w (w\<lparr>w_calls := k\<rparr>)"
  unfolding quiet_def by (rule exI) (rule refl)

lemma quiet_self [simp]: "quiet w w"
  using quiet_calls [of w "w_calls w"] by simp

lemma quiet_trans: "quiet u v \<Longrightarrow> quiet v w \<Longrightarrow> quiet u w"
  by (auto simp: quiet_def)

lemma onlyReadsD: "onlyReads m \<Longrightarrow> wp m (\<lambda>_. quiet w) w"
  by (simp add: onlyReads_def)

lemma wp_onlyReads: "onlyReads m \<Longrightarrow> (\<And>r k. Q r (w\<lparr>w_calls := k\<rparr>)) \<Longrightarrow> wp m Q w"
  by (rule wp_mono, rule onlyReadsD) (auto simp: quiet_def)

lemma reads_return: "onlyReads (State_Monad.return a)"
  by (simp add: onlyReads_def wp_simps)

lemma reads_bind: "onlyReads m \<Longrightarrow> (\<And>a. onlyReads (f a)) \<Longrightarrow> onlyReads (State_Monad.bind m f)"
  unfolding onlyReads_def wp_bind by (blast intro: wp_mono quiet_trans)

lemma reads_call: "onlyReads (read_call f)"
  by (auto simp: onlyReads_def intro!: wp_readI)

lemma reads_cases:
  "(b \<Longrightarrow> onlyReads m) \<Longrightarrow> (\<not> b \<Longrightarrow> onlyReads n) \<Longrightarrow> onlyReads (if b then m else n)"
  "(x = None \<Longrightarrow> onlyReads m) \<Longrightarrow> (\<And>y. x = Some y \<Longrightarrow> onlyReads (f y)) \<Longrightarrow> onlyReads (case x of None \<Rightarrow> m | Some y \<Rightarrow> f y)"
  "(\<And>e. z = Inl e \<Longrightarrow> onlyReads (g e)) \<Longrightarrow> (\<And>y. z = Inr y \<Longrightarrow> onlyReads (h y)) \<Longrightarrow> onlyReads (case z of Inl e \<Rightarrow> g e | Inr y \<Rightarrow> h y)"
  "(\<And>a b. q = (a, b) \<Longrightarrow> onlyReads (k a b)) \<Longrightarrow> onlyReads (case q of (a, b) \<Rightarrow> k a b)"
  "(d \<Longrightarrow> onlyReads m) \<Longrightarrow> (\<not> d \<Longrightarrow> onlyReads n) \<Longrightarrow> onlyReads (case d of True \<Rightarrow> m | False \<Rightarrow> n)"
  "(l = [] \<Longrightarrow> onlyReads m) \<Longrightarrow> (\<And>a b. l = a # b \<Longrightarrow> onlyReads (k a b)) \<Longrightarrow> onlyReads (case l of [] \<Rightarrow> m | a # b \<Rightarrow> k a b)"
  by (simp_all split: option.split sum.split prod.split bool.split list.split)

lemma reads_pure: "onlyReads timeNow" "onlyReads (timeSince t)" "onlyReads (gets f)"
  by (simp_all add: onlyReads_def wp_simps)

lemma reads_objects:
  "onlyReads (get_pod rd a)" "onlyReads (list_pods rd)" "onlyReads (list_pods_assigned rd a)" "onlyReads (list_pods_label rd a b)"
  "onlyReads (list_pods_matching rd sel)" "onlyReads (get_job rd a)" "onlyReads (list_jobs rd)" "onlyReads (list_jobs_parent rd a)"
  "onlyReads (get_node rd a)" "onlyReads (get_pvc rd a)" "onlyReads (list_vas rd a)" "onlyReads (list_pdbs rd)"
  "onlyReads (get_replicaset rd a)" "onlyReads (list_replicasets rd a b)" "onlyReads (get_deployment rd a)" "onlyReads (get_statefulset rd a)"
  "onlyReads (list_podmigrations rd)" "onlyReads (get_trigger rd a)" "onlyReads (get_snapshot rd a)" "onlyReads (list_snapshots rd a b)"
  "onlyReads (list_policies rd)" "onlyReads (list_events rd a)" "onlyReads (list_pods_on_node rd a)" "onlyReads (get_podmigration rd a)"
  "onlyReads (get_resource rd k)" "onlyReads (evict_dry_run a b)"
  by (simp_all add: read_defs reads_call)

lemmas [reads_rules] = reads_return reads_bind reads_cases reads_pure reads_objects

subsection \<open>Calls that are served\<close>

lemma served_simps [simp]:
  "served (w\<lparr>w_calls := n\<rparr>) = served w" "served (w\<lparr>w_live := c\<rparr>) = served w" "served (w\<lparr>w_log := l\<rparr>) = served w"
  by (simp_all add: served_def)

lemma served_honest: "served w \<Longrightarrow> honest w"
  by (simp add: served_def honest_def)

lemma wp_read_served:
  "served w \<Longrightarrow> wp (read_call f) Q w = Q (f (w\<lparr>w_calls := Suc (w_calls w)\<rparr>)) (w\<lparr>w_calls := Suc (w_calls w)\<rparr>)"
  by (simp add: served_def read_call_def wp_api_call Let_def)

lemma wp_write_served:
  assumes "served w" and "f (w\<lparr>w_calls := Suc (w_calls w)\<rparr>) = Inr (a, eff, c')"
  shows "wp (write_call f) Q w = Q (Inr a) (w\<lparr>w_calls := Suc (w_calls w), w_live := c', w_log := w_log w @ [(eff, w_live w)]\<rparr>)"
  using assms by (simp add: served_def write_call_def wp_api_call Let_def)

lemma wp_write_pod_served:
  assumes "served w" "store_get pod_Name (cl_pods (w_live w)) name = Some p" "precond uid rv p"
    and "p' = (upd (w_now w) p)\<lparr>pod_ResourceVersion := Suc (pod_ResourceVersion p)\<rparr>"
    and "\<And>w'. w_live w' = (w_live w)\<lparr>cl_pods := store_put pod_Name p' (cl_pods (w_live w))\<rparr> \<Longrightarrow> w_cache w' = w_cache w \<Longrightarrow> served w' \<Longrightarrow> Q (Inr p') w'"
  shows "wp (write_pod name uid rv eff upd) Q w"
  unfolding write_pod_def
  by (subst wp_write_served [OF assms(1)]) (use assms in \<open>auto simp: Let_def\<close>)

lemma wp_write_job_served:
  assumes "served w" "store_get pmj_Name (cl_jobs (w_live w)) (pmj_Name job) = Some l" "case rv of None \<Rightarrow> True | Some v \<Rightarrow> pmj_ResourceVersion l = v"
    and "l' = (upd l)\<lparr>pmj_ResourceVersion := Suc (pmj_ResourceVersion l)\<rparr>"
    and "\<And>w'. w_live w' = (w_live w)\<lparr>cl_jobs := put_job l' (cl_jobs (w_live w))\<rparr> \<Longrightarrow> w_cache w' = w_cache w \<Longrightarrow> served w' \<Longrightarrow> Q (Inr l') w'"
  shows "wp (write_job job rv eff upd) Q w"
  unfolding write_job_def
  by (subst wp_write_served [OF assms(1)]) (use assms in \<open>auto simp: Let_def split: option.splits\<close>)

lemma map_of_filter_keys: "map_of (filter (\<lambda>(k, _). P k) xs) k = (if P k then map_of xs k else None)"
  by (induction xs) auto

lemma map_of_merge_labels: "map_of (merge_labels a b l) = merge_strmap (map_of a) (map_of b) (map_of l)"
proof
  fix k
  show "map_of (merge_labels a b l) k = merge_strmap (map_of a) (map_of b) (map_of l) k"
    by (cases "map_of b k")
      (auto simp: merge_labels_def merge_strmap_def merge_field_def map_add_def map_of_filter_keys split: option.splits)
qed

lemma store_put_get_same [simp]: "store_get key (store_put key x os) (key x) = Some x"
  by (simp add: store_get_put)

end
