(* ===== verification/Election.thy ===== *)
theory Election
  imports Cluster
begin

text \<open>
  The election of a namespace's active \<open>PodMigration\<close> (\<open>util/podmigration.go\<close>).

  The order \<open>podMigrationPrecedes\<close> interprets the \<open>precedence\<close> interface, so the winner
  does not depend on the order in which the API server lists the objects.
\<close>

section \<open>Definitions\<close>

definition podMigrationPrecedes :: "podMigration \<Rightarrow> podMigration \<Rightarrow> bool" where
  "podMigrationPrecedes a b =
     (if pm_CreationTimestamp a \<noteq> pm_CreationTimestamp b
      then pm_CreationTimestamp a < pm_CreationTimestamp b
      else pm_Name a < pm_Name b)"

definition better :: "podMigration \<Rightarrow> podMigration option \<Rightarrow> bool" where
  "better candidate cur = (case cur of None \<Rightarrow> True | Some b \<Rightarrow> podMigrationPrecedes candidate b)"

text \<open>The loop, with its two running bests: the deleting owner, and the active candidate.\<close>

fun selectLoop :: "podMigration list \<Rightarrow> podMigration option \<Rightarrow> podMigration option \<Rightarrow> podMigration option" where
  "selectLoop [] deletingWithFinalizer active =
     (case deletingWithFinalizer of Some d \<Rightarrow> Some d | None \<Rightarrow> active)"
| "selectLoop (candidate # items) deletingWithFinalizer active =
     (if pm_DeletionTimestamp candidate \<noteq> None
      then (if StorageCleanupFinalizer \<in> set (pm_Finalizers candidate) \<and> better candidate deletingWithFinalizer
            then selectLoop items (Some candidate) active
            else selectLoop items deletingWithFinalizer active)
      else if better candidate active
      then selectLoop items deletingWithFinalizer (Some candidate)
      else selectLoop items deletingWithFinalizer active)"

definition SelectActivePodMigration :: "podMigration list \<Rightarrow> podMigration option" where
  "SelectActivePodMigration items = selectLoop items None None"

definition ActivePodMigration :: "reader \<Rightarrow> (api_error + podMigration option) io" where
  "ActivePodMigration rd = do {
     l \<leftarrow> list_podmigrations rd;
     State_Monad.return (case l of Inl e \<Rightarrow> Inl e | Inr items \<Rightarrow> Inr (SelectActivePodMigration items))
   }"

text \<open>The two groups the election ranks, the first one before the second.\<close>

definition deletingOwners :: "podMigration list \<Rightarrow> podMigration list" where
  "deletingOwners items =
     filter (\<lambda>m. pm_DeletionTimestamp m \<noteq> None \<and> StorageCleanupFinalizer \<in> set (pm_Finalizers m)) items"

definition liveMigrations :: "podMigration list \<Rightarrow> podMigration list" where
  "liveMigrations items = filter (\<lambda>m. pm_DeletionTimestamp m = None) items"

section \<open>Lemmas\<close>

interpretation pm: precedence podMigrationPrecedes pm_Name
  by unfold_locales (auto simp: podMigrationPrecedes_def split: if_splits)

lemma elect_Cons:
  "elect podMigrationPrecedes cur (m # ms) = elect podMigrationPrecedes (if better m cur then Some m else cur) ms"
  by (cases cur) (auto simp: better_def)

lemma deletingOwners_Cons:
  "deletingOwners (m # ms) =
     (if pm_DeletionTimestamp m \<noteq> None \<and> StorageCleanupFinalizer \<in> set (pm_Finalizers m)
      then m # deletingOwners ms else deletingOwners ms)"
  by (simp add: deletingOwners_def)

lemma liveMigrations_Cons:
  "liveMigrations (m # ms) = (if pm_DeletionTimestamp m = None then m # liveMigrations ms else liveMigrations ms)"
  by (simp add: liveMigrations_def)

text \<open>The one-pass loop is two elections, one per group.\<close>

lemma selectLoop_elect:
  "selectLoop items d a =
     (case elect podMigrationPrecedes d (deletingOwners items) of
        Some x \<Rightarrow> Some x
      | None \<Rightarrow> elect podMigrationPrecedes a (liveMigrations items))"
proof (induction items arbitrary: d a)
  case (Cons m items)
  then show ?case
    by (cases "pm_DeletionTimestamp m")
      (simp_all add: deletingOwners_Cons liveMigrations_Cons elect_Cons cong: option.case_cong)
qed (simp add: deletingOwners_def liveMigrations_def split: option.splits)

lemma select_elect:
  "SelectActivePodMigration items =
     (case elect podMigrationPrecedes None (deletingOwners items) of
        Some x \<Rightarrow> Some x
      | None \<Rightarrow> elect podMigrationPrecedes None (liveMigrations items))"
  by (simp add: SelectActivePodMigration_def selectLoop_elect)

text \<open>
  C29 (functional). Exactly one \<open>PodMigration\<close> is active, and it is the right one: if a
  deleting one still holds the storage-cleanup finalizer, the winner is the oldest of those
  (then the first by name); otherwise it is the oldest live one; and there is no winner only
  if there is no candidate. The winner is the same in whatever order the objects are listed.
\<close>

theorem active_podmigration_elected:
  assumes names: "inj_on pm_Name (set items)" and same: "set items' = set items"
  shows "SelectActivePodMigration items' = SelectActivePodMigration items \<and>
         (case SelectActivePodMigration items of
            None \<Rightarrow> deletingOwners items = [] \<and> liveMigrations items = []
          | Some win \<Rightarrow> (let group = (if deletingOwners items \<noteq> [] then deletingOwners items else liveMigrations items)
                         in win \<in> set group \<and> (\<forall>m \<in> set group. m = win \<or> podMigrationPrecedes win m)))"
proof -
  have injd: "inj_on pm_Name (set (deletingOwners items))" and injl: "inj_on pm_Name (set (liveMigrations items))"
    using names by (auto simp: deletingOwners_def liveMigrations_def intro: inj_on_subset)
  have "set (deletingOwners items') = set (deletingOwners items)" "set (liveMigrations items') = set (liveMigrations items)"
    using same by (auto simp: deletingOwners_def liveMigrations_def)
  then have "SelectActivePodMigration items' = SelectActivePodMigration items"
    using pm.elect_order_irrelevant [of "deletingOwners items" "deletingOwners items'"]
      pm.elect_order_irrelevant [of "liveMigrations items" "liveMigrations items'"] injd injl
    unfolding select_elect by (simp cong: option.case_cong)
  moreover have "case elect podMigrationPrecedes None g of None \<Rightarrow> g = []
      | Some win \<Rightarrow> win \<in> set g \<and> (\<forall>m \<in> set g. m = win \<or> podMigrationPrecedes win m)"
    if "inj_on pm_Name (set g)" for g
    using pm.elect_winner [of g] pm.elect_None [of g] that by (auto split: option.splits)
  note this [OF injd] this [OF injl]
  ultimately show ?thesis
    unfolding select_elect by (auto simp: Let_def pm.elect_None split: option.splits)
qed

definition samplePM :: "string \<Rightarrow> time \<Rightarrow> podMigration" where
  "samplePM n t = \<lparr>pm_Name = n, pm_Namespace = ''ns'', pm_UID = n, pm_ResourceVersion = 1, pm_Generation = 1, pm_Annotations = Map.empty, pm_Finalizers = [],
     pm_CreationTimestamp = t, pm_DeletionTimestamp = None, pm_StorageLocation = [], pm_Conditions = []\<rparr>"

lemma active_podmigration_elected_witness:
  "SelectActivePodMigration [samplePM ''b'' 5, samplePM ''a'' 5, samplePM ''c'' 7] = Some (samplePM ''a'' 5) \<and>
   SelectActivePodMigration [samplePM ''c'' 7, samplePM ''b'' 5, samplePM ''a'' 5] = Some (samplePM ''a'' 5)"
proof -
  have "SelectActivePodMigration [samplePM ''c'' 7, samplePM ''b'' 5, samplePM ''a'' 5] =
        SelectActivePodMigration [samplePM ''b'' 5, samplePM ''a'' 5, samplePM ''c'' 7]"
    by (rule active_podmigration_elected [THEN conjunct1]) (auto simp: samplePM_def)
  moreover have "SelectActivePodMigration [samplePM ''b'' 5, samplePM ''a'' 5, samplePM ''c'' 7] = Some (samplePM ''a'' 5)"
    by (simp add: SelectActivePodMigration_def samplePM_def better_def podMigrationPrecedes_def)
  ultimately show ?thesis by simp
qed

end
