(* ===== verification/Scenario.thy ===== *)
theory Scenario
  imports Cluster Sample
begin

text \<open>
  Concrete pods, jobs and clusters on which the theorems with hypotheses are exercised.
\<close>

section \<open>Definitions\<close>

definition podOf :: "string \<Rightarrow> string \<Rightarrow> pod" where
  "podOf name uid = \<lparr>pod_Name = name, pod_Namespace = ''ns'', pod_GenerateName = [], pod_UID = uid,
     pod_ResourceVersion = 1, pod_Labels = Map.empty, pod_Annotations = Map.empty, pod_OwnerReferences = [],
     pod_CreationTimestamp = 1, pod_DeletionTimestamp = None, pod_DeletionGracePeriodSeconds = None,
     pod_NodeName = ''n1'', pod_RuntimeClassName = Some ''gvisor'', pod_SchedulingGates = [], pod_ReadinessGates = [],
     pod_Containers = [], pod_InitContainers = [], pod_VolumeClaims = [], pod_Phase = PodRunning,
     pod_Reason = [], pod_Message = [], pod_Conditions = [], pod_ContainerStatuses = [], pod_InitContainerStatuses = []\<rparr>"

definition statusOf :: "phase \<Rightarrow> pmj_status" where
  "statusOf ph = \<lparr>st_Phase = ph, st_SnapshotRef = [], st_PVsToDetach = [], st_OriginNodeName = [],
     st_CompletionTime = None, st_SnapshottingStartTime = None, st_EvictingStartTime = None,
     st_RestoringStartTime = None, st_Consumed = False, st_RestoredPodUID = [], st_RestoredPodName = [],
     st_GateReleased = False, st_Conditions = []\<rparr>"

definition jobOf :: "string \<Rightarrow> string \<Rightarrow> string \<Rightarrow> phase \<Rightarrow> pmj" where
  "jobOf name podRef uid ph = \<lparr>pmj_Name = name, pmj_Namespace = ''ns'', pmj_UID = name, pmj_ResourceVersion = 1,
     pmj_Generation = 1, pmj_Labels = Map.empty, pmj_Annotations = Map.empty, pmj_Finalizers = [], pmj_OwnerReferences = [],
     pmj_CreationTimestamp = 1, pmj_DeletionTimestamp = None, pmj_PodRefName = podRef, pmj_TargetPodUID = uid,
     pmj_Status = statusOf ph\<rparr>"

definition clusterOf :: "pod list \<Rightarrow> pmj list \<Rightarrow> cluster" where
  "clusterOf pods jobs = \<lparr>cl_pods = pods, cl_jobs = jobs, cl_nodes = [], cl_pvcs = [], cl_vas = [], cl_pdbs = [],
     cl_replicasets = [], cl_deployments = [], cl_statefulsets = [], cl_podmigrations = [], cl_triggers = [],
     cl_snapshots = [], cl_policies = [], cl_resources = [], cl_events = []\<rparr>"

definition worldOf :: "cluster \<Rightarrow> world" where
  "worldOf c = \<lparr>w_now = 100 * second, w_cache = c, w_live = c, w_fault = (\<lambda>_. Served), w_calls = 0, w_log = [],
     w_probes = Map.empty, w_reserved = (\<lambda>_. []), w_processed = Map.empty, w_newUID = (\<lambda>n. ''uid-'' @ showInt (int n))\<rparr>"

section \<open>Lemmas\<close>

lemmas scenario_defs = podOf_def statusOf_def jobOf_def clusterOf_def worldOf_def

lemma worldOf_honest [simp]: "honest (worldOf c)"
  by (simp add: honest_def worldOf_def)

lemma worldOf_log [simp]: "w_log (worldOf c) = []"
  by (simp add: worldOf_def)

lemma worldOf_live [simp]: "w_live (worldOf c) = c" "w_cache (worldOf c) = c" "view rd (worldOf c) = c"
  by (simp_all add: worldOf_def view_def split: reader.splits)

end
