(* ===== verification/Assignment.thy ===== *)
theory Assignment
  imports Scenario
begin

text \<open>
  Which migration job a new pod belongs to (\<open>util/assignment.go\<close>).

  The eviction and replacement webhooks and the pod gate all use these functions: they find
  the workload that owns a pod, the replica identity of an operator-owned pod, the active job
  a replacement may adopt, and the winner when two pods claim one job. The readers are
  explicit, so a result speaks about the cache or the API server that was read.
\<close>

section \<open>Definitions\<close>

subsection \<open>Owners and replica identity\<close>

record parent =
  pa_Name :: string
  pa_Kind :: string
  pa_UID :: string

definition noParent :: parent where
  "noParent = \<lparr>pa_Name = [], pa_Kind = [], pa_UID = []\<rparr>"

fun resolveOwners :: "reader \<Rightarrow> owner_ref list \<Rightarrow> owner_ref option \<Rightarrow> (api_error + parent) io" where
  "resolveOwners rd [] fallback =
     State_Monad.return (Inr (case fallback of
        None \<Rightarrow> noParent
      | Some ref \<Rightarrow> \<lparr>pa_Name = or_Name ref, pa_Kind = or_Kind ref, pa_UID = or_UID ref\<rparr>))"
| "resolveOwners rd (ref # refs) fallback =
     (if or_Kind ref = ''ReplicaSet'' then do {
        rs \<leftarrow> get_replicaset rd (or_Name ref);
        State_Monad.return (case rs of
          Inl e \<Rightarrow> Inl e
        | Inr s \<Rightarrow> (case find (\<lambda>x. or_Kind x = ''Deployment'') (wl_OwnerReferences s) of
              Some d \<Rightarrow> Inr \<lparr>pa_Name = or_Name d, pa_Kind = ''Deployment'', pa_UID = or_UID d\<rparr>
            | None \<Rightarrow> Inr \<lparr>pa_Name = wl_Name s, pa_Kind = ''ReplicaSet'', pa_UID = wl_UID s\<rparr>))
      }
      else if or_Kind ref = ''Job'' \<or> or_Kind ref = ''StatefulSet''
      then State_Monad.return (Inr \<lparr>pa_Name = or_Name ref, pa_Kind = or_Kind ref, pa_UID = or_UID ref\<rparr>)
      else resolveOwners rd refs (if or_Controller ref = Some True then Some ref else fallback))"

definition ResolveParentWorkload :: "reader \<Rightarrow> pod \<Rightarrow> (api_error + parent) io" where
  "ResolveParentWorkload rd p = resolveOwners rd (pod_OwnerReferences p) None"

definition IsBuiltInWorkloadKind :: "string \<Rightarrow> bool" where
  "IsBuiltInWorkloadKind kind =
     (kind = ''Deployment'' \<or> kind = ''ReplicaSet'' \<or> kind = ''StatefulSet'' \<or> kind = ''Job'' \<or> kind = [])"

definition ResolveOperatorReplicaKey :: "pod \<Rightarrow> string \<Rightarrow> string option" where
  "ResolveOperatorReplicaKey p parentKind =
     (let byLabel = mget (pod_Labels p) LabelReplicaKey;
          byAnnotation = mget (pod_Annotations p) AnnotationReplicaIdentityKey;
          hash = mget (pod_Labels p) DefaultDeploymentUniqueLabelKey;
          grp = mget (pod_Labels p) ''ray.io/group'';
          nodeType = mget (pod_Labels p) ''ray.io/node-type''
      in if byLabel \<noteq> [] then Some byLabel
         else if byAnnotation \<noteq> [] then Some byAnnotation
         else if hash \<noteq> [] then Some (''pod-template-hash='' @ hash)
         else if parentKind = ''RayCluster'' \<and> grp \<noteq> []
         then Some (if nodeType \<noteq> [] then ''ray.io/group='' @ grp @ '',ray.io/node-type='' @ nodeType
                    else ''ray.io/group='' @ grp)
         else if pod_GenerateName p = [] \<and> pod_Name p \<noteq> [] then Some (''pod-name='' @ pod_Name p)
         else None)"

definition JobReplicaIdentityKey :: "pmj \<Rightarrow> string" where
  "JobReplicaIdentityKey job =
     (let k = mget (pmj_Annotations job) AnnotationReplicaIdentityKey;
          hash = mget (pmj_Labels job) LabelPodTemplateHash
      in if k \<noteq> [] then k else if hash \<noteq> [] then ''pod-template-hash='' @ hash else [])"

text \<open>A pod that is terminating or in a terminal phase counts as gone.\<close>

definition isSourcePodAlive :: "pod \<Rightarrow> bool" where
  "isSourcePodAlive p =
     (pod_DeletionTimestamp p = None \<and> pod_Phase p \<noteq> PodFailed \<and> pod_Phase p \<noteq> PodSucceeded)"

definition isChildOf :: "parent \<Rightarrow> pod \<Rightarrow> bool" where
  "isChildOf pa p = list_ex (\<lambda>ref. or_Kind ref = pa_Kind pa \<and> or_Name ref = pa_Name pa \<and>
     (pa_UID pa = [] \<or> or_UID ref = [] \<or> or_UID ref = pa_UID pa)) (pod_OwnerReferences p)"

definition isAmbiguousSibling :: "parent \<Rightarrow> string \<Rightarrow> string list \<Rightarrow> pod \<Rightarrow> bool" where
  "isAmbiguousSibling pa replicaKey excluded p =
     (\<not> (pod_UID p \<noteq> [] \<and> pod_UID p \<in> set excluded \<or> pod_Name p \<noteq> [] \<and> pod_Name p \<in> set excluded) \<and>
      isSourcePodAlive p \<and> isChildOf pa p \<and>
      ResolveOperatorReplicaKey p (pa_Kind pa) = Some replicaKey)"

definition HasAmbiguousOperatorSibling :: "reader \<Rightarrow> parent \<Rightarrow> string \<Rightarrow> string list \<Rightarrow> (api_error + (bool \<times> string)) io" where
  "HasAmbiguousOperatorSibling rd pa replicaKey excludePodUIDs =
     (if replicaKey = [] \<or> pa_Name pa = [] \<or> pa_Kind pa = [] then State_Monad.return (Inr (False, []))
      else do {
        l \<leftarrow> list_pods rd;
        State_Monad.return (case l of
          Inl e \<Rightarrow> Inl e
        | Inr pods \<Rightarrow> (case find (isAmbiguousSibling pa replicaKey excludePodUIDs) pods of
              Some p \<Rightarrow> Inr (True, pod_Name p)
            | None \<Rightarrow> Inr (False, [])))
      })"

definition activeWithReplicaKey :: "parent \<Rightarrow> string \<Rightarrow> string \<Rightarrow> pmj \<Rightarrow> bool" where
  "activeWithReplicaKey pa replicaKey excludePMJName job =
     (pmj_Name job \<noteq> excludePMJName \<and> \<not> st_Consumed (pmj_Status job) \<and>
      st_Phase (pmj_Status job) \<noteq> PhaseFailed \<and> st_Phase (pmj_Status job) \<noteq> PhaseSucceededWithoutRestore \<and>
      mget (pmj_Labels job) LabelParentName = pa_Name pa \<and> mget (pmj_Labels job) LabelParentKind = pa_Kind pa \<and>
      JobReplicaIdentityKey job = replicaKey)"

definition HasActivePMJWithReplicaKey :: "reader \<Rightarrow> parent \<Rightarrow> string \<Rightarrow> string \<Rightarrow> (api_error + (bool \<times> string)) io" where
  "HasActivePMJWithReplicaKey rd pa replicaKey excludePMJName =
     (if replicaKey = [] \<or> pa_Name pa = [] \<or> pa_Kind pa = [] then State_Monad.return (Inr (False, []))
      else do {
        l \<leftarrow> list_jobs rd;
        State_Monad.return (case l of
          Inl e \<Rightarrow> Inl e
        | Inr jobs \<Rightarrow> (case find (activeWithReplicaKey pa replicaKey excludePMJName) jobs of
              Some j \<Rightarrow> Inr (True, pmj_Name j)
            | None \<Rightarrow> Inr (False, [])))
      })"

subsection \<open>Candidates\<close>

record podIdentity =
  pi_PodName :: string
  pi_PodTemplateHash :: string
  pi_JobCompletionIndex :: string
  pi_ReplicaKey :: string

text \<open>The parent checks of one round of \<open>filterCandidates\<close>'s loop.\<close>

definition matchesParent :: "parent \<Rightarrow> podIdentity \<Rightarrow> pmj \<Rightarrow> bool" where
  "matchesParent pa pid job =
     (let lbl = mget (pmj_Labels job) in
      if pa_Name pa = [] then pmj_PodRefName job = pi_PodName pid \<and> lbl LabelParentName = []
      else lbl LabelParentName = pa_Name pa \<and> lbl LabelParentKind = pa_Kind pa \<and>
           \<not> (pa_UID pa \<noteq> [] \<and> lbl LabelParentUID \<noteq> [] \<and> lbl LabelParentUID \<noteq> pa_UID pa) \<and>
           \<not> (pa_Kind pa = ''Deployment'' \<and> lbl LabelPodTemplateHash \<noteq> pi_PodTemplateHash pid) \<and>
           \<not> (pa_Kind pa = ''Job'' \<and> pi_JobCompletionIndex pid \<noteq> [] \<and> lbl LabelJobCompletionIndex \<noteq> pi_JobCompletionIndex pid) \<and>
           \<not> (pa_Kind pa = ''StatefulSet'' \<and> pmj_PodRefName job \<noteq> pi_PodName pid) \<and>
           (IsBuiltInWorkloadKind (pa_Kind pa) \<or>
            (pi_ReplicaKey pid \<noteq> [] \<and> JobReplicaIdentityKey job = pi_ReplicaKey pid)))"

definition candidatePhaseRank :: "phase \<Rightarrow> nat" where
  "candidatePhaseRank ph = (case ph of PhaseEvicting \<Rightarrow> 0 | PhaseRestoring \<Rightarrow> 1 | _ \<Rightarrow> 2)"

definition isCandidate :: "parent \<Rightarrow> podIdentity \<Rightarrow> pmj \<Rightarrow> bool" where
  "isCandidate pa pid job =
     (\<not> st_Consumed (pmj_Status job) \<and> matchesParent pa pid job \<and>
      (st_Phase (pmj_Status job) = PhaseSnapshotting \<or> st_Phase (pmj_Status job) = PhaseEvicting \<or>
       st_Phase (pmj_Status job) = PhaseRestoring))"

definition rankLess :: "pmj \<Rightarrow> pmj \<Rightarrow> bool" where
  "rankLess a b = (candidatePhaseRank (st_Phase (pmj_Status a)) < candidatePhaseRank (st_Phase (pmj_Status b)))"

definition filterCandidates :: "pmj list \<Rightarrow> parent \<Rightarrow> podIdentity \<Rightarrow> pmj list" where
  "filterCandidates jobs pa pid =
     (let candidates = filter (isCandidate pa pid) jobs in
      if \<not> IsBuiltInWorkloadKind (pa_Kind pa) \<and> pi_ReplicaKey pid \<noteq> [] \<and>
         length (filter (\<lambda>c. JobReplicaIdentityKey c = pi_ReplicaKey pid) candidates) > 1
      then []
      else sort_by rankLess candidates)"

definition requiresSourceGone :: "phase \<Rightarrow> bool" where
  "requiresSourceGone ph = (ph = PhaseEvicting \<or> ph = PhaseSnapshotting)"

definition barePod :: "podIdentity \<Rightarrow> podIdentity" where
  "barePod pid = \<lparr>pi_PodName = pi_PodName pid, pi_PodTemplateHash = [], pi_JobCompletionIndex = [], pi_ReplicaKey = []\<rparr>"

text \<open>Whether the candidates of a pre-upgrade controller, recorded as bare pods, are tried.\<close>

definition triesBare :: "parent \<Rightarrow> podIdentity \<Rightarrow> pmj list \<Rightarrow> bool" where
  "triesBare pa pid candidates =
     (candidates = [] \<and> \<not> IsBuiltInWorkloadKind (pa_Kind pa) \<and> hasPrefix (pi_ReplicaKey pid) ''pod-name='')"

definition isPMJAssignedToPod :: "reader \<Rightarrow> string \<Rightarrow> (api_error + bool) io" where
  "isPMJAssignedToPod rd pmjName = do {
     l \<leftarrow> list_pods_assigned rd pmjName;
     State_Monad.return (case l of Inl e \<Rightarrow> Inl e | Inr pods \<Rightarrow> Inr (pods \<noteq> []))
   }"

definition ambiguityCheck :: "reader \<Rightarrow> parent \<Rightarrow> podIdentity \<Rightarrow> pmj \<Rightarrow> (api_error + bool) io" where
  "ambiguityCheck rd pa pid job =
     (if \<not> IsBuiltInWorkloadKind (pa_Kind pa) \<and> pi_ReplicaKey pid \<noteq> [] then do {
        a \<leftarrow> HasAmbiguousOperatorSibling rd pa (pi_ReplicaKey pid)
               [pmj_TargetPodUID job, pmj_PodRefName job, pi_PodName pid];
        State_Monad.return (case a of Inl e \<Rightarrow> Inl e | Inr (b, _) \<Rightarrow> Inr b)
      }
      else State_Monad.return (Inr False))"

text \<open>
  Whether the source still holds the candidate back, on the indexed path: it is alive and is
  the job's target, or it cannot be read.
\<close>

definition sourceHolds :: "reader \<Rightarrow> pmj \<Rightarrow> bool io" where
  "sourceHolds rd job =
     (if requiresSourceGone (st_Phase (pmj_Status job)) \<and> pmj_PodRefName job \<noteq> [] then do {
        g \<leftarrow> get_pod rd (pmj_PodRefName job);
        State_Monad.return (case g of
          Inr originPod \<Rightarrow> isSourcePodAlive originPod \<and>
             (pmj_TargetPodUID job = [] \<or> pod_UID originPod = pmj_TargetPodUID job)
        | Inl e \<Rightarrow> \<not> isNotFound e)
      }
      else State_Monad.return False)"

fun pickIndexed :: "reader \<Rightarrow> parent \<Rightarrow> podIdentity \<Rightarrow> pmj list \<Rightarrow> (api_error + string) io" where
  "pickIndexed rd pa pid [] = State_Monad.return (Inr [])"
| "pickIndexed rd pa pid (job # jobs) = do {
     amb \<leftarrow> ambiguityCheck rd pa pid job;
     (case amb of
        Inl e \<Rightarrow> State_Monad.return (Inl e)
      | Inr True \<Rightarrow> State_Monad.return (Inr [])
      | Inr False \<Rightarrow> do {
          held \<leftarrow> sourceHolds rd job;
          (if held then pickIndexed rd pa pid jobs
           else do {
             a \<leftarrow> isPMJAssignedToPod rd (pmj_Name job);
             (case a of
                Inl e \<Rightarrow> State_Monad.return (Inl e)
              | Inr assigned \<Rightarrow>
                  if \<not> assigned then State_Monad.return (Inr (pmj_Name job)) else pickIndexed rd pa pid jobs)
           })
        })
   }"

definition findIndexed :: "reader \<Rightarrow> parent \<Rightarrow> podIdentity \<Rightarrow> (api_error + string) io" where
  "findIndexed rd pa pid =
     (let parentKey = FormatParentKey (pa_Name pa) (pa_Kind pa) (pi_PodName pid) in
      if parentKey = [] then State_Monad.return (Inr [])
      else do {
        l \<leftarrow> list_jobs_parent rd parentKey;
        (case l of
           Inl e \<Rightarrow> State_Monad.return (Inl e)
         | Inr jobs \<Rightarrow>
             let candidates = filterCandidates jobs pa pid in
             if triesBare pa pid candidates then do {
               b \<leftarrow> list_jobs_parent rd (pi_PodName pid @ ''/Pod'');
               pickIndexed rd pa pid
                 (case b of Inl _ \<Rightarrow> candidates | Inr bare \<Rightarrow> filterCandidates bare noParent (barePod pid))
             }
             else pickIndexed rd pa pid candidates)
      })"

subsection \<open>The live-reader path\<close>

definition originExists :: "pod list \<Rightarrow> pmj \<Rightarrow> bool" where
  "originExists pods job =
     (if pmj_TargetPodUID job \<noteq> [] then list_ex (\<lambda>p. isSourcePodAlive p \<and> pod_UID p = pmj_TargetPodUID job) pods
      else pmj_PodRefName job \<noteq> [] \<and> list_ex (\<lambda>p. isSourcePodAlive p \<and> pod_Name p = pmj_PodRefName job) pods)"

fun pickLive :: "reader \<Rightarrow> parent \<Rightarrow> podIdentity \<Rightarrow> pod list \<Rightarrow> pmj list \<Rightarrow> (api_error + string) io" where
  "pickLive rd pa pid pods [] = State_Monad.return (Inr [])"
| "pickLive rd pa pid pods (job # jobs) = do {
     amb \<leftarrow> ambiguityCheck rd pa pid job;
     (case amb of
        Inl e \<Rightarrow> State_Monad.return (Inl e)
      | Inr True \<Rightarrow> State_Monad.return (Inr [])
      | Inr False \<Rightarrow>
          if requiresSourceGone (st_Phase (pmj_Status job)) \<and> originExists pods job
          then pickLive rd pa pid pods jobs
          else if list_ex (\<lambda>p. pod_Annotations p AnnotationAssignedPMJ = Some (pmj_Name job)) pods
          then pickLive rd pa pid pods jobs
          else State_Monad.return (Inr (pmj_Name job)))
   }"

definition findLive :: "reader \<Rightarrow> parent \<Rightarrow> podIdentity \<Rightarrow> (api_error + string) io" where
  "findLive rd pa pid = do {
     l \<leftarrow> list_jobs rd;
     (case l of
        Inl e \<Rightarrow> State_Monad.return (Inl e)
      | Inr jobs \<Rightarrow>
          let c0 = filterCandidates jobs pa pid;
              candidates = (if triesBare pa pid c0 then filterCandidates jobs noParent (barePod pid) else c0)
          in if candidates = [] then State_Monad.return (Inr [])
             else do {
               ps \<leftarrow> list_pods_label rd LabelEnabled ''true'';
               (case ps of
                  Inl e \<Rightarrow> State_Monad.return (Inl e)
                | Inr pods \<Rightarrow> pickLive rd pa pid pods candidates)
             })
   }"

definition FindUnassignedActivePMJ :: "reader \<Rightarrow> parent \<Rightarrow> podIdentity \<Rightarrow> bool \<Rightarrow> (api_error + string) io" where
  "FindUnassignedActivePMJ rd pa pid indexed = (if indexed then findIndexed rd pa pid else findLive rd pa pid)"

subsection \<open>Collisions\<close>

definition contenderPrecedes :: "pod \<Rightarrow> pod \<Rightarrow> bool" where
  "contenderPrecedes a b =
     (if pod_CreationTimestamp a = pod_CreationTimestamp b then pod_Name a < pod_Name b
      else pod_CreationTimestamp a < pod_CreationTimestamp b)"

definition podIdentityOf :: "pod \<Rightarrow> string \<Rightarrow> podIdentity" where
  "podIdentityOf p parentKind = \<lparr>
     pi_PodName = pod_Name p,
     pi_PodTemplateHash = mget (pod_Labels p) DefaultDeploymentUniqueLabelKey,
     pi_JobCompletionIndex = mget (pod_Labels p) LabelJobCompletionIndex,
     pi_ReplicaKey = (if IsBuiltInWorkloadKind parentKind then []
                      else case ResolveOperatorReplicaKey p parentKind of None \<Rightarrow> [] | Some k \<Rightarrow> k)\<rparr>"

definition contendersOf :: "pmj \<Rightarrow> pod list \<Rightarrow> pod list" where
  "contendersOf job pods = filter (\<lambda>p. pod_UID p \<noteq> pmj_TargetPodUID job) pods"

definition ResolveCollision :: "reader \<Rightarrow> pod \<Rightarrow> string \<Rightarrow> parent \<Rightarrow> (api_error + (string \<times> bool)) io" where
  "ResolveCollision rd p assignedPMJ pa = do {
     g \<leftarrow> get_job rd assignedPMJ;
     (case g of
        Inl e \<Rightarrow> State_Monad.return (if isNotFound e then Inr (assignedPMJ, False) else Inl e)
      | Inr job \<Rightarrow> do {
          l \<leftarrow> list_pods_assigned rd assignedPMJ;
          (case l of
             Inl e \<Rightarrow> State_Monad.return (Inl e)
           | Inr pods \<Rightarrow>
               let contenders = contendersOf job pods in
               if length contenders \<le> 1 then State_Monad.return (Inr (assignedPMJ, False))
               else if pod_UID (hd (sort_by contenderPrecedes contenders)) = pod_UID p
               then State_Monad.return (Inr (assignedPMJ, False))
               else do {
                 alt \<leftarrow> FindUnassignedActivePMJ rd pa (podIdentityOf p (pa_Kind pa)) True;
                 State_Monad.return (case alt of
                   Inl e \<Rightarrow> Inl e
                 | Inr altPMJ \<Rightarrow> Inr (altPMJ, True))
               })
        })
   }"

subsection \<open>What an adopted job must satisfy\<close>

definition holdsBack :: "bool \<Rightarrow> pod list \<Rightarrow> pmj \<Rightarrow> bool" where
  "holdsBack indexed pods job =
     (requiresSourceGone (st_Phase (pmj_Status job)) \<and>
      (if indexed
       then pmj_PodRefName job \<noteq> [] \<and>
            (case store_get pod_Name pods (pmj_PodRefName job) of
               None \<Rightarrow> False
             | Some p \<Rightarrow> isSourcePodAlive p \<and> (pmj_TargetPodUID job = [] \<or> pod_UID p = pmj_TargetPodUID job))
       else originExists pods job))"

definition claimedBy :: "pod \<Rightarrow> string \<Rightarrow> bool" where
  "claimedBy p name = (pod_Annotations p AnnotationAssignedPMJ = Some name)"

definition adoptable :: "bool \<Rightarrow> cluster \<Rightarrow> parent \<Rightarrow> podIdentity \<Rightarrow> pmj \<Rightarrow> bool" where
  "adoptable indexed c pa pid job =
     (let pods = (if indexed then cl_pods c else filter (\<lambda>p. pod_Labels p LabelEnabled = Some ''true'') (cl_pods c)) in
      (isCandidate pa pid job \<or> isCandidate noParent (barePod pid) job) \<and>
      \<not> holdsBack indexed pods job \<and> \<not> list_ex (\<lambda>p. claimedBy p (pmj_Name job)) pods)"

section \<open>Lemmas\<close>

lemma reads_resolveOwners: "onlyReads (resolveOwners rd refs fb)"
  by (induction rd refs fb rule: resolveOwners.induct) (auto intro!: reads_rules)

lemma reads_ResolveParent [reads_rules]: "onlyReads (ResolveParentWorkload rd p)"
  by (simp add: ResolveParentWorkload_def reads_resolveOwners)

lemma reads_replicaKeys [reads_rules]:
  "onlyReads (HasAmbiguousOperatorSibling rd pa key ex)" "onlyReads (HasActivePMJWithReplicaKey rd pa key name)"
  by (auto simp: HasAmbiguousOperatorSibling_def HasActivePMJWithReplicaKey_def intro!: reads_rules)

interpretation contender: precedence contenderPrecedes pod_Name
  by unfold_locales (auto simp: contenderPrecedes_def split: if_splits)

lemma set_filterCandidates: "job \<in> set (filterCandidates jobs pa pid) \<Longrightarrow> job \<in> set jobs \<and> isCandidate pa pid job"
  by (auto simp: filterCandidates_def Let_def split: if_splits)

lemma index_claimed: "name \<noteq> [] \<Longrightarrow> name \<in> set (PodAssignedPMJIndexValue p) \<longleftrightarrow> claimedBy p name"
  by (auto simp: PodAssignedPMJIndexValue_def claimedBy_def mget_def Let_def split: option.splits)

lemma wp_ambiguityCheckI:
  assumes "\<And>r n. Q r (w\<lparr>w_calls := n\<rparr>)"
  shows "wp (ambiguityCheck rd pa pid job) Q w"
  using assms [of _ "w_calls w"] unfolding ambiguityCheck_def HasAmbiguousOperatorSibling_def list_pods_def
  by (auto simp: wp_simps intro!: wp_readI assms)

lemma wp_sourceHoldsI:
  assumes h: "honest w"
    and Q: "\<And>b n. (\<not> b \<Longrightarrow> \<not> holdsBack True (cl_pods (view rd w)) job) \<Longrightarrow> Q b (w\<lparr>w_calls := n\<rparr>)"
  shows "wp (sourceHolds rd job) Q w"
proof (cases "requiresSourceGone (st_Phase (pmj_Status job)) \<and> pmj_PodRefName job \<noteq> []")
  case True
  show ?thesis
    unfolding sourceHolds_def get_pod_def if_P [OF True] wp_bind wp_return
    using True
    by (intro wp_read_honestI [OF h] Q)
      (auto simp: holdsBack_def found_def denial_def isNotFound_def err_def split: option.splits)
next
  case False
  then have "\<not> holdsBack True (cl_pods (view rd w)) job" by (auto simp: holdsBack_def)
  then show ?thesis
    unfolding sourceHolds_def if_not_P [OF False] wp_return
    using Q [of False "w_calls w"] by simp
qed

lemma wp_isAssignedI:
  assumes "\<And>e n. Q (Inl e) (w\<lparr>w_calls := n\<rparr>)"
    and "\<And>n. Q (Inr (list_ex (\<lambda>p. name \<in> set (PodAssignedPMJIndexValue p)) (cl_pods (view rd w)))) (w\<lparr>w_calls := n\<rparr>)"
  shows "wp (isPMJAssignedToPod rd name) Q w"
proof -
  have "filter P xs \<noteq> [] \<longleftrightarrow> list_ex P xs" for P and xs :: "pod list"
    by (induction xs) auto
  with assms show ?thesis
    unfolding isPMJAssignedToPod_def list_pods_assigned_def wp_bind wp_return
    by (intro wp_read_callI) auto
qed

lemma wp_pickIndexedI:
  assumes "honest w"
    and "\<And>e n. Q (Inl e) (w\<lparr>w_calls := n\<rparr>)"
    and "\<And>n. Q (Inr []) (w\<lparr>w_calls := n\<rparr>)"
    and "\<And>job n. job \<in> set cs \<Longrightarrow> \<not> holdsBack True (cl_pods (view rd w)) job \<Longrightarrow>
           \<not> list_ex (\<lambda>p. pmj_Name job \<in> set (PodAssignedPMJIndexValue p)) (cl_pods (view rd w)) \<Longrightarrow>
           Q (Inr (pmj_Name job)) (w\<lparr>w_calls := n\<rparr>)"
  shows "wp (pickIndexed rd pa pid cs) Q w"
  using assms
proof (induction cs arbitrary: w)
  case (Cons job jobs)
  have IH: "wp (pickIndexed rd pa pid jobs) Q (w\<lparr>w_calls := n\<rparr>)" for n
    using Cons.prems by (intro Cons.IH) auto
  show ?case
    using Cons.prems
    by (auto simp: wp_simps intro!: wp_ambiguityCheckI wp_sourceHoldsI wp_isAssignedI IH split: sum.splits bool.splits)
next
  case Nil
  then show ?case using Nil(3) [of "w_calls w"] by (simp add: wp_simps)
qed

lemma wp_pickLiveI:
  assumes "\<And>e n. Q (Inl e) (w\<lparr>w_calls := n\<rparr>)"
    and "\<And>n. Q (Inr []) (w\<lparr>w_calls := n\<rparr>)"
    and "\<And>job n. job \<in> set cs \<Longrightarrow> \<not> holdsBack False pods job \<Longrightarrow>
           \<not> list_ex (\<lambda>p. claimedBy p (pmj_Name job)) pods \<Longrightarrow> Q (Inr (pmj_Name job)) (w\<lparr>w_calls := n\<rparr>)"
  shows "wp (pickLive rd pa pid pods cs) Q w"
  using assms
proof (induction cs arbitrary: w)
  case (Cons job jobs)
  have IH: "wp (pickLive rd pa pid pods jobs) Q (w\<lparr>w_calls := n\<rparr>)" for n
    using Cons.prems by (intro Cons.IH) auto
  show ?case
    using Cons.prems
    by (auto simp: wp_simps holdsBack_def claimedBy_def intro!: wp_ambiguityCheckI IH split: sum.splits bool.splits)
next
  case Nil
  then show ?case using Nil(2) [of "w_calls w"] by (simp add: wp_simps)
qed

lemma wp_findIndexedI:
  assumes h: "honest w"
    and e: "\<And>e n. Q (Inl e) (w\<lparr>w_calls := n\<rparr>)"
    and n: "\<And>n. Q (Inr []) (w\<lparr>w_calls := n\<rparr>)"
    and j: "\<And>job n. job \<in> set (cl_jobs (view rd w)) \<Longrightarrow> pmj_Name job \<noteq> [] \<Longrightarrow> adoptable True (view rd w) pa pid job \<Longrightarrow>
           Q (Inr (pmj_Name job)) (w\<lparr>w_calls := n\<rparr>)"
  shows "wp (findIndexed rd pa pid) Q w"
proof -
  have ok: "Q (Inr (pmj_Name job)) (w\<lparr>w_calls := k\<rparr>)"
    if "job \<in> set (cl_jobs (view rd w))" "isCandidate pa pid job \<or> isCandidate noParent (barePod pid) job"
      "\<not> holdsBack True (cl_pods (view rd w)) job"
      "\<not> list_ex (\<lambda>p. pmj_Name job \<in> set (PodAssignedPMJIndexValue p)) (cl_pods (view rd w))" for job k
  proof (cases "pmj_Name job = []")
    case True
    then show ?thesis using n by simp
  next
    case False
    have "adoptable True (view rd w) pa pid job"
      using that False by (auto simp: adoptable_def index_claimed)
    then show ?thesis using j that False by auto
  qed
  show ?thesis
    using h e n unfolding findIndexed_def Let_def wp_if
    by (auto simp: wp_simps list_jobs_parent_def split: sum.splits
        intro!: wp_read_callI wp_pickIndexedI ok n [of "w_calls w", simplified] dest!: set_filterCandidates)
qed

lemma wp_findLiveI:
  assumes e: "\<And>e n. Q (Inl e) (w\<lparr>w_calls := n\<rparr>)"
    and n: "\<And>n. Q (Inr []) (w\<lparr>w_calls := n\<rparr>)"
    and j: "\<And>job n. job \<in> set (cl_jobs (view rd w)) \<Longrightarrow> adoptable False (view rd w) pa pid job \<Longrightarrow>
           Q (Inr (pmj_Name job)) (w\<lparr>w_calls := n\<rparr>)"
  shows "wp (findLive rd pa pid) Q w"
  using e n unfolding findLive_def Let_def
  by (auto simp: wp_simps list_jobs_def list_pods_label_def adoptable_def Let_def split: sum.splits
      intro!: wp_read_callI wp_pickLiveI j dest!: set_filterCandidates)

text \<open>
  C24 (functional). A new pod is handed a migration job only if that job can own it: the
  job is not consumed, its checkpoint has started (it is Snapshotting, Evicting or Restoring,
  never Pending), its parent labels and replica identity match, no pod claims it yet, and an
  Evicting or Snapshotting job's source is no longer alive. This holds on the cached path
  and on the live fallback, whatever calls fail, as long as no failure claims NotFound.
\<close>

theorem adopted_job_is_free:
  assumes "honest w"
    and "run_state (FindUnassignedActivePMJ rd pa pid indexed) w = (Inr name, w')" and "name \<noteq> []"
  shows "\<exists>job \<in> set (cl_jobs (view rd w)). pmj_Name job = name \<and> adoptable indexed (view rd w) pa pid job"
proof -
  have "wp (FindUnassignedActivePMJ rd pa pid indexed)
     (\<lambda>r _. \<forall>nm. r = Inr nm \<longrightarrow> nm \<noteq> [] \<longrightarrow>
        (\<exists>job \<in> set (cl_jobs (view rd w)). pmj_Name job = nm \<and> adoptable indexed (view rd w) pa pid job)) w"
    unfolding FindUnassignedActivePMJ_def
    by (cases indexed) (auto intro!: wp_findIndexedI wp_findLiveI assms(1))
  from wp_run [OF this assms(2)] assms(3) show ?thesis by simp
qed

definition replacementScene :: cluster where
  "replacementScene = clusterOf [podOf ''web-1'' ''u1'']
     [jobOf ''pmj-web-0'' ''web-0'' ''u0'' PhaseEvicting, jobOf ''pmj-web-1'' ''web-1'' ''u1'' PhaseSnapshotting]"

definition webIdentity :: podIdentity where
  "webIdentity = \<lparr>pi_PodName = ''web-0'', pi_PodTemplateHash = [], pi_JobCompletionIndex = [], pi_ReplicaKey = []\<rparr>"

lemma adopted_job_is_free_witness:
  "\<exists>job \<in> set (cl_jobs replacementScene). pmj_Name job = ''pmj-web-0'' \<and>
     adoptable True replacementScene noParent webIdentity job"
proof -
  have "fst (run_state (FindUnassignedActivePMJ Cached noParent webIdentity True) (worldOf replacementScene)) = Inr ''pmj-web-0''"
    by code_simp
  then obtain w' where
    "run_state (FindUnassignedActivePMJ Cached noParent webIdentity True) (worldOf replacementScene) = (Inr ''pmj-web-0'', w')"
    by (metis prod.collapse)
  from adopted_job_is_free [OF worldOf_honest this] show ?thesis by simp
qed

lemma wp_ResolveCollisionI:
  assumes h: "honest w"
    and "\<And>e n. Q (Inl e) (w\<lparr>w_calls := n\<rparr>)"
    and "\<And>n. store_get pmj_Name (cl_jobs (view rd w)) assignedPMJ = None \<Longrightarrow> Q (Inr (assignedPMJ, False)) (w\<lparr>w_calls := n\<rparr>)"
    and "\<And>job cs n. store_get pmj_Name (cl_jobs (view rd w)) assignedPMJ = Some job \<Longrightarrow>
           cs = contendersOf job (filter (\<lambda>p. assignedPMJ \<in> set (PodAssignedPMJIndexValue p)) (cl_pods (view rd w))) \<Longrightarrow>
           length cs \<le> 1 \<or> pod_UID (hd (sort_by contenderPrecedes cs)) = pod_UID p \<Longrightarrow>
           Q (Inr (assignedPMJ, False)) (w\<lparr>w_calls := n\<rparr>)"
    and "\<And>job cs n alt. store_get pmj_Name (cl_jobs (view rd w)) assignedPMJ = Some job \<Longrightarrow>
           cs = contendersOf job (filter (\<lambda>p. assignedPMJ \<in> set (PodAssignedPMJIndexValue p)) (cl_pods (view rd w))) \<Longrightarrow>
           length cs > 1 \<Longrightarrow> pod_UID (hd (sort_by contenderPrecedes cs)) \<noteq> pod_UID p \<Longrightarrow>
           Q (Inr (alt, True)) (w\<lparr>w_calls := n\<rparr>)"
  shows "wp (ResolveCollision rd p assignedPMJ pa) Q w"
  unfolding ResolveCollision_def FindUnassignedActivePMJ_def get_job_def list_pods_assigned_def
  using assms
  by (auto simp: wp_simps Let_def found_def denial_def isNotFound_def err_def split: sum.splits option.splits
      intro!: wp_read_honestI wp_findIndexedI)

text \<open>
  When several pods are assigned to one job, exactly one of them keeps it:
  for pods with different names and UIDs, a reconcile of a contender that gets an answer
  leaves its assignment alone if and only if that contender precedes every other one (it is
  older, or as old and first by name). Two different contenders can therefore never both keep
  the job, so no snapshot is handed to two pods.
\<close>

theorem collision_single_winner:
  assumes h: "honest w"
    and job: "store_get pmj_Name (cl_jobs (view rd w)) pmjName = Some job"
    and cs: "cs = contendersOf job (filter (\<lambda>p. pmjName \<in> set (PodAssignedPMJIndexValue p)) (cl_pods (view rd w)))"
    and p: "p \<in> set cs" and names: "inj_on pod_Name (set cs)" and uids: "inj_on pod_UID (set cs)" and dist: "distinct cs"
    and res: "run_state (ResolveCollision rd p pmjName pa) w = (Inr (pmj', changed), w')"
  shows "\<not> changed \<longleftrightarrow> (\<forall>q \<in> set cs. q \<noteq> p \<longrightarrow> contenderPrecedes p q)"
proof -
  let ?h = "hd (sort_by contenderPrecedes cs)"
  have ne: "cs \<noteq> []" using p by auto
  have h_in: "?h \<in> set cs" by (rule contender.hd_sort_by_in [OF ne])
  have h_least: "q = ?h \<or> contenderPrecedes ?h q" if "q \<in> set cs" for q
    by (rule contender.sort_by_head [OF ne names that])
  have win: "pod_UID ?h = pod_UID p \<longleftrightarrow> (\<forall>q \<in> set cs. q \<noteq> p \<longrightarrow> contenderPrecedes p q)"
  proof
    assume "pod_UID ?h = pod_UID p"
    then have "?h = p" using uids h_in p by (auto simp: inj_on_def)
    then show "\<forall>q \<in> set cs. q \<noteq> p \<longrightarrow> contenderPrecedes p q" using h_least by blast
  next
    assume "\<forall>q \<in> set cs. q \<noteq> p \<longrightarrow> contenderPrecedes p q"
    then have "?h = p" using h_in h_least [OF p] contender.asym by blast
    then show "pod_UID ?h = pod_UID p" by simp
  qed
  have single: "\<forall>q \<in> set cs. q \<noteq> p \<longrightarrow> contenderPrecedes p q" if "length cs \<le> 1"
    using that p by (cases cs) auto
  have "wp (ResolveCollision rd p pmjName pa)
          (\<lambda>r _. \<forall>a b. r = Inr (a, b) \<longrightarrow> (\<not> b \<longleftrightarrow> (\<forall>q \<in> set cs. q \<noteq> p \<longrightarrow> contenderPrecedes p q))) w"
    by (rule wp_ResolveCollisionI [OF h]) (use job cs win single in auto)
  from wp_run [OF this res] show ?thesis by simp
qed

definition claimant :: "string \<Rightarrow> string \<Rightarrow> time \<Rightarrow> pod" where
  "claimant name uid t = (podOf name uid)\<lparr>pod_CreationTimestamp := t,
     pod_Annotations := [AnnotationAssignedPMJ \<mapsto> ''pmj-web'']\<rparr>"

definition collisionScene :: cluster where
  "collisionScene = clusterOf [claimant ''web-b'' ''ub'' 7, claimant ''web-a'' ''ua'' 5] [jobOf ''pmj-web'' ''web-0'' ''u0'' PhaseEvicting]"

lemma collision_single_winner_witness:
  "fst (run_state (ResolveCollision Cached (claimant ''web-a'' ''ua'' 5) ''pmj-web'' noParent) (worldOf collisionScene)) = Inr (''pmj-web'', False) \<and>
   contenderPrecedes (claimant ''web-a'' ''ua'' 5) (claimant ''web-b'' ''ub'' 7)"
proof -
  have eval: "fst (run_state (ResolveCollision Cached (claimant ''web-a'' ''ua'' 5) ''pmj-web'' noParent) (worldOf collisionScene)) = Inr (''pmj-web'', False)"
    by code_simp
  then obtain w' where run:
    "run_state (ResolveCollision Cached (claimant ''web-a'' ''ua'' 5) ''pmj-web'' noParent) (worldOf collisionScene) = (Inr (''pmj-web'', False), w')"
    by (metis prod.collapse)
  have cs: "[claimant ''web-b'' ''ub'' 7, claimant ''web-a'' ''ua'' 5] =
     contendersOf (jobOf ''pmj-web'' ''web-0'' ''u0'' PhaseEvicting)
       (filter (\<lambda>p. ''pmj-web'' \<in> set (PodAssignedPMJIndexValue p)) (cl_pods (view Cached (worldOf collisionScene))))"
    by (simp add: collisionScene_def contendersOf_def PodAssignedPMJIndexValue_def claimant_def scenario_defs view_def)
  have job: "store_get pmj_Name (cl_jobs (view Cached (worldOf collisionScene))) ''pmj-web'' = Some (jobOf ''pmj-web'' ''web-0'' ''u0'' PhaseEvicting)"
    by (simp add: collisionScene_def scenario_defs view_def store_get_def)
  have "\<not> False \<longleftrightarrow> (\<forall>q \<in> set [claimant ''web-b'' ''ub'' 7, claimant ''web-a'' ''ua'' 5].
          q \<noteq> claimant ''web-a'' ''ua'' 5 \<longrightarrow> contenderPrecedes (claimant ''web-a'' ''ua'' 5) q)"
    by (rule collision_single_winner [OF worldOf_honest job cs _ _ _ _ run]) (auto simp: claimant_def podOf_def)
  then have "contenderPrecedes (claimant ''web-a'' ''ua'' 5) (claimant ''web-b'' ''ub'' 7)"
    by (simp add: claimant_def podOf_def)
  with eval show ?thesis by simp
qed

end
