(* ===== verification/Preemption.thy ===== *)
theory Preemption
  imports Assignment Timeout
begin

text \<open>
  Node preemption signals, policies and the metadata of a new job (\<open>util/preemption.go\<close>).

  \<open>FindLatestReadyManualStopPSP\<close> chooses the snapshot policy that serves a pod, and
  \<open>BuildPMJLabelsAndAnnotationsForPolicy\<close> renders the labels by which a replacement later
  finds the job of its source; the theory proves that the two ends of that contract agree
  (theory \<open>Assignment\<close>).
\<close>

section \<open>Definitions\<close>

subsection \<open>Node and pod signals\<close>

definition TaintImpendingNodeTermination :: string where
  "TaintImpendingNodeTermination = ''cloud.google.com/impending-node-termination''"

definition LabelActiveNodeMaintenance :: string where
  "LabelActiveNodeMaintenance = ''cloud.google.com/active-node-maintenance''"

definition ValueMaintenanceOngoing :: string where
  "ValueMaintenanceOngoing = ''ONGOING''"

definition PreemptionDefaultTimeout :: duration where
  "PreemptionDefaultTimeout = 2 * minute"

definition IsNodeShuttingDown :: "node \<Rightarrow> bool" where
  "IsNodeShuttingDown n =
     list_ex (\<lambda>c. c_Type c = ''Ready'' \<and> c_Status c = CondFalse \<and> c_Reason c = ''KubeletNotReady'' \<and>
       contains (toLower (c_Message c)) ''node is shutting down'') (nd_Conditions n)"

definition IsNodePreempting :: "node \<Rightarrow> bool" where
  "IsNodePreempting n =
     (TaintImpendingNodeTermination \<in> set (nd_Taints n) \<or>
      mget (nd_Labels n) LabelActiveNodeMaintenance = ValueMaintenanceOngoing \<or>
      IsNodeShuttingDown n)"

definition IsPodTerminatedDueToNodeShutdownWithNode :: "pod \<Rightarrow> node option \<Rightarrow> bool" where
  "IsPodTerminatedDueToNodeShutdownWithNode p n =
     (if pod_Phase p \<noteq> PodFailed \<and> pod_Phase p \<noteq> PodSucceeded then False
      else if pod_Reason p = ''NodeShutdown'' then True
      else let msg = toLower (pod_Message p);
               isShutdownMsg = contains msg ''node is shutting down'' \<or> contains msg ''node shutdown'' \<or>
                 contains msg ''imminent node shutdown'';
               hasShutdownDisruption = list_ex (\<lambda>c. c_Type c = ''DisruptionTarget'' \<and> c_Reason c = ''TerminationByKubelet'') (pod_Conditions p)
           in if isShutdownMsg \<or> hasShutdownDisruption then True
              else case n of None \<Rightarrow> False | Some nd \<Rightarrow> IsNodeShuttingDown nd)"

definition IsPodTerminatedDueToNodeShutdown :: "pod \<Rightarrow> bool" where
  "IsPodTerminatedDueToNodeShutdown p = IsPodTerminatedDueToNodeShutdownWithNode p None"

definition CalculatePodMemoryFootprint :: "pod \<Rightarrow> int option" where
  "CalculatePodMemoryFootprint p =
     (let reqBytes = CalculatePodMemoryRequest p in
      if reqBytes > 0 then Some reqBytes
      else let limitBytes = fold (\<lambda>c total. wrap64 (total + ct_LimitsMemory c))
                 (pod_Containers p @ filter isSidecar (pod_InitContainers p)) 0
           in if limitBytes > 0 then Some limitBytes else None)"

definition IsPodMigrationEnabled :: "pod \<Rightarrow> bool" where
  "IsPodMigrationEnabled p = (mget (pod_Labels p) LabelEnabled = ''true'')"

definition AreReadinessGatesSatisfied :: "pod \<Rightarrow> bool" where
  "AreReadinessGatesSatisfied p =
     list_all (\<lambda>gate. list_ex (\<lambda>c. c_Type c = gate \<and> c_Status c = CondTrue) (pod_Conditions p)) (pod_ReadinessGates p)"

definition HasPDBEvictionTimedOut :: "pod \<Rightarrow> bool" where
  "HasPDBEvictionTimedOut p = (mget (pod_Annotations p) AnnotationPDBEvictionTimeout = ''true'')"

subsection \<open>Snapshot policies\<close>

definition LatestUpdate :: "snapshotPolicy \<Rightarrow> time" where
  "LatestUpdate psp =
     fold (\<lambda>f latest. if mf_Operation f \<noteq> ''Update'' then latest
             else case mf_Time f of Some t \<Rightarrow> if t > latest then t else latest | None \<Rightarrow> latest)
       (psp_ManagedFields psp) (psp_CreationTimestamp psp)"

definition pspReady :: "snapshotPolicy \<Rightarrow> bool" where
  "pspReady psp =
     (case psp_Conditions psp of
        None \<Rightarrow> False
      | Some cs \<Rightarrow> list_ex (\<lambda>x. case x of None \<Rightarrow> False | Some c \<Rightarrow> uc_Type c = ''Ready'' \<and> uc_Status c = ''True'') cs)"

definition pspMatches :: "kubelib \<Rightarrow> strmap \<Rightarrow> snapshotPolicy \<Rightarrow> bool" where
  "pspMatches K podLabels psp =
     (psp_TriggerType psp = NestedStr ''manual'' \<and>
      (case psp_Selector psp of
         None \<Rightarrow> False
       | Some s \<Rightarrow> (case LabelSelectorAsSelector K s of None \<Rightarrow> False | Some m \<Rightarrow> m podLabels)) \<and>
      pspReady psp)"

definition FindLatestReadyManualStopPSP :: "kubelib \<Rightarrow> reader \<Rightarrow> strmap \<Rightarrow> (api_error + snapshotPolicy option) io" where
  "FindLatestReadyManualStopPSP K rd podLabels = do {
     l \<leftarrow> list_policies rd;
     State_Monad.return (case l of
       Inl e \<Rightarrow> if ae_reason e = NoMatch then Inr None else Inl (wrapErr ''failed to list PSPs'' e)
     | Inr psps \<Rightarrow>
         (case sort_by (\<lambda>a b. - LatestUpdate a < - LatestUpdate b) (filter (pspMatches K podLabels) psps) of
            [] \<Rightarrow> Inr None
          | latest # _ \<Rightarrow> if psp_PostCheckpoint latest = NestedStr ''stop'' then Inr (Some latest) else Inr None))
   }"

subsection \<open>Metadata of a new job\<close>

definition opt_put :: "bool \<Rightarrow> string \<Rightarrow> string \<Rightarrow> strmap \<Rightarrow> strmap" where
  "opt_put b k v m = (if b then m(k \<mapsto> v) else m)"

definition buildLabels :: "pod \<Rightarrow> parent \<Rightarrow> string \<Rightarrow> strmap" where
  "buildLabels p pa triggerSource =
     (let hash = mget (pod_Labels p) DefaultDeploymentUniqueLabelKey;
          rev = mget (pod_Labels p) LabelControllerRevisionHash;
          idx = mget (pod_Labels p) LabelJobCompletionIndex
      in opt_put (triggerSource \<noteq> []) LabelTriggerSource triggerSource
        (opt_put (idx \<noteq> []) LabelJobCompletionIndex idx
        (opt_put (rev \<noteq> []) LabelControllerRevisionHash rev
        (opt_put (hash \<noteq> []) LabelPodTemplateHash hash
        (opt_put (pa_Name pa \<noteq> [] \<and> pa_UID pa \<noteq> []) LabelParentUID (pa_UID pa)
        (opt_put (pa_Name pa \<noteq> []) LabelParentKind (pa_Kind pa)
        (opt_put (pa_Name pa \<noteq> []) LabelParentName (pa_Name pa) Map.empty)))))))"

definition buildAnnotations :: "kubelib \<Rightarrow> pod \<Rightarrow> parent \<Rightarrow> string \<Rightarrow> duration \<Rightarrow> string \<Rightarrow> strmap" where
  "buildAnnotations K p pa policyName defaultTimeout triggerSource =
     (let rk = (if IsBuiltInWorkloadKind (pa_Kind pa) then None else ResolveOperatorReplicaKey p (pa_Kind pa));
          replica = (case rk of None \<Rightarrow> [] | Some k \<Rightarrow> k);
          baseTimeout = (if defaultTimeout \<le> 0 then DefaultMigrationTimeout else defaultTimeout);
          rawTimeout = mget (pod_Annotations p) AnnotationMigrationTimeout;
          effectiveTimeout = CalculateMigrationTimeout K rawTimeout (CalculatePodMemoryRequest p) baseTimeout;
          valid = ParseClampedTimeout K rawTimeout \<noteq> None
      in opt_put (triggerSource \<noteq> []) AnnotationTriggerSource triggerSource
        (opt_put (policyName \<noteq> []) AnnotationPodSnapshotPolicy policyName
        (opt_put (valid \<or> effectiveTimeout \<noteq> baseTimeout) AnnotationMigrationTimeout
           (if valid then rawTimeout else durationString effectiveTimeout)
        (opt_put (replica \<noteq> []) AnnotationReplicaIdentityKey replica Map.empty))))"

definition BuildPMJLabelsAndAnnotationsForPolicy ::
    "kubelib \<Rightarrow> pod \<Rightarrow> parent \<Rightarrow> string \<Rightarrow> duration \<Rightarrow> string \<Rightarrow> strmap \<times> strmap" where
  "BuildPMJLabelsAndAnnotationsForPolicy K p pa policyName defaultTimeout triggerSource =
     (buildLabels p pa triggerSource, buildAnnotations K p pa policyName defaultTimeout triggerSource)"

section \<open>Lemmas\<close>

lemma opt_put_mget [simp]: "mget (opt_put b k v m) k' = (if b \<and> k' = k then v else mget m k')"
  by (simp add: opt_put_def)

lemma job_label_names_distinct [simp]:
  "LabelParentName \<noteq> LabelParentKind" "LabelParentName \<noteq> LabelParentUID" "LabelParentName \<noteq> LabelPodTemplateHash"
  "LabelParentName \<noteq> LabelControllerRevisionHash" "LabelParentName \<noteq> LabelJobCompletionIndex" "LabelParentName \<noteq> LabelTriggerSource"
  "LabelParentKind \<noteq> LabelParentName" "LabelParentKind \<noteq> LabelParentUID" "LabelParentKind \<noteq> LabelPodTemplateHash"
  "LabelParentKind \<noteq> LabelControllerRevisionHash" "LabelParentKind \<noteq> LabelJobCompletionIndex" "LabelParentKind \<noteq> LabelTriggerSource"
  "LabelParentUID \<noteq> LabelParentName" "LabelParentUID \<noteq> LabelParentKind" "LabelParentUID \<noteq> LabelPodTemplateHash"
  "LabelParentUID \<noteq> LabelControllerRevisionHash" "LabelParentUID \<noteq> LabelJobCompletionIndex" "LabelParentUID \<noteq> LabelTriggerSource"
  "LabelPodTemplateHash \<noteq> LabelParentName" "LabelPodTemplateHash \<noteq> LabelParentKind" "LabelPodTemplateHash \<noteq> LabelParentUID"
  "LabelPodTemplateHash \<noteq> LabelControllerRevisionHash" "LabelPodTemplateHash \<noteq> LabelJobCompletionIndex" "LabelPodTemplateHash \<noteq> LabelTriggerSource"
  "LabelJobCompletionIndex \<noteq> LabelParentName" "LabelJobCompletionIndex \<noteq> LabelParentKind" "LabelJobCompletionIndex \<noteq> LabelParentUID"
  "LabelJobCompletionIndex \<noteq> LabelControllerRevisionHash" "LabelJobCompletionIndex \<noteq> LabelPodTemplateHash" "LabelJobCompletionIndex \<noteq> LabelTriggerSource"
  by (simp_all add: const_defs)

lemma job_annotation_names_distinct [simp]:
  "AnnotationReplicaIdentityKey \<noteq> AnnotationTriggerSource" "AnnotationReplicaIdentityKey \<noteq> AnnotationPodSnapshotPolicy"
  "AnnotationReplicaIdentityKey \<noteq> AnnotationMigrationTimeout"
  by (simp_all add: const_defs)

lemma replica_key_nonempty: "ResolveOperatorReplicaKey p kind = Some k \<Longrightarrow> k \<noteq> []"
  by (auto simp: ResolveOperatorReplicaKey_def Let_def split: if_splits)

lemma built_labels:
  "mget (buildLabels p pa ts) LabelParentName = pa_Name pa"
  "pa_Name pa \<noteq> [] \<Longrightarrow> mget (buildLabels p pa ts) LabelParentKind = pa_Kind pa"
  "pa_Name pa \<noteq> [] \<Longrightarrow> mget (buildLabels p pa ts) LabelParentUID = pa_UID pa"
  "mget (buildLabels p pa ts) LabelPodTemplateHash = mget (pod_Labels p) DefaultDeploymentUniqueLabelKey"
  "mget (buildLabels p pa ts) LabelJobCompletionIndex = mget (pod_Labels p) LabelJobCompletionIndex"
  by (auto simp: buildLabels_def Let_def)

text \<open>
  The labels and annotations recorded on a new job identify the source's
  replacement: a job built for a pod, with the pod's name in its spec, matches a pod of the
  same identity under the same parent, for every workload kind, operator kinds with a replica
  key included. So a replacement with its source's identity can always find the job.
\<close>

theorem built_job_matches_replacement:
  assumes op: "pa_Name pa = [] \<or> IsBuiltInWorkloadKind (pa_Kind pa) \<or> ResolveOperatorReplicaKey p (pa_Kind pa) \<noteq> None"
    and built: "(lbls, anns) = BuildPMJLabelsAndAnnotationsForPolicy K p pa policyName defaultTimeout triggerSource"
    and job: "pmj_Labels job = lbls" "pmj_Annotations job = anns" "pmj_PodRefName job = pod_Name p"
  shows "matchesParent pa (podIdentityOf p (pa_Kind pa)) job"
proof -
  have labels: "pmj_Labels job = buildLabels p pa triggerSource"
    and anns: "pmj_Annotations job = buildAnnotations K p pa policyName defaultTimeout triggerSource"
    using built job by (simp_all add: BuildPMJLabelsAndAnnotationsForPolicy_def)
  have key: "JobReplicaIdentityKey job = k" "k \<noteq> []"
    if "\<not> IsBuiltInWorkloadKind (pa_Kind pa)" "ResolveOperatorReplicaKey p (pa_Kind pa) = Some k" for k
    using that replica_key_nonempty [OF that(2)] anns
    by (auto simp: JobReplicaIdentityKey_def buildAnnotations_def Let_def)
  show ?thesis
    using op key job(3)
    by (cases "ResolveOperatorReplicaKey p (pa_Kind pa)")
      (auto simp: matchesParent_def podIdentityOf_def labels built_labels Let_def)
qed

lemma built_job_matches_replacement_witness:
  "matchesParent \<lparr>pa_Name = ''ray'', pa_Kind = ''RayCluster'', pa_UID = ''pu''\<rparr>
     (podIdentityOf (podOf ''ray-head'' ''u0'') ''RayCluster'')
     ((jobOf ''pmj'' ''ray-head'' ''u0'' PhasePending)\<lparr>
        pmj_Labels := fst (BuildPMJLabelsAndAnnotationsForPolicy sampleLib (podOf ''ray-head'' ''u0'')
           \<lparr>pa_Name = ''ray'', pa_Kind = ''RayCluster'', pa_UID = ''pu''\<rparr> ''psp'' 0 TriggerSourceEviction),
        pmj_Annotations := snd (BuildPMJLabelsAndAnnotationsForPolicy sampleLib (podOf ''ray-head'' ''u0'')
           \<lparr>pa_Name = ''ray'', pa_Kind = ''RayCluster'', pa_UID = ''pu''\<rparr> ''psp'' 0 TriggerSourceEviction)\<rparr>)"
  using built_job_matches_replacement
    [of "\<lparr>pa_Name = ''ray'', pa_Kind = ''RayCluster'', pa_UID = ''pu''\<rparr>" "podOf ''ray-head'' ''u0''" _ _ sampleLib "''psp''" 0 TriggerSourceEviction]
  by (simp add: ResolveOperatorReplicaKey_def podOf_def jobOf_def BuildPMJLabelsAndAnnotationsForPolicy_def)

text \<open>
  The snapshot policy that serves a pod is manual, Ready, selects the
  pod and stops the source after the checkpoint, and no other manual Ready policy that
  selects the pod was updated later; so an older stop policy never serves a pod whose latest
  policy leaves the source running.
\<close>

theorem latest_stop_policy_serves:
  assumes "run_state (FindLatestReadyManualStopPSP K rd podLabels) w = (Inr (Some psp), w')"
  shows "psp \<in> set (cl_policies (view rd w)) \<and> pspMatches K podLabels psp \<and>
         psp_PostCheckpoint psp = NestedStr ''stop'' \<and>
         (\<forall>q \<in> set (cl_policies (view rd w)). pspMatches K podLabels q \<longrightarrow> LatestUpdate q \<le> LatestUpdate psp)"
proof -
  let ?l = "filter (pspMatches K podLabels) (cl_policies (view rd w))"
  let ?srt = "sort_by (\<lambda>a b. - LatestUpdate a < - LatestUpdate b) ?l"
  have "wp (FindLatestReadyManualStopPSP K rd podLabels)
          (\<lambda>r _. \<forall>p. r = Inr (Some p) \<longrightarrow> ?l \<noteq> [] \<and> hd ?srt = p \<and> psp_PostCheckpoint p = NestedStr ''stop'') w"
    unfolding FindLatestReadyManualStopPSP_def list_policies_def wp_bind wp_return
    by (rule wp_read_callI) (auto split: list.splits)
  from wp_run [OF this assms] have "?l \<noteq> []" "psp = hd ?srt" "psp_PostCheckpoint psp = NestedStr ''stop''"
    by auto
  with sort_by_key_head [of ?l "\<lambda>p. - LatestUpdate p"] show ?thesis by auto
qed

definition samplePolicy :: snapshotPolicy where
  "samplePolicy = \<lparr>psp_Name = ''psp'', psp_CreationTimestamp = 1, psp_ManagedFields = [],
     psp_TriggerType = NestedStr ''manual'', psp_PostCheckpoint = NestedStr ''stop'',
     psp_Selector = Some (LabelSelector [] []),
     psp_Conditions = Some [Some \<lparr>uc_Type = ''Ready'', uc_Status = ''True'', uc_Reason = [], uc_Message = [], uc_LastTransitionTime = None\<rparr>]\<rparr>"

lemma latest_stop_policy_serves_witness:
  "pspMatches sampleLib Map.empty samplePolicy \<and> psp_PostCheckpoint samplePolicy = NestedStr ''stop''"
proof -
  let ?w = "worldOf ((clusterOf [] [])\<lparr>cl_policies := [samplePolicy]\<rparr>)"
  have "fst (run_state (FindLatestReadyManualStopPSP sampleLib Cached Map.empty) ?w) = Inr (Some samplePolicy)"
    by code_simp
  then have "run_state (FindLatestReadyManualStopPSP sampleLib Cached Map.empty) ?w =
      (Inr (Some samplePolicy), snd (run_state (FindLatestReadyManualStopPSP sampleLib Cached Map.empty) ?w))"
    by (metis prod.collapse)
  from latest_stop_policy_serves [OF this] show ?thesis by simp
qed

end
