(* ===== verification/Classifier.thy ===== *)
theory Classifier
  imports Eligibility Scenario
begin

text \<open>
  Restore-failure classification (\<open>restore/classifier.go\<close>, \<open>restore/gvisor.go\<close>).

  A fatal verdict deletes the replacement pod, so the theory states exactly when one is
  given. \<open>restoreEngine\<close> is the \<open>Engine\<close> interface with its optional
  \<open>RuntimeClassScoped\<close> capability; the locale \<open>scoped_engine\<close> is the contract of an
  engine that covers one runtime class, and the gVisor engine interprets it.
\<close>

section \<open>Definitions\<close>

definition startFailureExitCode :: int where
  "startFailureExitCode = 128"

definition startErrorReason :: string where
  "startErrorReason = ''StartError''"

definition runContainerErrorReason :: string where
  "runContainerErrorReason = ''RunContainerError''"

datatype failureClass = FailureNone | FailureFatal | FailureUnrecognized

record failure =
  f_Class :: failureClass
  f_Engine :: string
  f_Signature :: string
  f_Message :: string
  f_Container :: string

definition noFailure :: failure where
  "noFailure = \<lparr>f_Class = FailureNone, f_Engine = [], f_Signature = [], f_Message = [], f_Container = []\<rparr>"

record restoreEngine =
  re_Name :: string
  re_MatchesRestoreFailure :: "string \<Rightarrow> string option"
  re_CoversRuntimeClass :: "(string \<Rightarrow> bool) option"

definition enginesFor :: "pod \<Rightarrow> restoreEngine list \<Rightarrow> restoreEngine list" where
  "enginesFor p engines =
     filter (\<lambda>e. case re_CoversRuntimeClass e of
               None \<Rightarrow> True
             | Some covers \<Rightarrow> covers (RuntimeClassLabel (pod_RuntimeClassName p))) engines"

record startFailure =
  sf_container :: string
  sf_messages :: "string list"

definition isStartError :: "terminated \<Rightarrow> bool" where
  "isStartError t = (tm_Reason t = startErrorReason \<and> tm_ExitCode t = startFailureExitCode)"

text \<open>The start failure of one container, from its current state only.\<close>

definition startFailureOf :: "container_status \<Rightarrow> startFailure option" where
  "startFailureOf cs =
     (if cs_Running cs then None
      else let startFail =
             (case cs_Terminated cs of
                Some t \<Rightarrow> if isStartError t then Some t else None
              | None \<Rightarrow>
                  (case cs_Waiting cs of
                     None \<Rightarrow> None
                   | Some wt \<Rightarrow>
                       if wt_Reason wt = runContainerErrorReason
                       then (case cs_LastTerminated cs of
                               None \<Rightarrow> None
                             | Some lt \<Rightarrow> if isStartError lt then Some lt else None)
                       else None))
           in case startFail of
                None \<Rightarrow> None
              | Some t \<Rightarrow> Some \<lparr>sf_container = cs_Name cs,
                  sf_messages = tm_Message t # (case cs_Waiting cs of
                     Some wt \<Rightarrow> if wt_Message wt \<noteq> [] then [wt_Message wt] else []
                   | None \<Rightarrow> [])\<rparr>)"

definition startFailures :: "pod \<Rightarrow> startFailure list" where
  "startFailures p = List.map_filter startFailureOf (pod_InitContainerStatuses p @ pod_ContainerStatuses p)"

text \<open>The first engine that claims a message.\<close>

fun matchMessage :: "restoreEngine list \<Rightarrow> string \<Rightarrow> (string \<times> string) option" where
  "matchMessage [] msg = None"
| "matchMessage (e # es) msg =
     (case re_MatchesRestoreFailure e msg of Some sig \<Rightarrow> Some (re_Name e, sig) | None \<Rightarrow> matchMessage es msg)"

fun matchMessages :: "restoreEngine list \<Rightarrow> string \<Rightarrow> string list \<Rightarrow> failure option" where
  "matchMessages es container [] = None"
| "matchMessages es container (msg # msgs) =
     (case matchMessage es msg of
        Some (eng, sig) \<Rightarrow> Some \<lparr>f_Class = FailureFatal, f_Engine = eng, f_Signature = sig, f_Message = msg, f_Container = container\<rparr>
      | None \<Rightarrow> matchMessages es container msgs)"

fun classifyLoop :: "restoreEngine list \<Rightarrow> startFailure list \<Rightarrow> failure option \<Rightarrow> failure" where
  "classifyLoop es [] unmatched = (case unmatched of Some u \<Rightarrow> u | None \<Rightarrow> noFailure)"
| "classifyLoop es (f # fs) unmatched =
     (case matchMessages es (sf_container f) (sf_messages f) of
        Some fatal \<Rightarrow> fatal
      | None \<Rightarrow> classifyLoop es fs
          (case unmatched of
             Some u \<Rightarrow> Some u
           | None \<Rightarrow> Some (noFailure\<lparr>f_Class := FailureUnrecognized,
               f_Message := joinWith '' | '' (sf_messages f), f_Container := sf_container f\<rparr>)))"

definition Classify :: "pod \<Rightarrow> restoreEngine list \<Rightarrow> failure" where
  "Classify p engines =
     (let failures = startFailures p in
      if failures = [] then noFailure else classifyLoop (enginesFor p engines) failures None)"

subsection \<open>gVisor\<close>

definition gvisorSignatures :: "string list" where
  "gvisorSignatures = [''oci runtime restore failed'', ''restore failed'']"

definition GVisorRuntimeClass :: string where
  "GVisorRuntimeClass = ''gvisor''"

definition GVisor_CoversRuntimeClass :: "string \<Rightarrow> bool" where
  "GVisor_CoversRuntimeClass runtimeClass = (runtimeClass = GVisorRuntimeClass)"

definition GVisor_MatchesRestoreFailure :: "string \<Rightarrow> string option" where
  "GVisor_MatchesRestoreFailure msg = find (contains (toLower msg)) gvisorSignatures"

definition GVisor :: restoreEngine where
  "GVisor = \<lparr>re_Name = ''gvisor'', re_MatchesRestoreFailure = GVisor_MatchesRestoreFailure,
     re_CoversRuntimeClass = Some GVisor_CoversRuntimeClass\<rparr>"

definition DefaultEngines :: "restoreEngine list" where
  "DefaultEngines = [GVisor]"

section \<open>Lemmas\<close>

lemma matchMessage_Some: "matchMessage es msg = None \<longleftrightarrow> (\<forall>e \<in> set es. re_MatchesRestoreFailure e msg = None)"
  by (induction es) (auto split: option.splits)

lemma matchMessages_None:
  "matchMessages es c msgs = None \<longleftrightarrow> (\<forall>msg \<in> set msgs. matchMessage es msg = None)"
  by (induction msgs) (auto split: option.splits)

lemma matchMessages_fatal: "matchMessages es c msgs = Some f \<Longrightarrow> f_Class f = FailureFatal"
  by (induction msgs) (auto split: option.splits)

lemma classifyLoop_class:
  assumes "\<forall>u. unmatched = Some u \<longrightarrow> f_Class u = FailureUnrecognized"
  shows "f_Class (classifyLoop es fs unmatched) =
     (if \<exists>f \<in> set fs. matchMessages es (sf_container f) (sf_messages f) \<noteq> None then FailureFatal
      else if fs = [] \<and> unmatched = None then FailureNone else FailureUnrecognized)"
  using assms
proof (induction fs arbitrary: unmatched)
  case Nil
  then show ?case by (auto simp: noFailure_def split: option.splits)
next
  case (Cons f fs)
  show ?case
  proof (cases "matchMessages es (sf_container f) (sf_messages f)")
    case None
    then show ?thesis using Cons by (auto split: option.splits)
  next
    case (Some x)
    then show ?thesis using matchMessages_fatal by auto
  qed
qed

lemma Classify_class:
  "f_Class (Classify p engines) =
     (if \<exists>f \<in> set (startFailures p). \<exists>msg \<in> set (sf_messages f). \<exists>e \<in> set (enginesFor p engines).
           re_MatchesRestoreFailure e msg \<noteq> None then FailureFatal
      else if startFailures p = [] then FailureNone else FailureUnrecognized)"
proof -
  have "(\<exists>f \<in> set (startFailures p). matchMessages (enginesFor p engines) (sf_container f) (sf_messages f) \<noteq> None) =
        (\<exists>f \<in> set (startFailures p). \<exists>msg \<in> set (sf_messages f). \<exists>e \<in> set (enginesFor p engines).
           re_MatchesRestoreFailure e msg \<noteq> None)"
    unfolding matchMessages_None matchMessage_Some by auto
  then show ?thesis
    by (simp add: Classify_def Let_def classifyLoop_class) (simp add: noFailure_def)
qed

text \<open>
  The contract of an engine that is scoped to one runtime class: its failures are never
  attributed to pods of another class.
\<close>

locale scoped_engine =
  fixes eng :: restoreEngine and runtimeClass :: string
  assumes covers: "re_CoversRuntimeClass eng = Some (\<lambda>c. c = runtimeClass)"
begin

lemma enginesFor_scoped:
  "enginesFor p [eng] = (if RuntimeClassLabel (pod_RuntimeClassName p) = runtimeClass then [eng] else [])"
  by (simp add: enginesFor_def covers)

lemma fatal_iff:
  "f_Class (Classify p [eng]) = FailureFatal \<longleftrightarrow>
     RuntimeClassLabel (pod_RuntimeClassName p) = runtimeClass \<and>
     (\<exists>f \<in> set (startFailures p). \<exists>msg \<in> set (sf_messages f). re_MatchesRestoreFailure eng msg \<noteq> None)"
  by (auto simp: Classify_class enginesFor_scoped)

end

interpretation gvisor: scoped_engine GVisor GVisorRuntimeClass
  by unfold_locales (simp add: GVisor_def GVisor_CoversRuntimeClass_def fun_eq_iff)

lemma gvisor_matches: "GVisor_MatchesRestoreFailure msg \<noteq> None \<longleftrightarrow> contains (toLower msg) ''restore failed''"
proof -
  have "sublist ''restore failed'' ''oci runtime restore failed''"
    by (simp add: contains_iff_sublist [symmetric])
  then have "contains (toLower msg) ''restore failed''" if "contains (toLower msg) ''oci runtime restore failed''"
    using that sublist_order.order_trans by (auto simp: contains_iff_sublist)
  then show ?thesis by (auto simp: GVisor_MatchesRestoreFailure_def gvisorSignatures_def)
qed

lemma startFailureOf_shape:
  "startFailureOf cs = Some f \<Longrightarrow>
     \<not> cs_Running cs \<and>
     (case cs_Terminated cs of
        Some t \<Rightarrow> isStartError t
      | None \<Rightarrow> (\<exists>wt lt. cs_Waiting cs = Some wt \<and> wt_Reason wt = runContainerErrorReason \<and>
                       cs_LastTerminated cs = Some lt \<and> isStartError lt))"
  by (auto simp: startFailureOf_def Let_def split: if_splits option.splits)

lemma set_startFailures:
  "set (startFailures p) = {f. \<exists>cs \<in> set (pod_InitContainerStatuses p @ pod_ContainerStatuses p). startFailureOf cs = Some f}"
  by (force simp: startFailures_def List.map_filter_def)

text \<open>
  C25 (safety). The default classifier calls a replacement pod's failure fatal, which
  deletes the pod, exactly when the pod's runtime class is gvisor and some container of it is
  right now in a start failure (not running; terminated with StartError and exit code 128, or
  parked in RunContainerError with that record) and a message of that failure contains
  \<open>restore failed\<close> in any case. A pod of another runtime class, a container that came up after
  a failed start, and an application crash loop never get a fatal verdict.
\<close>

theorem fatal_only_for_gvisor_start_failure:
  "f_Class (Classify p DefaultEngines) = FailureFatal \<longleftrightarrow>
     RuntimeClassLabel (pod_RuntimeClassName p) = GVisorRuntimeClass \<and>
     (\<exists>cs \<in> set (pod_InitContainerStatuses p @ pod_ContainerStatuses p). \<exists>f.
        startFailureOf cs = Some f \<and> \<not> cs_Running cs \<and>
        (case cs_Terminated cs of
           Some t \<Rightarrow> isStartError t
         | None \<Rightarrow> (\<exists>wt lt. cs_Waiting cs = Some wt \<and> wt_Reason wt = runContainerErrorReason \<and>
                          cs_LastTerminated cs = Some lt \<and> isStartError lt)) \<and>
        (\<exists>msg \<in> set (sf_messages f). contains (toLower msg) ''restore failed''))"
proof -
  have m: "re_MatchesRestoreFailure GVisor msg \<noteq> None \<longleftrightarrow> contains (toLower msg) ''restore failed''" for msg
    using gvisor_matches by (simp add: GVisor_def)
  show ?thesis
    unfolding DefaultEngines_def gvisor.fatal_iff m set_startFailures
    using startFailureOf_shape by blast
qed

text \<open>
  Whatever engines are configured, a pod whose containers have all started
  (every container status is running) is never classified as a failed restore, whatever its
  termination history says.
\<close>

theorem running_pod_never_failed:
  assumes "\<forall>cs \<in> set (pod_InitContainerStatuses p @ pod_ContainerStatuses p). cs_Running cs"
  shows "Classify p engines = noFailure"
proof -
  have "set (startFailures p) = {}"
    using assms startFailureOf_shape unfolding set_startFailures by blast
  then have "startFailures p = []" by simp
  then show ?thesis by (simp add: Classify_def)
qed

definition recoveredContainer :: container_status where
  "recoveredContainer = \<lparr>cs_Name = ''app'', cs_ContainerID = ''c1'', cs_RestartCount = 0, cs_Running = True,
     cs_Waiting = None, cs_Terminated = None,
     cs_LastTerminated = Some \<lparr>tm_Reason = ''StartError'', tm_Message = ''OCI runtime restore failed'', tm_ExitCode = 128\<rparr>\<rparr>"

lemma running_pod_never_failed_witness:
  "Classify ((podOf ''web-0'' ''u0'')\<lparr>pod_ContainerStatuses := [recoveredContainer]\<rparr>) DefaultEngines = noFailure"
  by (rule running_pod_never_failed) (simp add: podOf_def recoveredContainer_def)

end
