(* ===== verification/Provider.thy ===== *)
theory Provider
  imports Scenario
begin

text \<open>
  The snapshot provider (\<open>snapshot/provider.go\<close>) and its GKE Pod Snapshots implementation
  (\<open>snapshot/gke_provider.go\<close>, \<open>snapshot/restore.go\<close>).

  \<open>provider\<close> is the Go interface with its two optional capabilities. The locale
  \<open>snapshot_provider\<close> states what the job controller relies on (status checks change
  nothing; the other calls touch only triggers and pod metadata), and the GKE definitions
  interpret it. \<open>gkeProvider K rd\<close> reads the engine's unstructured objects through \<open>rd\<close>
  and pods through the cache.
\<close>

section \<open>Definitions\<close>

subsection \<open>The interface\<close>

datatype snapPhase = SnapInProgress | SnapReady | SnapFailed | SnapRefused

record snapStatus =
  sst_Phase :: snapPhase
  sst_SnapshotRef :: string
  sst_Reason :: string
  sst_Message :: string
  sst_LastProgressTime :: time

record checkpointState =
  cps_Settled :: bool
  cps_Completed :: bool

record provider =
  EnsureTrigger :: "pmj \<Rightarrow> string \<Rightarrow> (api_error + result) io"
  CheckStatus :: "pmj \<Rightarrow> string \<Rightarrow> (api_error + snapStatus) io"
  Cleanup :: "pmj \<Rightarrow> string \<Rightarrow> api_error option io"
  CheckpointReporter :: "(pmj \<Rightarrow> string \<Rightarrow> (api_error + checkpointState) io) option"
  RestoreCompleter :: "(pmj \<Rightarrow> string \<Rightarrow> string \<Rightarrow> api_error option io) option"

subsection \<open>Snapshot conditions\<close>

definition transientReadyFailureSuppressionWindow :: duration where
  "transientReadyFailureSuppressionWindow = 60 * second"

definition isTerminalSnapshotFailureReason :: "string \<Rightarrow> bool" where
  "isTerminalSnapshotFailureReason reason =
     (let r = toLower reason in
      if r = [] \<or> r = ''noerror'' \<or> hasPrefix r ''not'' \<or> hasPrefix r ''non'' then False
      else r = ''failed'' \<or> r = ''error'' \<or> r = ''deadlineexceeded'' \<or> r = ''refused'')"

definition isSnapshotRefusedReason :: "string \<Rightarrow> bool" where
  "isSnapshotRefusedReason reason = (toLower (trimSpace reason) = ''refused'')"

definition phaseForTerminalReason :: "string \<Rightarrow> snapPhase" where
  "phaseForTerminalReason reason = (if isSnapshotRefusedReason reason then SnapRefused else SnapFailed)"

definition isSnapshotSubconditionInProgressReason :: "string \<Rightarrow> bool" where
  "isSnapshotSubconditionInProgressReason reason =
     (let r = toLower (trimSpace reason) in r = ''inprogress'' \<or> r = ''awaitingcheckpoint'' \<or> r = ''pending'')"

text \<open>The single pass over a snapshot's conditions.\<close>

record scan =
  sc_lastProgress :: time
  sc_terminalSubcond :: "ucond option"
  sc_readyTerminalCond :: "ucond option"
  sc_readyTerminalTransition :: time
  sc_subconditionInProgress :: bool
  sc_isReady :: bool

definition emptyScan :: scan where
  "emptyScan = \<lparr>sc_lastProgress = zero_time, sc_terminalSubcond = None, sc_readyTerminalCond = None,
     sc_readyTerminalTransition = zero_time, sc_subconditionInProgress = False, sc_isReady = False\<rparr>"

definition condTransition :: "kubelib \<Rightarrow> ucond \<Rightarrow> time option" where
  "condTransition K c = (case uc_LastTransitionTime c of None \<Rightarrow> None | Some s \<Rightarrow> ParseRFC3339Nano K s)"

definition isSubcondition :: "ucond \<Rightarrow> bool" where
  "isSubcondition c = (uc_Type c = ''Checkpoint'' \<or> uc_Type c = ''StorageReplicated'')"

definition scanCond :: "kubelib \<Rightarrow> ucond \<Rightarrow> scan \<Rightarrow> scan" where
  "scanCond K c s =
     (let tt = (case condTransition K c of None \<Rightarrow> zero_time | Some t \<Rightarrow> t);
          s1 = (case condTransition K c of
                  None \<Rightarrow> s
                | Some t \<Rightarrow> if t > sc_lastProgress s then s\<lparr>sc_lastProgress := t\<rparr> else s)
      in if isSubcondition c then
           (let s2 = (if uc_Status c = ''False'' \<and> isTerminalSnapshotFailureReason (uc_Reason c)
                      then s1\<lparr>sc_terminalSubcond := Some c\<rparr>
                      else if uc_Status c = ''False'' \<and> isSnapshotSubconditionInProgressReason (uc_Reason c)
                      then s1\<lparr>sc_subconditionInProgress := True\<rparr> else s1)
            in if uc_Type c = ''Checkpoint'' \<and> uc_Status c = ''True'' \<and> uc_Reason c = ''Succeeded''
               then s2\<lparr>sc_isReady := True\<rparr> else s2)
         else if uc_Type c = ''Ready'' then
           (if uc_Status c = ''True'' then s1\<lparr>sc_isReady := True\<rparr>
            else if uc_Status c = ''False'' \<and> isTerminalSnapshotFailureReason (uc_Reason c)
            then s1\<lparr>sc_readyTerminalCond := Some c, sc_readyTerminalTransition := tt\<rparr> else s1)
         else s1)"

definition scanConditions :: "kubelib \<Rightarrow> ucond option list \<Rightarrow> scan" where
  "scanConditions K cs = fold (\<lambda>x s. case x of None \<Rightarrow> s | Some c \<Rightarrow> scanCond K c s) cs emptyScan"

definition waitStatus :: "string \<Rightarrow> string \<Rightarrow> time \<Rightarrow> snapStatus" where
  "waitStatus ref msg t = \<lparr>sst_Phase = SnapInProgress, sst_SnapshotRef = ref, sst_Reason = ''Snapshotting'',
     sst_Message = msg, sst_LastProgressTime = t\<rparr>"

definition failStatus :: "string \<Rightarrow> string \<Rightarrow> string \<Rightarrow> string \<Rightarrow> snapStatus" where
  "failStatus terminalReason ref reason msg = \<lparr>sst_Phase = phaseForTerminalReason terminalReason, sst_SnapshotRef = ref,
     sst_Reason = reason, sst_Message = msg, sst_LastProgressTime = zero_time\<rparr>"

definition failMessage :: "string \<Rightarrow> string \<Rightarrow> string \<Rightarrow> string" where
  "failMessage what reason msg = ''GKE '' @ what @ '' failed ('' @ reason @ ''): '' @ msg"

definition inSuppressionWindow :: "time \<Rightarrow> scan \<Rightarrow> bool" where
  "inSuppressionWindow t sc =
     (sc_readyTerminalTransition sc \<noteq> zero_time \<and>
      time_sub t (sc_readyTerminalTransition sc) \<le> transientReadyFailureSuppressionWindow)"

text \<open>The verdict on a snapshot that has a status: checks 1 to 4 of \<open>CheckStatus\<close>.\<close>

definition statusOfSnapshot :: "kubelib \<Rightarrow> time \<Rightarrow> string \<Rightarrow> time \<Rightarrow> snapStatusObj \<Rightarrow> snapStatus" where
  "statusOfSnapshot K t snapshotName created so =
     (let sc = scanConditions K (ss_Conditions so);
          lastProgress = (if sc_lastProgress sc = zero_time then created else sc_lastProgress sc)
      in case sc_terminalSubcond sc of
           Some c \<Rightarrow> failStatus (uc_Reason c) snapshotName ''SnapshotFailed''
                       (failMessage (''PodSnapshot '' @ uc_Type c) (uc_Reason c) (uc_Message c))
         | None \<Rightarrow>
             (let rest =
                (if (case ss_Phase so of None \<Rightarrow> False | Some ph \<Rightarrow> isTerminalSnapshotFailureReason ph)
                 then failStatus (the (ss_Phase so)) snapshotName ''SnapshotFailed''
                        (''GKE PodSnapshot failed with phase='' @ the (ss_Phase so))
                 else if sc_isReady sc
                 then \<lparr>sst_Phase = SnapReady, sst_SnapshotRef = snapshotName, sst_Reason = [], sst_Message = [],
                       sst_LastProgressTime = zero_time\<rparr>
                 else waitStatus snapshotName (''Waiting for GKE PodSnapshot '' @ quoted snapshotName @ '' checkpoint to complete'') lastProgress)
              in case sc_readyTerminalCond sc of
                   Some c \<Rightarrow>
                     if sc_subconditionInProgress sc \<and> inSuppressionWindow t sc then rest
                     else failStatus (uc_Reason c) snapshotName ''SnapshotFailed''
                            (failMessage ''PodSnapshot Ready'' (uc_Reason c) (uc_Message c))
                 | None \<Rightarrow> rest))"

definition triggerFailed :: "trigger \<Rightarrow> ucond option" where
  "triggerFailed t =
     (case find (\<lambda>x. case x of None \<Rightarrow> False | Some c \<Rightarrow>
              uc_Type c = ''Triggered'' \<and> uc_Status c = ''False'' \<and> isTerminalSnapshotFailureReason (uc_Reason c)) (tg_Conditions t) of
        Some (Some c) \<Rightarrow> Some c
      | _ \<Rightarrow> None)"

subsection \<open>GKEProvider\<close>

definition gkeTrigger :: "pmj \<Rightarrow> string \<Rightarrow> trigger" where
  "gkeTrigger job podName = \<lparr>tg_Name = FormatPSMTName podName (pmj_TargetPodUID job), tg_TargetPod = podName,
     tg_OwnerUIDs = [pmj_UID job], tg_DeletionTimestamp = None, tg_Conditions = [], tg_SnapshotCreated = NestedAbsent\<rparr>"

text \<open>The merge patch of the cold-start bypass; the value says whether the pod is gone.\<close>

definition setColdStartBypass :: "string \<Rightarrow> string \<Rightarrow> string \<Rightarrow> (api_error + bool) io" where
  "setColdStartBypass podName uid bypassingJob = do {
     r \<leftarrow> patch_pod_meta podName uid None []
            ((psNameAnnotation, Some []) #
             (if bypassingJob \<noteq> [] then [(AnnotationColdStartBypassJob, Some bypassingJob)] else []));
     State_Monad.return (case r of
       Inr _ \<Rightarrow> Inr False
     | Inl e \<Rightarrow> if isNotFound e then Inr True else Inl (wrapErr (''patching '' @ psNameAnnotation) e))
   }"

definition ensureSourceColdStartBypass :: "pmj \<Rightarrow> string \<Rightarrow> (api_error + bool) io" where
  "ensureSourceColdStartBypass job podName = setColdStartBypass podName (pmj_TargetPodUID job) (pmj_Name job)"

definition GKE_EnsureTrigger :: "reader \<Rightarrow> pmj \<Rightarrow> string \<Rightarrow> (api_error + result) io" where
  "GKE_EnsureTrigger rd job podName = do {
     g \<leftarrow> get_trigger rd (FormatPSMTName podName (pmj_TargetPodUID job));
     (case g of
        Inr existing \<Rightarrow>
          if pmj_UID job \<in> set (tg_OwnerUIDs existing) then State_Monad.return (Inr no_requeue)
          else do {
            _ \<leftarrow> deleteTrigger (tg_Name existing);
            State_Monad.return (Inr requeue_now)
          }
      | Inl e \<Rightarrow>
          if \<not> isNotFound e then State_Monad.return (Inl e)
          else do {
            b \<leftarrow> ensureSourceColdStartBypass job podName;
            (case b of
               Inl e' \<Rightarrow> State_Monad.return (Inl e')
             | Inr sourceGone \<Rightarrow> do {
                 c \<leftarrow> createTrigger (gkeTrigger job podName);
                 State_Monad.return (case c of
                   Inr _ \<Rightarrow> Inr no_requeue
                 | Inl e' \<Rightarrow> if ae_reason e' = AlreadyExists then Inr no_requeue else Inl e')
               })
          })
   }"

definition GKE_CheckStatus :: "kubelib \<Rightarrow> reader \<Rightarrow> pmj \<Rightarrow> string \<Rightarrow> (api_error + snapStatus) io" where
  "GKE_CheckStatus K rd job podName = do {
     g \<leftarrow> get_trigger rd (FormatPSMTName podName (pmj_TargetPodUID job));
     (case g of
        Inl e \<Rightarrow> State_Monad.return
          (if isNotFound e then Inr (waitStatus [] ''Waiting for GKE PodSnapshotManualTrigger to be created'' zero_time) else Inl e)
      | Inr trig \<Rightarrow>
          (case triggerFailed trig of
             Some c \<Rightarrow> State_Monad.return (Inr (failStatus (uc_Reason c) [] ''SnapshotTriggerFailed''
                         (failMessage ''PodSnapshotManualTrigger'' (uc_Reason c) (uc_Message c))))
           | None \<Rightarrow>
               (case tg_SnapshotCreated trig of
                  NestedErr \<Rightarrow> State_Monad.return (Inl (err OtherReason ''reading snapshotCreated.name''))
                | NestedAbsent \<Rightarrow> State_Monad.return (Inr (waitStatus [] ''Waiting for GKE to populate snapshot name in trigger status'' zero_time))
                | NestedStr snapshotName \<Rightarrow>
                    if snapshotName = []
                    then State_Monad.return (Inr (waitStatus [] ''Waiting for GKE to populate snapshot name in trigger status'' zero_time))
                    else do {
                      s \<leftarrow> get_snapshot rd snapshotName;
                      t \<leftarrow> timeNow;
                      State_Monad.return (case s of
                        Inl e \<Rightarrow> if isNotFound e then Inr (waitStatus snapshotName (''Waiting for GKE PodSnapshot object '' @ quoted snapshotName @ '' to be created'') zero_time) else Inl e
                      | Inr snap \<Rightarrow>
                          (case sn_Status snap of
                             None \<Rightarrow> Inr (waitStatus snapshotName (''Waiting for GKE PodSnapshot '' @ quoted snapshotName @ '' status to be populated'') zero_time)
                           | Some so \<Rightarrow> Inr (statusOfSnapshot K t snapshotName (sn_CreationTimestamp snap) so)))
                    })))
   }"

definition GKE_Cleanup :: "pmj \<Rightarrow> string \<Rightarrow> api_error option io" where
  "GKE_Cleanup job podName = do {
     d \<leftarrow> deleteTrigger (FormatPSMTName podName (pmj_TargetPodUID job));
     State_Monad.return (case d of Inl e \<Rightarrow> if isNotFound e then None else Some e | Inr _ \<Rightarrow> None)
   }"

definition snapshotTriggeredByLabel :: string where
  "snapshotTriggeredByLabel = ''gke-pod-snapshot-triggered-by''"

text \<open>One condition of \<open>podSnapshotCheckpointProgress\<close>: (completed, finished, readyFailed, inProgress).\<close>

definition progressCond :: "ucond \<Rightarrow> bool \<times> bool \<times> bool \<times> bool \<Rightarrow> bool \<times> bool \<times> bool \<times> bool" where
  "progressCond c st = (case st of (completed, finished, readyFailed, inProgress) \<Rightarrow>
     if isSubcondition c then
       (completed \<or> (uc_Type c = ''Checkpoint'' \<and> uc_Status c = ''True''),
        finished \<or> (uc_Status c = ''False'' \<and> isTerminalSnapshotFailureReason (uc_Reason c)),
        readyFailed,
        inProgress \<or> (uc_Status c = ''False'' \<and> \<not> isTerminalSnapshotFailureReason (uc_Reason c) \<and>
          isSnapshotSubconditionInProgressReason (uc_Reason c)))
     else if uc_Type c = ''Ready'' then
       (if uc_Status c = ''True'' then (True, True, readyFailed, inProgress)
        else (completed, finished, readyFailed \<or> (uc_Status c = ''False'' \<and> isTerminalSnapshotFailureReason (uc_Reason c)), inProgress))
     else st)"

definition podSnapshotCheckpointProgress :: "podSnapshot \<Rightarrow> bool \<times> bool" where
  "podSnapshotCheckpointProgress snap =
     (let conds = (case sn_Status snap of None \<Rightarrow> [] | Some so \<Rightarrow> ss_Conditions so);
          ph = (case sn_Status snap of None \<Rightarrow> [] | Some so \<Rightarrow> (case ss_Phase so of None \<Rightarrow> [] | Some p \<Rightarrow> p))
      in case fold (\<lambda>x st. case x of None \<Rightarrow> st | Some c \<Rightarrow> progressCond c st) conds (False, False, False, False) of
           (completed, finished, readyFailed, inProgress) \<Rightarrow>
             (completed,
              (finished \<or> (readyFailed \<and> \<not> inProgress) \<or> isTerminalSnapshotFailureReason ph) \<and> sn_DeletionTimestamp snap = None))"

text \<open>The snapshots named by the job and the trigger that the label listing did not return.\<close>

fun readNamed :: "reader \<Rightarrow> string \<Rightarrow> string list \<Rightarrow> podSnapshot list \<Rightarrow> (api_error + podSnapshot list) io" where
  "readNamed rd trig [] acc = State_Monad.return (Inr acc)"
| "readNamed rd trig (name # names) acc =
     (if name \<in> sn_Name ` set acc then readNamed rd trig names acc
      else do {
        g \<leftarrow> get_snapshot rd name;
        (case g of
           Inr snap \<Rightarrow> readNamed rd trig names (snap # acc)
         | Inl e \<Rightarrow>
             if denial e then readNamed rd trig names acc
             else State_Monad.return (Inl (wrapErr (''reading snapshot '' @ name) e)))
      })"

definition stateOf :: "bool \<Rightarrow> podSnapshot list \<Rightarrow> checkpointState" where
  "stateOf triggerGone snaps = \<lparr>
     cps_Settled = (triggerGone \<and> list_all (\<lambda>s. snd (podSnapshotCheckpointProgress s)) snaps),
     cps_Completed = list_ex (\<lambda>s. fst (podSnapshotCheckpointProgress s)) snaps\<rparr>"

definition createdName :: "trigger \<Rightarrow> string list" where
  "createdName t = (case tg_SnapshotCreated t of NestedStr s \<Rightarrow> if s \<noteq> [] then [s] else [] | _ \<Rightarrow> [])"

text \<open>Listing and reading the snapshots, once the trigger was read.\<close>

definition checkpointStateFrom :: "reader \<Rightarrow> string \<Rightarrow> string list \<Rightarrow> bool \<Rightarrow> (api_error + checkpointState) io" where
  "checkpointStateFrom rd triggerName names triggerGone = do {
     l \<leftarrow> list_snapshots rd snapshotTriggeredByLabel triggerName;
     (if (case l of Inl e \<Rightarrow> ae_reason e \<noteq> NoMatch | Inr _ \<Rightarrow> False)
      then State_Monad.return (Inl (wrapErr (''listing the snapshots of trigger '' @ triggerName) (projl l)))
      else do {
        n \<leftarrow> readNamed rd triggerName names (case l of Inl _ \<Rightarrow> [] | Inr listed \<Rightarrow> listed);
        State_Monad.return (case n of Inl e \<Rightarrow> Inl e | Inr snaps \<Rightarrow> Inr (stateOf triggerGone snaps))
      })
   }"

definition GKE_CheckpointState :: "reader \<Rightarrow> pmj \<Rightarrow> string \<Rightarrow> (api_error + checkpointState) io" where
  "GKE_CheckpointState rd job podName =
     (let triggerName = FormatPSMTName podName (pmj_TargetPodUID job);
          recorded = (if st_SnapshotRef (pmj_Status job) \<noteq> [] then [st_SnapshotRef (pmj_Status job)] else [])
      in do {
        g \<leftarrow> get_trigger rd triggerName;
        (case g of
           Inr t \<Rightarrow> checkpointStateFrom rd triggerName (recorded @ createdName t) False
         | Inl e \<Rightarrow>
             if denial e then checkpointStateFrom rd triggerName recorded True
             else State_Monad.return (Inl (wrapErr (''reading trigger '' @ triggerName) e)))
      })"

definition setRestoreCompleted :: "string \<Rightarrow> string \<Rightarrow> nat \<Rightarrow> string \<Rightarrow> (api_error + bool) io" where
  "setRestoreCompleted podName uid resourceVersion snapshotRef = do {
     r \<leftarrow> patch_pod_meta podName uid (Some resourceVersion) []
            [(psNameAnnotation, Some []), (AnnotationRestoreCompleted, Some snapshotRef)];
     State_Monad.return (case r of
       Inr _ \<Rightarrow> Inr False
     | Inl e \<Rightarrow> if isNotFound e then Inr True else Inl (wrapErr (''patching '' @ psNameAnnotation) e))
   }"

definition GKE_CompleteRestore :: "pmj \<Rightarrow> string \<Rightarrow> string \<Rightarrow> api_error option io" where
  "GKE_CompleteRestore job podName podUID =
     (let snapRef = st_SnapshotRef (pmj_Status job) in do {
        g \<leftarrow> get_pod Cached podName;
        (case g of
           Inl e \<Rightarrow> State_Monad.return (if isNotFound e then None else Some (wrapErr (''getting replacement pod '' @ podName) e))
         | Inr current \<Rightarrow>
             if podUID \<noteq> [] \<and> pod_UID current \<noteq> podUID then State_Monad.return None
             else if snapRef \<noteq> [] \<and> mget (pod_Annotations current) psNameAnnotation = [] \<and>
                     mget (pod_Annotations current) AnnotationRestoreCompleted = snapRef
             then State_Monad.return None
             else if snapRef = [] \<or> mget (pod_Annotations current) psNameAnnotation \<noteq> snapRef
             then State_Monad.return None
             else do {
               s \<leftarrow> setRestoreCompleted podName (pod_UID current) (pod_ResourceVersion current) snapRef;
               (case s of
                  Inr gone \<Rightarrow> State_Monad.return None
                | Inl e \<Rightarrow> do {
                    g2 \<leftarrow> get_pod Cached podName;
                    State_Monad.return (case g2 of
                      Inl e2 \<Rightarrow> if isNotFound e2 then None else Some (wrapErr (''completing the restore of '' @ podName) e)
                    | Inr cur \<Rightarrow> if podUID \<noteq> [] \<and> pod_UID cur \<noteq> podUID then None
                                  else Some (wrapErr (''completing the restore of '' @ podName) e))
                  })
             })
      })"

definition gkeProvider :: "kubelib \<Rightarrow> reader \<Rightarrow> provider" where
  "gkeProvider K rd = \<lparr>
     EnsureTrigger = GKE_EnsureTrigger rd,
     CheckStatus = GKE_CheckStatus K rd,
     Cleanup = GKE_Cleanup,
     CheckpointReporter = Some (GKE_CheckpointState rd),
     RestoreCompleter = Some GKE_CompleteRestore\<rparr>"

subsection \<open>What the controller relies on\<close>

text \<open>A pod up to its annotations, which is all that a provider may change of it.\<close>

definition podCore :: "pod \<Rightarrow> pod" where
  "podCore p = p\<lparr>pod_Annotations := Map.empty, pod_ResourceVersion := 0\<rparr>"

definition sameCore :: "cluster \<Rightarrow> cluster \<Rightarrow> bool" where
  "sameCore c c' \<longleftrightarrow> cl_jobs c' = cl_jobs c \<and>
     (\<forall>n. map_option podCore (store_get pod_Name (cl_pods c') n) = map_option podCore (store_get pod_Name (cl_pods c) n))"

definition providerWrite :: "effect \<Rightarrow> bool" where
  "providerWrite e = (case e of PatchPodMeta _ lbls _ \<Rightarrow> lbls = [] | CreateTrigger _ \<Rightarrow> True | DeleteTrigger _ \<Rightarrow> True | _ \<Rightarrow> False)"

definition providerStep :: "effect \<Rightarrow> cluster \<Rightarrow> cluster \<Rightarrow> bool" where
  "providerStep e c c' \<longleftrightarrow> providerWrite e \<and> sameCore c c'"

definition providerFrame :: "world \<Rightarrow> world \<Rightarrow> bool" where
  "providerFrame w w' \<longleftrightarrow>
     (\<exists>k c es. w' = w\<lparr>w_calls := k, w_live := c, w_log := w_log w @ es\<rparr> \<and> chain providerStep (w_live w) es c)"

locale snapshot_provider =
  fixes P :: provider
  assumes ensure: "wp (EnsureTrigger P job podName) (\<lambda>_. providerFrame w) w"
    and status: "wp (CheckStatus P job podName) (\<lambda>_. quiet w) w"
    and cleanup: "wp (Cleanup P job podName) (\<lambda>_. providerFrame w) w"
    and reporter: "CheckpointReporter P = Some f \<Longrightarrow> wp (f job podName) (\<lambda>_. quiet w) w"
    and completer: "RestoreCompleter P = Some g \<Longrightarrow> wp (g job podName uid) (\<lambda>_. providerFrame w) w"
begin

lemma ensureI: "(\<And>r w'. providerFrame w w' \<Longrightarrow> Q r w') \<Longrightarrow> wp (EnsureTrigger P job podName) Q w"
  by (rule wp_mono [OF ensure])

lemma statusI: "(\<And>r n. Q r (w\<lparr>w_calls := n\<rparr>)) \<Longrightarrow> wp (CheckStatus P job podName) Q w"
  by (rule wp_mono [OF status]) (auto simp: quiet_def)

lemma cleanupI: "(\<And>r w'. providerFrame w w' \<Longrightarrow> Q r w') \<Longrightarrow> wp (Cleanup P job podName) Q w"
  by (rule wp_mono [OF cleanup])

lemma reporterI:
  "CheckpointReporter P = Some f \<Longrightarrow> (\<And>r n. Q r (w\<lparr>w_calls := n\<rparr>)) \<Longrightarrow> wp (f job podName) Q w"
  by (rule wp_mono [OF reporter]) (auto simp: quiet_def)

lemma completerI:
  "RestoreCompleter P = Some g \<Longrightarrow> (\<And>r w'. providerFrame w w' \<Longrightarrow> Q r w') \<Longrightarrow> wp (g job podName uid) Q w"
  by (rule wp_mono [OF completer])

end

section \<open>Lemmas\<close>

subsection \<open>Frames\<close>

lemma sameCore_refl [simp]: "sameCore c c"
  by (simp add: sameCore_def)

lemma sameCore_trans: "sameCore a b \<Longrightarrow> sameCore b c \<Longrightarrow> sameCore a c"
  by (simp add: sameCore_def)

lemma sameCore_pod:
  "store_get pod_Name (cl_pods c) n = Some p \<Longrightarrow> podCore p' = podCore p \<Longrightarrow> pod_Name p' = n \<Longrightarrow>
   sameCore c (c\<lparr>cl_pods := store_put pod_Name p' (cl_pods c)\<rparr>)"
  by (simp add: sameCore_def store_get_put)

lemma sameCore_triggers [simp]: "sameCore c (c\<lparr>cl_triggers := x\<rparr>)"
  by (simp add: sameCore_def)

lemma providerFrameI:
  "providerWrite e \<Longrightarrow> sameCore (w_live w) c \<Longrightarrow> providerFrame w (w\<lparr>w_calls := k, w_live := c, w_log := w_log w @ [(e, w_live w)]\<rparr>)"
  unfolding providerFrame_def
  by (intro exI [of _ k] exI [of _ c] exI [of _ "[(e, w_live w)]"]) (simp add: providerStep_def)

lemma providerFrame_refl [simp]: "providerFrame w (w\<lparr>w_calls := k\<rparr>)"
  unfolding providerFrame_def by (intro exI [of _ k] exI [of _ "w_live w"] exI [of _ "[]"]) simp

lemma providerFrame_trans:
  assumes "providerFrame u v" and "providerFrame v w"
  shows "providerFrame u w"
proof -
  from assms(1) obtain k1 c1 es1 where v: "v = u\<lparr>w_calls := k1, w_live := c1, w_log := w_log u @ es1\<rparr>"
    and c1: "chain providerStep (w_live u) es1 c1" by (auto simp: providerFrame_def)
  from assms(2) obtain k2 c2 es2 where w: "w = v\<lparr>w_calls := k2, w_live := c2, w_log := w_log v @ es2\<rparr>"
    and c2: "chain providerStep (w_live v) es2 c2" by (auto simp: providerFrame_def)
  have "w = u\<lparr>w_calls := k2, w_live := c2, w_log := w_log u @ (es1 @ es2)\<rparr>" unfolding w v by simp
  moreover have "chain providerStep (w_live u) (es1 @ es2) c2" using c1 c2 by (auto simp: v chain_append)
  ultimately show ?thesis unfolding providerFrame_def by blast
qed

lemma wp_patch_annotationsI:
  assumes "\<And>r w'. providerFrame w w' \<Longrightarrow> Q r w'"
  shows "wp (patch_pod_meta name uid rv [] anns) Q w"
  unfolding patch_pod_meta_def
  by (intro wp_write_podI assms)
    (auto intro!: providerFrameI sameCore_pod simp: podCore_def merge_map_def providerWrite_def)

lemma wp_createTriggerI:
  assumes "\<And>r w'. providerFrame w w' \<Longrightarrow> Q r w'"
  shows "wp (createTrigger t) Q w"
  unfolding createTrigger_def
  by (intro wp_write_callI assms)
    (auto intro!: providerFrameI simp: providerWrite_def split: option.splits)

lemma wp_deleteTriggerI:
  assumes "\<And>r w'. providerFrame w w' \<Longrightarrow> Q r w'"
  shows "wp (deleteTrigger t) Q w"
  unfolding deleteTrigger_def
  by (intro wp_write_callI assms)
    (auto intro!: providerFrameI simp: providerWrite_def split: option.splits)

lemma wp_read_frameI:
  "(\<And>r w'. providerFrame w w' \<Longrightarrow> Q r w') \<Longrightarrow> wp (read_call f) Q w"
  by (intro wp_readI) auto

lemmas frame_rules = wp_patch_annotationsI wp_createTriggerI wp_deleteTriggerI wp_read_frameI

subsection \<open>The GKE provider keeps the contract\<close>

lemma gke_ensure: "wp (GKE_EnsureTrigger rd job podName) (\<lambda>_. providerFrame w) w"
  unfolding GKE_EnsureTrigger_def ensureSourceColdStartBypass_def setColdStartBypass_def get_trigger_def
  by (auto simp: wp_simps split: sum.splits intro!: frame_rules) (meson providerFrame_trans)+

lemma gke_status: "wp (GKE_CheckStatus K rd job podName) (\<lambda>_. quiet w) w"
  unfolding GKE_CheckStatus_def get_trigger_def get_snapshot_def
  by (auto simp: wp_simps split: sum.splits option.splits nested_string.splits intro!: wp_readI)

lemma gke_cleanup: "wp (GKE_Cleanup job podName) (\<lambda>_. providerFrame w) w"
  unfolding GKE_Cleanup_def by (auto simp: wp_simps intro!: wp_deleteTriggerI)

lemma wp_readNamedI:
  assumes "\<And>r n. Q r (w\<lparr>w_calls := n\<rparr>)"
  shows "wp (readNamed rd trig names acc) Q w"
  using assms
proof (induction names arbitrary: acc w)
  case Nil
  then show ?case using Nil [of _ "w_calls w"] by (simp add: wp_simps)
next
  case (Cons x xs)
  have IH: "wp (readNamed rd trig xs acc) Q (w\<lparr>w_calls := n\<rparr>)" for acc n
    using Cons.prems by (intro Cons.IH) auto
  then have "wp (readNamed rd trig xs acc) Q w" for acc using IH [of _ "w_calls w"] by simp
  with IH Cons.prems show ?case
    unfolding get_snapshot_def by (auto simp: wp_simps get_snapshot_def split: sum.splits intro!: wp_readI)
qed

lemma gke_reporter: "wp (GKE_CheckpointState rd job podName) (\<lambda>_. quiet w) w"
  unfolding GKE_CheckpointState_def checkpointStateFrom_def get_trigger_def list_snapshots_def Let_def
  by (auto simp: wp_simps simp del: readNamed.simps split: sum.splits intro!: wp_readI wp_readNamedI)

lemma gke_completer: "wp (GKE_CompleteRestore job podName uid) (\<lambda>_. providerFrame w) w"
  unfolding GKE_CompleteRestore_def setRestoreCompleted_def get_pod_def Let_def
  by (auto simp: wp_simps split: sum.splits intro!: frame_rules) (meson providerFrame_trans)+

interpretation gke: snapshot_provider "gkeProvider K rd" for K rd
  by unfold_locales
    (auto simp: gkeProvider_def intro: gke_ensure gke_status gke_cleanup gke_reporter gke_completer)

subsection \<open>The trigger comes after the cold-start bypass\<close>

definition bypassed :: "string \<Rightarrow> string \<Rightarrow> cluster \<Rightarrow> bool" where
  "bypassed podName uid c =
     (case store_get pod_Name (cl_pods c) podName of
        None \<Rightarrow> True
      | Some p \<Rightarrow> pod_Annotations p psNameAnnotation = Some [] \<and> (uid \<noteq> [] \<longrightarrow> pod_UID p = uid))"

definition triggerBypassed :: "string \<Rightarrow> string \<Rightarrow> effect \<Rightarrow> cluster \<Rightarrow> bool" where
  "triggerBypassed podName uid e c = (case e of CreateTrigger _ \<Rightarrow> bypassed podName uid c | _ \<Rightarrow> True)"

lemma merge_map_bypass [simp]:
  "merge_map m [(psNameAnnotation, Some [])] psNameAnnotation = Some []"
  "merge_map m [(psNameAnnotation, Some []), (AnnotationColdStartBypassJob, Some j)] psNameAnnotation = Some []"
  by (auto simp: merge_map_def const_defs)

lemma bypassed_put:
  "pod_Name p = podName \<Longrightarrow> pod_Annotations p psNameAnnotation = Some [] \<Longrightarrow> (uid \<noteq> [] \<longrightarrow> pod_UID p = uid) \<Longrightarrow>
   bypassed podName uid (c\<lparr>cl_pods := store_put pod_Name p ps\<rparr>)"
  by (auto simp: bypassed_def store_get_put)

lemma wp_setColdStartBypassI:
  assumes h: "honest w" and a: "all_writes (triggerBypassed podName uid) w"
    and e: "\<And>e w'. all_writes (triggerBypassed podName uid) w' \<Longrightarrow> honest w' \<Longrightarrow> Q (Inl e) w'"
    and g: "\<And>g w'. all_writes (triggerBypassed podName uid) w' \<Longrightarrow> honest w' \<Longrightarrow> bypassed podName uid (w_live w') \<Longrightarrow> Q (Inr g) w'"
  shows "wp (setColdStartBypass podName uid j) Q w"
  unfolding setColdStartBypass_def patch_pod_meta_def wp_bind wp_return
proof (rule wp_write_pod_honestI [OF h], goal_cases)
  case (1 e n)
  then show ?case using h a e by (simp add: denial_def)
next
  case (2 e n)
  then show ?case using h a g by (simp add: bypassed_def)
next
  case (3 p p' n r)
  have b: "bypassed podName uid ((w_live w)\<lparr>cl_pods := store_put pod_Name p' (cl_pods (w_live w))\<rparr>)"
    using 3 by (intro bypassed_put) (auto simp: precond_def)
  from 3(5) show ?case
    using h a e g b by (auto simp: triggerBypassed_def denial_def)
qed

text \<open>
  C7 (safety). The GKE provider never creates a checkpoint trigger while the source could
  restart from the snapshot: at the instant the trigger is created, either no pod has the
  source's name, or the pod that has it is the source (its UID matches) and carries the empty
  restore annotation, so that a restart is cold. This holds whatever calls fail, as long as
  no failure claims that an object does not exist.
\<close>

theorem trigger_only_after_cold_start_bypass:
  assumes h: "honest w" and log: "w_log w = []"
    and run: "run_state (GKE_EnsureTrigger rd job podName) w = (r, w')"
    and trig: "(CreateTrigger t, c) \<in> set (w_log w')"
  shows "bypassed podName (pmj_TargetPodUID job) c"
proof -
  let ?P = "triggerBypassed podName (pmj_TargetPodUID job)"
  have other: "?P (DeleteTrigger n) c" for n c by (simp add: triggerBypassed_def)
  have "wp (GKE_EnsureTrigger rd job podName) (\<lambda>_. all_writes ?P) w"
    unfolding GKE_EnsureTrigger_def ensureSourceColdStartBypass_def get_trigger_def createTrigger_def deleteTrigger_def
    using h all_writes_empty [OF log, of ?P]
    by (auto simp: wp_simps split: sum.splits option.splits
        intro!: wp_readI wp_setColdStartBypassI wp_write_callI other)
      (auto simp: triggerBypassed_def)
  from all_writesD [OF wp_run [OF this run] trig] show ?thesis by (simp add: triggerBypassed_def)
qed

lemma trigger_only_after_cold_start_bypass_witness:
  "\<exists>t c. (CreateTrigger t, c) \<in> set (w_log (snd (run_state (GKE_EnsureTrigger Live (jobOf ''pmj'' ''web-0'' ''u0'' PhaseSnapshotting) ''web-0'')
       (worldOf (clusterOf [podOf ''web-0'' ''u0''] []))))) \<and> bypassed ''web-0'' ''u0'' c"
proof -
  let ?w = "worldOf (clusterOf [podOf ''web-0'' ''u0''] [])"
  let ?job = "jobOf ''pmj'' ''web-0'' ''u0'' PhaseSnapshotting"
  let ?run = "run_state (GKE_EnsureTrigger Live ?job ''web-0'') ?w"
  obtain c where mem: "(CreateTrigger (gkeTrigger ?job ''web-0''), c) \<in> set (w_log (snd ?run))"
  proof
    show "(CreateTrigger (gkeTrigger ?job ''web-0''), snd (w_log (snd ?run) ! 1)) \<in> set (w_log (snd ?run))"
      by (simp add: GKE_EnsureTrigger_def ensureSourceColdStartBypass_def setColdStartBypass_def patch_pod_meta_def write_pod_def
          write_call_def api_call_def get_trigger_def read_call_def createTrigger_def scenario_defs view_def store_get_def found_def
          err_def isNotFound_def precond_def gkeTrigger_def Let_def)
  qed
  have "bypassed ''web-0'' (pmj_TargetPodUID ?job) c"
    by (rule trigger_only_after_cold_start_bypass [OF worldOf_honest worldOf_log _ mem]) (rule prod.collapse [symmetric])
  with mem show ?thesis by (auto simp: jobOf_def)
qed

subsection \<open>What a snapshot's conditions say\<close>

text \<open>
  The verdicts of \<open>CheckStatus\<close> and \<open>CheckpointState\<close> in terms of single conditions, without
  the order in which the loop meets them.
\<close>

definition readyEvidence :: "ucond \<Rightarrow> bool" where
  "readyEvidence c \<longleftrightarrow> (uc_Type c = ''Checkpoint'' \<and> uc_Status c = ''True'' \<and> uc_Reason c = ''Succeeded'') \<or>
     (uc_Type c = ''Ready'' \<and> uc_Status c = ''True'')"

definition subconditionFailed :: "ucond \<Rightarrow> bool" where
  "subconditionFailed c \<longleftrightarrow> isSubcondition c \<and> uc_Status c = ''False'' \<and> isTerminalSnapshotFailureReason (uc_Reason c)"

definition subconditionRunning :: "ucond \<Rightarrow> bool" where
  "subconditionRunning c \<longleftrightarrow> isSubcondition c \<and> uc_Status c = ''False'' \<and>
     \<not> isTerminalSnapshotFailureReason (uc_Reason c) \<and> isSnapshotSubconditionInProgressReason (uc_Reason c)"

definition readyFailed :: "ucond \<Rightarrow> bool" where
  "readyFailed c \<longleftrightarrow> uc_Type c = ''Ready'' \<and> uc_Status c = ''False'' \<and> isTerminalSnapshotFailureReason (uc_Reason c)"

definition condIn :: "(ucond \<Rightarrow> bool) \<Rightarrow> ucond option list \<Rightarrow> bool" where
  "condIn P cs \<longleftrightarrow> list_ex (\<lambda>x. case x of None \<Rightarrow> False | Some c \<Rightarrow> P c) cs"

definition phaseFailed :: "snapStatusObj \<Rightarrow> bool" where
  "phaseFailed so = (case ss_Phase so of None \<Rightarrow> False | Some ph \<Rightarrow> isTerminalSnapshotFailureReason ph)"

definition snapshotUsable :: "snapStatusObj \<Rightarrow> bool" where
  "snapshotUsable so \<longleftrightarrow> condIn readyEvidence (ss_Conditions so) \<and> \<not> condIn subconditionFailed (ss_Conditions so) \<and> \<not> phaseFailed so"

definition relevantSnapshot :: "pmj \<Rightarrow> string \<Rightarrow> cluster \<Rightarrow> podSnapshot \<Rightarrow> bool" where
  "relevantSnapshot job podName c s \<longleftrightarrow> s \<in> set (cl_snapshots c) \<and>
     (sn_Labels s snapshotTriggeredByLabel = Some (FormatPSMTName podName (pmj_TargetPodUID job)) \<or>
      (sn_Name s = st_SnapshotRef (pmj_Status job) \<and> sn_Name s \<noteq> []))"

lemma ucond_types: "isSubcondition c \<Longrightarrow> uc_Type c \<noteq> ''Ready''" "uc_Type c = ''Checkpoint'' \<Longrightarrow> isSubcondition c"
  by (auto simp: isSubcondition_def)

lemma scanCond_isReady: "sc_isReady (scanCond K c s) \<longleftrightarrow> sc_isReady s \<or> readyEvidence c"
  using ucond_types [of c]
  by (cases "isSubcondition c"; cases "uc_Type c = ''Ready''"; cases "condTransition K c")
    (simp_all add: scanCond_def Let_def readyEvidence_def split: if_split, blast+)

lemma scanCond_terminalSubcond:
  "sc_terminalSubcond (scanCond K c s) = (if subconditionFailed c then Some c else sc_terminalSubcond s)"
  using ucond_types [of c]
  by (cases "isSubcondition c"; cases "uc_Type c = ''Ready''"; cases "condTransition K c")
    (simp_all add: scanCond_def Let_def subconditionFailed_def)

lemma scanCond_inProgress:
  "sc_subconditionInProgress (scanCond K c s) \<longleftrightarrow> sc_subconditionInProgress s \<or> subconditionRunning c"
  using ucond_types [of c]
  by (cases "isSubcondition c"; cases "uc_Type c = ''Ready''"; cases "condTransition K c")
    (simp_all add: scanCond_def Let_def subconditionRunning_def split: if_split, blast+)

lemma scanCond_readyFailed:
  "sc_readyTerminalCond (scanCond K c s) = (if readyFailed c then Some c else sc_readyTerminalCond s)"
  using ucond_types [of c]
  by (cases "isSubcondition c"; cases "uc_Type c = ''Ready''"; cases "condTransition K c")
    (simp_all add: scanCond_def Let_def readyFailed_def)

lemma scanCond_transition:
  "sc_readyTerminalTransition (scanCond K c s) =
     (if readyFailed c then (case condTransition K c of None \<Rightarrow> zero_time | Some t \<Rightarrow> t) else sc_readyTerminalTransition s)"
  using ucond_types [of c]
  by (cases "isSubcondition c"; cases "uc_Type c = ''Ready''"; cases "condTransition K c")
    (simp_all add: scanCond_def Let_def readyFailed_def)

lemmas scanCond_fields =
  scanCond_isReady scanCond_terminalSubcond scanCond_inProgress scanCond_readyFailed scanCond_transition

lemma condIn_simps [simp]:
  "condIn P [] = False" "condIn P (None # cs) = condIn P cs" "condIn P (Some c # cs) \<longleftrightarrow> P c \<or> condIn P cs"
  "condIn P (cs @ ds) \<longleftrightarrow> condIn P cs \<or> condIn P ds"
  by (simp_all add: condIn_def)

lemma scanConditions_snoc:
  "scanConditions K (cs @ [None]) = scanConditions K cs"
  "scanConditions K (cs @ [Some c]) = scanCond K c (scanConditions K cs)"
  by (simp_all add: scanConditions_def)

lemma scanConditions_Nil [simp]: "scanConditions K [] = emptyScan"
  by (simp add: scanConditions_def)

lemma scanConditions_fields:
  "sc_isReady (scanConditions K cs) \<longleftrightarrow> condIn readyEvidence cs"
  "sc_terminalSubcond (scanConditions K cs) = None \<longleftrightarrow> \<not> condIn subconditionFailed cs"
  "sc_subconditionInProgress (scanConditions K cs) \<longleftrightarrow> condIn subconditionRunning cs"
  "sc_readyTerminalCond (scanConditions K cs) = None \<longleftrightarrow> \<not> condIn readyFailed cs"
proof (induction cs rule: rev_induct)
  case (snoc x cs)
  {
    case 1
    show ?case using snoc by (cases x) (simp_all add: scanConditions_snoc scanCond_fields)
  next
    case 2
    show ?case using snoc by (cases x) (simp_all add: scanConditions_snoc scanCond_fields)
  next
    case 3
    show ?case using snoc by (cases x) (simp_all add: scanConditions_snoc scanCond_fields)
  next
    case 4
    show ?case using snoc by (cases x) (simp_all add: scanConditions_snoc scanCond_fields)
  }
qed (simp_all add: emptyScan_def)

lemma scanConditions_one_failure:
  "\<not> condIn readyFailed ds \<Longrightarrow> readyFailed c \<Longrightarrow>
   sc_readyTerminalTransition (scanConditions K (cs @ Some c # ds)) = (case condTransition K c of None \<Rightarrow> zero_time | Some t \<Rightarrow> t)"
proof (induction ds rule: rev_induct)
  case Nil
  then show ?case by (simp add: scanConditions_snoc scanCond_fields)
next
  case (snoc x ds)
  then show ?case
    by (cases x) (simp_all add: scanConditions_snoc scanCond_fields append_Cons [symmetric] append_assoc [symmetric] del: append_Cons append_assoc)
qed

lemma wp_get_snapshotI:
  assumes "\<And>e n. Q (Inl e) (w\<lparr>w_calls := n\<rparr>)"
    and "\<And>s n. store_get sn_Name (cl_snapshots (view rd w)) name = Some s \<Longrightarrow> Q (Inr s) (w\<lparr>w_calls := n\<rparr>)"
  shows "wp (get_snapshot rd name) Q w"
  unfolding get_snapshot_def using assms
  by (intro wp_read_callI) (auto simp: found_def split: option.splits)

lemma wp_get_triggerI:
  assumes "\<And>e n. Q (Inl e) (w\<lparr>w_calls := n\<rparr>)"
    and "\<And>s n. store_get tg_Name (cl_triggers (view rd w)) name = Some s \<Longrightarrow> Q (Inr s) (w\<lparr>w_calls := n\<rparr>)"
  shows "wp (get_trigger rd name) Q w"
  unfolding get_trigger_def using assms
  by (intro wp_read_callI) (auto simp: found_def split: option.splits)

lemma statusOfSnapshot_ref [simp]: "sst_SnapshotRef (statusOfSnapshot K t n created so) = n"
  by (simp add: statusOfSnapshot_def Let_def failStatus_def waitStatus_def split: option.split)

lemma failStatus_phase [simp]: "sst_Phase (failStatus r ref rs ms) = SnapFailed \<or> sst_Phase (failStatus r ref rs ms) = SnapRefused"
  "sst_Phase (failStatus r ref rs ms) \<noteq> SnapReady" "sst_Phase (failStatus r ref rs ms) \<noteq> SnapInProgress"
  by (simp_all add: failStatus_def phaseForTerminalReason_def)

lemma waitStatus_phase [simp]: "sst_Phase (waitStatus ref ms t) = SnapInProgress"
  by (simp add: waitStatus_def)

lemma statusOfSnapshot_ready:
  "sst_Phase (statusOfSnapshot K t n created so) = SnapReady \<Longrightarrow> snapshotUsable so"
  using scanConditions_fields [of K "ss_Conditions so"]
  by (auto simp: statusOfSnapshot_def Let_def snapshotUsable_def phaseFailed_def split: option.splits if_splits)


subsection \<open>Scenes\<close>

definition condOf :: "string \<Rightarrow> string \<Rightarrow> string \<Rightarrow> ucond option" where
  "condOf ty st rs = Some \<lparr>uc_Type = ty, uc_Status = st, uc_Reason = rs, uc_Message = [], uc_LastTransitionTime = None\<rparr>"

definition snapOf :: "string \<Rightarrow> string \<Rightarrow> ucond option list \<Rightarrow> podSnapshot" where
  "snapOf name trig cs = \<lparr>sn_Name = name, sn_Labels = [snapshotTriggeredByLabel \<mapsto> trig], sn_CreationTimestamp = 1,
     sn_DeletionTimestamp = None, sn_Status = Some \<lparr>ss_Conditions = cs, ss_Phase = None\<rparr>\<rparr>"

definition trigOf :: "string \<Rightarrow> string \<Rightarrow> trigger" where
  "trigOf name snap = \<lparr>tg_Name = name, tg_TargetPod = ''web-0'', tg_OwnerUIDs = [''pmj''], tg_DeletionTimestamp = None,
     tg_Conditions = [], tg_SnapshotCreated = NestedStr snap\<rparr>"

definition readyScene :: cluster where
  "readyScene = (clusterOf [podOf ''web-0'' ''u0''] [])\<lparr>
     cl_triggers := [trigOf ''psmt-web-0-u0'' ''s1''],
     cl_snapshots := [snapOf ''s1'' ''psmt-web-0-u0'' [condOf ''Checkpoint'' ''True'' ''Succeeded'']]\<rparr>"

definition transientFailure :: ucond where
  "transientFailure = \<lparr>uc_Type = ''Ready'', uc_Status = ''False'', uc_Reason = ''Failed'', uc_Message = [], uc_LastTransitionTime = Some ''t''\<rparr>"

definition transientStatus :: snapStatusObj where
  "transientStatus = \<lparr>ss_Conditions = [condOf ''Checkpoint'' ''False'' ''InProgress''] @ Some transientFailure # [], ss_Phase = None\<rparr>"

definition failedScene :: cluster where
  "failedScene = (clusterOf [podOf ''web-0'' ''u0''] [])\<lparr>
     cl_snapshots := [snapOf ''s1'' ''psmt-web-0-u0'' [condOf ''Checkpoint'' ''False'' ''Failed'']]\<rparr>"

text \<open>
  C23 (safety). When \<open>CheckStatus\<close> reports a snapshot as ready, the job's trigger exists and did not
  fail, it names that snapshot, the snapshot exists, one of its conditions proves the checkpoint
  (Checkpoint is True with reason Succeeded, or Ready is True), and neither a sub-condition nor
  the top-level phase reports a terminal failure.
\<close>

theorem snapshot_ready_sound:
  assumes run: "run_state (GKE_CheckStatus K rd job podName) w = (Inr s, w')" and ready: "sst_Phase s = SnapReady"
  shows "\<exists>trig snap so.
     store_get tg_Name (cl_triggers (view rd w)) (FormatPSMTName podName (pmj_TargetPodUID job)) = Some trig \<and>
     triggerFailed trig = None \<and> tg_SnapshotCreated trig = NestedStr (sst_SnapshotRef s) \<and>
     store_get sn_Name (cl_snapshots (view rd w)) (sst_SnapshotRef s) = Some snap \<and>
     sn_Status snap = Some so \<and> snapshotUsable so"
proof -
  let ?Q = "\<lambda>r. case r of Inl e \<Rightarrow> True | Inr s \<Rightarrow> sst_Phase s = SnapReady \<longrightarrow> (\<exists>trig snap so.
     store_get tg_Name (cl_triggers (view rd w)) (FormatPSMTName podName (pmj_TargetPodUID job)) = Some trig \<and>
     triggerFailed trig = None \<and> tg_SnapshotCreated trig = NestedStr (sst_SnapshotRef s) \<and>
     store_get sn_Name (cl_snapshots (view rd w)) (sst_SnapshotRef s) = Some snap \<and>
     sn_Status snap = Some so \<and> snapshotUsable so)"
  have "wp (GKE_CheckStatus K rd job podName) (\<lambda>r w'. ?Q r) w"
    unfolding GKE_CheckStatus_def
    by (auto simp: wp_simps split: sum.splits option.splits nested_string.splits
        intro!: wp_get_triggerI wp_get_snapshotI)
      (rule statusOfSnapshot_ready)
  from wp_run [OF this run] ready show ?thesis by simp
qed

lemma snapshot_ready_sound_witness:
  "\<exists>s w'. run_state (GKE_CheckStatus sampleLib Live (jobOf ''pmj'' ''web-0'' ''u0'' PhaseSnapshotting) ''web-0'') (worldOf readyScene) = (Inr s, w') \<and>
     sst_Phase s = SnapReady \<and> sst_SnapshotRef s = ''s1'' \<and>
     (\<exists>snap so. store_get sn_Name (cl_snapshots readyScene) ''s1'' = Some snap \<and> sn_Status snap = Some so \<and> snapshotUsable so)"
proof -
  let ?run = "run_state (GKE_CheckStatus sampleLib Live (jobOf ''pmj'' ''web-0'' ''u0'' PhaseSnapshotting) ''web-0'') (worldOf readyScene)"
  let ?s = "\<lparr>sst_Phase = SnapReady, sst_SnapshotRef = ''s1'', sst_Reason = [], sst_Message = [], sst_LastProgressTime = 0\<rparr>"
  have r: "fst ?run = Inr ?s" by code_simp
  then have run: "?run = (Inr ?s, snd ?run)" by (metis prod.collapse)
  from snapshot_ready_sound [OF run] run show ?thesis by fastforce
qed

text \<open>
  A Ready=False failure while a sub-condition is still in progress is taken as the
  transient race exactly for 60 seconds after Ready's own transition: within the window the
  snapshot is not failed, and after it the verdict is failed or refused.
\<close>

theorem transient_ready_failure:
  assumes "ss_Conditions so = cs @ Some c # ds" and "readyFailed c" and "\<not> condIn readyFailed ds"
    and "condIn subconditionRunning (ss_Conditions so)" and "\<not> condIn subconditionFailed (ss_Conditions so)"
    and "condTransition K c = Some t" and "t \<noteq> zero_time" and "\<not> phaseFailed so"
  shows "sst_Phase (statusOfSnapshot K now name created so) \<in> {SnapFailed, SnapRefused} \<longleftrightarrow> 60 * second < time_sub now t"
proof -
  have t: "sc_readyTerminalTransition (scanConditions K (ss_Conditions so)) = t"
    using scanConditions_one_failure [of ds c K cs] assms by simp
  have "condIn readyFailed (ss_Conditions so)" using assms by simp
  with scanConditions_fields [of K "ss_Conditions so"] assms(4,5)
  obtain c' where "sc_terminalSubcond (scanConditions K (ss_Conditions so)) = None"
    "sc_readyTerminalCond (scanConditions K (ss_Conditions so)) = Some c'"
    "sc_subconditionInProgress (scanConditions K (ss_Conditions so))" by auto
  with t assms(7,8) show ?thesis
    by (auto simp: statusOfSnapshot_def Let_def inSuppressionWindow_def transientReadyFailureSuppressionWindow_def phaseFailed_def split: option.splits)
qed

lemma transient_ready_failure_witness:
  "sst_Phase (statusOfSnapshot (sampleLib\<lparr>ParseRFC3339Nano := (\<lambda>_. Some 5)\<rparr>) 7 ''s1'' 1 transientStatus) \<notin> {SnapFailed, SnapRefused}"
proof -
  let ?K = "sampleLib\<lparr>ParseRFC3339Nano := (\<lambda>_. Some 5)\<rparr>"
  have "readyFailed transientFailure" and "condIn subconditionRunning (ss_Conditions transientStatus)"
    and "\<not> condIn subconditionFailed (ss_Conditions transientStatus)" and "\<not> phaseFailed transientStatus"
    by code_simp+
  then have "sst_Phase (statusOfSnapshot ?K 7 ''s1'' 1 transientStatus) \<in> {SnapFailed, SnapRefused} \<longleftrightarrow> 60 * second < time_sub 7 5"
    by (intro transient_ready_failure [where c = transientFailure and ds = "[]" and cs = "[condOf ''Checkpoint'' ''False'' ''InProgress'']"])
      (simp_all add: condTransition_def transientFailure_def transientStatus_def)
  then show ?thesis by (simp add: time_sub_def)
qed

lemma wp_readNamed_honestI:
  assumes "honest w"
    and "\<And>e n. Q (Inl e) (w\<lparr>w_calls := n\<rparr>)"
    and "\<And>snaps n. set acc \<subseteq> set snaps \<Longrightarrow> set snaps \<subseteq> set acc \<union> set (cl_snapshots (view rd w)) \<Longrightarrow>
       (\<And>name. name \<in> set names \<Longrightarrow> store_get sn_Name (cl_snapshots (view rd w)) name \<noteq> None \<Longrightarrow> name \<in> sn_Name ` set snaps) \<Longrightarrow>
       Q (Inr snaps) (w\<lparr>w_calls := n\<rparr>)"
  shows "wp (readNamed rd trig names acc) Q w"
  using assms
proof (induction names arbitrary: acc w)
  case Nil
  have "Q (Inr acc) (w\<lparr>w_calls := w_calls w\<rparr>)" by (rule Nil.prems(3)) auto
  then show ?case by (simp add: wp_simps)
next
  case (Cons x xs)
  show ?case
  proof (cases "x \<in> sn_Name ` set acc")
    case True
    have "wp (readNamed rd trig xs acc) Q w"
    proof (rule Cons.IH [OF Cons.prems(1,2)], goal_cases)
      case (1 snaps n)
      with True have "x \<in> sn_Name ` set snaps" by auto
      with 1 show ?case by (intro Cons.prems(3)) auto
    qed
    with True show ?thesis by simp
  next
    case False
    have "wp (get_snapshot rd x) (\<lambda>g. wp (case g of
           Inr snap \<Rightarrow> readNamed rd trig xs (snap # acc)
         | Inl e \<Rightarrow> if denial e then readNamed rd trig xs acc
             else State_Monad.return (Inl (wrapErr (''reading snapshot '' @ x) e))) Q) w"
      unfolding get_snapshot_def
    proof (rule wp_read_honestI [OF Cons.prems(1)], goal_cases)
      case (1 e n)
      then show ?case using Cons.prems(2) by (simp add: wp_simps)
    next
      case (2 n)
      show ?case
      proof (cases "store_get sn_Name (cl_snapshots (view rd w)) x")
        case None
        have "wp (readNamed rd trig xs acc) Q (w\<lparr>w_calls := n\<rparr>)"
        proof (rule Cons.IH, goal_cases)
          case (3 snaps m)
          with None have "Q (Inr snaps) (w\<lparr>w_calls := m\<rparr>)"
            by (intro Cons.prems(3)) auto
          then show ?case by simp
        qed (use Cons.prems in auto)
        with None show ?thesis by (simp add: found_def denial_def isNotFound_def err_def)
      next
        case (Some s)
        have s: "sn_Name s = x" "s \<in> set (cl_snapshots (view rd w))" using store_get_key [OF Some] by auto
        have "wp (readNamed rd trig xs (s # acc)) Q (w\<lparr>w_calls := n\<rparr>)"
        proof (rule Cons.IH, goal_cases)
          case (3 snaps m)
          have "x \<in> sn_Name ` set snaps" using 3(1) s by (force simp: image_iff)
          with 3 s have "Q (Inr snaps) (w\<lparr>w_calls := m\<rparr>)"
            by (intro Cons.prems(3)) auto
          then show ?case by simp
        qed (use Cons.prems in auto)
        with Some show ?thesis by (simp add: found_def)
      qed
    qed
    with False show ?thesis by (simp add: wp_simps)
  qed
qed

lemma distinct_store:
  "distinct (map key os) \<Longrightarrow> x \<in> set os \<Longrightarrow> store_get key os (key x) = Some x"
  by (induction os) (auto simp: store_get_def image_iff)

lemma relevant_covered:
  assumes d: "distinct (map sn_Name (cl_snapshots c))" and rel: "relevantSnapshot job podName c s"
    and labelled: "set (filter (\<lambda>x. sn_Labels x snapshotTriggeredByLabel = Some (FormatPSMTName podName (pmj_TargetPodUID job))) (cl_snapshots c)) \<subseteq> set snaps"
    and stored: "set snaps \<subseteq> set (cl_snapshots c)"
    and named: "st_SnapshotRef (pmj_Status job) \<noteq> [] \<Longrightarrow>
      store_get sn_Name (cl_snapshots c) (st_SnapshotRef (pmj_Status job)) \<noteq> None \<Longrightarrow>
      st_SnapshotRef (pmj_Status job) \<in> sn_Name ` set snaps"
  shows "s \<in> set snaps"
proof (cases "sn_Labels s snapshotTriggeredByLabel = Some (FormatPSMTName podName (pmj_TargetPodUID job))")
  case True
  with rel labelled show ?thesis by (auto simp: relevantSnapshot_def)
next
  case False
  let ?ref = "st_SnapshotRef (pmj_Status job)"
  from False rel have m: "s \<in> set (cl_snapshots c)" and r: "sn_Name s = ?ref" "?ref \<noteq> []"
    by (auto simp: relevantSnapshot_def)
  have "store_get sn_Name (cl_snapshots c) ?ref = Some s"
    using distinct_store [OF d m] r by simp
  with named r obtain s' where s': "s' \<in> set snaps" "sn_Name s' = ?ref" by auto
  then have "s' \<in> set (cl_snapshots c)" using stored by auto
  from distinct_store [OF d this] distinct_store [OF d m] s' r show ?thesis by simp
qed

text \<open>
  When \<open>CheckpointState\<close> reports a checkpoint as settled and not completed, the
  trigger is gone, and every snapshot that the trigger created or that the job recorded has
  finished without a completed checkpoint, so the engine cannot stop the source any more. The
  hypotheses are that snapshot names are unique in the namespace and that no failed call claims
  that an object does not exist.
\<close>

theorem settled_checkpoint_is_quiet:
  assumes h: "honest w" and d: "distinct (map sn_Name (cl_snapshots (view rd w)))"
    and run: "run_state (GKE_CheckpointState rd job podName) w = (Inr st, w')"
    and st: "cps_Settled st" "\<not> cps_Completed st"
  shows "store_get tg_Name (cl_triggers (view rd w)) (FormatPSMTName podName (pmj_TargetPodUID job)) = None \<and>
     (\<forall>s. relevantSnapshot job podName (view rd w) s \<longrightarrow> podSnapshotCheckpointProgress s = (False, True))"
proof -
  let ?trig = "FormatPSMTName podName (pmj_TargetPodUID job)"
  let ?P = "store_get tg_Name (cl_triggers (view rd w)) ?trig = None \<and>
     (\<forall>s. relevantSnapshot job podName (view rd w) s \<longrightarrow> podSnapshotCheckpointProgress s = (False, True))"
  let ?ref = "st_SnapshotRef (pmj_Status job)"
  let ?Q = "\<lambda>r. case r of Inl e \<Rightarrow> True | Inr st \<Rightarrow> cps_Settled st \<longrightarrow> \<not> cps_Completed st \<longrightarrow> ?P"
  have from_list: "wp (checkpointStateFrom rd ?trig names gone) (\<lambda>r w'. ?Q r) (w\<lparr>w_calls := n\<rparr>)"
    if g: "gone \<Longrightarrow> store_get tg_Name (cl_triggers (view rd w)) ?trig = None"
      and n: "?ref \<noteq> [] \<Longrightarrow> ?ref \<in> set names" for names gone n
    unfolding checkpointStateFrom_def list_snapshots_def wp_bind
  proof (rule wp_read_honestI, goal_cases)
    case 1
    show ?case using h by simp
  next
    case (2 e n)
    then show ?case by (simp add: wp_simps denial_def)
  next
    case (3 m)
    let ?acc = "filter (\<lambda>x. sn_Labels x snapshotTriggeredByLabel = Some ?trig) (cl_snapshots (view rd w))"
    have fin: ?P if s: "set ?acc \<subseteq> set snaps" "set snaps \<subseteq> set ?acc \<union> set (cl_snapshots (view rd w))"
      and nm: "\<And>name. name \<in> set names \<Longrightarrow> store_get sn_Name (cl_snapshots (view rd w)) name \<noteq> None \<Longrightarrow> name \<in> sn_Name ` set snaps"
      and st: "cps_Settled (stateOf gone snaps)" "\<not> cps_Completed (stateOf gone snaps)" for snaps
    proof -
      have "podSnapshotCheckpointProgress s = (False, True)" if "s \<in> set snaps" for s
        using st that by (auto simp: stateOf_def list_all_iff list_ex_iff prod_eq_iff)
      moreover have "s \<in> set snaps" if "relevantSnapshot job podName (view rd w) s" for s
        using d that s(1) _ nm [OF n] by (rule relevant_covered) (use s(2) in auto)
      ultimately show ?thesis using g st by (auto simp: stateOf_def)
    qed
    show ?case
      using h fin by (auto simp: wp_simps intro!: wp_readNamed_honestI)
  qed
  have "wp (GKE_CheckpointState rd job podName) (\<lambda>r w'. ?Q r) w"
    unfolding GKE_CheckpointState_def get_trigger_def Let_def wp_bind
    by (rule wp_read_honestI [OF h]) (auto simp: wp_simps denial_def isNotFound_def err_def found_def split: option.split intro!: from_list)
  from wp_run [OF this run] st show ?thesis by simp
qed

lemma settled_checkpoint_is_quiet_witness:
  "\<exists>st w'. run_state (GKE_CheckpointState Live (jobOf ''pmj'' ''web-0'' ''u0'' PhaseFailed) ''web-0'') (worldOf failedScene) = (Inr st, w') \<and>
     cps_Settled st \<and> \<not> cps_Completed st \<and>
     (\<forall>s. relevantSnapshot (jobOf ''pmj'' ''web-0'' ''u0'' PhaseFailed) ''web-0'' failedScene s \<longrightarrow> podSnapshotCheckpointProgress s = (False, True))"
proof -
  let ?job = "jobOf ''pmj'' ''web-0'' ''u0'' PhaseFailed"
  let ?run = "run_state (GKE_CheckpointState Live ?job ''web-0'') (worldOf failedScene)"
  let ?st = "\<lparr>cps_Settled = True, cps_Completed = False\<rparr>"
  have "fst ?run = Inr ?st" by code_simp
  then have run: "?run = (Inr ?st, snd ?run)" by (metis prod.collapse)
  have "distinct (map sn_Name (cl_snapshots (view Live (worldOf failedScene))))"
    by (simp add: failedScene_def)
  from settled_checkpoint_is_quiet [OF worldOf_honest this run] run show ?thesis by fastforce
qed

end
