(* ===== verification/Engine.thy ===== *)
theory Engine
  imports Provider Classifier Preemption "HOL-Library.AList"
begin

text \<open>
  Snapshot engines and their registry (\<open>engine/engine.go\<close>, \<open>engine/routes.go\<close>,
  \<open>engine/registry.go\<close>, \<open>engine/gke_pod_snapshots.go\<close>).

  \<open>engine\<close> is the Go interface with its optional capabilities as options. \<open>registry\<close> is the
  struct without its mutex: every method runs under the lock, so each is one step. Go maps that
  are iterated (\<open>routes\<close>, \<open>byClass\<close>) are association lists with distinct keys, and every use
  below is independent of their order. The locale \<open>migration_engine\<close> says what the job
  controller relies on, and the GKE engine interprets it; \<open>restore_orderer\<close> is the contract of
  the restore order. \<open>eng_isGKE\<close> is the dynamic type that \<open>eng.(*GKEPodSnapshots)\<close> tests.
\<close>

section \<open>Definitions\<close>

subsection \<open>The engine interface (engine.go)\<close>

definition AnnotationRuntimeClassEngines :: string where
  "AnnotationRuntimeClassEngines = ''pod-migration.gke.io/runtime-class-engines''"

record verdict =
  vd_OK :: bool
  vd_Reason :: string

record policyRef =
  pr_Group :: string
  pr_Kind :: string
  pr_Name :: string

datatype fencingMode = FencingFrozen | FencingStopped | FencingNone | FencingUnset

record guarantees =
  gu_Fencing :: fencingMode
  gu_RestoreOnce :: bool

datatype restoreOutcome = RestoreInProgress | Restored | ColdStart | RestoreFailed

record restoreVerdict =
  rv_Outcome :: restoreOutcome
  rv_Reason :: string
  rv_Evidence :: string
  rv_Confirmed :: bool

record restoreOrderer =
  OrderRestore :: "pod \<Rightarrow> pmj \<Rightarrow> string + pod"
  OrderColdStartBypass :: "pod \<Rightarrow> string + pod"
  InspectRestoreOrder :: "pod \<Rightarrow> string \<times> bool \<times> bool"

text \<open>\<open>*StorageLocationError\<close>, which the PodMigration reconciler reports as a condition, and every other error.\<close>

datatype nsError = StorageLocationError string | NamespaceError string

record engine =
  eng_Name :: string
  eng_RuntimeClasses :: "string list"
  eng_Eligible :: "pod option \<Rightarrow> node option \<Rightarrow> verdict"
  eng_ResolvePolicy :: "pod \<Rightarrow> (api_error + policyRef option) io"
  eng_Snapshots :: provider
  eng_RestoreFailures :: "restoreEngine list"
  eng_Guarantees :: guarantees
  eng_RestoreOrderer :: "restoreOrderer option"
  eng_VerifyRestore :: "(pmj \<Rightarrow> pod \<Rightarrow> (api_error + restoreVerdict) io) option"
  eng_NamespaceResources :: "podMigration \<Rightarrow> nsError + uobject list"
  eng_CoversRuntimeClass :: "(string \<Rightarrow> bool) option"
  eng_isGKE :: bool

definition fencingString :: "fencingMode \<Rightarrow> string" where
  "fencingString f = (case f of FencingFrozen \<Rightarrow> ''Frozen'' | FencingStopped \<Rightarrow> ''Stopped'' | FencingNone \<Rightarrow> ''None'' | FencingUnset \<Rightarrow> [])"

definition AllowsFencing :: "pod option \<Rightarrow> engine option \<Rightarrow> bool \<times> string" where
  "AllowsFencing p eng =
     (case eng of
        None \<Rightarrow> (False, ''no snapshot engine selected'')
      | Some e \<Rightarrow>
          (let fencing = gu_Fencing (eng_Guarantees e) in
           if fencing = FencingFrozen \<or> fencing = FencingStopped then (True, [])
           else if (case p of None \<Rightarrow> False | Some q \<Rightarrow> mget (pod_Annotations q) AnnotationAllowUnfenced = ''true'') then (True, [])
           else (False, ''Snapshot engine '' @ quoted (eng_Name e) @
                   '' does not fence the source pod after checkpoint (fencing='' @
                   fencingString (if fencing = FencingUnset then FencingNone else fencing) @
                   '') and pod does not carry '' @ AnnotationAllowUnfenced @ ''=true'')))"

subsection \<open>Routes (routes.go)\<close>

type_synonym routes = "(string \<times> string) list"

definition validateRouteClass :: "kubelib \<Rightarrow> string \<Rightarrow> string option" where
  "validateRouteClass K cls =
     (if cls = DefaultRuntimeClassToken then None
      else if \<not> IsDNS1123Subdomain K cls then Some (''invalid runtime class '' @ quoted cls)
      else None)"

definition cutEq :: "string \<Rightarrow> string \<times> string \<times> bool" where
  "cutEq s = (takeWhile (\<lambda>c. c \<noteq> CHR ''='') s, drop 1 (dropWhile (\<lambda>c. c \<noteq> CHR ''='') s), CHR ''='' \<in> set s)"

definition parseRoute :: "kubelib \<Rightarrow> string \<Rightarrow> string \<Rightarrow> routes \<Rightarrow> string + routes" where
  "parseRoute K raw elem rs =
     (let pair = trimSpace elem in
      if pair = [] then Inl (''invalid routes '' @ quoted raw @ '': empty element'')
      else case cutEq pair of (c, n, ok) \<Rightarrow>
        let cls = trimSpace c; name = trimSpace n in
        if \<not> ok \<or> CHR ''='' \<in> set name then Inl (''invalid route '' @ quoted pair @ '': want class=engine'')
        else if name = [] then Inl (''invalid route '' @ quoted pair @ '': empty engine name'')
        else case validateRouteClass K cls of
               Some msg \<Rightarrow> Inl msg
             | None \<Rightarrow>
                 if (case map_of rs cls of None \<Rightarrow> False | Some prev \<Rightarrow> prev \<noteq> name)
                 then Inl (''runtime class '' @ quoted cls @ '' is routed to two engines'')
                 else Inr (AList.update cls name rs))"

fun parseRouteElems :: "kubelib \<Rightarrow> string \<Rightarrow> string list \<Rightarrow> routes \<Rightarrow> string + routes" where
  "parseRouteElems K raw [] rs = Inr rs"
| "parseRouteElems K raw (e # es) rs =
     (case parseRoute K raw e rs of Inl msg \<Rightarrow> Inl msg | Inr rs' \<Rightarrow> parseRouteElems K raw es rs')"

definition ParseRoutes :: "kubelib \<Rightarrow> string \<Rightarrow> string + routes" where
  "ParseRoutes K raw = (if trimSpace raw = [] then Inr [] else parseRouteElems K raw (splitOn (CHR '','') raw) [])"

definition routeClasses :: "routes \<Rightarrow> string list" where
  "routeClasses rs = sort (map fst rs)"

definition routesString :: "routes \<Rightarrow> string" where
  "routesString rs = joinWith '','' (map (\<lambda>c. c @ ''='' @ (case map_of rs c of None \<Rightarrow> [] | Some n \<Rightarrow> n)) (routeClasses rs))"

definition RoutesFromAllowList :: "kubelib \<Rightarrow> runtimeClassPolicy option \<Rightarrow> string \<Rightarrow> routes" where
  "RoutesFromAllowList K policy engineName = fold (\<lambda>c rs. AList.update c engineName rs) (Classes K policy) []"

subsection \<open>The registry (registry.go)\<close>

record registry =
  reg_default :: string
  reg_byName :: "(string \<times> engine) list"
  reg_names :: "string list"
  reg_byClass :: "(string \<times> string list) list"
  reg_routes :: routes

definition NewRegistry :: "string \<Rightarrow> registry" where
  "NewRegistry defaultEngine = \<lparr>reg_default = defaultEngine, reg_byName = [], reg_names = [], reg_byClass = [], reg_routes = []\<rparr>"

definition classEngines :: "registry \<Rightarrow> string \<Rightarrow> string list" where
  "classEngines r cls = (case map_of (reg_byClass r) cls of None \<Rightarrow> [] | Some ns \<Rightarrow> ns)"

definition addClass :: "string \<Rightarrow> string \<Rightarrow> registry \<Rightarrow> registry" where
  "addClass name cls r =
     (if name \<in> set (classEngines r cls) then r
      else r\<lparr>reg_byClass := AList.update cls (classEngines r cls @ [name]) (reg_byClass r)\<rparr>)"

definition Register :: "kubelib \<Rightarrow> registry \<Rightarrow> engine option \<Rightarrow> string + registry" where
  "Register K r eng =
     (case eng of
        None \<Rightarrow> Inl ''registering a nil engine''
      | Some e \<Rightarrow>
          (let name = eng_Name e; clss = eng_RuntimeClasses e in
           if trimSpace name = [] then Inl ''registering an engine with an empty name''
           else case find (\<lambda>c. c \<noteq> DefaultRuntimeClassToken \<and> \<not> IsDNS1123Subdomain K c) clss of
                  Some c \<Rightarrow> Inl (''engine '' @ quoted name @ '' declares invalid runtime class '' @ quoted c)
                | None \<Rightarrow>
                    if map_of (reg_byName r) name \<noteq> None then Inl (''engine '' @ quoted name @ '' is already registered'')
                    else Inr (fold (addClass name) clss
                           (r\<lparr>reg_byName := AList.update name e (reg_byName r), reg_names := reg_names r @ [name]\<rparr>))))"

definition reg_Get :: "registry \<Rightarrow> string \<Rightarrow> engine option" where
  "reg_Get r name = map_of (reg_byName r) name"

definition defaultLocked :: "registry \<Rightarrow> api_error + engine" where
  "defaultLocked r =
     (case reg_Get r (reg_default r) of
        Some e \<Rightarrow> Inr e
      | None \<Rightarrow> Inl (err OtherReason (''default engine '' @ quoted (reg_default r) @ '' is not registered'')))"

definition checkRouteLocked :: "registry \<Rightarrow> string \<Rightarrow> string \<Rightarrow> api_error option" where
  "checkRouteLocked r cls name =
     (if reg_Get r name = None
      then Some (err EngineNotRegistered (''runtime class '' @ quoted cls @ '' routes to engine '' @ quoted name @ '': engine not registered''))
      else None)"

fun checkRoutes :: "kubelib \<Rightarrow> registry \<Rightarrow> routes \<Rightarrow> string list \<Rightarrow> api_error option" where
  "checkRoutes K r rs [] = None"
| "checkRoutes K r rs (c # cs) =
     (case validateRouteClass K c of
        Some msg \<Rightarrow> Some (err OtherReason msg)
      | None \<Rightarrow>
          (case checkRouteLocked r c (case map_of rs c of None \<Rightarrow> [] | Some n \<Rightarrow> n) of
             Some e \<Rightarrow> Some e
           | None \<Rightarrow> checkRoutes K r rs cs))"

definition SetRoutes :: "kubelib \<Rightarrow> registry \<Rightarrow> routes \<Rightarrow> api_error + registry" where
  "SetRoutes K r rs =
     (case checkRoutes K r rs (routeClasses rs) of Some e \<Rightarrow> Inl e | None \<Rightarrow> Inr (r\<lparr>reg_routes := rs\<rparr>))"

definition engineCoversClassLocked :: "registry \<Rightarrow> string \<Rightarrow> string \<Rightarrow> bool" where
  "engineCoversClassLocked r engineName cls =
     (if engineName \<in> set (classEngines r cls) then True
      else if cls = DefaultRuntimeClassToken \<and>
              (engineName \<in> set (classEngines r []) \<or> engineName \<in> set (classEngines r DefaultRuntimeClassToken)) then True
      else if cls = [] \<and>
              (engineName \<in> set (classEngines r DefaultRuntimeClassToken) \<or> engineName \<in> set (classEngines r [])) then True
      else case reg_Get r engineName of
             None \<Rightarrow> False
           | Some e \<Rightarrow> (case eng_CoversRuntimeClass e of None \<Rightarrow> False | Some covers \<Rightarrow> covers cls))"

definition canOverrideRouteLocked :: "registry \<Rightarrow> string \<Rightarrow> string \<Rightarrow> bool" where
  "canOverrideRouteLocked r cls engineName =
     (if reg_Get r engineName = None then False
      else if engineCoversClassLocked r engineName cls then True
      else reg_routes r \<noteq> [] \<and> map_of (reg_routes r) cls = Some engineName)"

definition podMigrationRoutesAnnotation :: "podMigration option \<Rightarrow> string" where
  "podMigrationRoutesAnnotation pm =
     (case pm of None \<Rightarrow> [] | Some q \<Rightarrow> mget (pm_Annotations q) AnnotationRuntimeClassEngines)"

definition checkPodMigrationRouteLocked :: "registry \<Rightarrow> string \<Rightarrow> string \<Rightarrow> api_error option" where
  "checkPodMigrationRouteLocked r cls name =
     (case checkRouteLocked r cls name of
        Some e \<Rightarrow> Some e
      | None \<Rightarrow>
          if \<not> canOverrideRouteLocked r cls name
          then Some (err OtherReason (''runtime class '' @ quoted cls @ '' routes to engine '' @ quoted name @
                 '': engine does not cover runtime class and does not match cluster route''))
          else None)"

fun checkOverrides :: "registry \<Rightarrow> routes \<Rightarrow> string list \<Rightarrow> api_error option" where
  "checkOverrides r rs [] = None"
| "checkOverrides r rs (c # cs) =
     (case checkPodMigrationRouteLocked r c (case map_of rs c of None \<Rightarrow> [] | Some n \<Rightarrow> n) of
        Some e \<Rightarrow> Some e
      | None \<Rightarrow> checkOverrides r rs cs)"

definition ValidatePodMigrationRoutes :: "kubelib \<Rightarrow> registry \<Rightarrow> podMigration option \<Rightarrow> api_error + routes" where
  "ValidatePodMigrationRoutes K r pm =
     (case ParseRoutes K (podMigrationRoutesAnnotation pm) of
        Inl msg \<Rightarrow> Inl (err OtherReason msg)
      | Inr rs \<Rightarrow> (case checkOverrides r rs (routeClasses rs) of Some e \<Rightarrow> Inl e | None \<Rightarrow> Inr rs))"

definition podMigrationRoutesLocked :: "kubelib \<Rightarrow> registry \<Rightarrow> podMigration option \<Rightarrow> routes" where
  "podMigrationRoutesLocked K r pm =
     (case ParseRoutes K (podMigrationRoutesAnnotation pm) of
        Inl _ \<Rightarrow> []
      | Inr rs \<Rightarrow> filter (\<lambda>(c, n). canOverrideRouteLocked r c n) rs)"

definition resolveLocked :: "registry \<Rightarrow> string \<Rightarrow> routes \<Rightarrow> string option" where
  "resolveLocked r cls overrides =
     (case map_of overrides cls of
        Some name \<Rightarrow> Some name
      | None \<Rightarrow>
          if reg_routes r \<noteq> [] then map_of (reg_routes r) cls
          else (let candidates = classEngines r cls in
                if candidates = [] then None
                else if reg_default r \<in> set candidates then Some (reg_default r)
                else Some (hd candidates)))"

text \<open>
  \<open>ForPod\<close> looks the resolved name up without checking that it is there; the outer option is
  the flag, the inner one the engine, which \<open>wfRegistry\<close> shows to be present.
\<close>

definition ForPod :: "kubelib \<Rightarrow> registry \<Rightarrow> pod option \<Rightarrow> podMigration option \<Rightarrow> engine option option" where
  "ForPod K r p pm =
     (case p of
        None \<Rightarrow> None
      | Some q \<Rightarrow>
          (case resolveLocked r (RuntimeClassLabel (pod_RuntimeClassName q)) (podMigrationRoutesLocked K r pm) of
             None \<Rightarrow> None
           | Some name \<Rightarrow> Some (reg_Get r name)))"

definition EnginesFor :: "kubelib \<Rightarrow> registry \<Rightarrow> podMigration option \<Rightarrow> engine list" where
  "EnginesFor K r pm =
     (let overrides = podMigrationRoutesLocked K r pm;
          clss = map fst overrides @ (if reg_routes r \<noteq> [] then map fst (reg_routes r) else map fst (reg_byClass r));
          picked = List.map_filter (\<lambda>c. resolveLocked r c overrides) clss;
          out = List.map_filter (reg_Get r) (filter (\<lambda>n. n \<in> set picked) (reg_names r))
      in if out = [] then (case defaultLocked r of Inr e \<Rightarrow> [e] | Inl _ \<Rightarrow> []) else out)"

definition ForJob :: "registry \<Rightarrow> pmj \<Rightarrow> api_error + engine" where
  "ForJob r job =
     (let name = trimSpace (mget (pmj_Annotations job) AnnotationEngine) in
      if name = [] then defaultLocked r
      else case reg_Get r name of
             Some e \<Rightarrow> Inr e
           | None \<Rightarrow> Inl (err EngineNotRegistered (''job '' @ pmj_Namespace job @ ''/'' @ pmj_Name job @ '' names engine '' @ quoted name @
                          '': engine not registered (registered: '' @ joinWith '','' (reg_names r) @ '')'')))"

subsection \<open>The GKE engine (gke\_pod\_snapshots.go)\<close>

definition GKEPodSnapshotsName :: string where
  "GKEPodSnapshotsName = ''gke-pod-snapshots''"

definition gkeRuntimeClass :: string where
  "gkeRuntimeClass = ''gvisor''"

definition GKE_Eligible :: "pod option \<Rightarrow> node option \<Rightarrow> verdict" where
  "GKE_Eligible p nd = (case p of None \<Rightarrow> \<lparr>vd_OK = False, vd_Reason = ''no pod to migrate''\<rparr> | Some _ \<Rightarrow> \<lparr>vd_OK = True, vd_Reason = []\<rparr>)"

definition GKE_ResolvePolicy :: "kubelib \<Rightarrow> reader \<Rightarrow> pod \<Rightarrow> (api_error + policyRef option) io" where
  "GKE_ResolvePolicy K rd p = do {
     r \<leftarrow> FindLatestReadyManualStopPSP K rd (pod_Labels p);
     State_Monad.return (case r of
       Inl e \<Rightarrow> Inl e
     | Inr None \<Rightarrow> Inr None
     | Inr (Some psp) \<Rightarrow> Inr (Some \<lparr>pr_Group = ''podsnapshot.gke.io'', pr_Kind = ''PodSnapshotPolicy'', pr_Name = psp_Name psp\<rparr>))
   }"

definition GKE_OrderRestore :: "pod \<Rightarrow> pmj \<Rightarrow> string + pod" where
  "GKE_OrderRestore p job =
     (if st_SnapshotRef (pmj_Status job) = [] then Inl (''job '' @ pmj_Namespace job @ ''/'' @ pmj_Name job @ '' has no snapshot to restore'')
      else Inr (p\<lparr>pod_Annotations := (pod_Annotations p)(psNameAnnotation \<mapsto> st_SnapshotRef (pmj_Status job))\<rparr>))"

definition GKE_OrderColdStartBypass :: "pod \<Rightarrow> string + pod" where
  "GKE_OrderColdStartBypass p = Inr (p\<lparr>pod_Annotations := (pod_Annotations p)(psNameAnnotation \<mapsto> [])\<rparr>)"

definition GKE_InspectRestoreOrder :: "pod \<Rightarrow> string \<times> bool \<times> bool" where
  "GKE_InspectRestoreOrder p =
     (case pod_Annotations p psNameAnnotation of
        None \<Rightarrow> ([], False, False)
      | Some val \<Rightarrow> (let trimmed = trimSpace val in if trimmed = [] then ([], True, True) else (trimmed, False, True)))"

definition gkeColdStartReason :: string where
  "gkeColdStartReason = ''GKE runtime skipped snapshot restore and fell back to cold start''"

definition isRestoreFailureEvent :: "event \<Rightarrow> bool" where
  "isRestoreFailureEvent e =
     (ev_Reason e \<in> {''FallbackToColdStart'', ''FailedRestore'', ''RestoreFailed'', ''SkipRestore'', ''GKEPodSnapshotting''} \<or>
      (let msg = toLower (ev_Message e) in
       contains msg ''falling back to a cold start'' \<or> contains msg ''failed to restore'' \<or> contains msg ''skipped restore''))"

definition podReady :: "pod \<Rightarrow> bool" where
  "podReady p = list_ex (\<lambda>c. c_Type c = ''Ready'' \<and> c_Status c = CondTrue) (pod_Conditions p)"

text \<open>An event of this pod that is not older than the start of the restore and reports a failure.\<close>

definition reportsRestoreFailure :: "pmj \<Rightarrow> pod \<Rightarrow> event \<Rightarrow> bool" where
  "reportsRestoreFailure job p e =
     (if ev_InvolvedUID e \<noteq> pod_UID p then False
      else if (case st_RestoringStartTime (pmj_Status job) of
                 None \<Rightarrow> False
               | Some t \<Rightarrow> ev_LastTimestamp e \<noteq> zero_time \<and> ev_LastTimestamp e < t) then False
      else ev_Type e = ''Warning'' \<and> isRestoreFailureEvent e)"

definition restoreFailureEvent :: "reader \<Rightarrow> pmj \<Rightarrow> pod \<Rightarrow> (api_error + event option) io" where
  "restoreFailureEvent rd job p = do {
     l \<leftarrow> list_events rd (pod_UID p);
     State_Monad.return (case l of
       Inl e \<Rightarrow> Inl (wrapErr (''failed to list events for replacement pod '' @ pod_Name p) e)
     | Inr es \<Rightarrow> Inr (find (reportsRestoreFailure job p) es))
   }"

definition GKE_VerifyRestore :: "reader \<Rightarrow> pmj \<Rightarrow> pod \<Rightarrow> (api_error + restoreVerdict) io" where
  "GKE_VerifyRestore rd job p = do {
     r \<leftarrow> restoreFailureEvent rd job p;
     State_Monad.return (case r of
       Inl e \<Rightarrow> Inl e
     | Inr (Some e) \<Rightarrow> Inr \<lparr>rv_Outcome = ColdStart, rv_Reason = gkeColdStartReason,
         rv_Evidence = ''Warning event '' @ ev_Reason e @ '': '' @ ev_Message e, rv_Confirmed = False\<rparr>
     | Inr None \<Rightarrow>
         if \<not> podReady p then Inr \<lparr>rv_Outcome = RestoreInProgress, rv_Reason = [], rv_Evidence = [], rv_Confirmed = False\<rparr>
         else Inr \<lparr>rv_Outcome = Restored, rv_Reason = [],
                rv_Evidence = ''pod Ready, with no restore-failure Warning event since restoring started'', rv_Confirmed = False\<rparr>)
   }"

definition OwnerUIDLabel :: string where
  "OwnerUIDLabel = ''podmigration.gke.io/owner-uid''"

definition PodSnapshotStorageConfigName :: "kubelib \<Rightarrow> string \<Rightarrow> string \<Rightarrow> string" where
  "PodSnapshotStorageConfigName K namespace name = ''pssc-'' @ take 16 (Sha256Hex K (namespace @ ''/'' @ name))"

definition PodSnapshotPolicyName :: "string \<Rightarrow> string" where
  "PodSnapshotPolicyName name = ''psp-'' @ name @ ''-manual''"

definition GKE_NamespaceResources :: "kubelib \<Rightarrow> podMigration \<Rightarrow> nsError + uobject list" where
  "GKE_NamespaceResources K pm =
     (let location = pm_StorageLocation pm in
      if \<not> hasPrefix location ''gs://'' then
        Inl (StorageLocationError (''invalid GCS location: '' @ location @ '' (must start with gs://)''))
      else
        let rest = trimPrefix location ''gs://'';
            bucket = takeWhile (\<lambda>c. c \<noteq> CHR ''/'') rest;
            path = drop 1 (dropWhile (\<lambda>c. c \<noteq> CHR ''/'') rest);
            gcs = JObj ((''bucket'', JStr bucket) # (if path \<noteq> [] then [(''path'', JStr path)] else []));
            storageConfigName = PodSnapshotStorageConfigName K (pm_Namespace pm) (pm_Name pm)
        in Inr [
          \<lparr>uo_Kind = ''PodSnapshotStorageConfig'', uo_Namespace = [], uo_Name = storageConfigName,
           uo_Labels = [(OwnerUIDLabel, pm_UID pm)],
           uo_Spec = JObj [(''snapshotStorageConfig'', JObj [(''gcs'', gcs)])]\<rparr>,
          \<lparr>uo_Kind = ''PodSnapshotPolicy'', uo_Namespace = pm_Namespace pm, uo_Name = PodSnapshotPolicyName (pm_Name pm),
           uo_Labels = [],
           uo_Spec = JObj [
             (''selector'', JObj [(''matchExpressions'', JList [JObj [(''key'', JStr LabelEnabled), (''operator'', JStr ''In''),
                (''values'', JList [JStr ''true''])]])]),
             (''storageConfigName'', JStr storageConfigName),
             (''triggerConfig'', JObj [(''postCheckpoint'', JStr ''stop''), (''type'', JStr ''manual'')])]\<rparr>])"

definition gkeOrderer :: restoreOrderer where
  "gkeOrderer = \<lparr>OrderRestore = GKE_OrderRestore, OrderColdStartBypass = GKE_OrderColdStartBypass,
     InspectRestoreOrder = GKE_InspectRestoreOrder\<rparr>"

text \<open>\<open>NewGKEPodSnapshots(c, scheme, WithAPIReader(r))\<close>: events come from the API server.\<close>

definition gkeEngine :: "kubelib \<Rightarrow> reader \<Rightarrow> engine" where
  "gkeEngine K rd = \<lparr>
     eng_Name = GKEPodSnapshotsName,
     eng_RuntimeClasses = [gkeRuntimeClass],
     eng_Eligible = GKE_Eligible,
     eng_ResolvePolicy = GKE_ResolvePolicy K rd,
     eng_Snapshots = gkeProvider K rd,
     eng_RestoreFailures = DefaultEngines,
     eng_Guarantees = \<lparr>gu_Fencing = FencingStopped, gu_RestoreOnce = False\<rparr>,
     eng_RestoreOrderer = Some gkeOrderer,
     eng_VerifyRestore = Some (GKE_VerifyRestore rd),
     eng_NamespaceResources = GKE_NamespaceResources K,
     eng_CoversRuntimeClass = None,
     eng_isGKE = True\<rparr>"

definition NewDefaultRegistry :: "kubelib \<Rightarrow> reader \<Rightarrow> runtimeClassPolicy option \<Rightarrow> string + registry" where
  "NewDefaultRegistry K rd runtimeClasses =
     (case Register K (NewRegistry GKEPodSnapshotsName) (Some (gkeEngine K rd)) of
        Inl e \<Rightarrow> Inl e
      | Inr r \<Rightarrow> (case SetRoutes K r (RoutesFromAllowList K runtimeClasses GKEPodSnapshotsName) of
                   Inl e \<Rightarrow> Inl (ae_text e)
                 | Inr r' \<Rightarrow> Inr r'))"

definition inspectWith :: "engine \<Rightarrow> pod \<Rightarrow> (string \<times> bool) option" where
  "inspectWith e p =
     (case eng_RestoreOrderer e of
        None \<Rightarrow> None
      | Some ord \<Rightarrow> (case InspectRestoreOrder ord p of (snapRef, bypass, ok) \<Rightarrow> if ok then Some (snapRef, bypass) else None))"

definition reg_InspectRestoreOrder :: "registry option \<Rightarrow> string \<Rightarrow> pod \<Rightarrow> string \<times> bool \<times> bool" where
  "reg_InspectRestoreOrder reg engineName p =
     (case reg of
        None \<Rightarrow> GKE_InspectRestoreOrder p
      | Some r \<Rightarrow>
          (let name = trimSpace engineName in
           if name \<noteq> [] then
             (case reg_Get r name of
                None \<Rightarrow> if name = GKEPodSnapshotsName then GKE_InspectRestoreOrder p else ([], False, False)
              | Some e \<Rightarrow> (case eng_RestoreOrderer e of Some ord \<Rightarrow> InspectRestoreOrder ord p | None \<Rightarrow> GKE_InspectRestoreOrder p))
           else
             (case (case defaultLocked r of Inr def \<Rightarrow> inspectWith def p | Inl _ \<Rightarrow> None) of
                Some (snapRef, bypass) \<Rightarrow> (snapRef, bypass, True)
              | None \<Rightarrow>
                  (case List.map_filter (\<lambda>n. case reg_Get r n of None \<Rightarrow> None | Some e \<Rightarrow> inspectWith e p) (reg_names r) of
                     (snapRef, bypass) # _ \<Rightarrow> (snapRef, bypass, True)
                   | [] \<Rightarrow> GKE_InspectRestoreOrder p))))"

subsection \<open>Well-formed registries\<close>

text \<open>
  What \<open>Register\<close> and \<open>SetRoutes\<close> keep: the names are the registered engines, each under its own
  name and once; the engines listed for a class and the engines of the cluster routes are
  registered; the keys of the maps are distinct.
\<close>

definition wfRegistry :: "registry \<Rightarrow> bool" where
  "wfRegistry r \<longleftrightarrow>
     map fst (reg_byName r) = reg_names r \<and> distinct (reg_names r) \<and> distinct (map fst (reg_byClass r)) \<and>
     (\<forall>n e. (n, e) \<in> set (reg_byName r) \<longrightarrow> eng_Name e = n \<and> trimSpace n \<noteq> []) \<and>
     (\<forall>c ns. (c, ns) \<in> set (reg_byClass r) \<longrightarrow> ns \<noteq> [] \<and> set ns \<subseteq> set (reg_names r)) \<and>
     (\<forall>c n. (c, n) \<in> set (reg_routes r) \<longrightarrow> n \<in> set (reg_names r))"

section \<open>Lemmas\<close>

lemma update_new: "map_of al k = None \<Longrightarrow> AList.update k v al = al @ [(k, v)]"
  by (induction al) (auto split: if_splits)

lemma wfRegistryD:
  assumes "wfRegistry r"
  shows "map fst (reg_byName r) = reg_names r" "distinct (reg_names r)" "distinct (map fst (reg_byClass r))"
    "(n, e) \<in> set (reg_byName r) \<Longrightarrow> eng_Name e = n \<and> trimSpace n \<noteq> []"
    "(c, ns) \<in> set (reg_byClass r) \<Longrightarrow> ns \<noteq> []" "(c, ns) \<in> set (reg_byClass r) \<Longrightarrow> x \<in> set ns \<Longrightarrow> x \<in> set (reg_names r)"
    "(c, n) \<in> set (reg_routes r) \<Longrightarrow> n \<in> set (reg_names r)"
  using assms unfolding wfRegistry_def by blast+

subsection \<open>The registry stays well formed\<close>

lemma wf_NewRegistry: "wfRegistry (NewRegistry d)"
  by (simp add: wfRegistry_def NewRegistry_def)

lemma addClass_fields [simp]:
  "reg_names (addClass n c r) = reg_names r" "reg_byName (addClass n c r) = reg_byName r"
  "reg_routes (addClass n c r) = reg_routes r" "reg_default (addClass n c r) = reg_default r"
  by (simp_all add: addClass_def)

lemma classEngines_registered:
  "wfRegistry r \<Longrightarrow> n \<in> set (classEngines r c) \<Longrightarrow> n \<in> set (reg_names r)"
  by (fastforce simp: wfRegistry_def classEngines_def dest: map_of_SomeD split: option.splits)

lemma set_update: "distinct (map fst al) \<Longrightarrow> set (AList.update k v al) = {(k, v)} \<union> {x \<in> set al. fst x \<noteq> k}"
  by (induction al) (auto simp: rev_image_eqI)

lemma wf_addClass:
  assumes wf: "wfRegistry r" and n: "n \<in> set (reg_names r)"
  shows "wfRegistry (addClass n c r)"
proof (cases "n \<in> set (classEngines r c)")
  case True
  then show ?thesis using wf by (simp add: addClass_def)
next
  case False
  note D = wfRegistryD [OF wf]
  let ?bc = "AList.update c (classEngines r c @ [n]) (reg_byClass r)"
  have bc: "addClass n c r = r\<lparr>reg_byClass := ?bc\<rparr>" using False by (simp add: addClass_def)
  have "ns \<noteq> [] \<and> set ns \<subseteq> set (reg_names r)" if "(c', ns) \<in> set ?bc" for c' ns
    using that n classEngines_registered [OF wf] D(5,6) [of c' ns] by (auto simp: set_update [OF D(3)] simp del: set_map)
  moreover have "distinct (map fst ?bc)" using D(3) by (rule AList.distinct_update)
  ultimately show ?thesis using wf unfolding bc wfRegistry_def by simp
qed

lemma wf_addClasses: "wfRegistry r \<Longrightarrow> n \<in> set (reg_names r) \<Longrightarrow> wfRegistry (fold (addClass n) cs r)"
proof (induction cs arbitrary: r)
  case (Cons c cs)
  have "wfRegistry (addClass n c r)" by (rule wf_addClass [OF Cons.prems])
  with Cons show ?case by simp
qed simp

lemma wf_Register:
  assumes wf: "wfRegistry r" and reg: "Register K r eng = Inr r'"
  shows "wfRegistry r'"
proof -
  obtain e where e: "trimSpace (eng_Name e) \<noteq> []" "map_of (reg_byName r) (eng_Name e) = None"
    and r': "r' = fold (addClass (eng_Name e)) (eng_RuntimeClasses e)
      (r\<lparr>reg_byName := AList.update (eng_Name e) e (reg_byName r), reg_names := reg_names r @ [eng_Name e]\<rparr>)"
    using reg by (auto simp: Register_def Let_def split: option.splits if_splits)
  from e(2) have "eng_Name e \<notin> set (map fst (reg_byName r))" by (simp add: map_of_eq_None_iff)
  then have new: "eng_Name e \<notin> set (reg_names r)" using wfRegistryD(1) [OF wf] by simp
  have "wfRegistry (r\<lparr>reg_byName := AList.update (eng_Name e) e (reg_byName r), reg_names := reg_names r @ [eng_Name e]\<rparr>)"
    unfolding update_new [OF e(2)] wfRegistry_def using wfRegistryD [OF wf] e(1) new
    by (auto simp del: set_map)
  then show ?thesis unfolding r' by (rule wf_addClasses) simp
qed

lemma checkRoutes_ok:
  "checkRoutes K r rs cs = None \<Longrightarrow> c \<in> set cs \<Longrightarrow> map_of rs c = Some n \<Longrightarrow> reg_Get r n \<noteq> None"
  by (induction cs) (auto simp: checkRouteLocked_def split: option.splits if_splits)

lemma reg_Get_names: "wfRegistry r \<Longrightarrow> reg_Get r n \<noteq> None \<longleftrightarrow> n \<in> set (reg_names r)"
  using wfRegistryD(1) [of r, symmetric] by (simp add: reg_Get_def map_of_eq_None_iff)

lemma wf_SetRoutes:
  assumes wf: "wfRegistry r" and d: "distinct (map fst rs)" and set: "SetRoutes K r rs = Inr r'"
  shows "wfRegistry r'"
proof -
  have c: "checkRoutes K r rs (routeClasses rs) = None" and r': "r' = r\<lparr>reg_routes := rs\<rparr>"
    using set by (auto simp: SetRoutes_def split: option.splits)
  have "n \<in> set (reg_names r)" if "(c', n) \<in> set rs" for c' n
    using checkRoutes_ok [OF c, of c' n] that d reg_Get_names [OF wf] by (force simp: routeClasses_def)
  with wf show ?thesis unfolding r' by (simp add: wfRegistry_def)
qed

lemma override_registered: "(c, n) \<in> set (podMigrationRoutesLocked K r pm) \<Longrightarrow> canOverrideRouteLocked r c n"
  by (auto simp: podMigrationRoutesLocked_def split: sum.splits)

lemma resolve_registered:
  assumes wf: "wfRegistry r" and "resolveLocked r c (podMigrationRoutesLocked K r pm) = Some n"
  shows "n \<in> set (reg_names r)"
proof (cases "map_of (podMigrationRoutesLocked K r pm) c")
  case (Some n')
  then have "canOverrideRouteLocked r c n'" using override_registered map_of_SomeD by metis
  with Some assms reg_Get_names [OF wf] show ?thesis
    by (auto simp: resolveLocked_def canOverrideRouteLocked_def split: if_splits)
next
  case None
  with assms(2) show ?thesis
    using classEngines_registered [OF wf, of _ c] wfRegistryD(7) [OF wf] map_of_SomeD [of "reg_routes r" c n]
    by (auto simp: resolveLocked_def Let_def simp del: set_map split: if_splits)
qed

lemma resolve_class_listed:
  assumes "resolveLocked r c ov = Some n"
  shows "c \<in> set (map fst ov @ (if reg_routes r \<noteq> [] then map fst (reg_routes r) else map fst (reg_byClass r)))"
  using assms
  by (auto simp: resolveLocked_def Let_def classEngines_def split: option.splits if_splits dest!: map_of_SomeD intro: rev_image_eqI)

lemma in_map_filter: "f x = Some y \<Longrightarrow> x \<in> set xs \<Longrightarrow> y \<in> set (List.map_filter f xs)"
  by (induction xs) (auto simp: List.map_filter_simps split: option.split)

lemma no_overrides [simp]: "podMigrationRoutesLocked K r None = []"
  by (simp add: podMigrationRoutesLocked_def podMigrationRoutesAnnotation_def ParseRoutes_def trimSpace_def)

subsection \<open>A stock registry\<close>

definition stockRegistry :: registry where
  "stockRegistry = \<lparr>reg_default = GKEPodSnapshotsName, reg_byName = [(GKEPodSnapshotsName, gkeEngine sampleLib Live)],
     reg_names = [GKEPodSnapshotsName], reg_byClass = [(gkeRuntimeClass, [GKEPodSnapshotsName])],
     reg_routes = [(''gvisor'', GKEPodSnapshotsName)]\<rparr>"

definition plainPolicy :: runtimeClassPolicy where
  "plainPolicy = \<lparr>rc_names = [''gvisor''], rc_allowDefault = False\<rparr>"

lemma stock_registry: "NewDefaultRegistry sampleLib Live (Some plainPolicy) = Inr stockRegistry"
  by (simp add: NewDefaultRegistry_def Register_def NewRegistry_def Let_def gkeEngine_def GKEPodSnapshotsName_def gkeRuntimeClass_def
      addClass_def classEngines_def SetRoutes_def RoutesFromAllowList_def Classes_def orDefault_def plainPolicy_def routeClasses_def
      validateRouteClass_def checkRouteLocked_def reg_Get_def stockRegistry_def DefaultRuntimeClassToken_def trimSpace_def isSpace_def
      sampleLib_def sampleDNS_def dns1123Char_def less_eq_char_def)

lemma stock_wf: "wfRegistry stockRegistry"
  by (simp add: wfRegistry_def stockRegistry_def gkeEngine_def GKEPodSnapshotsName_def trimSpace_def isSpace_def)

lemma stock_pick:
  "ForPod sampleLib stockRegistry (Some (podOf n u)) None = Some (Some (gkeEngine sampleLib Live))"
  by (simp add: ForPod_def resolveLocked_def stockRegistry_def reg_Get_def podOf_def RuntimeClassLabel_def)

text \<open>
  Whatever engine \<open>ForPod\<close> picks for a pod of a namespace is registered under its own
  name and is one of the engines \<open>EnginesFor\<close> lists for that namespace's PodMigration, so its
  policy and storage objects are rendered before a pod can be sent to it. \<open>ForPod\<close> never returns
  a nil engine with its flag set.
\<close>

theorem engine_choice_provisioned:
  assumes wf: "wfRegistry r" and pick: "ForPod K r p pm = Some oe"
  shows "\<exists>e. oe = Some e \<and> e \<in> set (EnginesFor K r pm) \<and> reg_Get r (eng_Name e) = Some e"
proof -
  let ?ov = "podMigrationRoutesLocked K r pm"
  from pick obtain c n where n: "resolveLocked r c ?ov = Some n" "oe = reg_Get r n"
    by (auto simp: ForPod_def split: option.splits)
  note reg = resolve_registered [OF wf n(1)]
  then obtain e where e: "reg_Get r n = Some e" using reg_Get_names [OF wf] by fastforce
  then have "eng_Name e = n" using wf by (auto simp: wfRegistry_def reg_Get_def dest!: map_of_SomeD)
  let ?clss = "map fst ?ov @ (if reg_routes r \<noteq> [] then map fst (reg_routes r) else map fst (reg_byClass r))"
  let ?out = "List.map_filter (reg_Get r) (filter (\<lambda>n. n \<in> set (List.map_filter (\<lambda>c. resolveLocked r c ?ov) ?clss)) (reg_names r))"
  have "n \<in> set (List.map_filter (\<lambda>c. resolveLocked r c ?ov) ?clss)"
    using n(1) resolve_class_listed [OF n(1)] by (rule in_map_filter)
  then have "e \<in> set ?out" using reg by (intro in_map_filter [of _ n] e) simp
  then have "e \<in> set (EnginesFor K r pm)"
    by (cases "?out = []") (simp_all add: EnginesFor_def Let_def)
  with e n(2) \<open>eng_Name e = n\<close> show ?thesis by auto
qed

lemma engine_choice_provisioned_witness:
  "\<exists>e. ForPod sampleLib stockRegistry (Some (podOf ''web-0'' ''u0'')) None = Some (Some e) \<and>
       e \<in> set (EnginesFor sampleLib stockRegistry None)"
proof -
  have "ForPod sampleLib stockRegistry (Some (podOf ''web-0'' ''u0'')) None = Some (Some (gkeEngine sampleLib Live))"
    by (rule stock_pick)
  from engine_choice_provisioned [OF stock_wf this] this show ?thesis by auto
qed

subsection \<open>Routes print and parse\<close>

definition plainName :: "string \<Rightarrow> bool" where
  "plainName n \<longleftrightarrow> n \<noteq> [] \<and> trimSpace n = n \<and> CHR '','' \<notin> set n \<and> CHR ''='' \<notin> set n"

definition wfRoutes :: "kubelib \<Rightarrow> routes \<Rightarrow> bool" where
  "wfRoutes K rs \<longleftrightarrow> distinct (map fst rs) \<and>
     (\<forall>c n. (c, n) \<in> set rs \<longrightarrow> validateRouteClass K c = None \<and> plainName n)"

lemma dns_no_eq: "lawful_dns1123 K \<Longrightarrow> IsDNS1123Subdomain K n \<Longrightarrow> CHR ''='' \<notin> set n"
proof -
  assume "lawful_dns1123 K" "IsDNS1123Subdomain K n"
  moreover have "\<not> dns1123Char (CHR ''='')" by (simp add: dns1123Char_def less_eq_char_def)
  ultimately show ?thesis by (auto simp: lawful_dns1123_def)
qed

lemma token_no_eq: "CHR ''='' \<notin> set DefaultRuntimeClassToken"
  by (simp add: DefaultRuntimeClassToken_def)

lemma valid_class_plain:
  "lawful_dns1123 K \<Longrightarrow> validateRouteClass K c = None \<Longrightarrow> plainName c"
  using dns_name [of K c] dns_no_eq [of K c] token_plain token_no_eq
  by (auto simp: plainName_def validateRouteClass_def split: if_splits)

lemma cutEq_pair: "CHR ''='' \<notin> set c \<Longrightarrow> cutEq (c @ ''='' @ n) = (c, n, True)"
  by (auto simp: cutEq_def takeWhile_append dropWhile_append)

lemma trimSpace_ends:
  assumes "trimSpace s = s" "s \<noteq> []"
  shows "\<not> isSpace (hd s)" "\<not> isSpace (last s)"
proof -
  let ?d = "dropWhile isSpace s"
  have len: "length (dropWhile isSpace xs) \<le> length xs" for xs by (rule length_dropWhile_le)
  have "length s \<le> length ?d"
    using arg_cong [OF assms(1), of length] len [of "rev ?d"] by (simp add: trimSpace_def)
  then have d: "?d = s" using len [of s] by (metis dropWhile_eq_drop drop_0 le_antisym length_drop diff_is_0_eq' takeWhile_eq_take le_zero_eq length_takeWhile_le takeWhile_dropWhile_id length_append add_cancel_left_left length_0_conv append_Nil)
  then show "\<not> isSpace (hd s)" using assms(2) by (metis hd_dropWhile dropWhile_eq_Nil_conv)
  have "dropWhile isSpace (rev s) = rev s"
    using assms(1) d by (metis rev_rev_ident trimSpace_def)
  then show "\<not> isSpace (last s)" using assms(2) by (metis hd_dropWhile hd_rev rev_is_Nil_conv)
qed

lemma trim_pair:
  assumes "plainName c" "plainName n"
  shows "trimSpace (c @ ''='' @ n) = c @ ''='' @ n"
  using assms trimSpace_ends [of c] trimSpace_ends [of n]
  by (intro trimSpace_id) (auto simp: plainName_def)

lemma parseRoute_pair:
  assumes "lawful_dns1123 K" "validateRouteClass K c = None" "plainName n" "map_of rs c = None"
  shows "parseRoute K raw (c @ ''='' @ n) rs = Inr (rs @ [(c, n)])"
proof -
  have c: "plainName c" by (rule valid_class_plain [OF assms(1,2)])
  then have "cutEq (c @ ''='' @ n) = (c, n, True)" by (intro cutEq_pair) (simp add: plainName_def)
  with c assms show ?thesis
    by (simp add: parseRoute_def trim_pair [OF c assms(3), simplified] plainName_def update_new)
qed

lemma parseRouteElems_pairs:
  assumes "lawful_dns1123 K"
  shows "(\<forall>c n. (c, n) \<in> set ps \<longrightarrow> validateRouteClass K c = None \<and> plainName n) \<Longrightarrow>
     distinct (map fst (rs @ ps)) \<Longrightarrow>
     parseRouteElems K raw (map (\<lambda>(c, n). c @ ''='' @ n) ps) rs = Inr (rs @ ps)"
proof (induction ps arbitrary: rs)
  case (Cons p ps)
  obtain c n where p: "p = (c, n)" by (cases p)
  have "map_of rs c = None" using Cons.prems(2) p by (auto simp: map_of_eq_None_iff)
  then have "parseRoute K raw (c @ ''='' @ n) rs = Inr (rs @ [(c, n)])"
    using Cons.prems(1) p by (intro parseRoute_pair [OF assms]) auto
  moreover have "parseRouteElems K raw (map (\<lambda>(c, n). c @ ''='' @ n) ps) (rs @ [p]) = Inr ((rs @ [p]) @ ps)"
    using Cons.prems by (intro Cons.IH) auto
  ultimately show ?case using p by simp
qed simp

lemma in_joinWith: "x \<in> set xs \<Longrightarrow> c \<in> set x \<Longrightarrow> c \<in> set (joinWith sep xs)"
  by (induction sep xs rule: joinWith.induct) auto

lemma trimSpace_Nil: "trimSpace s = [] \<longleftrightarrow> (\<forall>c \<in> set s. isSpace c)"
proof
  assume "trimSpace s = []"
  then have "\<forall>x \<in> set (dropWhile isSpace s). isSpace x" by (simp add: trimSpace_def)
  then have "dropWhile isSpace s = []" by (metis hd_dropWhile hd_in_set)
  then show "\<forall>c \<in> set s. isSpace c" by simp
qed (simp add: trimSpace_def dropWhile_eq_Nil_conv [THEN iffD2])

text \<open>
  Cluster routes with valid classes and plain engine names are printed by
  \<open>Routes.String\<close> and parsed back by \<open>ParseRoutes\<close> to the same routes, whatever order the map
  was iterated in.
\<close>

theorem routes_round_trip:
  assumes dns: "lawful_dns1123 K" and wf: "wfRoutes K rs"
  shows "\<exists>rs'. ParseRoutes K (routesString rs) = Inr rs' \<and> map_of rs' = map_of rs"
proof (cases "rs = []")
  case True
  then show ?thesis by (simp add: ParseRoutes_def routesString_def routeClasses_def trimSpace_def)
next
  case False
  define ps where "ps = map (\<lambda>c. (c, the (map_of rs c))) (routeClasses rs)"
  have d: "distinct (map fst rs)" using wf by (simp add: wfRoutes_def)
  have in_rs: "(c, n) \<in> set ps \<longleftrightarrow> (c, n) \<in> set rs" for c n
    using d by (force simp: ps_def routeClasses_def)
  have ds: "distinct (map fst ps)" using d by (simp add: ps_def routeClasses_def comp_def)
  have str: "routesString rs = joinWith '','' (map (\<lambda>(c, n). c @ ''='' @ n) ps)"
  proof -
    have "(case map_of rs c of None \<Rightarrow> [] | Some n \<Rightarrow> n) = the (map_of rs c)" if "c \<in> set (routeClasses rs)" for c
      using that by (auto simp: routeClasses_def map_of_eq_None_iff split: option.split)
    then show ?thesis by (simp add: routesString_def ps_def comp_def cong: map_cong)
  qed
  have ok: "\<forall>c n. (c, n) \<in> set ps \<longrightarrow> validateRouteClass K c = None \<and> plainName n"
    using wf in_rs by (simp add: wfRoutes_def)
  have "length ps = length rs" by (simp add: ps_def routeClasses_def)
  with False have ne: "ps \<noteq> []" by auto
  have comma: "CHR '','' \<notin> set (c @ ''='' @ n)" if "(c, n) \<in> set ps" for c n
    using ok that valid_class_plain [OF dns, of c] by (auto simp: plainName_def)
  then have comma': "\<forall>x \<in> set (map (\<lambda>(c, n). c @ ''='' @ n) ps). CHR '','' \<notin> set x" by force
  have "splitOn (CHR '','') (routesString rs) = map (\<lambda>(c, n). c @ ''='' @ n) ps"
    unfolding str using ne by (intro splitOn_joinWith comma') simp
  moreover have "trimSpace (routesString rs) \<noteq> []"
  proof -
    obtain c n where "(c, n) \<in> set ps" using ne by (cases ps) auto
    then have "CHR ''='' \<in> set (routesString rs)"
      unfolding str by (intro in_joinWith [where x = "c @ ''='' @ n"]) force+
    moreover have "\<not> isSpace (CHR ''='')" by (simp add: isSpace_def)
    ultimately show ?thesis by (auto simp: trimSpace_Nil)
  qed
  ultimately have "ParseRoutes K (routesString rs) = Inr ps"
    using parseRouteElems_pairs [OF dns ok, of "[]"] ds by (simp add: ParseRoutes_def)
  moreover have "map_of ps = map_of rs"
    using in_rs by (subst map_of_inject_set [OF ds d]) auto
  ultimately show ?thesis by blast
qed

lemma routes_round_trip_witness:
  "\<exists>rs'. ParseRoutes sampleLib (routesString [(''kata'', ''other''), (''gvisor'', ''gke-pod-snapshots'')]) = Inr rs' \<and>
     map_of rs' ''kata'' = Some ''other''"
proof -
  have "wfRoutes sampleLib [(''kata'', ''other''), (''gvisor'', ''gke-pod-snapshots'')]"
    by (simp add: wfRoutes_def plainName_def validateRouteClass_def sampleLib_def sampleDNS_def dns1123Char_def less_eq_char_def
        trimSpace_def isSpace_def)
  from routes_round_trip [OF sampleLib_dns this] show ?thesis by auto
qed

subsection \<open>Overrides\<close>

definition overrideRegistry :: registry where
  "overrideRegistry = \<lparr>reg_default = GKEPodSnapshotsName,
     reg_byName = [(GKEPodSnapshotsName, gkeEngine sampleLib Live), (''alt'', (gkeEngine sampleLib Live)\<lparr>eng_Name := ''alt''\<rparr>)],
     reg_names = [GKEPodSnapshotsName, ''alt''], reg_byClass = [(''gvisor'', [GKEPodSnapshotsName, ''alt''])],
     reg_routes = [(''gvisor'', GKEPodSnapshotsName)]\<rparr>"

definition overridePM :: podMigration where
  "overridePM = \<lparr>pm_Name = ''pm'', pm_Namespace = ''ns'', pm_UID = ''u'', pm_ResourceVersion = 1, pm_Generation = 1, pm_Annotations = [AnnotationRuntimeClassEngines \<mapsto> ''gvisor=alt''],
     pm_Finalizers = [], pm_CreationTimestamp = 1, pm_DeletionTimestamp = None, pm_StorageLocation = [], pm_Conditions = []\<rparr>"

text \<open>
  The PodMigration of a namespace can redirect a runtime class away from the engine
  that the cluster chose only to a registered engine that covers that class: an annotation
  cannot send pods to an engine that cannot restore them.
\<close>

theorem namespace_override_needs_coverage:
  assumes pick: "ForPod K r (Some p) pm = Some (Some e)" and e: "eng_Name e = name" "reg_Get r name = Some e"
    and redirected: "ForPod K r (Some p) None \<noteq> Some (Some e)" and wf: "wfRegistry r"
  shows "engineCoversClassLocked r name (RuntimeClassLabel (pod_RuntimeClassName p))"
proof -
  let ?c = "RuntimeClassLabel (pod_RuntimeClassName p)" and ?ov = "podMigrationRoutesLocked K r pm"
  obtain n where n: "resolveLocked r ?c ?ov = Some n" "reg_Get r n = Some e"
    using pick by (auto simp: ForPod_def split: option.splits)
  have nm: "n = name" using n(2) e(1) wfRegistryD(4) [OF wf, of n e] by (auto simp: reg_Get_def dest: map_of_SomeD)
  show ?thesis
  proof (cases "map_of ?ov ?c")
    case None
    then have "resolveLocked r ?c ?ov = resolveLocked r ?c []" by (simp add: resolveLocked_def)
    with n redirected show ?thesis by (auto simp: ForPod_def)
  next
    case (Some n')
    then have "n' = n" using n(1) by (simp add: resolveLocked_def)
    with Some have can: "canOverrideRouteLocked r ?c n" using override_registered map_of_SomeD by metis
    have "\<not> (reg_routes r \<noteq> [] \<and> map_of (reg_routes r) ?c = Some n)"
      using redirected n(2) by (auto simp: ForPod_def resolveLocked_def)
    with can nm show ?thesis by (auto simp: canOverrideRouteLocked_def split: if_splits)
  qed
qed

lemma namespace_override_needs_coverage_witness:
  "\<exists>e. ForPod sampleLib overrideRegistry (Some (podOf ''web-0'' ''u0'')) (Some overridePM) = Some (Some e) \<and>
       engineCoversClassLocked overrideRegistry (eng_Name e) ''gvisor''"
proof -
  let ?e = "(gkeEngine sampleLib Live)\<lparr>eng_Name := ''alt''\<rparr>"
  have p: "ParseRoutes sampleLib ''gvisor=alt'' = Inr [(''gvisor'', ''alt'')]" by code_simp
  have pick: "ForPod sampleLib overrideRegistry (Some (podOf ''web-0'' ''u0'')) (Some overridePM) = Some (Some ?e)"
    by (simp add: ForPod_def resolveLocked_def overrideRegistry_def overridePM_def reg_Get_def podOf_def RuntimeClassLabel_def
        podMigrationRoutesLocked_def podMigrationRoutesAnnotation_def p canOverrideRouteLocked_def engineCoversClassLocked_def
        classEngines_def GKEPodSnapshotsName_def)
  have "ForPod sampleLib overrideRegistry (Some (podOf ''web-0'' ''u0'')) None \<noteq> Some (Some ?e)"
    by (simp add: ForPod_def resolveLocked_def overrideRegistry_def reg_Get_def podOf_def RuntimeClassLabel_def GKEPodSnapshotsName_def gkeEngine_def)
  then have "engineCoversClassLocked overrideRegistry ''alt'' (RuntimeClassLabel (pod_RuntimeClassName (podOf ''web-0'' ''u0'')))"
    by (intro namespace_override_needs_coverage [OF pick])
      (simp_all add: wfRegistry_def overrideRegistry_def reg_Get_def gkeEngine_def GKEPodSnapshotsName_def trimSpace_def isSpace_def)
  with pick show ?thesis by (auto simp: podOf_def RuntimeClassLabel_def)
qed

subsection \<open>The stock registry\<close>

lemma map_of_fold_update:
  "map_of (fold (\<lambda>c rs. AList.update c n rs) cs rs) c = (if c \<in> set cs then Some n else map_of rs c)"
  by (induction cs arbitrary: rs) (auto simp: update_conv')

lemma distinct_fold_update:
  "distinct (map fst rs) \<Longrightarrow> distinct (map fst (fold (\<lambda>c rs. AList.update c n rs) cs rs))"
  by (induction cs arbitrary: rs) (auto intro: AList.distinct_update)

lemma fold_update_nonempty: "cs \<noteq> [] \<Longrightarrow> fold (\<lambda>c rs. AList.update c n rs) cs rs \<noteq> []"
  using map_of_fold_update [of n cs rs "hd cs"] by (cases cs) (auto simp del: fold_simps)

lemma Register_Get:
  "Register K r (Some e) = Inr r' \<Longrightarrow> reg_Get r' (eng_Name e) = Some e"
proof -
  have k: "reg_byName (fold (addClass n) cs r) = reg_byName r" for n cs r
    by (induction cs arbitrary: r) auto
  show "Register K r (Some e) = Inr r' \<Longrightarrow> reg_Get r' (eng_Name e) = Some e"
    by (auto simp: Register_def Let_def reg_Get_def k update_conv' split: option.splits if_splits)
qed

lemma filter_key_None: "map_of (filter P rs) c = None \<longleftrightarrow> (\<forall>n. (c, n) \<in> set rs \<longrightarrow> \<not> P (c, n))"
  by (induction rs) auto

text \<open>What a PodMigration may add to the routes of a stock deployment: the class that the GKE engine declares, routed to it.\<close>

definition addsRoute :: "kubelib \<Rightarrow> podMigration option \<Rightarrow> string \<Rightarrow> bool" where
  "addsRoute K pm cls \<longleftrightarrow> cls = gkeRuntimeClass \<and>
     (\<exists>rs. ParseRoutes K (podMigrationRoutesAnnotation pm) = Inr rs \<and> (cls, GKEPodSnapshotsName) \<in> set rs)"

lemma stock_overrides:
  assumes names: "reg_byName r = [(GKEPodSnapshotsName, gkeEngine K rd)]" and classes: "reg_byClass r = [(gkeRuntimeClass, [GKEPodSnapshotsName])]"
  shows "map_of (podMigrationRoutesLocked K r pm) c = None \<or> map_of (podMigrationRoutesLocked K r pm) c = Some GKEPodSnapshotsName"
    and "map_of (podMigrationRoutesLocked K r pm) c \<noteq> None \<Longrightarrow> addsRoute K pm c \<or> map_of (reg_routes r) c = Some GKEPodSnapshotsName"
    and "addsRoute K pm c \<Longrightarrow> map_of (podMigrationRoutesLocked K r pm) c \<noteq> None"
proof -
  have get: "reg_Get r n = (if n = GKEPodSnapshotsName then Some (gkeEngine K rd) else None)" for n by (simp add: reg_Get_def names)
  have covers: "engineCoversClassLocked r GKEPodSnapshotsName cls \<longleftrightarrow> cls = gkeRuntimeClass" for cls
    by (auto simp: engineCoversClassLocked_def classEngines_def classes get gkeEngine_def gkeRuntimeClass_def DefaultRuntimeClassToken_def)
  have can: "canOverrideRouteLocked r cls n \<longleftrightarrow> n = GKEPodSnapshotsName \<and> (cls = gkeRuntimeClass \<or> map_of (reg_routes r) cls = Some n)" for cls n
  proof (cases "n = GKEPodSnapshotsName")
    case True
    show ?thesis unfolding True canOverrideRouteLocked_def get covers by (cases "reg_routes r") simp_all
  qed (simp add: canOverrideRouteLocked_def get)
  have routed: "n = GKEPodSnapshotsName \<and> (addsRoute K pm c \<or> map_of (reg_routes r) c = Some GKEPodSnapshotsName)"
    if some: "map_of (podMigrationRoutesLocked K r pm) c = Some n" for n
  proof -
    obtain rs where rs: "ParseRoutes K (podMigrationRoutesAnnotation pm) = Inr rs" "(c, n) \<in> set rs" "canOverrideRouteLocked r c n"
      using map_of_SomeD [OF some]
      by (cases "ParseRoutes K (podMigrationRoutesAnnotation pm)") (auto simp: podMigrationRoutesLocked_def)
    with can [of c n] show ?thesis unfolding addsRoute_def by blast
  qed
  then show "map_of (podMigrationRoutesLocked K r pm) c = None \<or> map_of (podMigrationRoutesLocked K r pm) c = Some GKEPodSnapshotsName"
    by (cases "map_of (podMigrationRoutesLocked K r pm) c") simp_all
  show "map_of (podMigrationRoutesLocked K r pm) c \<noteq> None \<Longrightarrow> addsRoute K pm c \<or> map_of (reg_routes r) c = Some GKEPodSnapshotsName"
    using routed by blast
  assume "addsRoute K pm c"
  then obtain rs where rs: "ParseRoutes K (podMigrationRoutesAnnotation pm) = Inr rs" "(c, GKEPodSnapshotsName) \<in> set rs" "canOverrideRouteLocked r c GKEPodSnapshotsName"
    using can [of c GKEPodSnapshotsName] unfolding addsRoute_def by blast
  then show "map_of (podMigrationRoutesLocked K r pm) c \<noteq> None"
    unfolding podMigrationRoutesLocked_def rs(1) sum.case filter_key_None by auto
qed

text \<open>
  C28 (refinement). The registry of a stock deployment is well formed and implements the operator's
  allow-list: for a pod of any runtime class it picks the GKE engine if the parsed
  \<open>--migratable-runtime-classes\<close> allows the class or if the namespace's PodMigration routes
  the class that the engine declares to it, and no engine otherwise. Without such a route it
  is exactly the allow-list.
\<close>

theorem stock_registry_serves_allow_list:
  assumes reg: "NewDefaultRegistry K rd (Some q) = Inr r" and q: "ParseRuntimeClassPolicy K raw = Inr q"
    and dns: "lawful_dns1123 K" and ne: "Classes K (Some q) \<noteq> []" and p: "pod_RuntimeClassName p \<noteq> Some DefaultRuntimeClassToken"
  shows "wfRegistry r \<and>
     ForPod K r (Some p) pm = (if Allows K (Some q) (pod_RuntimeClassName p) \<or> addsRoute K pm (RuntimeClassLabel (pod_RuntimeClassName p))
       then Some (Some (gkeEngine K rd)) else None)"
proof -
  let ?rs = "RoutesFromAllowList K (Some q) GKEPodSnapshotsName"
  let ?c = "RuntimeClassLabel (pod_RuntimeClassName p)"
  let ?ov = "podMigrationRoutesLocked K r pm"
  obtain r0 where r0: "Register K (NewRegistry GKEPodSnapshotsName) (Some (gkeEngine K rd)) = Inr r0"
    and set: "SetRoutes K r0 ?rs = Inr r"
    using reg by (auto simp: NewDefaultRegistry_def split: sum.splits)
  have r: "r = r0\<lparr>reg_routes := ?rs\<rparr>" using set by (auto simp: SetRoutes_def split: option.splits)
  have "wfRegistry r0" using wf_NewRegistry r0 by (rule wf_Register)
  then have wf: "wfRegistry r"
    by (rule wf_SetRoutes [OF _ _ set]) (simp add: RoutesFromAllowList_def distinct_fold_update)
  have shape: "reg_byName r = [(GKEPodSnapshotsName, gkeEngine K rd)]" "reg_byClass r = [(gkeRuntimeClass, [GKEPodSnapshotsName])]"
    using r0 by (auto simp: r Register_def NewRegistry_def gkeEngine_def addClass_def classEngines_def Let_def split: if_splits option.splits)
  have get: "reg_Get r GKEPodSnapshotsName = Some (gkeEngine K rd)" by (simp add: reg_Get_def shape)
  have cls: "?c \<in> set (Classes K (Some q)) \<longleftrightarrow> Allows K (Some q) (pod_RuntimeClassName p)"
  proof -
    have ok: "\<forall>n \<in> set (rc_names q). n \<noteq> [] \<and> n \<noteq> DefaultRuntimeClassToken"
      using parse_wf [OF q] dns_name [OF dns] by (auto simp: wfPolicy_def)
    with p show ?thesis
      by (auto simp: Classes_def orDefault_def Allows_def RuntimeClassLabel_def Let_def split: option.splits)
  qed
  have routes: "reg_routes r \<noteq> []" "map_of (reg_routes r) ?c = (if ?c \<in> set (Classes K (Some q)) then Some GKEPodSnapshotsName else None)"
    using fold_update_nonempty [OF ne, of GKEPodSnapshotsName "[]"] by (simp_all add: r RoutesFromAllowList_def map_of_fold_update)
  have "resolveLocked r ?c ?ov = (if ?c \<in> set (Classes K (Some q)) \<or> addsRoute K pm ?c then Some GKEPodSnapshotsName else None)"
    using stock_overrides [OF shape, of pm ?c] routes by (auto simp: resolveLocked_def split: option.splits if_splits)
  with get cls wf show ?thesis by (simp add: ForPod_def)
qed

lemma stock_registry_serves_allow_list_witness:
  "ForPod sampleLib stockRegistry (Some (podOf ''web-0'' ''u0'')) None = Some (Some (gkeEngine sampleLib Live))"
proof -
  have q: "ParseRuntimeClassPolicy sampleLib ''gvisor'' = Inr plainPolicy" by code_simp
  have a: "Allows sampleLib (Some plainPolicy) (pod_RuntimeClassName (podOf ''web-0'' ''u0''))" by code_simp
  have "Classes sampleLib (Some plainPolicy) \<noteq> []" by code_simp
  moreover have "pod_RuntimeClassName (podOf ''web-0'' ''u0'') \<noteq> Some DefaultRuntimeClassToken" by code_simp
  ultimately show ?thesis
    using stock_registry_serves_allow_list [OF stock_registry q sampleLib_dns, of "podOf ''web-0'' ''u0''" None] a by (simp only: simp_thms if_True)
qed

subsection \<open>The verdict of the GKE engine\<close>

definition coldStartEvent :: event where
  "coldStartEvent = \<lparr>ev_InvolvedUID = ''u1'', ev_Type = ''Warning'', ev_Reason = ''SkipRestore'', ev_Message = [], ev_LastTimestamp = 0\<rparr>"

text \<open>
  The GKE engine's verdict on a replacement: a cold start exactly when a Warning
  event of that pod, not older than the restore, reports a skipped or failed restore; restored
  exactly when there is none and the pod is Ready; otherwise still in progress. The verdict is
  never marked as confirmed, and asking for it changes nothing.
\<close>

theorem gke_restore_verdict:
  assumes run: "run_state (GKE_VerifyRestore rd job p) w = (Inr v, w')"
  shows "(rv_Outcome v = ColdStart \<longleftrightarrow> (\<exists>e \<in> set (cl_events (view rd w)). reportsRestoreFailure job p e)) \<and>
         (rv_Outcome v = Restored \<longleftrightarrow> podReady p \<and> rv_Outcome v \<noteq> ColdStart) \<and> \<not> rv_Confirmed v \<and> w_live w' = w_live w"
proof -
  have f: "find (reportsRestoreFailure job p) (filter (\<lambda>x. ev_InvolvedUID x = pod_UID p) es) = None \<longleftrightarrow>
      \<not> (\<exists>e \<in> set es. reportsRestoreFailure job p e)" for es
    by (auto simp: find_None_iff reportsRestoreFailure_def)
  have "wp (GKE_VerifyRestore rd job p) (\<lambda>r w'. case r of Inl e \<Rightarrow> True | Inr v \<Rightarrow>
     (rv_Outcome v = ColdStart \<longleftrightarrow> (\<exists>e \<in> set (cl_events (view rd w)). reportsRestoreFailure job p e)) \<and>
     (rv_Outcome v = Restored \<longleftrightarrow> podReady p \<and> rv_Outcome v \<noteq> ColdStart) \<and> \<not> rv_Confirmed v \<and> w_live w' = w_live w) w"
    unfolding GKE_VerifyRestore_def restoreFailureEvent_def list_events_def wp_bind
    by (rule wp_read_callI)
      (use f [of "cl_events (view rd w)"] in \<open>auto simp: wp_simps split: option.split\<close>)
  from wp_run [OF this run] show ?thesis by simp
qed

lemma gke_restore_verdict_witness:
  "\<exists>v w'. run_state (GKE_VerifyRestore Live (jobOf ''pmj'' ''web-0'' ''u0'' PhaseRestoring) (podOf ''web-1'' ''u1''))
       (worldOf ((clusterOf [] [])\<lparr>cl_events := [coldStartEvent]\<rparr>)) = (Inr v, w') \<and> rv_Outcome v = ColdStart"
proof -
  let ?run = "run_state (GKE_VerifyRestore Live (jobOf ''pmj'' ''web-0'' ''u0'' PhaseRestoring) (podOf ''web-1'' ''u1''))
       (worldOf ((clusterOf [] [])\<lparr>cl_events := [coldStartEvent]\<rparr>))"
  have "(case fst ?run of Inr v \<Rightarrow> True | Inl _ \<Rightarrow> False)" by code_simp
  then obtain v where run: "?run = (Inr v, snd ?run)" by (cases "fst ?run") (auto simp: prod_eq_iff)
  have "reportsRestoreFailure (jobOf ''pmj'' ''web-0'' ''u0'' PhaseRestoring) (podOf ''web-1'' ''u1'') coldStartEvent" by code_simp
  with gke_restore_verdict [OF run] have "rv_Outcome v = ColdStart" by simp
  with run show ?thesis by blast
qed

subsection \<open>Contracts\<close>

locale migration_engine = snapshot_provider "eng_Snapshots E" for E :: engine +
  assumes verify: "eng_VerifyRestore E = Some v \<Longrightarrow> wp (v job p) (\<lambda>_. quiet w) w"
    and resolve: "wp (eng_ResolvePolicy E p) (\<lambda>_. quiet w) w"
begin

lemma verifyI: "eng_VerifyRestore E = Some v \<Longrightarrow> (\<And>r n. Q r (w\<lparr>w_calls := n\<rparr>)) \<Longrightarrow> wp (v job p) Q w"
  by (rule wp_mono [OF verify]) (auto simp: quiet_def)

lemma resolveI: "(\<And>r n. Q r (w\<lparr>w_calls := n\<rparr>)) \<Longrightarrow> wp (eng_ResolvePolicy E p) Q w"
  by (rule wp_mono [OF resolve]) (auto simp: quiet_def)

end

lemma gke_verify: "wp (GKE_VerifyRestore rd job p) (\<lambda>_. quiet w) w"
  unfolding GKE_VerifyRestore_def restoreFailureEvent_def list_events_def
  by (auto simp: wp_simps intro!: wp_readI)

lemma gke_resolve: "wp (GKE_ResolvePolicy K rd p) (\<lambda>_. quiet w) w"
  unfolding GKE_ResolvePolicy_def FindLatestReadyManualStopPSP_def list_policies_def
  by (auto simp: wp_simps intro!: wp_readI)

interpretation gkeEng: migration_engine "gkeEngine K rd" for K rd
proof -
  have "snapshot_provider (eng_Snapshots (gkeEngine K rd))"
    unfolding gkeEngine_def engine.select_convs by (rule gke.snapshot_provider_axioms)
  then show "migration_engine (gkeEngine K rd)"
    by (rule migration_engine.intro) (unfold_locales; auto simp: gkeEngine_def intro: gke_verify gke_resolve)
qed

locale restore_orderer =
  fixes R :: restoreOrderer
  assumes order: "OrderRestore R p job = Inr p' \<Longrightarrow> trimSpace (st_SnapshotRef (pmj_Status job)) = st_SnapshotRef (pmj_Status job) \<Longrightarrow>
      InspectRestoreOrder R p' = (st_SnapshotRef (pmj_Status job), False, True)"
    and bypass: "OrderColdStartBypass R p = Inr p' \<Longrightarrow> InspectRestoreOrder R p' = ([], True, True)"
    and order_frame: "OrderRestore R p job = Inr p' \<Longrightarrow> p'\<lparr>pod_Annotations := pod_Annotations p\<rparr> = p"
    and bypass_frame: "OrderColdStartBypass R p = Inr p' \<Longrightarrow> p'\<lparr>pod_Annotations := pod_Annotations p\<rparr> = p"
begin

text \<open>A later bypass wins over an earlier restore order, and neither touches the pod's identity.\<close>

lemma bypass_wins:
  "OrderRestore R p job = Inr q \<Longrightarrow> OrderColdStartBypass R q = Inr p' \<Longrightarrow> InspectRestoreOrder R p' = ([], True, True)"
  by (rule bypass)

lemma order_identity:
  "OrderRestore R p job = Inr p' \<Longrightarrow> pod_Name p' = pod_Name p \<and> pod_UID p' = pod_UID p \<and> pod_SchedulingGates p' = pod_SchedulingGates p"
  using arg_cong [OF order_frame, of p job p' pod_Name] arg_cong [OF order_frame, of p job p' pod_UID]
    arg_cong [OF order_frame, of p job p' pod_SchedulingGates] by simp

lemma bypass_identity:
  "OrderColdStartBypass R p = Inr p' \<Longrightarrow> pod_Name p' = pod_Name p \<and> pod_UID p' = pod_UID p \<and> pod_SchedulingGates p' = pod_SchedulingGates p"
  using arg_cong [OF bypass_frame, of p p' pod_Name] arg_cong [OF bypass_frame, of p p' pod_UID]
    arg_cong [OF bypass_frame, of p p' pod_SchedulingGates] by simp

end

interpretation gkeOrd: restore_orderer gkeOrderer
  by unfold_locales
    (auto simp: gkeOrderer_def GKE_OrderRestore_def GKE_OrderColdStartBypass_def GKE_InspectRestoreOrder_def
       Let_def trimSpace_def split: if_splits)

text \<open>The registry that \<open>NewDefaultRegistry\<close> builds: the GKE engine alone, with the routes of the allow list.\<close>

definition gkeRegistry :: "kubelib \<Rightarrow> routes \<Rightarrow> registry" where
  "gkeRegistry K rs = \<lparr>reg_default = GKEPodSnapshotsName, reg_byName = [(GKEPodSnapshotsName, gkeEngine K Live)],
     reg_names = [GKEPodSnapshotsName], reg_byClass = [(gkeRuntimeClass, [GKEPodSnapshotsName])], reg_routes = rs\<rparr>"

lemma default_registry: "NewDefaultRegistry K Live policy = Inr engines \<Longrightarrow> \<exists>rs. engines = gkeRegistry K rs"
  by (auto simp: NewDefaultRegistry_def Register_def NewRegistry_def SetRoutes_def gkeRegistry_def gkeEngine_def addClass_def classEngines_def
      Let_def GKEPodSnapshotsName_def gkeRuntimeClass_def trimSpace_def isSpace_def split: sum.splits if_splits option.splits)

definition gkeRoutes :: "kubelib \<Rightarrow> string list \<Rightarrow> registry" where
  "gkeRoutes K cs = gkeRegistry K (map (\<lambda>c. (c, GKEPodSnapshotsName)) cs)"

lemma fold_update_names:
  "\<forall>(c, n) \<in> set rs. n = name \<Longrightarrow> \<forall>(c, n) \<in> set (fold (\<lambda>c rs. AList.update c name rs) cs rs). n = name"
proof (induction cs arbitrary: rs)
  case (Cons c cs)
  have "\<forall>(c, n) \<in> set (AList.update c name rs). n = name"
    using Cons.prems by (induction rs) auto
  then show ?case using Cons.IH by simp
qed simp

lemma default_routes: "NewDefaultRegistry K Live policy = Inr engines \<Longrightarrow> \<exists>cs. engines = gkeRoutes K cs"
proof -
  assume reg: "NewDefaultRegistry K Live policy = Inr engines"
  let ?rs = "RoutesFromAllowList K policy GKEPodSnapshotsName"
  obtain rs where e: "engines = gkeRegistry K rs" using default_registry [OF reg] by blast
  have "reg_routes engines = ?rs"
    using reg by (auto simp: NewDefaultRegistry_def SetRoutes_def split: sum.splits option.splits)
  then have "engines = gkeRegistry K ?rs" using e by (simp add: gkeRegistry_def)
  moreover have "?rs = map (\<lambda>c. (c, GKEPodSnapshotsName)) (map fst ?rs)"
    using fold_update_names [of "[]" GKEPodSnapshotsName "Classes K policy"]
    by (auto simp: RoutesFromAllowList_def intro!: map_idI [symmetric] split: prod.splits)
  ultimately show ?thesis unfolding gkeRoutes_def by metis
qed

lemma gkeRoutes_get: "reg_Get (gkeRoutes K cs) n = (if n = GKEPodSnapshotsName then Some (gkeEngine K Live) else None)"
  by (simp add: gkeRoutes_def gkeRegistry_def reg_Get_def)

lemma gkeRoutes_ForPod: "ForPod K (gkeRoutes K cs) p pm = Some x \<Longrightarrow> x = Some (gkeEngine K Live)"
proof -
  assume "ForPod K (gkeRoutes K cs) p pm = Some x"
  then obtain c n where n: "resolveLocked (gkeRoutes K cs) c (podMigrationRoutesLocked K (gkeRoutes K cs) pm) = Some n" "x = reg_Get (gkeRoutes K cs) n"
    by (auto simp: ForPod_def split: option.splits)
  have ov: "n' = GKEPodSnapshotsName" if "(c', n') \<in> set (podMigrationRoutesLocked K (gkeRoutes K cs) pm)" for c' n'
    using override_registered [OF that] by (simp add: canOverrideRouteLocked_def gkeRoutes_get split: if_splits)
  have "n = GKEPodSnapshotsName"
    using n(1) ov by (auto simp: resolveLocked_def gkeRoutes_def gkeRegistry_def classEngines_def Let_def dest!: map_of_SomeD split: option.splits if_splits)
  with n(2) show ?thesis by (simp add: gkeRoutes_get)
qed

end
