(* ===== verification/Budget.thy ===== *)
theory Budget
  imports Scenario Timeout "HOL-Library.AList"
begin

text \<open>
  The disruption-budget checks before a checkpoint (\<open>controller/budget_check.go\<close> without the
  reconciler's own part, \<open>controller/budget_inflight.go\<close>, \<open>controller/budget_wakeup.go\<close>).

  A checker returns a condition reason and an error. \<open>EvictionBudgetChecker_Check\<close> is the dry-run
  eviction; \<open>InFlightBudgetChecker_Check\<close> adds the count of migrations in flight and keeps its
  reservations in \<open>w_reserved\<close> (PDB key, job UID, time). Each \<open>checkPDB\<close> that reserves runs
  under the per-PDB lock, so it is one step; the steps of different jobs interleave between
  them. The locale \<open>budget_checker\<close> is what the job controller relies on.
\<close>

section \<open>Definitions\<close>

definition reasonBudgetAllowed :: string where
  [const_defs]: "reasonBudgetAllowed = ''Allowed''"
definition reasonBudgetExhausted :: string where
  [const_defs]: "reasonBudgetExhausted = ''BudgetExhausted''"
definition reasonBudgetCheckError :: string where
  [const_defs]: "reasonBudgetCheckError = ''CheckError''"
definition reasonMigrationsInFlight :: string where
  [const_defs]: "reasonMigrationsInFlight = ''MigrationsInFlight''"

definition budgetRecheckInterval :: duration where
  "budgetRecheckInterval = 5 * second"
definition budgetRecheckMaxInterval :: duration where
  "budgetRecheckMaxInterval = 30 * second"
definition inFlightReservationTTL :: duration where
  "inFlightReservationTTL = 2 * minute"

type_synonym budgetChecker = "pmj \<Rightarrow> string \<Rightarrow> (string \<times> api_error option) io"

subsection \<open>The dry-run eviction\<close>

definition EvictionBudgetChecker_Check :: budgetChecker where
  "EvictionBudgetChecker_Check job podName = do {
     r \<leftarrow> evict_dry_run podName (pmj_TargetPodUID job);
     State_Monad.return (case r of
       Inr _ \<Rightarrow> (reasonBudgetAllowed, None)
     | Inl e \<Rightarrow> if isTooManyRequests e \<and> ae_cause e \<noteq> None then (reasonBudgetExhausted, Some e)
               else (reasonBudgetCheckError, Some e))
   }"

definition skipsDisruptionBudgetCheck :: "pmj \<Rightarrow> bool" where
  "skipsDisruptionBudgetCheck job =
     (mget (pmj_Labels job) LabelTriggerSource = TriggerSourceSpotPreemption \<or>
      mget (pmj_Annotations job) AnnotationTriggerSource = TriggerSourceSpotPreemption)"

text \<open>The library's \<open>wait.Jitter(interval, 0.2)\<close> is the parameter \<open>Jitter\<close>.\<close>

definition budgetRecheckAfter :: "kubelib \<Rightarrow> condition option \<Rightarrow> time \<Rightarrow> time \<Rightarrow> duration" where
  "budgetRecheckAfter K cond deadline now =
     (let interval = (case cond of
            None \<Rightarrow> budgetRecheckInterval
          | Some c \<Rightarrow> min (max (quot (time_sub now (c_LastTransitionTime c)) 2) budgetRecheckInterval) budgetRecheckMaxInterval);
          after = Jitter K interval;
          untilDeadline = wrap64 (time_sub deadline now + second)
      in if untilDeadline < after then max untilDeadline second else after)"

definition refusedByDisruptionBudget :: "pmj \<Rightarrow> bool" where
  "refusedByDisruptionBudget job =
     (if st_Phase (pmj_Status job) \<noteq> PhasePending then False
      else case FindStatusCondition (st_Conditions (pmj_Status job)) ConditionDisruptionBudgetChecked of
             None \<Rightarrow> False
           | Some cond \<Rightarrow> c_Status cond = CondFalse \<and>
               (c_Reason cond = reasonBudgetExhausted \<or> c_Reason cond = reasonMigrationsInFlight))"

subsection \<open>Migrations in flight\<close>

definition podCountsHealthy :: "pod \<Rightarrow> bool" where
  "podCountsHealthy p =
     (if pod_DeletionTimestamp p \<noteq> None then False
      else case find (\<lambda>c. c_Type c = ''Ready'') (pod_Conditions p) of
             None \<Rightarrow> False
           | Some c \<Rightarrow> c_Status c = CondTrue)"

definition pastBudgetCheck :: "pmj \<Rightarrow> bool" where
  "pastBudgetCheck job = (st_Phase (pmj_Status job) \<in> {PhaseSnapshotting, PhaseEvicting, PhaseRestoring})"

definition cachedBudgetRefusal :: "pod \<Rightarrow> pdb \<Rightarrow> api_error option" where
  "cachedBudgetRefusal source b =
     (if \<not> podCountsHealthy source then None
      else let refuse = (\<lambda>cause. Some (ApiError TooManyRequests (Some cause)
                 ''Cannot evict pod as it would violate the pod's disruption budget.''))
           in if pdb_ObservedGeneration b < pdb_Generation b
              then refuse (''The disruption budget '' @ pdb_Name b @ '' is still being processed by the server.'')
              else if pdb_DisruptionsAllowed b = 0
              then refuse (''The disruption budget '' @ pdb_Name b @ '' needs '' @ showInt (pdb_DesiredHealthy b) @
                     '' healthy pods and has '' @ showInt (pdb_CurrentHealthy b) @ '' currently'')
              else None)"

definition pdbKey :: "pdb \<Rightarrow> string" where
  "pdbKey b = pdb_Namespace b @ ''/'' @ pdb_Name b"

definition keepReservation :: "pmj list \<Rightarrow> time \<Rightarrow> string \<times> time \<Rightarrow> bool" where
  "keepReservation jobs now res =
     (case res of (uid, reservedAt) \<Rightarrow>
        (case map_of (rev (map (\<lambda>j. (pmj_UID j, j)) jobs)) uid of
           None \<Rightarrow> False
         | Some job \<Rightarrow> \<not> (pastBudgetCheck job \<or> IsTerminalPhase (st_Phase (pmj_Status job)) \<or>
                          time_sub now reservedAt > inFlightReservationTTL)))"

definition pruneReservations :: "string \<Rightarrow> pmj list \<Rightarrow> (string \<times> time) list io" where
  "pruneReservations key jobs = do {
     modify (\<lambda>w. w\<lparr>w_reserved := (w_reserved w)(key := filter (keepReservation jobs (w_now w)) (w_reserved w key))\<rparr>);
     gets (\<lambda>w. w_reserved w key)
   }"

definition reserve :: "string \<Rightarrow> string \<Rightarrow> unit io" where
  "reserve key jobUID =
     modify (\<lambda>w. w\<lparr>w_reserved := (w_reserved w)(key := AList.update jobUID (w_now w) (w_reserved w key))\<rparr>)"

text \<open>The sources of the other migrations in flight: pod UID to job name.\<close>

definition inFlightOf :: "pmj \<Rightarrow> (string \<times> time) list \<Rightarrow> pod list \<Rightarrow> pmj \<Rightarrow> (string \<times> string) list \<Rightarrow> (string \<times> string) list" where
  "inFlightOf job reservations pods other acc =
     (if pmj_UID other = pmj_UID job \<or> pmj_TargetPodUID other = [] then acc
      else if map_of reservations (pmj_UID other) = None \<and> \<not> pastBudgetCheck other then acc
      else case map_of (rev (map (\<lambda>p. (pod_UID p, p)) pods)) (pmj_TargetPodUID other) of
             None \<Rightarrow> acc
           | Some p \<Rightarrow> if pod_DeletionTimestamp p = None then AList.update (pod_UID p) (pmj_Name other) acc else acc)"

definition inFlightSources :: "pmj \<Rightarrow> (string \<times> time) list \<Rightarrow> pod list \<Rightarrow> pmj list \<Rightarrow> (string \<times> string) list" where
  "inFlightSources job reservations pods jobs = fold (inFlightOf job reservations pods) jobs []"

definition healthyAfter :: "pod \<Rightarrow> (string \<times> string) list \<Rightarrow> pod list \<Rightarrow> int" where
  "healthyAfter source inFlight pods =
     int (length (filter (\<lambda>p. map_of inFlight (pod_UID p) = None \<and> podCountsHealthy p) pods)) -
     (if podCountsHealthy source then 1 else 0)"

definition checkPDB :: "pmj \<Rightarrow> pod \<Rightarrow> pdb \<Rightarrow> (strmap \<Rightarrow> bool) \<Rightarrow> bool \<Rightarrow> (string \<times> api_error option) io" where
  "checkPDB job source b selector doReserve =
     (if \<not> podCountsHealthy source \<and> pdb_UnhealthyPolicy b = Some AlwaysAllow
      then State_Monad.return (reasonBudgetAllowed, None)
      else do {
        lj \<leftarrow> list_jobs Cached;
        (case lj of
           Inl e \<Rightarrow> State_Monad.return (reasonBudgetCheckError, Some (wrapErr ''listing migration jobs'' e))
         | Inr jobs \<Rightarrow> do {
             lp \<leftarrow> list_pods_matching Cached selector;
             (case lp of
                Inl e \<Rightarrow> State_Monad.return (reasonBudgetCheckError, Some (wrapErr ''listing the PDB's pods'' e))
              | Inr pods \<Rightarrow> do {
                  reservations \<leftarrow> pruneReservations (pdbKey b) jobs;
                  let inFlight = inFlightSources job reservations pods jobs;
                  let healthy = healthyAfter source inFlight pods;
                  (if healthy < pdb_DesiredHealthy b
                   then State_Monad.return (reasonMigrationsInFlight, Some (err OtherReason
                     (''PodDisruptionBudget '' @ pdb_Name b @ '' needs '' @ showInt (pdb_DesiredHealthy b) @ '' healthy pods, and '' @
                      showInt healthy @ '' would remain while '' @ showNat (length inFlight) @ '' other migrations are in flight ('' @
                      joinWith '', '' (sort (map snd inFlight)) @ '')'')))
                   else do {
                     (if doReserve then reserve (pdbKey b) (pmj_UID job) else State_Monad.return ());
                     State_Monad.return (reasonBudgetAllowed, None)
                   })
                })
           })
      })"

text \<open>The loop over the covering budgets, which stops at the first that does not allow.\<close>

fun checkPDBs :: "pmj \<Rightarrow> pod \<Rightarrow> bool \<Rightarrow> (pdb \<times> (strmap \<Rightarrow> bool)) list \<Rightarrow> (string \<times> api_error option) io" where
  "checkPDBs job source doReserve [] = State_Monad.return (reasonBudgetAllowed, None)"
| "checkPDBs job source doReserve ((b, selector) # rest) = do {
     r \<leftarrow> checkPDB job source b selector doReserve;
     (if fst r \<noteq> reasonBudgetAllowed then State_Monad.return r else checkPDBs job source doReserve rest)
   }"

text \<open>A nil selector selects nothing; an invalid one is skipped.\<close>

definition pdbSelector :: "kubelib \<Rightarrow> pdb \<Rightarrow> (strmap \<Rightarrow> bool) option" where
  "pdbSelector K b = (case pdb_Selector b of None \<Rightarrow> Some (\<lambda>_. False) | Some s \<Rightarrow> LabelSelectorAsSelector K s)"

definition coveringPDBs :: "kubelib \<Rightarrow> pod \<Rightarrow> pdb list \<Rightarrow> (pdb \<times> (strmap \<Rightarrow> bool)) list" where
  "coveringPDBs K source pdbs =
     List.map_filter (\<lambda>b. case pdbSelector K b of
         None \<Rightarrow> None
       | Some sel \<Rightarrow> if sel (pod_Labels source) then Some (b, sel) else None) pdbs"

definition InFlightBudgetChecker_Check :: "kubelib \<Rightarrow> budgetChecker \<Rightarrow> budgetChecker" where
  "InFlightBudgetChecker_Check K DryRun job podName = do {
     g \<leftarrow> get_pod Cached podName;
     (case g of
        Inl e \<Rightarrow>
          if \<not> isNotFound e then State_Monad.return (reasonBudgetCheckError, Some (wrapErr ''reading the source pod'' e))
          else DryRun job podName
      | Inr source \<Rightarrow> do {
          l \<leftarrow> list_pdbs Cached;
          (case l of
             Inl e \<Rightarrow> State_Monad.return (reasonBudgetCheckError, Some (wrapErr ''listing PodDisruptionBudgets'' e))
           | Inr pdbs \<Rightarrow>
               (let covering = coveringPDBs K source pdbs in
                case (case covering of [(b, sel)] \<Rightarrow> cachedBudgetRefusal source b | _ \<Rightarrow> None) of
                  Some refusal \<Rightarrow> State_Monad.return (reasonBudgetExhausted, Some refusal)
                | None \<Rightarrow> do {
                    pre \<leftarrow> checkPDBs job source False covering;
                    (if fst pre \<noteq> reasonBudgetAllowed then State_Monad.return pre
                     else do {
                       dry \<leftarrow> DryRun job podName;
                       (if fst dry \<noteq> reasonBudgetAllowed then State_Monad.return dry
                        else checkPDBs job source True covering)
                     })
                  }))
        })
   }"

subsection \<open>Waking the waiting jobs\<close>

definition pdbMayHaveFreedBudget :: "pdb \<Rightarrow> pdb \<Rightarrow> bool" where
  "pdbMayHaveFreedBudget oldPDB newPDB =
     (pdb_DisruptionsAllowed newPDB > pdb_DisruptionsAllowed oldPDB \<or> pdb_CurrentHealthy newPDB > pdb_CurrentHealthy oldPDB)"

fun waitersLoop :: "(strmap \<Rightarrow> bool) \<Rightarrow> pmj list \<Rightarrow> string list io" where
  "waitersLoop selector [] = State_Monad.return []"
| "waitersLoop selector (job # jobs) =
     (if \<not> WaitingForDisruptionBudget job then waitersLoop selector jobs
      else do {
        g \<leftarrow> get_pod Cached (pmj_PodRefName job);
        rest \<leftarrow> waitersLoop selector jobs;
        State_Monad.return (case g of
          Inl _ \<Rightarrow> rest
        | Inr source \<Rightarrow> if selector (pod_Labels source) then pmj_Name job # rest else rest)
      })"

definition budgetWaitersForPDB :: "kubelib \<Rightarrow> pdb \<Rightarrow> string list io" where
  "budgetWaitersForPDB K b =
     (case pdbSelector K b of
        None \<Rightarrow> State_Monad.return []
      | Some selector \<Rightarrow> do {
          l \<leftarrow> list_jobs Cached;
          (case l of Inl _ \<Rightarrow> State_Monad.return [] | Inr jobs \<Rightarrow> waitersLoop selector jobs)
        })"

subsection \<open>What the controller relies on\<close>

definition budgetFrame :: "world \<Rightarrow> world \<Rightarrow> bool" where
  "budgetFrame w w' \<longleftrightarrow> (\<exists>k res. w' = w\<lparr>w_calls := k, w_reserved := res\<rparr>)"

locale budget_checker =
  fixes check :: budgetChecker
  assumes frame: "wp (check job podName) (\<lambda>_. budgetFrame w) w"
    and allowed_no_error: "wp (check job podName) (\<lambda>r _. fst r = reasonBudgetAllowed \<longrightarrow> snd r = None) w"
begin

lemma checkI:
  assumes "\<And>r k res. (fst r = reasonBudgetAllowed \<Longrightarrow> snd r = None) \<Longrightarrow> Q r (w\<lparr>w_calls := k, w_reserved := res\<rparr>)"
  shows "wp (check job podName) Q w"
proof -
  have "wp (check job podName) (\<lambda>r w'. (fst r = reasonBudgetAllowed \<longrightarrow> snd r = None) \<and> budgetFrame w w') w"
    unfolding wp_conj using frame allowed_no_error by blast
  then show ?thesis by (rule wp_mono) (use assms in \<open>auto simp: budgetFrame_def\<close>)
qed

end

text \<open>How many healthy pods a budget keeps when the sources in \<open>gone\<close> are taken away.\<close>

definition healthyWithout :: "string set \<Rightarrow> pod list \<Rightarrow> nat" where
  "healthyWithout gone pods = length (filter (\<lambda>p. pod_UID p \<notin> gone \<and> podCountsHealthy p) pods)"

section \<open>Lemmas\<close>

definition inFlightJob :: "world \<Rightarrow> string \<Rightarrow> pmj \<Rightarrow> bool" where
  "inFlightJob w key j \<longleftrightarrow> pastBudgetCheck j \<or>
     (\<exists>t. (pmj_UID j, t) \<in> set (w_reserved w key) \<and> keepReservation (cl_jobs (w_cache w)) (w_now w) (pmj_UID j, t))"

definition sourcesInFlight :: "world \<Rightarrow> string \<Rightarrow> pmj \<Rightarrow> string set" where
  "sourcesInFlight w key job =
     {pmj_TargetPodUID j |j. j \<in> set (cl_jobs (w_cache w)) \<and> pmj_UID j \<noteq> pmj_UID job \<and> pmj_TargetPodUID j \<noteq> [] \<and> inFlightJob w key j}"

abbreviation coveredPods :: "world \<Rightarrow> (strmap \<Rightarrow> bool) \<Rightarrow> pod list" where
  "coveredPods w sel \<equiv> filter (\<lambda>p. sel (pod_Labels p)) (cl_pods (w_cache w))"

lemma map_of_rev_key:
  "distinct (map key xs) \<Longrightarrow> x \<in> set xs \<Longrightarrow> map_of (rev (map (\<lambda>x. (key x, x)) xs)) (key x) = Some x"
  by (intro map_of_is_SomeI) (auto simp: rev_map [symmetric] comp_def)

lemma length_filter_drop_one:
  "distinct (map key xs) \<Longrightarrow> length (filter P xs) \<le> Suc (length (filter (\<lambda>x. P x \<and> key x \<noteq> k) xs))"
proof (induction xs)
  case (Cons x xs)
  show ?case
  proof (cases "key x = k")
    case True
    with Cons.prems have "\<forall>y \<in> set xs. key y \<noteq> k" by (auto simp: image_iff)
    then have "filter (\<lambda>x. P x \<and> key x \<noteq> k) xs = filter P xs" by (auto intro: filter_cong)
    with True show ?thesis by simp
  qed (use Cons in auto)
qed simp

lemma length_filter_mono: "(\<And>x. x \<in> set xs \<Longrightarrow> P x \<Longrightarrow> R x) \<Longrightarrow> length (filter P xs) \<le> length (filter R xs)"
  by (induction xs) auto

lemma inFlightOf_mono: "map_of acc u \<noteq> None \<Longrightarrow> map_of (inFlightOf job res pods j acc) u \<noteq> None"
  by (auto simp: inFlightOf_def update_conv' split: option.splits)

lemma inFlight_fold_mono: "map_of acc u \<noteq> None \<Longrightarrow> map_of (fold (inFlightOf job res pods) js acc) u \<noteq> None"
  by (induction js arbitrary: acc) (auto simp: inFlightOf_mono simp del: not_None_eq)

lemma inFlight_listed:
  assumes "j \<in> set js" "pmj_UID j \<noteq> pmj_UID job" "pmj_TargetPodUID j \<noteq> []"
    and "map_of res (pmj_UID j) \<noteq> None \<or> pastBudgetCheck j"
    and "distinct (map pod_UID pods)" "p \<in> set pods" "pod_UID p = pmj_TargetPodUID j" "pod_DeletionTimestamp p = None"
  shows "map_of (inFlightSources job res pods js) (pod_UID p) \<noteq> None"
proof -
  have look: "map_of (rev (map (\<lambda>p. (pod_UID p, p)) pods)) (pmj_TargetPodUID j) = Some p"
    using map_of_rev_key [OF assms(5,6)] assms(7) by simp
  have here: "map_of (inFlightOf job res pods j acc) (pod_UID p) \<noteq> None" for acc
    using assms look by (auto simp: inFlightOf_def update_conv')
  obtain pre post where js: "js = pre @ j # post" using split_list [OF assms(1)] by blast
  show ?thesis
    unfolding inFlightSources_def js using inFlight_fold_mono [OF here] by simp
qed

lemma wp_checkPDBI:
  assumes ref: "\<And>r k (res :: string \<Rightarrow> (string \<times> time) list). fst r \<noteq> reasonBudgetAllowed \<Longrightarrow> Q r (w\<lparr>w_calls := k, w_reserved := res\<rparr>)"
    and always: "\<not> podCountsHealthy source \<Longrightarrow> pdb_UnhealthyPolicy b = Some AlwaysAllow \<Longrightarrow> Q (reasonBudgetAllowed, None) w"
    and ok: "\<And>k res. res = filter (keepReservation (cl_jobs (w_cache w)) (w_now w)) (w_reserved w (pdbKey b)) \<Longrightarrow>
       pdb_DesiredHealthy b \<le> healthyAfter source (inFlightSources job res (coveredPods w sel) (cl_jobs (w_cache w))) (coveredPods w sel) \<Longrightarrow>
       Q (reasonBudgetAllowed, None) (w\<lparr>w_calls := k, w_reserved := (w_reserved w)(pdbKey b :=
            if doReserve then AList.update (pmj_UID job) (w_now w) res else res)\<rparr>)"
  shows "wp (checkPDB job source b sel doReserve) Q w"
proof -
  have ne: "reasonBudgetCheckError \<noteq> reasonBudgetAllowed" "reasonMigrationsInFlight \<noteq> reasonBudgetAllowed"
    by (simp_all add: const_defs)
  have ref': "fst r \<noteq> reasonBudgetAllowed \<Longrightarrow> Q r (w\<lparr>w_calls := k\<rparr>)" for r k
    using ref [where r = r and k = k and res = "w_reserved w"] by simp
  show ?thesis
    unfolding checkPDB_def list_jobs_def list_pods_matching_def pruneReservations_def reserve_def
    using ne always ref ref' ok
    by (auto simp: wp_simps view_def Let_def not_less intro!: wp_read_callI split: if_split)
qed

lemma checkPDB_keeps_budget:
  assumes run: "run_state (checkPDB job source b sel doReserve) w = ((reasonBudgetAllowed, e), w')"
    and src: "podCountsHealthy source"
    and uids: "distinct (map pod_UID (cl_pods (w_cache w)))"
  shows "pdb_DesiredHealthy b \<le> int (healthyWithout (insert (pod_UID source) (sourcesInFlight w (pdbKey b) job)) (coveredPods w sel))"
proof -
  let ?pods = "coveredPods w sel" and ?jobs = "cl_jobs (w_cache w)"
  let ?gone = "insert (pod_UID source) (sourcesInFlight w (pdbKey b) job)"
  have d: "distinct (map pod_UID ?pods)" using uids by (simp add: distinct_map_filter)
  have count: "pdb_DesiredHealthy b \<le> int (healthyWithout ?gone ?pods)"
    if res: "res = filter (keepReservation ?jobs (w_now w)) (w_reserved w (pdbKey b))"
      and le: "pdb_DesiredHealthy b \<le> healthyAfter source (inFlightSources job res ?pods ?jobs) ?pods" for res
  proof -
    let ?fl = "inFlightSources job res ?pods ?jobs"
    let ?P = "\<lambda>p. map_of ?fl (pod_UID p) = None \<and> podCountsHealthy p"
    have out: "pod_UID p \<notin> sourcesInFlight w (pdbKey b) job" if "p \<in> set ?pods" "?P p" for p
    proof
      assume "pod_UID p \<in> sourcesInFlight w (pdbKey b) job"
      then obtain j where j: "j \<in> set ?jobs" "pmj_UID j \<noteq> pmj_UID job" "pmj_TargetPodUID j \<noteq> []"
        "pod_UID p = pmj_TargetPodUID j" and fl: "inFlightJob w (pdbKey b) j"
        by (auto simp: sourcesInFlight_def)
      have "map_of res (pmj_UID j) \<noteq> None \<or> pastBudgetCheck j"
      proof (cases "pastBudgetCheck j")
        case False
        with fl obtain t where "(pmj_UID j, t) \<in> set res" by (auto simp: inFlightJob_def res)
        then have "pmj_UID j \<in> fst ` set res" by force
        then show ?thesis by (simp add: map_of_eq_None_iff)
      qed simp
      moreover have "pod_DeletionTimestamp p = None" using that(2) by (auto simp: podCountsHealthy_def split: if_splits)
      ultimately have "map_of ?fl (pod_UID p) \<noteq> None"
        using inFlight_listed [OF j(1-3) _ d that(1) j(4)] by blast
      with that(2) show False by blast
    qed
    have "length (filter ?P ?pods) \<le> Suc (length (filter (\<lambda>p. ?P p \<and> pod_UID p \<noteq> pod_UID source) ?pods))"
      by (rule length_filter_drop_one [OF d])
    also have "length (filter (\<lambda>p. ?P p \<and> pod_UID p \<noteq> pod_UID source) ?pods) \<le> healthyWithout ?gone ?pods"
      unfolding healthyWithout_def by (rule length_filter_mono) (use out in auto)
    finally show ?thesis using le src by (simp add: healthyAfter_def)
  qed
  have "wp (checkPDB job source b sel doReserve) (\<lambda>r w'. fst r = reasonBudgetAllowed \<longrightarrow> pdb_DesiredHealthy b \<le> int (healthyWithout ?gone ?pods)) w"
    by (rule wp_checkPDBI) (use src count in auto)
  from wp_run [OF this run] show ?thesis by simp
qed

definition keepsBudget :: "pmj \<Rightarrow> pod \<Rightarrow> world \<Rightarrow> pdb \<Rightarrow> (strmap \<Rightarrow> bool) \<Rightarrow> bool" where
  "keepsBudget job source w b sel \<longleftrightarrow>
     pdb_DesiredHealthy b \<le> int (healthyWithout (insert (pod_UID source) (sourcesInFlight w (pdbKey b) job)) (coveredPods w sel))"

text \<open>Checks for one job change nothing that its own later counts read.\<close>

definition sameInFlight :: "pmj \<Rightarrow> world \<Rightarrow> world \<Rightarrow> bool" where
  "sameInFlight job w w' \<longleftrightarrow> budgetFrame w w' \<and> (\<forall>key. sourcesInFlight w' key job = sourcesInFlight w key job)"

lemma budgetFrame_refl [simp]: "budgetFrame w (w\<lparr>w_calls := k\<rparr>)"
  unfolding budgetFrame_def by (rule exI [of _ k], rule exI [of _ "w_reserved w"]) simp

lemma budgetFrame_upd: "budgetFrame w w' \<Longrightarrow> budgetFrame w (w'\<lparr>w_calls := k, w_reserved := res\<rparr>)"
  unfolding budgetFrame_def by (elim exE, rule exI [of _ k], rule exI [of _ res]) simp

lemma budgetFrame_trans: "budgetFrame u v \<Longrightarrow> budgetFrame v w \<Longrightarrow> budgetFrame u w"
  by (auto simp: budgetFrame_def) (metis (mono_tags))

lemma sameInFlight_trans: "sameInFlight job u v \<Longrightarrow> sameInFlight job v w \<Longrightarrow> sameInFlight job u w"
  by (auto simp: sameInFlight_def intro: budgetFrame_trans)

lemma sourcesInFlight_calls [simp]: "sourcesInFlight (w\<lparr>w_calls := k\<rparr>) key job = sourcesInFlight w key job"
  by (simp add: sourcesInFlight_def inFlightJob_def)

lemma sameInFlight_calls [simp]: "sameInFlight job w (w\<lparr>w_calls := k\<rparr>)"
  by (simp add: sameInFlight_def)

lemma keepsBudget_same: "sameInFlight job w w' \<Longrightarrow> keepsBudget job source w' b sel = keepsBudget job source w b sel"
  by (auto simp: keepsBudget_def sameInFlight_def budgetFrame_def)

lemma in_update_other: "k' \<noteq> k \<Longrightarrow> (k', x) \<in> set (AList.update k v al) \<longleftrightarrow> (k', x) \<in> set al"
  by (induction al) auto

lemma sameInFlight_reserved:
  assumes "res = filter (keepReservation (cl_jobs (w_cache w)) (w_now w)) (w_reserved w key)"
  shows "sameInFlight job w (w\<lparr>w_calls := k, w_reserved := (w_reserved w)(key := if rsv then AList.update (pmj_UID job) t res else res)\<rparr>)"
    (is "sameInFlight job w ?w'")
proof -
  have "inFlightJob ?w' key' j = inFlightJob w key' j" if "pmj_UID j \<noteq> pmj_UID job" for key' j
    using that by (auto simp: inFlightJob_def assms in_update_other)
  then have "sourcesInFlight ?w' key' job = sourcesInFlight w key' job" for key'
    unfolding sourcesInFlight_def by (intro Collect_cong) auto
  then show ?thesis by (auto simp: sameInFlight_def budgetFrame_def)
qed

lemma wp_checkPDB_keeps:
  assumes src: "podCountsHealthy source" and uids: "distinct (map pod_UID (cl_pods (w_cache w)))"
  shows "wp (checkPDB job source b sel rsv)
    (\<lambda>r w'. fst r = reasonBudgetAllowed \<longrightarrow> sameInFlight job w w' \<and> keepsBudget job source w b sel) w"
proof (rule wp_runI)
  fix r w' assume run: "run_state (checkPDB job source b sel rsv) w = (r, w')"
  have "wp (checkPDB job source b sel rsv) (\<lambda>r w'. fst r = reasonBudgetAllowed \<longrightarrow> sameInFlight job w w') w"
    by (rule wp_checkPDBI) (use src in simp, use src in simp, intro impI sameInFlight_reserved)
  from wp_run [OF this run] run checkPDB_keeps_budget [OF _ src uids]
  show "fst r = reasonBudgetAllowed \<longrightarrow> sameInFlight job w w' \<and> keepsBudget job source w b sel"
    by (metis keepsBudget_def prod.collapse)
qed

lemma wp_checkPDBs_keeps:
  assumes src: "podCountsHealthy source"
  shows "distinct (map pod_UID (cl_pods (w_cache w))) \<Longrightarrow> wp (checkPDBs job source rsv cov)
    (\<lambda>r w'. fst r = reasonBudgetAllowed \<longrightarrow> sameInFlight job w w' \<and> (\<forall>(b, sel) \<in> set cov. keepsBudget job source w b sel)) w"
proof (induction cov arbitrary: w)
  case Nil
  have "sameInFlight job w w" using sameInFlight_calls [of job w "w_calls w"] by simp
  then show ?case by (simp add: wp_simps)
next
  case (Cons bs cov)
  obtain b sel where bs: "bs = (b, sel)" by (cases bs)
  have step: "wp (checkPDBs job source rsv cov) (\<lambda>r w''. fst r = reasonBudgetAllowed \<longrightarrow> sameInFlight job w w'' \<and>
        keepsBudget job source w b sel \<and> (\<forall>(b, sel) \<in> set cov. keepsBudget job source w b sel)) w'"
    if w': "sameInFlight job w w'" "keepsBudget job source w b sel" for w'
  proof (rule wp_mono [OF Cons.IH])
    show "distinct (map pod_UID (cl_pods (w_cache w')))"
      using Cons.prems w'(1) by (auto simp: sameInFlight_def budgetFrame_def)
  qed (use w' keepsBudget_same [OF w'(1)] sameInFlight_trans [OF w'(1)] in blast)
  show ?case
    unfolding bs checkPDBs.simps wp_bind
    by (rule wp_mono [OF wp_checkPDB_keeps [OF src Cons.prems]]) (use step in \<open>auto simp: wp_simps\<close>)
qed

subsection \<open>Scenes\<close>

definition readyPod :: "string \<Rightarrow> pod" where
  "readyPod n = (podOf n n)\<lparr>pod_Conditions := [\<lparr>c_Type = ''Ready'', c_Status = CondTrue, c_Reason = [], c_Message = [],
     c_ObservedGeneration = 0, c_LastTransitionTime = 0\<rparr>]\<rparr>"

definition scenePDB :: pdb where
  "scenePDB = \<lparr>pdb_Name = ''pdb'', pdb_Namespace = ''ns'', pdb_Generation = 1, pdb_Selector = Some (LabelSelector [] []),
     pdb_UnhealthyPolicy = None, pdb_ObservedGeneration = 1, pdb_DisruptionsAllowed = 2, pdb_DesiredHealthy = 1, pdb_CurrentHealthy = 3\<rparr>"

definition job1 :: pmj where
  "job1 = jobOf ''j1'' ''a'' ''a'' PhasePending"

definition job2 :: pmj where
  "job2 = jobOf ''j2'' ''b'' ''b'' PhasePending"

definition budgetScene :: cluster where
  "budgetScene = (clusterOf [readyPod ''a'', readyPod ''b'', readyPod ''c''] [job1, job2])\<lparr>cl_pdbs := [scenePDB]\<rparr>"

text \<open>
  C8 (safety). When the in-flight checker lets a job through whose source is in the cache and healthy,
  where the cached pods have distinct UIDs and no failed call claims that an object does not exist, every PodDisruptionBudget that covers the source keeps its desired number of healthy pods even
  after the source and the sources of all other migrations in flight under that budget are
  taken away; in flight means past the check, or holding a reservation that is still valid. (An unhealthy
  source can be let through by its policy \<open>AlwaysAllow\<close> without a look at the budget.)
\<close>

theorem budget_check_sound:
  assumes run: "run_state (InFlightBudgetChecker_Check K EvictionBudgetChecker_Check job podName) w = ((reasonBudgetAllowed, e), w')"
    and src: "store_get pod_Name (cl_pods (w_cache w)) podName = Some source" "podCountsHealthy source"
    and uids: "distinct (map pod_UID (cl_pods (w_cache w)))"
    and honest: "honest w"
    and cov: "(b, sel) \<in> set (coveringPDBs K source (cl_pdbs (w_cache w)))"
  shows "keepsBudget job source w b sel"
proof -
  let ?cov = "coveringPDBs K source (cl_pdbs (w_cache w))"
  let ?Q = "\<lambda>r w'. fst r = reasonBudgetAllowed \<longrightarrow> (\<forall>(b, sel) \<in> set ?cov. keepsBudget job source w b sel)"
  have ne: "reasonBudgetCheckError \<noteq> reasonBudgetAllowed" "reasonBudgetExhausted \<noteq> reasonBudgetAllowed"
    by (simp_all add: const_defs)
  have final: "wp (checkPDBs job source True ?cov) ?Q w'" if "sameInFlight job w w'" for w'
  proof (rule wp_mono [OF wp_checkPDBs_keeps [OF src(2)]])
    show "distinct (map pod_UID (cl_pods (w_cache w')))"
      using uids that by (auto simp: sameInFlight_def budgetFrame_def)
  qed (use keepsBudget_same [OF that] in blast)
  have dry: "wp (EvictionBudgetChecker_Check job podName) (\<lambda>d. wp (if fst d \<noteq> reasonBudgetAllowed then State_Monad.return d else checkPDBs job source True ?cov) ?Q) w'"
    if "sameInFlight job w w'" for w'
    unfolding EvictionBudgetChecker_Check_def evict_dry_run_def
    using final sameInFlight_trans [OF that] ne by (auto simp: wp_simps intro!: wp_readI split: sum.splits)
  have pre: "wp (checkPDBs job source False ?cov) (\<lambda>p. wp (if fst p \<noteq> reasonBudgetAllowed then State_Monad.return p
      else EvictionBudgetChecker_Check job podName \<bind>
        (\<lambda>d. if fst d \<noteq> reasonBudgetAllowed then State_Monad.return d else checkPDBs job source True ?cov)) ?Q) (w\<lparr>w_calls := n\<rparr>)" for n
  proof (rule wp_mono [OF wp_checkPDBs_keeps [OF src(2)]])
    show "distinct (map pod_UID (cl_pods (w_cache (w\<lparr>w_calls := n\<rparr>))))" using uids by simp
  qed (use dry sameInFlight_trans [OF sameInFlight_calls] in \<open>auto simp: wp_simps\<close>)
  have "wp (InFlightBudgetChecker_Check K EvictionBudgetChecker_Check job podName) ?Q w"
    unfolding InFlightBudgetChecker_Check_def get_pod_def wp_bind
  proof (rule wp_read_honestI [OF honest], goal_cases)
    case (1 e n)
    then show ?case using ne by (simp add: wp_simps denial_def)
  next
    case (2 n)
    show ?case
      unfolding list_pdbs_def Let_def
      using ne pre src(1) by (auto simp: wp_simps view_def found_def intro!: wp_read_callI split: option.split)
  qed
  from wp_run [OF this run] cov show ?thesis by auto
qed

lemma budget_check_sound_witness:
  "\<exists>e w'. run_state (InFlightBudgetChecker_Check sampleLib EvictionBudgetChecker_Check job1 ''a'') (worldOf budgetScene) = ((reasonBudgetAllowed, e), w') \<and>
     keepsBudget job1 (readyPod ''a'') (worldOf budgetScene) scenePDB (\<lambda>ls. True)"
proof -
  let ?run = "run_state (InFlightBudgetChecker_Check sampleLib EvictionBudgetChecker_Check job1 ''a'') (worldOf budgetScene)"
  have "fst ?run = (reasonBudgetAllowed, None)" by code_simp
  then have run: "?run = ((reasonBudgetAllowed, None), snd ?run)" by (metis prod.collapse)
  have "store_get pod_Name (cl_pods (w_cache (worldOf budgetScene))) ''a'' = Some (readyPod ''a'')"
    by (simp add: budgetScene_def scenario_defs readyPod_def store_get_def)
  moreover have "podCountsHealthy (readyPod ''a'')" by code_simp
  moreover have "distinct (map pod_UID (cl_pods (w_cache (worldOf budgetScene))))" by code_simp
  moreover have "(scenePDB, \<lambda>ls. True) \<in> set (coveringPDBs sampleLib (readyPod ''a'') (cl_pdbs (w_cache (worldOf budgetScene))))"
    by (simp add: coveringPDBs_def budgetScene_def List.map_filter_simps pdbSelector_def scenePDB_def sampleLib_def sampleSelector_def scenario_defs)
  ultimately have "keepsBudget job1 (readyPod ''a'') (worldOf budgetScene) scenePDB (\<lambda>ls. True)"
    by (intro budget_check_sound [OF run _ _ _ worldOf_honest])
  with run show ?thesis by blast
qed

text \<open>
  Two jobs under one budget cannot both be let through on the same disruption: if
  the second job passes the check after the first did, before the cache shows the first job's
  progress and within the lifetime of its reservation, then the budget keeps its desired number
  of healthy pods without both sources.
\<close>

theorem one_budget_two_jobs:
  assumes first: "run_state (checkPDB job1 source1 b sel True) w = ((reasonBudgetAllowed, e1), w1)"
    and second: "run_state (checkPDB job2 source2 b sel True) (w1\<lparr>w_now := t\<rparr>) = ((reasonBudgetAllowed, e2), w2)"
    and time: "time_sub t (w_now w) \<le> inFlightReservationTTL"
    and job1: "job1 \<in> set (cl_jobs (w_cache w))" "st_Phase (pmj_Status job1) = PhasePending" "distinct (map pmj_UID (cl_jobs (w_cache w)))"
    and jobs: "pmj_UID job1 \<noteq> pmj_UID job2" and src1: "pmj_TargetPodUID job1 = pod_UID source1" "pod_UID source1 \<noteq> []"
    and healthy: "podCountsHealthy source1" "podCountsHealthy source2"
    and uids: "distinct (map pod_UID (cl_pods (w_cache w)))"
  shows "pdb_DesiredHealthy b \<le> int (healthyWithout {pod_UID source1, pod_UID source2} (coveredPods w sel))"
proof -
  have "wp (checkPDB job1 source1 b sel True) (\<lambda>r w'. fst r = reasonBudgetAllowed \<longrightarrow>
      w_cache w' = w_cache w \<and> (pmj_UID job1, w_now w) \<in> set (w_reserved w' (pdbKey b))) w"
    by (rule wp_checkPDBI) (use healthy in \<open>auto intro: map_of_SomeD simp: update_conv'\<close>)
  from wp_run [OF this first] have c: "w_cache w1 = w_cache w" and r: "(pmj_UID job1, w_now w) \<in> set (w_reserved w1 (pdbKey b))"
    by auto
  let ?v = "w1\<lparr>w_now := t\<rparr>"
  have "keepReservation (cl_jobs (w_cache w)) t (pmj_UID job1, w_now w)"
    using map_of_rev_key [OF job1(3,1)] job1(2) time by (simp add: keepReservation_def pastBudgetCheck_def)
  with r c have "inFlightJob ?v (pdbKey b) job1" by (auto simp: inFlightJob_def)
  then have "pod_UID source1 \<in> sourcesInFlight ?v (pdbKey b) job2"
    using job1(1) jobs src1 c by (force simp: sourcesInFlight_def)
  then have "{pod_UID source1, pod_UID source2} \<subseteq> insert (pod_UID source2) (sourcesInFlight ?v (pdbKey b) job2)" by auto
  then have "healthyWithout (insert (pod_UID source2) (sourcesInFlight ?v (pdbKey b) job2)) (coveredPods w sel) \<le>
      healthyWithout {pod_UID source1, pod_UID source2} (coveredPods w sel)"
    unfolding healthyWithout_def by (intro length_filter_mono) auto
  moreover have "pdb_DesiredHealthy b \<le> int (healthyWithout (insert (pod_UID source2) (sourcesInFlight ?v (pdbKey b) job2)) (coveredPods ?v sel))"
    by (rule checkPDB_keeps_budget [OF second healthy(2)]) (use uids c in simp)
  ultimately show ?thesis using c by simp
qed

lemma one_budget_two_jobs_witness:
  "(1::int) \<le> int (healthyWithout {''a'', ''b''} (coveredPods (worldOf budgetScene) (\<lambda>_. True)))"
proof -
  let ?r1 = "run_state (checkPDB job1 (readyPod ''a'') scenePDB (\<lambda>_. True) True) (worldOf budgetScene)"
  let ?r2 = "run_state (checkPDB job2 (readyPod ''b'') scenePDB (\<lambda>_. True) True) (snd ?r1\<lparr>w_now := 101 * second\<rparr>)"
  have "fst ?r1 = (reasonBudgetAllowed, None)" by code_simp
  then have r1: "?r1 = ((reasonBudgetAllowed, None), snd ?r1)" by (metis prod.collapse)
  have "fst ?r2 = (reasonBudgetAllowed, None)" by code_simp
  then have r2: "?r2 = ((reasonBudgetAllowed, None), snd ?r2)" by (metis prod.collapse)
  have t: "time_sub (101 * second) (w_now (worldOf budgetScene)) \<le> inFlightReservationTTL" by code_simp
  have h: "podCountsHealthy (readyPod ''a'')" "podCountsHealthy (readyPod ''b'')" by code_simp+
  have d: "distinct (map pmj_UID (cl_jobs (w_cache (worldOf budgetScene))))" "distinct (map pod_UID (cl_pods (w_cache (worldOf budgetScene))))"
    by code_simp+
  have j: "job1 \<in> set (cl_jobs (w_cache (worldOf budgetScene)))" by (simp add: budgetScene_def scenario_defs)
  have "pdb_DesiredHealthy scenePDB \<le> int (healthyWithout {pod_UID (readyPod ''a''), pod_UID (readyPod ''b'')}
      (coveredPods (worldOf budgetScene) (\<lambda>_. True)))"
    by (rule one_budget_two_jobs [OF r1 r2 t j _ d(1) _ _ _ h d(2)]) (simp_all add: job1_def job2_def scenario_defs readyPod_def)
  then show ?thesis by (simp add: scenePDB_def readyPod_def podOf_def)
qed

subsection \<open>The checkers keep the contract\<close>

lemma evictionChecker: "budget_checker EvictionBudgetChecker_Check"
proof
  fix job podName w
  have ne: "reasonBudgetExhausted \<noteq> reasonBudgetAllowed" "reasonBudgetCheckError \<noteq> reasonBudgetAllowed" by (simp_all add: const_defs)
  show "wp (EvictionBudgetChecker_Check job podName) (\<lambda>_. budgetFrame w) w"
    unfolding EvictionBudgetChecker_Check_def evict_dry_run_def by (auto simp: wp_simps intro!: wp_readI)
  show "wp (EvictionBudgetChecker_Check job podName) (\<lambda>r _. fst r = reasonBudgetAllowed \<longrightarrow> snd r = None) w"
    unfolding EvictionBudgetChecker_Check_def evict_dry_run_def using ne
    by (auto simp: wp_simps intro!: wp_readI split: sum.splits)
qed

interpretation dryRun: budget_checker EvictionBudgetChecker_Check
  by (rule evictionChecker)

definition checkerPost :: "world \<Rightarrow> string \<times> api_error option \<Rightarrow> world \<Rightarrow> bool" where
  "checkerPost w r w' \<longleftrightarrow> budgetFrame w w' \<and> (fst r = reasonBudgetAllowed \<longrightarrow> snd r = None)"

lemma wp_checkPDB_post: "wp (checkPDB job source b sel rsv) (checkerPost w) w"
proof (rule wp_checkPDBI)
  show "checkerPost w (reasonBudgetAllowed, None) w"
    using budgetFrame_refl [of w "w_calls w"] by (simp add: checkerPost_def)
qed (auto simp: checkerPost_def budgetFrame_def)

lemma wp_checkPDBs_post: "wp (checkPDBs job source rsv cov) (checkerPost w) w"
proof (induction cov arbitrary: w)
  case Nil
  then show ?case using budgetFrame_refl [of w "w_calls w"] by (simp add: wp_simps checkerPost_def)
next
  case (Cons bs cov)
  obtain b sel where bs: "bs = (b, sel)" by (cases bs)
  have "wp (checkPDBs job source rsv cov) (checkerPost w) w'" if "budgetFrame w w'" for w'
    by (rule wp_mono [OF Cons.IH]) (use that in \<open>auto simp: checkerPost_def intro: budgetFrame_trans\<close>)
  then show ?case
    unfolding bs checkPDBs.simps wp_bind
    by (intro wp_mono [OF wp_checkPDB_post]) (auto simp: wp_simps checkerPost_def)
qed

context budget_checker
begin

text \<open>The in-flight count on top of any checker keeps the contract of that checker.\<close>

lemma inFlight_post: "wp (InFlightBudgetChecker_Check K check job podName) (checkerPost w) w"
proof -
  have ne: "reasonBudgetExhausted \<noteq> reasonBudgetAllowed" "reasonBudgetCheckError \<noteq> reasonBudgetAllowed" by (simp_all add: const_defs)
  have calls: "checkerPost w r (w\<lparr>w_calls := n\<rparr>)" if "fst r \<noteq> reasonBudgetAllowed" for r n
    using that by (simp add: checkerPost_def)
  have dry: "wp (check job podName) (checkerPost w) w'" if "budgetFrame w w'" for w'
    using that by (intro checkI) (auto simp: checkerPost_def intro: budgetFrame_upd)
  have pdbs: "wp (checkPDBs job source rsv cov) (checkerPost w) w'" if "budgetFrame w w'" for w' source rsv cov
    by (rule wp_mono [OF wp_checkPDBs_post]) (use that in \<open>auto simp: checkerPost_def intro: budgetFrame_trans\<close>)
  have rest: "wp (checkPDBs job source False cov) (\<lambda>p. wp (if fst p \<noteq> reasonBudgetAllowed then State_Monad.return p
      else check job podName \<bind>
        (\<lambda>d. if fst d \<noteq> reasonBudgetAllowed then State_Monad.return d else checkPDBs job source True cov)) (checkerPost w)) (w\<lparr>w_calls := n\<rparr>)" for source cov n
    by (rule wp_mono [OF pdbs]) (auto simp: wp_simps checkerPost_def [of w] intro!: wp_mono [OF dry] wp_mono [OF pdbs])
  show ?thesis
    unfolding InFlightBudgetChecker_Check_def get_pod_def list_pdbs_def Let_def
    using ne calls rest dry by (auto simp: wp_simps intro!: wp_readI split: sum.split option.split)
qed

end

interpretation inFlight: budget_checker "InFlightBudgetChecker_Check K EvictionBudgetChecker_Check" for K
proof
  fix job podName w
  note post = dryRun.inFlight_post [of K job podName w]
  show "wp (InFlightBudgetChecker_Check K EvictionBudgetChecker_Check job podName) (\<lambda>_. budgetFrame w) w"
    by (rule wp_mono [OF post]) (simp add: checkerPost_def)
  show "wp (InFlightBudgetChecker_Check K EvictionBudgetChecker_Check job podName) (\<lambda>r _. fst r = reasonBudgetAllowed \<longrightarrow> snd r = None) w"
    by (rule wp_mono [OF post]) (simp add: checkerPost_def)
qed

subsection \<open>How long a waiting job waits\<close>

text \<open>
  A job waiting for its budget checks again after at least one and at most 36
  seconds, and never more than a second past its deadline, so it times out on time.
\<close>

theorem budget_recheck_bounds:
  assumes jit: "lawful_jitter K" and d: "\<bar>deadline - now\<bar> < 2 ^ 62"
  shows "second \<le> budgetRecheckAfter K cond deadline now \<and> budgetRecheckAfter K cond deadline now \<le> 36 * second \<and>
         budgetRecheckAfter K cond deadline now \<le> max (deadline - now + second) second"
proof -
  define i where "i = (case cond of
            None \<Rightarrow> budgetRecheckInterval
          | Some c \<Rightarrow> min (max (quot (time_sub now (c_LastTransitionTime c)) 2) budgetRecheckInterval) budgetRecheckMaxInterval)"
  have i: "5 * second \<le> i" "i \<le> 30 * second"
    by (auto simp: i_def budgetRecheckInterval_def budgetRecheckMaxInterval_def split: option.split)
  have j: "i \<le> Jitter K i" "Jitter K i \<le> 36 * second"
    using jit i by (auto simp: lawful_jitter_def dest!: spec [of _ i])
  have "time_sub deadline now = deadline - now" using d by (intro time_sub_exact) simp
  moreover have "wrap64 (deadline - now + second) = deadline - now + second"
    using d by (intro wrap64_id) simp_all
  ultimately have "budgetRecheckAfter K cond deadline now =
      (if deadline - now + second < Jitter K i then max (deadline - now + second) second else Jitter K i)"
    by (simp add: budgetRecheckAfter_def i_def [symmetric] Let_def)
  with i j show ?thesis by (auto simp: max_def)
qed

lemma budget_recheck_bounds_witness:
  "budgetRecheckAfter sampleLib None (10 * minute) (10 * minute) \<le> second"
proof -
  have "\<bar>10 * minute - 10 * minute :: int\<bar> < 2 ^ 62" by simp
  from budget_recheck_bounds [OF sampleLib_jitter this] show ?thesis by auto
qed

end
