(* ===== verification/Effects.thy ===== *)
theory Effects
  imports Cluster
begin

text \<open>
  Which writes an operation can make, and what they make of a job's status.

  \<open>emits n P S m S' R\<close> is a Hoare triple for the reconcilers. From every world in which the
  status of the stored job \<open>n\<close> (if there is one) satisfies \<open>S\<close>, and under every pattern of
  failed calls, each write of \<open>m\<close> satisfies \<open>P\<close> (of the write and of the state the API
  server is in at that moment), the result of \<open>m\<close> satisfies \<open>R\<close>, and the status of the
  job satisfies \<open>S'\<close> of that result afterwards. There is one rule per program construct and per call, so the
  proof for a handler follows its text, and the writes are the only leaves that need an
  argument.
\<close>

named_theorems emits_rules \<open>rules for the triples of the reconcilers\<close>

section \<open>Definitions\<close>

definition adds :: "(effect \<Rightarrow> cluster \<Rightarrow> cluster \<Rightarrow> bool) \<Rightarrow> world \<Rightarrow> world \<Rightarrow> bool" where
  "adds P w w' \<longleftrightarrow> (\<exists>es. w_log w' = w_log w @ es \<and> chain P (w_live w) es (w_live w'))"

definition jobIs :: "string \<Rightarrow> (pmj_status \<Rightarrow> bool) \<Rightarrow> cluster \<Rightarrow> bool" where
  "jobIs n S c \<longleftrightarrow> (\<forall>l. store_get pmj_Name (cl_jobs c) n = Some l \<longrightarrow> S (pmj_Status l))"

definition emits ::
  "string \<Rightarrow> (effect \<Rightarrow> cluster \<Rightarrow> cluster \<Rightarrow> bool) \<Rightarrow> (pmj_status \<Rightarrow> bool) \<Rightarrow> 'a io \<Rightarrow> ('a \<Rightarrow> pmj_status \<Rightarrow> bool) \<Rightarrow> ('a \<Rightarrow> bool) \<Rightarrow> bool" where
  "emits n P S m S' R \<longleftrightarrow> (\<forall>w. jobIs n S (w_live w) \<longrightarrow> wp m (\<lambda>a w'. jobIs n (S' a) (w_live w') \<and> adds P w w' \<and> R a) w)"

abbreviation anyResult :: "'a \<Rightarrow> bool" where
  "anyResult \<equiv> \<lambda>_. True"

text \<open>A job returned by the API server is the stored one.\<close>

definition storedJob :: "string \<Rightarrow> (pmj_status \<Rightarrow> bool) \<Rightarrow> api_error + pmj \<Rightarrow> bool" where
  "storedJob n S r \<longleftrightarrow> (\<forall>j. r = Inr j \<longrightarrow> pmj_Name j = n \<and> S (pmj_Status j))"

section \<open>Lemmas\<close>

lemma adds_refl: "w_log w' = w_log w \<Longrightarrow> w_live w' = w_live w \<Longrightarrow> adds P w w'"
  by (simp add: adds_def)

lemma adds_snoc: "w_log w' = w_log w @ [(e, w_live w)] \<Longrightarrow> P e (w_live w) (w_live w') \<Longrightarrow> adds P w w'"
  by (simp add: adds_def)

lemma adds_trans: "adds P u v \<Longrightarrow> adds P v w \<Longrightarrow> adds P u w"
  unfolding adds_def using chain_append by fastforce

lemma adds_mono: "adds P w w' \<Longrightarrow> (\<And>e c c'. P e c c' \<Longrightarrow> R e c c') \<Longrightarrow> adds R w w'"
  unfolding adds_def using chain_mono by blast

lemma jobIs_mono: "jobIs n S c \<Longrightarrow> (\<And>s. S s \<Longrightarrow> S' s) \<Longrightarrow> jobIs n S' c"
  by (simp add: jobIs_def)

lemma emitsI: "(\<And>w. jobIs n S (w_live w) \<Longrightarrow> wp m (\<lambda>a w'. jobIs n (S' a) (w_live w') \<and> adds P w w' \<and> R a) w) \<Longrightarrow> emits n P S m S' R"
  by (simp add: emits_def)

lemma emitsD: "emits n P S m S' R \<Longrightarrow> jobIs n S (w_live w) \<Longrightarrow> run_state m w = (a, w') \<Longrightarrow> jobIs n (S' a) (w_live w') \<and> adds P w w' \<and> R a"
  unfolding emits_def using wp_run [of m _ w a w'] by blast

lemma emits_post: "emits n P S m S1 R1 \<Longrightarrow> (\<And>a s. S1 a s \<Longrightarrow> S' a s) \<Longrightarrow> (\<And>a. R1 a \<Longrightarrow> R a) \<Longrightarrow> emits n P S m S' R"
  unfolding emits_def by (blast intro: wp_mono jobIs_mono)

lemma emits_any: "emits n P S m S' R \<Longrightarrow> emits n P S m S' anyResult"
  by (erule emits_post) simp_all

lemma emits_writes: "emits n P S m S' R \<Longrightarrow> (\<And>e c c'. P e c c' \<Longrightarrow> P' e c c') \<Longrightarrow> emits n P' S m S' R"
  unfolding emits_def by (blast intro: wp_mono adds_mono)

subsection \<open>Program constructs\<close>

lemma emits_return: "R a \<Longrightarrow> (\<And>s. S s \<Longrightarrow> S' a s) \<Longrightarrow> emits n P S (State_Monad.return a) S' R"
  by (simp add: emits_def wp_simps adds_refl jobIs_mono)

lemma emits_bind:
  "emits n P S m S1 R1 \<Longrightarrow> (\<And>a. R1 a \<Longrightarrow> emits n P (S1 a) (f a) S' R) \<Longrightarrow> emits n P S (State_Monad.bind m f) S' R"
  unfolding emits_def wp_bind by (blast intro: wp_mono adds_trans)

lemma emits_if: "(b \<Longrightarrow> emits n P S m S' R) \<Longrightarrow> (\<not> b \<Longrightarrow> emits n P S m' S' R) \<Longrightarrow> emits n P S (if b then m else m') S' R"
  by simp

lemma emits_case_option:
  "(x = None \<Longrightarrow> emits n P S m S' R) \<Longrightarrow> (\<And>y. x = Some y \<Longrightarrow> emits n P S (f y) S' R) \<Longrightarrow>
   emits n P S (case x of None \<Rightarrow> m | Some y \<Rightarrow> f y) S' R"
  by (cases x) simp_all

lemma emits_case_sum:
  "(\<And>e. x = Inl e \<Longrightarrow> emits n P S (f e) S' R) \<Longrightarrow> (\<And>y. x = Inr y \<Longrightarrow> emits n P S (g y) S' R) \<Longrightarrow>
   emits n P S (case x of Inl e \<Rightarrow> f e | Inr y \<Rightarrow> g y) S' R"
  by (cases x) simp_all

lemma emits_case_prod:
  "(\<And>a b. x = (a, b) \<Longrightarrow> emits n P S (f a b) S' R) \<Longrightarrow> emits n P S (case x of (a, b) \<Rightarrow> f a b) S' R"
  by (cases x) simp_all

lemma emits_case_bool:
  "(x \<Longrightarrow> emits n P S m S' R) \<Longrightarrow> (\<not> x \<Longrightarrow> emits n P S m' S' R) \<Longrightarrow> emits n P S (case x of True \<Rightarrow> m | False \<Rightarrow> m') S' R"
  by (cases x) simp_all

lemma emits_case_list:
  "(x = [] \<Longrightarrow> emits n P S m S' R) \<Longrightarrow> (\<And>y ys. x = y # ys \<Longrightarrow> emits n P S (f y ys) S' R) \<Longrightarrow>
   emits n P S (case x of [] \<Rightarrow> m | y # ys \<Rightarrow> f y ys) S' R"
  by (cases x) simp_all

lemma emits_let: "emits n P S (f x) S' R \<Longrightarrow> emits n P S (let y = x in f y) S' R"
  by simp

subsection \<open>Calls\<close>

lemma emits_timeNow: "emits n P S timeNow (\<lambda>_. S) anyResult"
  by (simp add: emits_def wp_simps adds_refl)

lemma emits_timeSince: "emits n P S (timeSince t) (\<lambda>_. S) anyResult"
  by (simp add: emits_def wp_simps adds_refl)

lemma emits_gets: "emits n P S (gets f) (\<lambda>_. S) anyResult"
  by (simp add: emits_def wp_simps adds_refl)

lemma emits_probes: "emits n P S (modify (\<lambda>w. w\<lparr>w_probes := f (w_probes w)\<rparr>)) (\<lambda>_. S) anyResult"
  by (simp add: emits_def wp_simps adds_refl)

lemma emits_read: "emits n P S (read_call f) (\<lambda>_. S) anyResult"
  by (intro emitsI wp_readI) (simp add: adds_refl)

lemma emits_reads:
  "emits n P S (get_pod rd a) (\<lambda>_. S) anyResult" "emits n P S (list_pods rd) (\<lambda>_. S) anyResult" "emits n P S (list_pods_assigned rd a) (\<lambda>_. S) anyResult"
  "emits n P S (list_pods_label rd a b) (\<lambda>_. S) anyResult" "emits n P S (list_pods_matching rd sel) (\<lambda>_. S) anyResult"
  "emits n P S (get_job rd a) (\<lambda>_. S) anyResult" "emits n P S (list_jobs rd) (\<lambda>_. S) anyResult" "emits n P S (list_jobs_parent rd a) (\<lambda>_. S) anyResult"
  "emits n P S (get_node rd a) (\<lambda>_. S) anyResult" "emits n P S (get_pvc rd a) (\<lambda>_. S) anyResult" "emits n P S (list_vas rd a) (\<lambda>_. S) anyResult"
  "emits n P S (list_pdbs rd) (\<lambda>_. S) anyResult" "emits n P S (get_replicaset rd a) (\<lambda>_. S) anyResult" "emits n P S (list_replicasets rd a b) (\<lambda>_. S) anyResult"
  "emits n P S (get_deployment rd a) (\<lambda>_. S) anyResult" "emits n P S (get_statefulset rd a) (\<lambda>_. S) anyResult"
  "emits n P S (list_podmigrations rd) (\<lambda>_. S) anyResult" "emits n P S (get_trigger rd a) (\<lambda>_. S) anyResult" "emits n P S (get_snapshot rd a) (\<lambda>_. S) anyResult"
  "emits n P S (list_snapshots rd a b) (\<lambda>_. S) anyResult" "emits n P S (list_policies rd) (\<lambda>_. S) anyResult" "emits n P S (list_events rd a) (\<lambda>_. S) anyResult"
  "emits n P S (list_pods_on_node rd a) (\<lambda>_. S) anyResult" "emits n P S (get_podmigration rd a) (\<lambda>_. S) anyResult" "emits n P S (get_resource rd k) (\<lambda>_. S) anyResult"
  "emits n P S (evict_dry_run a b) (\<lambda>_. S) anyResult"
  by (simp_all add: read_defs emits_read)

lemma emits_write:
  assumes "\<And>w a eff c'. jobIs n S (w_live w) \<Longrightarrow> f w = Inr (a, eff, c') \<Longrightarrow> P eff (w_live w) c' \<and> (\<forall>r. r = Inr a \<or> (\<exists>e. r = Inl e) \<longrightarrow> jobIs n (S' r) c') \<and> R (Inr a)"
    and "\<And>e. R (Inl e)" and "\<And>e s. S s \<Longrightarrow> S' (Inl e) s"
  shows "emits n P S (write_call f :: (api_error + 'a) io) S' R"
proof (intro emitsI wp_write_callI)
  fix w a eff c' k and r :: "api_error + 'a"
  assume j: "jobIs n S (w_live w)" and f: "f (w\<lparr>w_calls := k\<rparr>) = Inr (a, eff, c')" and r: "r = Inr a \<or> (\<exists>e. r = Inl e)"
  have "jobIs n S (w_live (w\<lparr>w_calls := k\<rparr>))" using j by simp
  from assms(1) [OF this f] assms(2) r have "P eff (w_live w) c'" and "R r" and "jobIs n (S' r) c'" by auto
  then show "jobIs n (S' r) (w_live (w\<lparr>w_calls := k, w_live := c', w_log := w_log w @ [(eff, w_live w)]\<rparr>)) \<and>
      adds P w (w\<lparr>w_calls := k, w_live := c', w_log := w_log w @ [(eff, w_live w)]\<rparr>) \<and> R r"
    by (simp add: adds_def)
qed (auto simp: adds_refl assms intro: jobIs_mono)

lemma emits_event: "(\<And>c. P (Event obj typ rsn) c c) \<Longrightarrow> emits n P S (emitEvent obj typ rsn) (\<lambda>_. S) anyResult"
  by (simp add: emits_def wp_simps adds_snoc)

lemma emits_write_pod:
  assumes "\<And>c t p p'. store_get pod_Name (cl_pods c) name = Some p \<Longrightarrow> precond uid rv p \<Longrightarrow>
      p' = (upd t p)\<lparr>pod_ResourceVersion := Suc (pod_ResourceVersion p)\<rparr> \<Longrightarrow> P eff c (c\<lparr>cl_pods := store_put pod_Name p' (cl_pods c)\<rparr>)"
  shows "emits n P S (write_pod name uid rv eff upd) (\<lambda>_. S) anyResult"
  unfolding write_pod_def
  by (rule emits_write) (auto simp: Let_def jobIs_def intro: assms split: option.splits if_splits)

lemma emits_patch_pod_meta:
  "(\<And>c p p'. store_get pod_Name (cl_pods c) name = Some p \<Longrightarrow> precond uid rv p \<Longrightarrow>
      p' = p\<lparr>pod_Labels := merge_map (pod_Labels p) l, pod_Annotations := merge_map (pod_Annotations p) a, pod_ResourceVersion := Suc (pod_ResourceVersion p)\<rparr> \<Longrightarrow>
      P (PatchPodMeta name l a) c (c\<lparr>cl_pods := store_put pod_Name p' (cl_pods c)\<rparr>)) \<Longrightarrow>
   emits n P S (patch_pod_meta name uid rv l a) (\<lambda>_. S) anyResult"
  unfolding patch_pod_meta_def by (rule emits_write_pod) simp

lemma emits_patch_pod_condition:
  "(\<And>c t p p'. store_get pod_Name (cl_pods c) name = Some p \<Longrightarrow> precond uid None p \<Longrightarrow>
      p' = p\<lparr>pod_Conditions := merge_condition cnd (pod_Conditions p), pod_ResourceVersion := Suc (pod_ResourceVersion p)\<rparr> \<Longrightarrow>
      P (PatchPodStatus name cnd) c (c\<lparr>cl_pods := store_put pod_Name p' (cl_pods c)\<rparr>)) \<Longrightarrow>
   emits n P S (patch_pod_condition name uid cnd) (\<lambda>_. S) anyResult"
  unfolding patch_pod_condition_def by (rule emits_write_pod) simp

lemma emits_update_pod:
  "(\<And>c q q'. store_get pod_Name (cl_pods c) (pod_Name p) = Some q \<Longrightarrow> precond (pod_UID p) (Some (pod_ResourceVersion p)) q \<Longrightarrow>
      q' = q\<lparr>pod_Labels := pod_Labels p, pod_Annotations := pod_Annotations p, pod_SchedulingGates := pod_SchedulingGates p,
        pod_ResourceVersion := Suc (pod_ResourceVersion q)\<rparr> \<Longrightarrow>
      P (UpdatePod p) c (c\<lparr>cl_pods := store_put pod_Name q' (cl_pods c)\<rparr>)) \<Longrightarrow>
   emits n P S (update_pod p) (\<lambda>_. S) anyResult"
  unfolding update_pod_def by (rule emits_write_pod) simp

lemma emits_delete_pod:
  "(\<And>c t p p'. store_get pod_Name (cl_pods c) name = Some p \<Longrightarrow> precond uid None p \<Longrightarrow>
      p' = (mark_deleted t None p)\<lparr>pod_ResourceVersion := Suc (pod_ResourceVersion p)\<rparr> \<Longrightarrow> P (DeletePod name) c (c\<lparr>cl_pods := store_put pod_Name p' (cl_pods c)\<rparr>)) \<Longrightarrow>
   emits n P S (delete_pod name uid) (\<lambda>_. S) anyResult"
  unfolding delete_pod_def by (rule emits_write_pod) blast

lemma emits_evict_pod:
  "(\<And>c t p p'. store_get pod_Name (cl_pods c) name = Some p \<Longrightarrow> precond uid None p \<Longrightarrow>
      p' = (mark_deleted t g p)\<lparr>pod_ResourceVersion := Suc (pod_ResourceVersion p)\<rparr> \<Longrightarrow> P (EvictPod name g) c (c\<lparr>cl_pods := store_put pod_Name p' (cl_pods c)\<rparr>)) \<Longrightarrow>
   emits n P S (evict_pod name uid g) (\<lambda>_. S) anyResult"
  unfolding evict_pod_def by (rule emits_write_pod) blast

text \<open>A write to the job itself; its status is whatever the write makes of the stored one.\<close>

lemma emits_write_job:
  assumes name: "pmj_Name job = n"
    and P: "\<And>c l l'. jobIs n S c \<Longrightarrow> store_get pmj_Name (cl_jobs c) n = Some l \<Longrightarrow> (\<And>v. rv = Some v \<Longrightarrow> pmj_ResourceVersion l = v) \<Longrightarrow>
      l' = (upd l)\<lparr>pmj_ResourceVersion := Suc (pmj_ResourceVersion l)\<rparr> \<Longrightarrow> P eff c (c\<lparr>cl_jobs := put_job l' (cl_jobs c)\<rparr>)"
    and upd: "\<And>l. S (pmj_Status l) \<Longrightarrow> pmj_Name l = n \<Longrightarrow> S' (pmj_Status (upd l)) \<and> pmj_Name (upd l) = n"
    and weak: "\<And>s. S s \<Longrightarrow> S' s"
  shows "emits n P S (write_job job rv eff upd) (\<lambda>_. S') (storedJob n S')"
  unfolding write_job_def
proof (rule emits_write)
  fix w a e c'
  let ?get = "store_get pmj_Name (cl_jobs (w_live w)) (pmj_Name job)"
  assume j: "jobIs n S (w_live w)"
    and f: "(case ?get of
        None \<Rightarrow> Inl (err NotFound ''podmigrationjob not found'')
      | Some l \<Rightarrow>
          if (case rv of None \<Rightarrow> False | Some n \<Rightarrow> pmj_ResourceVersion l \<noteq> n) then Inl (err Conflict ''the object has been modified'')
          else let l' = (upd l)\<lparr>pmj_ResourceVersion := Suc (pmj_ResourceVersion l)\<rparr>
               in Inr (l', eff, (w_live w)\<lparr>cl_jobs := put_job l' (cl_jobs (w_live w))\<rparr>)) = Inr (a, e, c')"
  from f obtain l where l: "?get = Some l" by (auto split: option.splits)
  have nl: "pmj_Name l = n" using store_get_key [OF l] name by simp
  have "S (pmj_Status l)" using j l name by (simp add: jobIs_def)
  from upd [OF this nl] have u: "S' (pmj_Status (upd l))" "pmj_Name (upd l) = n" by auto
  from f l have "e = eff" and a: "a = (upd l)\<lparr>pmj_ResourceVersion := Suc (pmj_ResourceVersion l)\<rparr>"
    and c: "c' = (w_live w)\<lparr>cl_jobs := put_job a (cl_jobs (w_live w))\<rparr>"
    and "\<And>v. rv = Some v \<Longrightarrow> pmj_ResourceVersion l = v"
    by (auto simp: Let_def split: if_splits option.splits)
  with u P [OF j] l name show "P e (w_live w) c' \<and> (\<forall>r. r = Inr a \<or> (\<exists>e. r = Inl e) \<longrightarrow> jobIs n S' c') \<and> storedJob n S' (Inr a)"
    by (auto simp: jobIs_def storedJob_def put_job_def store_get_put store_get_del)
qed (auto simp: storedJob_def weak)

lemma emits_patchJobMeta:
  "pmj_Name job = n \<Longrightarrow>
   (\<And>c l l'. jobIs n S c \<Longrightarrow> store_get pmj_Name (cl_jobs c) n = Some l \<Longrightarrow>
      l' = l\<lparr>pmj_Labels := merge_strmap (pmj_Labels prior) (pmj_Labels job) (pmj_Labels l),
             pmj_Annotations := merge_strmap (pmj_Annotations prior) (pmj_Annotations job) (pmj_Annotations l),
             pmj_Finalizers := merge_field (pmj_Finalizers prior) (pmj_Finalizers job) (pmj_Finalizers l),
             pmj_ResourceVersion := Suc (pmj_ResourceVersion l)\<rparr> \<Longrightarrow>
      P (PatchJobMeta prior job) c (c\<lparr>cl_jobs := put_job l' (cl_jobs c)\<rparr>)) \<Longrightarrow>
   emits n P S (patchJobMeta job prior lock) (\<lambda>_. S) (storedJob n S)"
  unfolding patchJobMeta_def by (rule emits_write_job) simp_all

lemma emits_updateJob:
  "pmj_Name job = n \<Longrightarrow>
   (\<And>c l l'. jobIs n S c \<Longrightarrow> store_get pmj_Name (cl_jobs c) n = Some l \<Longrightarrow> pmj_ResourceVersion l = pmj_ResourceVersion job \<Longrightarrow>
      l' = l\<lparr>pmj_Labels := pmj_Labels job, pmj_Annotations := pmj_Annotations job, pmj_Finalizers := pmj_Finalizers job,
             pmj_ResourceVersion := Suc (pmj_ResourceVersion l)\<rparr> \<Longrightarrow>
      P (UpdateJob job) c (c\<lparr>cl_jobs := put_job l' (cl_jobs c)\<rparr>)) \<Longrightarrow>
   emits n P S (updateJob job) (\<lambda>_. S) (storedJob n S)"
  unfolding updateJob_def by (rule emits_write_job) simp_all

lemma emits_patchStatus:
  "pmj_Name job = n \<Longrightarrow>
   (\<And>c l l'. jobIs n S c \<Longrightarrow> store_get pmj_Name (cl_jobs c) n = Some l \<Longrightarrow>
      l' = l\<lparr>pmj_Status := merge_status (pmj_Status orig) (pmj_Status job) (pmj_Status l),
             pmj_ResourceVersion := Suc (pmj_ResourceVersion l)\<rparr> \<Longrightarrow>
      P (PatchJobStatus orig job) c (c\<lparr>cl_jobs := put_job l' (cl_jobs c)\<rparr>)) \<Longrightarrow>
   (\<And>s. S s \<Longrightarrow> S' (merge_status (pmj_Status orig) (pmj_Status job) s)) \<Longrightarrow> (\<And>s. S s \<Longrightarrow> S' s) \<Longrightarrow>
   emits n P S (patchStatus job orig) (\<lambda>_. S') (storedJob n S')"
  unfolding patchStatus_def by (rule emits_write_job) simp_all

lemma emits_deleteJob:
  "(\<And>c l l' t. store_get pmj_Name (cl_jobs c) name = Some l \<Longrightarrow>
      l' = l\<lparr>pmj_DeletionTimestamp := (case pmj_DeletionTimestamp l of None \<Rightarrow> Some t | Some d \<Rightarrow> Some d),
             pmj_ResourceVersion := Suc (pmj_ResourceVersion l)\<rparr> \<Longrightarrow>
      P (DeleteJob name) c (c\<lparr>cl_jobs := put_job l' (cl_jobs c)\<rparr>)) \<Longrightarrow>
   emits n P S (deleteJob name) (\<lambda>_. S) anyResult"
  unfolding deleteJob_def deleteJobUID_def
proof (rule emits_write, goal_cases)
  case (1 w a eff c')
  from 1(3) obtain l where l: "store_get pmj_Name (cl_jobs (w_live w)) name = Some l" by (auto split: option.splits)
  let ?l = "l\<lparr>pmj_DeletionTimestamp := (case pmj_DeletionTimestamp l of None \<Rightarrow> Some (w_now w) | Some d \<Rightarrow> Some d),
             pmj_ResourceVersion := Suc (pmj_ResourceVersion l)\<rparr>"
  from 1(3) l have "eff = DeleteJob name" and c': "c' = (w_live w)\<lparr>cl_jobs := put_job ?l (cl_jobs (w_live w))\<rparr>"
    using store_get_key [OF l] by (auto simp: put_job_def split: option.splits)
  with 1(1) [OF l refl] 1(2) l show ?case
    by (auto simp: jobIs_def put_job_def store_get_put store_get_del dest: store_get_key)
qed simp_all

lemmas [emits_rules] =
  emits_bind emits_if emits_case_option emits_case_sum emits_case_bool emits_case_prod emits_case_list emits_let
  emits_timeNow emits_timeSince emits_gets emits_reads emits_probes emits_return

subsection \<open>Objects that are being deleted\<close>

text \<open>The API server keeps an object that is being deleted only as long as it has finalizers.\<close>

definition tidy :: "cluster \<Rightarrow> bool" where
  "tidy c \<longleftrightarrow> (\<forall>n j. store_get pmj_Name (cl_jobs c) n = Some j \<longrightarrow> pmj_DeletionTimestamp j = None \<or> pmj_Finalizers j \<noteq> [])"

lemma tidy_put_job: "tidy c \<Longrightarrow> tidy (c\<lparr>cl_jobs := put_job j (cl_jobs c)\<rparr>)"
  by (auto simp: tidy_def put_job_def store_get_put store_get_del)

lemma tidy_other [simp]: "tidy (c\<lparr>cl_pods := ps\<rparr>) = tidy c"
  by (simp add: tidy_def)

lemma put_job_status:
  "tidy c \<Longrightarrow> store_get pmj_Name (cl_jobs c) n = Some l \<Longrightarrow>
   put_job (l\<lparr>pmj_Status := s, pmj_ResourceVersion := v\<rparr>) (cl_jobs c) = store_put pmj_Name (l\<lparr>pmj_Status := s, pmj_ResourceVersion := v\<rparr>) (cl_jobs c)"
  unfolding tidy_def put_job_def by fastforce

subsection \<open>Writes against the state they are made in\<close>

text \<open>
  \<open>does P m Q w\<close>: run from \<open>w\<close>, every write of \<open>m\<close> satisfies \<open>P\<close>, and the result and the final
  world satisfy \<open>Q\<close>. Unlike a triple it starts from one world, so that an argument can use
  what the API server holds.
\<close>

definition does :: "(effect \<Rightarrow> cluster \<Rightarrow> cluster \<Rightarrow> bool) \<Rightarrow> 'a io \<Rightarrow> ('a \<Rightarrow> world \<Rightarrow> bool) \<Rightarrow> world \<Rightarrow> bool" where
  "does P m Q w \<longleftrightarrow> wp m (\<lambda>a w'. adds P w w' \<and> Q a w') w"

lemma does_run: "does P m Q w \<Longrightarrow> run_state m w = (a, w') \<Longrightarrow> adds P w w' \<and> Q a w'"
  unfolding does_def by (rule wp_run)

lemma does_mono: "does P m Q w \<Longrightarrow> (\<And>a w'. Q a w' \<Longrightarrow> R a w') \<Longrightarrow> does P m R w"
  unfolding does_def by (erule wp_mono) simp

lemma does_return: "Q a w \<Longrightarrow> does P (State_Monad.return a) Q w"
  by (simp add: does_def wp_simps adds_refl)

lemma does_bind: "does P m (\<lambda>a. does P (f a) Q) w \<Longrightarrow> does P (State_Monad.bind m f) Q w"
  unfolding does_def wp_bind by (blast intro: wp_mono adds_trans)

text \<open>Reads change nothing but the number of calls.\<close>

lemma calls_self [simp, intro]: "\<exists>k. w = w\<lparr>w_calls := k\<rparr>"
  by (rule exI [of _ "w_calls w"]) simp

lemma does_reads: "wp m (\<lambda>a w'. (\<exists>k. w' = w\<lparr>w_calls := k\<rparr>) \<and> Q a w') w \<Longrightarrow> does P m Q w"
  unfolding does_def by (erule wp_mono) (auto intro: adds_refl)

lemma does_onlyReads: "onlyReads m \<Longrightarrow> (\<And>r k. Q r (w\<lparr>w_calls := k\<rparr>)) \<Longrightarrow> does P m Q w"
  by (rule does_reads, erule wp_onlyReads) blast

lemma does_timeNow: "Q (w_now w) w \<Longrightarrow> does P timeNow Q w"
  by (simp add: does_def wp_simps adds_refl)

lemma does_event:
  "(\<And>w'. w' = w\<lparr>w_log := w_log w @ [(Event obj typ rsn, w_live w)]\<rparr> \<Longrightarrow> Q () w') \<Longrightarrow> P (Event obj typ rsn) (w_live w) (w_live w) \<Longrightarrow>
   does P (emitEvent obj typ rsn) Q w"
  by (simp add: does_def wp_simps adds_snoc)

lemma does_read:
  assumes "\<And>e n. Q (Inl e) (w\<lparr>w_calls := n\<rparr>)" and "\<And>n. Q (f (w\<lparr>w_calls := n\<rparr>)) (w\<lparr>w_calls := n\<rparr>)"
  shows "does P (read_call f) Q w"
  using assms by (intro does_reads wp_read_callI) auto

lemma does_read_honest:
  assumes "honest w" "\<And>e n. \<not> denial e \<Longrightarrow> Q (Inl e) (w\<lparr>w_calls := n\<rparr>)" and "\<And>n. Q (f (w\<lparr>w_calls := n\<rparr>)) (w\<lparr>w_calls := n\<rparr>)"
  shows "does P (read_call f) Q w"
  using assms by (intro does_reads wp_read_honestI) auto

text \<open>A write fails with nothing done, or is done and answered or not.\<close>

lemma does_write:
  assumes "\<And>e n. Q (Inl e) (w\<lparr>w_calls := n\<rparr>)"
    and "\<And>a eff c' n r. f (w\<lparr>w_calls := n\<rparr>) = Inr (a, eff, c') \<Longrightarrow>
      P eff (w_live w) c' \<and> (r = Inr a \<or> (\<exists>e. r = Inl e) \<longrightarrow> Q r (w\<lparr>w_calls := n, w_live := c', w_log := w_log w @ [(eff, w_live w)]\<rparr>))"
  shows "does P (write_call f) Q w"
  unfolding does_def by (rule wp_write_callI) (use assms in \<open>auto simp: adds_refl adds_snoc\<close>)

lemma does_write_pod:
  assumes "\<And>e n. Q (Inl e) (w\<lparr>w_calls := n\<rparr>)"
    and "\<And>p p' n r. store_get pod_Name (cl_pods (w_live w)) name = Some p \<Longrightarrow> precond uid rv p \<Longrightarrow>
       p' = (upd (w_now w) p)\<lparr>pod_ResourceVersion := Suc (pod_ResourceVersion p)\<rparr> \<Longrightarrow>
       P eff (w_live w) ((w_live w)\<lparr>cl_pods := store_put pod_Name p' (cl_pods (w_live w))\<rparr>) \<and>
       (r = Inr p' \<or> (\<exists>e. r = Inl e) \<longrightarrow> Q r (w\<lparr>w_calls := n, w_live := (w_live w)\<lparr>cl_pods := store_put pod_Name p' (cl_pods (w_live w))\<rparr>,
          w_log := w_log w @ [(eff, w_live w)]\<rparr>))"
  shows "does P (write_pod name uid rv eff upd) Q w"
  unfolding write_pod_def
  by (rule does_write) (use assms in \<open>auto simp: Let_def split: option.splits if_splits\<close>)

lemma does_write_job:
  assumes "\<And>e n. Q (Inl e) (w\<lparr>w_calls := n\<rparr>)"
    and "\<And>l l' n r. store_get pmj_Name (cl_jobs (w_live w)) (pmj_Name job) = Some l \<Longrightarrow> (\<And>v. rv = Some v \<Longrightarrow> pmj_ResourceVersion l = v) \<Longrightarrow>
       l' = (upd l)\<lparr>pmj_ResourceVersion := Suc (pmj_ResourceVersion l)\<rparr> \<Longrightarrow>
       P eff (w_live w) ((w_live w)\<lparr>cl_jobs := put_job l' (cl_jobs (w_live w))\<rparr>) \<and>
       (r = Inr l' \<or> (\<exists>e. r = Inl e) \<longrightarrow> Q r (w\<lparr>w_calls := n, w_live := (w_live w)\<lparr>cl_jobs := put_job l' (cl_jobs (w_live w))\<rparr>,
          w_log := w_log w @ [(eff, w_live w)]\<rparr>))"
  shows "does P (write_job job rv eff upd) Q w"
  unfolding write_job_def
  by (rule does_write) (use assms in \<open>auto simp: Let_def split: option.splits if_splits\<close>)

text \<open>A status write that is answered has stored what it returns.\<close>

lemma does_status_write:
  assumes "tidy (w_live w)" "\<And>e w'. Q (Inl e) w'"
    and "\<And>l l' w'. store_get pmj_Name (cl_jobs (w_live w)) (pmj_Name job) = Some l \<Longrightarrow> (\<And>v. rv = Some v \<Longrightarrow> pmj_ResourceVersion l = v) \<Longrightarrow>
       l' = l\<lparr>pmj_Status := f (pmj_Status l), pmj_ResourceVersion := Suc (pmj_ResourceVersion l)\<rparr> \<Longrightarrow>
       w_live w' = (w_live w)\<lparr>cl_jobs := put_job l' (cl_jobs (w_live w))\<rparr> \<Longrightarrow> tidy (w_live w') \<Longrightarrow>
       store_get pmj_Name (cl_jobs (w_live w')) (pmj_Name job) = Some l' \<Longrightarrow>
       P eff (w_live w) (w_live w') \<and> Q (Inr l') w'"
  shows "does P (write_job job rv eff (\<lambda>l. l\<lparr>pmj_Status := f (pmj_Status l)\<rparr>)) Q w"
proof (rule does_write_job)
  fix l l' n and r :: "api_error + pmj"
  assume l: "store_get pmj_Name (cl_jobs (w_live w)) (pmj_Name job) = Some l" and rv: "\<And>v. rv = Some v \<Longrightarrow> pmj_ResourceVersion l = v"
    and l': "l' = (l\<lparr>pmj_Status := f (pmj_Status l)\<rparr>)\<lparr>pmj_ResourceVersion := Suc (pmj_ResourceVersion l)\<rparr>"
  let ?w = "w\<lparr>w_calls := n, w_live := (w_live w)\<lparr>cl_jobs := put_job l' (cl_jobs (w_live w))\<rparr>, w_log := w_log w @ [(eff, w_live w)]\<rparr>"
  have "store_get pmj_Name (cl_jobs (w_live ?w)) (pmj_Name job) = Some l'"
    using put_job_status [OF assms(1) l] store_get_key [OF l] l' by (simp add: store_get_put)
  with assms(3) [OF l rv, of l' ?w] l' tidy_put_job [OF assms(1)] assms(2)
  show "P eff (w_live w) ((w_live w)\<lparr>cl_jobs := put_job l' (cl_jobs (w_live w))\<rparr>) \<and> (r = Inr l' \<or> (\<exists>e. r = Inl e) \<longrightarrow> Q r ?w)"
    by auto
qed (rule assms)

lemma does_updateJobStatus:
  assumes "tidy (w_live w)" "\<And>e w'. Q (Inl e) w'"
    and "\<And>l l' w'. store_get pmj_Name (cl_jobs (w_live w)) (pmj_Name job) = Some l \<Longrightarrow> pmj_ResourceVersion l = pmj_ResourceVersion job \<Longrightarrow>
       l' = l\<lparr>pmj_Status := pmj_Status job, pmj_ResourceVersion := Suc (pmj_ResourceVersion l)\<rparr> \<Longrightarrow>
       w_live w' = (w_live w)\<lparr>cl_jobs := put_job l' (cl_jobs (w_live w))\<rparr> \<Longrightarrow> tidy (w_live w') \<Longrightarrow>
       store_get pmj_Name (cl_jobs (w_live w')) (pmj_Name job) = Some l' \<Longrightarrow>
       P (UpdateJobStatus job) (w_live w) (w_live w') \<and> Q (Inr l') w'"
  shows "does P (updateJobStatus job) Q w"
  unfolding updateJobStatus_def by (rule does_status_write) (use assms in auto)

lemma does_patchStatus:
  assumes "tidy (w_live w)" "\<And>e w'. Q (Inl e) w'"
    and "\<And>l l' w'. store_get pmj_Name (cl_jobs (w_live w)) (pmj_Name job) = Some l \<Longrightarrow>
       l' = l\<lparr>pmj_Status := merge_status (pmj_Status orig) (pmj_Status job) (pmj_Status l), pmj_ResourceVersion := Suc (pmj_ResourceVersion l)\<rparr> \<Longrightarrow>
       w_live w' = (w_live w)\<lparr>cl_jobs := put_job l' (cl_jobs (w_live w))\<rparr> \<Longrightarrow> tidy (w_live w') \<Longrightarrow>
       store_get pmj_Name (cl_jobs (w_live w')) (pmj_Name job) = Some l' \<Longrightarrow>
       P (PatchJobStatus orig job) (w_live w) (w_live w') \<and> Q (Inr l') w'"
  shows "does P (patchStatus job orig) Q w"
  unfolding patchStatus_def by (rule does_status_write) (use assms in auto)

end
