(* ===== verification/Reconciler.thy ===== *)
theory Reconciler
  imports Engine Budget Effects
begin

text \<open>
  The job reconciler's configuration and the helpers its phases share
  (\<open>controller/podmigrationjob_controller.go\<close>, \<open>controller/budget_check.go\<close>).

  \<^item> \<open>reconciler\<close> is \<open>PodMigrationJobReconciler\<close>. An optional field of the struct is an
    option; the clients are the readers \<open>Cached\<close> (\<open>r.Client\<close>) and \<open>Live\<close>
    (\<open>r.APIReader\<close>).
  \<^item> A Go function that mutates \<open>job\<close> through its pointer returns the new job; a status patch
    that succeeds makes it the server's copy.
  \<^item> Metrics and log lines have no counterpart.
\<close>

section \<open>Definitions\<close>

record reconciler =
  rc_lib :: kubelib
  rc_APIReader :: bool
  rc_Recorder :: bool
  rc_SnapshotProvider :: "provider option"
  rc_RestoreEngines :: "restoreEngine list option"
  rc_Engines :: "registry option"
  rc_BudgetChecker :: "budgetChecker option"
  rc_DefaultMigrationTimeout :: duration
  rc_FencePreCheckpointCap :: duration
  rc_FenceLateStopWatch :: duration
  rc_FenceDeleteUnwedgeTimeout :: duration
  rc_RestoreStabilizationWindow :: duration

subsection \<open>Names\<close>

definition ConditionRestoreCrashed :: string where
  [const_defs]: "ConditionRestoreCrashed = ''RestoreCrashed''"
definition ReasonRestoreCrashFallback :: string where
  [const_defs]: "ReasonRestoreCrashFallback = ''RestoreCrashFallback''"
definition ConditionUnrecognizedRestoreCrash :: string where
  [const_defs]: "ConditionUnrecognizedRestoreCrash = ''UnrecognizedRestoreCrash''"
definition ReasonUnrecognizedRestoreCrash :: string where
  [const_defs]: "ReasonUnrecognizedRestoreCrash = ''UnrecognizedRestoreCrash''"
definition ReasonEngineNotRegistered :: string where
  [const_defs]: "ReasonEngineNotRegistered = ''EngineNotRegistered''"
definition ConditionBlockedByPDB :: string where
  [const_defs]: "ConditionBlockedByPDB = ''BlockedByPDB''"
definition ConditionEvictionMisconfigured :: string where
  [const_defs]: "ConditionEvictionMisconfigured = ''EvictionMisconfigured''"
definition EventTypeWarning :: string where
  [const_defs]: "EventTypeWarning = ''Warning''"
definition EventTypeNormal :: string where
  [const_defs]: "EventTypeNormal = ''Normal''"

definition fallbackEventCheckInterval :: duration where
  "fallbackEventCheckInterval = 30 * second"

definition postCheckpointEvictionGracePeriodSeconds :: int where
  "postCheckpointEvictionGracePeriodSeconds = 1"

subsection \<open>Status updates\<close>

definition setStatus :: "(pmj_status \<Rightarrow> pmj_status) \<Rightarrow> pmj \<Rightarrow> pmj" where
  "setStatus f job = job\<lparr>pmj_Status := f (pmj_Status job)\<rparr>"

text \<open>\<open>meta.SetStatusCondition(&job.Status.Conditions, ...)\<close> with the job's generation.\<close>

definition setCond :: "kubelib \<Rightarrow> time \<Rightarrow> string \<Rightarrow> cond_status \<Rightarrow> string \<Rightarrow> string \<Rightarrow> pmj \<Rightarrow> pmj" where
  "setCond K now typ status reason message job =
     setStatus (\<lambda>s. s\<lparr>st_Conditions := fst (SetStatusCondition K now (st_Conditions s)
       \<lparr>c_Type = typ, c_Status = status, c_Reason = reason, c_Message = message,
        c_ObservedGeneration = pmj_Generation job, c_LastTransitionTime = zero_time\<rparr>)\<rparr>) job"

text \<open>Whether that call would report a change.\<close>

definition setCondChanges :: "kubelib \<Rightarrow> time \<Rightarrow> string \<Rightarrow> cond_status \<Rightarrow> string \<Rightarrow> string \<Rightarrow> pmj \<Rightarrow> bool" where
  "setCondChanges K now typ status reason message job =
     snd (SetStatusCondition K now (st_Conditions (pmj_Status job))
       \<lparr>c_Type = typ, c_Status = status, c_Reason = reason, c_Message = message,
        c_ObservedGeneration = pmj_Generation job, c_LastTransitionTime = zero_time\<rparr>)"

text \<open>\<open>job.Status.Phase = ...; now := metav1.Now(); job.Status.CompletionTime = &now\<close>\<close>

definition concluded :: "phase \<Rightarrow> time \<Rightarrow> pmj \<Rightarrow> pmj" where
  "concluded ph now job = setStatus (\<lambda>s. s\<lparr>st_Phase := ph, st_CompletionTime := Some now\<rparr>) job"

definition handleStatusError :: "api_error \<Rightarrow> api_error + result" where
  "handleStatusError e = (if isConflict e then Inr requeue_now else Inl e)"

subsection \<open>Engines and readers\<close>

definition liveReader :: "reconciler \<Rightarrow> reader" where
  "liveReader r = (if rc_APIReader r then Live else Cached)"

definition jobEngine :: "reconciler \<Rightarrow> pmj \<Rightarrow> engine" where
  "jobEngine r job =
     (case rc_Engines r of
        None \<Rightarrow> gkeEngine (rc_lib r) (liveReader r)
      | Some reg \<Rightarrow> (case ForJob reg job of Inr e \<Rightarrow> e | Inl _ \<Rightarrow> gkeEngine (rc_lib r) (liveReader r)))"

definition restoreEngines :: "reconciler \<Rightarrow> pmj \<Rightarrow> restoreEngine list" where
  "restoreEngines r job = (case rc_RestoreEngines r of Some es \<Rightarrow> es | None \<Rightarrow> eng_RestoreFailures (jobEngine r job))"

definition getSnapshotProvider :: "reconciler \<Rightarrow> pmj \<Rightarrow> provider" where
  "getSnapshotProvider r job = (case rc_SnapshotProvider r of Some p \<Rightarrow> p | None \<Rightarrow> eng_Snapshots (jobEngine r job))"

subsection \<open>Events\<close>

definition eventf :: "reconciler \<Rightarrow> string \<Rightarrow> string \<Rightarrow> string \<Rightarrow> unit io" where
  "eventf r obj typ reason = (if \<not> rc_Recorder r then State_Monad.return () else emitEvent obj typ reason)"

text \<open>
  The event's subject is the source pod as read, or a stand-in with the same name when the
  read fails.
\<close>

definition recordPodEvent :: "reconciler \<Rightarrow> pmj \<Rightarrow> string \<Rightarrow> string \<Rightarrow> unit io" where
  "recordPodEvent r job typ reason =
     (if \<not> rc_Recorder r then State_Monad.return ()
      else if pmj_PodRefName job = [] then State_Monad.return ()
      else do {
        g \<leftarrow> get_pod Cached (pmj_PodRefName job);
        emitEvent (case g of Inr p \<Rightarrow> pod_Name p | Inl _ \<Rightarrow> pmj_PodRefName job) typ reason
      })"

text \<open>
  The controller's way to fail a job: phase, completion time and \<open>Ready=False\<close> with a reason,
  then one status patch, then a Warning event on the source.
\<close>

definition failedJob :: "reconciler \<Rightarrow> time \<Rightarrow> string \<Rightarrow> string \<Rightarrow> pmj \<Rightarrow> pmj" where
  "failedJob r now reason message job = setCond (rc_lib r) now ConditionReady CondFalse reason message (concluded PhaseFailed now job)"

definition persistFailure :: "reconciler \<Rightarrow> pmj \<Rightarrow> pmj \<Rightarrow> result \<Rightarrow> (api_error + result) io" where
  "persistFailure r job origJob res = do {
     p \<leftarrow> patchStatus job origJob;
     (case p of
        Inl e \<Rightarrow> State_Monad.return (handleStatusError e)
      | Inr job \<Rightarrow> do {
          recordPodEvent r job EventTypeWarning ''MigrationFailed'';
          State_Monad.return (Inr res)
        })
   }"

definition failJob :: "reconciler \<Rightarrow> pmj \<Rightarrow> pmj \<Rightarrow> string \<Rightarrow> string \<Rightarrow> (api_error + result) io" where
  "failJob r job origJob reason message = do {
     now \<leftarrow> timeNow;
     persistFailure r (failedJob r now reason message job) origJob no_requeue
   }"

definition failEngineNotRegistered :: "reconciler \<Rightarrow> pmj \<Rightarrow> pmj \<Rightarrow> (api_error + result) io" where
  "failEngineNotRegistered r job origJob =
     failJob r job origJob ReasonEngineNotRegistered
       (''Snapshot engine '' @ quoted (trimSpace (mget (pmj_Annotations job) AnnotationEngine)) @
        '' is not registered in this controller (registered: '' @
        joinWith '','' (case rc_Engines r of None \<Rightarrow> [] | Some reg \<Rightarrow> reg_names reg) @ ''); failing the migration'')"

subsection \<open>Deadlines\<close>

definition getMigrationTimeout :: "reconciler \<Rightarrow> pmj \<Rightarrow> duration" where
  "getMigrationTimeout r job =
     (let base = (if rc_DefaultMigrationTimeout r \<le> 0 then DefaultMigrationTimeout else rc_DefaultMigrationTimeout r)
      in CalculateMigrationTimeout (rc_lib r) (mget (pmj_Annotations job) AnnotationMigrationTimeout) 0 base)"

definition migrationDeadlineAnchor :: "pmj \<Rightarrow> time" where
  "migrationDeadlineAnchor job =
     (case st_SnapshottingStartTime (pmj_Status job) of
        Some t \<Rightarrow> if t \<noteq> zero_time then t else pmj_CreationTimestamp job
      | None \<Rightarrow> pmj_CreationTimestamp job)"

definition isSnapshotProgressing :: "reconciler \<Rightarrow> pmj \<Rightarrow> duration \<Rightarrow> bool io" where
  "isSnapshotProgressing r job timeout =
     (if st_Phase (pmj_Status job) \<noteq> PhaseSnapshotting \<or> st_SnapshotRef (pmj_Status job) = [] then State_Monad.return False
      else do {
        d \<leftarrow> timeSince (migrationDeadlineAnchor job);
        if d > MaxMigrationTimeout then State_Monad.return False
        else do {
          s \<leftarrow> CheckStatus (getSnapshotProvider r job) job (pmj_PodRefName job);
          (case s of
             Inl _ \<Rightarrow> State_Monad.return False
           | Inr st \<Rightarrow>
               if sst_Phase st = SnapReady then State_Monad.return True
               else if sst_Phase st = SnapFailed \<or> sst_Phase st = SnapRefused then State_Monad.return False
               else do {
                 idle \<leftarrow> timeSince (sst_LastProgressTime st);
                 State_Monad.return (sst_LastProgressTime st \<noteq> zero_time \<and> idle < timeout)
               })
        }
      })"

definition parseEvictingSince :: "kubelib \<Rightarrow> string \<Rightarrow> time option" where
  "parseEvictingSince K s = (case ParseRFC3339Nano K s of Some t \<Rightarrow> Some t | None \<Rightarrow> ParseRFC3339 K s)"

definition isEvictionWithinBudget :: "reconciler \<Rightarrow> pmj \<Rightarrow> bool io" where
  "isEvictionWithinBudget r job =
     (if st_Phase (pmj_Status job) \<noteq> PhaseEvicting then State_Monad.return False
      else do {
        d \<leftarrow> timeSince (migrationDeadlineAnchor job);
        if d > MaxMigrationTimeout then State_Monad.return False
        else (case st_EvictingStartTime (pmj_Status job) of
          Some t \<Rightarrow> do {
            e \<leftarrow> timeSince t;
            State_Monad.return (e < getMigrationTimeout r job)
          }
        | None \<Rightarrow>
            (let s = mget (pmj_Annotations job) AnnotationEvictingSince in
             if s = [] then State_Monad.return False
             else (case parseEvictingSince (rc_lib r) s of
               None \<Rightarrow> State_Monad.return False
             | Some t \<Rightarrow> do {
                 e \<leftarrow> timeSince t;
                 State_Monad.return (e < getMigrationTimeout r job)
               })))
      })"

definition isOriginPodTerminatedDueToNodeShutdown :: "pod option \<Rightarrow> bool io" where
  "isOriginPodTerminatedDueToNodeShutdown pod =
     (case pod of
        None \<Rightarrow> State_Monad.return False
      | Some p \<Rightarrow>
          if IsPodTerminatedDueToNodeShutdown p then State_Monad.return True
          else if (pod_Phase p = PodFailed \<or> pod_Phase p = PodSucceeded) \<and> pod_NodeName p \<noteq> [] then do {
            g \<leftarrow> get_node Cached (pod_NodeName p);
            State_Monad.return (case g of Inr n \<Rightarrow> IsNodeShuttingDown n | Inl e \<Rightarrow> isNotFound e)
          }
          else State_Monad.return False)"

subsection \<open>The disruption-budget check of a pending job (budget_check.go)\<close>

definition failSourceGone :: "reconciler \<Rightarrow> pmj \<Rightarrow> pmj \<Rightarrow> api_error option io" where
  "failSourceGone r job origJob = do {
     now \<leftarrow> timeNow;
     p \<leftarrow> patchStatus (failedJob r now ''PodNotFound'' ''Origin pod no longer exists in Pending state'' job) origJob;
     (case p of
        Inl e \<Rightarrow> State_Monad.return (Some e)
      | Inr job \<Rightarrow> do {
          recordPodEvent r job EventTypeWarning ''MigrationFailed'';
          State_Monad.return None
        })
   }"

definition errText :: "api_error option \<Rightarrow> string" where
  "errText e = (case e of None \<Rightarrow> ''<nil>'' | Some e \<Rightarrow> ae_text e)"

definition budgetMessage :: "string \<Rightarrow> api_error option \<Rightarrow> string" where
  "budgetMessage reason checkErr =
     (if reason = reasonBudgetCheckError then
        ''The dry-run eviction of the source failed, so nothing is checkpointed yet: '' @ errText checkErr
      else if reason = reasonMigrationsInFlight then
        ''Other migrations under the PodDisruptionBudget are in flight, so nothing is checkpointed yet: '' @ errText checkErr
      else ''A dry-run eviction of the source was refused, so nothing is checkpointed yet: '' @
        (case Option.bind checkErr ae_cause of Some cause \<Rightarrow> cause | None \<Rightarrow> errText checkErr))"

definition checkDisruptionBudget ::
  "reconciler \<Rightarrow> budgetChecker \<Rightarrow> pmj \<Rightarrow> pmj \<Rightarrow> string \<Rightarrow> (api_error + (pmj \<times> result \<times> bool)) io" where
  "checkDisruptionBudget r Check job origJob podName = do {
     (verdict, checkErr) \<leftarrow> Check job podName;
     now \<leftarrow> timeNow;
     if verdict = reasonBudgetAllowed then
       State_Monad.return (Inr (setCond (rc_lib r) now ConditionDisruptionBudgetChecked CondTrue reasonBudgetAllowed
         ''A dry-run eviction of the source was allowed'' job, no_requeue, True))
     else do {
       let reason = (if verdict = reasonBudgetExhausted \<or> verdict = reasonMigrationsInFlight then verdict else reasonBudgetCheckError);
       if reason = reasonBudgetCheckError \<and> (case checkErr of None \<Rightarrow> False | Some e \<Rightarrow> isNotFound e) then do {
         e \<leftarrow> failSourceGone r job origJob;
         State_Monad.return (case e of Some e \<Rightarrow> Inl e | None \<Rightarrow> Inr (job, no_requeue, False))
       }
       else do {
         let prev = FindStatusCondition (st_Conditions (pmj_Status job)) ConditionDisruptionBudgetChecked;
         let firstBlock = (case prev of None \<Rightarrow> True | Some c \<Rightarrow> c_Reason c \<noteq> reasonBudgetExhausted \<and> c_Reason c \<noteq> reasonMigrationsInFlight);
         let job = setCond (rc_lib r) now ConditionDisruptionBudgetChecked
                     (if reason = reasonBudgetCheckError then CondUnknown else CondFalse) reason (budgetMessage reason checkErr) job;
         p \<leftarrow> (if pmj_Status job \<noteq> pmj_Status origJob then patchStatus job origJob else State_Monad.return (Inr job));
         (case p of
            Inl e \<Rightarrow> State_Monad.return (Inl e)
          | Inr job \<Rightarrow> do {
              (if firstBlock \<and> (reason = reasonBudgetExhausted \<or> reason = reasonMigrationsInFlight)
               then recordPodEvent r job EventTypeNormal ''MigrationDeferredByPDB''
               else State_Monad.return ());
              State_Monad.return (Inr (job, requeue_after (budgetRecheckAfter (rc_lib r)
                (FindStatusCondition (st_Conditions (pmj_Status job)) ConditionDisruptionBudgetChecked)
                (migrationDeadlineAnchor job + getMigrationTimeout r job) now), False))
            })
       }
     }
   }"

subsection \<open>The restore-crash fallback\<close>

definition jobKey :: "pmj \<Rightarrow> string" where
  "jobKey job = pmj_Namespace job @ ''/'' @ pmj_Name job"

definition shouldProbeFallbackEvents :: "string \<Rightarrow> bool io" where
  "shouldProbeFallbackEvents key = do {
     now \<leftarrow> timeNow;
     last \<leftarrow> gets (\<lambda>w. w_probes w key);
     if (case last of None \<Rightarrow> False | Some t \<Rightarrow> time_sub now t < fallbackEventCheckInterval) then State_Monad.return False
     else do {
       modify (\<lambda>w. w\<lparr>w_probes := (w_probes w)(key \<mapsto> now)\<rparr>);
       State_Monad.return True
     }
   }"

definition forgetProbe :: "string \<Rightarrow> unit io" where
  "forgetProbe key = modify (\<lambda>w. w\<lparr>w_probes := (w_probes w)(key := None)\<rparr>)"

definition deleteCrashed :: "pmj \<Rightarrow> pod \<Rightarrow> api_error option io" where
  "deleteCrashed job pod =
     (if st_RestoredPodUID (pmj_Status job) \<noteq> [] \<and> pod_UID pod \<noteq> st_RestoredPodUID (pmj_Status job) then State_Monad.return None
      else if pod_DeletionTimestamp pod \<noteq> None then State_Monad.return None
      else do {
        d \<leftarrow> delete_pod (pod_Name pod) (pod_UID pod);
        State_Monad.return (case d of
          Inr _ \<Rightarrow> None
        | Inl e \<Rightarrow> if isNotFound e \<or> isConflict e then None
                  else Some (wrapErr (''failed to delete crashed replacement pod '' @ pod_Name pod) e))
      })"

definition ensureCrashedReplacementPodDeleted :: "reconciler \<Rightarrow> pmj \<Rightarrow> pod option \<Rightarrow> api_error option io" where
  "ensureCrashedReplacementPodDeleted r job prefetched =
     (if st_RestoredPodName (pmj_Status job) = [] then State_Monad.return None
      else (case prefetched of
        Some pod \<Rightarrow> deleteCrashed job pod
      | None \<Rightarrow> do {
          g \<leftarrow> get_pod (liveReader r) (st_RestoredPodName (pmj_Status job));
          (case g of
             Inr pod \<Rightarrow> deleteCrashed job pod
           | Inl e \<Rightarrow> State_Monad.return (if isNotFound e then None
               else Some (wrapErr (''failed to get crashed replacement pod '' @ st_RestoredPodName (pmj_Status job)) e)))
        }))"

definition classifyRecordedPodLive :: "reconciler \<Rightarrow> pmj \<Rightarrow> (api_error + (pod option \<times> failure)) io" where
  "classifyRecordedPodLive r job =
     (if st_RestoredPodName (pmj_Status job) = [] then State_Monad.return (Inr (None, noFailure))
      else do {
        g \<leftarrow> get_pod (liveReader r) (st_RestoredPodName (pmj_Status job));
        State_Monad.return (case g of
          Inl e \<Rightarrow> if isNotFound e then Inr (None, noFailure)
                  else Inl (wrapErr (''failed to live-read replacement pod '' @ st_RestoredPodName (pmj_Status job)) e)
        | Inr pod \<Rightarrow>
            if st_RestoredPodUID (pmj_Status job) \<noteq> [] \<and> pod_UID pod \<noteq> st_RestoredPodUID (pmj_Status job) then Inr (None, noFailure)
            else Inr (Some pod, Classify pod (restoreEngines r job)))
      })"

definition clearUnrecognizedRestoreCrash :: "reconciler \<Rightarrow> time \<Rightarrow> pmj \<Rightarrow> pmj \<times> bool" where
  "clearUnrecognizedRestoreCrash r now job =
     (if \<not> IsStatusConditionTrue (st_Conditions (pmj_Status job)) ConditionUnrecognizedRestoreCrash then (job, False)
      else let message = ''The unrecognised container start failure did not persist; the migration reached a conclusion'' in
        (setCond (rc_lib r) now ConditionUnrecognizedRestoreCrash CondFalse ''RestoreCrashResolved'' message job,
         setCondChanges (rc_lib r) now ConditionUnrecognizedRestoreCrash CondFalse ''RestoreCrashResolved'' message job))"

definition crashMessage :: "pod \<Rightarrow> failure \<Rightarrow> string" where
  "crashMessage pod verdict = ''Replacement pod '' @ pod_Name pod @ '' failed to restore from snapshot (engine '' @ quoted (f_Engine verdict) @
     '', container '' @ quoted (f_Container verdict) @ '', signature '' @ quoted (f_Signature verdict) @ ''): '' @ f_Message verdict"

definition concludeRestoreCrash :: "reconciler \<Rightarrow> pmj \<Rightarrow> pmj \<Rightarrow> pod \<Rightarrow> failure \<Rightarrow> (api_error + result) io" where
  "concludeRestoreCrash r job origJob pod verdict = do {
     now \<leftarrow> timeNow;
     let message = crashMessage pod verdict;
     let job = concluded PhaseFailed now job;
     let job = setCond (rc_lib r) now ConditionRestoreCrashed CondTrue ReasonRestoreCrashFallback message job;
     let job = setCond (rc_lib r) now ConditionRestored CondFalse ReasonRestoreCrashFallback message job;
     let job = setCond (rc_lib r) now ConditionReady CondFalse ReasonRestoreCrashFallback message job;
     let job = fst (clearUnrecognizedRestoreCrash r now job);
     p \<leftarrow> patchStatus job origJob;
     (case p of
        Inl e \<Rightarrow> State_Monad.return (handleStatusError e)
      | Inr job \<Rightarrow> do {
          recordPodEvent r job EventTypeWarning ''MigrationFailed'';
          eventf r (pmj_Name job) EventTypeWarning ReasonRestoreCrashFallback;
          d \<leftarrow> ensureCrashedReplacementPodDeleted r job (Some pod);
          (case d of
             Some e \<Rightarrow> State_Monad.return (Inl e)
           | None \<Rightarrow> do {
               forgetProbe (jobKey job);
               State_Monad.return (Inr no_requeue)
             })
        })
   }"

subsection \<open>Other conclusions\<close>

definition markSucceededWithoutRestore :: "reconciler \<Rightarrow> pmj \<Rightarrow> pmj \<Rightarrow> string \<Rightarrow> string \<Rightarrow> (api_error + pmj) io" where
  "markSucceededWithoutRestore r job orig reason message = do {
     now \<leftarrow> timeNow;
     let job = concluded PhaseSucceededWithoutRestore now job;
     let job = setCond (rc_lib r) now ConditionRestored CondFalse reason message job;
     let job = setCond (rc_lib r) now ConditionReady CondTrue reason message job;
     let job = fst (clearUnrecognizedRestoreCrash r now job);
     patchStatus job orig
   }"

definition clearBlockage :: "reconciler \<Rightarrow> time \<Rightarrow> string \<Rightarrow> pmj \<times> bool \<Rightarrow> pmj \<times> bool" where
  "clearBlockage r now condType jc =
     (case jc of (job, changed) \<Rightarrow>
        if \<not> IsStatusConditionTrue (st_Conditions (pmj_Status job)) condType then (job, changed)
        else let message = ''Origin pod is no longer present; the eviction blockage no longer applies'' in
          (setCond (rc_lib r) now condType CondFalse ''OriginPodRemoved'' message job,
           changed \<or> setCondChanges (rc_lib r) now condType CondFalse ''OriginPodRemoved'' message job))"

definition clearEvictionBlockageConditions :: "reconciler \<Rightarrow> time \<Rightarrow> pmj \<Rightarrow> pmj \<times> bool" where
  "clearEvictionBlockageConditions r now job =
     fold (clearBlockage r now) [ConditionBlockedByPDB, ConditionEvictionMisconfigured] (job, False)"

subsection \<open>Claims on a job\<close>

definition podHasMigrationGate :: "pod \<Rightarrow> bool" where
  "podHasMigrationGate pod = (MigrationGateName \<in> set (pod_SchedulingGates pod))"

definition hasGatedClaimant :: "pmj \<Rightarrow> (api_error + bool) io" where
  "hasGatedClaimant job = do {
     l \<leftarrow> list_pods_assigned Cached (pmj_Name job);
     State_Monad.return (case l of
       Inl e \<Rightarrow> Inl (wrapErr (''failed to list pods assigned to PMJ '' @ pmj_Name job) e)
     | Inr pods \<Rightarrow> Inr (list_ex podHasMigrationGate pods))
   }"

definition hasAssignedClaimant :: "pmj \<Rightarrow> (api_error + bool) io" where
  "hasAssignedClaimant job = do {
     l \<leftarrow> list_pods_assigned Cached (pmj_Name job);
     State_Monad.return (case l of
       Inl e \<Rightarrow> Inl (wrapErr (''failed to list pods assigned to PMJ '' @ pmj_Name job) e)
     | Inr pods \<Rightarrow> Inr (pods \<noteq> []))
   }"

subsection \<open>Jobs whose workload was scaled down\<close>

text \<open>\<open>strconv.Atoi\<close>: a sign, then decimal digits, within 64 bits.\<close>

fun digitsVal :: "nat \<Rightarrow> string \<Rightarrow> nat option" where
  "digitsVal acc [] = Some acc"
| "digitsVal acc (c # cs) = (if isDigit c then digitsVal (10 * acc + digitVal c) cs else None)"

definition atoi :: "string \<Rightarrow> int option" where
  "atoi s =
     (let neg = (s \<noteq> [] \<and> hd s = CHR ''-'');
          ds = (if s \<noteq> [] \<and> (hd s = CHR ''-'' \<or> hd s = CHR ''+'') then tl s else s)
      in if ds = [] then None
         else case digitsVal 0 ds of
                None \<Rightarrow> None
              | Some n \<Rightarrow> (let v = (if neg then - int n else int n) in
                  if - (2 ^ 63) \<le> v \<and> v < 2 ^ 63 then Some v else None))"

definition ordinalOf :: "string \<Rightarrow> int option" where
  "ordinalOf ordStr = (case atoi ordStr of None \<Rightarrow> None | Some ord \<Rightarrow> if ord < 0 then None else Some (wrap32 ord))"

definition getOrdinalFromPodName :: "string \<Rightarrow> string \<Rightarrow> int option" where
  "getOrdinalFromPodName podName stsName =
     (if \<not> hasPrefix podName (stsName @ ''-'') then
        (let suffix = rev (takeWhile (\<lambda>c. c \<noteq> CHR ''-'') (rev podName)) in
         if CHR ''-'' \<notin> set podName \<or> suffix = [] then None else ordinalOf suffix)
      else ordinalOf (trimPrefix podName (stsName @ ''-'')))"

definition activePod :: "pod \<Rightarrow> bool" where
  "activePod p = (pod_DeletionTimestamp p = None \<and> pod_Phase p \<noteq> PodFailed \<and> pod_Phase p \<noteq> PodSucceeded)"

definition isOriginOf :: "pmj \<Rightarrow> pod \<Rightarrow> bool" where
  "isOriginOf job p =
     (if pmj_TargetPodUID job \<noteq> [] then pod_UID p = pmj_TargetPodUID job
      else pmj_PodRefName job \<noteq> [] \<and> pod_Name p = pmj_PodRefName job)"

definition countActiveWorkloadPods :: "pod list \<Rightarrow> pmj \<Rightarrow> int" where
  "countActiveWorkloadPods pods job = int (length (filter (\<lambda>p. activePod p \<and> \<not> isOriginOf job p) pods))"

definition workloadTarget :: "workload \<Rightarrow> int \<times> label_selector option" where
  "workloadTarget wl = (case wl_Replicas wl of None \<Rightarrow> 1 | Some n \<Rightarrow> n, wl_Selector wl)"

definition replicaSetOfDeployment :: "string \<Rightarrow> workload \<Rightarrow> bool" where
  "replicaSetOfDeployment parentName rs = list_ex (\<lambda>ref. or_Kind ref = ''Deployment'' \<and> or_Name ref = parentName) (wl_OwnerReferences rs)"

text \<open>A lookup of the parent: an error, nothing to compare with, or the replicas wanted and the selector.\<close>

definition lookedUp :: "api_error + workload \<Rightarrow> api_error + (int \<times> label_selector option) option" where
  "lookedUp g = (case g of Inl e \<Rightarrow> if isNotFound e then Inr None else Inl e | Inr wl \<Rightarrow> Inr (Some (workloadTarget wl)))"

definition parentTarget :: "reconciler \<Rightarrow> pmj \<Rightarrow> string \<Rightarrow> string \<Rightarrow> (api_error + (int \<times> label_selector option) option) io" where
  "parentTarget r job parentKind parentName =
     (if parentKind = ''Deployment'' then
        (let podTemplateHash = mget (pmj_Labels job) LabelPodTemplateHash in
         if podTemplateHash \<noteq> [] then do {
           g \<leftarrow> get_replicaset (liveReader r) (parentName @ ''-'' @ podTemplateHash);
           (case g of
              Inr rs \<Rightarrow> State_Monad.return (lookedUp g)
            | Inl e \<Rightarrow>
                if isNotFound e then do {
                  l \<leftarrow> list_replicasets (liveReader r) DefaultDeploymentUniqueLabelKey podTemplateHash;
                  State_Monad.return (case l of
                    Inl e \<Rightarrow> Inl e
                  | Inr rss \<Rightarrow> (case find (replicaSetOfDeployment parentName) rss of
                                  None \<Rightarrow> Inr None
                                | Some rs \<Rightarrow> Inr (Some (workloadTarget rs))))
                }
                else State_Monad.return (lookedUp g))
         }
         else do {
           g \<leftarrow> get_deployment (liveReader r) parentName;
           State_Monad.return (lookedUp g)
         })
      else if parentKind = ''ReplicaSet'' then do {
        g \<leftarrow> get_replicaset (liveReader r) parentName;
        State_Monad.return (lookedUp g)
      }
      else if parentKind = ''StatefulSet'' then do {
        g \<leftarrow> get_statefulset (liveReader r) parentName;
        State_Monad.return (lookedUp g)
      }
      else State_Monad.return (Inr None))"

definition runningReplacement :: "pmj \<Rightarrow> pod \<Rightarrow> bool" where
  "runningReplacement job p =
     (activePod p \<and> pod_Name p = pmj_PodRefName job \<and> (pmj_TargetPodUID job = [] \<or> pod_UID p \<noteq> pmj_TargetPodUID job))"

definition originStillRuns :: "pmj \<Rightarrow> pod list \<Rightarrow> bool" where
  "originStillRuns job pods =
     (pmj_TargetPodUID job \<noteq> [] \<and> list_ex (\<lambda>p. pod_UID p = pmj_TargetPodUID job \<and> pod_DeletionTimestamp p = None) pods)"

text \<open>What the pods of the workload say: \<open>None\<close> when the origin still runs.\<close>

definition workloadPods :: "kubelib \<Rightarrow> pmj \<Rightarrow> label_selector option \<Rightarrow> (api_error + (int \<times> bool) option) io" where
  "workloadPods K job selector =
     (case selector of
        None \<Rightarrow> State_Monad.return (Inr (Some (0, False)))
      | Some s \<Rightarrow>
          (case LabelSelectorAsSelector K s of
             None \<Rightarrow> State_Monad.return (Inl (err Invalid ''invalid label selector''))
           | Some sel \<Rightarrow> do {
               l \<leftarrow> list_pods_matching Cached sel;
               State_Monad.return (case l of
                 Inl e \<Rightarrow> Inl e
               | Inr pods \<Rightarrow> if originStillRuns job pods then Inr None
                   else Inr (Some (countActiveWorkloadPods pods job, list_ex (runningReplacement job) pods)))
             }))"

definition ordinalAwaited :: "pmj \<Rightarrow> string \<Rightarrow> string \<Rightarrow> int \<Rightarrow> bool \<Rightarrow> bool" where
  "ordinalAwaited job parentKind parentName targetReplicas running =
     (parentKind = ''StatefulSet'' \<and>
      (case getOrdinalFromPodName (pmj_PodRefName job) parentName of
         None \<Rightarrow> False
       | Some ord \<Rightarrow> ord < targetReplicas \<and> \<not> running))"

definition cleanupScaleDownZombie :: "reconciler \<Rightarrow> pmj \<Rightarrow> (api_error + bool) io" where
  "cleanupScaleDownZombie r job =
     (let parentName = mget (pmj_Labels job) LabelParentName; parentKind = mget (pmj_Labels job) LabelParentKind in
      if st_Consumed (pmj_Status job) then State_Monad.return (Inr False)
      else if parentName = [] \<or> parentKind = [] then State_Monad.return (Inr False)
      else do {
        gated \<leftarrow> hasGatedClaimant job;
        (case gated of
           Inl e \<Rightarrow> State_Monad.return (Inl e)
         | Inr True \<Rightarrow> State_Monad.return (Inr False)
         | Inr False \<Rightarrow> do {
             assigned \<leftarrow> hasAssignedClaimant job;
             (case assigned of
                Inl e \<Rightarrow> State_Monad.return (Inl e)
              | Inr True \<Rightarrow> State_Monad.return (Inr False)
              | Inr False \<Rightarrow> do {
                  t \<leftarrow> parentTarget r job parentKind parentName;
                  (case t of
                     Inl e \<Rightarrow> State_Monad.return (Inl e)
                   | Inr None \<Rightarrow> State_Monad.return (Inr False)
                   | Inr (Some (targetReplicas, selector)) \<Rightarrow> do {
                       a \<leftarrow> workloadPods (rc_lib r) job selector;
                       (case a of
                          Inl e \<Rightarrow> State_Monad.return (Inl e)
                        | Inr None \<Rightarrow> State_Monad.return (Inr False)
                        | Inr (Some (activeCount, running)) \<Rightarrow>
                            if ordinalAwaited job parentKind parentName targetReplicas running then State_Monad.return (Inr False)
                            else if activeCount \<ge> targetReplicas then do {
                              d \<leftarrow> deleteJob (pmj_Name job);
                              (case d of
                                 Inl e \<Rightarrow>
                                   if isNotFound e then do { eventf r (pmj_Name job) EventTypeNormal ''ScaleDownZombieCleaned''; State_Monad.return (Inr True) }
                                   else State_Monad.return (Inl e)
                               | Inr _ \<Rightarrow> do { eventf r (pmj_Name job) EventTypeNormal ''ScaleDownZombieCleaned''; State_Monad.return (Inr True) })
                            }
                            else State_Monad.return (Inr False))
                     })
                })
           })
      })"

end
