(* ===== verification/Gate.thy ===== *)
theory Gate
  imports Reconciler Assignment Election Scenario
begin

text \<open>
  The gate controller (\<open>controller/pod_gate_controller.go\<close>), which decides for every gated
  replacement pod whether it restores the job's snapshot or starts cold, and only then lets the
  scheduler have it.

  \<^item> \<open>gateReconciler\<close> is \<open>PodGateReconciler\<close>; \<open>Gate_Reconcile\<close> is its \<open>Reconcile\<close>, split where
    the code returns. A mutation of \<open>pod\<close> or \<open>job\<close> through its pointer is a new value; an update
    that succeeds makes it the server's copy.
  \<^item> The deferred evaluation of the invariant engine is \<open>Guarded.evaluateGate\<close>.
  \<^item> \<open>gateWrite\<close> says what a write of the controller may be, in terms of the job and the pod it
    works on and of the state of the API server before and after the write. The theorems
    of this theory follow from it.
\<close>

section \<open>Definitions\<close>

record gateReconciler =
  pg_lib :: kubelib
  pg_APIReader :: bool
  pg_Recorder :: bool
  pg_Engines :: "registry option"

definition gateReader :: "gateReconciler \<Rightarrow> reader" where
  "gateReader G = (if pg_APIReader G then Live else Cached)"

subsection \<open>Restore orders\<close>

definition ordererOf :: "engine option \<Rightarrow> restoreOrderer" where
  "ordererOf eng =
     (case eng of None \<Rightarrow> gkeOrderer | Some e \<Rightarrow> (case eng_RestoreOrderer e of Some o' \<Rightarrow> o' | None \<Rightarrow> gkeOrderer))"

definition jobRestoreOrderer :: "gateReconciler \<Rightarrow> pmj \<Rightarrow> api_error + restoreOrderer" where
  "jobRestoreOrderer G job =
     (case pg_Engines G of
        None \<Rightarrow> Inr (ordererOf None)
      | Some reg \<Rightarrow>
          (case ForJob reg job of
             Inl e \<Rightarrow> if ae_reason e = EngineNotRegistered then Inl e else Inr (ordererOf None)
           | Inr eng \<Rightarrow> Inr (ordererOf (Some eng))))"

definition podRestoreOrderer :: "gateReconciler \<Rightarrow> pod \<Rightarrow> restoreOrderer io" where
  "podRestoreOrderer G p =
     (case pg_Engines G of
        None \<Rightarrow> State_Monad.return (ordererOf None)
      | Some reg \<Rightarrow> do {
          pm \<leftarrow> ActivePodMigration Cached;
          State_Monad.return (ordererOf
            (case ForPod (pg_lib G) reg (Some p) (case pm of Inl _ \<Rightarrow> None | Inr x \<Rightarrow> x) of
               None \<Rightarrow> None | Some eng \<Rightarrow> eng))
        })"

subsection \<open>Releasing the gate\<close>

definition removeGate :: "pod \<Rightarrow> pod" where
  "removeGate p = p\<lparr>pod_SchedulingGates := filter (\<lambda>g. g \<noteq> MigrationGateName) (pod_SchedulingGates p)\<rparr>"

text \<open>An order that fails leaves the pod as it is: the code drops the error.\<close>

definition tryBypass :: "restoreOrderer \<Rightarrow> pod \<Rightarrow> pod" where
  "tryBypass o' p = (case OrderColdStartBypass o' p of Inl _ \<Rightarrow> p | Inr p' \<Rightarrow> p')"

definition jobBypass :: "gateReconciler \<Rightarrow> pmj option \<Rightarrow> pod \<Rightarrow> pod" where
  "jobBypass G job p =
     (case job of
        None \<Rightarrow> p
      | Some j \<Rightarrow> (case jobRestoreOrderer G j of Inl _ \<Rightarrow> p | Inr o' \<Rightarrow> tryBypass o' p))"

definition releaseWithColdStartBypass :: "gateReconciler \<Rightarrow> pod \<Rightarrow> pmj option \<Rightarrow> pod io" where
  "releaseWithColdStartBypass G p job =
     (let p1 = jobBypass G job (p\<lparr>pod_Annotations := (pod_Annotations p)(AnnotationAssignedPMJ := None)\<rparr>) in do {
        o' \<leftarrow> podRestoreOrderer G p1;
        State_Monad.return (removeGate (tryBypass o' p1))
      })"

text \<open>\<open>return ctrl.Result{}, r.Update(ctx, pod)\<close>\<close>

definition updateAndReturn :: "pod \<Rightarrow> (api_error + result) io" where
  "updateAndReturn p = do {
     u \<leftarrow> update_pod p;
     State_Monad.return (case u of Inl e \<Rightarrow> Inl e | Inr _ \<Rightarrow> Inr no_requeue)
   }"

definition releaseCold :: "gateReconciler \<Rightarrow> pod \<Rightarrow> pmj option \<Rightarrow> (api_error + result) io" where
  "releaseCold G p job = do {
     p' \<leftarrow> releaseWithColdStartBypass G p job;
     updateAndReturn p'
   }"

subsection \<open>The consumer of a job\<close>

definition livePodIs :: "gateReconciler \<Rightarrow> string \<Rightarrow> string \<Rightarrow> (api_error + bool) io" where
  "livePodIs G name uid = do {
     g \<leftarrow> get_pod (gateReader G) name;
     State_Monad.return (case g of
       Inr p \<Rightarrow> Inr (pod_UID p = uid)
     | Inl e \<Rightarrow> if isNotFound e then Inr False else Inl e)
   }"

text \<open>A cached pod, with the recorded UID or another, is confirmed on the API server in the same way.\<close>

definition checkConsumerPodExists :: "gateReconciler \<Rightarrow> pmj \<Rightarrow> (api_error + bool) io" where
  "checkConsumerPodExists G job =
     (let uid = st_RestoredPodUID (pmj_Status job); name = st_RestoredPodName (pmj_Status job) in
      if uid = [] then State_Monad.return (Inr False)
      else if name \<noteq> [] then do {
        g \<leftarrow> get_pod Cached name;
        (case g of
           Inr _ \<Rightarrow> livePodIs G name uid
         | Inl e \<Rightarrow> if \<not> isNotFound e then State_Monad.return (Inl e) else livePodIs G name uid)
      }
      else do {
        l \<leftarrow> list_pods (gateReader G);
        State_Monad.return (case l of
          Inl e \<Rightarrow> Inl e
        | Inr pods \<Rightarrow>
            Inr (list_ex (\<lambda>p. mget (pod_Annotations p) AnnotationAssignedPMJ = pmj_Name job \<and> pod_UID p = uid) pods))
      })"

definition consumedBy :: "pod \<Rightarrow> pmj \<Rightarrow> pmj" where
  "consumedBy p = setStatus (\<lambda>s. s\<lparr>st_Consumed := True, st_RestoredPodUID := pod_UID p, st_RestoredPodName := pod_Name p\<rparr>)"

definition restoredBy :: "time \<Rightarrow> pod \<Rightarrow> pmj \<Rightarrow> pmj" where
  "restoredBy now p job = setStatus (\<lambda>s. s\<lparr>st_GateReleased := False, st_RestoringStartTime := Some now\<rparr>) (consumedBy p job)"

subsection \<open>A job that leaves nothing to restore\<close>

definition recordColdConsumer :: "pod \<Rightarrow> pmj \<Rightarrow> (api_error + pmj) io" where
  "recordColdConsumer p job =
     (if \<not> st_Consumed (pmj_Status job) then updateJobStatus (consumedBy p job) else State_Monad.return (Inr job))"

definition coldFallback :: "gateReconciler \<Rightarrow> pod \<Rightarrow> pmj \<Rightarrow> (api_error + result) io" where
  "coldFallback G p job = do {
     u \<leftarrow> recordColdConsumer p job;
     (case u of
        Inl e \<Rightarrow> State_Monad.return (Inl e)
      | Inr job \<Rightarrow> releaseCold G p (Some job))
   }"

subsection \<open>A durable snapshot\<close>

definition markConsumed :: "pod \<Rightarrow> pmj \<Rightarrow> (api_error + pmj) io" where
  "markConsumed p job =
     (if \<not> st_Consumed (pmj_Status job) then do {
        now \<leftarrow> timeNow;
        updateJobStatus (restoredBy now p job)
      }
      else State_Monad.return (Inr job))"

definition markGateReleased :: "pmj \<Rightarrow> (api_error + pmj) io" where
  "markGateReleased job =
     (if \<not> st_GateReleased (pmj_Status job)
      then patchStatus (setStatus (\<lambda>s. s\<lparr>st_GateReleased := True\<rparr>) job) job
      else State_Monad.return (Inr job))"

definition recordReleased :: "gateReconciler \<Rightarrow> pod \<Rightarrow> unit io" where
  "recordReleased G p = (if pg_Recorder G then emitEvent (pod_Name p) EventTypeNormal ''MigrationRestoreReleased'' else State_Monad.return ())"

definition ungate :: "gateReconciler \<Rightarrow> pod \<Rightarrow> (api_error + result) io" where
  "ungate G p = do {
     u \<leftarrow> update_pod (removeGate p);
     (case u of
        Inl e \<Rightarrow> State_Monad.return (Inl e)
      | Inr _ \<Rightarrow> do {
          recordReleased G p;
          State_Monad.return (Inr no_requeue)
        })
   }"

text \<open>The durable records come first, the irreversible step, the removal of the gate, last.\<close>

definition orderAndRelease :: "gateReconciler \<Rightarrow> pod \<Rightarrow> pmj \<Rightarrow> (api_error + result) io" where
  "orderAndRelease G p job =
     (case jobRestoreOrderer G job of
        Inl e \<Rightarrow> State_Monad.return (Inl e)
      | Inr o' \<Rightarrow>
          (case OrderRestore o' p job of
             Inl msg \<Rightarrow> State_Monad.return (Inl (err OtherReason msg))
           | Inr p1 \<Rightarrow> do {
               c \<leftarrow> markConsumed p1 job;
               (case c of
                  Inl e \<Rightarrow> State_Monad.return (Inl e)
                | Inr jobC \<Rightarrow> do {
                    m \<leftarrow> markGateReleased jobC;
                    (case m of
                       Inl e \<Rightarrow> State_Monad.return (Inl e)
                     | Inr _ \<Rightarrow> ungate G p1)
                  })
             }))"

text \<open>The job is consumed by another pod: never restore twice, unless that pod went away with its gate in place.\<close>

definition adoptFrom :: "gateReconciler \<Rightarrow> pod \<Rightarrow> pmj \<Rightarrow> (api_error + result) io" where
  "adoptFrom G p job = do {
     x \<leftarrow> checkConsumerPodExists G job;
     (case x of
        Inl e \<Rightarrow> State_Monad.return (Inl e)
      | Inr True \<Rightarrow> State_Monad.return (Inr (requeue_after (5 * second)))
      | Inr False \<Rightarrow> do {
          now \<leftarrow> timeNow;
          u \<leftarrow> updateJobStatus (restoredBy now p job);
          (case u of
             Inl e \<Rightarrow> State_Monad.return (Inl e)
           | Inr job \<Rightarrow> orderAndRelease G p job)
        })
   }"

definition durableRelease :: "gateReconciler \<Rightarrow> pod \<Rightarrow> pmj \<Rightarrow> (api_error + result) io" where
  "durableRelease G p job =
     (let s = pmj_Status job in
      if st_Consumed s \<and> st_RestoredPodUID s \<noteq> pod_UID p then
        if st_Phase s \<noteq> PhaseRestoring \<or> st_GateReleased s then releaseCold G p (Some job)
        else adoptFrom G p job
      else orderAndRelease G p job)"

subsection \<open>The reconciler\<close>

definition decideRelease :: "gateReconciler \<Rightarrow> pod \<Rightarrow> pmj \<Rightarrow> (api_error + result) io" where
  "decideRelease G p job =
     (let ph = st_Phase (pmj_Status job) in
      if ph = PhaseRestoring \<or> ph = PhaseSucceeded \<or> ph = PhaseSucceededWithoutRestore \<or> ph = PhaseFailed then
        if ph = PhaseFailed \<or> ph = PhaseSucceededWithoutRestore \<or> st_SnapshotRef (pmj_Status job) = []
        then coldFallback G p job
        else durableRelease G p job
      else State_Monad.return (Inr (requeue_after (30 * second))))"

text \<open>Only the API server can tell a deleted job from one that is not in the cache yet.\<close>

definition gateOnJob :: "gateReconciler \<Rightarrow> pod \<Rightarrow> string \<Rightarrow> (api_error + result) io" where
  "gateOnJob G p assigned = do {
     g \<leftarrow> get_job Cached assigned;
     (case g of
        Inr job \<Rightarrow> decideRelease G p job
      | Inl e \<Rightarrow>
          if isNotFound e then do {
            l \<leftarrow> get_job (gateReader G) assigned;
            (case l of
               Inr _ \<Rightarrow> State_Monad.return (Inr (requeue_after (2 * second)))
             | Inl e' \<Rightarrow> if \<not> isNotFound e' then State_Monad.return (Inl e') else releaseCold G p None)
          }
          else State_Monad.return (Inl e))
   }"

definition gateAssigned :: "gateReconciler \<Rightarrow> pod \<Rightarrow> string \<Rightarrow> parent \<Rightarrow> (api_error + result) io" where
  "gateAssigned G p assigned pa = do {
     c \<leftarrow> ResolveCollision Cached p assigned pa;
     (case c of
        Inl e \<Rightarrow> State_Monad.return (Inl e)
      | Inr (corrected, changed) \<Rightarrow>
          if changed then
            if corrected \<noteq> []
            then updateAndReturn (p\<lparr>pod_Annotations := (pod_Annotations p)(AnnotationAssignedPMJ \<mapsto> corrected)\<rparr>)
            else releaseCold G p None
          else gateOnJob G p corrected)
   }"

definition reconcileGated :: "gateReconciler \<Rightarrow> pod \<Rightarrow> (api_error + result) io" where
  "reconcileGated G p =
     (let assigned = mget (pod_Annotations p) AnnotationAssignedPMJ in
      if \<not> podHasMigrationGate p then State_Monad.return (Inr no_requeue)
      else if pod_DeletionTimestamp p \<noteq> None then State_Monad.return (Inr no_requeue)
      else if assigned = [] then releaseCold G p None
      else do {
        pa \<leftarrow> ResolveParentWorkload Cached p;
        (case pa of
           Inl e \<Rightarrow> if isNotFound e then gateAssigned G p assigned noParent else State_Monad.return (Inl e)
         | Inr parent \<Rightarrow> gateAssigned G p assigned parent)
      })"

definition Gate_Reconcile :: "gateReconciler \<Rightarrow> string \<Rightarrow> (api_error + result) io" where
  "Gate_Reconcile G name = do {
     g \<leftarrow> get_pod Cached name;
     (case g of
        Inl e \<Rightarrow> State_Monad.return (if isNotFound e then Inr no_requeue else Inl e)
      | Inr p \<Rightarrow> reconcileGated G p)
   }"

text \<open>The pods to look at when a job changes: its source's name and the pods assigned to it.\<close>

definition mapPMJToPods :: "pmj \<Rightarrow> (string \<times> string) list io" where
  "mapPMJToPods job = do {
     l \<leftarrow> list_pods_assigned Cached (pmj_Name job);
     State_Monad.return ((pmj_Namespace job, pmj_PodRefName job) #
       (case l of Inl _ \<Rightarrow> [] | Inr pods \<Rightarrow> map (\<lambda>p. (pod_Namespace p, pod_Name p)) pods))
   }"

text \<open>The controller that \<open>cmd/main.go\<close> sets up.\<close>

definition mainGate :: "kubelib \<Rightarrow> registry \<Rightarrow> gateReconciler" where
  "mainGate K engines = \<lparr>pg_lib = K, pg_APIReader = True, pg_Recorder = True, pg_Engines = Some engines\<rparr>"

subsection \<open>What a write of the controller may be\<close>

text \<open>A job's record of the pod that consumes it.\<close>

definition claims :: "string \<Rightarrow> pmj \<Rightarrow> bool" where
  "claims uid job \<longleftrightarrow> st_Consumed (pmj_Status job) \<and> st_RestoredPodUID (pmj_Status job) = uid"

definition durable :: "pmj \<Rightarrow> bool" where
  "durable job \<longleftrightarrow> (st_Phase (pmj_Status job) = PhaseRestoring \<or> st_Phase (pmj_Status job) = PhaseSucceeded) \<and> st_SnapshotRef (pmj_Status job) \<noteq> []"

text \<open>The recorded consumer of \<open>job\<close> is not in the cluster.\<close>

definition consumerGone :: "pmj \<Rightarrow> cluster \<Rightarrow> bool" where
  "consumerGone job c \<longleftrightarrow>
     (let uid = st_RestoredPodUID (pmj_Status job); name = st_RestoredPodName (pmj_Status job) in
      uid = [] \<or>
      (if name \<noteq> [] then (\<forall>q. store_get pod_Name (cl_pods c) name = Some q \<longrightarrow> pod_UID q \<noteq> uid)
       else (\<forall>q \<in> set (cl_pods c). mget (pod_Annotations q) AnnotationAssignedPMJ = pmj_Name job \<longrightarrow> pod_UID q \<noteq> uid)))"

text \<open>
  A claim: the job \<open>j\<close> as the controller read it becomes \<open>job\<close>, consumed by \<open>p\<close>. It was not
  consumed before, or its consumer is gone and never left its gate.
\<close>

definition claimStep :: "pod \<Rightarrow> pmj \<Rightarrow> pmj \<Rightarrow> cluster \<Rightarrow> bool" where
  "claimStep p j job c \<longleftrightarrow>
     claims (pod_UID p) job \<and> st_RestoredPodName (pmj_Status job) = pod_Name p \<and>
     st_Phase (pmj_Status job) = st_Phase (pmj_Status j) \<and> st_SnapshotRef (pmj_Status job) = st_SnapshotRef (pmj_Status j) \<and>
     (\<not> st_Consumed (pmj_Status j) \<and> (st_GateReleased (pmj_Status job) \<longrightarrow> st_GateReleased (pmj_Status j)) \<or>
      st_Consumed (pmj_Status j) \<and> \<not> st_GateReleased (pmj_Status j) \<and> \<not> st_GateReleased (pmj_Status job) \<and>
        st_Phase (pmj_Status j) = PhaseRestoring \<and> consumerGone j c)"

text \<open>Before a pod leaves its gate to restore, the API server holds the record that it does.\<close>

definition releaseRecorded :: "string \<Rightarrow> pmj \<Rightarrow> cluster \<Rightarrow> bool" where
  "releaseRecorded uid j c \<longleftrightarrow>
     claims uid j \<and> st_GateReleased (pmj_Status j) \<or>
     (\<exists>l. store_get pmj_Name (cl_jobs c) (pmj_Name j) = Some l \<and> st_GateReleased (pmj_Status l) \<and>
        (claims uid j \<or> pmj_UID l = pmj_UID j \<and> claims uid l))"

text \<open>A resource version identifies a version of an object: the stored job is not another one at the same version.\<close>

definition sameVersion :: "pmj \<Rightarrow> cluster \<Rightarrow> bool" where
  "sameVersion j c \<longleftrightarrow>
     (\<forall>l. store_get pmj_Name (cl_jobs c) (pmj_Name j) = Some l \<longrightarrow> pmj_ResourceVersion l = pmj_ResourceVersion j \<longrightarrow> pmj_UID l = pmj_UID j)"

definition coherent :: "world \<Rightarrow> bool" where
  "coherent w \<longleftrightarrow> (\<forall>n j. store_get pmj_Name (cl_jobs (w_cache w)) n = Some j \<longrightarrow> sameVersion j (w_live w))"

definition coldRelease :: "(pod \<Rightarrow> string \<times> bool \<times> bool) \<Rightarrow> pod \<Rightarrow> bool" where
  "coldRelease order q \<longleftrightarrow> \<not> podHasMigrationGate q \<and> order q = ([], True, True)"

definition restoreRelease :: "(pod \<Rightarrow> string \<times> bool \<times> bool) \<Rightarrow> (string \<Rightarrow> pmj option) \<Rightarrow> pod \<Rightarrow> pod \<Rightarrow> cluster \<Rightarrow> bool" where
  "restoreRelease order cached p q c \<longleftrightarrow>
     \<not> podHasMigrationGate q \<and>
     (\<exists>j. cached (mget (pod_Annotations p) AnnotationAssignedPMJ) = Some j \<and> durable j \<and> releaseRecorded (pod_UID p) j c \<and>
       (let ref = st_SnapshotRef (pmj_Status j) in trimSpace ref = ref \<longrightarrow> order q = (ref, False, True)))"

definition gateWrite :: "(pod \<Rightarrow> string \<times> bool \<times> bool) \<Rightarrow> (string \<Rightarrow> pmj option) \<Rightarrow> pod \<Rightarrow> effect \<Rightarrow> cluster \<Rightarrow> cluster \<Rightarrow> bool" where
  "gateWrite order cached p e c c' =
     (case e of
        UpdatePod q \<Rightarrow>
          (\<exists>l. store_get pod_Name (cl_pods c) (pod_Name p) = Some l \<and> precond (pod_UID p) (Some (pod_ResourceVersion p)) l \<and>
            c' = c\<lparr>cl_pods := store_put pod_Name (l\<lparr>pod_Labels := pod_Labels q, pod_Annotations := pod_Annotations q,
              pod_SchedulingGates := pod_SchedulingGates q, pod_ResourceVersion := Suc (pod_ResourceVersion l)\<rparr>) (cl_pods c)\<rparr>) \<and>
          pod_Name q = pod_Name p \<and> pod_UID q = pod_UID p \<and>
          (pod_SchedulingGates q = pod_SchedulingGates p \<or> coldRelease order q \<or> restoreRelease order cached p q c)
      | UpdateJobStatus job \<Rightarrow>
          (\<exists>j l. cached (pmj_Name job) = Some j \<and> store_get pmj_Name (cl_jobs c) (pmj_Name job) = Some l \<and>
            pmj_ResourceVersion l = pmj_ResourceVersion j \<and> claimStep p j job c \<and>
            c' = c\<lparr>cl_jobs := put_job (l\<lparr>pmj_Status := pmj_Status job, pmj_ResourceVersion := Suc (pmj_ResourceVersion l)\<rparr>) (cl_jobs c)\<rparr>)
      | PatchJobStatus orig job \<Rightarrow>
          (\<exists>l. store_get pmj_Name (cl_jobs c) (pmj_Name orig) = Some l \<and>
            c' = c\<lparr>cl_jobs := put_job (l\<lparr>pmj_Status := (pmj_Status l)\<lparr>st_GateReleased := True\<rparr>, pmj_ResourceVersion := Suc (pmj_ResourceVersion l)\<rparr>) (cl_jobs c)\<rparr> \<and>
            (claims (pod_UID p) l \<or> (\<exists>j. cached (pmj_Name orig) = Some j \<and> claims (pod_UID p) j)))
      | Event _ _ _ \<Rightarrow> c' = c
      | _ \<Rightarrow> False)"

text \<open>
  The contract with the engines: whoever orders, the order of a pod is read in one way, and a
  cold-start bypass always succeeds.
\<close>

definition goodOrderer :: "(pod \<Rightarrow> string \<times> bool \<times> bool) \<Rightarrow> restoreOrderer \<Rightarrow> bool" where
  "goodOrderer order R \<longleftrightarrow> restore_orderer R \<and> InspectRestoreOrder R = order \<and> (\<forall>p. \<exists>p'. OrderColdStartBypass R p = Inr p')"

locale gate_engines =
  fixes G :: gateReconciler and order :: "pod \<Rightarrow> string \<times> bool \<times> bool"
  assumes live: "pg_APIReader G"
    and job_orderer: "jobRestoreOrderer G j = Inr R \<Longrightarrow> goodOrderer order R"
    and pod_orderer: "wp (podRestoreOrderer G p) (\<lambda>R w'. goodOrderer order R \<and> (\<exists>k. w' = w\<lparr>w_calls := k\<rparr>)) w"
    and order_gate: "order (removeGate p) = order p"

section \<open>Lemmas\<close>

lemma removeGate_simps [simp]:
  "\<not> podHasMigrationGate (removeGate p)" "pod_Name (removeGate p) = pod_Name p" "pod_UID (removeGate p) = pod_UID p"
  "pod_ResourceVersion (removeGate p) = pod_ResourceVersion p"
  by (simp_all add: removeGate_def podHasMigrationGate_def)

lemma frame_simps:
  assumes "q\<lparr>pod_Annotations := pod_Annotations p\<rparr> = p"
  shows "pod_Name q = pod_Name p" "pod_UID q = pod_UID p" "pod_ResourceVersion q = pod_ResourceVersion p" "pod_SchedulingGates q = pod_SchedulingGates p"
  using arg_cong [OF assms, of pod_Name] arg_cong [OF assms, of pod_UID] arg_cong [OF assms, of pod_ResourceVersion]
    arg_cong [OF assms, of pod_SchedulingGates] by simp_all

lemma bypass_frame: "goodOrderer order R \<Longrightarrow> (tryBypass R p)\<lparr>pod_Annotations := pod_Annotations p\<rparr> = p"
  by (auto simp: goodOrderer_def tryBypass_def restore_orderer.bypass_frame split: sum.splits)

lemma bypass_order: "goodOrderer order R \<Longrightarrow> order (tryBypass R p) = ([], True, True)"
  unfolding goodOrderer_def tryBypass_def
  by (metis Inl_Inr_False restore_orderer.bypass sum.case_eq_if sum.collapse(2) sum.sel(2) sum.disc(2))

lemma reads_ActivePodMigration [reads_rules]: "onlyReads (ActivePodMigration rd)"
  unfolding ActivePodMigration_def by (rule reads_rules)+

text \<open>A patch that only sets \<open>GateReleased\<close> leaves the rest of the stored status alone.\<close>

lemma merge_released:
  "\<not> st_GateReleased a \<Longrightarrow> merge_status a (a\<lparr>st_GateReleased := True\<rparr>) l = l\<lparr>st_GateReleased := True\<rparr>"
  by (simp add: merge_status_def merge_field_def)

lemma does_update_pod:
  assumes "\<And>e w'. Q (Inl e) w'" and "\<And>p' w'. Q (Inr p') w'"
    and "\<And>l. store_get pod_Name (cl_pods (w_live w)) (pod_Name q) = Some l \<Longrightarrow> precond (pod_UID q) (Some (pod_ResourceVersion q)) l \<Longrightarrow>
      P (UpdatePod q) (w_live w) ((w_live w)\<lparr>cl_pods := store_put pod_Name (l\<lparr>pod_Labels := pod_Labels q, pod_Annotations := pod_Annotations q,
        pod_SchedulingGates := pod_SchedulingGates q, pod_ResourceVersion := Suc (pod_ResourceVersion l)\<rparr>) (cl_pods (w_live w))\<rparr>)"
  shows "does P (update_pod q) Q w"
  unfolding update_pod_def by (rule does_write_pod) (use assms in auto)

lemma does_updateAndReturn:
  assumes "pod_Name q = pod_Name p" "pod_UID q = pod_UID p" "pod_ResourceVersion q = pod_ResourceVersion p"
    and "pod_SchedulingGates q = pod_SchedulingGates p \<or> coldRelease order q \<or> restoreRelease order cached p q (w_live w)"
  shows "does (gateWrite order cached p) (updateAndReturn q) (\<lambda>_ _. True) w"
  unfolding updateAndReturn_def
  by (intro does_bind does_update_pod does_return) (use assms in \<open>auto simp: gateWrite_def\<close>)

text \<open>What the job holds once the pod's claim on it is recorded.\<close>

definition recordedClaim :: "pmj \<Rightarrow> pod \<Rightarrow> pmj \<Rightarrow> cluster \<Rightarrow> bool" where
  "recordedClaim j p job c \<longleftrightarrow> store_get pmj_Name (cl_jobs c) (pmj_Name j) = Some job \<and> claims (pod_UID p) job \<and> pmj_UID job = pmj_UID j"

lemma recorded_same: "recordedClaim j p j c \<Longrightarrow> sameVersion j c"
  by (simp add: recordedClaim_def sameVersion_def)

lemma coherent_calls [simp]: "coherent (w\<lparr>w_calls := k\<rparr>) = coherent w"
  by (simp add: coherent_def)

lemma consumedBy_simps [simp]:
  "pmj_Name (consumedBy p job) = pmj_Name job" "pmj_ResourceVersion (consumedBy p job) = pmj_ResourceVersion job"
  "claims (pod_UID p) (consumedBy p job)" "st_RestoredPodName (pmj_Status (consumedBy p job)) = pod_Name p"
  "st_Phase (pmj_Status (consumedBy p job)) = st_Phase (pmj_Status job)"
  "st_SnapshotRef (pmj_Status (consumedBy p job)) = st_SnapshotRef (pmj_Status job)"
  "st_GateReleased (pmj_Status (consumedBy p job)) = st_GateReleased (pmj_Status job)"
  by (simp_all add: consumedBy_def setStatus_def claims_def)

lemma restoredBy_simps [simp]:
  "pmj_Name (restoredBy now p job) = pmj_Name job" "pmj_ResourceVersion (restoredBy now p job) = pmj_ResourceVersion job"
  "claims (pod_UID p) (restoredBy now p job)" "st_RestoredPodName (pmj_Status (restoredBy now p job)) = pod_Name p"
  "st_Phase (pmj_Status (restoredBy now p job)) = st_Phase (pmj_Status job)"
  "st_SnapshotRef (pmj_Status (restoredBy now p job)) = st_SnapshotRef (pmj_Status job)"
  "\<not> st_GateReleased (pmj_Status (restoredBy now p job))"
  by (simp_all add: restoredBy_def consumedBy_def setStatus_def claims_def)

lemma claims_upd [simp]: "claims uid (l\<lparr>pmj_Status := pmj_Status job, pmj_ResourceVersion := v\<rparr>) = claims uid job"
  "claims uid (l\<lparr>pmj_Status := (pmj_Status job)\<lparr>st_GateReleased := b\<rparr>, pmj_ResourceVersion := v\<rparr>) = claims uid job"
  by (simp_all add: claims_def)

text \<open>A claim that is written is a legal claim if the job allowed it, and is recorded afterwards.\<close>

lemma does_claim:
  assumes "cached n = Some j" "pmj_Name j = n" "pmj_Name job = n" "pmj_ResourceVersion job = pmj_ResourceVersion j"
    and "claimStep p j job (w_live w)" "tidy (w_live w)" "sameVersion j (w_live w)"
    and "\<And>e w'. Q (Inl e) w'"
    and "\<And>l w'. pmj_Name l = n \<Longrightarrow> pmj_Status l = pmj_Status job \<Longrightarrow> tidy (w_live w') \<Longrightarrow> recordedClaim j p l (w_live w') \<Longrightarrow> Q (Inr l) w'"
  shows "does (gateWrite order cached p) (updateJobStatus job) Q w"
proof (rule does_updateJobStatus)
  fix l l' and w' :: world
  assume *: "store_get pmj_Name (cl_jobs (w_live w)) (pmj_Name job) = Some l" "pmj_ResourceVersion l = pmj_ResourceVersion job"
    "l' = l\<lparr>pmj_Status := pmj_Status job, pmj_ResourceVersion := Suc (pmj_ResourceVersion l)\<rparr>"
    "w_live w' = (w_live w)\<lparr>cl_jobs := put_job l' (cl_jobs (w_live w))\<rparr>" "tidy (w_live w')"
    "store_get pmj_Name (cl_jobs (w_live w')) (pmj_Name job) = Some l'"
  have "recordedClaim j p l' (w_live w')" using * assms(2-5,7) by (simp add: recordedClaim_def claimStep_def sameVersion_def)
  moreover have "gateWrite order cached p (UpdateJobStatus job) (w_live w) (w_live w')"
    using * assms(1-5) by (auto simp: gateWrite_def)
  ultimately show "gateWrite order cached p (UpdateJobStatus job) (w_live w) (w_live w') \<and> Q (Inr l') w'"
    using assms(9) [of l' w'] * store_get_key [OF *(1)] assms(3) by simp
qed (use assms in auto)

lemma does_markConsumed:
  assumes p1: "pod_Name p1 = pod_Name p" "pod_UID p1 = pod_UID p" and tidy: "tidy (w_live w)"
    and j: "cached n = Some j" "pmj_Name j = n" "pmj_Name job = n" and same: "job = j \<Longrightarrow> sameVersion j (w_live w)"
    and job: "job = j \<and> (st_Consumed (pmj_Status j) \<longrightarrow> claims (pod_UID p) j) \<or> recordedClaim j p job (w_live w)"
  shows "does (gateWrite order cached p) (markConsumed p1 job) (\<lambda>c w1. \<forall>x. c = Inr x \<longrightarrow>
        pmj_Name x = n \<and> tidy (w_live w1) \<and> (x = j \<and> claims (pod_UID p) j \<or> recordedClaim j p x (w_live w1))) w"
proof (cases "st_Consumed (pmj_Status job)")
  case True
  with assms show ?thesis by (auto simp: markConsumed_def intro!: does_return)
next
  case False
  with job have jj: "job = j" by (auto simp: recordedClaim_def claims_def)
  have eq: "restoredBy t p1 j = restoredBy t p j" for t using p1 by (simp add: restoredBy_def consumedBy_def)
  have "claimStep p j (restoredBy t p j) c" for t c using False jj by (simp add: claimStep_def)
  then show ?thesis
    using False jj j tidy same unfolding markConsumed_def
    by (auto simp: eq intro!: does_bind does_timeNow does_claim)
qed

lemma does_markGateReleased:
  assumes "pmj_Name job = n" "tidy (w_live w)" "cached n = Some j" "pmj_Name j = n"
    and "job = j \<and> claims (pod_UID p) j \<or> recordedClaim j p job (w_live w)"
  shows "does (gateWrite order cached p) (markGateReleased job) (\<lambda>m w'. \<forall>x. m = Inr x \<longrightarrow> releaseRecorded (pod_UID p) j (w_live w')) w"
proof (cases "st_GateReleased (pmj_Status job)")
  case True
  with assms show ?thesis by (auto simp: markGateReleased_def releaseRecorded_def recordedClaim_def intro!: does_return)
next
  case False
  have "does (gateWrite order cached p) (patchStatus (setStatus (\<lambda>s. s\<lparr>st_GateReleased := True\<rparr>) job) job)
      (\<lambda>m w'. \<forall>x. m = Inr x \<longrightarrow> releaseRecorded (pod_UID p) j (w_live w')) w"
    using assms False
    by (intro does_patchStatus)
      (auto simp: setStatus_def merge_released gateWrite_def releaseRecorded_def recordedClaim_def)
  with False show ?thesis by (simp add: markGateReleased_def)
qed

context gate_engines
begin

lemma jobBypass_frame: "(jobBypass G jo p)\<lparr>pod_Annotations := pod_Annotations p\<rparr> = p"
  by (auto simp: jobBypass_def bypass_frame [OF job_orderer] split: option.splits sum.splits)

lemma does_releaseCold: "does (gateWrite order cached p) (releaseCold G p jo) (\<lambda>_ _. True) w"
proof -
  let ?p = "p\<lparr>pod_Annotations := (pod_Annotations p)(AnnotationAssignedPMJ := None)\<rparr>"
  let ?q = "jobBypass G jo ?p"
  have "does (gateWrite order cached p) (updateAndReturn (removeGate (tryBypass R ?q))) (\<lambda>_ _. True) w'" if "goodOrderer order R" for R w'
  proof (rule does_updateAndReturn)
    have "order (removeGate (tryBypass R ?q)) = ([], True, True)"
      using bypass_order [OF that] order_gate by simp
    then show "pod_SchedulingGates (removeGate (tryBypass R ?q)) = pod_SchedulingGates p \<or> coldRelease order (removeGate (tryBypass R ?q)) \<or>
        restoreRelease order cached p (removeGate (tryBypass R ?q)) (w_live w')"
      by (simp add: coldRelease_def)
  qed (use frame_simps [OF bypass_frame [OF that, of ?q]] frame_simps [OF jobBypass_frame [where jo = jo and p = ?p]] in simp_all)
  then have "does (gateWrite order cached p) (releaseWithColdStartBypass G p jo)
      (\<lambda>q. does (gateWrite order cached p) (updateAndReturn q) (\<lambda>_ _. True)) w"
    unfolding releaseWithColdStartBypass_def Let_def
    by (intro does_bind does_reads wp_mono [OF pod_orderer]) (auto intro: does_return)
  then show ?thesis unfolding releaseCold_def by (rule does_bind)
qed

lemma does_ungate:
  assumes "pod_Name q = pod_Name p" "pod_UID q = pod_UID p" "pod_ResourceVersion q = pod_ResourceVersion p"
    and "restoreRelease order cached p (removeGate q) (w_live w)"
  shows "does (gateWrite order cached p) (ungate G q) (\<lambda>_ _. True) w"
  unfolding ungate_def using assms
  by (intro does_bind does_update_pod)
    (auto simp: recordReleased_def gateWrite_def intro!: does_bind does_return does_event)

lemma does_orderAndRelease:
  assumes j: "cached n = Some j" "mget (pod_Annotations p) AnnotationAssignedPMJ = n" "pmj_Name j = n" "durable j"
    and job: "job = j \<and> (st_Consumed (pmj_Status j) \<longrightarrow> claims (pod_UID p) j) \<or>
      recordedClaim j p job (w_live w) \<and> st_SnapshotRef (pmj_Status job) = st_SnapshotRef (pmj_Status j)"
    and tidy: "tidy (w_live w)" and same: "job = j \<Longrightarrow> sameVersion j (w_live w)"
  shows "does (gateWrite order cached p) (orderAndRelease G p job) (\<lambda>_ _. True) w"
proof (cases "jobRestoreOrderer G job")
  case (Inr R)
  then have R: "goodOrderer order R" by (rule job_orderer)
  show ?thesis
  proof (cases "OrderRestore R p job")
    case (Inl msg)
    with Inr show ?thesis by (simp add: orderAndRelease_def does_return)
  next
    case ord: (Inr p1)
    have ref: "st_SnapshotRef (pmj_Status job) = st_SnapshotRef (pmj_Status j)" using job by auto
    have frame: "pod_Name p1 = pod_Name p" "pod_UID p1 = pod_UID p" "pod_ResourceVersion p1 = pod_ResourceVersion p"
      using frame_simps [OF restore_orderer.order_frame [OF _ ord]] R by (auto simp: goodOrderer_def)
    have order: "trimSpace (st_SnapshotRef (pmj_Status j)) = st_SnapshotRef (pmj_Status j) \<Longrightarrow>
        order (removeGate p1) = (st_SnapshotRef (pmj_Status j), False, True)"
      using restore_orderer.order [OF _ ord] R ref order_gate by (auto simp: goodOrderer_def)
    have marked: "does (gateWrite order cached p) (markConsumed p1 job) (\<lambda>c w1. \<forall>x. c = Inr x \<longrightarrow>
        pmj_Name x = n \<and> tidy (w_live w1) \<and> (x = j \<and> claims (pod_UID p) j \<or> recordedClaim j p x (w_live w1))) w"
      using j job same by (intro does_markConsumed tidy frame(1,2)) (auto simp: recordedClaim_def dest: store_get_key)
    have rest: "restoreRelease order cached p (removeGate p1) (w_live w2)" if "releaseRecorded (pod_UID p) j (w_live w2)" for w2
      using that j order by (simp add: restoreRelease_def Let_def)
    show ?thesis
      unfolding orderAndRelease_def Inr ord sum.case
      by (intro does_bind does_mono [OF marked])
        (auto split: sum.splits intro!: does_return does_bind does_mono [OF does_markGateReleased [where j = j and n = n and p = p]] j
          intro: does_ungate [OF frame rest])
  qed
qed (simp add: orderAndRelease_def does_return)

lemma wp_livePodIsI:
  assumes "honest w" "\<And>e k. Q (Inl e) (w\<lparr>w_calls := k\<rparr>)" "\<And>k. Q (Inr True) (w\<lparr>w_calls := k\<rparr>)"
    and "\<And>k. (\<And>q. store_get pod_Name (cl_pods (w_live w)) name = Some q \<Longrightarrow> pod_UID q \<noteq> uid) \<Longrightarrow> Q (Inr False) (w\<lparr>w_calls := k\<rparr>)"
  shows "wp (livePodIs G name uid) Q w"
  unfolding livePodIs_def gateReader_def get_pod_def using assms live
  by (auto simp: wp_simps view_def found_def denial_def split: option.splits sum.splits intro!: wp_read_honestI)
    (metis (full_types))+

lemma wp_checkConsumerI:
  assumes "honest w" "\<And>e k. Q (Inl e) (w\<lparr>w_calls := k\<rparr>)" "\<And>k. Q (Inr True) (w\<lparr>w_calls := k\<rparr>)"
    and "\<And>k. consumerGone job (w_live w) \<Longrightarrow> Q (Inr False) (w\<lparr>w_calls := k\<rparr>)"
  shows "wp (checkConsumerPodExists G job) Q w"
proof -
  have Q': "Q r (w\<lparr>w_calls := k\<rparr>)" if "r = Inr False \<Longrightarrow> consumerGone job (w_live w)" for r k
    using assms(2-4) that by (cases r) (auto, metis (full_types))
  have "Q r w" if "r = Inr False \<Longrightarrow> consumerGone job (w_live w)" for r
    using Q' [where k = "w_calls w" and r = r] that by simp
  then show ?thesis
    using assms(1) live unfolding checkConsumerPodExists_def get_pod_def list_pods_def gateReader_def
    by (auto simp: wp_simps view_def consumerGone_def list_ex_iff Let_def split: sum.splits intro!: wp_read_callI wp_livePodIsI Q')
qed

lemma does_adoptFrom:
  assumes "cached n = Some j" "mget (pod_Annotations p) AnnotationAssignedPMJ = n" "pmj_Name j = n" "durable j"
    and "st_Consumed (pmj_Status j)" "st_Phase (pmj_Status j) = PhaseRestoring" "\<not> st_GateReleased (pmj_Status j)"
    and "tidy (w_live w)" "honest w" "sameVersion j (w_live w)"
  shows "does (gateWrite order cached p) (adoptFrom G p j) (\<lambda>_ _. True) w"
proof -
  have release: "does (gateWrite order cached p) (orderAndRelease G p l) (\<lambda>_ _. True) w'"
    if "pmj_Status l = pmj_Status (restoredBy t p j)" "tidy (w_live w')" "recordedClaim j p l (w_live w')" for l t w'
  proof (rule does_orderAndRelease [where cached = cached and n = n and j = j])
    show "l = j \<and> (st_Consumed (pmj_Status j) \<longrightarrow> claims (pod_UID p) j) \<or>
        recordedClaim j p l (w_live w') \<and> st_SnapshotRef (pmj_Status l) = st_SnapshotRef (pmj_Status j)"
      using that by simp
  qed (use assms that recorded_same in blast)+
  have "does (gateWrite order cached p) (updateJobStatus (restoredBy t p j)) (\<lambda>u. does (gateWrite order cached p)
      (case u of Inl e \<Rightarrow> State_Monad.return (Inl e) | Inr job \<Rightarrow> orderAndRelease G p job) (\<lambda>_ _. True)) w'"
    if "consumerGone j (w_live w')" "tidy (w_live w')" "sameVersion j (w_live w')" for t w'
  proof (rule does_claim [where cached = cached and n = n and j = j])
    show "claimStep p j (restoredBy t p j) (w_live w')" using assms(5-7) that(1) by (simp add: claimStep_def)
  qed (use assms(1,3) that(2,3) in \<open>auto intro: does_return release\<close>)
  then show ?thesis
    unfolding adoptFrom_def using assms(8-10)
    by (intro does_bind does_reads wp_checkConsumerI) (auto intro!: does_return does_bind does_timeNow)
qed

lemma does_decideRelease:
  assumes "cached n = Some j" "mget (pod_Annotations p) AnnotationAssignedPMJ = n" "pmj_Name j = n" "tidy (w_live w)" "honest w" "sameVersion j (w_live w)"
  shows "does (gateWrite order cached p) (decideRelease G p j) (\<lambda>_ _. True) w"
proof -
  have cold: "does (gateWrite order cached p) (coldFallback G p j) (\<lambda>_ _. True) w"
    unfolding coldFallback_def recordColdConsumer_def using assms(1,3,4,6)
    by (auto intro!: does_bind does_return does_releaseCold does_claim [where j = j and n = n] simp: claimStep_def)
  have "does (gateWrite order cached p) (durableRelease G p j) (\<lambda>_ _. True) w" if "durable j"
    unfolding durableRelease_def Let_def using assms that
    by (auto simp: claims_def intro!: does_releaseCold does_adoptFrom [where n = n] does_orderAndRelease [where j = j and n = n])
  then show ?thesis
    unfolding decideRelease_def Let_def using cold by (auto simp: durable_def intro!: does_return)
qed

lemma does_gateOnJob:
  assumes "mget (pod_Annotations p) AnnotationAssignedPMJ = n" "tidy (w_live w)" "honest w" "coherent w"
    and "cached = store_get pmj_Name (cl_jobs (w_cache w))"
  shows "does (gateWrite order cached p) (gateOnJob G p n) (\<lambda>_ _. True) w"
  unfolding gateOnJob_def get_job_def using assms
  by (auto simp: view_def split: sum.splits intro!: does_bind does_read does_return does_releaseCold does_decideRelease [where n = n] dest: store_get_key simp: coherent_def)

lemma does_reconcileGated:
  assumes "tidy (w_live w)" "honest w" "coherent w" and cached: "cached = store_get pmj_Name (cl_jobs (w_cache w))"
  shows "does (gateWrite order cached p) (reconcileGated G p) (\<lambda>_ _. True) w"
proof -
  let ?n = "mget (pod_Annotations p) AnnotationAssignedPMJ"
  have assigned: "does (gateWrite order cached p) (gateAssigned G p ?n pa) (\<lambda>_ _. True) (w\<lparr>w_calls := k\<rparr>)" for pa k
    unfolding gateAssigned_def using assms
    by (intro does_bind does_reads wp_ResolveCollisionI)
      (auto intro!: does_return does_releaseCold does_updateAndReturn does_gateOnJob)
  show ?thesis
    unfolding reconcileGated_def Let_def
    by (auto intro!: does_return does_releaseCold does_bind does_onlyReads [OF reads_ResolveParent] assigned split: sum.splits)
qed

lemma gate_writes:
  assumes "tidy (w_live w)" "honest w" "coherent w" "run_state (Gate_Reconcile G name) w = (res, w')" "store_get pod_Name (cl_pods (w_cache w)) name = Some p"
  shows "adds (gateWrite order (store_get pmj_Name (cl_jobs (w_cache w))) p) w w'"
proof -
  have "does (gateWrite order (store_get pmj_Name (cl_jobs (w_cache w))) p) (Gate_Reconcile G name) (\<lambda>_ _. True) w"
    unfolding Gate_Reconcile_def get_pod_def using assms(1,2,3,5)
    by (auto simp: view_def split: sum.splits intro!: does_bind does_read does_return does_reconcileGated)
  from does_run [OF this assms(4)] show ?thesis by simp
qed

end

subsection \<open>The controller of cmd/main.go\<close>

lemma gke_good: "goodOrderer GKE_InspectRestoreOrder gkeOrderer"
  unfolding goodOrderer_def using gkeOrd.restore_orderer_axioms
  by (simp add: gkeOrderer_def GKE_OrderColdStartBypass_def)

lemma gke_ordererOf: "eng = None \<or> eng = Some (gkeEngine K rd) \<Longrightarrow> ordererOf eng = gkeOrderer"
  by (auto simp: ordererOf_def gkeEngine_def)

lemma gke_get [simp]: "ordererOf (reg_Get (gkeRegistry K rs) name) = gkeOrderer"
  by (simp add: reg_Get_def gkeRegistry_def gke_ordererOf)

lemma gke_found: "reg_Get (gkeRegistry K rs) name = Some e \<Longrightarrow> ordererOf (Some e) = gkeOrderer"
  using gke_get [of K rs name] by simp

lemma main_job_orderer: "jobRestoreOrderer (mainGate K (gkeRegistry K rs)) job = Inr R \<Longrightarrow> R = gkeOrderer"
  by (auto simp: jobRestoreOrderer_def mainGate_def ForJob_def defaultLocked_def Let_def gke_found gke_ordererOf
      split: sum.splits option.splits if_splits)

lemma main_pod_orderer: "wp (podRestoreOrderer (mainGate K (gkeRegistry K rs)) p) (\<lambda>R w'. R = gkeOrderer \<and> (\<exists>k. w' = w\<lparr>w_calls := k\<rparr>)) w"
proof -
  have "ordererOf (case ForPod K (gkeRegistry K rs) (Some p) pm of None \<Rightarrow> None | Some eng \<Rightarrow> eng) = gkeOrderer" for pm
    by (simp add: ForPod_def gke_ordererOf split: option.splits)
  then show ?thesis
    by (auto simp: podRestoreOrderer_def mainGate_def ActivePodMigration_def list_podmigrations_def wp_simps intro!: wp_readI)
qed

interpretation mainGate: gate_engines "mainGate K (gkeRegistry K rs)" GKE_InspectRestoreOrder for K rs
proof
  show "wp (podRestoreOrderer (mainGate K (gkeRegistry K rs)) p) (\<lambda>R w'. goodOrderer GKE_InspectRestoreOrder R \<and> (\<exists>k. w' = w\<lparr>w_calls := k\<rparr>)) w" for p w
    by (rule wp_mono [OF main_pod_orderer]) (auto simp: gke_good)
qed (auto simp: mainGate_def gke_good removeGate_def GKE_InspectRestoreOrder_def dest!: main_job_orderer [unfolded mainGate_def])

subsection \<open>Properties\<close>

lemma adds_write: "adds P w w' \<Longrightarrow> (e, c) \<in> set (w_log w') \<Longrightarrow> (e, c) \<notin> set (w_log w) \<Longrightarrow> \<exists>c'. P e c c'"
  unfolding adds_def using chain_invariant(2) [of P "w_live w" _ "w_live w'" "\<lambda>_. True" e c] by auto

lemma main_gate_update:
  assumes "NewDefaultRegistry K Live policy = Inr engines" and "tidy (w_live w)" and "honest w" and "coherent w" and "w_log w = []"
    and "store_get pod_Name (cl_pods (w_cache w)) name = Some p"
    and "run_state (Gate_Reconcile (mainGate K engines) name) w = (res, w')" and "(e, c) \<in> set (w_log w')"
  shows "\<exists>c'. gateWrite GKE_InspectRestoreOrder (store_get pmj_Name (cl_jobs (w_cache w))) p e c c'"
proof -
  obtain rs where G: "engines = gkeRegistry K rs" using default_registry [OF assms(1)] by blast
  have "adds (gateWrite GKE_InspectRestoreOrder (store_get pmj_Name (cl_jobs (w_cache w))) p) w w'"
    using mainGate.gate_writes [OF assms(2-4) _ assms(6)] assms(7) G by blast
  from adds_write [OF this assms(8)] assms(5) show ?thesis by simp
qed

lemma ungated_pod_is_left_alone:
  assumes "store_get pod_Name (cl_pods (w_cache w)) name = Some p" "\<not> podHasMigrationGate p"
    and "run_state (Gate_Reconcile G name) w = (res, w')" and "w_log w = []"
  shows "(e, c) \<notin> set (w_log w')"
proof
  assume e: "(e, c) \<in> set (w_log w')"
  have "does (\<lambda>_ _ _. False) (Gate_Reconcile G name) (\<lambda>_ _. True) w"
    using assms(1,2) unfolding Gate_Reconcile_def get_pod_def reconcileGated_def Let_def
    by (auto simp: view_def split: sum.splits intro!: does_bind does_read does_return)
  from adds_write [OF conjunct1 [OF does_run [OF this assms(3)]] e] assms(4) show False by simp
qed

text \<open>
  C2 (safety). A pod leaves its gate only with an explicit order for the runtime. Either the
  order is the cold-start bypass, or the pod restores the snapshot of the job it is assigned to:
  that job is durable (Restoring or Succeeded, with a snapshot), and the API server already
  holds the record that this pod's gate is released. And the controller records this pod as the consumer of a
  job, at the version of the job that it read, only if the job was not consumed, or if it is restoring and its
  recorded consumer is gone and never left its gate. It holds for a stale cache, as long as a
  resource version identifies a version of a job and no failed call claims NotFound, and for every pattern of failed calls.
\<close>

theorem gate_release_is_ordered:
  assumes "NewDefaultRegistry K Live policy = Inr engines" and "tidy (w_live w)" and "honest w" and "coherent w" and "w_log w = []"
    and "store_get pod_Name (cl_pods (w_cache w)) name = Some p"
    and "run_state (Gate_Reconcile (mainGate K engines) name) w = (res, w')" and "(e, c) \<in> set (w_log w')"
  shows "(\<forall>q. e = UpdatePod q \<and> \<not> podHasMigrationGate q \<longrightarrow> podHasMigrationGate p \<and>
      (coldRelease GKE_InspectRestoreOrder q \<or> restoreRelease GKE_InspectRestoreOrder (store_get pmj_Name (cl_jobs (w_cache w))) p q c)) \<and>
    (\<forall>job. e = UpdateJobStatus job \<longrightarrow> (\<exists>j l. store_get pmj_Name (cl_jobs (w_cache w)) (pmj_Name job) = Some j \<and>
      store_get pmj_Name (cl_jobs c) (pmj_Name job) = Some l \<and> pmj_ResourceVersion l = pmj_ResourceVersion j \<and> claimStep p j job c))"
proof -
  obtain c' where q: "gateWrite GKE_InspectRestoreOrder (store_get pmj_Name (cl_jobs (w_cache w))) p e c c'"
    using main_gate_update [OF assms] by blast
  moreover have "podHasMigrationGate p" using ungated_pod_is_left_alone [OF assms(6) _ assms(7,5)] assms(8) by blast
  ultimately show ?thesis by (auto simp: gateWrite_def podHasMigrationGate_def)
qed

definition gatedPod :: pod where
  "gatedPod = (podOf ''web-0'' ''u9'')\<lparr>pod_SchedulingGates := [MigrationGateName], pod_Annotations := [AnnotationAssignedPMJ \<mapsto> ''pmj-web-0'']\<rparr>"

definition durableJob :: pmj where
  "durableJob = setStatus (\<lambda>s. s\<lparr>st_SnapshotRef := ''snap-1''\<rparr>) (jobOf ''pmj-web-0'' ''web-0'' ''u0'' PhaseRestoring)"

definition gateScene :: cluster where
  "gateScene = clusterOf [gatedPod] [durableJob]"

lemma gateScene_lookups:
  "store_get pod_Name (cl_pods gateScene) ''web-0'' = Some gatedPod" "store_get pmj_Name (cl_jobs gateScene) ''pmj-web-0'' = Some durableJob"
  by (simp_all add: gateScene_def clusterOf_def store_get_def gatedPod_def durableJob_def setStatus_def podOf_def jobOf_def)

lemma worldOf_coherent: "coherent (worldOf c)"
  unfolding coherent_def sameVersion_def worldOf_live using store_get_key by (metis option.inject)

lemma gateScene_tidy: "tidy gateScene"
  by (simp add: tidy_def gateScene_def clusterOf_def store_get_def durableJob_def setStatus_def jobOf_def)

lemma gate_release_is_ordered_witness:
  "\<exists>q c. (UpdatePod q, c) \<in> set (w_log (snd (run_state (Gate_Reconcile (mainGate sampleLib stockRegistry) ''web-0'') (worldOf gateScene)))) \<and>
     restoreRelease GKE_InspectRestoreOrder (store_get pmj_Name (cl_jobs gateScene)) gatedPod q c"
proof -
  let ?run = "run_state (Gate_Reconcile (mainGate sampleLib stockRegistry) ''web-0'') (worldOf gateScene)"
  have "list_ex (\<lambda>(e, c). case e of UpdatePod q \<Rightarrow> \<not> podHasMigrationGate q \<and> GKE_InspectRestoreOrder q \<noteq> ([], True, True) | _ \<Rightarrow> False) (w_log (snd ?run))"
    by code_simp
  then obtain q c where q: "(UpdatePod q, c) \<in> set (w_log (snd ?run))" "\<not> podHasMigrationGate q" "GKE_InspectRestoreOrder q \<noteq> ([], True, True)"
    by (auto simp: list_ex_iff split: effect.splits)
  have run: "?run = (fst ?run, snd ?run)" by simp
  have "podHasMigrationGate gatedPod \<and> (coldRelease GKE_InspectRestoreOrder q \<or>
      restoreRelease GKE_InspectRestoreOrder (store_get pmj_Name (cl_jobs (w_cache (worldOf gateScene)))) gatedPod q c)"
    using gate_release_is_ordered [OF stock_registry _ worldOf_honest worldOf_coherent worldOf_log _ run q(1), of gatedPod] q(2)
    by (simp add: gateScene_tidy gateScene_lookups)
  with q show ?thesis by (auto simp: coldRelease_def)
qed

subsection \<open>The gate opens\<close>

text \<open>The only one assigned to the job, the job's source apart.\<close>

definition soleClaimant :: "cluster \<Rightarrow> pmj \<Rightarrow> bool" where
  "soleClaimant c job \<longleftrightarrow> length (contendersOf job (filter (\<lambda>p. pmj_Name job \<in> set (PodAssignedPMJIndexValue p)) (cl_pods c))) \<le> 1"

lemma wp_resolveOwners_served:
  "served w \<Longrightarrow> (\<And>r k. (\<And>e. r = Inl e \<Longrightarrow> isNotFound e) \<Longrightarrow> Q r (w\<lparr>w_calls := k\<rparr>)) \<Longrightarrow> wp (resolveOwners rd refs fb) Q w"
proof (induction refs arbitrary: fb)
  case (Cons ref refs)
  have "Q (Inr x) w" for x using Cons.prems(2) [of "Inr x" "w_calls w"] by simp
  with Cons show ?case
    by (auto simp: wp_simps wp_read_served get_replicaset_def found_def err_def isNotFound_def split: option.splits intro!: Cons.prems(2))
next
  case Nil
  then show ?case using Nil(2) [of "Inr _" "w_calls w"] by (simp add: wp_simps)
qed

lemma wp_Gate_served:
  assumes w: "served w" and p: "store_get pod_Name (cl_pods (w_cache w)) name = Some p" "podHasMigrationGate p" "pod_DeletionTimestamp p = None"
      "mget (pod_Annotations p) AnnotationAssignedPMJ = n" "n \<noteq> []"
    and Q: "\<And>pa k. wp (gateAssigned G p n pa) Q (w\<lparr>w_calls := k\<rparr>)"
  shows "wp (Gate_Reconcile G name) Q w"
proof -
  have "wp (reconcileGated G p) Q (w\<lparr>w_calls := k\<rparr>)" for k
    unfolding reconcileGated_def Let_def ResolveParentWorkload_def p(4) using p(2,3,5) w
    by (auto simp: wp_simps intro!: wp_resolveOwners_served Q split: sum.splits)
  with w p(1) show ?thesis
    by (simp add: Gate_Reconcile_def get_pod_def wp_simps wp_read_served view_def found_def)
qed

lemma wp_ungate_served:
  assumes "served w" "store_get pod_Name (cl_pods (w_live w)) (pod_Name p) = Some l" "pod_UID l = pod_UID p" "pod_ResourceVersion l = pod_ResourceVersion p"
    and "\<And>w' q. store_get pod_Name (cl_pods (w_live w')) (pod_Name p) = Some q \<Longrightarrow> \<not> podHasMigrationGate q \<Longrightarrow> pod_UID q = pod_UID p \<Longrightarrow>
       pod_Annotations q = pod_Annotations p \<Longrightarrow> cl_jobs (w_live w') = cl_jobs (w_live w) \<Longrightarrow> Q (Inr no_requeue) w'"
  shows "wp (ungate G p) Q w"
  unfolding ungate_def update_pod_def recordReleased_def using assms store_get_key [OF assms(2)]
  by (auto simp: wp_simps precond_def podHasMigrationGate_def removeGate_def store_get_put intro!: wp_write_pod_served [OF assms(1)])

text \<open>The outcome of a release: the pod is out of its gate with the restore order, the job records it.\<close>

definition releasedTo :: "cluster \<Rightarrow> pod \<Rightarrow> string \<Rightarrow> string \<Rightarrow> bool" where
  "releasedTo c p n ref \<longleftrightarrow>
     (\<exists>q. store_get pod_Name (cl_pods c) (pod_Name p) = Some q \<and> pod_UID q = pod_UID p \<and> \<not> podHasMigrationGate q \<and>
          pod_Annotations q psNameAnnotation = Some ref) \<and>
     (\<exists>l. store_get pmj_Name (cl_jobs c) n = Some l \<and> claims (pod_UID p) l \<and> st_GateReleased (pmj_Status l))"

lemma wp_orderAndRelease_served:
  assumes "served w" "tidy (w_live w)" "store_get pod_Name (cl_pods (w_live w)) (pod_Name p) = Some p"
    and j: "store_get pmj_Name (cl_jobs (w_live w)) n = Some j" "durable j" "\<not> st_Consumed (pmj_Status j)"
    and "jobRestoreOrderer G j = Inr gkeOrderer"
    and Q: "\<And>w'. releasedTo (w_live w') p n (st_SnapshotRef (pmj_Status j)) \<Longrightarrow> Q (Inr no_requeue) w'"
  shows "wp (orderAndRelease G p j) Q w"
proof -
  let ?p = "p\<lparr>pod_Annotations := (pod_Annotations p)(psNameAnnotation \<mapsto> st_SnapshotRef (pmj_Status j))\<rparr>"
  have ord: "OrderRestore gkeOrderer p j = Inr ?p" using j(2) by (simp add: gkeOrderer_def GKE_OrderRestore_def durable_def)
  have name: "pmj_Name j = n" using store_get_key [OF j(1)] by simp
  have marked: "wp (markGateReleased l) (\<lambda>m. wp (case m of Inl e \<Rightarrow> State_Monad.return (Inl e) | Inr _ \<Rightarrow> ungate G ?p) Q) w1"
    if w1: "served w1" "tidy (w_live w1)" "cl_pods (w_live w1) = cl_pods (w_live w)"
      and l: "store_get pmj_Name (cl_jobs (w_live w1)) n = Some l" "claims (pod_UID p) l" "\<not> st_GateReleased (pmj_Status l)" for w1 l
  proof -
    have nl: "pmj_Name l = n" using store_get_key [OF l(1)] by simp
    have put: "put_job (l\<lparr>pmj_Status := s, pmj_ResourceVersion := v\<rparr>) (cl_jobs (w_live w1)) = store_put pmj_Name (l\<lparr>pmj_Status := s, pmj_ResourceVersion := v\<rparr>) (cl_jobs (w_live w1))" for s v
      by (rule put_job_status [OF w1(2) l(1)])
    show ?thesis
      using l(3) nl l(1) w1 l(2) assms(3) unfolding markGateReleased_def patchStatus_def
      by (auto simp: wp_simps setStatus_def merge_released put store_get_put releasedTo_def claims_def
          intro!: wp_write_job_served [OF w1(1)] wp_ungate_served Q)
  qed
  have put: "put_job (j\<lparr>pmj_Status := s, pmj_ResourceVersion := v\<rparr>) (cl_jobs (w_live w)) = store_put pmj_Name (j\<lparr>pmj_Status := s, pmj_ResourceVersion := v\<rparr>) (cl_jobs (w_live w))" for s v
    by (rule put_job_status [OF assms(2) j(1)])
  have "wp (markConsumed ?p j) (\<lambda>c. wp (case c of Inl e \<Rightarrow> State_Monad.return (Inl e) | Inr l \<Rightarrow> do {
      m \<leftarrow> markGateReleased l; (case m of Inl e \<Rightarrow> State_Monad.return (Inl e) | Inr _ \<Rightarrow> ungate G ?p) }) Q) w"
    unfolding markConsumed_def updateJobStatus_def using j name assms(1) tidy_put_job [OF assms(2), of "j\<lparr>pmj_Status := _, pmj_ResourceVersion := _\<rparr>", unfolded put]
    by (auto simp: wp_simps put store_get_put restoredBy_def consumedBy_def setStatus_def claims_def
        intro!: wp_write_job_served [OF assms(1)] marked)
  with assms(7) ord show ?thesis by (simp add: orderAndRelease_def wp_simps)
qed

text \<open>
  C16 (liveness). A gated replacement pod is not left waiting: once its job's snapshot is durable
  and not consumed, one reconcile with an up-to-date cache in which no call fails lets the pod go
  with the order to restore exactly that snapshot, and leaves the job marked as consumed by this
  pod with its gate released.
\<close>

theorem gate_opens_for_durable_job:
  assumes "NewDefaultRegistry K Live policy = Inr engines" and w: "served w" "w_cache w = w_live w" "tidy (w_live w)"
    and p: "store_get pod_Name (cl_pods (w_live w)) name = Some p" "podHasMigrationGate p" "pod_DeletionTimestamp p = None"
      "mget (pod_Annotations p) AnnotationAssignedPMJ = n" "n \<noteq> []"
    and j: "store_get pmj_Name (cl_jobs (w_live w)) n = Some j" "durable j" "\<not> st_Consumed (pmj_Status j)" "soleClaimant (w_live w) j"
      "trimSpace (mget (pmj_Annotations j) AnnotationEngine) \<in> {[], GKEPodSnapshotsName}"
  shows "\<exists>w'. run_state (Gate_Reconcile (mainGate K engines) name) w = (Inr no_requeue, w') \<and>
     releasedTo (w_live w') p n (st_SnapshotRef (pmj_Status j))"
proof -
  obtain rs where G: "engines = gkeRegistry K rs" using default_registry [OF assms(1)] by blast
  have o': "jobRestoreOrderer (mainGate K engines) j = Inr gkeOrderer"
    using j(5) by (auto simp: G jobRestoreOrderer_def mainGate_def ForJob_def defaultLocked_def reg_Get_def gkeRegistry_def gke_ordererOf Let_def)
  let ?Q = "\<lambda>r w'. r = Inr no_requeue \<and> releasedTo (w_live w') p n (st_SnapshotRef (pmj_Status j))"
  have names: "pod_Name p = name" "pmj_Name j = n" using store_get_key [OF p(1)] store_get_key [OF j(1)] by auto
  have decide: "wp (decideRelease (mainGate K engines) p j) ?Q (w\<lparr>w_calls := k\<rparr>)" for k
  proof -
    have "wp (orderAndRelease (mainGate K engines) p j) ?Q (w\<lparr>w_calls := k\<rparr>)"
      using w p j o' names by (intro wp_orderAndRelease_served [where n = n]) auto
    with j(2,3) show ?thesis by (auto simp: decideRelease_def durableRelease_def durable_def Let_def)
  qed
  have "wp (gateAssigned (mainGate K engines) p n pa) ?Q (w\<lparr>w_calls := k\<rparr>)" for pa k
    using w(1,2) j(1,4) names decide
    by (simp add: gateAssigned_def ResolveCollision_def gateOnJob_def get_job_def list_pods_assigned_def wp_simps wp_read_served view_def soleClaimant_def found_def Let_def)
  then have "wp (Gate_Reconcile (mainGate K engines) name) ?Q w"
    using w(1,2) p by (intro wp_Gate_served [where p = p and n = n]) auto
  then show ?thesis by (rule wp_returns)
qed

lemma gate_opens_for_durable_job_witness:
  "\<exists>w'. run_state (Gate_Reconcile (mainGate sampleLib stockRegistry) ''web-0'') (worldOf gateScene) = (Inr no_requeue, w') \<and>
     releasedTo (w_live w') gatedPod ''pmj-web-0'' ''snap-1''"
proof -
  have "\<exists>w'. run_state (Gate_Reconcile (mainGate sampleLib stockRegistry) ''web-0'') (worldOf gateScene) = (Inr no_requeue, w') \<and>
     releasedTo (w_live w') gatedPod ''pmj-web-0'' (st_SnapshotRef (pmj_Status durableJob))"
    by (rule gate_opens_for_durable_job [OF stock_registry])
      (simp_all add: gateScene_tidy gateScene_lookups, simp_all add: gatedPod_def durableJob_def scenario_defs setStatus_def durable_def
        podHasMigrationGate_def served_def soleClaimant_def gateScene_def PodAssignedPMJIndexValue_def contendersOf_def trimSpace_def)
  then show ?thesis by (simp add: durableJob_def setStatus_def jobOf_def statusOf_def)
qed

text \<open>
  C17 (safety). As long as the assigned job is, in the cache, still on its way to a durable snapshot (before
  Restoring), a gated pod that is the only one assigned to that job is left alone, whatever calls fail as long as none claims
  NotFound: the reconcile makes no write at all, so the gate stays, and it looks again in thirty seconds. (A pod that
  loses a collision over its job is not covered.)
\<close>

theorem gate_waits_for_the_job:
  assumes "honest w" and p: "store_get pod_Name (cl_pods (w_cache w)) name = Some p"
      "mget (pod_Annotations p) AnnotationAssignedPMJ = n" "n \<noteq> []"
    and j: "store_get pmj_Name (cl_jobs (w_cache w)) n = Some j" "st_Phase (pmj_Status j) < PhaseRestoring" "soleClaimant (w_cache w) j"
    and run: "run_state (Gate_Reconcile G name) w = (res, w')"
  shows "w_live w' = w_live w \<and> w_log w' = w_log w \<and>
    (\<forall>r. res = Inr r \<longrightarrow> r = (if podHasMigrationGate p \<and> pod_DeletionTimestamp p = None then requeue_after (30 * second) else no_requeue))"
proof -
  let ?wait = "podHasMigrationGate p \<and> pod_DeletionTimestamp p = None"
  let ?Q = "\<lambda>r u. w_live u = w_live w \<and> w_log u = w_log w \<and> (\<forall>x. r = Inr x \<longrightarrow> x = (if ?wait then requeue_after (30 * second) else no_requeue))"
  have ph: "\<not> (st_Phase (pmj_Status j) = PhaseRestoring \<or> st_Phase (pmj_Status j) = PhaseSucceeded \<or>
      st_Phase (pmj_Status j) = PhaseSucceededWithoutRestore \<or> st_Phase (pmj_Status j) = PhaseFailed)"
    using j(2) by (auto simp: less_phase_def)
  have name: "pmj_Name j = n" using store_get_key [OF j(1)] by simp
  have "wp (gateAssigned G p n pa) ?Q (w\<lparr>w_calls := k\<rparr>)" if ?wait for pa k
    using assms(1) j(1,3) ph name that
    by (auto simp: gateAssigned_def gateOnJob_def get_job_def decideRelease_def view_def soleClaimant_def found_def denial_def wp_simps Let_def
        intro!: wp_ResolveCollisionI wp_read_honestI)
  then have "wp (Gate_Reconcile G name) ?Q w"
    using p assms(1)
    by (auto simp: Gate_Reconcile_def reconcileGated_def get_pod_def view_def found_def denial_def wp_simps Let_def
        intro!: wp_read_honestI wp_onlyReads [OF reads_ResolveParent] split: sum.splits)
  from wp_run [OF this run] show ?thesis by auto
qed

lemma gate_waits_for_the_job_witness:
  "\<exists>w'. run_state (Gate_Reconcile (mainGate sampleLib stockRegistry) ''web-0'') (worldOf (clusterOf [gatedPod] [jobOf ''pmj-web-0'' ''web-0'' ''u0'' PhaseEvicting])) =
     (Inr (requeue_after (30 * second)), w') \<and> w_log w' = []"
proof -
  let ?c = "clusterOf [gatedPod] [jobOf ''pmj-web-0'' ''web-0'' ''u0'' PhaseEvicting]"
  let ?run = "run_state (Gate_Reconcile (mainGate sampleLib stockRegistry) ''web-0'') (worldOf ?c)"
  have "fst ?run = Inr (requeue_after (30 * second))" by code_simp
  then have run: "?run = (Inr (requeue_after (30 * second)), snd ?run)" by (metis prod.collapse)
  have "w_log (snd ?run) = w_log (worldOf ?c)"
    using gate_waits_for_the_job [where p = gatedPod and n = "''pmj-web-0''" and j = "jobOf ''pmj-web-0'' ''web-0'' ''u0'' PhaseEvicting",
        OF worldOf_honest _ _ _ _ _ _ run]
    by (simp add: gatedPod_def scenario_defs store_get_def less_phase_def soleClaimant_def contendersOf_def)
  then show ?thesis using run by fastforce
qed

end
