(* ===== verification/Eviction.thy ===== *)
theory Eviction
  imports Gate
begin

text \<open>
  The eviction webhook (\<open>webhook/eviction_webhook.go\<close>), which answers every eviction request
  and turns the eviction of an opted-in pod into a migration.

  \<^item> \<open>response\<close> is \<open>admission.Response\<close>: allowed, denied with a code, failed with a code, a patched
    object, or a panic of the handler.
  \<^item> \<open>evictionGate\<close> is \<open>EvictionGate\<close>; \<open>Eviction_Handle\<close> is its \<open>Handle\<close>, split where the code
    returns. The budget of the context is \<open>handlerBudget\<close>; a call that runs into it fails, which
    is one of the failures of the oracle.
  \<^item> \<open>evictionWrite\<close> says what the webhook may write.
\<close>

section \<open>Definitions\<close>

datatype 'a response = Allowed string | Denied int string | Errored int string | Patched 'a | Panicked

record evictionGate =
  eg_lib :: kubelib
  eg_APIReader :: bool
  eg_Recorder :: bool
  eg_DefaultMigrationTimeout :: duration
  eg_Eligibility :: "runtimeClassPolicy option"
  eg_Engines :: "registry option"

record request =
  rq_Name :: string
  rq_Namespace :: string
  rq_SubResource :: string
  rq_DryRun :: bool

subsection \<open>The time budget\<close>

definition defaultHandlerBudget :: duration where
  "defaultHandlerBudget = 4 * second"

definition contextWithAdmissionTimeout :: "kubelib \<Rightarrow> string \<Rightarrow> duration option" where
  "contextWithAdmissionTimeout K timeoutParam =
     (case parseDuration K timeoutParam of None \<Rightarrow> None | Some d \<Rightarrow> if d \<le> 0 then None else Some d)"

definition handlerBudget :: "duration option \<Rightarrow> duration" where
  "handlerBudget ctx = (case ctx of Some d \<Rightarrow> wrap64 (d - quot d 5) | None \<Rightarrow> defaultHandlerBudget)"

subsection \<open>Answers\<close>

definition denied404 :: "string \<Rightarrow> 'a response" where
  "denied404 msg = Denied 404 msg"

definition denied429 :: "string \<Rightarrow> 'a response" where
  "denied429 msg = Denied 429 msg"

definition evictionEvent :: "evictionGate \<Rightarrow> pod \<Rightarrow> string \<Rightarrow> string \<Rightarrow> unit io" where
  "evictionEvent E p typ reason = (if eg_Recorder E then emitEvent (pod_Name p) typ reason else State_Monad.return ())"

definition skip :: "evictionGate \<Rightarrow> pod \<Rightarrow> string \<Rightarrow> string \<Rightarrow> unit response io" where
  "skip E p reason msg = do {
     evictionEvent E p EventTypeWarning reason;
     State_Monad.return (Allowed msg)
   }"

subsection \<open>The job that restored this pod\<close>

definition staleOriginDrainPostCompletionWindow :: duration where
  "staleOriginDrainPostCompletionWindow = 15 * second"

text \<open>A cache miss is confirmed on the API server.\<close>

definition getJobFresh :: "evictionGate \<Rightarrow> string \<Rightarrow> (api_error + pmj) io" where
  "getJobFresh E name = do {
     g \<leftarrow> get_job Cached name;
     (case g of
        Inr job \<Rightarrow> State_Monad.return (Inr job)
      | Inl e \<Rightarrow> if isNotFound e \<and> eg_APIReader E then get_job Live name else State_Monad.return (Inl e))
   }"

definition destinationCordoned :: "pod \<Rightarrow> bool option io" where
  "destinationCordoned p =
     (if pod_NodeName p = [] then State_Monad.return (Some False)
      else do {
        g \<leftarrow> get_node Cached (pod_NodeName p);
        State_Monad.return (case g of Inl _ \<Rightarrow> None | Inr nd \<Rightarrow> Some (nd_Unschedulable nd))
      })"

definition isStaleOriginDrainRetry :: "pod \<Rightarrow> pmj \<Rightarrow> bool io" where
  "isStaleOriginDrainRetry p job =
     (let origin = st_OriginNodeName (pmj_Status job) in
      if pmj_PodRefName job \<noteq> pod_Name p \<or> pmj_TargetPodUID job = pod_UID p then State_Monad.return False
      else if origin = [] \<or> pod_NodeName p = origin then State_Monad.return False
      else do {
        d \<leftarrow> destinationCordoned p;
        (if d \<noteq> Some False then State_Monad.return False
         else do {
           g \<leftarrow> get_node Cached origin;
           State_Monad.return (case g of Inl _ \<Rightarrow> False | Inr nd \<Rightarrow> nd_Unschedulable nd)
         })
      })"

definition restoresInFlight :: "pmj \<Rightarrow> bool" where
  "restoresInFlight job = (st_Phase (pmj_Status job) \<in> {PhaseSnapshotting, PhaseEvicting, PhaseRestoring})"

definition recentlyCompleted :: "pmj \<Rightarrow> bool io" where
  "recentlyCompleted job =
     (case (st_Phase (pmj_Status job), st_CompletionTime (pmj_Status job)) of
        (PhaseSucceeded, Some t) \<Rightarrow> do {
          d \<leftarrow> timeSince t;
          State_Monad.return (d \<le> staleOriginDrainPostCompletionWindow)
        }
      | _ \<Rightarrow> State_Monad.return False)"

definition staleDrain :: "pod \<Rightarrow> pmj \<Rightarrow> bool \<Rightarrow> bool io" where
  "staleDrain p job inWindow = (if inWindow then isStaleOriginDrainRetry p job else State_Monad.return False)"

definition checkAssignedMigrationJob :: "evictionGate \<Rightarrow> pod \<Rightarrow> (api_error + (string \<times> bool)) io" where
  "checkAssignedMigrationJob E p =
     (let name = mget (pod_Annotations p) AnnotationAssignedPMJ in
      if name = [] then State_Monad.return (Inr ([], False))
      else do {
        g \<leftarrow> getJobFresh E name;
        (case g of
           Inl e \<Rightarrow> State_Monad.return (if isNotFound e then Inr ([], False) else Inl e)
         | Inr job \<Rightarrow>
             if st_RestoredPodUID (pmj_Status job) \<noteq> [] \<and> st_RestoredPodUID (pmj_Status job) \<noteq> pod_UID p
             then State_Monad.return (Inr ([], False))
             else do {
               recent \<leftarrow> recentlyCompleted job;
               stale \<leftarrow> staleDrain p job (restoresInFlight job \<or> recent);
               State_Monad.return (Inr
                 (if stale then (pmj_Name job, True)
                  else if restoresInFlight job then (pmj_Name job, False)
                  else ([], False)))
             })
      })"

subsection \<open>Starting a migration\<close>

definition newJob :: "evictionGate \<Rightarrow> request \<Rightarrow> pod \<Rightarrow> parent \<Rightarrow> engine \<Rightarrow> policyRef \<Rightarrow> pmj" where
  "newJob E req p pa eng policy =
     (case BuildPMJLabelsAndAnnotationsForPolicy (eg_lib E) p pa (pr_Name policy) (eg_DefaultMigrationTimeout E) TriggerSourceEviction of
        (lbls, anns) \<Rightarrow>
          \<lparr>pmj_Name = FormatPMJName (pod_Name p) (pod_UID p), pmj_Namespace = rq_Namespace req, pmj_UID = [], pmj_ResourceVersion = 0,
           pmj_Generation = 0, pmj_Labels = lbls, pmj_Annotations = anns(AnnotationEngine \<mapsto> eng_Name eng), pmj_Finalizers = [],
           pmj_OwnerReferences = [], pmj_CreationTimestamp = zero_time, pmj_DeletionTimestamp = None,
           pmj_PodRefName = rq_Name req, pmj_TargetPodUID = pod_UID p, pmj_Status = emptyStatus\<rparr>)"

definition spawnJob :: "evictionGate \<Rightarrow> pod \<Rightarrow> pmj \<Rightarrow> bool \<Rightarrow> unit response io" where
  "spawnJob E p job restarted = do {
     c \<leftarrow> createJob job;
     (case c of
        Inl e \<Rightarrow> State_Monad.return
          (if ae_reason e = AlreadyExists then denied429 ''migration job already exists, retrying''
           else denied429 ''failed to create migration job, retrying'')
      | Inr _ \<Rightarrow> do {
          (if restarted then evictionEvent E p EventTypeNormal ''MigrationRestartedAfterBudgetWait'' else State_Monad.return ());
          State_Monad.return (denied429 ''migration job spawned'')
        })
   }"

definition withPolicy :: "evictionGate \<Rightarrow> request \<Rightarrow> pod \<Rightarrow> parent \<Rightarrow> engine \<Rightarrow> bool \<Rightarrow> unit response io" where
  "withPolicy E req p pa eng restarted = do {
     r \<leftarrow> eng_ResolvePolicy eng p;
     (case r of
        Inl _ \<Rightarrow> State_Monad.return (denied429 ''transient error resolving snapshot policy, retrying'')
      | Inr None \<Rightarrow> skip E p ''MigrationSkippedNoPolicy'' ''skipping migration: no valid manual+stop policy found''
      | Inr (Some policy) \<Rightarrow> spawnJob E p (newJob E req p pa eng policy) restarted)
   }"

text \<open>An operator-owned pod is migrated only if its replica identity is unambiguous; \<open>None\<close> means that it is.\<close>

definition checkInFlightKey :: "evictionGate \<Rightarrow> pod \<Rightarrow> parent \<Rightarrow> string \<Rightarrow> unit response option io" where
  "checkInFlightKey E p pa key = do {
     a \<leftarrow> HasActivePMJWithReplicaKey Cached pa key (FormatPMJName (pod_Name p) (pod_UID p));
     (case a of
        Inl _ \<Rightarrow> State_Monad.return (Some (denied429 ''transient error checking PMJ replica key ambiguity, retrying''))
      | Inr (True, other) \<Rightarrow> do {
          r \<leftarrow> skip E p ''MigrationSkippedAmbiguousReplicaKey''
            (''skipping migration: operator-owned pod replica identity '' @ quoted key @ '' already in flight on job '' @ other);
          State_Monad.return (Some r)
        }
      | Inr (False, _) \<Rightarrow> State_Monad.return None)
   }"

definition checkSiblingKey :: "evictionGate \<Rightarrow> pod \<Rightarrow> parent \<Rightarrow> string \<Rightarrow> unit response option io" where
  "checkSiblingKey E p pa key = do {
     a \<leftarrow> HasAmbiguousOperatorSibling Cached pa key [pod_UID p, pod_Name p];
     (case a of
        Inl _ \<Rightarrow> State_Monad.return (Some (denied429 ''transient error checking replica key ambiguity, retrying''))
      | Inr (True, sibling) \<Rightarrow> do {
          r \<leftarrow> skip E p ''MigrationSkippedAmbiguousReplicaKey''
            (''skipping migration: operator-owned pod replica identity '' @ quoted key @ '' is ambiguous (shared with sibling pod '' @ sibling @ '')'');
          State_Monad.return (Some r)
        }
      | Inr (False, _) \<Rightarrow> checkInFlightKey E p pa key)
   }"

definition replicaKeyRefusal :: "evictionGate \<Rightarrow> pod \<Rightarrow> parent \<Rightarrow> unit response option io" where
  "replicaKeyRefusal E p pa =
     (if IsBuiltInWorkloadKind (pa_Kind pa) then State_Monad.return None
      else case ResolveOperatorReplicaKey p (pa_Kind pa) of
             None \<Rightarrow> do {
               r \<leftarrow> skip E p ''MigrationSkippedNoReplicaKey'' ''skipping migration: operator-owned pod has no resolvable replica identity key'';
               State_Monad.return (Some r)
             }
           | Some key \<Rightarrow>
               if key = [] then do {
                 r \<leftarrow> skip E p ''MigrationSkippedNoReplicaKey'' ''skipping migration: operator-owned pod has no resolvable replica identity key'';
                 State_Monad.return (Some r)
               }
               else checkSiblingKey E p pa key)"

definition withParent :: "evictionGate \<Rightarrow> request \<Rightarrow> pod \<Rightarrow> engine \<Rightarrow> bool \<Rightarrow> parent \<Rightarrow> unit response io" where
  "withParent E req p eng restarted pa = do {
     x \<leftarrow> replicaKeyRefusal E p pa;
     (case x of
        Some r \<Rightarrow> State_Monad.return r
      | None \<Rightarrow> withPolicy E req p pa eng restarted)
   }"

definition withEngine :: "evictionGate \<Rightarrow> request \<Rightarrow> pod \<Rightarrow> engine \<Rightarrow> bool \<Rightarrow> unit response io" where
  "withEngine E req p eng restarted =
     (if \<not> vd_OK (eng_Eligible eng (Some p) None) then State_Monad.return (Allowed (vd_Reason (eng_Eligible eng (Some p) None)))
      else case AllowsFencing (Some p) (Some eng) of
             (False, reason) \<Rightarrow> skip E p ''MigrationSkippedUnfencedEngine'' (''skipping migration: '' @ reason)
           | (True, _) \<Rightarrow> do {
               pa \<leftarrow> ResolveParentWorkload Cached p;
               (case pa of
                  Inl e \<Rightarrow>
                    if \<not> isNotFound e then State_Monad.return (denied429 ''transient error resolving parent workload, retrying'')
                    else withParent E req p eng restarted noParent
                | Inr parent \<Rightarrow> withParent E req p eng restarted parent)
             })"

text \<open>The pod's engine; the inner option is the nil engine of an unregistered name.\<close>

definition evictionEngineFor :: "evictionGate \<Rightarrow> pod \<Rightarrow> podMigration option \<Rightarrow> engine option option" where
  "evictionEngineFor E p pm =
     (case eg_Engines E of
        Some reg \<Rightarrow> ForPod (eg_lib E) reg (Some p) pm
      | None \<Rightarrow> Some (Some (gkeEngine (eg_lib E) Live)))"

definition pickEngine :: "evictionGate \<Rightarrow> request \<Rightarrow> pod \<Rightarrow> bool \<Rightarrow> unit response io" where
  "pickEngine E req p restarted = do {
     pm \<leftarrow> ActivePodMigration Cached;
     (case pm of
        Inl _ \<Rightarrow> State_Monad.return (denied429 ''transient error reading the namespace's PodMigration, retrying'')
      | Inr active \<Rightarrow>
          (case evictionEngineFor E p active of
             None \<Rightarrow> State_Monad.return (Allowed (''No snapshot engine serves runtime class '' @
                       RuntimeClassLabel (pod_RuntimeClassName p) @ '', skipping migration''))
           | Some None \<Rightarrow> State_Monad.return Panicked
           | Some (Some eng) \<Rightarrow> withEngine E req p eng restarted))
   }"

definition startMigration :: "evictionGate \<Rightarrow> request \<Rightarrow> pod \<Rightarrow> bool \<Rightarrow> unit response io" where
  "startMigration E req p restarted = do {
     c \<leftarrow> checkAssignedMigrationJob E p;
     (case c of
        Inl _ \<Rightarrow> State_Monad.return (denied429 ''transient error reading the migration job that restored this pod, retrying'')
      | Inr (restoringJob, staleOriginDrain) \<Rightarrow>
          if staleOriginDrain
          then State_Monad.return (denied404 (''origin pod '' @ pod_Name p @ '' was already evicted by migration job '' @ restoringJob @
                 '' and replaced by pod UID '' @ pod_UID p))
          else if restoringJob \<noteq> []
          then State_Monad.return (denied429 (''pod is still being restored by migration job '' @ restoringJob @ ''; retrying after that job concludes''))
          else if \<not> AreReadinessGatesSatisfied p
          then State_Monad.return (Allowed ''skipping migration: pod readiness gates not satisfied'')
          else pickEngine E req p restarted)
   }"

definition onExistingJob :: "evictionGate \<Rightarrow> request \<Rightarrow> pod \<Rightarrow> pmj \<Rightarrow> unit response io" where
  "onExistingJob E req p job =
     (let ph = st_Phase (pmj_Status job) in
      if ph = PhaseEvicting \<or> ph = PhaseSucceeded then State_Monad.return (Allowed ''migration checkpoint complete'')
      else if FailedOnDisruptionBudget job then do {
        d \<leftarrow> deleteJobUID (pmj_Name job) (pmj_UID job);
        (case d of
           Inl e \<Rightarrow>
             if \<not> isNotFound e
             then State_Monad.return (denied429 ''replacing a migration job that timed out waiting for the PodDisruptionBudget, retrying'')
             else startMigration E req p True
         | Inr _ \<Rightarrow> startMigration E req p True)
      }
      else if ph = PhaseFailed \<or> ph = PhaseSucceededWithoutRestore
      then State_Monad.return (Allowed ''migration concluded without restore, falling back to cold eviction'')
      else if WaitingForDisruptionBudget job
      then State_Monad.return (denied429 ''migration job waiting for the PodDisruptionBudget to allow a disruption; nothing has been checkpointed'')
      else State_Monad.return (denied429 (''migration job in progress: status '' @ phase_string ph)))"

definition handlePod :: "evictionGate \<Rightarrow> request \<Rightarrow> pod \<Rightarrow> unit response io" where
  "handlePod E req p =
     (if \<not> IsPodMigrationEnabled p then State_Monad.return (Allowed ''feature not enabled'')
      else if \<not> Allows (eg_lib E) (eg_Eligibility E) (pod_RuntimeClassName p)
      then State_Monad.return (Allowed (''Pod runtime class '' @ RuntimeClassLabel (pod_RuntimeClassName p) @
             '' is not migratable (allowed: '' @ policyString (eg_lib E) (eg_Eligibility E) @ ''), skipping migration''))
      else if HasPDBEvictionTimedOut p
      then State_Monad.return (Allowed ''skipping migration: prior migration timed out on PDB budget'')
      else do {
        g \<leftarrow> getJobFresh E (FormatPMJName (pod_Name p) (pod_UID p));
        (case g of
           Inr job \<Rightarrow> onExistingJob E req p job
         | Inl e \<Rightarrow>
             if \<not> isNotFound e then State_Monad.return (denied429 ''transient error reading migration job status, retrying'')
             else startMigration E req p False)
      })"

definition Eviction_Handle :: "evictionGate \<Rightarrow> request \<Rightarrow> unit response io" where
  "Eviction_Handle E req =
     (if rq_SubResource req \<noteq> ''eviction'' then State_Monad.return (Allowed ''not an eviction request'')
      else if rq_DryRun req then State_Monad.return (Allowed ''dry-run allowed'')
      else do {
        g \<leftarrow> get_pod Cached (rq_Name req);
        (case g of
           Inl e \<Rightarrow> State_Monad.return
             (if isNotFound e then Allowed ''pod already deleted'' else Allowed ''failing open due to transient error'')
         | Inr p \<Rightarrow> handlePod E req p)
      })"

text \<open>The webhook that \<open>SetupEvictionWebhookWithManager\<close> registers.\<close>

definition mainEviction :: "kubelib \<Rightarrow> registry \<Rightarrow> duration \<Rightarrow> runtimeClassPolicy option \<Rightarrow> evictionGate" where
  "mainEviction K engines timeout runtimeClasses = \<lparr>eg_lib = K, eg_APIReader = True, eg_Recorder = True,
     eg_DefaultMigrationTimeout = timeout, eg_Eligibility = runtimeClasses, eg_Engines = Some engines\<rparr>"

subsection \<open>What the webhook may write\<close>

text \<open>A pod that the operator and its owner want migrated, and whose migration did not time out on a budget.\<close>

definition migratable :: "evictionGate \<Rightarrow> pod \<Rightarrow> bool" where
  "migratable E p \<longleftrightarrow> IsPodMigrationEnabled p \<and> Allows (eg_lib E) (eg_Eligibility E) (pod_RuntimeClassName p) \<and> \<not> HasPDBEvictionTimedOut p"

text \<open>
  \<open>known\<close> are the jobs under the pod's job name that the webhook can have read: the cached one and the stored one.
\<close>

definition knownJobs :: "world \<Rightarrow> pod \<Rightarrow> pmj set" where
  "knownJobs w p = {j. \<exists>c \<in> {w_cache w, w_live w}. store_get pmj_Name (cl_jobs c) (FormatPMJName (pod_Name p) (pod_UID p)) = Some j}"

definition evictionWrite :: "evictionGate \<Rightarrow> request \<Rightarrow> pod \<Rightarrow> pmj set \<Rightarrow> effect \<Rightarrow> cluster \<Rightarrow> cluster \<Rightarrow> bool" where
  "evictionWrite E req p known e c c' =
     (let name = FormatPMJName (pod_Name p) (pod_UID p) in
      case e of
        CreateJob j \<Rightarrow> migratable E p \<and> AreReadinessGatesSatisfied p \<and>
          pmj_Name j = name \<and> pmj_TargetPodUID j = pod_UID p \<and> pmj_PodRefName j = rq_Name req \<and> pmj_Status j = emptyStatus \<and>
          store_get pmj_Name (cl_jobs c) name = None \<and> c' = c\<lparr>cl_jobs := store_put pmj_Name j (cl_jobs c)\<rparr>
      | DeleteJob n \<Rightarrow> migratable E p \<and> n = name \<and>
          (\<exists>j l. j \<in> known \<and> FailedOnDisruptionBudget j \<and> store_get pmj_Name (cl_jobs c) n = Some l \<and> (pmj_UID j \<noteq> [] \<longrightarrow> pmj_UID l = pmj_UID j))
      | Event _ _ _ \<Rightarrow> c' = c
      | _ \<Rightarrow> False)"

definition creations :: "world \<Rightarrow> nat" where
  "creations w = length (filter (\<lambda>x. case fst x of CreateJob _ \<Rightarrow> True | _ \<Rightarrow> False) (w_log w))"

definition noCreate :: "world \<Rightarrow> bool" where
  "noCreate w \<longleftrightarrow> creations w = 0"

text \<open>An answer is never a panic; at most one job is created, and then the answer is a refusal that the evictor retries.\<close>

definition answered :: "unit response \<Rightarrow> world \<Rightarrow> bool" where
  "answered r w \<longleftrightarrow> r \<noteq> Panicked \<and> (noCreate w \<or> creations w = 1 \<and> (\<exists>msg. r = Denied 429 msg))"

section \<open>Lemmas\<close>

text \<open>A read, when it matters whether the call was served.\<close>

lemma wp_read_faultI:
  assumes "honest w" and "\<And>e. w_fault w (w_calls w) \<noteq> Served \<Longrightarrow> \<not> denial e \<Longrightarrow> Q (Inl e) (w\<lparr>w_calls := Suc (w_calls w)\<rparr>)"
    and "w_fault w (w_calls w) = Served \<Longrightarrow> Q (f (w\<lparr>w_calls := Suc (w_calls w)\<rparr>)) (w\<lparr>w_calls := Suc (w_calls w)\<rparr>)"
  shows "wp (read_call f) Q w"
proof -
  have "\<not> denial e" if "w_fault w (w_calls w) = Refused e \<or> w_fault w (w_calls w) = LostReply e" for e
    using assms(1) that unfolding honest_def by (auto elim!: allE [of _ "w_calls w"])
  with assms(2,3) show ?thesis unfolding read_call_def wp_api_call Let_def by (auto split: fault.splits)
qed

lemma creations_calls [simp]: "creations (w\<lparr>w_calls := k\<rparr>) = creations w"
  by (simp add: creations_def)

lemma creations_snoc [simp]: "creations (u\<lparr>w_log := w_log w @ [(e, c)]\<rparr>) = creations w + (case e of CreateJob _ \<Rightarrow> 1 | _ \<Rightarrow> 0)"
  by (cases e) (simp_all add: creations_def)

lemma noCreate_calls [simp]: "noCreate (w\<lparr>w_calls := k\<rparr>) = noCreate w"
  by (simp add: noCreate_def)

lemma noCreate_snoc [simp]: "noCreate (u\<lparr>w_log := w_log w @ [(e, c)]\<rparr>) \<longleftrightarrow> noCreate w \<and> (\<forall>j. e \<noteq> CreateJob j)"
  by (cases e) (simp_all add: noCreate_def)

lemma answered_Denied429 [simp]: "answered (denied429 msg) w \<longleftrightarrow> creations w \<le> 1"
  by (auto simp: answered_def denied429_def noCreate_def)

lemma noCreate_le [simp]: "noCreate w \<Longrightarrow> creations w \<le> n" "noCreate w \<Longrightarrow> creations w = 0"
  by (simp_all add: noCreate_def)

lemma denied_not_Panicked [simp]: "denied429 msg \<noteq> Panicked" "denied404 msg \<noteq> Panicked"
  by (simp_all add: denied429_def denied404_def)

lemma answered_noCreate: "noCreate w \<Longrightarrow> r \<noteq> Panicked \<Longrightarrow> answered r w"
  by (simp add: answered_def)

lemma does_evictionEvent:
  assumes "\<And>w'. creations w' = creations w \<Longrightarrow> Q () w'"
  shows "does (evictionWrite E req p known) (evictionEvent E q typ rsn) Q w"
  unfolding evictionEvent_def using assms
  by (auto intro!: does_return does_event simp: evictionWrite_def)

lemma does_skip:
  assumes "noCreate w" and "\<And>w'. noCreate w' \<Longrightarrow> Q (Allowed msg) w'"
  shows "does (evictionWrite E req p known) (skip E q rsn msg) Q w"
  unfolding skip_def using assms by (auto simp: noCreate_def intro!: does_bind does_evictionEvent does_return)

lemma does_spawnJob:
  assumes "migratable E p" "AreReadinessGatesSatisfied p" "noCreate w"
    and "pmj_Name j = FormatPMJName (pod_Name p) (pod_UID p)" "pmj_TargetPodUID j = pod_UID p" "pmj_PodRefName j = rq_Name req"
  shows "does (evictionWrite E req p known) (spawnJob E p j restarted) answered w"
  unfolding spawnJob_def createJob_def using assms
  by (auto simp: evictionWrite_def admitted_def split: option.splits if_splits intro!: does_bind does_write does_return does_evictionEvent)

lemma newJob_simps [simp]:
  "pmj_Name (newJob E req p pa eng pol) = FormatPMJName (pod_Name p) (pod_UID p)" "pmj_TargetPodUID (newJob E req p pa eng pol) = pod_UID p"
  "pmj_PodRefName (newJob E req p pa eng pol) = rq_Name req"
  by (simp_all add: newJob_def BuildPMJLabelsAndAnnotationsForPolicy_def)

lemma reads_getJobFresh [reads_rules]: "onlyReads (getJobFresh E name)"
  unfolding getJobFresh_def by (rule reads_rules)+

lemma reads_recentlyCompleted [reads_rules]: "onlyReads (recentlyCompleted job)"
  by (auto simp: recentlyCompleted_def split: phase.splits option.splits intro!: reads_rules)

lemma reads_staleDrain [reads_rules]: "onlyReads (staleDrain p job b)"
  unfolding staleDrain_def isStaleOriginDrainRetry_def destinationCordoned_def Let_def by (rule reads_rules)+

lemma reads_checkAssigned [reads_rules]: "onlyReads (checkAssignedMigrationJob E p)"
  unfolding checkAssignedMigrationJob_def Let_def by (rule reads_rules)+

lemma does_replicaKeyRefusal:
  assumes "noCreate w"
  shows "does (evictionWrite E req p known) (replicaKeyRefusal E p pa) (\<lambda>x w'. noCreate w' \<and> x \<noteq> Some Panicked) w"
  unfolding replicaKeyRefusal_def checkSiblingKey_def checkInFlightKey_def using assms
  by (auto split: option.splits sum.splits bool.splits simp: denied429_def
      intro!: does_return does_bind does_skip does_onlyReads [OF reads_replicaKeys(1)] does_onlyReads [OF reads_replicaKeys(2)])

locale eviction_engines =
  fixes E :: evictionGate
  assumes engine: "evictionEngineFor E p pm = Some x \<Longrightarrow> \<exists>eng. x = Some eng \<and> (\<forall>q. onlyReads (eng_ResolvePolicy eng q))"
begin

lemma does_startMigration:
  assumes m: "migratable E p" and nc: "noCreate w"
  shows "does (evictionWrite E req p known) (startMigration E req p restarted) answered w"
proof -
  have policy: "does (evictionWrite E req p known) (withPolicy E req p pa eng restarted) answered w'"
    if "\<forall>q. onlyReads (eng_ResolvePolicy eng q)" "AreReadinessGatesSatisfied p" "noCreate w'" for pa eng w'
    unfolding withPolicy_def
    by (rule does_bind, rule does_onlyReads)
      (use that m in \<open>auto split: sum.splits option.splits intro!: does_return does_skip does_spawnJob answered_noCreate\<close>)
  have parent: "does (evictionWrite E req p known) (withParent E req p eng restarted pa) answered w'"
    if "\<forall>q. onlyReads (eng_ResolvePolicy eng q)" "AreReadinessGatesSatisfied p" "noCreate w'" for pa eng w'
    unfolding withParent_def using that
    by (intro does_bind does_mono [OF does_replicaKeyRefusal]) (auto split: option.splits intro!: does_return policy answered_noCreate)
  have eng: "does (evictionWrite E req p known) (withEngine E req p eng restarted) answered w'"
    if "\<forall>q. onlyReads (eng_ResolvePolicy eng q)" "AreReadinessGatesSatisfied p" "noCreate w'" for eng w'
    unfolding withEngine_def using that
    by (auto split: prod.splits bool.splits sum.splits
        intro!: does_return does_skip does_bind does_onlyReads [OF reads_ResolveParent] parent answered_noCreate)
  have pick: "does (evictionWrite E req p known) (pickEngine E req p restarted) answered w'"
    if "AreReadinessGatesSatisfied p" "noCreate w'" for w'
    unfolding pickEngine_def using that
    by (auto split: sum.splits option.splits intro!: does_bind does_onlyReads [OF reads_ActivePodMigration] does_return answered_noCreate eng dest!: engine)
  show ?thesis
    unfolding startMigration_def using nc
    by (auto split: sum.splits intro!: does_bind does_onlyReads [OF reads_checkAssigned] does_return pick answered_noCreate simp: denied404_def)
qed

lemma does_handlePod:
  assumes "noCreate w" and "known = knownJobs w p"
  shows "does (evictionWrite E req p known) (handlePod E req p) answered w"
proof -
  let ?name = "FormatPMJName (pod_Name p) (pod_UID p)"
  have existing: "does (evictionWrite E req p known) (onExistingJob E req p job) answered w'"
    if m: "migratable E p" and nc: "noCreate w'" and job: "pmj_Name job = ?name" "job \<in> known" for job w'
  proof -
    have "does (evictionWrite E req p known) (deleteJobUID (pmj_Name job) (pmj_UID job)) (\<lambda>_ v. noCreate v) w'" if "FailedOnDisruptionBudget job"
      unfolding deleteJobUID_def using that m nc job
      by (intro does_write) (auto simp: evictionWrite_def split: option.splits if_splits)
    then show ?thesis
      unfolding onExistingJob_def Let_def using m nc
      by (auto split: sum.splits intro!: does_return answered_noCreate does_bind does_startMigration elim!: does_mono)
  qed
  have named: "pmj_Name j = ?name" if "j \<in> known" for j
    using that assms(2) store_get_key [of pmj_Name] unfolding knownJobs_def by blast
  have fresh: "does (evictionWrite E req p known) (getJobFresh E ?name) (\<lambda>g v. noCreate v \<and> (\<forall>j. g = Inr j \<longrightarrow> j \<in> known)) w"
    unfolding getJobFresh_def get_job_def using assms
    by (auto split: sum.splits intro!: does_bind does_read does_return simp: found_def view_def knownJobs_def split: option.splits)
  show ?thesis
    unfolding handlePod_def using assms(1)
    by (auto intro!: does_return answered_noCreate does_bind does_mono [OF fresh] existing does_startMigration split: sum.splits simp: migratable_def named)
qed

lemma handle_writes:
  assumes "w_log w = []" "run_state (Eviction_Handle E req) w = (r, w')" "store_get pod_Name (cl_pods (w_cache w)) (rq_Name req) = Some p"
  shows "adds (evictionWrite E req p (knownJobs w p)) w w' \<and> answered r w'"
proof -
  have nc: "noCreate w" using assms(1) by (simp add: noCreate_def creations_def)
  have "does (evictionWrite E req p (knownJobs w p)) (Eviction_Handle E req) answered w"
    unfolding Eviction_Handle_def get_pod_def using assms(3) nc
    by (auto simp: view_def split: sum.splits intro!: does_return answered_noCreate does_bind does_read does_handlePod simp: knownJobs_def)
  from does_run [OF this assms(2)] show ?thesis .
qed

end

lemma reads_gke_policy: "onlyReads (eng_ResolvePolicy (gkeEngine K rd) p)"
  by (auto simp: gkeEngine_def GKE_ResolvePolicy_def FindLatestReadyManualStopPSP_def intro!: reads_rules)

interpretation mainEviction: eviction_engines "mainEviction K (gkeRoutes K cs) t pol" for K cs t pol
proof
  fix p pm x
  assume x: "evictionEngineFor (mainEviction K (gkeRoutes K cs) t pol) p pm = Some x"
  then have "ForPod K (gkeRoutes K cs) (Some p) pm = Some x" by (simp add: evictionEngineFor_def mainEviction_def)
  then have "x = Some (gkeEngine K Live)" by (rule gkeRoutes_ForPod)
  then show "\<exists>eng. x = Some eng \<and> (\<forall>q. onlyReads (eng_ResolvePolicy eng q))" using reads_gke_policy by blast
qed

subsection \<open>Properties\<close>

text \<open>
  C4 (safety). What the eviction webhook does to the cluster, whatever calls fail: it creates at
  most a job for exactly this instance of the pod (named after its name and UID, targeting its
  UID, with an empty status, and only if there is none of that name), and only for an opted-in
  pod of a migratable runtime class whose readiness gates are satisfied; it deletes only a job of
  that name which, as cached or stored, it read to have failed waiting for the disruption budget, and only the instance it read.
  At most one job is created, and then the answer is 429, so the eviction waits for the migration; and the handler never panics.
\<close>

theorem eviction_spawns_one_job:
  assumes "NewDefaultRegistry K Live policy = Inr engines" and "w_log w = []"
    and "store_get pod_Name (cl_pods (w_cache w)) (rq_Name req) = Some p"
    and "run_state (Eviction_Handle (mainEviction K engines t pol) req) w = (r, w')"
  shows "(\<forall>(e, c) \<in> set (w_log w'). \<exists>c'. evictionWrite (mainEviction K engines t pol) req p (knownJobs w p) e c c') \<and>
    creations w' \<le> 1 \<and> (creations w' = 1 \<longrightarrow> (\<exists>msg. r = Denied 429 msg)) \<and> r \<noteq> Panicked"
proof -
  obtain cs where engines: "engines = gkeRoutes K cs" using default_routes [OF assms(1)] by blast
  have "adds (evictionWrite (mainEviction K engines t pol) req p (knownJobs w p)) w w' \<and> answered r w'"
    using mainEviction.handle_writes [OF assms(2) _ assms(3)] assms(4) engines by blast
  then show ?thesis
    using assms(2) adds_write [of "evictionWrite (mainEviction K engines t pol) req p (knownJobs w p)" w w']
    by (auto simp: answered_def noCreate_def)
qed

definition optedIn :: pod where
  "optedIn = (podOf ''web-0'' ''u0'')\<lparr>pod_Labels := [LabelEnabled \<mapsto> ''true'']\<rparr>"

definition evictWeb :: request where
  "evictWeb = \<lparr>rq_Name = ''web-0'', rq_Namespace = ''ns'', rq_SubResource = ''eviction'', rq_DryRun = False\<rparr>"

definition evictionScene :: cluster where
  "evictionScene = (clusterOf [optedIn] [])\<lparr>cl_policies := [samplePolicy]\<rparr>"

lemma evictionScene_spawns:
  "wp (Eviction_Handle (mainEviction sampleLib stockRegistry 0 (Some plainPolicy)) evictWeb)
     (\<lambda>r w'. r = Denied 429 ''migration job spawned'' \<and> (\<exists>j c. (CreateJob j, c) \<in> set (w_log w'))) (worldOf evictionScene)"
proof -
  let ?E = "mainEviction sampleLib stockRegistry 0 (Some plainPolicy)"
  let ?w = "worldOf evictionScene"
  let ?Q = "\<lambda>r w'. r = Denied 429 ''migration job spawned'' \<and> (\<exists>j c. (CreateJob j, c) \<in> set (w_log w'))"
  have served: "served ?w" by (simp add: served_def worldOf_def)
  have scene: "cl_pods evictionScene = [optedIn]" "cl_jobs evictionScene = []" "cl_policies evictionScene = [samplePolicy]" "cl_podmigrations evictionScene = []"
    by (simp_all add: evictionScene_def clusterOf_def)
  have pod: "IsPodMigrationEnabled optedIn" "Allows sampleLib (Some plainPolicy) (pod_RuntimeClassName optedIn)" "\<not> HasPDBEvictionTimedOut optedIn"
    "AreReadinessGatesSatisfied optedIn" "mget (pod_Annotations optedIn) AnnotationAssignedPMJ = []" "pod_OwnerReferences optedIn = []" "pod_Name optedIn = ''web-0''"
    by code_simp+
  have eng: "ForPod sampleLib stockRegistry (Some optedIn) None = Some (Some (gkeEngine sampleLib Live))"
    by (simp add: ForPod_def resolveLocked_def stockRegistry_def reg_Get_def optedIn_def podOf_def RuntimeClassLabel_def)
  have match: "pspMatches sampleLib (pod_Labels optedIn) samplePolicy" "psp_PostCheckpoint samplePolicy = NestedStr ''stop''" by code_simp+
  have pick: "wp (pickEngine ?E evictWeb optedIn False) ?Q (?w\<lparr>w_calls := k\<rparr>)" for k
    using served scene pod eng match
    by (simp add: pickEngine_def ActivePodMigration_def list_podmigrations_def wp_simps wp_read_served view_def SelectActivePodMigration_def
        evictionEngineFor_def mainEviction_def withEngine_def gkeEngine_def GKE_Eligible_def AllowsFencing_def ResolveParentWorkload_def
        withParent_def replicaKeyRefusal_def noParent_def IsBuiltInWorkloadKind_def withPolicy_def GKE_ResolvePolicy_def FindLatestReadyManualStopPSP_def
        list_policies_def spawnJob_def createJob_def wp_write_served store_get_def evictionEvent_def denied429_def)
  show ?thesis
    using served scene pod pick
    by (simp add: Eviction_Handle_def evictWeb_def get_pod_def wp_simps wp_read_served view_def store_get_def handlePod_def mainEviction_def getJobFresh_def
        get_job_def found_def err_def isNotFound_def startMigration_def checkAssignedMigrationJob_def)
qed

lemma eviction_spawns_one_job_witness:
  "\<exists>w' j c. run_state (Eviction_Handle (mainEviction sampleLib stockRegistry 0 (Some plainPolicy)) evictWeb) (worldOf evictionScene) =
      (Denied 429 ''migration job spawned'', w') \<and> (CreateJob j, c) \<in> set (w_log w') \<and> pmj_TargetPodUID j = ''u0''"
proof -
  let ?E = "mainEviction sampleLib stockRegistry 0 (Some plainPolicy)"
  let ?run = "run_state (Eviction_Handle ?E evictWeb) (worldOf evictionScene)"
  have "wp (Eviction_Handle ?E evictWeb) (\<lambda>r w'. r = Denied 429 ''migration job spawned'' \<and> (\<exists>j c. (CreateJob j, c) \<in> set (w_log w'))) (worldOf evictionScene)"
    by (rule evictionScene_spawns)
  from wp_returns [OF this] obtain j c where run: "?run = (Denied 429 ''migration job spawned'', snd ?run)"
    and j: "(CreateJob j, c) \<in> set (w_log (snd ?run))" by auto
  have p: "store_get pod_Name (cl_pods (w_cache (worldOf evictionScene))) (rq_Name evictWeb) = Some optedIn"
    by (simp add: evictionScene_def evictWeb_def clusterOf_def store_get_def optedIn_def podOf_def)
  from eviction_spawns_one_job [OF stock_registry worldOf_log p run] j
  have "pmj_TargetPodUID j = pod_UID optedIn" by (fastforce simp: evictionWrite_def Let_def)
  with j run show ?thesis by (auto simp: optedIn_def podOf_def)
qed

text \<open>
  C18 (safety). An eviction waits for the checkpoint. As long as the cached migration job of this pod instance
  has not checkpointed it (it is new, Pending or Snapshotting) or is restoring it, the
  eviction of a migratable pod (opted in, of an allowed runtime class, not timed out on a budget before) is
  refused with 429 and nothing is written, whatever calls fail without claiming NotFound, except that the webhook fails open exactly when the read of
  the pod itself fails.
\<close>

theorem eviction_waits_for_checkpoint:
  assumes "honest w" and "rq_SubResource req = ''eviction''" and "\<not> rq_DryRun req"
    and p: "store_get pod_Name (cl_pods (w_cache w)) (rq_Name req) = Some p" and m: "migratable E p"
    and j: "store_get pmj_Name (cl_jobs (w_cache w)) (FormatPMJName (pod_Name p) (pod_UID p)) = Some j"
      "st_Phase (pmj_Status j) \<in> {PhaseNone, PhasePending, PhaseSnapshotting, PhaseRestoring}"
    and run: "run_state (Eviction_Handle E req) w = (r, w')"
  shows "(if w_fault w (w_calls w) = Served then \<exists>msg. r = Denied 429 msg else r = Allowed ''failing open due to transient error'') \<and>
    w_live w' = w_live w \<and> w_log w' = w_log w"
proof -
  let ?Q = "\<lambda>r u. (\<exists>msg. r = Denied 429 msg) \<and> w_live u = w_live w \<and> w_log u = w_log w"
  have "onExistingJob E req p j = State_Monad.return (denied429 (if WaitingForDisruptionBudget j
      then ''migration job waiting for the PodDisruptionBudget to allow a disruption; nothing has been checkpointed''
      else ''migration job in progress: status '' @ phase_string (st_Phase (pmj_Status j))))"
    using j(2) by (auto simp: onExistingJob_def FailedOnDisruptionBudget_def Let_def)
  then have "wp (handlePod E req p) ?Q (w\<lparr>w_calls := k\<rparr>)" for k
    using m assms(1) j(1) unfolding handlePod_def getJobFresh_def get_job_def migratable_def
    by (auto simp: wp_simps view_def found_def denial_def denied429_def intro!: wp_read_honestI)
  then have "wp (Eviction_Handle E req) (\<lambda>r u. (if w_fault w (w_calls w) = Served then \<exists>msg. r = Denied 429 msg
      else r = Allowed ''failing open due to transient error'') \<and> w_live u = w_live w \<and> w_log u = w_log w) w"
    unfolding Eviction_Handle_def get_pod_def using assms(1-3) p
    by (auto simp: wp_simps view_def found_def denial_def intro!: wp_read_faultI)
  from wp_run [OF this run] show ?thesis .
qed

lemma eviction_waits_for_checkpoint_witness:
  "\<exists>w'. run_state (Eviction_Handle (mainEviction sampleLib stockRegistry 0 (Some plainPolicy)) evictWeb)
        (worldOf (clusterOf [optedIn] [jobOf ''pmj-web-0-u0'' ''web-0'' ''u0'' PhaseSnapshotting])) =
      (Denied 429 ''migration job in progress: status Snapshotting'', w') \<and> w_log w' = []"
proof -
  let ?c = "clusterOf [optedIn] [jobOf ''pmj-web-0-u0'' ''web-0'' ''u0'' PhaseSnapshotting]"
  let ?E = "mainEviction sampleLib stockRegistry 0 (Some plainPolicy)"
  let ?run = "run_state (Eviction_Handle ?E evictWeb) (worldOf ?c)"
  have "fst ?run = Denied 429 ''migration job in progress: status Snapshotting''" by code_simp
  then have run: "?run = (Denied 429 ''migration job in progress: status Snapshotting'', snd ?run)" by (metis prod.collapse)
  have "migratable ?E optedIn" by code_simp
  note eviction_waits_for_checkpoint [OF worldOf_honest _ _ _ this _ _ run, of "jobOf ''pmj-web-0-u0'' ''web-0'' ''u0'' PhaseSnapshotting"]
  then have "w_log (snd ?run) = []"
    by (simp add: evictWeb_def clusterOf_def store_get_def optedIn_def podOf_def jobOf_def statusOf_def FormatPMJName_def ShortUID_def)
  with run show ?thesis by blast
qed

lemma parseDuration_range: "parseDuration K s = Some d \<Longrightarrow> d < 2 ^ 63"
  by (auto simp: parseDuration_def Let_def split: if_splits option.splits list.splits)

text \<open>
  The handler's budget leaves headroom in the API server's timeout: for every
  timeout that the request can carry, the budget is positive, at most the timeout, and at least
  four fifths of it; without one it is four seconds.
\<close>

theorem handler_budget_fits:
  assumes "contextWithAdmissionTimeout K s = ctx"
  shows "case ctx of None \<Rightarrow> handlerBudget ctx = 4 * second
     | Some d \<Rightarrow> 0 < handlerBudget ctx \<and> handlerBudget ctx \<le> d \<and> 4 * d \<le> 5 * handlerBudget ctx \<and> (5 \<le> d \<longrightarrow> handlerBudget ctx < d)"
proof (cases ctx)
  case (Some d)
  then have d: "parseDuration K s = Some d" "0 < d" using assms by (auto simp: contextWithAdmissionTimeout_def split: option.splits if_splits)
  have "d < 2 ^ 63" using parseDuration_range [OF d(1)] by simp
  moreover have q: "quot d 5 = d div 5" using d(2) by (simp add: quot_pos)
  ultimately have "wrap64 (d - quot d 5) = d - d div 5" using d(2) by (intro trans [OF wrap64_id]) auto
  with Some d(2) show ?thesis by (auto simp: handlerBudget_def)
qed (simp add: handlerBudget_def defaultHandlerBudget_def)

lemma handler_budget_fits_witness:
  "\<exists>s. contextWithAdmissionTimeout sampleLib s = Some (10 * second) \<and> 0 < handlerBudget (Some (10 * second)) \<and> handlerBudget (Some (10 * second)) < 10 * second"
proof -
  have "parseDuration sampleLib (durationString (int 10 * 1000000000)) = Some (int 10 * 1000000000)"
    by (rule parseDuration_durationString) simp_all
  then have ctx: "contextWithAdmissionTimeout sampleLib (durationString (10 * second)) = Some (10 * second)"
    by (simp add: contextWithAdmissionTimeout_def)
  from handler_budget_fits [OF this] ctx show ?thesis by auto
qed

end
