(* ===== verification/Admission.thy ===== *)
theory Admission
  imports Eviction
begin

text \<open>
  The mutating webhooks: the gate injector for new pods (\<open>webhook/replacement_webhook.go\<close>), the
  fence on the readiness of a migration source (\<open>webhook/fence_webhook.go\<close>) and the status
  webhook that keeps a checkpointed pod of a Job from counting as completed
  (\<open>webhook/pod_status_webhook.go\<close>).

  A request's raw object is an option: \<open>None\<close> stands for one that does not decode. A patch
  response carries the object that the handler marshals, which is what the API server has after
  applying the difference. The fence answers with JSON patch operations, which \<open>applyOp\<close> applies.
\<close>

section \<open>Definitions\<close>

subsection \<open>The gate injector\<close>

record podGateInjector =
  gi_APIReader :: bool

text \<open>A parent that is gone is no parent; every other failure is the handler's.\<close>

definition resolveOrBare :: "reader \<Rightarrow> pod \<Rightarrow> (api_error + parent) io" where
  "resolveOrBare rd p = do {
     r \<leftarrow> ResolveParentWorkload rd p;
     State_Monad.return (case r of Inr pa \<Rightarrow> Inr pa | Inl e \<Rightarrow> if isNotFound e then Inr noParent else Inl e)
   }"

definition admissionIdentity :: "pod \<Rightarrow> string \<Rightarrow> string \<Rightarrow> podIdentity" where
  "admissionIdentity p parentKind cachedKey = \<lparr>
     pi_PodName = pod_Name p,
     pi_PodTemplateHash = mget (pod_Labels p) DefaultDeploymentUniqueLabelKey,
     pi_JobCompletionIndex = mget (pod_Labels p) LabelJobCompletionIndex,
     pi_ReplicaKey = (if IsBuiltInWorkloadKind parentKind then cachedKey
                      else case ResolveOperatorReplicaKey p parentKind of None \<Rightarrow> [] | Some k \<Rightarrow> k)\<rparr>"

definition findLiveFallback :: "podGateInjector \<Rightarrow> pod \<Rightarrow> string \<Rightarrow> (api_error + string) io" where
  "findLiveFallback I p cachedKey =
     (if \<not> gi_APIReader I then State_Monad.return (Inr [])
      else do {
        pa \<leftarrow> resolveOrBare Live p;
        (case pa of
           Inl e \<Rightarrow> State_Monad.return (Inl e)
         | Inr parent \<Rightarrow> FindUnassignedActivePMJ Live parent (admissionIdentity p (pa_Kind parent) cachedKey) False)
      })"

definition findJobFor :: "podGateInjector \<Rightarrow> pod \<Rightarrow> (api_error + string) io" where
  "findJobFor I p = do {
     pa \<leftarrow> resolveOrBare Cached p;
     (case pa of
        Inl e \<Rightarrow> State_Monad.return (Inl e)
      | Inr parent \<Rightarrow>
          let pid = admissionIdentity p (pa_Kind parent) [] in do {
            f \<leftarrow> FindUnassignedActivePMJ Cached parent pid True;
            (case f of
               Inl e \<Rightarrow> State_Monad.return (Inl e)
             | Inr assigned \<Rightarrow>
                 if assigned = [] then findLiveFallback I p (pi_ReplicaKey pid) else State_Monad.return (Inr assigned))
          })
   }"

definition admitPod :: "pod \<Rightarrow> string \<Rightarrow> pod response" where
  "admitPod p assigned =
     (if assigned = [] then
        if mget (pod_Annotations p) psNameAnnotation \<noteq> [] then Allowed ''preserving pre-existing podsnapshot.gke.io/ps-name annotation''
        else Patched (p\<lparr>pod_Annotations := (pod_Annotations p)(psNameAnnotation \<mapsto> [])\<rparr>)
      else if podHasMigrationGate p then Allowed ''scheduling gate already present''
      else Patched (p\<lparr>pod_SchedulingGates := pod_SchedulingGates p @ [MigrationGateName],
             pod_Annotations := (pod_Annotations p)(AnnotationAssignedPMJ \<mapsto> assigned)\<rparr>))"

definition Injector_Handle :: "podGateInjector \<Rightarrow> string \<Rightarrow> pod option \<Rightarrow> pod response io" where
  "Injector_Handle I namespace raw =
     (case raw of
        None \<Rightarrow> State_Monad.return (Errored 400 ''failed to decode pod'')
      | Some p0 \<Rightarrow>
          let p = p0\<lparr>pod_Namespace := (if pod_Namespace p0 = [] then namespace else pod_Namespace p0)\<rparr> in
          if mget (pod_Labels p) LabelEnabled \<noteq> ''true'' then State_Monad.return (Allowed ''pod not opted in'')
          else do {
            f \<leftarrow> findJobFor I p;
            State_Monad.return (case f of Inl e \<Rightarrow> Errored 500 (ae_text e) | Inr assigned \<Rightarrow> admitPod p assigned)
          })"

text \<open>The pod as the API server stores it, if the response lets it in.\<close>

definition admittedPod :: "pod \<Rightarrow> pod response \<Rightarrow> pod option" where
  "admittedPod raw r = (case r of Allowed _ \<Rightarrow> Some raw | Patched q \<Rightarrow> Some q | _ \<Rightarrow> None)"

subsection \<open>The fence\<close>

record fenceCondition =
  fn_Type :: string
  fn_Status :: string
  fn_Reason :: string
  fn_Message :: string
  fn_LastTransitionTime :: string

record fencePod =
  fp_Labels :: strmap
  fp_Conditions :: "fenceCondition list option"

datatype jsonPatchOp =
    AddConditions "fenceCondition list"
  | AppendCondition fenceCondition
  | SetField nat string string

definition findFenceCondition :: "fenceCondition list \<Rightarrow> string \<Rightarrow> fenceCondition option" where
  "findFenceCondition conds typ = find (\<lambda>c. fn_Type c = typ) conds"

fun readyIndex :: "fenceCondition list \<Rightarrow> nat option" where
  "readyIndex [] = None"
| "readyIndex (c # cs) = (if fn_Type c = ''Ready'' then Some 0 else map_option Suc (readyIndex cs))"

definition wantCondition :: "kubelib \<Rightarrow> fenceCondition option \<Rightarrow> time \<Rightarrow> fenceCondition" where
  "wantCondition K stored now = \<lparr>fn_Type = ''Ready'', fn_Status = ''False'', fn_Reason = ReasonPodMigrationFenced, fn_Message = FenceReadyMessage,
     fn_LastTransitionTime =
       (case stored of
          Some c \<Rightarrow> if fn_Status c = ''False'' \<and> fn_LastTransitionTime c \<noteq> [] then fn_LastTransitionTime c else FormatRFC3339 K now
        | None \<Rightarrow> FormatRFC3339 K now)\<rparr>"

definition fencePatches :: "kubelib \<Rightarrow> fenceCondition list \<Rightarrow> fenceCondition option \<Rightarrow> time \<Rightarrow> jsonPatchOp list" where
  "fencePatches K conds stored now =
     (let want = wantCondition K stored now in
      case readyIndex conds of
        None \<Rightarrow> if conds = [] then [AddConditions [want]] else [AppendCondition want]
      | Some i \<Rightarrow>
          if conds ! i = want then []
          else [SetField i ''status'' (fn_Status want), SetField i ''reason'' (fn_Reason want),
                SetField i ''message'' (fn_Message want), SetField i ''lastTransitionTime'' (fn_LastTransitionTime want)])"

record fenceRequest =
  fr_Update :: bool
  fr_SubResource :: string
  fr_Object :: "fencePod option"
  fr_OldObject :: "fencePod option"

definition Fence_Handle :: "kubelib \<Rightarrow> time \<Rightarrow> fenceRequest \<Rightarrow> jsonPatchOp list response" where
  "Fence_Handle K now req =
     (if \<not> fr_Update req \<or> fr_SubResource req \<noteq> ''status'' then Allowed ''not a pod status update''
      else case fr_Object req of
             None \<Rightarrow> Allowed ''undecodable pod''
           | Some p \<Rightarrow>
               if mget (fp_Labels p) LabelFenced \<noteq> ''true'' then Allowed ''pod is not fenced''
               else case fp_Conditions p of
                      None \<Rightarrow> Allowed ''no status in the update''
                    | Some conds \<Rightarrow>
                        let stored = (case fr_OldObject req of
                                        None \<Rightarrow> None
                                      | Some q \<Rightarrow> (case fp_Conditions q of None \<Rightarrow> None | Some cs \<Rightarrow> findFenceCondition cs ''Ready''));
                            patches = fencePatches K conds stored now
                        in if patches = [] then Allowed ''already fenced'' else Patched patches)"

text \<open>RFC 6902 on the conditions of a status.\<close>

definition setFenceField :: "string \<Rightarrow> string \<Rightarrow> fenceCondition \<Rightarrow> fenceCondition" where
  "setFenceField f v c =
     (if f = ''status'' then c\<lparr>fn_Status := v\<rparr> else if f = ''reason'' then c\<lparr>fn_Reason := v\<rparr>
      else if f = ''message'' then c\<lparr>fn_Message := v\<rparr> else if f = ''lastTransitionTime'' then c\<lparr>fn_LastTransitionTime := v\<rparr> else c)"

fun applyOp :: "jsonPatchOp \<Rightarrow> fenceCondition list \<Rightarrow> fenceCondition list" where
  "applyOp (AddConditions cs) conds = cs"
| "applyOp (AppendCondition c) conds = conds @ [c]"
| "applyOp (SetField i f v) conds = (if i < length conds then conds[i := setFenceField f v (conds ! i)] else conds)"

definition afterFence :: "fenceCondition list \<Rightarrow> jsonPatchOp list response \<Rightarrow> fenceCondition list" where
  "afterFence conds r = (case r of Patched ops \<Rightarrow> fold applyOp ops conds | _ \<Rightarrow> conds)"

subsection \<open>The status webhook\<close>

record podStatusMutator =
  sm_APIReader :: bool

text \<open>
  The job of a pod that succeeded: \<open>None\<close> if there is none; a job that can be read neither live
  nor from the cache counts as one in \<open>Snapshotting\<close> that targets the pod.
\<close>

definition statusCacheRead :: "string \<Rightarrow> string \<Rightarrow> (string \<times> phase) option io" where
  "statusCacheRead pmjName uid = do {
     c \<leftarrow> get_job Cached pmjName;
     State_Monad.return (case c of
       Inr job \<Rightarrow> Some (pmj_TargetPodUID job, st_Phase (pmj_Status job))
     | Inl e \<Rightarrow> if isNotFound e then None else Some (uid, PhaseSnapshotting))
   }"

definition statusJob :: "podStatusMutator \<Rightarrow> string \<Rightarrow> string \<Rightarrow> (string \<times> phase) option io" where
  "statusJob M pmjName uid =
     (if \<not> sm_APIReader M then statusCacheRead pmjName uid
      else do {
        l \<leftarrow> get_job Live pmjName;
        (case l of
           Inr job \<Rightarrow> State_Monad.return (Some (pmj_TargetPodUID job, st_Phase (pmj_Status job)))
         | Inl e \<Rightarrow> if isNotFound e then State_Monad.return None else statusCacheRead pmjName uid)
      })"

definition failContainer :: "container_status \<Rightarrow> container_status" where
  "failContainer cs =
     (case cs_Terminated cs of
        None \<Rightarrow> cs
      | Some t \<Rightarrow>
          if tm_ExitCode t = 0
          then cs\<lparr>cs_Terminated := Some \<lparr>tm_Reason = ''CheckpointBeforeDelete'',
                  tm_Message = ''Container was checkpointed and stopped during migration.'', tm_ExitCode = 137\<rparr>\<rparr>
          else cs)"

definition forceFailure :: "pod \<Rightarrow> pod" where
  "forceFailure p = p\<lparr>pod_Phase := PodFailed, pod_Reason := ''EvictedByMigration'',
     pod_Message := ''Pod was evicted and checkpointed during migration. Forcing failure to trigger rescheduling.'',
     pod_ContainerStatuses := map failContainer (pod_ContainerStatuses p)\<rparr>"

definition StatusMutator_Handle :: "podStatusMutator \<Rightarrow> string \<Rightarrow> pod option \<Rightarrow> pod response io" where
  "StatusMutator_Handle M subResource raw =
     (if subResource \<noteq> ''status'' then State_Monad.return (Allowed ''not a status update'')
      else case raw of
             None \<Rightarrow> State_Monad.return (Errored 400 ''failed to decode pod status update'')
           | Some p \<Rightarrow>
               if mget (pod_Labels p) LabelEnabled \<noteq> ''true'' then State_Monad.return (Allowed ''pod not opted in'')
               else if \<not> list_ex (\<lambda>r. or_Kind r = ''Job'') (pod_OwnerReferences p) then State_Monad.return (Allowed ''pod is not owned by a Job'')
               else if pod_Phase p \<noteq> PodSucceeded then State_Monad.return (Allowed ''pod phase is not Succeeded'')
               else do {
                 j \<leftarrow> statusJob M (FormatPMJName (pod_Name p) (pod_UID p)) (pod_UID p);
                 State_Monad.return (case j of
                   None \<Rightarrow> Allowed ''no active migration job''
                 | Some (target, ph) \<Rightarrow>
                     if target \<noteq> pod_UID p then Allowed ''PMJ UID mismatch''
                     else if ph \<noteq> PhaseSnapshotting \<and> ph \<noteq> PhaseEvicting then Allowed ''migration not active''
                     else Patched (forceFailure p))
               })"

section \<open>Lemmas\<close>

subsection \<open>The gate injector\<close>

text \<open>The parent of a pod as a cluster has it: none if its ReplicaSet is missing.\<close>

fun parentFrom :: "cluster \<Rightarrow> owner_ref list \<Rightarrow> owner_ref option \<Rightarrow> parent" where
  "parentFrom c [] fallback = (case fallback of None \<Rightarrow> noParent | Some ref \<Rightarrow> \<lparr>pa_Name = or_Name ref, pa_Kind = or_Kind ref, pa_UID = or_UID ref\<rparr>)"
| "parentFrom c (ref # refs) fallback =
     (if or_Kind ref = ''ReplicaSet'' then
        (case store_get wl_Name (cl_replicasets c) (or_Name ref) of
           None \<Rightarrow> noParent
         | Some s \<Rightarrow> (case find (\<lambda>x. or_Kind x = ''Deployment'') (wl_OwnerReferences s) of
              Some d \<Rightarrow> \<lparr>pa_Name = or_Name d, pa_Kind = ''Deployment'', pa_UID = or_UID d\<rparr>
            | None \<Rightarrow> \<lparr>pa_Name = wl_Name s, pa_Kind = ''ReplicaSet'', pa_UID = wl_UID s\<rparr>))
      else if or_Kind ref = ''Job'' \<or> or_Kind ref = ''StatefulSet'' then \<lparr>pa_Name = or_Name ref, pa_Kind = or_Kind ref, pa_UID = or_UID ref\<rparr>
      else parentFrom c refs (if or_Controller ref = Some True then Some ref else fallback))"

definition parentIn :: "cluster \<Rightarrow> pod \<Rightarrow> parent" where
  "parentIn c p = parentFrom c (pod_OwnerReferences p) None"

text \<open>
  The job called \<open>n\<close> is free for the pod \<open>p\<close>: in the cache, or else on the API server, it is one that can be adopted under
  the pod's parent there and with the pod's own identity.
\<close>

definition cachedIdentity :: "world \<Rightarrow> pod \<Rightarrow> podIdentity" where
  "cachedIdentity w p = admissionIdentity p (pa_Kind (parentIn (w_cache w) p)) []"

definition liveIdentity :: "world \<Rightarrow> pod \<Rightarrow> podIdentity" where
  "liveIdentity w p = admissionIdentity p (pa_Kind (parentIn (w_live w) p)) (pi_ReplicaKey (cachedIdentity w p))"

definition freeJob :: "world \<Rightarrow> pod \<Rightarrow> string \<Rightarrow> bool" where
  "freeJob w p n \<longleftrightarrow>
     (\<exists>job \<in> set (cl_jobs (w_cache w)). pmj_Name job = n \<and> adoptable True (w_cache w) (parentIn (w_cache w) p) (cachedIdentity w p) job) \<or>
     (\<exists>job \<in> set (cl_jobs (w_live w)). pmj_Name job = n \<and> adoptable False (w_live w) (parentIn (w_live w) p) (liveIdentity w p) job)"

lemma identity_calls [simp]:
  "cachedIdentity (w\<lparr>w_calls := k\<rparr>) p = cachedIdentity w p" "liveIdentity (w\<lparr>w_calls := k\<rparr>) p = liveIdentity w p"
  by (simp_all add: cachedIdentity_def liveIdentity_def)

lemma freeJob_calls [simp]: "freeJob (w\<lparr>w_calls := k\<rparr>) = freeJob w"
  by (simp add: freeJob_def fun_eq_iff)

lemma wp_resolveOwnersI:
  assumes "honest w" and "\<And>e k. \<not> isNotFound e \<Longrightarrow> Q (Inl e) (w\<lparr>w_calls := k\<rparr>)" and "\<And>e k. isNotFound e \<Longrightarrow> parentFrom (view rd w) refs fb = noParent \<Longrightarrow> Q (Inl e) (w\<lparr>w_calls := k\<rparr>)"
    and "\<And>k. Q (Inr (parentFrom (view rd w) refs fb)) (w\<lparr>w_calls := k\<rparr>)"
  shows "wp (resolveOwners rd refs fb) Q w"
  using assms
proof (induction refs arbitrary: fb)
  case Nil
  from Nil(4) [of "w_calls w"] show ?case by (simp add: wp_return)
next
  case (Cons ref refs)
  show ?case
  proof (cases "or_Kind ref = ''ReplicaSet''")
    case True
    show ?thesis
      unfolding resolveOwners.simps if_P [OF True] wp_bind wp_return get_replicaset_def
      by (rule wp_read_honestI [OF Cons.prems(1)])
        (use Cons.prems(2-4) True in \<open>auto simp: found_def denial_def isNotFound_def err_def split: option.splits\<close>)
  next
    case False
    have "wp (resolveOwners rd refs fb') Q w" if "parentFrom (view rd w) (ref # refs) fb = parentFrom (view rd w) refs fb'" for fb'
      by (rule Cons.IH) (use Cons.prems that in auto)
    with False Cons.prems(4) [of "w_calls w"] show ?thesis by (auto simp: wp_return)
  qed
qed

lemma wp_resolveOrBareI:
  assumes "honest w" and "\<And>e k. Q (Inl e) (w\<lparr>w_calls := k\<rparr>)" and "\<And>k. Q (Inr (parentIn (view rd w) p)) (w\<lparr>w_calls := k\<rparr>)"
  shows "wp (resolveOrBare rd p) Q w"
  unfolding resolveOrBare_def ResolveParentWorkload_def wp_bind wp_return
  by (rule wp_resolveOwnersI [OF assms(1)]) (use assms(2,3) in \<open>auto simp: parentIn_def\<close>)

lemma wp_FindUnassignedI:
  assumes "honest w" "\<And>e k. Q (Inl e) (w\<lparr>w_calls := k\<rparr>)" "\<And>k. Q (Inr []) (w\<lparr>w_calls := k\<rparr>)"
    and "\<And>job k. job \<in> set (cl_jobs (view rd w)) \<Longrightarrow> adoptable indexed (view rd w) pa pid job \<Longrightarrow> Q (Inr (pmj_Name job)) (w\<lparr>w_calls := k\<rparr>)"
  shows "wp (FindUnassignedActivePMJ rd pa pid indexed) Q w"
proof (cases indexed)
  case True
  then show ?thesis unfolding FindUnassignedActivePMJ_def using assms by (auto intro!: wp_findIndexedI)
next
  case False
  then show ?thesis unfolding FindUnassignedActivePMJ_def using assms by (auto intro!: wp_findLiveI)
qed

lemma wp_findJobForI:
  assumes "honest w" "\<And>e k. Q (Inl e) (w\<lparr>w_calls := k\<rparr>)" "\<And>k. Q (Inr []) (w\<lparr>w_calls := k\<rparr>)" "\<And>n k. freeJob w p n \<Longrightarrow> Q (Inr n) (w\<lparr>w_calls := k\<rparr>)"
  shows "wp (findJobFor I p) Q w"
proof -
  have cached: "Q (Inr (pmj_Name job)) (w\<lparr>w_calls := k\<rparr>)"
    if "job \<in> set (cl_jobs (w_cache w))" "adoptable True (w_cache w) (parentIn (w_cache w) p) (cachedIdentity w p) job" for job k
    using that assms(4) unfolding freeJob_def by blast
  have live: "Q (Inr (pmj_Name job)) (w\<lparr>w_calls := k\<rparr>)"
    if "job \<in> set (cl_jobs (w_live w))" "adoptable False (w_live w) (parentIn (w_live w) p) (liveIdentity w p) job" for job k
    using that assms(4) unfolding freeJob_def by blast
  have fallback: "wp (findLiveFallback I p (pi_ReplicaKey (cachedIdentity w p))) Q (w\<lparr>w_calls := k\<rparr>)" for k
    unfolding findLiveFallback_def using assms(1-3) live
    by (auto simp: wp_simps view_def liveIdentity_def intro!: wp_resolveOrBareI wp_FindUnassignedI)
  with assms(1-3) cached show ?thesis
    unfolding findJobFor_def Let_def
    by (auto simp: wp_simps view_def cachedIdentity_def intro!: wp_resolveOrBareI wp_FindUnassignedI)
qed

text \<open>
  C5 (safety). No opted-in pod is let in undecided. If the API server stores it, then it is held
  back by the migration gate or it says explicitly whether it restores: it carries a
  \<open>ps-name\<close> annotation, empty for a cold start. A pod that is newly gated is assigned to a job
  that is free for it: one that matches the pod's own parent and identity, in the cache or on the API server,
  and that no other pod claims. The webhook itself writes nothing. No failed call may claim NotFound.
\<close>

theorem admitted_pod_is_gated_or_ordered:
  assumes "honest w" and "mget (pod_Labels p) LabelEnabled = ''true''"
    and "run_state (Injector_Handle I ns (Some p)) w = (r, w')" and "admittedPod p r = Some q"
  shows "(podHasMigrationGate q \<or> pod_Annotations q psNameAnnotation \<noteq> None) \<and>
    (podHasMigrationGate q \<and> \<not> podHasMigrationGate p \<longrightarrow> (\<exists>n. pod_Annotations q AnnotationAssignedPMJ = Some n \<and> freeJob w p n)) \<and>
    w_live w' = w_live w \<and> w_log w' = w_log w"
proof -
  let ?ok = "\<lambda>q. (podHasMigrationGate q \<or> pod_Annotations q psNameAnnotation \<noteq> None) \<and>
    (podHasMigrationGate q \<and> \<not> podHasMigrationGate p \<longrightarrow> (\<exists>n. pod_Annotations q AnnotationAssignedPMJ = Some n \<and> freeJob w p n))"
  define p' where "p' = p\<lparr>pod_Namespace := (if pod_Namespace p = [] then ns else pod_Namespace p)\<rparr>"
  have same: "freeJob w p' = freeJob w p"
  proof -
    have fields: "pod_Name p' = pod_Name p" "pod_Labels p' = pod_Labels p" "pod_Annotations p' = pod_Annotations p" "pod_GenerateName p' = pod_GenerateName p"
      by (simp_all add: p'_def)
    have "admissionIdentity p' = admissionIdentity p" unfolding admissionIdentity_def ResolveOperatorReplicaKey_def fields fun_eq_iff by (rule allI refl)+
    moreover have "parentIn c p' = parentIn c p" for c by (simp add: p'_def parentIn_def)
    ultimately show ?thesis by (simp add: freeJob_def cachedIdentity_def liveIdentity_def fun_eq_iff)
  qed
  have free: "?ok q" if "admittedPod p (admitPod p' n) = Some q" "n = [] \<or> freeJob w p n" for n q
    using that by (auto simp: p'_def admitPod_def admittedPod_def podHasMigrationGate_def mget_def split: if_splits option.splits)
  have enabled: "mget (pod_Labels p') LabelEnabled = ''true''" using assms(2) by (simp add: p'_def)
  have "wp (Injector_Handle I ns (Some p)) (\<lambda>r u. (\<forall>q. admittedPod p r = Some q \<longrightarrow> ?ok q) \<and> w_live u = w_live w \<and> w_log u = w_log w) w"
    unfolding Injector_Handle_def Let_def option.case p'_def [symmetric] wp_if wp_bind wp_return
    by (simp only: enabled simp_thms if_False, rule wp_findJobForI [OF assms(1)]) (use free same in \<open>auto simp: admittedPod_def\<close>)
  from wp_run [OF this assms(3)] assms(4) show ?thesis by blast
qed

definition replacementPod :: pod where
  "replacementPod = (podOf ''web-0'' ''u9'')\<lparr>pod_Labels := [LabelEnabled \<mapsto> ''true'']\<rparr>"

lemma admitted_pod_is_gated_or_ordered_witness:
  "\<exists>q w'. run_state (Injector_Handle \<lparr>gi_APIReader = True\<rparr> ''ns'' (Some replacementPod)) (worldOf replacementScene) = (Patched q, w') \<and>
     podHasMigrationGate q \<and> pod_Annotations q AnnotationAssignedPMJ = Some ''pmj-web-0''"
proof -
  let ?run = "run_state (Injector_Handle \<lparr>gi_APIReader = True\<rparr> ''ns'' (Some replacementPod)) (worldOf replacementScene)"
  have "case fst ?run of Patched q \<Rightarrow> podHasMigrationGate q \<and> pod_Annotations q AnnotationAssignedPMJ = Some ''pmj-web-0'' | _ \<Rightarrow> False"
    by code_simp
  then obtain q where q: "fst ?run = Patched q" "podHasMigrationGate q" "pod_Annotations q AnnotationAssignedPMJ = Some ''pmj-web-0''"
    by (auto split: response.splits)
  then have run: "?run = (Patched q, snd ?run)" by (metis prod.collapse)
  have "mget (pod_Labels replacementPod) LabelEnabled = ''true''" by (simp add: replacementPod_def)
  from admitted_pod_is_gated_or_ordered [OF worldOf_honest this run] q run show ?thesis by blast
qed

subsection \<open>The fence\<close>

lemma readyIndex_Some: "readyIndex cs = Some i \<Longrightarrow> i < length cs \<and> fn_Type (cs ! i) = ''Ready'' \<and> findFenceCondition cs ''Ready'' = Some (cs ! i)"
  by (induction cs arbitrary: i) (auto simp: findFenceCondition_def split: if_splits)

lemma readyIndex_None: "readyIndex cs = None \<longleftrightarrow> findFenceCondition cs ''Ready'' = None"
  by (induction cs) (auto simp: findFenceCondition_def)

lemma readyIndex_update: "readyIndex cs = Some i \<Longrightarrow> fn_Type c = ''Ready'' \<Longrightarrow> readyIndex (cs[i := c]) = Some i"
  by (induction cs arbitrary: i) (auto split: if_splits nat.splits)

lemma filter_update: "i < length xs \<Longrightarrow> \<not> P (xs ! i) \<Longrightarrow> \<not> P y \<Longrightarrow> filter P (xs[i := y]) = filter P xs"
  by (induction xs arbitrary: i) (auto split: nat.splits)

lemma findFence_append: "findFenceCondition cs ''Ready'' = None \<Longrightarrow> fn_Type c = ''Ready'' \<Longrightarrow> findFenceCondition (cs @ [c]) ''Ready'' = Some c"
  by (induction cs) (auto simp: findFenceCondition_def split: if_splits)

text \<open>The conditions after the fence: the first Ready condition is the fence's, the others are as they were.\<close>

definition fenced :: "fenceCondition \<Rightarrow> fenceCondition list \<Rightarrow> fenceCondition list" where
  "fenced want conds = (case readyIndex conds of None \<Rightarrow> conds @ [want] | Some i \<Rightarrow> conds[i := want])"

lemma applied_patches: "fold applyOp (fencePatches K conds stored now) conds = fenced (wantCondition K stored now) conds"
proof (cases "readyIndex conds")
  case None
  then show ?thesis by (simp add: fencePatches_def fenced_def Let_def)
next
  case (Some i)
  then have i: "i < length conds" "fn_Type (conds ! i) = ''Ready''" using readyIndex_Some by auto
  show ?thesis
  proof (cases "conds ! i = wantCondition K stored now")
    case True
    with Some show ?thesis by (simp add: fencePatches_def fenced_def Let_def) (metis list_update_id)
  next
    case False
    with Some i show ?thesis
      by (cases "conds ! i") (auto simp: fencePatches_def fenced_def Let_def setFenceField_def wantCondition_def)
  qed
qed

lemma fenced_ready: "fn_Type want = ''Ready'' \<Longrightarrow> findFenceCondition (fenced want conds) ''Ready'' = Some want"
proof (cases "readyIndex conds")
  case None
  then show "fn_Type want = ''Ready'' \<Longrightarrow> ?thesis" using None readyIndex_None [of conds] by (simp add: fenced_def findFence_append)
next
  case (Some i)
  then show "fn_Type want = ''Ready'' \<Longrightarrow> ?thesis"
    using readyIndex_Some [OF readyIndex_update [OF Some]] readyIndex_Some [OF Some] by (auto simp: fenced_def)
qed

definition fenceStatus :: "fencePod \<Rightarrow> fencePod option \<Rightarrow> fenceRequest" where
  "fenceStatus p old = \<lparr>fr_Update = True, fr_SubResource = ''status'', fr_Object = Some p, fr_OldObject = old\<rparr>"

definition heldReady :: "fenceCondition \<Rightarrow> bool" where
  "heldReady c \<longleftrightarrow> fn_Type c = ''Ready'' \<and> fn_Status c = ''False'' \<and> fn_Reason c = ReasonPodMigrationFenced \<and> fn_Message c = FenceReadyMessage"

lemma handle_fenced:
  assumes "mget (fp_Labels p) LabelFenced = ''true''" and "fp_Conditions p = Some conds"
  shows "afterFence conds (Fence_Handle K now (fenceStatus p old)) =
    fenced (wantCondition K (case old of None \<Rightarrow> None | Some q \<Rightarrow> (case fp_Conditions q of None \<Rightarrow> None | Some cs \<Rightarrow> findFenceCondition cs ''Ready'')) now) conds"
  using assms applied_patches [of K conds _ now] unfolding Fence_Handle_def fenceStatus_def afterFence_def
  by (auto simp: Let_def split: option.splits) (metis fold_simps(1) id_apply)+

text \<open>
  C19 (invariant). The fence holds. Whatever status the kubelet writes for a fenced pod, the status
  that is stored has Ready False with the fence's reason and message, and every other condition
  is the kubelet's. Once the stored status is fenced, every later write of the kubelet, at any
  time, leaves the stored Ready condition exactly as it is, transition time included.
\<close>

theorem fence_holds_ready_false:
  assumes "mget (fp_Labels p) LabelFenced = ''true''" and "fp_Conditions p = Some conds"
    and "conds' = afterFence conds (Fence_Handle K now (fenceStatus p old))"
  shows "(\<exists>c. findFenceCondition conds' ''Ready'' = Some c \<and> heldReady c) \<and>
    filter (\<lambda>c. fn_Type c \<noteq> ''Ready'') conds' = filter (\<lambda>c. fn_Type c \<noteq> ''Ready'') conds \<and>
    (\<forall>q cs c. old = Some q \<longrightarrow> fp_Conditions q = Some cs \<longrightarrow> findFenceCondition cs ''Ready'' = Some c \<longrightarrow> heldReady c \<longrightarrow> fn_LastTransitionTime c \<noteq> [] \<longrightarrow>
       findFenceCondition conds' ''Ready'' = Some c)"
proof -
  let ?stored = "case old of None \<Rightarrow> None | Some q \<Rightarrow> (case fp_Conditions q of None \<Rightarrow> None | Some cs \<Rightarrow> findFenceCondition cs ''Ready'')"
  let ?want = "wantCondition K ?stored now"
  have c': "conds' = fenced ?want conds" using handle_fenced [OF assms(1,2)] assms(3) by simp
  have held: "heldReady ?want" by (simp add: heldReady_def wantCondition_def)
  have ready: "findFenceCondition conds' ''Ready'' = Some ?want"
    unfolding c' by (rule fenced_ready) (simp add: wantCondition_def)
  have other: "filter (\<lambda>c. fn_Type c \<noteq> ''Ready'') conds' = filter (\<lambda>c. fn_Type c \<noteq> ''Ready'') conds"
  proof (cases "readyIndex conds")
    case (Some i)
    then have i: "i < length conds" "fn_Type (conds ! i) = ''Ready''" using readyIndex_Some by auto
    then show ?thesis using Some held by (simp add: c' fenced_def filter_update heldReady_def)
  qed (use held in \<open>simp add: c' fenced_def heldReady_def\<close>)
  have kept: "?want = c" if "?stored = Some c" "heldReady c" "fn_LastTransitionTime c \<noteq> []" for c
    using that by (cases c) (auto simp: wantCondition_def heldReady_def)
  show ?thesis using ready other held kept by auto
qed

definition kubeletReady :: fenceCondition where
  "kubeletReady = \<lparr>fn_Type = ''Ready'', fn_Status = ''True'', fn_Reason = [], fn_Message = [], fn_LastTransitionTime = ''t0''\<rparr>"

lemma fence_holds_ready_false_witness:
  "\<exists>c. findFenceCondition (afterFence [kubeletReady] (Fence_Handle sampleLib 5
     (fenceStatus \<lparr>fp_Labels = [LabelFenced \<mapsto> ''true''], fp_Conditions = Some [kubeletReady]\<rparr> None))) ''Ready'' = Some c \<and> heldReady c"
  using fence_holds_ready_false [of "\<lparr>fp_Labels = [LabelFenced \<mapsto> ''true''], fp_Conditions = Some [kubeletReady]\<rparr>" "[kubeletReady]" _ sampleLib 5 None, OF _ _ refl]
  by simp

subsection \<open>The status webhook\<close>

definition activeTarget :: "cluster \<Rightarrow> pod \<Rightarrow> bool" where
  "activeTarget c p \<longleftrightarrow> (\<exists>job. store_get pmj_Name (cl_jobs c) (FormatPMJName (pod_Name p) (pod_UID p)) = Some job \<and>
     pmj_TargetPodUID job = pod_UID p \<and> st_Phase (pmj_Status job) \<in> {PhaseSnapshotting, PhaseEvicting})"

definition completedJobPod :: "pod \<Rightarrow> bool" where
  "completedJobPod p \<longleftrightarrow> mget (pod_Labels p) LabelEnabled = ''true'' \<and> list_ex (\<lambda>r. or_Kind r = ''Job'') (pod_OwnerReferences p) \<and> pod_Phase p = PodSucceeded"

text \<open>The migration as the webhook sees it: on the API server, from the cache if that call fails, and assumed if both fail.\<close>

definition seenActive :: "world \<Rightarrow> pod \<Rightarrow> bool" where
  "seenActive w p =
     (if w_fault w (w_calls w) = Served then activeTarget (w_live w) p
      else w_fault w (Suc (w_calls w)) = Served \<longrightarrow> activeTarget (w_cache w) p)"

definition exitCodes :: "pod \<Rightarrow> int option list" where
  "exitCodes p = map (\<lambda>cs. map_option tm_ExitCode (cs_Terminated cs)) (pod_ContainerStatuses p)"

lemma forceFailure_codes: "exitCodes (forceFailure p) = map (map_option (\<lambda>n. if n = 0 then 137 else n)) (exitCodes p)"
  by (auto simp: exitCodes_def forceFailure_def failContainer_def split: option.splits)

lemma wp_statusJobI:
  assumes "honest w" "sm_APIReader M" and seen: "\<And>c. seen c = map_option (\<lambda>job. (pmj_TargetPodUID job, st_Phase (pmj_Status job))) (store_get pmj_Name (cl_jobs c) n)"
    and "\<And>k. w_fault w (w_calls w) = Served \<Longrightarrow> Q (seen (w_live w)) (w\<lparr>w_calls := k\<rparr>)"
    and "\<And>k. w_fault w (w_calls w) \<noteq> Served \<Longrightarrow> w_fault w (Suc (w_calls w)) = Served \<Longrightarrow> Q (seen (w_cache w)) (w\<lparr>w_calls := k\<rparr>)"
    and "\<And>k. w_fault w (w_calls w) \<noteq> Served \<Longrightarrow> w_fault w (Suc (w_calls w)) \<noteq> Served \<Longrightarrow> Q (Some (uid, PhaseSnapshotting)) (w\<lparr>w_calls := k\<rparr>)"
  shows "wp (statusJob M n uid) Q w"
proof -
  have reader: "\<not> \<not> sm_APIReader M" using assms(2) by simp
  have notFound: "isNotFound (err NotFound msg)" for msg by (simp add: isNotFound_def err_def)
  have cache: "wp (statusCacheRead n uid) Q (w\<lparr>w_calls := Suc (w_calls w)\<rparr>)" if "w_fault w (w_calls w) \<noteq> Served"
    unfolding statusCacheRead_def get_job_def wp_bind wp_return
    by (rule wp_read_faultI) (use assms(1,5,6) that notFound in \<open>auto simp: seen found_def view_def denial_def split: option.split\<close>)
  show ?thesis
    unfolding statusJob_def get_job_def if_not_P [OF reader] wp_bind
    by (rule wp_read_faultI [OF assms(1)])
      (use assms(4) cache notFound in \<open>auto simp: seen found_def view_def denial_def wp_simps split: option.split\<close>)
qed

text \<open>
  C20 (functional). A pod of a Job that stops because it was checkpointed does not complete the Job.
  When the kubelet reports such a pod as Succeeded, the status that is stored is Failed, with exit code 137 in place of
  every exit code 0, exactly when the pod's migration is Snapshotting or Evicting it, as the API server has
  it, or the cache if that read fails, or if neither can be read; otherwise the completion is let
  through unchanged. No failed call may claim NotFound.
\<close>

theorem checkpointed_pod_is_not_completed:
  assumes "honest w" and "sm_APIReader M" and "completedJobPod p"
    and "run_state (StatusMutator_Handle M ''status'' (Some p)) w = (r, w')"
  shows "if seenActive w p
    then \<exists>q. r = Patched q \<and> pod_Phase q = PodFailed \<and> exitCodes q = map (map_option (\<lambda>n. if n = 0 then 137 else n)) (exitCodes p)
    else \<exists>msg. r = Allowed msg"
proof -
  let ?Q = "\<lambda>r (_ :: world). if seenActive w p then r = Patched (forceFailure p) else \<exists>msg. r = Allowed msg"
  let ?answer = "\<lambda>j. case j of None \<Rightarrow> Allowed ''no active migration job''
    | Some (target, ph) \<Rightarrow> if target \<noteq> pod_UID p then Allowed ''PMJ UID mismatch''
        else if ph \<noteq> PhaseSnapshotting \<and> ph \<noteq> PhaseEvicting then Allowed ''migration not active'' else Patched (forceFailure p)"
  let ?seen = "\<lambda>c. map_option (\<lambda>job. (pmj_TargetPodUID job, st_Phase (pmj_Status job))) (store_get pmj_Name (cl_jobs c) (FormatPMJName (pod_Name p) (pod_UID p)))"
  have answer: "if activeTarget c p then ?answer (?seen c) = Patched (forceFailure p) else \<exists>msg. ?answer (?seen c) = Allowed msg" for c
    by (auto simp: activeTarget_def split: option.splits)
  have "wp (statusJob M (FormatPMJName (pod_Name p) (pod_UID p)) (pod_UID p)) (\<lambda>j. ?Q (?answer j)) w"
    by (rule wp_statusJobI [OF assms(1,2) refl])
      (use answer [of "w_live w"] answer [of "w_cache w"] in \<open>simp_all add: seenActive_def del: not_None_eq\<close>)
  moreover have "wp (State_Monad.return x) Q = Q x" for x and Q :: "pod response \<Rightarrow> world \<Rightarrow> bool" by (rule ext) (simp add: wp_return)
  ultimately have "wp (StatusMutator_Handle M ''status'' (Some p)) ?Q w"
    using assms(3) by (simp add: StatusMutator_Handle_def completedJobPod_def wp_bind)
  moreover have "pod_Phase (forceFailure p) = PodFailed" by (simp add: forceFailure_def)
  ultimately show ?thesis using wp_run [OF _ assms(4)] forceFailure_codes [of p] by fastforce
qed

definition jobPod :: pod where
  "jobPod = (podOf ''web-0'' ''u0'')\<lparr>pod_Labels := [LabelEnabled \<mapsto> ''true''], pod_Phase := PodSucceeded,
     pod_OwnerReferences := [\<lparr>or_Kind = ''Job'', or_Name = ''j'', or_UID = ''uj'', or_Controller = Some True\<rparr>]\<rparr>"

lemma checkpointed_pod_is_not_completed_witness:
  "\<exists>q w'. run_state (StatusMutator_Handle \<lparr>sm_APIReader = True\<rparr> ''status'' (Some jobPod))
     (worldOf (clusterOf [jobPod] [jobOf ''pmj-web-0-u0'' ''web-0'' ''u0'' PhaseSnapshotting])) = (Patched q, w') \<and> pod_Phase q = PodFailed"
proof -
  let ?c = "clusterOf [jobPod] [jobOf ''pmj-web-0-u0'' ''web-0'' ''u0'' PhaseSnapshotting]"
  let ?run = "run_state (StatusMutator_Handle \<lparr>sm_APIReader = True\<rparr> ''status'' (Some jobPod)) (worldOf ?c)"
  have "activeTarget ?c jobPod"
    by (simp add: activeTarget_def clusterOf_def store_get_def jobPod_def podOf_def jobOf_def statusOf_def FormatPMJName_def ShortUID_def)
  then have seen: "seenActive (worldOf ?c) jobPod" by (simp add: seenActive_def worldOf_def)
  have M: "sm_APIReader \<lparr>sm_APIReader = True\<rparr>" by simp
  have completed: "completedJobPod jobPod" by (simp add: completedJobPod_def jobPod_def podOf_def)
  have run: "?run = (fst ?run, snd ?run)" by simp
  from checkpointed_pod_is_not_completed [OF worldOf_honest M completed run] obtain q where "fst ?run = Patched q" "pod_Phase q = PodFailed"
    unfolding if_P [OF seen] by blast
  with run show ?thesis by metis
qed

end
