(* ===== verification/NodePreemption.thy ===== *)
theory NodePreemption
  imports Eviction "HOL-Library.Multiset" "HOL-Library.Code_Target_Nat"
begin

text \<open>
  The spot-preemption controller (\<open>controller/node_preemption_controller.go\<close>): when a node is
  about to go away, it starts migrations for the pods on it, smallest first, as far as the node's
  memory budget reaches.

  \<^item> \<open>nodePreemption\<close> is \<open>NodePreemptionReconciler\<close>; its \<open>processedPods\<close> map is \<open>w_processed\<close> of
    the world. \<open>candidateOf\<close> is the body of the first loop and \<open>admitOne\<close> that of the second.
    The map of the namespaces already looked up is threaded as \<open>seen\<close>.
  \<^item> A nil engine would panic; the reconcile then ends with an error.
  \<^item> \<open>affordable\<close> is the selection that the second loop makes, whatever calls fail.
\<close>

section \<open>Definitions\<close>

record nodePreemption =
  np_lib :: kubelib
  np_APIReader :: bool
  np_Recorder :: bool
  np_SpotPreemptionBudget :: int
  np_RuntimeClassPolicy :: "runtimeClassPolicy option"
  np_Engines :: "registry option"

record preemptionCandidate =
  pc_Pod :: pod
  pc_Engine :: engine
  pc_Policy :: policyRef
  pc_Size :: int
  pc_Parent :: parent

type_synonym seenPMs = "(string \<times> podMigration option) list"

definition DefaultSpotPreemptionNodeBudget :: int where
  "DefaultSpotPreemptionNodeBudget = 15 * 1024 * 1024 * 1024"

subsection \<open>Remembered pods\<close>

definition sweepProcessed :: "unit io" where
  "sweepProcessed = modify (\<lambda>w. w\<lparr>w_processed := (\<lambda>uid. case w_processed w uid of
      None \<Rightarrow> None
    | Some t \<Rightarrow> if time_sub (w_now w) t > 10 * minute then None else Some t)\<rparr>)"

definition storeProcessed :: "pod \<Rightarrow> unit io" where
  "storeProcessed p = modify (\<lambda>w. w\<lparr>w_processed := (w_processed w)(pod_UID p \<mapsto> w_now w)\<rparr>)"

definition preemptionEvent :: "nodePreemption \<Rightarrow> string \<Rightarrow> string \<Rightarrow> string \<Rightarrow> unit io" where
  "preemptionEvent N obj typ reason = (if np_Recorder N then emitEvent obj typ reason else State_Monad.return ())"

text \<open>A pod that is skipped with an event is remembered, so that the event is not repeated.\<close>

definition skipCandidate :: "nodePreemption \<Rightarrow> pod \<Rightarrow> string \<Rightarrow> 'a \<Rightarrow> 'a io" where
  "skipCandidate N p reason x = do {
     preemptionEvent N (pod_Name p) EventTypeWarning reason;
     storeProcessed p;
     State_Monad.return x
   }"

subsection \<open>Candidates\<close>

definition preemptionEngineFor :: "nodePreemption \<Rightarrow> pod \<Rightarrow> podMigration option \<Rightarrow> engine option option" where
  "preemptionEngineFor N p pm =
     (case np_Engines N of
        Some reg \<Rightarrow> ForPod (np_lib N) reg (Some p) pm
      | None \<Rightarrow> Some (Some (gkeEngine (np_lib N) Live)))"

definition activePodMigration :: "seenPMs \<Rightarrow> string \<Rightarrow> (api_error + (podMigration option \<times> seenPMs)) io" where
  "activePodMigration seen namespace =
     (case map_of seen namespace of
        Some pm \<Rightarrow> State_Monad.return (Inr (pm, seen))
      | None \<Rightarrow> do {
          a \<leftarrow> ActivePodMigration Cached;
          State_Monad.return (case a of Inl e \<Rightarrow> Inl e | Inr pm \<Rightarrow> Inr (pm, (namespace, pm) # seen))
        })"

text \<open>The checks that need no call.\<close>

definition mayMigrate :: "nodePreemption \<Rightarrow> node \<Rightarrow> pod \<Rightarrow> bool" where
  "mayMigrate N nd p =
     (pod_NodeName p = nd_Name nd \<and> pod_Namespace p \<noteq> ''kube-system'' \<and> pod_Namespace p \<noteq> ''pod-migration-system'' \<and>
      pod_DeletionTimestamp p = None \<and> pod_Phase p = PodRunning \<and> IsPodMigrationEnabled p \<and> AreReadinessGatesSatisfied p \<and>
      Allows (np_lib N) (np_RuntimeClassPolicy N) (pod_RuntimeClassName p) \<and> \<not> HasPDBEvictionTimedOut p)"

definition jobOfPod :: "nodePreemption \<Rightarrow> pod \<Rightarrow> (api_error + pmj) io" where
  "jobOfPod N p = do {
     g \<leftarrow> get_job Cached (FormatPMJName (pod_Name p) (pod_UID p));
     (case g of
        Inr job \<Rightarrow> State_Monad.return (Inr job)
      | Inl e \<Rightarrow> if isNotFound e \<and> np_APIReader N then get_job Live (FormatPMJName (pod_Name p) (pod_UID p)) else State_Monad.return (Inl e))
   }"

definition inFlightReplica :: "nodePreemption \<Rightarrow> pod \<Rightarrow> parent \<Rightarrow> string \<Rightarrow> bool io" where
  "inFlightReplica N p pa key = do {
     b \<leftarrow> HasActivePMJWithReplicaKey Cached pa key (FormatPMJName (pod_Name p) (pod_UID p));
     (case b of
        Inl _ \<Rightarrow> State_Monad.return False
      | Inr (True, _) \<Rightarrow> skipCandidate N p ''MigrationSkippedAmbiguousReplicaKey'' False
      | Inr (False, _) \<Rightarrow> State_Monad.return True)
   }"

text \<open>Whether the replica identity of an operator-owned pod lets it be migrated.\<close>

definition unambiguousReplica :: "nodePreemption \<Rightarrow> pod \<Rightarrow> parent \<Rightarrow> bool io" where
  "unambiguousReplica N p pa =
     (if IsBuiltInWorkloadKind (pa_Kind pa) then State_Monad.return True
      else case ResolveOperatorReplicaKey p (pa_Kind pa) of
             None \<Rightarrow> skipCandidate N p ''MigrationSkippedNoReplicaKey'' False
           | Some key \<Rightarrow>
               if key = [] then skipCandidate N p ''MigrationSkippedNoReplicaKey'' False
               else do {
                 a \<leftarrow> HasAmbiguousOperatorSibling Cached pa key [pod_UID p, pod_Name p];
                 (case a of
                    Inl _ \<Rightarrow> State_Monad.return False
                  | Inr (True, _) \<Rightarrow> skipCandidate N p ''MigrationSkippedAmbiguousReplicaKey'' False
                  | Inr (False, _) \<Rightarrow> inFlightReplica N p pa key)
               })"

definition withFootprint :: "nodePreemption \<Rightarrow> pod \<Rightarrow> engine \<Rightarrow> policyRef \<Rightarrow> int \<Rightarrow> preemptionCandidate option io" where
  "withFootprint N p eng policy bytes = do {
     pa \<leftarrow> ResolveParentWorkload Cached p;
     (case pa of
        Inl e \<Rightarrow>
          if \<not> isNotFound e then State_Monad.return None
          else do {
            ok \<leftarrow> unambiguousReplica N p noParent;
            State_Monad.return (if ok then Some \<lparr>pc_Pod = p, pc_Engine = eng, pc_Policy = policy, pc_Size = bytes, pc_Parent = noParent\<rparr> else None)
          }
      | Inr parent \<Rightarrow> do {
          ok \<leftarrow> unambiguousReplica N p parent;
          State_Monad.return (if ok then Some \<lparr>pc_Pod = p, pc_Engine = eng, pc_Policy = policy, pc_Size = bytes, pc_Parent = parent\<rparr> else None)
        })
   }"

definition withEligible :: "nodePreemption \<Rightarrow> pod \<Rightarrow> engine \<Rightarrow> preemptionCandidate option io" where
  "withEligible N p eng =
     (case AllowsFencing (Some p) (Some eng) of
        (False, _) \<Rightarrow> skipCandidate N p ''MigrationSkippedUnfencedEngine'' None
      | (True, _) \<Rightarrow> do {
          r \<leftarrow> eng_ResolvePolicy eng p;
          (case r of
             Inl _ \<Rightarrow> State_Monad.return None
           | Inr None \<Rightarrow> skipCandidate N p ''MigrationSkippedNoPolicy'' None
           | Inr (Some policy) \<Rightarrow>
               (case CalculatePodMemoryFootprint p of
                  None \<Rightarrow> skipCandidate N p ''MigrationSkippedUnknownMemory'' None
                | Some bytes \<Rightarrow>
                    if bytes \<le> 0 then skipCandidate N p ''MigrationSkippedUnknownMemory'' None
                    else withFootprint N p eng policy bytes))
        })"

definition candidateOf :: "nodePreemption \<Rightarrow> node \<Rightarrow> seenPMs \<Rightarrow> pod \<Rightarrow> (api_error + (preemptionCandidate option \<times> seenPMs)) io" where
  "candidateOf N nd seen p =
     (if \<not> mayMigrate N nd p then State_Monad.return (Inr (None, seen))
      else do {
        g \<leftarrow> jobOfPod N p;
        done \<leftarrow> gets (\<lambda>w. w_processed w (pod_UID p) \<noteq> None);
        (case g of
           Inr _ \<Rightarrow> State_Monad.return (Inr (None, seen))
         | Inl e \<Rightarrow>
             if \<not> isNotFound e \<or> done then State_Monad.return (Inr (None, seen))
             else do {
               a \<leftarrow> activePodMigration seen (pod_Namespace p);
               (case a of
                  Inl _ \<Rightarrow> State_Monad.return (Inr (None, seen))
                | Inr (pm, seen') \<Rightarrow>
                    (case preemptionEngineFor N p pm of
                       None \<Rightarrow> State_Monad.return (Inr (None, seen'))
                     | Some None \<Rightarrow> State_Monad.return (Inl (err OtherReason ''panic: nil engine''))
                     | Some (Some eng) \<Rightarrow>
                         if \<not> vd_OK (eng_Eligible eng (Some p) (Some nd)) then State_Monad.return (Inr (None, seen'))
                         else do {
                           c \<leftarrow> withEligible N p eng;
                           State_Monad.return (Inr (c, seen'))
                         }))
             })
      })"

fun collectCandidates :: "nodePreemption \<Rightarrow> node \<Rightarrow> seenPMs \<Rightarrow> pod list \<Rightarrow> preemptionCandidate list \<Rightarrow> (api_error + preemptionCandidate list) io" where
  "collectCandidates N nd seen [] acc = State_Monad.return (Inr acc)"
| "collectCandidates N nd seen (p # ps) acc = do {
     c \<leftarrow> candidateOf N nd seen p;
     (case c of
        Inl e \<Rightarrow> State_Monad.return (Inl e)
      | Inr (None, seen') \<Rightarrow> collectCandidates N nd seen' ps acc
      | Inr (Some cand, seen') \<Rightarrow> collectCandidates N nd seen' ps (acc @ [cand]))
   }"

definition candidateLess :: "preemptionCandidate \<Rightarrow> preemptionCandidate \<Rightarrow> bool" where
  "candidateLess a b =
     (if pc_Size a \<noteq> pc_Size b then pc_Size a < pc_Size b
      else if pod_CreationTimestamp (pc_Pod a) \<noteq> pod_CreationTimestamp (pc_Pod b)
      then pod_CreationTimestamp (pc_Pod a) < pod_CreationTimestamp (pc_Pod b)
      else pod_Name (pc_Pod a) < pod_Name (pc_Pod b))"

subsection \<open>Admission\<close>

definition totalBudget :: "nodePreemption \<Rightarrow> int" where
  "totalBudget N = (if np_SpotPreemptionBudget N \<le> 0 then DefaultSpotPreemptionNodeBudget else np_SpotPreemptionBudget N)"

definition preemptionJob :: "nodePreemption \<Rightarrow> preemptionCandidate \<Rightarrow> pmj" where
  "preemptionJob N cand =
     (let p = pc_Pod cand in
      case BuildPMJLabelsAndAnnotationsForPolicy (np_lib N) p (pc_Parent cand) (pr_Name (pc_Policy cand)) PreemptionDefaultTimeout TriggerSourceSpotPreemption of
        (lbls, anns0) \<Rightarrow>
          let anns = (if mget (pod_Annotations p) AnnotationMigrationTimeout = []
                      then anns0(AnnotationMigrationTimeout \<mapsto> durationString PreemptionDefaultTimeout) else anns0)
          in \<lparr>pmj_Name = FormatPMJName (pod_Name p) (pod_UID p), pmj_Namespace = pod_Namespace p, pmj_UID = [], pmj_ResourceVersion = 0,
              pmj_Generation = 0, pmj_Labels = lbls, pmj_Annotations = anns(AnnotationEngine \<mapsto> eng_Name (pc_Engine cand)), pmj_Finalizers = [],
              pmj_OwnerReferences = [], pmj_CreationTimestamp = zero_time, pmj_DeletionTimestamp = None,
              pmj_PodRefName = pod_Name p, pmj_TargetPodUID = pod_UID p, pmj_Status = emptyStatus\<rparr>)"

definition admitOne :: "nodePreemption \<Rightarrow> node \<Rightarrow> preemptionCandidate \<Rightarrow> unit io" where
  "admitOne N nd cand = do {
     c \<leftarrow> createJob (preemptionJob N cand);
     (case c of
        Inl e \<Rightarrow>
          if ae_reason e = AlreadyExists then storeProcessed (pc_Pod cand)
          else preemptionEvent N (pod_Name (pc_Pod cand)) EventTypeWarning ''PreemptionMigrationCreateFailed''
      | Inr _ \<Rightarrow> do {
          preemptionEvent N (pod_Name (pc_Pod cand)) EventTypeNormal ''PreemptionMigrationTriggered'';
          preemptionEvent N (nd_Name nd) EventTypeNormal ''PreemptionMigrationInitiated'';
          storeProcessed (pc_Pod cand)
        })
   }"

fun admitCandidates :: "nodePreemption \<Rightarrow> node \<Rightarrow> int \<Rightarrow> preemptionCandidate list \<Rightarrow> unit io" where
  "admitCandidates N nd remaining [] = State_Monad.return ()"
| "admitCandidates N nd remaining (cand # cands) =
     (if pc_Size cand > remaining then do {
        skipCandidate N (pc_Pod cand) ''MigrationSkippedPreemptionBudgetExceeded'' ();
        admitCandidates N nd remaining cands
      }
      else do {
        admitOne N nd cand;
        admitCandidates N nd (remaining - pc_Size cand) cands
      })"

definition NodePreemption_Reconcile :: "nodePreemption \<Rightarrow> string \<Rightarrow> (api_error + result) io" where
  "NodePreemption_Reconcile N name = do {
     g \<leftarrow> get_node Cached name;
     (case g of
        Inl e \<Rightarrow> State_Monad.return (if isNotFound e then Inr no_requeue else Inl e)
      | Inr nd \<Rightarrow>
          if \<not> IsNodePreempting nd then State_Monad.return (Inr no_requeue)
          else do {
            sweepProcessed;
            l \<leftarrow> list_pods_on_node Cached (nd_Name nd);
            (case l of
               Inl e \<Rightarrow> State_Monad.return (Inl e)
             | Inr pods \<Rightarrow> do {
                 cs \<leftarrow> collectCandidates N nd [] pods [];
                 (case cs of
                    Inl e \<Rightarrow> State_Monad.return (Inl e)
                  | Inr [] \<Rightarrow> State_Monad.return (Inr no_requeue)
                  | Inr (c # cands) \<Rightarrow> do {
                      admitCandidates N nd (totalBudget N) (sort_by candidateLess (c # cands));
                      State_Monad.return (Inr no_requeue)
                    })
               })
          })
   }"

text \<open>The predicate of the watch: which updates of a node are looked at.\<close>

definition nodeUpdateRelevant :: "node \<Rightarrow> node \<Rightarrow> bool" where
  "nodeUpdateRelevant old new = (IsNodePreempting new \<or> IsNodePreempting old)"

definition mainPreemption :: "kubelib \<Rightarrow> registry \<Rightarrow> int \<Rightarrow> runtimeClassPolicy option \<Rightarrow> nodePreemption" where
  "mainPreemption K engines budget policy = \<lparr>np_lib = K, np_APIReader = True, np_Recorder = True,
     np_SpotPreemptionBudget = budget, np_RuntimeClassPolicy = policy, np_Engines = Some engines\<rparr>"

text \<open>What the second loop selects.\<close>

fun affordable :: "int \<Rightarrow> preemptionCandidate list \<Rightarrow> preemptionCandidate list" where
  "affordable remaining [] = []"
| "affordable remaining (c # cs) =
     (if pc_Size c > remaining then affordable remaining cs else c # affordable (remaining - pc_Size c) cs)"


definition jobsCreated :: "(effect \<times> cluster) list \<Rightarrow> pmj list" where
  "jobsCreated log = List.map_filter (\<lambda>(e, c). case e of CreateJob j \<Rightarrow> Some j | _ \<Rightarrow> None) log"

definition totalSize :: "preemptionCandidate list \<Rightarrow> int" where
  "totalSize cs = sum_list (map pc_Size cs)"

text \<open>What the first loop guarantees of a candidate.\<close>

definition budgetable :: "nodePreemption \<Rightarrow> node \<Rightarrow> preemptionCandidate \<Rightarrow> bool" where
  "budgetable N nd c =
     (mayMigrate N nd (pc_Pod c) \<and> CalculatePodMemoryFootprint (pc_Pod c) = Some (pc_Size c) \<and> pc_Size c > 0)"

section \<open>Lemmas\<close>

subsection \<open>The selection\<close>

lemma totalSize_simps [simp]: "totalSize [] = 0" "totalSize (c # cs) = pc_Size c + totalSize cs"
  by (simp_all add: totalSize_def)

lemma subseq_affordable: "subseq (affordable b cs) cs"
  by (induction b cs rule: affordable.induct) auto

lemma affordable_within: "0 \<le> b \<Longrightarrow> totalSize (affordable b cs) \<le> b"
  by (induction b cs rule: affordable.induct) auto

lemma totalSize_nonneg: "\<forall>c \<in> set cs. 0 \<le> pc_Size c \<Longrightarrow> 0 \<le> totalSize cs"
  by (auto simp: totalSize_def intro!: sum_list_nonneg)

lemma totalSize_subseq: "subseq xs ys \<Longrightarrow> \<forall>c \<in> set ys. 0 \<le> pc_Size c \<Longrightarrow> totalSize xs \<le> totalSize ys"
  by (induction rule: list_emb.induct) (auto simp: totalSize_nonneg)

text \<open>The list is sorted by size.\<close>

lemma mset_sort_by [simp]: "mset (sort_by lt xs) = mset xs"
proof -
  have "mset (ins_by lt x ys) = add_mset x (mset ys)" for x ys
    by (induction ys) auto
  then show ?thesis by (induction xs) auto
qed

lemma sorted_candidates: "sorted (map pc_Size (sort_by candidateLess cs))"
proof -
  have "sorted (map pc_Size ys) \<Longrightarrow> sorted (map pc_Size (ins_by candidateLess x ys))" for x ys
  proof (induction ys)
    case (Cons y ys)
    have "set (ins_by candidateLess x ys) = insert x (set ys)" by (induction ys) auto
    with Cons show ?case by (auto simp: candidateLess_def split: if_splits)
  qed simp
  then show ?thesis by (induction cs) auto
qed

text \<open>No selection of \<open>n\<close> elements weighs less than the \<open>n\<close> smallest ones.\<close>

lemma sum_smallest:
  fixes xs :: "int list"
  assumes "sorted xs" "mset ys \<subseteq># mset xs"
  shows "sum_list (take (length ys) xs) \<le> sum_list ys"
  using assms
proof (induction xs arbitrary: ys)
  case (Cons x xs)
  show ?case
  proof (cases ys)
    case (Cons y zs)
    define u where "u = (if x \<in> set ys then x else y)"
    have u: "u \<in> set ys" "x \<le> u" using Cons Cons.prems by (auto simp: u_def dest!: mset_subset_eqD)
    have "mset (remove1 u ys) \<subseteq># mset xs"
    proof (cases "x \<in> set ys")
      case True
      then show ?thesis using Cons.prems(2) by (simp add: u_def subset_eq_diff_conv)
    next
      case False
      then have "mset ys \<subseteq># mset xs" using Cons.prems(2) subset_eq_diff_conv [of "mset ys" "{#x#}" "mset xs"] by (simp add: diff_single_trivial)
      then have "mset ys - {#u#} \<subseteq># mset xs" by (rule subset_mset.order_trans [OF diff_subset_eq_self])
      then show ?thesis by simp
    qed
    from Cons.IH [OF _ this] Cons.prems(1) have "sum_list (take (length (remove1 u ys)) xs) \<le> sum_list (remove1 u ys)" by simp
    moreover have "sum_list ys = u + sum_list (remove1 u ys)" using u(1) by (simp add: sum_list_map_remove1 [where f = "\<lambda>x. x", simplified])
    moreover have "length ys = Suc (length (remove1 u ys))" using u(1) by (simp add: length_remove1) (metis Suc_pred length_pos_if_in_set)
    ultimately show ?thesis using u(2) by simp
  qed simp
qed simp

lemma affordable_longest:
  "sorted (map pc_Size cs) \<Longrightarrow> \<forall>c \<in> set cs. 0 \<le> pc_Size c \<Longrightarrow> n \<le> length cs \<Longrightarrow> totalSize (take n cs) \<le> b \<Longrightarrow> n \<le> length (affordable b cs)"
proof (induction b cs arbitrary: n rule: affordable.induct)
  case (2 b c cs)
  show ?case
  proof (cases n)
    case (Suc m)
    have "0 \<le> totalSize (take m cs)" using 2(4) by (auto intro!: totalSize_nonneg dest!: in_set_takeD)
    with 2 Suc show ?thesis by auto
  qed simp
qed simp


subsection \<open>The loops\<close>

abbreviation onlyEvents :: "effect \<Rightarrow> cluster \<Rightarrow> cluster \<Rightarrow> bool" where
  "onlyEvents e c c' \<equiv> (\<exists>obj typ rsn. e = Event obj typ rsn)"

lemma jobsCreated_simps [simp]:
  "jobsCreated [] = []" "jobsCreated (log @ log') = jobsCreated log @ jobsCreated log'"
  "jobsCreated ((CreateJob j, c) # log) = j # jobsCreated log" "jobsCreated ((Event obj typ rsn, c) # log) = jobsCreated log"
  by (simp_all add: jobsCreated_def map_filter_def)

lemma adds_onlyEvents: "adds onlyEvents w w' \<Longrightarrow> jobsCreated (w_log w') = jobsCreated (w_log w)"
proof -
  have "chain onlyEvents c es c' \<Longrightarrow> jobsCreated es = []" for c es c'
    by (induction es arbitrary: c) auto
  then show "adds onlyEvents w w' \<Longrightarrow> ?thesis" by (auto simp: adds_def)
qed

lemma does_modify: "w_log (f w) = w_log w \<Longrightarrow> w_live (f w) = w_live w \<Longrightarrow> Q () (f w) \<Longrightarrow> does P (modify f) Q w"
  by (simp add: does_def wp_simps adds_refl)

lemma does_preemptionEvent: "(\<And>w'. Q () w') \<Longrightarrow> does onlyEvents (preemptionEvent N obj typ rsn) Q w"
  by (auto simp: preemptionEvent_def intro!: does_event does_return)

lemma does_skipCandidate: "(\<And>w'. Q x w') \<Longrightarrow> does onlyEvents (skipCandidate N p rsn x) Q w"
  unfolding skipCandidate_def storeProcessed_def
  by (intro does_bind does_preemptionEvent does_modify does_return) auto

lemma reads_jobOfPod [reads_rules]: "onlyReads (jobOfPod N p)"
  unfolding jobOfPod_def by (rule reads_rules)+

lemma reads_activePodMigration: "onlyReads (activePodMigration seen ns)"
  unfolding activePodMigration_def by (auto split: option.splits intro!: reads_rules reads_ActivePodMigration)

lemma does_unambiguousReplica: "(\<And>x w'. Q x w') \<Longrightarrow> does onlyEvents (unambiguousReplica N p pa) Q w"
  unfolding unambiguousReplica_def inFlightReplica_def
  by (auto split: option.splits sum.splits bool.splits
      intro!: does_return does_bind does_skipCandidate does_onlyReads [OF reads_replicaKeys(1)] does_onlyReads [OF reads_replicaKeys(2)])

lemma does_withFootprint:
  assumes "\<And>w'. Q None w'" and "\<And>c w'. pc_Pod c = p \<Longrightarrow> pc_Size c = b \<Longrightarrow> Q (Some c) w'"
  shows "does onlyEvents (withFootprint N p eng pol b) Q w"
  unfolding withFootprint_def using assms
  by (auto split: sum.splits intro!: does_bind does_onlyReads [OF reads_ResolveParent] does_unambiguousReplica does_return)

text \<open>The engines only read when they resolve a policy.\<close>

locale preemption_engines =
  fixes N :: nodePreemption
  assumes engine: "preemptionEngineFor N p pm = Some (Some eng) \<Longrightarrow> onlyReads (eng_ResolvePolicy eng q)"
begin

lemma does_withEligible:
  assumes "onlyReads (eng_ResolvePolicy eng p)" and "\<And>w'. Q None w'"
    and "\<And>c w'. pc_Pod c = p \<Longrightarrow> CalculatePodMemoryFootprint p = Some (pc_Size c) \<Longrightarrow> pc_Size c > 0 \<Longrightarrow> Q (Some c) w'"
  shows "does onlyEvents (withEligible N p eng) Q w"
proof -
  have resolve: "does onlyEvents (State_Monad.bind (eng_ResolvePolicy eng p) f) Q w" if "\<And>r w'. does onlyEvents (f r) Q w'" for f
    by (rule does_bind, rule does_onlyReads [OF assms(1)]) (rule that)
  show ?thesis
    unfolding withEligible_def using assms(2,3)
    by (auto split: prod.splits bool.splits sum.splits option.splits intro!: resolve does_skipCandidate does_return does_withFootprint)
qed

lemma does_candidateOf:
  assumes "\<And>e w'. Q (Inl e) w'" and "\<And>s w'. Q (Inr (None, s)) w'" and "\<And>c s w'. budgetable N nd c \<Longrightarrow> pc_Pod c = p \<Longrightarrow> Q (Inr (Some c, s)) w'"
  shows "does onlyEvents (candidateOf N nd seen p) Q w"
proof (cases "mayMigrate N nd p")
  case True
  have pick: "does onlyEvents (withEligible N p eng) (\<lambda>c. does onlyEvents (State_Monad.return (Inr (c, s))) Q) w'"
    if "preemptionEngineFor N p pm = Some (Some eng)" for eng pm s w'
    by (rule does_withEligible [OF engine [OF that]])
      (use assms True in \<open>auto simp: budgetable_def intro!: does_return\<close>)
  show ?thesis
    unfolding candidateOf_def using assms True
    by (auto split: sum.splits option.splits prod.splits
        intro!: does_bind does_onlyReads [OF reads_jobOfPod] does_onlyReads [OF reads_pure(3)] does_onlyReads [OF reads_activePodMigration] does_return)
      (erule pick)
qed (use assms in \<open>auto simp: candidateOf_def intro: does_return\<close>)

lemma does_collect:
  assumes "\<forall>c \<in> set acc. budgetable N nd c \<and> pc_Pod c \<in> X" and "set ps \<subseteq> X" and "\<And>e w'. Q (Inl e) w'"
    and "\<And>cs w'. \<forall>c \<in> set cs. budgetable N nd c \<and> pc_Pod c \<in> X \<Longrightarrow> Q (Inr cs) w'"
  shows "does onlyEvents (collectCandidates N nd seen ps acc) Q w"
  using assms(1,2)
proof (induction ps arbitrary: seen acc w)
  case (Cons p ps)
  show ?case
    unfolding collectCandidates.simps
    by (rule does_bind, rule does_candidateOf) (use Cons.prems in \<open>auto intro!: does_return Cons.IH assms(3)\<close>)
qed (auto intro: does_return assms(4))

end


interpretation mainPreemption: preemption_engines "mainPreemption K (gkeRoutes K cs) b pol" for K cs b pol
proof
  fix p pm eng q
  assume "preemptionEngineFor (mainPreemption K (gkeRoutes K cs) b pol) p pm = Some (Some eng)"
  then have "eng = gkeEngine K Live" by (auto simp: preemptionEngineFor_def mainPreemption_def dest: gkeRoutes_ForPod)
  then show "onlyReads (eng_ResolvePolicy eng q)" by (simp add: reads_gke_policy)
qed

definition targets :: "preemptionCandidate list \<Rightarrow> string list" where
  "targets cs = map (\<lambda>c. pod_UID (pc_Pod c)) cs"

lemma targets_simps [simp]: "targets [] = []" "targets (c # cs) = pod_UID (pc_Pod c) # targets cs"
  by (simp_all add: targets_def)

lemma preemptionJob_simps [simp]:
  "pmj_Name (preemptionJob N c) = FormatPMJName (pod_Name (pc_Pod c)) (pod_UID (pc_Pod c))"
  "pmj_TargetPodUID (preemptionJob N c) = pod_UID (pc_Pod c)"
  by (simp_all add: preemptionJob_def Let_def BuildPMJLabelsAndAnnotationsForPolicy_def)

text \<open>The jobs created are for affordable candidates, in order, whatever calls fail.\<close>

abbreviation createdTargets :: "world \<Rightarrow> string list" where
  "createdTargets w \<equiv> map pmj_TargetPodUID (jobsCreated (w_log w))"

lemma wp_preemptionEvent:
  "(\<And>w'. w' = w \<or> w' = w\<lparr>w_log := w_log w @ [(Event obj ty rsn, w_live w)]\<rparr> \<Longrightarrow> Q () w') \<Longrightarrow> wp (preemptionEvent N obj ty rsn) Q w"
  by (simp add: preemptionEvent_def wp_simps)

lemma wp_admitOne:
  "wp (admitOne N nd c) (\<lambda>_ w'. createdTargets w' = createdTargets w \<or> createdTargets w' = createdTargets w @ [pod_UID (pc_Pod c)]) w"
  unfolding admitOne_def createJob_def storeProcessed_def wp_bind
  by (rule wp_write_callI) (auto simp: wp_simps admitted_def split: sum.splits option.splits intro!: wp_preemptionEvent)

lemma wp_skipCandidate: "wp (skipCandidate N p rsn x) (\<lambda>r w'. r = x \<and> createdTargets w' = createdTargets w) w"
  unfolding skipCandidate_def storeProcessed_def wp_bind
  by (auto simp: wp_simps intro!: wp_preemptionEvent)

lemma wp_admitCandidates:
  "wp (admitCandidates N nd b cs) (\<lambda>_ w'. \<exists>ds. subseq ds (affordable b cs) \<and> createdTargets w' = createdTargets w @ targets ds) w"
proof (induction b cs arbitrary: w rule: affordable.induct)
  case (2 b c cs)
  show ?case
  proof (cases "pc_Size c > b")
    case True
    then show ?thesis
      by (auto simp: wp_bind intro!: wp_mono [OF wp_skipCandidate] wp_mono [OF 2(1)])
  next
    case False
    have "wp (admitCandidates N nd (b - pc_Size c) cs)
        (\<lambda>_ w'. \<exists>ds. subseq ds (affordable b (c # cs)) \<and> createdTargets w' = createdTargets w @ targets ds) u"
      if "createdTargets u = createdTargets w \<or> createdTargets u = createdTargets w @ [pod_UID (pc_Pod c)]" for u
    proof (rule wp_mono [OF 2(2) [OF False]], elim exE conjE)
      fix w' ds
      assume ds: "subseq ds (affordable (b - pc_Size c) cs)" "createdTargets w' = createdTargets u @ targets ds"
      show "\<exists>ds. subseq ds (affordable b (c # cs)) \<and> createdTargets w' = createdTargets w @ targets ds"
        using that
      proof
        assume "createdTargets u = createdTargets w"
        with ds False show ?thesis by (intro exI [of _ ds]) auto
      next
        assume "createdTargets u = createdTargets w @ [pod_UID (pc_Pod c)]"
        with ds False show ?thesis by (intro exI [of _ "c # ds"]) auto
      qed
    qed
    with False show ?thesis by (auto simp: wp_bind intro!: wp_mono [OF wp_admitOne])
  qed
qed (auto simp: wp_simps intro!: exI [of _ "[]"])

text \<open>When every call is served and none of the jobs exists yet, each affordable candidate gets its job.\<close>

definition candKey :: "preemptionCandidate \<Rightarrow> string" where
  "candKey c = FormatPMJName (pod_Name (pc_Pod c)) (pod_UID (pc_Pod c))"

definition unstarted :: "preemptionCandidate list \<Rightarrow> world \<Rightarrow> bool" where
  "unstarted cs w = (distinct (map candKey cs) \<and> (\<forall>k \<in> set (map candKey cs). store_get pmj_Name (cl_jobs (w_live w)) k = None))"

lemma unstarted_perm:
  assumes "mset cs = mset ds"
  shows "unstarted cs w = unstarted ds w"
proof -
  have "mset (map candKey cs) = mset (map candKey ds)" using assms by simp
  from mset_eq_imp_distinct_iff [OF this] mset_eq_setD [OF this] show ?thesis by (simp only: unstarted_def)
qed

lemma wp_skip_served:
  "served w \<Longrightarrow> unstarted cs w \<Longrightarrow>
   wp (skipCandidate N p rsn x) (\<lambda>r w'. createdTargets w' = createdTargets w \<and> served w' \<and> unstarted cs w') w"
  unfolding skipCandidate_def storeProcessed_def wp_bind
  by (auto simp: wp_simps served_def unstarted_def intro!: wp_preemptionEvent)

lemma wp_admit_served:
  assumes "served w" "unstarted (c # cs) w"
  shows "wp (admitOne N nd c) (\<lambda>_ w'. createdTargets w' = createdTargets w @ [pod_UID (pc_Pod c)] \<and> served w' \<and> unstarted cs w') w"
proof -
  have "store_get pmj_Name (cl_jobs (w_live w)) (pmj_Name (preemptionJob N c)) = None"
    using assms(2) by (simp add: unstarted_def candKey_def)
  moreover have "pmj_Name (preemptionJob N c) = candKey c" by (simp add: candKey_def)
  moreover have "\<forall>k \<in> set cs. candKey k \<noteq> candKey c" using assms(2) by (auto simp: unstarted_def) (metis imageI)
  ultimately show ?thesis
    unfolding admitOne_def createJob_def storeProcessed_def wp_bind
    by (subst wp_write_served [OF assms(1)], simp)
      (use assms in \<open>auto simp: wp_simps admitted_def served_def unstarted_def store_get_put image_iff simp del: preemptionJob_simps(1) intro!: wp_preemptionEvent\<close>)
qed

lemma wp_admitCandidates_served:
  "served w \<Longrightarrow> unstarted cs w \<Longrightarrow> wp (admitCandidates N nd b cs) (\<lambda>_ w'. createdTargets w' = createdTargets w @ targets (affordable b cs)) w"
proof (induction b cs arbitrary: w rule: affordable.induct)
  case (2 b c cs)
  have u: "unstarted cs w" using 2(4) by (simp add: unstarted_def)
  show ?case
  proof (cases "pc_Size c > b")
    case True
    then show ?thesis
      by (auto simp: wp_bind intro!: wp_mono [OF wp_skip_served [OF 2(3) u]] elim!: wp_mono [OF 2(1)])
  next
    case False
    then show ?thesis
      by (auto simp: wp_bind intro!: wp_mono [OF wp_admit_served [OF 2(3,4)]] elim!: wp_mono [OF 2(2)])
  qed
qed (simp add: wp_simps)


subsection \<open>Properties\<close>

definition footprint :: "pod \<Rightarrow> int" where
  "footprint p = (case CalculatePodMemoryFootprint p of None \<Rightarrow> 0 | Some n \<Rightarrow> n)"

lemma footprint_total: "\<forall>c \<in> set cs. budgetable N nd c \<Longrightarrow> sum_list (map (\<lambda>c. footprint (pc_Pod c)) cs) = totalSize cs"
  by (induction cs) (auto simp: footprint_def budgetable_def)

text \<open>
  C15 (safety). The budget holds. Whatever calls fail, the pods for which one pass over a node
  creates jobs are pods that the cache has on that node and that may be migrated off it (running, not being deleted, opted in,
  with their readiness gates satisfied, of a migratable runtime class,
  outside the system namespaces), with a known memory footprint; their footprints
  together stay within the budget; and there are none unless the node is being preempted.
\<close>

theorem preemption_stays_within_budget:
  assumes "NewDefaultRegistry K Live policy = Inr engines" and "w_log w = []"
    and "store_get nd_Name (cl_nodes (w_cache w)) name = Some nd"
    and "run_state (NodePreemption_Reconcile (mainPreemption K engines b pol) name) w = (r, w')"
  shows "\<exists>ps. map pmj_TargetPodUID (jobsCreated (w_log w')) = map pod_UID ps \<and> set ps \<subseteq> set (cl_pods (w_cache w)) \<and>
    (\<forall>p \<in> set ps. pod_NodeName p = nd_Name nd \<and> pod_Namespace p \<noteq> ''kube-system'' \<and> pod_Namespace p \<noteq> ''pod-migration-system'' \<and>
      pod_DeletionTimestamp p = None \<and> pod_Phase p = PodRunning \<and> IsPodMigrationEnabled p \<and> AreReadinessGatesSatisfied p \<and>
      Allows K pol (pod_RuntimeClassName p) \<and> \<not> HasPDBEvictionTimedOut p \<and> 0 < footprint p) \<and>
    sum_list (map footprint ps) \<le> totalBudget (mainPreemption K engines b pol) \<and> (ps \<noteq> [] \<longrightarrow> IsNodePreempting nd)"
proof -
  obtain rs where engines: "engines = gkeRoutes K rs" using default_routes [OF assms(1)] by blast
  let ?N = "mainPreemption K engines b pol"
  let ?X = "set (cl_pods (w_cache w))"
  define within where "within u \<longleftrightarrow> (\<exists>cs. createdTargets u = targets cs \<and> (\<forall>c \<in> set cs. budgetable ?N nd c \<and> pc_Pod c \<in> ?X) \<and> totalSize cs \<le> totalBudget ?N \<and>
    (cs \<noteq> [] \<longrightarrow> IsNodePreempting nd))" for u
  have budget: "0 \<le> totalBudget ?N" by (simp add: totalBudget_def DefaultSpotPreemptionNodeBudget_def)
  have none_yet: "within u" if "jobsCreated (w_log u) = []" for u
    unfolding within_def using that budget by (intro exI [of _ "[]"]) simp
  have admit: "wp (admitCandidates ?N nd (totalBudget ?N) (sort_by candidateLess cs)) (\<lambda>_. within) u"
    if cs: "\<forall>c \<in> set cs. budgetable ?N nd c \<and> pc_Pod c \<in> ?X" and "createdTargets u = []" and "IsNodePreempting nd" for cs u
  proof (rule wp_mono [OF wp_admitCandidates], elim exE conjE)
    fix w' ds
    assume ds: "subseq ds (affordable (totalBudget ?N) (sort_by candidateLess cs))" "createdTargets w' = createdTargets u @ targets ds"
    have sub: "set (affordable (totalBudget ?N) (sort_by candidateLess cs)) \<subseteq> set cs"
      using subseq_affordable [of "totalBudget ?N" "sort_by candidateLess cs"] set_nths_subset by (fastforce simp: subseq_conv_nths)
    have "set ds \<subseteq> set cs" using ds(1) sub set_nths_subset by (fastforce simp: subseq_conv_nths)
    moreover have "totalSize ds \<le> totalBudget ?N"
      using totalSize_subseq [OF ds(1)] sub cs affordable_within [OF budget, of "sort_by candidateLess cs"]
      by (force simp: budgetable_def)
    ultimately show "within w'" unfolding within_def using ds(2) that by auto
  qed
  have collect: "wp (collectCandidates ?N nd [] ps [])
      (\<lambda>r u. createdTargets u = [] \<and> (\<forall>cs. r = Inr cs \<longrightarrow> (\<forall>c \<in> set cs. budgetable ?N nd c \<and> pc_Pod c \<in> ?X))) u"
    if "createdTargets u = []" "set ps \<subseteq> ?X" for ps u
  proof -
    have "does onlyEvents (collectCandidates ?N nd [] ps []) (\<lambda>r _. \<forall>cs. r = Inr cs \<longrightarrow> (\<forall>c \<in> set cs. budgetable ?N nd c \<and> pc_Pod c \<in> ?X)) u"
      unfolding engines by (rule mainPreemption.does_collect [OF _ that(2)]) simp_all
    then show ?thesis unfolding does_def by (rule wp_mono) (use that adds_onlyEvents in auto)
  qed
  have "wp (NodePreemption_Reconcile ?N name) (\<lambda>_. within) w"
    unfolding NodePreemption_Reconcile_def get_node_def list_pods_on_node_def sweepProcessed_def using assms(2,3)
    by (auto simp: wp_simps view_def none_yet simp del: sort_by.simps split: sum.splits list.splits
        intro!: wp_read_callI wp_mono [OF collect] wp_mono [OF admit])
  from wp_run [OF this assms(4)] obtain cs where cs: "createdTargets w' = targets cs" "\<forall>c \<in> set cs. budgetable ?N nd c \<and> pc_Pod c \<in> ?X"
    "totalSize cs \<le> totalBudget ?N" "cs \<noteq> [] \<longrightarrow> IsNodePreempting nd" unfolding within_def by blast
  have total: "sum_list (map footprint (map pc_Pod cs)) = totalSize cs" using footprint_total [of cs ?N nd] cs(2) by (simp add: comp_def)
  have pods: "\<forall>p \<in> set (map pc_Pod cs). p \<in> ?X \<and> mayMigrate ?N nd p \<and> 0 < footprint p" using cs(2) by (auto simp: budgetable_def footprint_def)
  show ?thesis
    by (rule exI [of _ "map pc_Pod cs"]) (use cs total pods in \<open>auto simp: targets_def mayMigrate_def mainPreemption_def\<close>)
qed

text \<open>
  C22 (functional). The selection saves as many pods as the budget can: if the calls are served and
  the candidates have no jobs yet, no choice of candidates within the budget has more pods than
  get a job.
\<close>

theorem preemption_saves_the_most_pods:
  assumes "served w" and "w_log w = []" and "unstarted cands w" and "\<forall>c \<in> set cands. 0 \<le> pc_Size c"
    and "run_state (admitCandidates N nd budget (sort_by candidateLess cands)) w = ((), w')"
    and "mset ys \<subseteq># mset cands" and "totalSize ys \<le> budget"
  shows "length ys \<le> length (jobsCreated (w_log w'))"
proof -
  let ?s = "sort_by candidateLess cands"
  have "unstarted ?s w" using assms(3) unstarted_perm [of ?s cands] by simp
  from wp_run [OF wp_admitCandidates_served [OF assms(1) this] assms(5)] assms(2)
  have "createdTargets w' = targets (affordable budget ?s)" by simp
  then have created: "length (jobsCreated (w_log w')) = length (affordable budget ?s)"
    unfolding targets_def by (metis length_map)
  have "mset (map pc_Size ys) \<subseteq># mset (map pc_Size ?s)" using assms(6) by (simp add: image_mset_subseteq_mono)
  from sum_smallest [OF sorted_candidates this] have "totalSize (take (length ys) ?s) \<le> budget"
    using assms(7) by (simp add: totalSize_def take_map)
  moreover have "length ys \<le> length ?s" using size_mset_mono [OF assms(6)] by simp
  ultimately show ?thesis using affordable_longest [OF sorted_candidates, of cands "length ys" budget] assms(4) created by simp
qed


definition spotPod :: "string \<Rightarrow> string \<Rightarrow> int \<Rightarrow> pod" where
  "spotPod name uid bytes = (podOf name uid)\<lparr>pod_Labels := [LabelEnabled \<mapsto> ''true''],
     pod_Containers := [\<lparr>ct_Name = ''c'', ct_RestartPolicy = None, ct_RequestsMemory = bytes, ct_LimitsMemory = bytes\<rparr>]\<rparr>"

definition spotNode :: node where
  "spotNode = \<lparr>nd_Name = ''n1'', nd_Labels = Map.empty, nd_Taints = [TaintImpendingNodeTermination], nd_Unschedulable = True, nd_Conditions = []\<rparr>"

definition spotScene :: cluster where
  "spotScene = (clusterOf [spotPod ''big'' ''ub'' 4, spotPod ''small'' ''us'' 3] [])\<lparr>cl_nodes := [spotNode], cl_policies := [samplePolicy]\<rparr>"

definition spotController :: nodePreemption where
  "spotController = mainPreemption sampleLib stockRegistry 5 (Some plainPolicy)"

lemma preemption_stays_within_budget_witness:
  "\<exists>r w'. run_state (NodePreemption_Reconcile spotController ''n1'') (worldOf spotScene) = (r, w') \<and>
     map pmj_TargetPodUID (jobsCreated (w_log w')) = [''us''] \<and>
     (\<exists>ps. [''us''] = map pod_UID ps \<and> set ps \<subseteq> set (cl_pods spotScene) \<and> sum_list (map footprint ps) \<le> 5)"
proof -
  let ?run = "run_state (NodePreemption_Reconcile spotController ''n1'') (worldOf spotScene)"
  have created: "map pmj_TargetPodUID (jobsCreated (w_log (snd ?run))) = [''us'']" by code_simp
  have nd: "store_get nd_Name (cl_nodes (w_cache (worldOf spotScene))) ''n1'' = Some spotNode"
    by (simp add: spotScene_def store_get_def spotNode_def)
  have b: "totalBudget spotController = 5" by code_simp
  have "run_state (NodePreemption_Reconcile (mainPreemption sampleLib stockRegistry 5 (Some plainPolicy)) ''n1'') (worldOf spotScene) = (fst ?run, snd ?run)"
    by (simp add: spotController_def)
  from preemption_stays_within_budget [OF stock_registry worldOf_log nd this]
  obtain ps where "map pmj_TargetPodUID (jobsCreated (w_log (snd ?run))) = map pod_UID ps" "set ps \<subseteq> set (cl_pods (w_cache (worldOf spotScene)))"
    "sum_list (map footprint ps) \<le> totalBudget spotController" unfolding spotController_def by blast
  with created b have "[''us''] = map pod_UID ps \<and> set ps \<subseteq> set (cl_pods spotScene) \<and> sum_list (map footprint ps) \<le> 5"
    by (simp only: worldOf_live)
  then show ?thesis using created by (intro exI [of _ "fst ?run"] exI [of _ "snd ?run"] conjI exI [of _ ps]) simp_all
qed

definition spotCandidate :: "string \<Rightarrow> string \<Rightarrow> int \<Rightarrow> preemptionCandidate" where
  "spotCandidate name uid bytes = \<lparr>pc_Pod = spotPod name uid bytes, pc_Engine = gkeEngine sampleLib Live,
     pc_Policy = \<lparr>pr_Group = ''podsnapshot.gke.io'', pr_Kind = ''PodSnapshotPolicy'', pr_Name = ''psp''\<rparr>, pc_Size = bytes, pc_Parent = noParent\<rparr>"

lemma preemption_saves_the_most_pods_witness:
  "\<exists>w'. run_state (admitCandidates spotController spotNode 5 (sort_by candidateLess [spotCandidate ''big'' ''ub'' 4, spotCandidate ''small'' ''us'' 3]))
       (worldOf spotScene) = ((), w') \<and> 1 \<le> length (jobsCreated (w_log w'))"
proof -
  let ?cs = "[spotCandidate ''big'' ''ub'' 4, spotCandidate ''small'' ''us'' 3]"
  let ?run = "run_state (admitCandidates spotController spotNode 5 (sort_by candidateLess ?cs)) (worldOf spotScene)"
  have keys: "candKey (spotCandidate ''big'' ''ub'' 4) = ''pmj-big-ub''" "candKey (spotCandidate ''small'' ''us'' 3) = ''pmj-small-us''"
    by code_simp+
  have fresh: "unstarted ?cs (worldOf spotScene)" by (simp add: unstarted_def keys spotScene_def clusterOf_def store_get_def)
  have served: "served (worldOf spotScene)" by (simp add: served_def worldOf_def)
  have sizes: "\<forall>c \<in> set ?cs. 0 \<le> pc_Size c" "totalSize [spotCandidate ''small'' ''us'' 3] \<le> 5" by (simp_all add: spotCandidate_def)
  have unit_run: "x = ((), snd x)" for x :: "unit \<times> world" by (cases x) simp
  note run = unit_run [of ?run]
  have "mset [spotCandidate ''small'' ''us'' 3] \<subseteq># mset ?cs" by simp
  from preemption_saves_the_most_pods [OF served worldOf_log fresh sizes(1) run this sizes(2)]
  have "1 \<le> length (jobsCreated (w_log (snd ?run)))" by (simp only: list.size One_nat_def)
  with run show ?thesis by (intro exI [of _ "snd ?run"] conjI)
qed

definition policyReadFails :: "nat \<Rightarrow> fault" where
  "policyReadFails n = (if n = 5 then Refused (err OtherReason ''etcd'') else Served)"

text \<open>
  The budget is one of a pass, not of a node: a pod that a failed read keeps out of the
  first pass gets the whole budget in the next one, and the jobs of both passes together
  exceed it.
\<close>

lemma preemption_budget_is_per_pass:
  "let w0 = (worldOf spotScene)\<lparr>w_fault := policyReadFails\<rparr>;
       w1 = snd (run_state (NodePreemption_Reconcile spotController ''n1'') w0);
       w2 = snd (run_state (NodePreemption_Reconcile spotController ''n1'') (w1\<lparr>w_cache := w_live w1\<rparr>))
   in map pmj_TargetPodUID (jobsCreated (w_log w2)) = [''us'', ''ub''] \<and> totalBudget spotController = 5 \<and>
      CalculatePodMemoryFootprint (spotPod ''small'' ''us'' 3) = Some 3 \<and> CalculatePodMemoryFootprint (spotPod ''big'' ''ub'' 4) = Some 4"
  by code_simp

end
