(* ===== verification/Migrations.thy ===== *)
theory Migrations
  imports Gate "HOL-Library.Code_Target_Nat"
begin

text \<open>
  The PodMigration reconciler (\<open>controller/podmigration_controller.go\<close>): it elects the one
  active configuration of a namespace, keeps the engines' policy and storage objects in the
  state that the configuration describes, and removes them, after the migrations that need
  them, when the configuration goes away or loses the election.

  \<^item> \<open>pmReconciler\<close> is \<open>PodMigrationReconciler\<close>; typed objects are read from the cache, the
    unstructured ones from the API server, as the manager's client does.
  \<^item> \<open>PM_Reconcile\<close> is \<open>Reconcile\<close>, split into the deletion (\<open>finalizePM\<close>), the loser of the
    election (\<open>demotePM\<close>) and the winner (\<open>syncNamespace\<close>). The variable \<open>config\<close>, which every
    successful write replaces by the server's copy, is passed on explicitly.
  \<^item> \<open>evaluateInvariants\<close> is \<open>Guarded.evaluatePM\<close>.
  \<^item> \<open>pmWrite\<close> says what the reconciler may write for a configuration.
\<close>

section \<open>Definitions\<close>

record pmReconciler =
  pmr_lib :: kubelib
  pmr_Recorder :: bool
  pmr_Engines :: "registry option"

definition maxDeletionDeferral :: duration where
  "maxDeletionDeferral = 10 * minute"

definition ConditionEngineRoutesValid :: string where
  "ConditionEngineRoutesValid = ''EngineRoutesValid''"

definition ReasonDuplicatePodMigrationInNamespace :: string where
  "ReasonDuplicatePodMigrationInNamespace = ''DuplicatePodMigrationInNamespace''"

definition pmEngines :: "pmReconciler \<Rightarrow> api_error + registry" where
  "pmEngines R =
     (case pmr_Engines R of
        Some reg \<Rightarrow> Inr reg
      | None \<Rightarrow> (case NewDefaultRegistry (pmr_lib R) Live None of Inl msg \<Rightarrow> Inl (err OtherReason msg) | Inr reg \<Rightarrow> Inr reg))"

definition pmEvent :: "pmReconciler \<Rightarrow> podMigration \<Rightarrow> string \<Rightarrow> unit io" where
  "pmEvent R config reason = (if pmr_Recorder R then emitEvent (pm_Name config) EventTypeWarning reason else State_Monad.return ())"

subsection \<open>Status\<close>

definition setPMCondition :: "pmReconciler \<Rightarrow> time \<Rightarrow> condition \<Rightarrow> podMigration \<Rightarrow> podMigration \<times> bool" where
  "setPMCondition R now cond config =
     (case SetStatusCondition (pmr_lib R) now (pm_Conditions config) (cond\<lparr>c_ObservedGeneration := pm_Generation config\<rparr>) of
        (cs, changed) \<Rightarrow> (config\<lparr>pm_Conditions := cs\<rparr>, changed))"

definition pmCondition :: "string \<Rightarrow> cond_status \<Rightarrow> string \<Rightarrow> string \<Rightarrow> condition" where
  "pmCondition typ stat reason msg = \<lparr>c_Type = typ, c_Status = stat, c_Reason = reason, c_Message = msg,
     c_ObservedGeneration = 0, c_LastTransitionTime = zero_time\<rparr>"

definition setEngineRoutesCondition :: "pmReconciler \<Rightarrow> time \<Rightarrow> registry \<Rightarrow> podMigration \<Rightarrow> podMigration" where
  "setEngineRoutesCondition R now reg config =
     (if trimSpace (mget (pm_Annotations config) AnnotationRuntimeClassEngines) = []
      then config\<lparr>pm_Conditions := RemoveStatusCondition (pmr_lib R) (pm_Conditions config) ConditionEngineRoutesValid\<rparr>
      else fst (setPMCondition R now
        (case ValidatePodMigrationRoutes (pmr_lib R) reg (Some config) of
           Inl e \<Rightarrow>
             if ae_reason e = EngineNotRegistered
             then pmCondition ConditionEngineRoutesValid CondFalse ''EngineNotRegistered'' (ae_text e @ ''; that route is ignored'')
             else pmCondition ConditionEngineRoutesValid CondFalse ''InvalidRoutes'' (ae_text e @ ''; the annotation is ignored'')
         | Inr routes \<Rightarrow> pmCondition ConditionEngineRoutesValid CondTrue ''RoutesValid'' (''Runtime class routes: '' @ routesString routes))
        config))"

definition patchPM :: "podMigration \<Rightarrow> condition list \<Rightarrow> (api_error + podMigration) io" where
  "patchPM config prev =
     (if prev = pm_Conditions config then State_Monad.return (Inr config)
      else patchPMStatus config (config\<lparr>pm_Conditions := prev\<rparr>))"

subsection \<open>Deleting what was rendered\<close>

text \<open>An object labelled as rendered for another PodMigration.\<close>

definition foreignOwner :: "string \<Rightarrow> uobject \<Rightarrow> bool" where
  "foreignOwner ownerUID live =
     (let owner = mget (map_of (uo_Labels live)) OwnerUIDLabel in owner \<noteq> [] \<and> ownerUID \<noteq> [] \<and> owner \<noteq> ownerUID)"

definition deleteIfPresent :: "string \<Rightarrow> ukey \<Rightarrow> (api_error + unit) io" where
  "deleteIfPresent what k = do {
     d \<leftarrow> deleteResource k;
     State_Monad.return (case d of
        Inl e \<Rightarrow> if isNotFound e then Inr () else Inl (wrapErr (''failed to delete '' @ what @ snd (snd k)) e)
      | Inr _ \<Rightarrow> Inr ())
   }"

definition deleteOwnedResource :: "uobject \<Rightarrow> string \<Rightarrow> (api_error + unit) io" where
  "deleteOwnedResource rendered ownerUID = do {
     g \<leftarrow> get_resource Live (uo_key rendered);
     (case g of
        Inl e \<Rightarrow> State_Monad.return (if denial e then Inr () else Inl (wrapErr (''failed to get '' @ uo_Kind rendered @ '' '' @ uo_Name rendered) e))
      | Inr live \<Rightarrow>
          if foreignOwner ownerUID live then State_Monad.return (Inr ())
          else deleteIfPresent (uo_Kind rendered @ '' '') (uo_key rendered))
   }"

fun deleteOwnedAll :: "string \<Rightarrow> uobject list \<Rightarrow> (api_error + unit) io" where
  "deleteOwnedAll ownerUID [] = State_Monad.return (Inr ())"
| "deleteOwnedAll ownerUID (x # xs) = do {
     d \<leftarrow> deleteOwnedResource x ownerUID;
     (case d of Inl e \<Rightarrow> State_Monad.return (Inl e) | Inr _ \<Rightarrow> deleteOwnedAll ownerUID xs)
   }"

fun deleteEngines :: "registry \<Rightarrow> podMigration \<Rightarrow> string list \<Rightarrow> (api_error + unit) io" where
  "deleteEngines reg config [] = State_Monad.return (Inr ())"
| "deleteEngines reg config (name # names) =
     (case reg_Get reg name of
        None \<Rightarrow> deleteEngines reg config names
      | Some eng \<Rightarrow>
          if eng_isGKE eng then deleteEngines reg config names
          else (case eng_NamespaceResources eng config of
                  Inl _ \<Rightarrow> deleteEngines reg config names
                | Inr resources \<Rightarrow> do {
                    d \<leftarrow> deleteOwnedAll (pm_UID config) (rev resources);
                    (case d of Inl e \<Rightarrow> State_Monad.return (Inl e) | Inr _ \<Rightarrow> deleteEngines reg config names)
                  }))"

definition deleteEngineResources :: "pmReconciler \<Rightarrow> podMigration \<Rightarrow> (api_error + unit) io" where
  "deleteEngineResources R config =
     (case pmr_Engines R of None \<Rightarrow> State_Monad.return (Inr ()) | Some reg \<Rightarrow> deleteEngines reg config (reg_names reg))"

definition psscKey :: "kubelib \<Rightarrow> podMigration \<Rightarrow> ukey" where
  "psscKey K config = (''PodSnapshotStorageConfig'', [], PodSnapshotStorageConfigName K (pm_Namespace config) (pm_Name config))"

definition pspKey :: "podMigration \<Rightarrow> ukey" where
  "pspKey config = (''PodSnapshotPolicy'', pm_Namespace config, PodSnapshotPolicyName (pm_Name config))"

definition deleteStorageConfig :: "pmReconciler \<Rightarrow> podMigration \<Rightarrow> (api_error + unit) io" where
  "deleteStorageConfig R config = do {
     g \<leftarrow> get_resource Live (psscKey (pmr_lib R) config);
     (case g of
        Inl e \<Rightarrow> State_Monad.return (if isNotFound e then Inr () else Inl (wrapErr (''failed to get PodSnapshotStorageConfig '' @ snd (snd (psscKey (pmr_lib R) config))) e))
      | Inr live \<Rightarrow>
          if foreignOwner (pm_UID config) live then State_Monad.return (Inr ())
          else deleteIfPresent ''PodSnapshotStorageConfig '' (psscKey (pmr_lib R) config))
   }"

definition deleteStorageResources :: "pmReconciler \<Rightarrow> podMigration \<Rightarrow> (api_error + unit) io" where
  "deleteStorageResources R config = do {
     d \<leftarrow> deleteStorageConfig R config;
     (case d of
        Inl e \<Rightarrow> State_Monad.return (Inl e)
      | Inr _ \<Rightarrow> deleteIfPresent ''PodSnapshotPolicy '' (pspKey config))
   }"

definition deleteNamespaceResources :: "pmReconciler \<Rightarrow> podMigration \<Rightarrow> (api_error + unit) io" where
  "deleteNamespaceResources R config = do {
     d \<leftarrow> deleteStorageResources R config;
     (case d of
        Inl e \<Rightarrow> State_Monad.return (Inl e)
      | Inr _ \<Rightarrow> deleteEngineResources R config)
   }"

subsection \<open>Migrations in flight\<close>

definition isPMJOwnedByPodMigration :: "pmj \<Rightarrow> podMigration \<Rightarrow> string list \<Rightarrow> bool" where
  "isPMJOwnedByPodMigration job config renderedPolicyNames =
     (list_ex (\<lambda>ref. or_Kind ref = ''PodMigration'' \<and>
          (or_UID ref \<noteq> [] \<and> or_UID ref = pm_UID config \<or> or_Name ref = pm_Name config)) (pmj_OwnerReferences job) \<or>
      pmj_Labels job ''pod-migration.gke.io/podmigration-name'' = Some (pm_Name config) \<or>
      pm_UID config \<noteq> [] \<and> pmj_Labels job OwnerUIDLabel = Some (pm_UID config) \<or>
      pm_Name config \<noteq> [] \<and>
        (let policyName = mget (pmj_Annotations job) AnnotationPodSnapshotPolicy in
         policyName \<noteq> [] \<and> (policyName = PodSnapshotPolicyName (pm_Name config) \<or> policyName = pm_Name config \<or>
           list_ex (\<lambda>rendered. rendered \<noteq> [] \<and> policyName = rendered) renderedPolicyNames)))"

definition renderedPolicyNames :: "pmReconciler \<Rightarrow> podMigration \<Rightarrow> string list" where
  "renderedPolicyNames R config =
     (case pmr_Engines R of
        None \<Rightarrow> []
      | Some reg \<Rightarrow>
          concat (map (\<lambda>n. case reg_Get reg n of
             None \<Rightarrow> []
           | Some eng \<Rightarrow>
               (case eng_NamespaceResources eng config of
                  Inl _ \<Rightarrow> []
                | Inr resources \<Rightarrow> map uo_Name (filter (\<lambda>x. uo_Namespace x = pm_Namespace config \<and> uo_Name x \<noteq> []) resources)))
           (reg_names reg)))"

definition migrationsInFlight :: "pmReconciler \<Rightarrow> podMigration \<Rightarrow> pmj list \<Rightarrow> string list" where
  "migrationsInFlight R config jobs =
     map pmj_Name (filter (\<lambda>job. isPMJOwnedByPodMigration job config (renderedPolicyNames R config) \<and>
       \<not> IsTerminalPhase (st_Phase (pmj_Status job))) jobs)"

definition listInFlightMigrations :: "pmReconciler \<Rightarrow> podMigration \<Rightarrow> (api_error + string list) io" where
  "listInFlightMigrations R config = do {
     l \<leftarrow> list_jobs Cached;
     State_Monad.return (case l of Inl e \<Rightarrow> Inl e | Inr jobs \<Rightarrow> Inr (migrationsInFlight R config jobs))
   }"

definition deferralExpiredAt :: "time \<Rightarrow> podMigration \<Rightarrow> bool" where
  "deferralExpiredAt now config =
     ((case pm_DeletionTimestamp config of None \<Rightarrow> False | Some t \<Rightarrow> time_sub now t > maxDeletionDeferral) \<or>
      (case FindStatusCondition (pm_Conditions config) ''Ready'' of
         None \<Rightarrow> False
       | Some cond \<Rightarrow> c_Status cond = CondFalse \<and> c_LastTransitionTime cond \<noteq> zero_time \<and>
           time_sub now (c_LastTransitionTime cond) > maxDeletionDeferral))"

definition deferralExpired :: "podMigration \<Rightarrow> bool io" where
  "deferralExpired config = gets (\<lambda>w. deferralExpiredAt (w_now w) config)"


subsection \<open>Cleanup\<close>

definition withoutFinalizer :: "podMigration \<Rightarrow> podMigration" where
  "withoutFinalizer config = config\<lparr>pm_Finalizers := filter (\<lambda>f. f \<noteq> StorageCleanupFinalizer) (pm_Finalizers config)\<rparr>"

definition cleanupPM :: "pmReconciler \<Rightarrow> podMigration \<Rightarrow> (api_error + podMigration) io" where
  "cleanupPM R config = do {
     d \<leftarrow> deleteNamespaceResources R config;
     (case d of
        Inl e \<Rightarrow> State_Monad.return (Inl e)
      | Inr _ \<Rightarrow> updatePM (withoutFinalizer config))
   }"

definition deferralTimeoutEvent :: "pmReconciler \<Rightarrow> podMigration \<Rightarrow> string list \<Rightarrow> unit io" where
  "deferralTimeoutEvent R config inFlight =
     (if inFlight \<noteq> [] then pmEvent R config ''DeletionDeferralTimeout'' else State_Monad.return ())"

text \<open>The cleanup, unless migrations are in flight and the deferral has not expired; a non-empty list is the deferral, with the jobs in flight.\<close>

definition cleanupUnlessInFlight :: "pmReconciler \<Rightarrow> podMigration \<Rightarrow> (api_error + (podMigration \<times> string list)) io" where
  "cleanupUnlessInFlight R config = do {
     inFlight \<leftarrow> listInFlightMigrations R config;
     expired \<leftarrow> deferralExpired config;
     (case inFlight of
        Inl e \<Rightarrow> State_Monad.return (Inl e)
      | Inr names \<Rightarrow>
          if names \<noteq> [] \<and> \<not> expired then State_Monad.return (Inr (config, names))
          else do {
            deferralTimeoutEvent R config names;
            c \<leftarrow> cleanupPM R config;
            State_Monad.return (case c of Inl e \<Rightarrow> Inl e | Inr config' \<Rightarrow> Inr (config', []))
          })
   }"

definition deferDeletion :: "pmReconciler \<Rightarrow> podMigration \<Rightarrow> string list \<Rightarrow> (api_error + result) io" where
  "deferDeletion R config names = do {
     now \<leftarrow> timeNow;
     (case setPMCondition R now (pmCondition ''Ready'' CondFalse ''DeletionBlockedByInFlightMigrations''
         (''Deletion deferred: '' @ showInt (int (length names)) @ '' migration(s) in flight'')) config of
        (config', changed) \<Rightarrow>
          if \<not> changed then State_Monad.return (Inr (requeue_after (5 * second)))
          else do {
            p \<leftarrow> patchPM config' (pm_Conditions config);
            State_Monad.return (case p of Inl e \<Rightarrow> Inl e | Inr _ \<Rightarrow> Inr (requeue_after (5 * second)))
          })
   }"

definition finalizePM :: "pmReconciler \<Rightarrow> podMigration \<Rightarrow> (api_error + result) io" where
  "finalizePM R config =
     (if StorageCleanupFinalizer \<notin> set (pm_Finalizers config) then State_Monad.return (Inr no_requeue)
      else do {
        c \<leftarrow> cleanupUnlessInFlight R config;
        (case c of
           Inl e \<Rightarrow> State_Monad.return (Inl e)
         | Inr (_, []) \<Rightarrow> State_Monad.return (Inr no_requeue)
         | Inr (_, n # names) \<Rightarrow> deferDeletion R config (n # names))
      })"

subsection \<open>The loser of the election\<close>

definition demoteCleanup :: "pmReconciler \<Rightarrow> podMigration \<Rightarrow> (api_error + (podMigration \<times> string list)) io" where
  "demoteCleanup R config =
     (if StorageCleanupFinalizer \<in> set (pm_Finalizers config) then cleanupUnlessInFlight R config
      else State_Monad.return (Inr (config, [])))"

definition demoteStatus :: "pmReconciler \<Rightarrow> podMigration \<Rightarrow> podMigration \<Rightarrow> (api_error + unit) io" where
  "demoteStatus R config active = do {
     now \<leftarrow> timeNow;
     (case setPMCondition R now (pmCondition ''Ready'' CondFalse ReasonDuplicatePodMigrationInNamespace
         (''Only one PodMigration resource is allowed per namespace; active configuration is '' @ quoted (pm_Name active))) config of
        (config', changed) \<Rightarrow>
          if \<not> changed then State_Monad.return (Inr ())
          else do {
            pmEvent R config' ReasonDuplicatePodMigrationInNamespace;
            p \<leftarrow> patchPM config' (pm_Conditions config);
            State_Monad.return (case p of Inl e \<Rightarrow> Inl e | Inr _ \<Rightarrow> Inr ())
          })
   }"

definition demotePM :: "pmReconciler \<Rightarrow> podMigration \<Rightarrow> podMigration \<Rightarrow> (api_error + result) io" where
  "demotePM R config active = do {
     c \<leftarrow> demoteCleanup R config;
     (case c of
        Inl e \<Rightarrow> State_Monad.return (Inl e)
      | Inr (config', deferred) \<Rightarrow> do {
          s \<leftarrow> demoteStatus R config' active;
          State_Monad.return (case s of
             Inl e \<Rightarrow> Inl e
           | Inr _ \<Rightarrow> Inr (if deferred \<noteq> [] \<or> pm_DeletionTimestamp active \<noteq> None then requeue_after (5 * second) else no_requeue))
        })
   }"

subsection \<open>The winner of the election\<close>

definition synced :: "uobject \<Rightarrow> uobject \<Rightarrow> uobject" where
  "synced desired existing = existing\<lparr>uo_Spec := uo_Spec desired, uo_Labels := uo_Labels desired @ uo_Labels existing\<rparr>"

definition emptyPatch :: "kubelib \<Rightarrow> uobject \<Rightarrow> uobject \<Rightarrow> bool" where
  "emptyPatch K existing updated =
     (MergeDiff K (uo_Spec existing) (uo_Spec updated) = JObj [] \<and>
      list_all (\<lambda>(k, _). map_of (uo_Labels updated) k = map_of (uo_Labels existing) k) (uo_Labels updated))"

definition syncResource :: "pmReconciler \<Rightarrow> uobject \<Rightarrow> (api_error + unit) io" where
  "syncResource R desired = do {
     g \<leftarrow> get_resource Live (uo_key desired);
     (case g of
        Inl e \<Rightarrow> if isNotFound e then createResource desired else State_Monad.return (Inl e)
      | Inr existing \<Rightarrow>
          if emptyPatch (pmr_lib R) existing (synced desired existing) then State_Monad.return (Inr ())
          else patchResource (pmr_lib R) (synced desired existing) existing)
   }"

fun syncResources :: "pmReconciler \<Rightarrow> uobject list \<Rightarrow> (api_error + unit) io" where
  "syncResources R [] = State_Monad.return (Inr ())"
| "syncResources R (x # xs) = do {
     s \<leftarrow> syncResource R x;
     (case s of Inl e \<Rightarrow> State_Monad.return (Inl e) | Inr _ \<Rightarrow> syncResources R xs)
   }"

definition nsErrorText :: "nsError \<Rightarrow> string" where
  "nsErrorText e = (case e of StorageLocationError msg \<Rightarrow> msg | NamespaceError msg \<Rightarrow> msg)"

definition reportLocation :: "pmReconciler \<Rightarrow> podMigration \<Rightarrow> condition list \<Rightarrow> nsError \<Rightarrow> (api_error + podMigration) io" where
  "reportLocation R config prev e =
     (case e of
        NamespaceError _ \<Rightarrow> State_Monad.return (Inr config)
      | StorageLocationError msg \<Rightarrow> do {
          now \<leftarrow> timeNow;
          patchPM (fst (setPMCondition R now (pmCondition ''Ready'' CondFalse ''InvalidStorageLocation'' msg) config)) prev
        })"

fun syncEngines :: "pmReconciler \<Rightarrow> podMigration \<Rightarrow> condition list \<Rightarrow> engine list \<Rightarrow> (api_error + unit) io" where
  "syncEngines R config prev [] = State_Monad.return (Inr ())"
| "syncEngines R config prev (eng # engs) =
     (case eng_NamespaceResources eng config of
        Inl e \<Rightarrow> do {
          reportLocation R config prev e;
          State_Monad.return (Inl (err OtherReason (nsErrorText e)))
        }
      | Inr resources \<Rightarrow> do {
          s \<leftarrow> syncResources R resources;
          (case s of Inl e \<Rightarrow> State_Monad.return (Inl e) | Inr _ \<Rightarrow> syncEngines R config prev engs)
        })"

definition syncRegistry :: "pmReconciler \<Rightarrow> podMigration \<Rightarrow> registry \<Rightarrow> (api_error + result) io" where
  "syncRegistry R config0 reg = do {
     now \<leftarrow> timeNow;
     let config = setEngineRoutesCondition R now reg config0;
     (case EnginesFor (pmr_lib R) reg (Some config) of
        [] \<Rightarrow> State_Monad.return (Inl (case defaultLocked reg of Inl e \<Rightarrow> e | Inr _ \<Rightarrow> err OtherReason ''no snapshot engine serves the namespace''))
      | eng # engs \<Rightarrow> do {
          s \<leftarrow> syncEngines R config (pm_Conditions config0) (eng # engs);
          (case s of
             Inl e \<Rightarrow> State_Monad.return (Inl e)
           | Inr _ \<Rightarrow> do {
               later \<leftarrow> timeNow;
               p \<leftarrow> patchPM (fst (setPMCondition R later (pmCondition ''Ready'' CondTrue ''Reconciled'' ''Storage config and policy synced successfully'') config))
                      (pm_Conditions config0);
               State_Monad.return (case p of Inl e \<Rightarrow> Inl e | Inr _ \<Rightarrow> Inr no_requeue)
             })
        })
   }"

definition withFinalizer :: "podMigration \<Rightarrow> podMigration" where
  "withFinalizer config = config\<lparr>pm_Finalizers := pm_Finalizers config @ [StorageCleanupFinalizer]\<rparr>"

definition ensureFinalizer :: "podMigration \<Rightarrow> (api_error + podMigration) io" where
  "ensureFinalizer config =
     (if StorageCleanupFinalizer \<in> set (pm_Finalizers config) then State_Monad.return (Inr config) else updatePM (withFinalizer config))"

definition syncNamespace :: "pmReconciler \<Rightarrow> podMigration \<Rightarrow> (api_error + result) io" where
  "syncNamespace R config0 = do {
     u \<leftarrow> ensureFinalizer config0;
     (case u of
        Inl e \<Rightarrow> State_Monad.return (Inl e)
      | Inr config \<Rightarrow>
          (case pmEngines R of
             Inl e \<Rightarrow> State_Monad.return (Inl e)
           | Inr reg \<Rightarrow> syncRegistry R config reg))
   }"

definition electedOver :: "podMigration list \<Rightarrow> podMigration \<Rightarrow> podMigration option" where
  "electedOver items config =
     (case SelectActivePodMigration items of
        None \<Rightarrow> None
      | Some active \<Rightarrow> if pm_Name active \<noteq> pm_Name config then Some active else None)"

definition reconcilePM :: "pmReconciler \<Rightarrow> podMigration \<Rightarrow> (api_error + result) io" where
  "reconcilePM R config =
     (if pm_DeletionTimestamp config \<noteq> None then finalizePM R config
      else do {
        l \<leftarrow> list_podmigrations Cached;
        (case l of
           Inl e \<Rightarrow> State_Monad.return (Inl e)
         | Inr items \<Rightarrow>
             (case electedOver items config of
                Some active \<Rightarrow> demotePM R config active
              | None \<Rightarrow> syncNamespace R config))
      })"

definition PM_Reconcile :: "pmReconciler \<Rightarrow> string \<Rightarrow> (api_error + result) io" where
  "PM_Reconcile R name = do {
     g \<leftarrow> get_podmigration Cached name;
     (case g of
        Inl e \<Rightarrow> State_Monad.return (if isNotFound e then Inr no_requeue else Inl e)
      | Inr config \<Rightarrow> reconcilePM R config)
   }"

definition enqueueNamespacePeers :: "podMigration \<Rightarrow> string list io" where
  "enqueueNamespacePeers obj = do {
     l \<leftarrow> list_podmigrations Cached;
     State_Monad.return (case l of Inl _ \<Rightarrow> [] | Inr items \<Rightarrow> map pm_Name (filter (\<lambda>item. pm_Name item \<noteq> pm_Name obj) items))
   }"

definition mainPM :: "kubelib \<Rightarrow> registry \<Rightarrow> pmReconciler" where
  "mainPM K engines = \<lparr>pmr_lib = K, pmr_Recorder = True, pmr_Engines = Some engines\<rparr>"


subsection \<open>What may be written\<close>

text \<open>The objects of the GKE engine are gone; a storage config of another PodMigration stays.\<close>

definition storageGone :: "kubelib \<Rightarrow> podMigration \<Rightarrow> cluster \<Rightarrow> bool" where
  "storageGone K config c =
     (case store_get uo_key (cl_resources c) (psscKey K config) of None \<Rightarrow> True | Some x \<Rightarrow> foreignOwner (pm_UID config) x)"

definition resourcesGone :: "kubelib \<Rightarrow> podMigration \<Rightarrow> cluster \<Rightarrow> bool" where
  "resourcesGone K config c = (storageGone K config c \<and> store_get uo_key (cl_resources c) (pspKey config) = None)"

text \<open>The configuration goes away or lost the election, and no migration of its own is in flight, or it waited long enough.\<close>

definition mayCleanUp :: "pmReconciler \<Rightarrow> time \<Rightarrow> cluster \<Rightarrow> podMigration \<Rightarrow> bool" where
  "mayCleanUp R now cached config \<longleftrightarrow>
     (pm_DeletionTimestamp config \<noteq> None \<or> electedOver (cl_podmigrations cached) config \<noteq> None) \<and>
     StorageCleanupFinalizer \<in> set (pm_Finalizers config) \<and>
     (migrationsInFlight R config (cl_jobs cached) = [] \<or> deferralExpiredAt now config)"

definition elected :: "cluster \<Rightarrow> podMigration \<Rightarrow> bool" where
  "elected cached config \<longleftrightarrow> pm_DeletionTimestamp config = None \<and> electedOver (cl_podmigrations cached) config = None"

definition pmWrite :: "pmReconciler \<Rightarrow> time \<Rightarrow> cluster \<Rightarrow> podMigration \<Rightarrow> effect \<Rightarrow> cluster \<Rightarrow> cluster \<Rightarrow> bool" where
  "pmWrite R now cached config e c c' =
     (case e of
        Event _ _ _ \<Rightarrow> True
      | PatchPMStatus _ pm \<Rightarrow> pm_Name pm = pm_Name config
      | UpdatePM pm \<Rightarrow> pm_Name pm = pm_Name config \<and>
          (if StorageCleanupFinalizer \<in> set (pm_Finalizers pm) then elected cached config
           else mayCleanUp R now cached config \<and> resourcesGone (pmr_lib R) config c)
      | CreateResource _ \<Rightarrow> elected cached config
      | PatchResource _ _ \<Rightarrow> elected cached config
      | DeleteResource k \<Rightarrow> mayCleanUp R now cached config \<and>
          (k = pspKey config \<or> (\<forall>x. store_get uo_key (cl_resources c) k = Some x \<longrightarrow> \<not> foreignOwner (pm_UID config) x))
      | _ \<Rightarrow> False)"

section \<open>Lemmas\<close>

text \<open>What a reconcile does not change: the failures to come, the clock and the cache.\<close>

definition framed :: "world \<Rightarrow> world \<Rightarrow> bool" where
  "framed w w' \<longleftrightarrow> w_fault w' = w_fault w \<and> w_now w' = w_now w \<and> w_cache w' = w_cache w"

lemma framed_simps [simp]:
  "framed w (w'\<lparr>w_calls := k\<rparr>) = framed w w'" "framed w (w'\<lparr>w_live := c\<rparr>) = framed w w'" "framed w (w'\<lparr>w_log := l\<rparr>) = framed w w'" "framed w w"
  by (simp_all add: framed_def)

lemma framed_trans: "framed u v \<Longrightarrow> framed v w \<Longrightarrow> framed u w"
  by (simp add: framed_def)

lemma framed_honest: "framed w w' \<Longrightarrow> honest w' = honest w"
  by (simp add: framed_def honest_def)

lemma does_pmEvent: "(\<And>w'. framed w w' \<Longrightarrow> w_live w' = w_live w \<Longrightarrow> Q () w') \<Longrightarrow> does (pmWrite R now cd config) (pmEvent R config' rsn) Q w"
  by (auto simp: pmEvent_def pmWrite_def intro!: does_event does_return)

lemma does_gets: "Q (f w) w \<Longrightarrow> does P (gets f) Q w"
  by (simp add: does_def wp_simps adds_refl)

subsection \<open>Deleting\<close>

text \<open>Objects went away, and nothing else happened to them.\<close>

definition pruned :: "world \<Rightarrow> world \<Rightarrow> bool" where
  "pruned w w' \<longleftrightarrow> framed w w' \<and> (\<forall>k. store_get uo_key (cl_resources (w_live w')) k = store_get uo_key (cl_resources (w_live w)) k \<or>
     store_get uo_key (cl_resources (w_live w')) k = None)"

lemma pruned_refl [simp]: "pruned w w" "pruned w (w'\<lparr>w_calls := k\<rparr>) = pruned w w'" "pruned (w\<lparr>w_calls := k\<rparr>) w' = pruned w w'"
  by (simp_all add: pruned_def framed_def)

lemma pruned_trans: "pruned u v \<Longrightarrow> pruned v w \<Longrightarrow> pruned u w"
  unfolding pruned_def framed_def by metis

lemma pruned_gone: "pruned w w' \<Longrightarrow> store_get uo_key (cl_resources (w_live w)) k = None \<Longrightarrow> store_get uo_key (cl_resources (w_live w')) k = None"
  unfolding pruned_def by metis

lemma pruned_storageGone: "pruned w w' \<Longrightarrow> storageGone K config (w_live w) \<Longrightarrow> storageGone K config (w_live w')"
  unfolding pruned_def storageGone_def by (metis option.simps(4))

lemma pruned_resourcesGone: "pruned w w' \<Longrightarrow> resourcesGone K config (w_live w) \<Longrightarrow> resourcesGone K config (w_live w')"
  by (simp add: resourcesGone_def pruned_storageGone pruned_gone)

lemma pruned_framed: "pruned w w' \<Longrightarrow> framed w w'"
  by (simp add: pruned_def)

lemma pruned_honest: "pruned w w' \<Longrightarrow> honest w' = honest w"
  by (simp add: pruned_def framed_honest)

lemma does_deleteIfPresent:
  assumes may: "mayCleanUp R now cd config" and "honest w"
    and "k = pspKey config \<or> (\<forall>x. store_get uo_key (cl_resources (w_live w)) k = Some x \<longrightarrow> \<not> foreignOwner (pm_UID config) x)"
    and "\<And>r w'. pruned w w' \<Longrightarrow> (r = Inr () \<longrightarrow> store_get uo_key (cl_resources (w_live w')) k = None) \<Longrightarrow> Q r w'"
  shows "does (pmWrite R now cd config) (deleteIfPresent what k) Q w"
  unfolding deleteIfPresent_def does_def wp_bind deleteResource_def using assms(2)
  by (rule wp_write_honestI)
    (use assms(3-) may in \<open>auto simp: wp_simps adds_refl adds_snoc pmWrite_def denial_def store_get_del pruned_def split: option.splits if_splits\<close>)

lemma does_deleteStorageConfig:
  assumes may: "mayCleanUp R now cd config" and "honest w" and "\<And>r w'. pruned w w' \<Longrightarrow> (r = Inr () \<longrightarrow> storageGone (pmr_lib R) config (w_live w')) \<Longrightarrow> Q r w'"
  shows "does (pmWrite R now cd config) (deleteStorageConfig R config) Q w"
  unfolding deleteStorageConfig_def get_resource_def using assms
  by (auto simp: denial_def view_def storageGone_def split: sum.splits intro!: does_bind does_read_honest does_return does_deleteIfPresent [OF may])

lemma does_deleteOwnedAll:
  assumes may: "mayCleanUp R now cd config" and "honest w" and "\<And>r w'. pruned w w' \<Longrightarrow> Q r w'"
  shows "does (pmWrite R now cd config) (deleteOwnedAll (pm_UID config) xs) Q w"
  using assms(2,3)
proof (induction xs arbitrary: w)
  case (Cons x xs)
  have "does (pmWrite R now cd config) (deleteOwnedResource x (pm_UID config)) (\<lambda>_ w'. pruned w w') w"
    unfolding deleteOwnedResource_def get_resource_def using Cons.prems(1)
    by (auto simp: view_def split: sum.splits intro!: does_bind does_read_honest does_return does_deleteIfPresent [OF may])
  then show ?case
    by (auto split: sum.splits intro!: does_bind does_return Cons.prems(2) Cons.IH elim!: does_mono
        simp: pruned_honest Cons.prems(1) dest: pruned_trans)
qed (auto intro: does_return)

lemma does_deleteEngines:
  assumes may: "mayCleanUp R now cd config" and "honest w" and "\<And>r w'. pruned w w' \<Longrightarrow> Q r w'"
  shows "does (pmWrite R now cd config) (deleteEngines reg config names) Q w"
  using assms(2,3)
proof (induction names arbitrary: w)
  case (Cons n names)
  have rest: "does (pmWrite R now cd config) (deleteEngines reg config names) Q w'" if "pruned w w'" for w'
    using that Cons.prems by (auto intro!: Cons.IH simp: pruned_honest dest: pruned_trans)
  show ?case
    using Cons.prems
    by (auto split: option.splits sum.splits intro!: does_bind does_deleteOwnedAll [OF may] does_return rest)
qed (auto intro: does_return)

lemma does_cleanupPM:
  assumes may: "mayCleanUp R now cd config" and "honest w" and "\<And>r w'. framed w w' \<Longrightarrow> (\<forall>m. r = Inr m \<longrightarrow> pm_Name m = pm_Name config) \<Longrightarrow> Q r w'"
  shows "does (pmWrite R now cd config) (cleanupPM R config) Q w"
proof -
  let ?P = "pmWrite R now cd config"
  have update: "does ?P (updatePM (withoutFinalizer config)) Q w'" if "pruned w w'" "resourcesGone (pmr_lib R) config (w_live w')" for w'
    unfolding updatePM_def write_pm_def using that may
    by (intro does_write) (auto simp: Let_def pmWrite_def withoutFinalizer_def pruned_def dest!: store_get_key intro!: assms(3) split: option.splits if_splits)
  have finish: "does ?P (case r of Inl e \<Rightarrow> State_Monad.return (Inl e) | Inr _ \<Rightarrow> updatePM (withoutFinalizer config)) Q v"
    if "pruned w v" "resourcesGone (pmr_lib R) config (w_live v)" for r v
    using that by (auto split: sum.splits intro!: does_return update assms(3) pruned_framed)
  have engines: "does ?P (deleteEngineResources R config) (\<lambda>r. does ?P (case r of Inl e \<Rightarrow> State_Monad.return (Inl e) | Inr _ \<Rightarrow> updatePM (withoutFinalizer config)) Q) v"
    if "pruned w v" "resourcesGone (pmr_lib R) config (w_live v)" for v
    unfolding deleteEngineResources_def using that assms(2)
    by (auto split: option.split simp: pruned_honest
        intro!: does_return does_deleteEngines [OF may] finish intro: pruned_trans pruned_resourcesGone)
  have policy: "does ?P (deleteIfPresent what (pspKey config)) (\<lambda>r. does ?P (case r of Inl e \<Rightarrow> State_Monad.return (Inl e) | Inr _ \<Rightarrow> deleteEngineResources R config)
      (\<lambda>r. does ?P (case r of Inl e \<Rightarrow> State_Monad.return (Inl e) | Inr _ \<Rightarrow> updatePM (withoutFinalizer config)) Q)) v"
    if "pruned w v" "storageGone (pmr_lib R) config (w_live v)" for what v
  proof (rule does_deleteIfPresent [OF may])
    fix r :: "api_error + unit" and u
    assume u: "pruned v u" "r = Inr () \<longrightarrow> store_get uo_key (cl_resources (w_live u)) (pspKey config) = None"
    have wu: "pruned w u" using pruned_trans [OF that(1) u(1)] .
    have "resourcesGone (pmr_lib R) config (w_live u)" if "r = Inr ()"
      using u \<open>storageGone (pmr_lib R) config (w_live v)\<close> that by (simp add: resourcesGone_def pruned_storageGone)
    with wu show "does ?P (case r of Inl e \<Rightarrow> State_Monad.return (Inl e) | Inr _ \<Rightarrow> deleteEngineResources R config)
      (\<lambda>r. does ?P (case r of Inl e \<Rightarrow> State_Monad.return (Inl e) | Inr _ \<Rightarrow> updatePM (withoutFinalizer config)) Q) u"
      by (auto split: sum.split intro!: does_return engines assms(3) pruned_framed)
  qed (use that assms(2) in \<open>auto simp: pruned_honest\<close>)
  show ?thesis
    unfolding cleanupPM_def deleteNamespaceResources_def deleteStorageResources_def using assms(2)
    by (auto split: sum.split intro!: does_bind does_deleteStorageConfig [OF may] does_return assms(3) pruned_framed does_mono [OF policy])
qed


lemma does_cleanupUnlessInFlight:
  assumes "honest w" "pm_DeletionTimestamp config \<noteq> None \<or> electedOver (cl_podmigrations (w_cache w)) config \<noteq> None"
    "StorageCleanupFinalizer \<in> set (pm_Finalizers config)"
    and "\<And>r w'. framed w w' \<Longrightarrow> (\<forall>m ns. r = Inr (m, ns) \<longrightarrow> pm_Name m = pm_Name config) \<Longrightarrow> Q r w'"
  shows "does (pmWrite R (w_now w) (w_cache w) config) (cleanupUnlessInFlight R config) Q w"
proof -
  have event: "does (pmWrite R (w_now w) (w_cache w) config) (deferralTimeoutEvent R config names) (\<lambda>_ w'. framed w w') v"
    if "framed w v" for names v
    using that by (auto simp: deferralTimeoutEvent_def framed_def intro!: does_pmEvent does_return)
  have clean: "does (pmWrite R (w_now w) (w_cache w) config) (cleanupPM R config)
      (\<lambda>c. does (pmWrite R (w_now w) (w_cache w) config) (State_Monad.return (case c of Inl e \<Rightarrow> Inl e | Inr m \<Rightarrow> Inr (m, []))) Q) v"
    if "mayCleanUp R (w_now w) (w_cache w) config" "framed w v" for v
  proof (rule does_cleanupPM [OF that(1)])
    show "honest v" using framed_honest [OF that(2)] assms(1) by simp
  qed (use framed_trans [OF that(2)] in \<open>auto intro!: does_return assms(4) split: sum.splits\<close>)
  show ?thesis
    unfolding cleanupUnlessInFlight_def listInFlightMigrations_def deferralExpired_def list_jobs_def using assms
    by (auto split: sum.split simp: view_def mayCleanUp_def
        intro!: does_bind does_read does_return does_gets does_mono [OF event] clean)
qed


subsection \<open>Status, synchronisation, and the whole reconcile\<close>

lemma setPMCondition_name [simp]: "pm_Name (fst (setPMCondition R now cond config)) = pm_Name config"
  by (simp add: setPMCondition_def split: prod.splits)

lemma setEngineRoutesCondition_name [simp]: "pm_Name (setEngineRoutesCondition R now reg config) = pm_Name config"
  by (simp add: setEngineRoutesCondition_def)

lemma does_patchPM:
  assumes "pm_Name m = pm_Name config" "\<And>r w'. framed w w' \<Longrightarrow> Q r w'"
  shows "does (pmWrite R now cd config) (patchPM m prev) Q w"
  unfolding patchPM_def patchPMStatus_def write_pm_def using assms
  by (auto simp: Let_def pmWrite_def intro!: does_return does_write split: option.splits if_splits)

lemma does_setStatus:
  assumes "pm_Name m = pm_Name config" "\<And>r w'. framed w w' \<Longrightarrow> Q r w'"
  shows "does (pmWrite R now cd config) (deferDeletion R m names) Q w"
    and "\<And>Q'. (\<And>r w'. framed w w' \<Longrightarrow> Q' r w') \<Longrightarrow> does (pmWrite R now cd config) (demoteStatus R m active) Q' w"
proof -
  have n: "pm_Name m' = pm_Name config" if "setPMCondition R t cond m = (m', ch)" for t cond m' ch
    using that assms(1) setPMCondition_name [of R t cond m] by simp
  show "does (pmWrite R now cd config) (deferDeletion R m names) Q w"
    unfolding deferDeletion_def
    by (auto split: prod.split sum.split intro!: does_bind does_timeNow does_return does_patchPM assms(2) dest: n)
  show "does (pmWrite R now cd config) (demoteStatus R m active) Q' w" if "\<And>r w'. framed w w' \<Longrightarrow> Q' r w'" for Q'
    unfolding demoteStatus_def
    by (auto split: prod.split sum.split intro!: does_bind does_timeNow does_return does_patchPM does_pmEvent that dest: n framed_trans)
qed

lemma does_syncResources:
  assumes "elected cd config" "\<And>r w'. framed w w' \<Longrightarrow> Q r w'"
  shows "does (pmWrite R now cd config) (syncResources R xs) Q w"
  using assms(2)
proof (induction xs arbitrary: w)
  case (Cons x xs)
  have "does (pmWrite R now cd config) (syncResource R x) (\<lambda>_ w'. framed w w') w"
    unfolding syncResource_def get_resource_def createResource_def patchResource_def using assms(1)
    by (auto simp: pmWrite_def split: sum.split option.splits intro!: does_bind does_read does_return does_write)
  then show ?case
    by (auto split: sum.split intro!: does_bind does_return Cons.prems Cons.IH elim!: does_mono dest: framed_trans)
qed (auto intro: does_return)

lemma does_syncEngines:
  assumes "elected cd config" "pm_Name m = pm_Name config" "\<And>r w'. framed w w' \<Longrightarrow> Q r w'"
  shows "does (pmWrite R now cd config) (syncEngines R m prev engs) Q w"
  using assms(3)
proof (induction engs arbitrary: w)
  case (Cons eng engs)
  have report: "does (pmWrite R now cd config) (reportLocation R m prev e) (\<lambda>_ w'. framed w w') w" for e
    unfolding reportLocation_def using assms(2)
    by (auto split: nsError.split intro!: does_bind does_timeNow does_return does_patchPM)
  have rest: "does (pmWrite R now cd config) (syncEngines R m prev engs) Q w'" if "framed w w'" for w'
    using framed_trans [OF that] by (auto intro!: Cons.IH Cons.prems)
  show ?case
    using Cons.prems
    by (auto split: sum.split intro!: does_bind does_return does_mono [OF report] does_syncResources [OF assms(1)] rest)
qed (auto intro: does_return)

lemma does_syncNamespace:
  assumes "elected cd config"
  shows "does (pmWrite R now cd config) (syncNamespace R config) (\<lambda>_ _. True) w"
proof -
  have fin: "does (pmWrite R now cd config) (ensureFinalizer config) (\<lambda>r w'. \<forall>m. r = Inr m \<longrightarrow> pm_Name m = pm_Name config) w"
    unfolding ensureFinalizer_def updatePM_def write_pm_def using assms
    by (auto simp: Let_def pmWrite_def withFinalizer_def intro!: does_return does_write dest!: store_get_key split: option.splits if_splits)
  have reg: "does (pmWrite R now cd config) (syncRegistry R m reg) (\<lambda>_ _. True) w'" if "pm_Name m = pm_Name config" for m reg w'
    unfolding syncRegistry_def Let_def using that assms
    by (auto simp del: syncEngines.simps split: list.split sum.split intro!: does_bind does_timeNow does_return does_syncEngines does_patchPM)
  show ?thesis
    unfolding syncNamespace_def
    by (auto split: sum.split intro!: does_bind does_mono [OF fin] does_return reg)
qed

lemma pm_writes:
  assumes "honest w" "store_get pm_Name (cl_podmigrations (w_cache w)) name = Some config"
  shows "does (pmWrite R (w_now w) (w_cache w) config) (PM_Reconcile R name) (\<lambda>_ _. True) w"
proof -
  let ?P = "pmWrite R (w_now w) (w_cache w) config"
  have clean: "does ?P (cleanupUnlessInFlight R config) (\<lambda>r w'. \<forall>m ns. r = Inr (m, ns) \<longrightarrow> pm_Name m = pm_Name config) (w\<lparr>w_calls := k\<rparr>)"
    if "pm_DeletionTimestamp config \<noteq> None \<or> electedOver (cl_podmigrations (w_cache w)) config \<noteq> None" "StorageCleanupFinalizer \<in> set (pm_Finalizers config)" for k
    using does_cleanupUnlessInFlight [of "w\<lparr>w_calls := k\<rparr>" config _ R] that assms(1) by simp
  have finalize: "does ?P (finalizePM R config) (\<lambda>_ _. True) (w\<lparr>w_calls := k\<rparr>)" if "pm_DeletionTimestamp config \<noteq> None" for k
    unfolding finalizePM_def
    by (auto split: sum.split list.split intro!: does_return does_bind does_mono [OF clean] does_setStatus that)
  have demote: "does ?P (demotePM R config active) (\<lambda>_ _. True) (w\<lparr>w_calls := k\<rparr>)"
    if "electedOver (cl_podmigrations (w_cache w)) config = Some active" for k active
    unfolding demotePM_def demoteCleanup_def using that
    by (auto split: sum.split intro!: does_return does_bind does_mono [OF clean] does_setStatus(2))
  show ?thesis
    unfolding PM_Reconcile_def reconcilePM_def get_podmigration_def list_podmigrations_def using assms(2)
    by (auto simp: view_def elected_def split: sum.split option.split intro!: does_bind does_read does_return finalize demote does_syncNamespace)
qed

subsection \<open>Properties\<close>

text \<open>
  C6 (safety). What the PodMigration reconciler may do. It renders objects only for the
  configuration that wins the election; it deletes objects only for one that goes away or lost,
  and not while a migration of its own is in flight (unless it has waited for more than the
  maximum deferral); it leaves a storage config alone that is labelled as another one's;
  and it gives up its finalizer only when its objects are gone from the API server.
\<close>

theorem storage_kept_while_migrating:
  assumes "honest w" and "w_log w = []" and "store_get pm_Name (cl_podmigrations (w_cache w)) name = Some config"
    and "run_state (PM_Reconcile R name) w = (r, w')"
  shows "\<forall>(e, c) \<in> set (w_log w'). \<exists>c'. pmWrite R (w_now w) (w_cache w) config e c c'"
  using does_run [OF pm_writes [OF assms(1,3), of R] assms(4)] assms(2) adds_write [of "pmWrite R (w_now w) (w_cache w) config" w w'] by auto


text \<open>An object as the configuration describes it, with whatever labels others put on it.\<close>

definition upToDate :: "uobject \<Rightarrow> cluster \<Rightarrow> cluster \<Rightarrow> bool" where
  "upToDate desired c c' \<longleftrightarrow> (\<exists>x. store_get uo_key (cl_resources c') (uo_key desired) = Some x \<and> uo_Spec x = uo_Spec desired \<and>
     (\<forall>k v. map_of (uo_Labels desired) k = Some v \<longrightarrow> map_of (uo_Labels x) k = Some v) \<and>
     (\<forall>y k. store_get uo_key (cl_resources c) (uo_key desired) = Some y \<longrightarrow> map_of (uo_Labels desired) k = None \<longrightarrow>
        map_of (uo_Labels x) k = map_of (uo_Labels y) k))"

text \<open>What the synchronisation of \<open>x\<close> leaves alone.\<close>

definition onlySynced :: "uobject \<Rightarrow> cluster \<Rightarrow> cluster \<Rightarrow> bool" where
  "onlySynced x c c' \<longleftrightarrow> (\<forall>k. k \<noteq> uo_key x \<longrightarrow> store_get uo_key (cl_resources c') k = store_get uo_key (cl_resources c) k)"

lemma onlySynced_simps [simp]:
  "onlySynced x c c" "uo_key y = uo_key x \<Longrightarrow> onlySynced x c (c\<lparr>cl_resources := store_put uo_key y (cl_resources c)\<rparr>)"
  by (auto simp: onlySynced_def store_get_put)

lemma synced_key [simp]: "uo_key (y\<lparr>uo_Labels := l, uo_Spec := s\<rparr>) = uo_key y"
  by (simp add: uo_key_def)

lemma wp_syncResource:
  assumes K: "lawful_merge (pmr_lib R)" "noNull (uo_Spec x)"
  shows "wp (syncResource R x) (\<lambda>r w'. (r = Inr () \<longrightarrow> upToDate x (w_live w) (w_live w')) \<and> onlySynced x (w_live w) (w_live w')) w"
proof -
  let ?Q = "\<lambda>r w'. (r = Inr () \<longrightarrow> upToDate x (w_live w) (w_live w')) \<and> onlySynced x (w_live w) (w_live w')"
  have merge: "MergeApply (pmr_lib R) a (MergeDiff (pmr_lib R) a (uo_Spec x)) = uo_Spec x"
    "MergeDiff (pmr_lib R) a (uo_Spec x) = JObj [] \<Longrightarrow> a = uo_Spec x" for a
    using K by (simp_all add: lawful_merge_def)
  have create: "wp (createResource x) ?Q (w\<lparr>w_calls := k\<rparr>)" for k
    unfolding createResource_def by (rule wp_write_callI) (auto simp: upToDate_def store_get_put split: option.splits)
  have patch: "wp (patchResource (pmr_lib R) (synced x y) y) ?Q (w\<lparr>w_calls := k\<rparr>)"
    if y: "store_get uo_key (cl_resources (w_live w)) (uo_key x) = Some y" for k y
  proof -
    let ?z = "y\<lparr>uo_Labels := merge_labels (uo_Labels y) (uo_Labels x @ uo_Labels y) (uo_Labels y), uo_Spec := uo_Spec x\<rparr>"
    have key: "uo_key y = uo_key x" using y by (blast dest: store_get_key)
    have "map_of (uo_Labels ?z) = map_of (uo_Labels y) ++ map_of (uo_Labels x)"
      by (auto simp: map_of_merge_labels merge_strmap_def merge_field_def)
    then have "upToDate x (w_live w) ((w_live w)\<lparr>cl_resources := store_put uo_key ?z (cl_resources (w_live w))\<rparr>)"
      using y key by (auto simp: upToDate_def store_get_put map_add_def split: option.splits)
    with y key show ?thesis
      unfolding patchResource_def by (intro wp_write_callI) (auto simp: synced_def merge(1))
  qed
  have same: "upToDate x (w_live w) (w_live w)"
    if y: "store_get uo_key (cl_resources (w_live w)) (uo_key x) = Some y" and "emptyPatch (pmr_lib R) y (synced x y)" for y
  proof -
    have "uo_Spec y = uo_Spec x" using that(2) merge(2) by (auto simp: emptyPatch_def synced_def)
    moreover have "map_of (uo_Labels y) k = Some v" if "map_of (uo_Labels x) k = Some v" for k v
      using \<open>emptyPatch (pmr_lib R) y (synced x y)\<close> map_of_SomeD [OF that] that by (force simp: emptyPatch_def synced_def list_all_iff)
    ultimately show ?thesis using y by (auto simp: upToDate_def)
  qed
  show ?thesis
    unfolding syncResource_def get_resource_def wp_bind
    by (rule wp_read_callI; cases "store_get uo_key (cl_resources (w_live w)) (uo_key x)")
      (auto simp: view_def wp_simps found_def create patch same)
qed


text \<open>Synchronising other objects leaves an object up to date.\<close>

definition syncedTo :: "uobject list \<Rightarrow> cluster \<Rightarrow> cluster \<Rightarrow> bool" where
  "syncedTo xs c c' \<longleftrightarrow> (\<forall>x \<in> set xs. upToDate x c c')"

lemma syncedTo_cong:
  "syncedTo rs c d \<Longrightarrow> cl_resources c' = cl_resources c \<Longrightarrow> cl_resources d' = cl_resources d \<Longrightarrow> syncedTo rs c' d'"
  by (simp add: syncedTo_def upToDate_def)

lemma wp_syncResources:
  assumes K: "lawful_merge (pmr_lib R)"
  shows "distinct (map uo_key xs) \<Longrightarrow> \<forall>x \<in> set xs. noNull (uo_Spec x) \<Longrightarrow>
    wp (syncResources R xs) (\<lambda>r w'. (r = Inr () \<longrightarrow> syncedTo xs (w_live w) (w_live w')) \<and>
      (\<forall>k. k \<notin> uo_key ` set xs \<longrightarrow> store_get uo_key (cl_resources (w_live w')) k = store_get uo_key (cl_resources (w_live w)) k)) w"
proof (induction xs arbitrary: w)
  case (Cons x xs)
  let ?Q = "\<lambda>r w'. (r = Inr () \<longrightarrow> syncedTo (x # xs) (w_live w) (w_live w')) \<and>
      (\<forall>k. k \<notin> uo_key ` set (x # xs) \<longrightarrow> store_get uo_key (cl_resources (w_live w')) k = store_get uo_key (cl_resources (w_live w)) k)"
  have IH: "wp (syncResources R xs) (\<lambda>r u. (r = Inr () \<longrightarrow> syncedTo xs (w_live v) (w_live u)) \<and>
      (\<forall>k. k \<notin> uo_key ` set xs \<longrightarrow> store_get uo_key (cl_resources (w_live u)) k = store_get uo_key (cl_resources (w_live v)) k)) v" for v
    using Cons.IH [of v] Cons.prems by simp
  have rest: "wp (syncResources R xs) ?Q v" if "upToDate x (w_live w) (w_live v)" "onlySynced x (w_live w) (w_live v)" for v
  proof (rule wp_mono [OF IH], elim conjE)
    fix r u
    assume u: "r = Inr () \<longrightarrow> syncedTo xs (w_live v) (w_live u)"
      "\<forall>k. k \<notin> uo_key ` set xs \<longrightarrow> store_get uo_key (cl_resources (w_live u)) k = store_get uo_key (cl_resources (w_live v)) k"
    have "store_get uo_key (cl_resources (w_live u)) (uo_key x) = store_get uo_key (cl_resources (w_live v)) (uo_key x)"
      using u(2) Cons.prems(1) by (metis distinct.simps(2) list.simps(9) set_map)
    with that(1) have "upToDate x (w_live w) (w_live u)" by (simp add: upToDate_def)
    moreover have "upToDate y (w_live w) (w_live u)" if "y \<in> set xs" "r = Inr ()" for y
    proof -
      have "uo_key y \<noteq> uo_key x" using that(1) Cons.prems(1) by (auto simp: image_iff)
      then have "store_get uo_key (cl_resources (w_live v)) (uo_key y) = store_get uo_key (cl_resources (w_live w)) (uo_key y)"
        using \<open>onlySynced x (w_live w) (w_live v)\<close> by (metis onlySynced_def)
      moreover have "upToDate y (w_live v) (w_live u)" using u(1) that by (simp add: syncedTo_def)
      ultimately show ?thesis by (simp add: upToDate_def)
    qed
    ultimately show "?Q r u" using u(2) \<open>onlySynced x (w_live w) (w_live v)\<close> by (auto simp: syncedTo_def onlySynced_def)
  qed
  show ?case
    unfolding syncResources.simps wp_bind
    by (rule wp_mono [OF wp_syncResource [OF K]])
      (use Cons.prems rest in \<open>auto simp: wp_simps onlySynced_def split: sum.splits\<close>)
qed (simp add: wp_simps syncedTo_def)

lemma gkeRoutes_EnginesFor: "EnginesFor K (gkeRoutes K cs) pm = [gkeEngine K Live]"
  by (simp add: EnginesFor_def Let_def gkeRoutes_def gkeRegistry_def reg_Get_def defaultLocked_def map_filter_simps)

lemma gke_resources:
  assumes "GKE_NamespaceResources K m = Inr rs"
  shows "distinct (map uo_key rs) \<and> (\<forall>x \<in> set rs. noNull (uo_Spec x)) \<and> rs \<noteq> []"
  using assms by (auto simp: GKE_NamespaceResources_def Let_def uo_key_def split: if_splits)

lemma GKE_NamespaceResources_cong:
  "pm_Name a = pm_Name b \<Longrightarrow> pm_Namespace a = pm_Namespace b \<Longrightarrow> pm_UID a = pm_UID b \<Longrightarrow> pm_StorageLocation a = pm_StorageLocation b \<Longrightarrow>
   GKE_NamespaceResources K a = GKE_NamespaceResources K b"
  by (simp add: GKE_NamespaceResources_def Let_def)

lemma rendered_same [simp]:
  "GKE_NamespaceResources K (setEngineRoutesCondition R now reg m) = GKE_NamespaceResources K m"
  by (rule GKE_NamespaceResources_cong) (simp_all add: setEngineRoutesCondition_def setPMCondition_def split: prod.splits)

lemma wp_patchPM: "(\<And>r w'. cl_resources (w_live w') = cl_resources (w_live w) \<Longrightarrow> Q r w') \<Longrightarrow> wp (patchPM m prev) Q w"
  unfolding patchPM_def patchPMStatus_def write_pm_def
  by (auto simp: wp_simps Let_def intro!: wp_write_callI split: option.splits if_splits)

lemma wp_syncRegistry:
  assumes K: "lawful_merge K"
  shows "wp (syncRegistry (mainPM K (gkeRoutes K cs)) m (gkeRoutes K cs))
    (\<lambda>r w'. \<forall>res. r = Inr res \<longrightarrow> (\<exists>rs. GKE_NamespaceResources K m = Inr rs \<and> syncedTo rs (w_live w) (w_live w'))) w"
proof -
  let ?R = "mainPM K (gkeRoutes K cs)"
  have lib: "pmr_lib ?R = K" by (simp add: mainPM_def)
  show ?thesis
  proof (cases "GKE_NamespaceResources K m")
    case (Inl e)
    then show ?thesis
      unfolding syncRegistry_def Let_def lib gkeRoutes_EnginesFor
      by (auto simp: wp_simps gkeEngine_def reportLocation_def split: nsError.split intro!: wp_patchPM)
  next
    case (Inr rs)
    have "wp (syncResources ?R rs) (\<lambda>r w'. r = Inr () \<longrightarrow> syncedTo rs (w_live w) (w_live w')) w"
      by (rule wp_mono [OF wp_syncResources]) (use gke_resources [OF Inr] K lib in auto)
    then show ?thesis
      unfolding syncRegistry_def Let_def lib gkeRoutes_EnginesFor
      by (auto simp: wp_simps gkeEngine_def Inr split: sum.split intro!: wp_patchPM elim!: wp_mono)
        (erule syncedTo_cong; simp)
  qed
qed


text \<open>
  C21 (functional). A successful reconcile of the elected configuration leaves the storage config
  and the policy that the configuration describes on the API server: they are there, with
  exactly the described spec, whatever drift there was, and with the labels of the
  configuration; labels that others added are kept.
\<close>

theorem elected_objects_are_synced:
  assumes "honest w" and "lawful_merge K" and "NewDefaultRegistry K Live policy = Inr engines"
    and "store_get pm_Name (cl_podmigrations (w_cache w)) name = Some config" and "elected (w_cache w) config"
    and "run_state (PM_Reconcile (mainPM K engines) name) w = (Inr r, w')"
  shows "\<exists>m rs. (m = config \<or> store_get pm_Name (cl_podmigrations (w_live w)) name = Some m) \<and>
    GKE_NamespaceResources K m = Inr rs \<and> rs \<noteq> [] \<and> (\<forall>x \<in> set rs. upToDate x (w_live w) (w_live w'))"
proof -
  obtain cs where engines: "engines = gkeRoutes K cs" using default_routes [OF assms(3)] by blast
  let ?R = "mainPM K engines"
  let ?from = "\<lambda>m. m = config \<or> store_get pm_Name (cl_podmigrations (w_live w)) name = Some m"
  define goal where "goal r u \<longleftrightarrow> (\<forall>res. r = Inr res \<longrightarrow> (\<exists>m rs. ?from m \<and> GKE_NamespaceResources K m = Inr rs \<and> syncedTo rs (w_live w) (w_live u)))"
    for r :: "api_error + result" and u :: world
  have failed: "goal (Inl e) u" for e u by (simp add: goal_def)
  have name: "pm_Name config = name" using store_get_key [OF assms(4)] by simp
  have reg: "wp (syncRegistry ?R m' engines) goal v"
    if "?from m" "GKE_NamespaceResources K m' = GKE_NamespaceResources K m" "cl_resources (w_live v) = cl_resources (w_live w)" for m m' v
  proof -
    have "goal r u" if "\<forall>res. r = Inr res \<longrightarrow> (\<exists>rs. GKE_NamespaceResources K m' = Inr rs \<and> syncedTo rs (w_live v) (w_live u))" for r u
      unfolding goal_def
    proof (intro allI impI)
      fix res
      assume "r = Inr res"
      with that obtain rs where "GKE_NamespaceResources K m = Inr rs" "syncedTo rs (w_live v) (w_live u)"
        using \<open>GKE_NamespaceResources K m' = GKE_NamespaceResources K m\<close> by auto
      with \<open>?from m\<close> \<open>cl_resources (w_live v) = cl_resources (w_live w)\<close>
      show "\<exists>m rs. ?from m \<and> GKE_NamespaceResources K m = Inr rs \<and> syncedTo rs (w_live w) (w_live u)" by (metis syncedTo_cong)
    qed
    then show ?thesis unfolding engines by (rule wp_mono [OF wp_syncRegistry [OF assms(2)]])
  qed
  have fin: "wp (ensureFinalizer config) (\<lambda>u v. \<forall>m'. u = Inr m' \<longrightarrow> cl_resources (w_live v) = cl_resources (w_live w) \<and>
      (\<exists>m. ?from m \<and> GKE_NamespaceResources K m' = GKE_NamespaceResources K m)) (w\<lparr>w_calls := k\<rparr>)" for k
    unfolding ensureFinalizer_def updatePM_def write_pm_def using name
    by (auto simp: wp_simps Let_def withFinalizer_def intro!: wp_write_callI split: option.splits if_splits)
      (rule exI, rule conjI, rule disjI2, rule refl, rule GKE_NamespaceResources_cong, simp_all)+
  have sync: "wp (syncNamespace ?R config) goal (w\<lparr>w_calls := k\<rparr>)" for k
    unfolding syncNamespace_def wp_bind
    by (rule wp_mono [OF fin]) (auto simp: wp_simps pmEngines_def mainPM_def failed split: sum.splits intro: reg [unfolded mainPM_def])
  have "wp (PM_Reconcile ?R name) goal w"
    unfolding PM_Reconcile_def reconcilePM_def get_podmigration_def list_podmigrations_def using assms(1,4,5) sync
    by (auto simp: wp_simps view_def elected_def failed found_def denial_def intro!: wp_read_honestI)
  from wp_run [OF this assms(6)] obtain m rs where "?from m" "GKE_NamespaceResources K m = Inr rs" "syncedTo rs (w_live w) (w_live w')"
    unfolding goal_def by blast
  then show ?thesis using gke_resources [of K m rs] by (auto simp: syncedTo_def)
qed


subsection \<open>Instances\<close>

definition sampleConfig :: "string list \<Rightarrow> time option \<Rightarrow> podMigration" where
  "sampleConfig fins deleted = \<lparr>pm_Name = ''mig'', pm_Namespace = ''ns'', pm_UID = ''m1'', pm_ResourceVersion = 1, pm_Generation = 1,
     pm_Annotations = Map.empty, pm_Finalizers = fins, pm_CreationTimestamp = 1, pm_DeletionTimestamp = deleted,
     pm_StorageLocation = ''gs://bucket/dir'', pm_Conditions = []\<rparr>"

definition deletingScene :: "pmj list \<Rightarrow> cluster" where
  "deletingScene jobs = (clusterOf [] jobs)\<lparr>cl_podmigrations := [sampleConfig [StorageCleanupFinalizer] (Some 90)]\<rparr>"

definition newScene :: cluster where
  "newScene = (clusterOf [] [])\<lparr>cl_podmigrations := [sampleConfig [] None]\<rparr>"

definition samplePM :: pmReconciler where
  "samplePM = mainPM sampleLib stockRegistry"

lemma storage_kept_while_migrating_witness:
  "\<exists>r w'. run_state (PM_Reconcile samplePM ''mig'') (worldOf (deletingScene [])) = (r, w') \<and> length (w_log w') = 1 \<and>
     (\<forall>(e, c) \<in> set (w_log w'). \<exists>c'. pmWrite samplePM (100 * second) (deletingScene []) (sampleConfig [StorageCleanupFinalizer] (Some 90)) e c c')"
proof -
  let ?run = "run_state (PM_Reconcile samplePM ''mig'') (worldOf (deletingScene []))"
  have n: "length (w_log (snd ?run)) = 1" by code_simp
  have c: "store_get pm_Name (cl_podmigrations (w_cache (worldOf (deletingScene [])))) ''mig'' = Some (sampleConfig [StorageCleanupFinalizer] (Some 90))"
    by (simp add: deletingScene_def store_get_def sampleConfig_def)
  have run: "?run = (fst ?run, snd ?run)" by simp
  from storage_kept_while_migrating [OF worldOf_honest worldOf_log c run]
  have w: "\<forall>(e, c) \<in> set (w_log (snd ?run)). \<exists>c'. pmWrite samplePM (100 * second) (deletingScene []) (sampleConfig [StorageCleanupFinalizer] (Some 90)) e c c'"
    by (simp add: worldOf_def)
  show ?thesis by (intro exI [of _ "fst ?run"] exI [of _ "snd ?run"] conjI run n w)
qed

lemma elected_objects_are_synced_witness:
  "\<exists>w' rs. run_state (PM_Reconcile samplePM ''mig'') (worldOf newScene) = (Inr no_requeue, w') \<and>
     GKE_NamespaceResources sampleLib (sampleConfig [] None) = Inr rs \<and> rs \<noteq> [] \<and> (\<forall>x \<in> set rs. upToDate x newScene (w_live w'))"
proof -
  let ?run = "run_state (PM_Reconcile samplePM ''mig'') (worldOf newScene)"
  have "fst ?run = Inr no_requeue" by code_simp
  then have run: "run_state (PM_Reconcile (mainPM sampleLib stockRegistry) ''mig'') (worldOf newScene) = (Inr no_requeue, snd ?run)"
    unfolding samplePM_def by (metis prod.collapse)
  have c: "store_get pm_Name (cl_podmigrations (w_cache (worldOf newScene))) ''mig'' = Some (sampleConfig [] None)"
    and l: "store_get pm_Name (cl_podmigrations (w_live (worldOf newScene))) ''mig'' = Some (sampleConfig [] None)"
    by (simp_all add: newScene_def store_get_def sampleConfig_def)
  have e: "elected (w_cache (worldOf newScene)) (sampleConfig [] None)" by (simp add: elected_def) code_simp
  from elected_objects_are_synced [OF worldOf_honest sampleLib_merge stock_registry c e run] obtain m rs
    where m: "m = sampleConfig [] None \<or> store_get pm_Name (cl_podmigrations (w_live (worldOf newScene))) ''mig'' = Some m"
      and rs: "GKE_NamespaceResources sampleLib m = Inr rs" "rs \<noteq> []" "\<forall>x \<in> set rs. upToDate x (w_live (worldOf newScene)) (w_live (snd ?run))" by blast
  have m_eq: "m = sampleConfig [] None" using m l by auto
  have up: "\<forall>x \<in> set rs. upToDate x newScene (w_live (snd ?run))" using rs(3) unfolding worldOf_live .
  show ?thesis
    by (intro exI [of _ "snd ?run"] exI [of _ rs] conjI run [folded samplePM_def] rs(1) [unfolded m_eq] rs(2) up)
qed

end
