(* ===== verification/Verdict.thy ===== *)
theory Verdict
  imports Reconciler
begin

text \<open>
  How a restore is concluded (\<open>controller/restore_verdict.go\<close>): the engine's verdict on the
  replacement pod, the stabilization window that an inferred restore has to survive, and the
  three conclusions.
\<close>

section \<open>Definitions\<close>

definition ReasonRestoreVerified :: string where
  [const_defs]: "ReasonRestoreVerified = ''RestoreVerified''"
definition ReasonRestoreInferred :: string where
  [const_defs]: "ReasonRestoreInferred = ''RestoreInferred''"
definition ReasonRestoreLost :: string where
  [const_defs]: "ReasonRestoreLost = ''RestoreLost''"
definition ReasonRestoreFailed :: string where
  [const_defs]: "ReasonRestoreFailed = ''RestoreFailed''"
definition ReasonFallbackToColdStart :: string where
  [const_defs]: "ReasonFallbackToColdStart = ''FallbackToColdStart''"

definition restoreTimeout :: duration where
  "restoreTimeout = 5 * minute"

definition restoreCeiling :: "reconciler \<Rightarrow> duration" where
  "restoreCeiling r =
     (if rc_RestoreStabilizationWindow r > 0 then wrap64 (restoreTimeout + rc_RestoreStabilizationWindow r) else restoreTimeout)"

definition isPodReady :: "pod option \<Rightarrow> bool" where
  "isPodReady pod = (case pod of None \<Rightarrow> False
     | Some p \<Rightarrow> list_ex (\<lambda>c. c_Type c = ConditionReady \<and> c_Status c = CondTrue) (pod_Conditions p))"

definition outcomeString :: "restoreOutcome \<Rightarrow> string" where
  "outcomeString v = (case v of RestoreInProgress \<Rightarrow> ''InProgress'' | Restored \<Rightarrow> ''Restored'' | ColdStart \<Rightarrow> ''ColdStart'' | RestoreFailed \<Rightarrow> ''Failed'')"

definition restoreVerdictOf :: "pmj \<Rightarrow> pod \<Rightarrow> engine \<Rightarrow> (api_error + restoreVerdict) io" where
  "restoreVerdictOf job pod eng =
     (case eng_VerifyRestore eng of
        Some verify \<Rightarrow> verify job pod
      | None \<Rightarrow>
          if \<not> isPodReady (Some pod)
          then State_Monad.return (Inr \<lparr>rv_Outcome = RestoreInProgress, rv_Reason = [], rv_Evidence = [], rv_Confirmed = False\<rparr>)
          else State_Monad.return (Inr \<lparr>rv_Outcome = Restored, rv_Reason = [],
                 rv_Evidence = ''pod Ready; the engine reports no restore verdict'', rv_Confirmed = False\<rparr>))"

definition countRestart :: "container_status \<Rightarrow> int \<times> string \<Rightarrow> int \<times> string" where
  "countRestart s tf =
     (case tf of (restarts, first) \<Rightarrow>
        if cs_RestartCount s > 0 then (wrap32 (restarts + cs_RestartCount s), if first = [] then cs_Name s else first) else (restarts, first))"

definition containerRestarts :: "pod \<Rightarrow> int \<times> string" where
  "containerRestarts pod =
     (let sidecars = map ct_Name (filter isSidecar (pod_InitContainers pod))
      in fold countRestart (pod_ContainerStatuses pod @ filter (\<lambda>s. cs_Name s \<in> set sidecars) (pod_InitContainerStatuses pod)) (0, []))"

definition podReadySince :: "pod \<Rightarrow> time" where
  "podReadySince pod =
     (case find (\<lambda>c. c_Type c = ConditionReady \<and> c_Status c = CondTrue) (pod_Conditions pod) of
        None \<Rightarrow> zero_time
      | Some c \<Rightarrow> c_LastTransitionTime c)"

definition effectiveReadySince :: "pod option \<Rightarrow> pmj \<Rightarrow> time \<Rightarrow> time option" where
  "effectiveReadySince pod job now =
     (case pod of
        None \<Rightarrow> None
      | Some p \<Rightarrow>
          if \<not> isPodReady (Some p) then None
          else let readySince =
                     (if podReadySince p = zero_time \<or> podReadySince p > now then
                        (case st_RestoringStartTime (pmj_Status job) of
                           Some t \<Rightarrow> if t \<le> now then t
                             else if pmj_CreationTimestamp job \<noteq> zero_time \<and> pmj_CreationTimestamp job \<le> now then pmj_CreationTimestamp job
                             else now
                         | None \<Rightarrow>
                             if pmj_CreationTimestamp job \<noteq> zero_time \<and> pmj_CreationTimestamp job \<le> now then pmj_CreationTimestamp job
                             else now)
                      else podReadySince p)
               in if readySince \<noteq> zero_time then Some readySince else None)"

definition stabilizationRemainingAt :: "reconciler \<Rightarrow> pmj \<Rightarrow> pod \<Rightarrow> time \<Rightarrow> duration" where
  "stabilizationRemainingAt r job pod now =
     (if rc_RestoreStabilizationWindow r \<le> 0 then 0
      else case effectiveReadySince (Some pod) job now of
             None \<Rightarrow> 0
           | Some since \<Rightarrow>
               (let remaining = wrap64 (rc_RestoreStabilizationWindow r - time_sub now since) in
                if remaining > 0 then (if remaining > rc_RestoreStabilizationWindow r then rc_RestoreStabilizationWindow r else remaining)
                else 0))"

definition restoredMessage :: "reconciler \<Rightarrow> pod \<Rightarrow> string \<Rightarrow> restoreVerdict \<Rightarrow> string" where
  "restoredMessage r pod engineName verdict =
     (if rv_Confirmed verdict then
        ''Pod state restored from snapshot and replacement pod '' @ pod_Name pod @ '' is Ready; engine '' @ engineName @
        '' confirmed the restore: '' @ rv_Evidence verdict
      else if rc_RestoreStabilizationWindow r > 0 then
        ''Replacement pod '' @ pod_Name pod @ '' stayed Ready for '' @ durationString (rc_RestoreStabilizationWindow r) @
        '' without a container restart, and engine '' @ engineName @ '' inferred the restore without positive evidence: '' @ rv_Evidence verdict
      else
        ''Replacement pod '' @ pod_Name pod @ '' is Ready, and engine '' @ engineName @
        '' inferred the restore without positive evidence: '' @ rv_Evidence verdict)"

definition completeRestore :: "reconciler \<Rightarrow> pmj \<Rightarrow> pod \<Rightarrow> api_error option io" where
  "completeRestore r job pod =
     (case RestoreCompleter (getSnapshotProvider r job) of
        None \<Rightarrow> State_Monad.return None
      | Some complete \<Rightarrow> complete job (pod_Name pod) (pod_UID pod))"

definition concludeRestored :: "reconciler \<Rightarrow> pmj \<Rightarrow> pmj \<Rightarrow> pod \<Rightarrow> string \<Rightarrow> restoreVerdict \<Rightarrow> (api_error + result) io" where
  "concludeRestored r job origJob pod engineName verdict = do {
     c \<leftarrow> completeRestore r job pod;
     (case c of
        Some e \<Rightarrow> State_Monad.return (Inl e)
      | None \<Rightarrow> do {
          now \<leftarrow> timeNow;
          let reason = (if rv_Confirmed verdict then ReasonRestoreVerified else ReasonRestoreInferred);
          let message = restoredMessage r pod engineName verdict;
          let job = concluded PhaseSucceeded now job;
          let job = setCond (rc_lib r) now ConditionRestored CondTrue reason message job;
          let job = setCond (rc_lib r) now ConditionReady CondTrue reason message job;
          let job = fst (clearUnrecognizedRestoreCrash r now job);
          p \<leftarrow> patchStatus job origJob;
          State_Monad.return (case p of Inl e \<Rightarrow> handleStatusError e | Inr _ \<Rightarrow> Inr no_requeue)
        })
   }"

text \<open>The callers return \<open>ctrl.Result{}, err\<close>.\<close>

definition finished :: "api_error + pmj \<Rightarrow> api_error + result" where
  "finished p = (case p of Inl e \<Rightarrow> Inl e | Inr _ \<Rightarrow> Inr no_requeue)"

definition concludeWithoutRestore :: "reconciler \<Rightarrow> pmj \<Rightarrow> pmj \<Rightarrow> pod \<Rightarrow> string \<Rightarrow> restoreVerdict \<Rightarrow> (api_error + result) io" where
  "concludeWithoutRestore r job origJob pod engineName verdict = do {
     let reason = (if rv_Outcome verdict = RestoreFailed then ReasonRestoreFailed else ReasonFallbackToColdStart);
     let message = (if rv_Reason verdict = [] then
           ''Engine '' @ engineName @ '' reported '' @ outcomeString (rv_Outcome verdict) @ '' for replacement pod '' @ pod_Name pod
         else rv_Reason verdict) @ (if rv_Evidence verdict \<noteq> [] then '' ('' @ rv_Evidence verdict @ '')'' else []);
     p \<leftarrow> markSucceededWithoutRestore r job origJob reason message;
     State_Monad.return (finished p)
   }"

definition concludeRestoreLost :: "reconciler \<Rightarrow> pmj \<Rightarrow> pmj \<Rightarrow> pod \<Rightarrow> int \<Rightarrow> string \<Rightarrow> (api_error + result) io" where
  "concludeRestoreLost r job origJob pod restarts container = do {
     let message = ''Container '' @ quoted container @ '' of replacement pod '' @ pod_Name pod @
           '' restarted before the restore was verified ('' @ showInt restarts @ '' restart(s)), so it runs without its restored state'';
     p \<leftarrow> markSucceededWithoutRestore r job origJob ReasonRestoreLost message;
     (case p of
        Inl e \<Rightarrow> State_Monad.return (Inl e)
      | Inr job \<Rightarrow> do {
          eventf r (pmj_Name job) EventTypeWarning ReasonRestoreLost;
          eventf r (pod_Name pod) EventTypeWarning ReasonRestoreLost;
          State_Monad.return (Inr no_requeue)
        })
   }"

end
