(* ===== verification/Rules.thy ===== *)
theory Rules
  imports Verdict Scenario
begin

text \<open>
  The invariant rules (\<open>invariants/rules.go\<close>, \<open>invariants/snapshot.go\<close>,
  \<open>invariants/i10_wedged_restoring_orphan_rule.go\<close>): twelve predicates over a snapshot of what a
  reconcile has seen, each returning the violations it finds.

  \<^item> \<open>reconcileSnapshot\<close> is \<open>ReconcileSnapshot\<close>. The engine never calls a rule with a nil
    snapshot, so the rules take one that is there. A snapshot without a time reads the clock,
    which is the argument \<open>wall\<close>.
  \<^item> Go's maps keyed by namespace and name are association lists, searched from the end.
  \<^item> One definition per rule; the body of a loop over jobs or pods is a definition of its own,
    and the rule concatenates what the loop finds.
  \<^item> The lemmas say when a rule is silent, in terms of the objects rather than of the loops.
\<close>

section \<open>Definitions\<close>

subsection \<open>Snapshots and violations\<close>

type_synonym restoreOrderFunc = "string \<Rightarrow> pod \<Rightarrow> string \<times> bool \<times> bool"

record reconcileSnapshot =
  rs_Now :: time
  rs_Reconciler :: string
  rs_PrimaryPMJ :: "pmj option"
  rs_PrimaryPod :: "pod option"
  rs_PrimaryMigration :: "podMigration option"
  rs_NamespacePMJs :: "pmj list"
  rs_NamespacePods :: "pod list"
  rs_TargetingPMJs :: "pmj list"
  rs_PodListFailed :: bool
  rs_PMJListFailed :: bool
  rs_HasOrphanedTrigger :: bool
  rs_RestoreCrashSignatureMatched :: bool
  rs_RestoreOrders :: "restoreOrderFunc option"

record violation =
  vi_InvariantID :: string
  vi_InvariantName :: string
  vi_Reason :: string
  vi_Message :: string
  vi_Namespace :: string
  vi_PMJName :: string
  vi_PodName :: string
  vi_ConsecutiveRequired :: int
  vi_DurationRequired :: duration

definition violationOf :: "string \<Rightarrow> string \<Rightarrow> string \<Rightarrow> string \<Rightarrow> string \<Rightarrow> string \<Rightarrow> string \<Rightarrow> violation" where
  "violationOf ident name reason msg ns pmjName podName = \<lparr>vi_InvariantID = ident, vi_InvariantName = name, vi_Reason = reason, vi_Message = msg,
     vi_Namespace = ns, vi_PMJName = pmjName, vi_PodName = podName, vi_ConsecutiveRequired = 0, vi_DurationRequired = 0\<rparr>"

definition GateReleaseGraceWindow :: duration where
  "GateReleaseGraceWindow = 30 * second"

definition SourceFencedGraceWindow :: duration where
  "SourceFencedGraceWindow = 10 * second"

definition MaxMigrationDuration :: duration where
  "MaxMigrationDuration = 10 * minute"

definition progressGraceSlack :: duration where
  "progressGraceSlack = 30 * second"

definition DefaultEngineName :: string where
  "DefaultEngineName = ''gke-pod-snapshots''"

subsection \<open>Helpers\<close>

fun firsts :: "('a \<Rightarrow> string) \<Rightarrow> string list \<Rightarrow> 'a list \<Rightarrow> 'a list" where
  "firsts key seen [] = []"
| "firsts key seen (x # xs) = (if key x \<in> set seen then firsts key seen xs else x # firsts key (key x # seen) xs)"

definition jobRef :: "pmj \<Rightarrow> string" where
  "jobRef job = pmj_Namespace job @ ''/'' @ pmj_Name job"

definition podRef :: "pod \<Rightarrow> string" where
  "podRef p = pod_Namespace p @ ''/'' @ pod_Name p"

definition allPMJs :: "reconcileSnapshot \<Rightarrow> pmj list" where
  "allPMJs s =
     (case rs_PrimaryPMJ s of
        Some job \<Rightarrow> if pmj_Name job \<noteq> [] then job # firsts jobRef [jobRef job] (rs_NamespacePMJs s) else firsts jobRef [] (rs_NamespacePMJs s)
      | None \<Rightarrow> firsts jobRef [] (rs_NamespacePMJs s))"

definition allPods :: "reconcileSnapshot \<Rightarrow> pod list" where
  "allPods s =
     (case rs_PrimaryPod s of
        Some p \<Rightarrow> if pod_Name p \<noteq> [] then p # firsts podRef [podRef p] (rs_NamespacePods s) else firsts podRef [] (rs_NamespacePods s)
      | None \<Rightarrow> firsts podRef [] (rs_NamespacePods s))"

definition byKey :: "('a \<Rightarrow> string) \<Rightarrow> 'a list \<Rightarrow> string \<Rightarrow> 'a option" where
  "byKey key xs = map_of (rev (map (\<lambda>x. (key x, x)) xs))"

definition snapshotTime :: "time \<Rightarrow> reconcileSnapshot \<Rightarrow> time" where
  "snapshotTime wall s = (if rs_Now s \<noteq> zero_time then rs_Now s else wall)"

definition jobEngineAnnotation :: "pmj \<Rightarrow> string" where
  "jobEngineAnnotation job = trimSpace (mget (pmj_Annotations job) AnnotationEngine)"

definition effectiveJobEngineName :: "pmj \<Rightarrow> string" where
  "effectiveJobEngineName job = (if jobEngineAnnotation job \<noteq> [] then jobEngineAnnotation job else DefaultEngineName)"

definition inspectPodRestoreOrder :: "reconcileSnapshot \<Rightarrow> string \<Rightarrow> pod \<Rightarrow> string \<times> bool \<times> bool" where
  "inspectPodRestoreOrder s engineName p =
     (case rs_RestoreOrders s of
        Some f \<Rightarrow> f engineName p
      | None \<Rightarrow>
          (case pod_Annotations p psNameAnnotation of
             None \<Rightarrow> ([], False, False)
           | Some val \<Rightarrow> if trimSpace val = [] then ([], True, True) else (trimSpace val, False, True)))"

definition migratedAgain :: "pmj \<Rightarrow> pmj list \<Rightarrow> bool" where
  "migratedAgain job targeting =
     list_ex (\<lambda>other. pmj_Name other \<noteq> pmj_Name job \<and> \<not> pmj_CreationTimestamp other < pmj_CreationTimestamp job) targeting"

definition restoreVerified :: "pmj \<Rightarrow> bool" where
  "restoreVerified job =
     (case FindStatusCondition (st_Conditions (pmj_Status job)) ConditionRestored of
        None \<Rightarrow> False
      | Some cond \<Rightarrow> c_Status cond = CondTrue \<and> (c_Reason cond = ReasonRestoreVerified \<or> c_Reason cond = ReasonRestoreInferred))"

definition condTrueOf :: "pmj \<Rightarrow> string \<Rightarrow> bool" where
  "condTrueOf job t =
     (case FindStatusCondition (st_Conditions (pmj_Status job)) t of None \<Rightarrow> False | Some cond \<Rightarrow> c_Status cond = CondTrue)"

definition condStatusString :: "cond_status \<Rightarrow> string" where
  "condStatusString st = (case st of CondTrue \<Rightarrow> ''True'' | CondFalse \<Rightarrow> ''False'' | CondUnknown \<Rightarrow> ''Unknown'')"

definition boolString :: "bool \<Rightarrow> string" where
  "boolString b = (if b then ''true'' else ''false'')"

subsection \<open>I1: a snapshot is restored at most once\<close>

text \<open>The engine of the job a pod is assigned to, or the empty name.\<close>

definition assignedEngine :: "reconcileSnapshot \<Rightarrow> pod \<Rightarrow> string" where
  "assignedEngine s p =
     (let assigned = mget (pod_Annotations p) AnnotationAssignedPMJ in
      if assigned = [] then []
      else case byKey jobRef (allPMJs s) (pod_Namespace p @ ''/'' @ assigned) of None \<Rightarrow> [] | Some job \<Rightarrow> jobEngineAnnotation job)"

definition noOrder :: "string \<times> bool \<times> bool \<Rightarrow> bool" where
  "noOrder r = (case r of (snap, bypass, ok) \<Rightarrow> \<not> ok \<or> bypass \<or> snap = [])"

text \<open>The snapshot that a pod is ordered to restore.\<close>

definition boundSnapshot :: "reconcileSnapshot \<Rightarrow> pod \<Rightarrow> string option" where
  "boundSnapshot s p =
     (let engName = assignedEngine s p;
          r0 = inspectPodRestoreOrder s engName p;
          r = (if noOrder r0 \<and> engName \<noteq> [] then inspectPodRestoreOrder s [] p else r0)
      in if noOrder r then None else Some (fst r))"

definition podID :: "pod \<Rightarrow> string" where
  "podID p = (if pod_UID p \<noteq> [] then pod_UID p else podRef p)"

definition duplicateConsumption :: "string \<Rightarrow> string \<Rightarrow> pod \<Rightarrow> violation" where
  "duplicateConsumption snap prev p = violationOf ''I1'' ''AtMostOnceRestore'' ''DuplicateSnapshotConsumption''
     (''snapshot '' @ quoted snap @ '' is simultaneously bound to multiple replacement pods ('' @ prev @ '' and '' @ podID p @ '')'')
     (pod_Namespace p) [] (pod_Name p)"

fun duplicateConsumers :: "reconcileSnapshot \<Rightarrow> strmap \<Rightarrow> pod list \<Rightarrow> violation list" where
  "duplicateConsumers s consumers [] = []"
| "duplicateConsumers s consumers (p # ps) =
     (case boundSnapshot s p of
        None \<Rightarrow> duplicateConsumers s consumers ps
      | Some snap \<Rightarrow>
          (case consumers snap of
             Some prev \<Rightarrow>
               if prev \<noteq> podID p then duplicateConsumption snap prev p # duplicateConsumers s consumers ps
               else duplicateConsumers s (consumers(snap \<mapsto> podID p)) ps
           | None \<Rightarrow> duplicateConsumers s (consumers(snap \<mapsto> podID p)) ps))"

text \<open>A pod other than the recorded consumer is bound to the snapshot of a job whose gate is released.\<close>

definition rebound :: "reconcileSnapshot \<Rightarrow> pmj \<Rightarrow> pod \<Rightarrow> bool" where
  "rebound s job p =
     (case inspectPodRestoreOrder s (jobEngineAnnotation job) p of (snap, bypass, ok) \<Rightarrow>
        ok \<and> \<not> bypass \<and> snap = st_SnapshotRef (pmj_Status job) \<and> st_RestoredPodUID (pmj_Status job) \<noteq> [] \<and>
        pod_UID p \<noteq> [] \<and> pod_UID p \<noteq> st_RestoredPodUID (pmj_Status job))"

definition reboundViolation :: "pmj \<Rightarrow> pod \<Rightarrow> violation" where
  "reboundViolation job p = violationOf ''I1'' ''AtMostOnceRestore'' ''ConsumedSnapshotReboundAfterGateRelease''
     (''PMJ '' @ jobRef job @ '' already released gate for consumer UID '' @ quoted (st_RestoredPodUID (pmj_Status job)) @ '' on snapshot '' @
      quoted (st_SnapshotRef (pmj_Status job)) @ '', but pod '' @ pod_Name p @ '' (UID '' @ quoted (pod_UID p) @ '') is bound to the same snapshot'')
     (pmj_Namespace job) (pmj_Name job) (pod_Name p)"

definition spent :: "pmj \<Rightarrow> bool" where
  "spent job = (st_Consumed (pmj_Status job) \<and> st_GateReleased (pmj_Status job) \<and> st_SnapshotRef (pmj_Status job) \<noteq> [])"

definition EvaluateI1 :: "reconcileSnapshot \<Rightarrow> violation list" where
  "EvaluateI1 s =
     duplicateConsumers s Map.empty (allPods s) @
     concat (map (\<lambda>job. if spent job then map (reboundViolation job) (filter (rebound s job) (allPods s)) else []) (allPMJs s))"

subsection \<open>I2: no silent cold start\<close>

definition jobsTargeting :: "reconcileSnapshot \<Rightarrow> string \<Rightarrow> pmj list" where
  "jobsTargeting s uid = filter (\<lambda>j. pmj_TargetPodUID j \<noteq> [] \<and> pmj_TargetPodUID j = uid) (allPMJs s @ rs_TargetingPMJs s)"

definition restoreAnnotationMissing :: "pmj \<Rightarrow> pod \<Rightarrow> string \<Rightarrow> bool \<Rightarrow> violation" where
  "restoreAnnotationMissing job p snapAnn bypass = violationOf ''I2'' ''NoSilentColdStart'' ''SucceededPodMissingRestoreAnnotation''
     (''PMJ '' @ jobRef job @ '' is Succeeded expecting snapshot '' @ quoted (st_SnapshotRef (pmj_Status job)) @ '' on replacement pod '' @ pod_Name p @
      '', but pod has '' @ psNameAnnotation @ ''='' @ quoted snapAnn @ '' (coldStartBypass='' @ boolString bypass @ '')'')
     (pmj_Namespace job) (pmj_Name job) (pod_Name p)"

definition checkReplacement :: "reconcileSnapshot \<Rightarrow> pmj \<Rightarrow> pod \<Rightarrow> violation list" where
  "checkReplacement s job p =
     (if st_RestoredPodUID (pmj_Status job) \<noteq> [] \<and> pod_UID p \<noteq> [] \<and> pod_UID p \<noteq> st_RestoredPodUID (pmj_Status job) then []
      else case inspectPodRestoreOrder s (jobEngineAnnotation job) p of (snapAnn, coldStartBypass, present) \<Rightarrow>
        let restoreCompleted = mget (pod_Annotations p) AnnotationRestoreCompleted;
            bypassingJob = mget (pod_Annotations p) AnnotationColdStartBypassJob;
            hasBypassJob = (pod_UID p \<noteq> [] \<and> bypassingJob \<noteq> [] \<and> bypassingJob \<noteq> pmj_Name job \<and>
              bypassingJob = FormatPMJName (pod_Name p) (pod_UID p))
        in if coldStartBypass \<and> restoreVerified job \<and> restoreCompleted \<noteq> [] \<and> restoreCompleted = st_SnapshotRef (pmj_Status job) then []
           else if coldStartBypass \<and> (hasBypassJob \<or> pod_UID p \<noteq> [] \<and> migratedAgain job (jobsTargeting s (pod_UID p))) then []
           else if \<not> present \<or> snapAnn \<noteq> st_SnapshotRef (pmj_Status job) \<or> coldStartBypass
           then [restoreAnnotationMissing job p snapAnn coldStartBypass]
           else [])"

definition I2_job :: "reconcileSnapshot \<Rightarrow> pmj \<Rightarrow> violation list" where
  "I2_job s job =
     (if st_Phase (pmj_Status job) \<noteq> PhaseSucceeded then []
      else if st_SnapshotRef (pmj_Status job) = []
      then [violationOf ''I2'' ''NoSilentColdStart'' ''SucceededWithoutSnapshotRef''
              (''PMJ '' @ jobRef job @ '' transitioned to Succeeded (warm restore) with empty Status.SnapshotRef'')
              (pmj_Namespace job) (pmj_Name job) []]
      else if st_RestoredPodName (pmj_Status job) = [] then []
      else case byKey podRef (allPods s) (pmj_Namespace job @ ''/'' @ st_RestoredPodName (pmj_Status job)) of
             None \<Rightarrow> []
           | Some p \<Rightarrow> checkReplacement s job p)"

definition I2_pod :: "reconcileSnapshot \<Rightarrow> pod \<Rightarrow> violation list" where
  "I2_pod s p =
     (let assigned = mget (pod_Annotations p) AnnotationAssignedPMJ in
      if pod_DeletionTimestamp p \<noteq> None \<or> podHasMigrationGate p \<or> assigned = [] then []
      else let engName = assignedEngine s p;
               present = snd (snd (inspectPodRestoreOrder s engName p));
               hasPSKey = (if \<not> present \<and> engName \<noteq> [] then snd (snd (inspectPodRestoreOrder s [] p)) else present)
           in if hasPSKey then []
              else [violationOf ''I2'' ''NoSilentColdStart'' ''GateReleasedWithoutSnapshotOrColdStartBypass''
                (''pod '' @ podRef p @ '' had scheduling gate '' @ quoted MigrationGateName @ '' removed while assigned to PMJ '' @ assigned @
                 '' without '' @ psNameAnnotation @ '' set to a snapshot name or explicit empty-string bypass'')
                (pod_Namespace p) assigned (pod_Name p)])"

definition EvaluateI2 :: "reconcileSnapshot \<Rightarrow> violation list" where
  "EvaluateI2 s = concat (map (I2_job s) (allPMJs s)) @ concat (map (I2_pod s) (allPods s))"


subsection \<open>I3: a gate is released\<close>

definition inGraceWindow :: "time \<Rightarrow> pmj \<Rightarrow> pod \<Rightarrow> bool" where
  "inGraceWindow now job p =
     (\<not> IsTerminalPhase (st_Phase (pmj_Status job)) \<and>
      (let anchor = (case st_RestoringStartTime (pmj_Status job) of
                       Some t \<Rightarrow> if t \<noteq> zero_time then t else pod_CreationTimestamp p
                     | None \<Rightarrow> pod_CreationTimestamp p)
       in anchor \<noteq> zero_time \<and> time_sub now anchor \<le> GateReleaseGraceWindow))"

definition gatedOnJob :: "time \<Rightarrow> pmj \<Rightarrow> pod \<Rightarrow> violation list" where
  "gatedOnJob now job p =
     (if IsTerminalPhase (st_Phase (pmj_Status job)) \<and> st_Consumed (pmj_Status job)
      then [violationOf ''I3'' ''GateLiveness'' ''PodGatedAfterPMJTerminalAndConsumed''
              (''pod '' @ podRef p @ '' still carries scheduling gate '' @ quoted MigrationGateName @ '' even though assigned PMJ '' @ pmj_Name job @
               '' is already terminal ('' @ phase_string (st_Phase (pmj_Status job)) @ '') and consumed'')
              (pod_Namespace p) (pmj_Name job) (pod_Name p)]
      else if st_GateReleased (pmj_Status job) \<and> st_RestoredPodUID (pmj_Status job) \<noteq> [] \<and>
        pod_UID p = st_RestoredPodUID (pmj_Status job) \<and> \<not> inGraceWindow now job p
      then [violationOf ''I3'' ''GateLiveness'' ''PodGatedAfterGateReleasedStatus''
              (''pod '' @ podRef p @ '' (UID '' @ quoted (pod_UID p) @ '') still carries scheduling gate '' @ quoted MigrationGateName @
               '' after PMJ '' @ pmj_Name job @ '' marked Status.GateReleased=true'')
              (pod_Namespace p) (pmj_Name job) (pod_Name p)]
      else [])"

definition I3_pod :: "time \<Rightarrow> reconcileSnapshot \<Rightarrow> pod \<Rightarrow> violation list" where
  "I3_pod now s p =
     (let assigned = mget (pod_Annotations p) AnnotationAssignedPMJ in
      if pod_DeletionTimestamp p \<noteq> None \<or> \<not> podHasMigrationGate p \<or> assigned = [] then []
      else case byKey jobRef (allPMJs s) (pod_Namespace p @ ''/'' @ assigned) of
             None \<Rightarrow> []
           | Some job \<Rightarrow> gatedOnJob now job p)"

definition EvaluateI3 :: "time \<Rightarrow> reconcileSnapshot \<Rightarrow> violation list" where
  "EvaluateI3 wall s = concat (map (I3_pod (snapshotTime wall s) s) (allPods s))"

subsection \<open>I4: an active job makes progress\<close>

definition EffectiveMigrationTimeout :: "kubelib \<Rightarrow> pmj \<Rightarrow> duration" where
  "EffectiveMigrationTimeout K job =
     (let raw = mget (pmj_Annotations job) AnnotationMigrationTimeout in
      if raw = [] then MaxMigrationDuration
      else case parseDuration K raw of
             Some d \<Rightarrow> if d > 0 then d else MaxMigrationDuration
           | None \<Rightarrow> MaxMigrationDuration)"

definition deadlineAnchor :: "pmj \<Rightarrow> time \<times> string" where
  "deadlineAnchor job =
     (case st_SnapshottingStartTime (pmj_Status job) of
        Some t \<Rightarrow> if t \<noteq> zero_time then (t, ''snapshotting started'') else (pmj_CreationTimestamp job, ''created'')
      | None \<Rightarrow> (pmj_CreationTimestamp job, ''created''))"

text \<open>The eviction phase has a budget of its own, within the hard cap of a migration.\<close>

definition annotationExcused :: "kubelib \<Rightarrow> time \<Rightarrow> pmj \<Rightarrow> duration \<Rightarrow> bool" where
  "annotationExcused K now job budget =
     (let evictingSinceStr = mget (pmj_Annotations job) AnnotationEvictingSince in
      evictingSinceStr \<noteq> [] \<and>
      (case parseEvictingSince K evictingSinceStr of None \<Rightarrow> False | Some evictingSince \<Rightarrow> time_sub now evictingSince \<le> budget))"

definition evictionExcused :: "kubelib \<Rightarrow> time \<Rightarrow> pmj \<Rightarrow> duration \<Rightarrow> bool" where
  "evictionExcused K now job budget =
     (let anchor = fst (deadlineAnchor job) in
      st_Phase (pmj_Status job) = PhaseEvicting \<and>
      (anchor = zero_time \<or> time_sub now anchor \<le> MaxMigrationTimeout + progressGraceSlack) \<and>
      (case st_EvictingStartTime (pmj_Status job) of
         Some t \<Rightarrow> if t \<noteq> zero_time then time_sub now t \<le> budget else annotationExcused K now job budget
       | None \<Rightarrow> annotationExcused K now job budget))"

definition I4_job :: "kubelib \<Rightarrow> time \<Rightarrow> pmj \<Rightarrow> violation list" where
  "I4_job K now job =
     (let ph = st_Phase (pmj_Status job); effectiveTimeout = EffectiveMigrationTimeout K job;
          budget = wrap64 (effectiveTimeout + progressGraceSlack)
      in if ph \<noteq> PhasePending \<and> ph \<noteq> PhaseSnapshotting \<and> ph \<noteq> PhaseEvicting then []
         else if evictionExcused K now job budget then []
         else case deadlineAnchor job of (anchor, anchorLabel) \<Rightarrow>
           if anchor \<noteq> zero_time \<and> time_sub now anchor > budget
           then [violationOf ''I4'' ''TerminalProgress'' ''ActivePMJExceededDeadline''
                   (''PMJ '' @ jobRef job @ '' remained in non-terminal phase '' @ quoted (phase_string ph) @ '' beyond its '' @ durationString effectiveTimeout @
                    '' deadline ('' @ anchorLabel @ '' at '' @ FormatRFC3339 K anchor @ '')'')
                   (pmj_Namespace job) (pmj_Name job) []]
           else [])"

definition I4_migration :: "kubelib \<Rightarrow> time \<Rightarrow> podMigration \<Rightarrow> violation list" where
  "I4_migration K now mig =
     (case pm_DeletionTimestamp mig of
        None \<Rightarrow> []
      | Some t \<Rightarrow>
          if t \<noteq> zero_time \<and> StorageCleanupFinalizer \<in> set (pm_Finalizers mig) \<and> time_sub now t > MaxMigrationDuration + progressGraceSlack
          then [violationOf ''I4'' ''TerminalProgress'' ''PodMigrationFinalizerStuckPastDeferralCap''
                  (''PodMigration '' @ pm_Namespace mig @ ''/'' @ pm_Name mig @ '' has been deleting with finalizer '' @ quoted StorageCleanupFinalizer @
                   '' beyond the '' @ durationString MaxMigrationDuration @ '' max deferral deadline (deletion started at '' @ FormatRFC3339 K t @ '')'')
                  (pm_Namespace mig) [] []]
          else [])"

definition EvaluateI4 :: "kubelib \<Rightarrow> time \<Rightarrow> reconcileSnapshot \<Rightarrow> violation list" where
  "EvaluateI4 K wall s =
     concat (map (I4_job K (snapshotTime wall s)) (allPMJs s)) @
     (case rs_PrimaryMigration s of None \<Rightarrow> [] | Some mig \<Rightarrow> I4_migration K (snapshotTime wall s) mig)"

subsection \<open>I5: no trigger is left behind\<close>

definition EvaluateI5 :: "reconcileSnapshot \<Rightarrow> violation list" where
  "EvaluateI5 s =
     (case rs_PrimaryPMJ s of
        None \<Rightarrow> []
      | Some job \<Rightarrow>
          if rs_HasOrphanedTrigger s \<and> (st_Phase (pmj_Status job) = PhaseSucceeded \<or> st_Phase (pmj_Status job) = PhaseFailed)
          then [violationOf ''I5'' ''ZeroResourceLeak'' ''OrphanedManualTriggerOnTerminalPMJ''
                  (''terminal PMJ '' @ jobRef job @ '' (phase='' @ phase_string (st_Phase (pmj_Status job)) @ '') still owns an uncleaned PodSnapshotManualTrigger'')
                  (pmj_Namespace job) (pmj_Name job) []]
          else [])"

subsection \<open>I6: a replacement is of the job's revision and parent\<close>

definition labelMismatch :: "pmj \<Rightarrow> pod \<Rightarrow> string \<Rightarrow> string \<Rightarrow> string \<Rightarrow> string \<Rightarrow> violation list" where
  "labelMismatch job p jobLabel podLabel reason what =
     (let expected = mget (pmj_Labels job) jobLabel; actual = mget (pod_Labels p) podLabel in
      if expected \<noteq> [] \<and> actual \<noteq> [] \<and> actual \<noteq> expected
      then [violationOf ''I6'' ''RevisionAndIdentityFidelity'' reason
              (''PMJ '' @ jobRef job @ '' expects '' @ what @ '' '' @ quoted expected @ '' but replacement pod '' @ pod_Name p @ '' has '' @ quoted actual)
              (pmj_Namespace job) (pmj_Name job) (pod_Name p)]
      else [])"

definition parentMismatch :: "pmj \<Rightarrow> pod \<Rightarrow> owner_ref \<Rightarrow> violation list" where
  "parentMismatch job p ref =
     (let expectedUID = mget (pmj_Labels job) LabelParentUID; expectedKind = mget (pmj_Labels job) LabelParentKind in
      if expectedUID \<noteq> [] \<and> or_Controller ref = Some True \<and> or_UID ref \<noteq> [] \<and>
         (expectedKind = [] \<or> or_Kind ref = expectedKind) \<and> or_UID ref \<noteq> expectedUID
      then [violationOf ''I6'' ''RevisionAndIdentityFidelity'' ''ParentControllerUIDMismatch''
              (''PMJ '' @ jobRef job @ '' expects parent controller UID '' @ quoted expectedUID @ '' but replacement pod '' @ pod_Name p @
               '' is owned by UID '' @ quoted (or_UID ref))
              (pmj_Namespace job) (pmj_Name job) (pod_Name p)]
      else [])"

definition I6_job :: "reconcileSnapshot \<Rightarrow> pmj \<Rightarrow> violation list" where
  "I6_job s job =
     (if st_RestoredPodName (pmj_Status job) = [] then []
      else case byKey podRef (allPods s) (pmj_Namespace job @ ''/'' @ st_RestoredPodName (pmj_Status job)) of
             None \<Rightarrow> []
           | Some p \<Rightarrow>
               labelMismatch job p LabelPodTemplateHash DefaultDeploymentUniqueLabelKey ''PodTemplateHashMismatch'' ''pod-template-hash'' @
               labelMismatch job p LabelControllerRevisionHash LabelControllerRevisionHash ''ControllerRevisionHashMismatch'' ''controller-revision-hash'' @
               labelMismatch job p LabelJobCompletionIndex LabelJobCompletionIndex ''JobCompletionIndexMismatch'' ''job-completion-index'' @
               concat (map (parentMismatch job p) (pod_OwnerReferences p)))"

definition EvaluateI6 :: "reconcileSnapshot \<Rightarrow> violation list" where
  "EvaluateI6 s = concat (map (I6_job s) (allPMJs s))"

subsection \<open>I7: the source is evicted before the restore\<close>

definition originRunning :: "pmj \<Rightarrow> pod \<Rightarrow> bool" where
  "originRunning job p = (pod_Namespace p = pmj_Namespace job \<and> pod_UID p = pmj_TargetPodUID job \<and> pod_DeletionTimestamp p = None)"

definition I7_job :: "reconcileSnapshot \<Rightarrow> pmj \<Rightarrow> violation list" where
  "I7_job s job =
     (let ph = st_Phase (pmj_Status job) in
      if ph \<noteq> PhaseRestoring \<and> ph \<noteq> PhaseSucceeded then []
      else
        (if condTrueOf job ConditionBlockedByPDB \<or> condTrueOf job ConditionEvictionMisconfigured
         then [violationOf ''I7'' ''DisruptionBoundingPDBCompliance'' ''EvictionBypassedWhileBlockedByPDB''
                 (''PMJ '' @ jobRef job @ '' advanced to phase '' @ quoted (phase_string ph) @ '' while eviction blockage condition remains True'')
                 (pmj_Namespace job) (pmj_Name job) (pmj_PodRefName job)]
         else []) @
        (if pmj_TargetPodUID job = [] then []
         else map (\<lambda>p. violationOf ''I7'' ''DisruptionBoundingPDBCompliance'' ''OriginPodStillRunningInRestoringPhase''
                 (''PMJ '' @ jobRef job @ '' advanced to phase '' @ quoted (phase_string ph) @ '' while origin pod '' @ pod_Name p @ '' (UID '' @
                  quoted (pod_UID p) @ '') is still running without eviction'')
                 (pmj_Namespace job) (pmj_Name job) (pod_Name p))
              (filter (originRunning job) (allPods s))))"

definition EvaluateI7 :: "reconcileSnapshot \<Rightarrow> violation list" where
  "EvaluateI7 s = concat (map (I7_job s) (allPMJs s))"

subsection \<open>I8: system namespaces are left alone\<close>

definition isSystemExcludedNamespace :: "string \<Rightarrow> bool" where
  "isSystemExcludedNamespace ns = (ns = ''kube-system'' \<or> ns = ''pod-migration-system'' \<or> hasPrefix ns ''gke-managed-'')"

definition EvaluateI8 :: "reconcileSnapshot \<Rightarrow> violation list" where
  "EvaluateI8 s =
     map (\<lambda>p. violationOf ''I8'' ''PlatformAndControlPlaneIsolation'' ''SystemNamespacePodGated''
            (''system-namespace pod '' @ podRef p @ '' carries LPM scheduling gate '' @ quoted MigrationGateName) (pod_Namespace p) [] (pod_Name p))
       (filter (\<lambda>p. isSystemExcludedNamespace (pod_Namespace p) \<and> podHasMigrationGate p) (allPods s)) @
     map (\<lambda>job. violationOf ''I8'' ''PlatformAndControlPlaneIsolation'' ''SystemNamespacePMJCreated''
            (''PodMigrationJob '' @ jobRef job @ '' was created in excluded system namespace '' @ quoted (pmj_Namespace job)) (pmj_Namespace job) (pmj_Name job) [])
       (filter (\<lambda>job. isSystemExcludedNamespace (pmj_Namespace job)) (allPMJs s))"

subsection \<open>I9: a crashed restore falls back\<close>

definition crashMatched :: "reconcileSnapshot \<Rightarrow> pmj \<Rightarrow> bool" where
  "crashMatched s job =
     (condTrueOf job ConditionRestoreCrashed \<or>
      rs_RestoreCrashSignatureMatched s \<and> (case rs_PrimaryPMJ s of None \<Rightarrow> False | Some j \<Rightarrow> pmj_Name j = pmj_Name job) \<or>
      st_RestoredPodName (pmj_Status job) \<noteq> [] \<and>
        (case byKey podRef (allPods s) (pmj_Namespace job @ ''/'' @ st_RestoredPodName (pmj_Status job)) of
           None \<Rightarrow> False
         | Some p \<Rightarrow> (st_RestoredPodUID (pmj_Status job) = [] \<or> pod_UID p = st_RestoredPodUID (pmj_Status job)) \<and>
             f_Class (Classify p DefaultEngines) = FailureFatal))"

definition EvaluateI9 :: "reconcileSnapshot \<Rightarrow> violation list" where
  "EvaluateI9 s =
     map (\<lambda>job. violationOf ''I9'' ''DeterministicFallbackOverCrashloop'' ''RestoreCrashDidNotTriggerFallback''
            (''PMJ '' @ jobRef job @ '' matched a container restore-crash signature but remained in phase '' @ quoted (phase_string (st_Phase (pmj_Status job))) @
             '' instead of failing over to cold start'')
            (pmj_Namespace job) (pmj_Name job) (st_RestoredPodName (pmj_Status job)))
       (filter (\<lambda>job. crashMatched s job \<and>
          (st_Phase (pmj_Status job) = PhaseRestoring \<or> st_Phase (pmj_Status job) = PhaseSucceeded)) (allPMJs s))"

subsection \<open>I10: a restoring job has its replacement\<close>

definition isReplacement :: "pmj \<Rightarrow> pod \<Rightarrow> bool" where
  "isReplacement job p =
     ((pod_Namespace p = [] \<or> pmj_Namespace job = [] \<or> pod_Namespace p = pmj_Namespace job) \<and>
      pod_Name p = st_RestoredPodName (pmj_Status job) \<and> pod_DeletionTimestamp p = None)"

definition EvaluateI10 :: "reconcileSnapshot \<Rightarrow> violation list" where
  "EvaluateI10 s =
     (case rs_PrimaryPMJ s of
        None \<Rightarrow> []
      | Some job \<Rightarrow>
          (case st_RestoringStartTime (pmj_Status job) of
             None \<Rightarrow> []
           | Some t \<Rightarrow>
               if \<not> rs_PodListFailed s \<and> (rs_Reconciler s = [] \<or> rs_Reconciler s = ''PodMigrationJobReconciler'') \<and>
                  st_Phase (pmj_Status job) = PhaseRestoring \<and> st_RestoredPodName (pmj_Status job) \<noteq> [] \<and>
                  rs_Now s \<noteq> zero_time \<and> time_sub (rs_Now s) t \<ge> 30 * second \<and>
                  \<not> list_ex (isReplacement job) (rs_NamespacePods s) \<and>
                  \<not> (case rs_PrimaryPod s of None \<Rightarrow> False | Some p \<Rightarrow> isReplacement job p)
               then [violationOf ''I10'' ''RestoringReplacementLiveness'' ''RestoringReplacementPodMissing''
                       (''PMJ '' @ jobRef job @ '' remained in PhaseRestoring >=30s while replacement pod '' @
                        quoted (st_RestoredPodName (pmj_Status job)) @ '' is missing or deleting'')
                       (pmj_Namespace job) (pmj_Name job) (st_RestoredPodName (pmj_Status job))]
               else []))"

subsection \<open>I11: a fenced source looks fenced\<close>

definition isSourcePodForPMJ :: "pod \<Rightarrow> pmj \<Rightarrow> bool" where
  "isSourcePodForPMJ p job =
     (if pod_Namespace p \<noteq> [] \<and> pmj_Namespace job \<noteq> [] \<and> pod_Namespace p \<noteq> pmj_Namespace job then False
      else if st_RestoredPodUID (pmj_Status job) \<noteq> [] \<and> pod_UID p \<noteq> [] \<and> pod_UID p = st_RestoredPodUID (pmj_Status job) then False
      else if pmj_TargetPodUID job \<noteq> [] \<and> pod_UID p \<noteq> [] then
        pod_UID p = pmj_TargetPodUID job \<and> \<not> (pmj_PodRefName job \<noteq> [] \<and> pod_Name p \<noteq> [] \<and> pod_Name p \<noteq> pmj_PodRefName job)
      else pmj_PodRefName job \<noteq> [] \<and> pod_Name p = pmj_PodRefName job)"

definition fenceLabelViolation :: "pmj \<Rightarrow> pod \<Rightarrow> violation list" where
  "fenceLabelViolation job p =
     (let fencedLabel = mget (pod_Labels p) LabelFenced in
      if fencedLabel \<noteq> ''true''
      then [violationOf ''I11'' ''SourceFencedAfterCheckpoint'' ''SourcePodMissingFenceLabel''
              (''PMJ '' @ jobRef job @ '' has '' @ ConditionSourceFenced @ ''=True, but source pod '' @ pod_Name p @ '' has label '' @ LabelFenced @ ''='' @
               quoted fencedLabel @ '' (want '' @ quoted ''true'' @ '')'')
              (pmj_Namespace job) (pmj_Name job) (pod_Name p)]
      else [])"

definition fenceReadyViolation :: "pmj \<Rightarrow> pod \<Rightarrow> violation list" where
  "fenceReadyViolation job p =
     (let readyCond = find (\<lambda>c. c_Type c = ConditionReady) (pod_Conditions p);
          message = (\<lambda>actualStatus actualReason.
            ''PMJ '' @ jobRef job @ '' has '' @ ConditionSourceFenced @ ''=True, but source pod '' @ pod_Name p @ '' has Ready='' @ actualStatus @
            '' (reason='' @ quoted actualReason @ '', want False/'' @ ReasonPodMigrationFenced @ '')'')
      in case readyCond of
           Some c \<Rightarrow>
             if c_Status c \<noteq> CondFalse \<or> c_Reason c \<noteq> ReasonPodMigrationFenced
             then [violationOf ''I11'' ''SourceFencedAfterCheckpoint'' ''SourcePodReadyNotFenced'' (message (condStatusString (c_Status c)) (c_Reason c))
                     (pmj_Namespace job) (pmj_Name job) (pod_Name p)]
             else []
         | None \<Rightarrow> [violationOf ''I11'' ''SourceFencedAfterCheckpoint'' ''SourcePodReadyNotFenced'' (message ''absent'' [])
                     (pmj_Namespace job) (pmj_Name job) (pod_Name p)])"

text \<open>The fence of the job counts, and has been up for longer than the cache lags.\<close>

definition fenceInForce :: "time \<Rightarrow> pmj \<Rightarrow> bool" where
  "fenceInForce now job =
     (\<not> IsTerminalPhase (st_Phase (pmj_Status job)) \<and>
      (case FindStatusCondition (st_Conditions (pmj_Status job)) ConditionSourceFenced of
         None \<Rightarrow> False
       | Some c \<Rightarrow> c_Status c = CondTrue \<and>
           \<not> (c_LastTransitionTime c \<noteq> zero_time \<and> time_sub now (c_LastTransitionTime c) < SourceFencedGraceWindow)))"

definition I11_job :: "time \<Rightarrow> reconcileSnapshot \<Rightarrow> pmj \<Rightarrow> violation list" where
  "I11_job now s job =
     (if \<not> fenceInForce now job then []
      else concat (map (\<lambda>p. fenceLabelViolation job p @ fenceReadyViolation job p) (filter (\<lambda>p. isSourcePodForPMJ p job) (allPods s))))"

definition EvaluateI11 :: "time \<Rightarrow> reconcileSnapshot \<Rightarrow> violation list" where
  "EvaluateI11 wall s = concat (map (I11_job (snapshotTime wall s) s) (allPMJs s))"

subsection \<open>I12: a restore is confirmed\<close>

text \<open>What follows the first occurrence of a marker.\<close>

fun afterMarker :: "string \<Rightarrow> string \<Rightarrow> string option" where
  "afterMarker marker [] = (if marker = [] then Some [] else None)"
| "afterMarker marker (c # cs) = (if hasPrefix (c # cs) marker then Some (drop (length marker) (c # cs)) else afterMarker marker cs)"

definition hasConfirmedRestoreEvidence :: "string \<Rightarrow> string \<Rightarrow> bool" where
  "hasConfirmedRestoreEvidence engName msg =
     (if engName = [] \<or> engName = DefaultEngineName then False
      else case afterMarker (''engine '' @ engName @ '' confirmed the restore: '') msg of
             None \<Rightarrow> False
           | Some rest \<Rightarrow> trimSpace rest \<noteq> [])"

text \<open>A condition that is absent, or True with this reason.\<close>

definition absentOrTrue :: "string \<Rightarrow> condition option \<Rightarrow> bool" where
  "absentOrTrue reason c = (case c of None \<Rightarrow> True | Some x \<Rightarrow> c_Status x = CondTrue \<and> c_Reason x = reason)"

definition hasReason :: "string \<Rightarrow> condition option \<Rightarrow> bool" where
  "hasReason reason c = (case c of None \<Rightarrow> False | Some x \<Rightarrow> c_Reason x = reason)"

definition trueWith :: "string \<Rightarrow> condition option \<Rightarrow> bool" where
  "trueWith reason c = (case c of None \<Rightarrow> False | Some x \<Rightarrow> c_Status x = CondTrue \<and> c_Reason x = reason)"

definition confirmedIn :: "string \<Rightarrow> condition option \<Rightarrow> bool" where
  "confirmedIn engName c = (case c of None \<Rightarrow> False | Some x \<Rightarrow> hasConfirmedRestoreEvidence engName (c_Message x))"

text \<open>Jobs that an older controller concluded are left alone.\<close>

definition grandfathered :: "pmj \<Rightarrow> condition option \<Rightarrow> bool" where
  "grandfathered job restoredCond =
     (st_Phase (pmj_Status job) = PhaseSucceeded \<and> trueWith ReasonRestoreVerified restoredCond \<and>
      trimSpace (mget (pmj_Annotations job) AnnotationEngine) = [] \<and> \<not> confirmedIn (effectiveJobEngineName job) restoredCond)"

definition validVerdict :: "condition option \<Rightarrow> condition \<Rightarrow> bool" where
  "validVerdict readyCond c =
     (c_Status c = CondTrue \<and> (c_Reason c = ReasonRestoreVerified \<or> c_Reason c = ReasonRestoreInferred) \<and> absentOrTrue (c_Reason c) readyCond)"

definition I12_job :: "pmj \<Rightarrow> violation list" where
  "I12_job job =
     (let engName = effectiveJobEngineName job;
          restoredCond = FindStatusCondition (st_Conditions (pmj_Status job)) ConditionRestored;
          readyCond = FindStatusCondition (st_Conditions (pmj_Status job)) ConditionReady;
          ph = st_Phase (pmj_Status job);
          violate = (\<lambda>reason msg. violationOf ''I12'' ''RestoreOutcomeConfirmed'' reason msg (pmj_Namespace job) (pmj_Name job) (st_RestoredPodName (pmj_Status job)))
      in if grandfathered job restoredCond then []
         else
           (case restoredCond of
              Some c \<Rightarrow>
                if ph \<noteq> PhaseSucceeded \<and> c_Status c = CondTrue
                then [violate ''NonSucceededJobMarkedRestored''
                        (''NonSucceededJobMarkedRestored: PMJ '' @ jobRef job @ '' has phase '' @ quoted (phase_string ph) @ '' (not Succeeded) but condition '' @
                         ConditionRestored @ ''=True (reason='' @ quoted (c_Reason c) @ '')'')]
                else []
            | None \<Rightarrow> []) @
           (if hasReason ReasonRestoreVerified restoredCond \<or> hasReason ReasonRestoreVerified readyCond then
              if trueWith ReasonRestoreVerified restoredCond \<and> confirmedIn engName restoredCond \<and> absentOrTrue ReasonRestoreVerified readyCond then []
              else [violate ''UnconfirmedRestoreMarkedVerified''
                      (''PMJ '' @ jobRef job @ '' (engine '' @ quoted engName @ '') claims reason='' @ ReasonRestoreVerified @
                       '' without positive engine restore confirmation'')]
            else (case restoredCond of
                    Some c \<Rightarrow>
                      if ph = PhaseSucceeded \<and> \<not> validVerdict readyCond c
                      then [violate ''SucceededWithInvalidRestoreVerdict''
                              (''PMJ '' @ jobRef job @ '' is Succeeded with invalid '' @ ConditionRestored @ '' condition (status='' @
                               quoted (condStatusString (c_Status c)) @ '', reason='' @ quoted (c_Reason c) @ '')'')]
                      else []
                  | None \<Rightarrow> [])))"

definition EvaluateI12 :: "reconcileSnapshot \<Rightarrow> violation list" where
  "EvaluateI12 s = concat (map I12_job (allPMJs s))"

subsection \<open>The rules\<close>

record rule =
  ru_ID :: string
  ru_Name :: string
  ru_Evaluate :: "time \<Rightarrow> reconcileSnapshot \<Rightarrow> violation list"
  ru_Debounce :: "(int \<times> duration) option"

definition funcRule :: "string \<Rightarrow> string \<Rightarrow> (time \<Rightarrow> reconcileSnapshot \<Rightarrow> violation list) \<Rightarrow> rule" where
  "funcRule ident name fn = \<lparr>ru_ID = ident, ru_Name = name, ru_Evaluate = fn, ru_Debounce = None\<rparr>"

definition NewDebouncedRule :: "rule \<Rightarrow> int \<Rightarrow> duration \<Rightarrow> rule" where
  "NewDebouncedRule r consecutive minDuration = r\<lparr>ru_Debounce := Some (max 1 consecutive, max 0 minDuration)\<rparr>"

definition RuleI10 :: rule where
  "RuleI10 = funcRule ''I10'' ''RestoringReplacementLiveness'' (\<lambda>_. EvaluateI10)"

definition RuleI11 :: rule where
  "RuleI11 = funcRule ''I11'' ''SourceFencedAfterCheckpoint'' EvaluateI11"

definition RuleI12 :: rule where
  "RuleI12 = funcRule ''I12'' ''RestoreOutcomeConfirmed'' (\<lambda>_. EvaluateI12)"

definition DefaultRules :: "kubelib \<Rightarrow> rule list" where
  "DefaultRules K =
     [funcRule ''I1'' ''AtMostOnceRestore'' (\<lambda>_. EvaluateI1),
      funcRule ''I2'' ''NoSilentColdStart'' (\<lambda>_. EvaluateI2),
      funcRule ''I3'' ''GateLiveness'' EvaluateI3,
      funcRule ''I4'' ''TerminalProgress'' (EvaluateI4 K),
      funcRule ''I5'' ''ZeroResourceLeak'' (\<lambda>_. EvaluateI5),
      funcRule ''I6'' ''RevisionAndIdentityFidelity'' (\<lambda>_. EvaluateI6),
      funcRule ''I7'' ''DisruptionBoundingPDBCompliance'' (\<lambda>_. EvaluateI7),
      funcRule ''I8'' ''PlatformAndControlPlaneIsolation'' (\<lambda>_. EvaluateI8),
      funcRule ''I9'' ''DeterministicFallbackOverCrashloop'' (\<lambda>_. EvaluateI9),
      NewDebouncedRule RuleI10 3 (30 * second),
      NewDebouncedRule RuleI11 3 (30 * second),
      RuleI12]"

text \<open>What I1 is about: two pods bound to one snapshot are the same pod, and no other pod than the recorded one is bound to a spent snapshot.\<close>

definition atMostOnce :: "reconcileSnapshot \<Rightarrow> bool" where
  "atMostOnce s \<longleftrightarrow>
     (\<forall>p \<in> set (allPods s). \<forall>q \<in> set (allPods s). boundSnapshot s p \<noteq> None \<and> boundSnapshot s p = boundSnapshot s q \<longrightarrow> podID p = podID q) \<and>
     (\<forall>job \<in> set (allPMJs s). spent job \<longrightarrow> (\<forall>p \<in> set (allPods s). \<not> rebound s job p))"

section \<open>Lemmas\<close>

text \<open>The pods agree with the consumers recorded so far, and with each other.\<close>

definition agreeWith :: "reconcileSnapshot \<Rightarrow> strmap \<Rightarrow> pod list \<Rightarrow> bool" where
  "agreeWith s consumers ps \<longleftrightarrow> (\<forall>p \<in> set ps. \<forall>snap prev. boundSnapshot s p = Some snap \<longrightarrow> consumers snap = Some prev \<longrightarrow> prev = podID p)"

definition agree :: "reconcileSnapshot \<Rightarrow> pod list \<Rightarrow> bool" where
  "agree s ps \<longleftrightarrow> (\<forall>p \<in> set ps. \<forall>q \<in> set ps. \<forall>snap. boundSnapshot s p = Some snap \<longrightarrow> boundSnapshot s q = Some snap \<longrightarrow> podID p = podID q)"

lemma agreeD:
  "agree s ps \<Longrightarrow> p \<in> set ps \<Longrightarrow> q \<in> set ps \<Longrightarrow> boundSnapshot s p = Some snap \<Longrightarrow> boundSnapshot s q = Some snap \<Longrightarrow> podID p = podID q"
  "agreeWith s consumers ps \<Longrightarrow> p \<in> set ps \<Longrightarrow> boundSnapshot s p = Some snap \<Longrightarrow> consumers snap = Some prev \<Longrightarrow> prev = podID p"
  unfolding agree_def agreeWith_def by blast+

lemma agreeI:
  "(\<And>p q snap. p \<in> set ps \<Longrightarrow> q \<in> set ps \<Longrightarrow> boundSnapshot s p = Some snap \<Longrightarrow> boundSnapshot s q = Some snap \<Longrightarrow> podID p = podID q) \<Longrightarrow> agree s ps"
  "(\<And>p snap prev. p \<in> set ps \<Longrightarrow> boundSnapshot s p = Some snap \<Longrightarrow> consumers snap = Some prev \<Longrightarrow> prev = podID p) \<Longrightarrow> agreeWith s consumers ps"
  unfolding agree_def agreeWith_def by blast+

lemma agree_Cons:
  assumes p: "boundSnapshot s p = Some snap"
  shows "agreeWith s consumers (p # ps) \<and> agree s (p # ps) \<longleftrightarrow>
    (\<forall>prev. consumers snap = Some prev \<longrightarrow> prev = podID p) \<and> agreeWith s (consumers(snap \<mapsto> podID p)) ps \<and> agree s ps"
    (is "?l \<longleftrightarrow> ?now \<and> ?with \<and> ?rest")
proof
  assume l: ?l
  have ?with
  proof (rule agreeI)
    fix q sn prev assume q: "q \<in> set ps" "boundSnapshot s q = Some sn" "(consumers(snap \<mapsto> podID p)) sn = Some prev"
    show "prev = podID q"
    proof (cases "sn = snap")
      case True
      with q agreeD(1) [OF conjunct2 [OF l], of p q snap] p show ?thesis by simp
    next
      case False
      with q agreeD(2) [OF conjunct1 [OF l], of q sn prev] show ?thesis by simp
    qed
  qed
  moreover have ?rest using l unfolding agree_def by (meson list.set_intros(2))
  moreover have ?now using agreeD(2) [OF conjunct1 [OF l] _ p] by (meson list.set_intros(1))
  ultimately show "?now \<and> ?with \<and> ?rest" by blast
next
  assume r: "?now \<and> ?with \<and> ?rest"
  have same: "podID p = podID q" if "q \<in> set ps" "boundSnapshot s q = Some snap" for q
    using agreeD(2) [of s "consumers(snap \<mapsto> podID p)" ps q snap "podID p"] r that by simp
  have old: "prev = podID q" if "q \<in> set ps" "boundSnapshot s q = Some sn" "consumers sn = Some prev" for q sn prev
  proof (cases "sn = snap")
    case True
    with r that same [of q] show ?thesis by metis
  next
    case False
    with agreeD(2) [of s "consumers(snap \<mapsto> podID p)" ps q sn prev] r that show ?thesis by simp
  qed
  have "agreeWith s consumers (p # ps)"
    by (rule agreeI) (use r p old in \<open>metis set_ConsD option.inject\<close>)
  moreover have "agree s (p # ps)"
    by (rule agreeI) (use p same agreeD(1) [of s ps] r in \<open>metis set_ConsD option.inject\<close>)
  ultimately show ?l by blast
qed

lemma duplicateConsumers_silent: "duplicateConsumers s consumers ps = [] \<longleftrightarrow> agreeWith s consumers ps \<and> agree s ps"
proof (induction ps arbitrary: consumers)
  case (Cons p ps)
  show ?case
  proof (cases "boundSnapshot s p")
    case None
    then have "agreeWith s consumers (p # ps) = agreeWith s consumers ps" "agree s (p # ps) = agree s ps"
      unfolding agreeWith_def agree_def by (metis list.set_intros(2) option.distinct(1) set_ConsD)+
    with None Cons show ?thesis by simp
  next
    case (Some snap)
    then have "duplicateConsumers s consumers (p # ps) = [] \<longleftrightarrow>
        (\<forall>prev. consumers snap = Some prev \<longrightarrow> prev = podID p) \<and> duplicateConsumers s (consumers(snap \<mapsto> podID p)) ps = []"
      by (simp split: option.split)
    with agree_Cons [OF Some, of consumers ps] Cons show ?thesis by metis
  qed
qed (simp add: agreeWith_def agree_def)

text \<open>
  C12 (equivalence). The single pass of rule I1 over the pods, with its map from snapshots to
  consumers, finds nothing exactly when the snapshots of the namespace are each bound to at most
  one pod, and those of jobs whose gate is released to no pod but the recorded one.
\<close>

theorem at_most_once_rule: "EvaluateI1 s = [] \<longleftrightarrow> atMostOnce s"
proof -
  have "agreeWith s Map.empty (allPods s)" by (simp add: agreeWith_def)
  moreover have "concat (map (\<lambda>job. if spent job then map (reboundViolation job) (filter (rebound s job) (allPods s)) else []) (allPMJs s)) = [] \<longleftrightarrow>
      (\<forall>job \<in> set (allPMJs s). spent job \<longrightarrow> (\<forall>p \<in> set (allPods s). \<not> rebound s job p))"
    by (simp only: concat_eq_Nil_conv set_map ball_simps) (simp add: filter_empty_conv)
  moreover have "agree s (allPods s) \<longleftrightarrow>
      (\<forall>p \<in> set (allPods s). \<forall>q \<in> set (allPods s). boundSnapshot s p \<noteq> None \<and> boundSnapshot s p = boundSnapshot s q \<longrightarrow> podID p = podID q)"
    unfolding agree_def by (metis not_None_eq)
  ultimately show ?thesis by (simp only: EvaluateI1_def atMostOnce_def duplicateConsumers_silent append_is_Nil_conv simp_thms)
qed

end
