(* ===== verification/Guard.thy ===== *)
theory Guard
  imports Rules Scenario "HOL-Library.AList" "HOL-Library.Code_Target_Nat"
begin

text \<open>
  The invariant engine (\<open>invariants/engine.go\<close>): it runs the rules over a snapshot, reports each
  violation once, and in strict mode decides whether the job has to be failed. A debounced rule
  counts only after several consecutive samples of the same subject.

  \<^item> \<open>guard\<close> is \<open>Engine\<close>. The two maps whose size matters are association lists, the others are
    maps. The key that a full map gives up is whatever Go's iteration yields first: the argument
    \<open>gd_First\<close>.
  \<^item> \<open>Evaluate\<close> is the pure part of \<open>Evaluate\<close>: the violations, the verdict, the violations to
    report and the new state. \<open>reportViolations\<close> makes the events of it.
  \<^item> \<open>streak\<close> is the abstract counter: the violating samples of a subject since its last clean one,
    where a sample taken while a list call failed says nothing.
\<close>

section \<open>Definitions\<close>

subsection \<open>Modes\<close>

type_synonym mode = string

definition ModeDisabled :: mode where
  [const_defs]: "ModeDisabled = ''disabled''"
definition ModeObserve :: mode where
  [const_defs]: "ModeObserve = ''observe''"
definition ModeStrict :: mode where
  [const_defs]: "ModeStrict = ''strict''"

definition ParseMode :: "string \<Rightarrow> string + mode" where
  "ParseMode raw =
     (let m = toLower (trimSpace raw) in
      if m = [] \<or> m = ModeDisabled then Inr ModeDisabled
      else if m = ModeObserve then Inr ModeObserve
      else if m = ModeStrict then Inr ModeStrict
      else Inl (''invalid invariant mode '' @ quoted raw @ '' (expected disabled, observe, or strict)''))"

subsection \<open>The engine\<close>

definition EventReasonInvariantViolation :: string where
  [const_defs]: "EventReasonInvariantViolation = ''InvariantViolation''"

definition maxActiveViolationScopes :: nat where
  "maxActiveViolationScopes = 4096"

record guard =
  gd_Mode :: mode
  gd_Rules :: "rule list"
  gd_Recorder :: bool
  gd_First :: "string list \<Rightarrow> string"
  gd_Active :: "(string \<times> strmap) list"
  gd_Counts :: "(string \<times> (string \<rightharpoonup> int)) list"
  gd_FirstSeen :: "string \<rightharpoonup> (string \<rightharpoonup> time)"
  gd_Escalated :: "string \<rightharpoonup> (string \<rightharpoonup> bool)"

definition NewEngine :: "kubelib \<Rightarrow> (string list \<Rightarrow> string) \<Rightarrow> mode \<Rightarrow> bool \<Rightarrow> guard" where
  "NewEngine K first m recorder = \<lparr>gd_Mode = (if m = [] then ModeDisabled else m), gd_Rules = DefaultRules K, gd_Recorder = recorder, gd_First = first,
     gd_Active = [], gd_Counts = [], gd_FirstSeen = Map.empty, gd_Escalated = Map.empty\<rparr>"

definition Enabled :: "guard \<Rightarrow> bool" where
  "Enabled g = (gd_Mode g \<noteq> [] \<and> gd_Mode g \<noteq> ModeDisabled)"

definition dropSubject :: "string \<Rightarrow> guard \<Rightarrow> guard" where
  "dropSubject k g = g\<lparr>gd_Counts := AList.delete k (gd_Counts g), gd_FirstSeen := (gd_FirstSeen g)(k := None), gd_Escalated := (gd_Escalated g)(k := None)\<rparr>"

definition inScope :: "string \<Rightarrow> string \<Rightarrow> bool" where
  "inScope scopeKey k = (k = scopeKey \<or> hasPrefix k (scopeKey @ ''/''))"

definition ForgetObject :: "string \<Rightarrow> string \<Rightarrow> string \<Rightarrow> string \<Rightarrow> guard \<Rightarrow> guard" where
  "ForgetObject reconciler kind namespace name g =
     (let scopeKey = reconciler @ ''/'' @ kind @ ''/'' @ namespace @ ''/'' @ name in g\<lparr>gd_Active := AList.delete scopeKey (gd_Active g),
           gd_Counts := filter (\<lambda>(k, _). \<not> inScope scopeKey k) (gd_Counts g),
           gd_FirstSeen := (\<lambda>k. if inScope scopeKey k then None else gd_FirstSeen g k),
           gd_Escalated := (\<lambda>k. if inScope scopeKey k then None else gd_Escalated g k)\<rparr>)"

definition ResetDeduplication :: "guard \<Rightarrow> guard" where
  "ResetDeduplication g = g\<lparr>gd_Active := [], gd_Counts := [], gd_FirstSeen := Map.empty, gd_Escalated := Map.empty\<rparr>"

definition mapOr :: "'b \<Rightarrow> ('a \<rightharpoonup> 'b) \<Rightarrow> 'a \<Rightarrow> 'b" where
  "mapOr d m k = (case m k of None \<Rightarrow> d | Some v \<Rightarrow> v)"

definition subjectOf :: "(string \<rightharpoonup> ('a \<rightharpoonup> 'b)) \<Rightarrow> string \<Rightarrow> ('a \<rightharpoonup> 'b)" where
  "subjectOf m k = (case m k of None \<Rightarrow> Map.empty | Some v \<Rightarrow> v)"

definition ConsecutiveCount :: "guard \<Rightarrow> string \<Rightarrow> string \<Rightarrow> int" where
  "ConsecutiveCount g subjectKey invariantID = mapOr 0 (subjectOf (map_of (gd_Counts g)) subjectKey) invariantID"

definition FirstSeen :: "guard \<Rightarrow> string \<Rightarrow> string \<Rightarrow> time" where
  "FirstSeen g subjectKey invariantID = mapOr zero_time (subjectOf (gd_FirstSeen g) subjectKey) invariantID"

definition BackdateFirstSeen :: "string \<Rightarrow> string \<Rightarrow> time \<Rightarrow> guard \<Rightarrow> guard" where
  "BackdateFirstSeen subjectKey invariantID t g =
     g\<lparr>gd_FirstSeen := (gd_FirstSeen g)(subjectKey \<mapsto> (subjectOf (gd_FirstSeen g) subjectKey)(invariantID \<mapsto> t))\<rparr>"

subsection \<open>Keys\<close>

definition snapshotScopeKey :: "reconcileSnapshot \<Rightarrow> string" where
  "snapshotScopeKey s =
     (let migKey = (case rs_PrimaryMigration s of
            Some m \<Rightarrow> if pm_Name m \<noteq> [] then rs_Reconciler s @ ''/mig/'' @ pm_Namespace m @ ''/'' @ pm_Name m else rs_Reconciler s @ ''/global''
          | None \<Rightarrow> rs_Reconciler s @ ''/global'');
          podKey = (case rs_PrimaryPod s of
            Some p \<Rightarrow> if pod_Name p \<noteq> [] then rs_Reconciler s @ ''/pod/'' @ pod_Namespace p @ ''/'' @ pod_Name p else migKey
          | None \<Rightarrow> migKey)
      in case rs_PrimaryPMJ s of
           Some j \<Rightarrow> if pmj_Name j \<noteq> [] then rs_Reconciler s @ ''/pmj/'' @ pmj_Namespace j @ ''/'' @ pmj_Name j else podKey
         | None \<Rightarrow> podKey)"

definition subjectUID :: "reconcileSnapshot \<Rightarrow> string" where
  "subjectUID s =
     (let orElse = (\<lambda>u v. if u \<noteq> [] then u else v);
          jobUID = (case rs_PrimaryPMJ s of Some j \<Rightarrow> pmj_UID j | None \<Rightarrow> []);
          podUID = (case rs_PrimaryPod s of Some p \<Rightarrow> pod_UID p | None \<Rightarrow> []);
          migUID = (case rs_PrimaryMigration s of Some m \<Rightarrow> pm_UID m | None \<Rightarrow> [])
      in orElse jobUID (orElse podUID migUID))"

definition debounceSubjectKey :: "reconcileSnapshot \<Rightarrow> string" where
  "debounceSubjectKey s = (if subjectUID s \<noteq> [] then snapshotScopeKey s @ ''/'' @ subjectUID s else snapshotScopeKey s)"

definition violationDedupKey :: "violation \<Rightarrow> string" where
  "violationDedupKey v = vi_InvariantID v @ ''/'' @ vi_Reason v @ ''/'' @ vi_Namespace v @ ''/'' @ vi_PMJName v @ ''/'' @ vi_PodName v"

definition isDegraded :: "reconcileSnapshot \<Rightarrow> bool" where
  "isDegraded s = (rs_PodListFailed s \<or> rs_PMJListFailed s)"

definition primaryTerminal :: "reconcileSnapshot \<Rightarrow> bool" where
  "primaryTerminal s = (case rs_PrimaryPMJ s of None \<Rightarrow> False | Some j \<Rightarrow> IsTerminalPhase (st_Phase (pmj_Status j)))"

subsection \<open>Evaluation\<close>

definition violationThreshold :: "violation \<Rightarrow> rule option \<Rightarrow> int \<times> duration" where
  "violationThreshold v r =
     (let (c0, d0) = (case r of Some ru \<Rightarrow> (case ru_Debounce ru of Some (c, d) \<Rightarrow> (if c > 0 then c else 1, if d > 0 then d else 0) | None \<Rightarrow> (1, 0)) | None \<Rightarrow> (1, 0))
      in (if vi_ConsecutiveRequired v > 0 then vi_ConsecutiveRequired v else c0,
          if vi_DurationRequired v > 0 then vi_DurationRequired v else d0))"

definition rulesOf :: "kubelib \<Rightarrow> guard \<Rightarrow> rule list" where
  "rulesOf K g = (if gd_Rules g = [] then DefaultRules K else gd_Rules g)"

definition ruleByID :: "rule list \<Rightarrow> string \<Rightarrow> rule option" where
  "ruleByID rules = map_of (rev (map (\<lambda>r. (ru_ID r, r)) rules))"

definition runRules :: "rule list \<Rightarrow> time \<Rightarrow> reconcileSnapshot \<Rightarrow> violation list" where
  "runRules rules wall s = concat (map (\<lambda>r. ru_Evaluate r wall s) rules)"

text \<open>A full map gives up the key that the iteration yields first.\<close>

definition makeRoom :: "string \<Rightarrow> string \<Rightarrow> guard \<Rightarrow> guard" where
  "makeRoom scopeKey subjKey g =
     (let g1 = (if map_of (gd_Active g) scopeKey = None \<and> length (gd_Active g) \<ge> maxActiveViolationScopes
                then g\<lparr>gd_Active := AList.delete (gd_First g (map fst (gd_Active g))) (gd_Active g)\<rparr> else g)
      in if map_of (gd_Counts g1) subjKey = None \<and> length (gd_Counts g1) \<ge> maxActiveViolationScopes
         then dropSubject (gd_First g1 (map fst (gd_Counts g1))) g1 else g1)"

definition newlyObserved :: "strmap \<Rightarrow> violation list \<Rightarrow> violation list" where
  "newlyObserved prev vs = filter (\<lambda>v. prev (violationDedupKey v) \<noteq> Some (vi_Message v)) vs"

definition currentSet :: "violation list \<Rightarrow> strmap" where
  "currentSet vs = map_of (rev (map (\<lambda>v. (violationDedupKey v, vi_Message v)) vs))"

text \<open>The local variables of the loop over the violations.\<close>

record tally =
  ta_Fail :: bool
  ta_Counts :: "string \<rightharpoonup> int"
  ta_FirstSeen :: "string \<rightharpoonup> time"
  ta_Escalated :: "string \<rightharpoonup> bool"
  ta_Counted :: "string \<rightharpoonup> int"
  ta_Elapsed :: "string \<rightharpoonup> duration"
  ta_Escalating :: "violation list"

text \<open>The first violation of an invariant in a sample is counted, if the sample is conclusive.\<close>

definition countSample :: "bool \<Rightarrow> time \<Rightarrow> string \<Rightarrow> tally \<Rightarrow> tally" where
  "countSample degraded now ident t =
     (if ta_Counted t ident \<noteq> None then t
      else if \<not> degraded then
        let first = (if mapOr zero_time (ta_FirstSeen t) ident = zero_time then now else mapOr zero_time (ta_FirstSeen t) ident);
            n = mapOr 0 (ta_Counts t) ident + 1
        in t\<lparr>ta_FirstSeen := (ta_FirstSeen t)(ident \<mapsto> first), ta_Counts := (ta_Counts t)(ident \<mapsto> n),
             ta_Counted := (ta_Counted t)(ident \<mapsto> n), ta_Elapsed := (ta_Elapsed t)(ident \<mapsto> time_sub now first)\<rparr>
      else
        let first = mapOr zero_time (ta_FirstSeen t) ident in
        t\<lparr>ta_Counted := (ta_Counted t)(ident \<mapsto> mapOr 0 (ta_Counts t) ident),
          ta_Elapsed := (if first = zero_time then ta_Elapsed t else (ta_Elapsed t)(ident \<mapsto> time_sub now first))\<rparr>)"

definition thresholdMet :: "int \<Rightarrow> duration \<Rightarrow> string \<Rightarrow> tally \<Rightarrow> bool" where
  "thresholdMet thresholdCount minDuration ident t =
     (mapOr 0 (ta_Counted t) ident \<ge> thresholdCount \<and> (minDuration \<le> 0 \<or> mapOr 0 (ta_Elapsed t) ident \<ge> minDuration))"

definition escalate :: "mode \<Rightarrow> violation \<Rightarrow> tally \<Rightarrow> tally" where
  "escalate m v t =
     (let t1 = (if m = ModeStrict then t\<lparr>ta_Fail := True\<rparr> else t) in
      if mapOr False (ta_Escalated t1) (vi_InvariantID v) then t1
      else t1\<lparr>ta_Escalated := (ta_Escalated t1)(vi_InvariantID v \<mapsto> True), ta_Escalating := ta_Escalating t1 @ [v]\<rparr>)"

definition tallyViolation :: "mode \<Rightarrow> bool \<Rightarrow> bool \<Rightarrow> time \<Rightarrow> (string \<Rightarrow> rule option) \<Rightarrow> violation \<Rightarrow> tally \<Rightarrow> tally" where
  "tallyViolation m terminal degraded now rules v t =
     (case violationThreshold v (rules (vi_InvariantID v)) of (thresholdCount, minDuration) \<Rightarrow>
        if thresholdCount \<le> 1 \<and> minDuration \<le> 0 then (if m = ModeStrict then t\<lparr>ta_Fail := True\<rparr> else t)
        else if terminal then t
        else let t1 = countSample degraded now (vi_InvariantID v) t in
             if thresholdMet thresholdCount minDuration (vi_InvariantID v) t1 then escalate m v t1 else t1)"

record evaluation =
  ev_Violations :: "violation list"
  ev_ShouldFail :: bool
  ev_New :: "violation list"
  ev_Escalating :: "violation list"
  ev_Guard :: guard

text \<open>A conclusive sample resets the counters of the invariants that it does not violate.\<close>

definition keepActive :: "bool \<Rightarrow> violation list \<Rightarrow> (string \<rightharpoonup> int) \<Rightarrow> (string \<rightharpoonup> 'b) \<Rightarrow> (string \<rightharpoonup> 'b)" where
  "keepActive degraded vs counts m =
     (if degraded then m else (\<lambda>i. if counts i \<noteq> None \<and> \<not> list_ex (\<lambda>v. vi_InvariantID v = i) vs then None else m i))"

definition startTally :: "bool \<Rightarrow> violation list \<Rightarrow> string \<Rightarrow> guard \<Rightarrow> tally" where
  "startTally degraded vs subjKey g =
     (let counts = subjectOf (map_of (gd_Counts g)) subjKey in
      \<lparr>ta_Fail = False,
       ta_Counts = keepActive degraded vs counts counts,
       ta_FirstSeen = keepActive degraded vs counts (subjectOf (gd_FirstSeen g) subjKey),
       ta_Escalated = keepActive degraded vs counts (subjectOf (gd_Escalated g) subjKey),
       ta_Counted = Map.empty, ta_Elapsed = Map.empty, ta_Escalating = []\<rparr>)"

definition clearTerminal :: "reconcileSnapshot \<Rightarrow> guard \<Rightarrow> guard" where
  "clearTerminal s g = (if primaryTerminal s then dropSubject (debounceSubjectKey s) g else g)"

definition cleanSample :: "reconcileSnapshot \<Rightarrow> guard \<Rightarrow> guard" where
  "cleanSample s g =
     (let g1 = g\<lparr>gd_Active := AList.delete (snapshotScopeKey s) (gd_Active g)\<rparr> in
      if isDegraded s then g1 else dropSubject (debounceSubjectKey s) g1)"

definition violatingSample :: "kubelib \<Rightarrow> time \<Rightarrow> reconcileSnapshot \<Rightarrow> violation list \<Rightarrow> guard \<Rightarrow> evaluation" where
  "violatingSample K now s vs g0 =
     (let scopeKey = snapshotScopeKey s; subjKey = debounceSubjectKey s;
          g = makeRoom scopeKey subjKey g0;
          t = fold (tallyViolation (gd_Mode g) (primaryTerminal s) (isDegraded s) now (ruleByID (rulesOf K g))) vs (startTally (isDegraded s) vs subjKey g)
      in \<lparr>ev_Violations = vs, ev_ShouldFail = ta_Fail t, ev_New = newlyObserved (subjectOf (map_of (gd_Active g)) scopeKey) vs,
          ev_Escalating = ta_Escalating t,
          ev_Guard = g\<lparr>gd_Active := AList.update scopeKey (currentSet vs) (gd_Active g),
            gd_Counts := AList.update subjKey (ta_Counts t) (gd_Counts g),
            gd_FirstSeen := (gd_FirstSeen g)(subjKey \<mapsto> ta_FirstSeen t),
            gd_Escalated := (gd_Escalated g)(subjKey \<mapsto> ta_Escalated t)\<rparr>\<rparr>)"

definition noEvaluation :: "guard \<Rightarrow> evaluation" where
  "noEvaluation g = \<lparr>ev_Violations = [], ev_ShouldFail = False, ev_New = [], ev_Escalating = [], ev_Guard = g\<rparr>"

definition Evaluate :: "kubelib \<Rightarrow> time \<Rightarrow> reconcileSnapshot \<Rightarrow> guard \<Rightarrow> evaluation" where
  "Evaluate K wall s g =
     (if \<not> Enabled g then noEvaluation g
      else let vs = runRules (rulesOf K g) wall s; g1 = clearTerminal s g in
           if vs = [] then noEvaluation (cleanSample s g1) else violatingSample K (snapshotTime wall s) s vs g1)"

subsection \<open>Events\<close>

definition eventOn :: "guard \<Rightarrow> string option \<Rightarrow> unit io" where
  "eventOn g obj =
     (case obj of
        Some name \<Rightarrow> if gd_Recorder g then emitEvent name EventTypeWarning EventReasonInvariantViolation else State_Monad.return ()
      | None \<Rightarrow> State_Monad.return ())"

fun reportNew :: "guard \<Rightarrow> reconcileSnapshot \<Rightarrow> violation list \<Rightarrow> unit io" where
  "reportNew g s [] = State_Monad.return ()"
| "reportNew g s (v # vs) = do {
     eventOn g (map_option pmj_Name (rs_PrimaryPMJ s));
     eventOn g (map_option pod_Name (rs_PrimaryPod s));
     eventOn g (if rs_PrimaryPMJ s = None \<and> rs_PrimaryPod s = None then map_option pm_Name (rs_PrimaryMigration s) else None);
     reportNew g s vs
   }"

fun reportEscalating :: "guard \<Rightarrow> reconcileSnapshot \<Rightarrow> violation list \<Rightarrow> unit io" where
  "reportEscalating g s [] = State_Monad.return ()"
| "reportEscalating g s (v # vs) = do {
     eventOn g (map_option pmj_Name (rs_PrimaryPMJ s));
     reportEscalating g s vs
   }"

definition reportViolations :: "guard \<Rightarrow> reconcileSnapshot \<Rightarrow> evaluation \<Rightarrow> unit io" where
  "reportViolations g s e = do {
     reportNew g s (ev_New e);
     reportEscalating g s (ev_Escalating e)
   }"

subsection \<open>Histories\<close>

text \<open>What may happen to the engine of a running controller, most recent first.\<close>

datatype guardOp = Sample time reconcileSnapshot | Forget string string string string

primrec applyOp :: "kubelib \<Rightarrow> guardOp \<Rightarrow> guard \<Rightarrow> guard" where
  "applyOp K (Sample wall s) g = ev_Guard (Evaluate K wall s g)"
| "applyOp K (Forget reconciler kind namespace name) g = ForgetObject reconciler kind namespace name g"

primrec afterOps :: "kubelib \<Rightarrow> guard \<Rightarrow> guardOp list \<Rightarrow> guard" where
  "afterOps K g [] = g"
| "afterOps K g (x # older) = applyOp K x (afterOps K g older)"

definition violates :: "rule list \<Rightarrow> time \<Rightarrow> reconcileSnapshot \<Rightarrow> string \<Rightarrow> bool" where
  "violates rules wall s ident = list_ex (\<lambda>v. vi_InvariantID v = ident) (runRules rules wall s)"

text \<open>The times of the violating samples of a subject since its last clean one.\<close>

fun streak :: "rule list \<Rightarrow> string \<Rightarrow> string \<Rightarrow> guardOp list \<Rightarrow> time list" where
  "streak rules subj ident [] = []"
| "streak rules subj ident (Sample wall s # older) =
     (if debounceSubjectKey s \<noteq> subj \<or> isDegraded s then streak rules subj ident older
      else if violates rules wall s ident then snapshotTime wall s # streak rules subj ident older
      else [])"
| "streak rules subj ident (Forget _ _ _ _ # older) = streak rules subj ident older"

section \<open>Lemmas\<close>

subsection \<open>Maps\<close>

lemma mapOr_simps [simp]:
  "m k = None \<Longrightarrow> mapOr d m k = d" "m k = Some v \<Longrightarrow> mapOr d m k = v" "mapOr d (m(k \<mapsto> v)) k = v" "i \<noteq> k \<Longrightarrow> mapOr d (m(k \<mapsto> v)) i = mapOr d m i"
  by (simp_all add: mapOr_def)

lemma subjectOf_upd [simp]:
  "subjectOf (m(k \<mapsto> v)) k = v" "j \<noteq> k \<Longrightarrow> subjectOf (m(k \<mapsto> v)) j = subjectOf m j" "subjectOf (m(k := None)) k = Map.empty"
  "j \<noteq> k \<Longrightarrow> subjectOf (m(k := None)) j = subjectOf m j" "subjectOf Map.empty j = Map.empty"
  by (simp_all add: subjectOf_def)

lemma subjectOf_restrict [simp]: "subjectOf (\<lambda>k. if P k then None else m k) j = (if P j then Map.empty else subjectOf m j)"
  by (simp add: subjectOf_def)

lemma map_of_filter_key: "map_of (filter (\<lambda>(k, _). \<not> P k) xs) = (\<lambda>k. if P k then None else map_of xs k)"
  by (induction xs) (auto simp: fun_eq_iff)

subsection \<open>The loop\<close>

text \<open>
  What the loop keeps, for the counters \<open>C0\<close> and first sightings \<open>F0\<close> it starts with: an invariant
  is counted at most once, only if it is violated and the sample is conclusive; a first sighting
  is the old one or this sample's.
\<close>

definition tallied :: "violation list \<Rightarrow> bool \<Rightarrow> time \<Rightarrow> tally \<Rightarrow> tally \<Rightarrow> bool" where
  "tallied vs degraded now t0 t \<longleftrightarrow>
     (\<forall>i. ta_Counted t i = None \<longrightarrow> ta_Counts t i = ta_Counts t0 i \<and> ta_FirstSeen t i = ta_FirstSeen t0 i \<and> ta_Elapsed t i = None) \<and>
     (\<forall>i n. ta_Counted t i = Some n \<longrightarrow>
        list_ex (\<lambda>v. vi_InvariantID v = i) vs \<and> n = mapOr 0 (ta_Counts t) i \<and> n \<le> mapOr 0 (ta_Counts t0) i + (if degraded then 0 else 1) \<and>
        (mapOr zero_time (ta_FirstSeen t) i = mapOr zero_time (ta_FirstSeen t0) i \<or> \<not> degraded \<and> mapOr zero_time (ta_FirstSeen t) i = now) \<and>
        (\<forall>e. ta_Elapsed t i = Some e \<longrightarrow> e = time_sub now (mapOr zero_time (ta_FirstSeen t) i) \<and>
           (mapOr zero_time (ta_FirstSeen t) i \<noteq> zero_time \<or> \<not> degraded \<and> mapOr zero_time (ta_FirstSeen t) i = now))) \<and>
     (\<forall>i. (ta_FirstSeen t0 i \<noteq> None \<longrightarrow> ta_Counts t0 i \<noteq> None) \<longrightarrow> ta_FirstSeen t i \<noteq> None \<longrightarrow> ta_Counts t i \<noteq> None)"

lemma tallied_fail: "tallied vs degraded now t0 (t\<lparr>ta_Fail := b\<rparr>) = tallied vs degraded now t0 t"
  by (simp add: tallied_def)

lemma tallied_escalate [simp]: "tallied vs degraded now t0 (escalate m v t) = tallied vs degraded now t0 t"
  by (simp add: tallied_def escalate_def Let_def)

lemma tallied_start: "ta_Counted t0 = Map.empty \<Longrightarrow> ta_Elapsed t0 = Map.empty \<Longrightarrow> tallied vs degraded now t0 t0"
  by (simp add: tallied_def)

lemma tallied_count:
  assumes "tallied vs degraded now t0 t" and "list_ex (\<lambda>v. vi_InvariantID v = i) vs"
  shows "tallied vs degraded now t0 (countSample degraded now i t)"
proof (cases "ta_Counted t i")
  case None
  have old: "ta_Counts t i = ta_Counts t0 i" "ta_FirstSeen t i = ta_FirstSeen t0 i" "ta_Elapsed t i = None"
    using assms(1) None by (simp_all add: tallied_def)
  then have "mapOr 0 (ta_Counts t) i = mapOr 0 (ta_Counts t0) i" "mapOr zero_time (ta_FirstSeen t) i = mapOr zero_time (ta_FirstSeen t0) i"
    by (simp_all add: mapOr_def)
  with None assms old show ?thesis unfolding tallied_def countSample_def Let_def by auto
qed (use assms in \<open>simp add: countSample_def\<close>)

lemma tallied_violation:
  "tallied vs degraded now t0 t \<Longrightarrow> v \<in> set vs \<Longrightarrow> tallied vs degraded now t0 (tallyViolation m terminal degraded now rules v t)"
  by (auto simp: tallyViolation_def tallied_fail Let_def list_ex_iff intro!: tallied_count split: prod.split)

text \<open>Why a sample fails the job: an immediate violation, or one whose threshold is met.\<close>

definition due :: "bool \<Rightarrow> (string \<Rightarrow> rule option) \<Rightarrow> tally \<Rightarrow> violation \<Rightarrow> bool" where
  "due terminal rules t v \<longleftrightarrow>
     (let th = violationThreshold v (rules (vi_InvariantID v)) in
      fst th \<le> 1 \<and> snd th \<le> 0 \<or>
      \<not> terminal \<and> ta_Counted t (vi_InvariantID v) \<noteq> None \<and> thresholdMet (fst th) (snd th) (vi_InvariantID v) t)"

definition failedBy :: "mode \<Rightarrow> bool \<Rightarrow> (string \<Rightarrow> rule option) \<Rightarrow> violation list \<Rightarrow> tally \<Rightarrow> bool" where
  "failedBy m terminal rules vs t \<longleftrightarrow> m = ModeStrict \<and> (\<exists>v \<in> set vs. due terminal rules t v)"

lemma countSample_counted [simp]: "ta_Counted (countSample degraded now i t) i \<noteq> None"
  by (simp add: countSample_def Let_def)

lemma countSample_stable:
  "ta_Counted t i \<noteq> None \<Longrightarrow> ta_Counted (countSample degraded now j t) i = ta_Counted t i \<and> ta_Elapsed (countSample degraded now j t) i = ta_Elapsed t i"
  by (auto simp: countSample_def Let_def)

lemma countSample_Fail [simp]: "ta_Fail (countSample degraded now i t) = ta_Fail t"
  by (simp add: countSample_def Let_def)

lemma escalate_simps [simp]:
  "ta_Counted (escalate m v t) = ta_Counted t" "ta_Elapsed (escalate m v t) = ta_Elapsed t" "ta_Fail (escalate m v t) = (ta_Fail t \<or> m = ModeStrict)"
  by (simp_all add: escalate_def Let_def)

lemma tallyViolation_stable:
  "ta_Counted t i \<noteq> None \<Longrightarrow> ta_Counted (tallyViolation m terminal degraded now rules v t) i = ta_Counted t i \<and>
     ta_Elapsed (tallyViolation m terminal degraded now rules v t) i = ta_Elapsed t i"
  using countSample_stable [of t i degraded now "vi_InvariantID v"] by (auto simp: tallyViolation_def Let_def split: prod.split)

lemma thresholdMet_cong: "ta_Counted t i = ta_Counted u i \<Longrightarrow> ta_Elapsed t i = ta_Elapsed u i \<Longrightarrow> thresholdMet c d i t = thresholdMet c d i u"
  by (simp add: thresholdMet_def mapOr_def)

lemma due_stable:
  assumes "due terminal rules t v"
  shows "due terminal rules (tallyViolation m' terminal' degraded now rules' x t) v"
proof -
  let ?u = "tallyViolation m' terminal' degraded now rules' x t"
  have "ta_Counted ?u (vi_InvariantID v) \<noteq> None \<and> thresholdMet c d (vi_InvariantID v) ?u = thresholdMet c d (vi_InvariantID v) t"
    if "ta_Counted t (vi_InvariantID v) \<noteq> None" for c d
    using tallyViolation_stable [OF that] that by (metis thresholdMet_cong)
  with assms show ?thesis unfolding due_def Let_def by blast
qed

lemma failedBy_stable: "failedBy m terminal rules vs t \<Longrightarrow> failedBy m terminal rules vs (tallyViolation m' terminal' degraded now rules' v t)"
  unfolding failedBy_def using due_stable by blast

lemma failedBy_violation:
  assumes "ta_Fail t \<longrightarrow> failedBy m terminal rules vs t" and "v \<in> set vs"
  shows "ta_Fail (tallyViolation m terminal degraded now rules v t) \<longrightarrow> failedBy m terminal rules vs (tallyViolation m terminal degraded now rules v t)"
proof (cases "ta_Fail t")
  case True
  with assms(1) show ?thesis by (simp add: failedBy_stable)
next
  case False
  obtain c d where th: "violationThreshold v (rules (vi_InvariantID v)) = (c, d)" by fastforce
  let ?t = "tallyViolation m terminal degraded now rules v t"
  let ?u = "countSample degraded now (vi_InvariantID v) t"
  show ?thesis
  proof
    assume fail: "ta_Fail ?t"
    then have m: "m = ModeStrict" using False by (auto simp: tallyViolation_def Let_def split: prod.splits if_splits)
    show "failedBy m terminal rules vs ?t"
    proof (cases "c \<le> 1 \<and> d \<le> 0")
      case True
      with assms(2) th m show ?thesis unfolding failedBy_def due_def Let_def by (intro conjI bexI [of _ v]) simp_all
    next
      case deb: False
      then have "\<not> terminal" "thresholdMet c d (vi_InvariantID v) ?u"
        using fail False th by (auto simp: tallyViolation_def Let_def split: if_splits)
      moreover from this deb th have "?t = escalate m v ?u" by (auto simp: tallyViolation_def Let_def)
      then have "thresholdMet c d (vi_InvariantID v) ?t = thresholdMet c d (vi_InvariantID v) ?u" "ta_Counted ?t = ta_Counted ?u"
        by (simp_all add: thresholdMet_def)
      ultimately show ?thesis using assms(2) th m unfolding failedBy_def due_def Let_def
        by (intro conjI bexI [of _ v]) simp_all
    qed
  qed
qed

lemma fold_invariant:
  assumes "\<And>x t. x \<in> set xs \<Longrightarrow> I t \<Longrightarrow> I (f x t)" and "I t"
  shows "I (fold f xs t)"
  using assms by (induction xs arbitrary: t) auto

lemma tally_loop:
  fixes m terminal degraded now rules vs t0
  defines "t \<equiv> fold (tallyViolation m terminal degraded now rules) vs t0"
  assumes "ta_Counted t0 = Map.empty" "ta_Elapsed t0 = Map.empty" "\<not> ta_Fail t0"
  shows "tallied vs degraded now t0 t" and "ta_Fail t \<Longrightarrow> failedBy m terminal rules vs t"
proof -
  show "tallied vs degraded now t0 t" unfolding t_def
    by (rule fold_invariant) (use assms(2,3) in \<open>auto intro: tallied_violation tallied_start\<close>)
  have "ta_Fail t \<longrightarrow> failedBy m terminal rules vs t" unfolding t_def
    by (rule fold_invariant) (use assms(4) failedBy_violation in \<open>blast+\<close>)
  then show "ta_Fail t \<Longrightarrow> failedBy m terminal rules vs t" by blast
qed

lemma tally_terminal: "\<exists>b. fold (tallyViolation m True degraded now rules) vs t0 = t0\<lparr>ta_Fail := b\<rparr>"
proof (rule fold_invariant [where I = "\<lambda>t. \<exists>b. t = t0\<lparr>ta_Fail := b\<rparr>"])
  show "\<exists>b. t0 = t0\<lparr>ta_Fail := b\<rparr>" by (rule exI [of _ "ta_Fail t0"]) simp
qed (auto simp: tallyViolation_def split: prod.split)

subsection \<open>The counters of a history\<close>

definition countsOf :: "guard \<Rightarrow> string \<Rightarrow> (string \<rightharpoonup> int)" where
  "countsOf g subj = subjectOf (map_of (gd_Counts g)) subj"

definition seenOf :: "guard \<Rightarrow> string \<Rightarrow> (string \<rightharpoonup> time)" where
  "seenOf g subj = subjectOf (gd_FirstSeen g) subj"

text \<open>A counter is at most the length of the streak, and a first sighting is one of its samples.\<close>

definition backed :: "time list \<Rightarrow> (string \<rightharpoonup> int) \<Rightarrow> (string \<rightharpoonup> time) \<Rightarrow> string \<Rightarrow> bool" where
  "backed ts counts seen i \<longleftrightarrow>
     mapOr 0 counts i \<le> int (length ts) \<and>
     (mapOr zero_time seen i \<noteq> zero_time \<longrightarrow> mapOr zero_time seen i \<in> set ts) \<and>
     (seen i \<noteq> None \<longrightarrow> counts i \<noteq> None)"

definition backedGuard :: "rule list \<Rightarrow> guardOp list \<Rightarrow> guard \<Rightarrow> bool" where
  "backedGuard rules ops g \<longleftrightarrow> (\<forall>subj i. backed (streak rules subj i ops) (countsOf g subj) (seenOf g subj) i)"

text \<open>Operations that leave a subject alone or forget it.\<close>

definition keptOrDropped :: "guard \<Rightarrow> guard \<Rightarrow> bool" where
  "keptOrDropped g g' \<longleftrightarrow> gd_Mode g' = gd_Mode g \<and> gd_Rules g' = gd_Rules g \<and>
     (\<forall>subj. countsOf g' subj = countsOf g subj \<and> seenOf g' subj = seenOf g subj \<or> countsOf g' subj = Map.empty \<and> seenOf g' subj = Map.empty)"

lemma backed_empty [simp]: "backed ts Map.empty Map.empty i"
  by (simp add: backed_def)

lemma keptOrDropped_backed: "keptOrDropped g g' \<Longrightarrow> backedGuard rules ops g \<Longrightarrow> backedGuard rules ops g'"
  unfolding keptOrDropped_def backedGuard_def by (metis backed_empty)

lemma keptOrDropped_trans: "keptOrDropped g h \<Longrightarrow> keptOrDropped h k \<Longrightarrow> keptOrDropped g k"
  unfolding keptOrDropped_def by metis

lemma map_of_delete: "map_of (AList.delete k xs) = (map_of xs)(k := None)"
  by (simp add: delete_conv')

lemma dropSubject_kept [simp]: "keptOrDropped g (dropSubject k g)"
  by (auto simp: keptOrDropped_def dropSubject_def countsOf_def seenOf_def map_of_delete subjectOf_def)

lemma dropSubject_gone [simp]: "countsOf (dropSubject k g) k = Map.empty" "seenOf (dropSubject k g) k = Map.empty"
  by (simp_all add: dropSubject_def countsOf_def seenOf_def map_of_delete)

lemma keptOrDropped_refl [simp]: "keptOrDropped g g" "keptOrDropped g (g\<lparr>gd_Active := a\<rparr>)"
  by (simp_all add: keptOrDropped_def countsOf_def seenOf_def)

lemma ForgetObject_kept [simp]: "keptOrDropped g (ForgetObject r k ns n g)"
  by (auto simp: keptOrDropped_def ForgetObject_def Let_def countsOf_def seenOf_def map_of_filter_key)

lemma makeRoom_kept [simp]: "keptOrDropped g (makeRoom a b g)"
proof -
  have "keptOrDropped g (dropSubject k (g\<lparr>gd_Active := x\<rparr>))" for k x
    by (rule keptOrDropped_trans [OF keptOrDropped_refl(2) dropSubject_kept])
  then show ?thesis by (simp add: makeRoom_def Let_def)
qed

lemma clearTerminal_kept [simp]: "keptOrDropped g (clearTerminal s g)"
  by (simp add: clearTerminal_def)

lemma cleanSample_kept: "keptOrDropped g (cleanSample s g)"
  unfolding cleanSample_def Let_def using keptOrDropped_trans [OF keptOrDropped_refl(2) dropSubject_kept] by simp

lemma cleanSample_gone: "\<not> isDegraded s \<Longrightarrow> countsOf (cleanSample s g) (debounceSubjectKey s) = Map.empty \<and> seenOf (cleanSample s g) (debounceSubjectKey s) = Map.empty"
  by (simp add: cleanSample_def Let_def)

lemma kept_empty: "keptOrDropped g g' \<Longrightarrow> countsOf g k = Map.empty \<Longrightarrow> seenOf g k = Map.empty \<Longrightarrow> countsOf g' k = Map.empty \<and> seenOf g' k = Map.empty"
  unfolding keptOrDropped_def by metis

lemma keepActive_empty [simp]: "keepActive degraded vs counts Map.empty = Map.empty"
  by (simp add: keepActive_def)

lemma startTally_simps [simp]:
  "ta_Counts (startTally degraded vs k g) = keepActive degraded vs (countsOf g k) (countsOf g k)"
  "ta_FirstSeen (startTally degraded vs k g) = keepActive degraded vs (countsOf g k) (seenOf g k)"
  "ta_Counted (startTally degraded vs k g) = Map.empty" "ta_Elapsed (startTally degraded vs k g) = Map.empty" "\<not> ta_Fail (startTally degraded vs k g)"
  by (simp_all add: startTally_def Let_def countsOf_def seenOf_def)

text \<open>The counters after the loop, from those before it and one more sample.\<close>

definition nextStreak :: "bool \<Rightarrow> bool \<Rightarrow> time \<Rightarrow> time list \<Rightarrow> time list" where
  "nextStreak degraded violated now ts = (if degraded then ts else if violated then now # ts else [])"

lemma mapOr_cong: "m i = m' i \<Longrightarrow> mapOr d m i = mapOr d m' i"
  by (simp add: mapOr_def)

lemma keepActive_backed:
  assumes "backed ts counts seen i"
  shows "backed (nextStreak degraded (list_ex (\<lambda>v. vi_InvariantID v = i) vs) now ts) (keepActive degraded vs counts counts) (keepActive degraded vs counts seen) i"
  using assms by (cases "counts i"; cases "seen i") (auto simp: backed_def keepActive_def nextStreak_def mapOr_def)

lemma tallied_backed:
  assumes tal: "tallied vs degraded now t0 t" and t0: "ta_Counts t0 = keepActive degraded vs counts counts" "ta_FirstSeen t0 = keepActive degraded vs counts seen"
    and b: "backed ts counts seen i"
  shows "backed (nextStreak degraded (list_ex (\<lambda>v. vi_InvariantID v = i) vs) now ts) (ta_Counts t) (ta_FirstSeen t) i"
proof (cases "ta_Counted t i")
  case None
  then have "ta_Counts t i = ta_Counts t0 i" "ta_FirstSeen t i = ta_FirstSeen t0 i" using tal by (simp_all add: tallied_def)
  with keepActive_backed [OF b, of degraded vs now] t0 show ?thesis by (simp add: backed_def mapOr_def)
next
  case (Some n)
  let ?v = "list_ex (\<lambda>v. vi_InvariantID v = i) vs"
  have v: ?v and n: "mapOr 0 (ta_Counts t) i \<le> mapOr 0 (ta_Counts t0) i + (if degraded then 0 else 1)"
    and f: "mapOr zero_time (ta_FirstSeen t) i = mapOr zero_time (ta_FirstSeen t0) i \<or> \<not> degraded \<and> mapOr zero_time (ta_FirstSeen t) i = now"
    using tal Some by (auto simp: tallied_def)
  have keep: "ta_Counts t0 i = counts i" "ta_FirstSeen t0 i = seen i" using v by (simp_all add: t0 keepActive_def)
  then have m: "mapOr 0 (ta_Counts t0) i = mapOr 0 counts i" "mapOr zero_time (ta_FirstSeen t0) i = mapOr zero_time seen i" by (simp_all add: mapOr_def)
  have "ta_FirstSeen t i \<noteq> None \<longrightarrow> ta_Counts t i \<noteq> None" using tal b keep by (auto simp: tallied_def backed_def)
  with n f m v b show ?thesis by (auto simp: backed_def nextStreak_def)
qed

subsection \<open>One evaluation\<close>

lemma streak_sample:
  "streak rules subj i (Sample wall s # ops) =
     (if debounceSubjectKey s = subj then nextStreak (isDegraded s) (violates rules wall s i) (snapshotTime wall s) (streak rules subj i ops)
      else streak rules subj i ops)"
  by (simp add: nextStreak_def)

declare streak.simps(2) [simp del]

lemma violatingSample_guard:
  fixes K now s vs g0
  defines "g \<equiv> makeRoom (snapshotScopeKey s) (debounceSubjectKey s) g0"
  defines "t \<equiv> fold (tallyViolation (gd_Mode g) (primaryTerminal s) (isDegraded s) now (ruleByID (rulesOf K g))) vs
                 (startTally (isDegraded s) vs (debounceSubjectKey s) g)"
  shows "countsOf (ev_Guard (violatingSample K now s vs g0)) k = (if k = debounceSubjectKey s then ta_Counts t else countsOf g k)"
    "seenOf (ev_Guard (violatingSample K now s vs g0)) k = (if k = debounceSubjectKey s then ta_FirstSeen t else seenOf g k)"
    "gd_Mode (ev_Guard (violatingSample K now s vs g0)) = gd_Mode g" "gd_Rules (ev_Guard (violatingSample K now s vs g0)) = gd_Rules g"
    "ev_ShouldFail (violatingSample K now s vs g0) = ta_Fail t"
  by (simp_all add: violatingSample_def Let_def g_def t_def countsOf_def seenOf_def update_conv' subjectOf_def)

lemma Evaluate_settings:
  "gd_Mode (ev_Guard (Evaluate K wall s g)) = gd_Mode g" "gd_Rules (ev_Guard (Evaluate K wall s g)) = gd_Rules g"
proof -
  have "keptOrDropped g (clearTerminal s g)" "keptOrDropped (clearTerminal s g) (makeRoom (snapshotScopeKey s) (debounceSubjectKey s) (clearTerminal s g))"
    "keptOrDropped (clearTerminal s g) (cleanSample s (clearTerminal s g))"
    by (simp_all add: cleanSample_kept)
  then show "gd_Mode (ev_Guard (Evaluate K wall s g)) = gd_Mode g" "gd_Rules (ev_Guard (Evaluate K wall s g)) = gd_Rules g"
    by (simp_all add: Evaluate_def noEvaluation_def Let_def violatingSample_guard keptOrDropped_def)
qed

lemma violating_backed:
  fixes K now s vs g0
  defines "g \<equiv> makeRoom (snapshotScopeKey s) (debounceSubjectKey s) g0"
  assumes b: "backedGuard rules ops g0" and vs: "vs = runRules rules wall s" and now: "now = snapshotTime wall s"
    and fin: "primaryTerminal s \<longrightarrow> countsOf g0 (debounceSubjectKey s) = Map.empty \<and> seenOf g0 (debounceSubjectKey s) = Map.empty"
  shows "backedGuard rules (Sample wall s # ops) (ev_Guard (violatingSample K now s vs g0))"
proof -
  let ?k = "debounceSubjectKey s"
  let ?start = "startTally (isDegraded s) vs ?k g"
  let ?t = "fold (tallyViolation (gd_Mode g) (primaryTerminal s) (isDegraded s) now (ruleByID (rulesOf K g))) vs ?start"
  have kept: "keptOrDropped g0 g" unfolding g_def by simp
  have bg: "backedGuard rules ops g" by (rule keptOrDropped_backed [OF kept b])
  have "backed (streak rules ?k i (Sample wall s # ops)) (ta_Counts ?t) (ta_FirstSeen ?t) i" for i
  proof (cases "primaryTerminal s")
    case True
    with kept_empty [OF kept] fin have "countsOf g ?k = Map.empty" "seenOf g ?k = Map.empty" by auto
    then have "ta_Counts ?start = Map.empty" "ta_FirstSeen ?start = Map.empty" by simp_all
    moreover from tally_terminal obtain b where "?t = ?start\<lparr>ta_Fail := b\<rparr>" unfolding eqTrueI [OF True] by blast
    ultimately show ?thesis by simp
  next
    case False
    have "tallied vs (isDegraded s) now ?start ?t" by (rule tally_loop) simp_all
    moreover have "backed (streak rules ?k i ops) (countsOf g ?k) (seenOf g ?k) i" using bg by (simp add: backedGuard_def)
    ultimately show ?thesis
      using tallied_backed [of vs "isDegraded s" now ?start ?t "countsOf g ?k" "seenOf g ?k"]
      by (simp add: streak_sample violates_def vs [symmetric] now [symmetric])
  qed
  with bg show ?thesis
    unfolding backedGuard_def by (auto simp: violatingSample_guard g_def [symmetric] streak_sample)
qed

lemma Evaluate_backed:
  assumes b: "backedGuard rules ops g" and rules: "rulesOf K g = rules"
  shows "backedGuard rules (Sample wall s # ops) (ev_Guard (Evaluate K wall s g)) \<or> \<not> Enabled g"
proof (cases "Enabled g")
  case True
  let ?vs = "runRules rules wall s"
  let ?g = "clearTerminal s g"
  have b1: "backedGuard rules ops ?g" by (rule keptOrDropped_backed [OF clearTerminal_kept b])
  show ?thesis
  proof (cases "?vs = []")
    case clean: True
    have b2: "backedGuard rules ops (cleanSample s ?g)" by (rule keptOrDropped_backed [OF cleanSample_kept b1])
    have "\<not> violates rules wall s i" for i using clean by (simp add: violates_def)
    with b2 cleanSample_gone [of s ?g] have "backedGuard rules (Sample wall s # ops) (cleanSample s ?g)"
      unfolding backedGuard_def by (auto simp: streak_sample nextStreak_def)
    with True clean rules show ?thesis by (simp add: Evaluate_def Let_def noEvaluation_def)
  next
    case False
    have "primaryTerminal s \<longrightarrow> countsOf ?g (debounceSubjectKey s) = Map.empty \<and> seenOf ?g (debounceSubjectKey s) = Map.empty"
      by (simp add: clearTerminal_def)
    from violating_backed [OF b1 refl refl this] False True rules show ?thesis by (simp add: Evaluate_def Let_def)
  qed
qed simp

lemma Evaluate_disabled: "\<not> Enabled g \<Longrightarrow> ev_Guard (Evaluate K wall s g) = g"
  by (simp add: Evaluate_def noEvaluation_def)

lemma afterOps_settings:
  "gd_Mode (afterOps K g ops) = gd_Mode g \<and> gd_Rules (afterOps K g ops) = gd_Rules g"
proof (induction ops)
  case (Cons x ops)
  then show ?case using ForgetObject_kept by (cases x) (auto simp: Evaluate_settings keptOrDropped_def)
qed simp

text \<open>After any history, an engine that started empty has backed counters.\<close>

lemma afterOps_backed:
  assumes "Enabled g" and "backedGuard (rulesOf K g) [] g"
  shows "backedGuard (rulesOf K g) ops (afterOps K g ops)"
proof (induction ops)
  case (Cons x ops)
  let ?g = "afterOps K g ops"
  have en: "Enabled ?g" "rulesOf K ?g = rulesOf K g" using afterOps_settings [of K g ops] assms(1) by (simp_all add: Enabled_def rulesOf_def)
  show ?case
  proof (cases x)
    case (Sample wall s)
    with Evaluate_backed [OF Cons en(2), of wall s] en(1) show ?thesis by simp
  next
    case (Forget a b c d)
    with keptOrDropped_backed [OF ForgetObject_kept Cons] show ?thesis by (simp add: backedGuard_def)
  qed
qed (simp add: assms(2))

subsection \<open>The default rules\<close>

text \<open>A violation of this rule, without thresholds of its own.\<close>

definition plain :: "string \<Rightarrow> violation \<Rightarrow> bool" where
  "plain ident v \<longleftrightarrow> vi_InvariantID v = ident \<and> vi_ConsecutiveRequired v = 0 \<and> vi_DurationRequired v = 0"

lemma plain_violationOf [simp]: "plain i (violationOf j name reason msg ns pmjName podName) = (j = i)"
  by (simp add: plain_def violationOf_def)

lemma plain_duplicates: "v \<in> set (duplicateConsumers s consumers ps) \<Longrightarrow> plain ''I1'' v"
  by (induction s consumers ps rule: duplicateConsumers.induct) (auto simp: duplicateConsumption_def split: option.splits if_splits)

lemma plain_I2: "v \<in> set (EvaluateI2 s) \<Longrightarrow> plain ''I2'' v"
proof -
  have "\<forall>v \<in> set (checkReplacement s job p). plain ''I2'' v" for job p
    by (cases "inspectPodRestoreOrder s (jobEngineAnnotation job) p") (simp add: checkReplacement_def restoreAnnotationMissing_def Let_def)
  then have "\<forall>v \<in> set (I2_job s job). plain ''I2'' v" for job
    by (cases "byKey podRef (allPods s) (pmj_Namespace job @ ''/'' @ st_RestoredPodName (pmj_Status job))") (simp_all add: I2_job_def)
  moreover have "\<forall>v \<in> set (I2_pod s p). plain ''I2'' v" for p by (simp add: I2_pod_def Let_def)
  ultimately show "v \<in> set (EvaluateI2 s) \<Longrightarrow> plain ''I2'' v" by (auto simp: EvaluateI2_def)
qed

lemma plain_jobs [simp]:
  "v \<in> set (gatedOnJob now job p) \<Longrightarrow> plain ''I3'' v"
  "v \<in> set (I4_migration K now mig) \<Longrightarrow> plain ''I4'' v"
  "v \<in> set (labelMismatch job p jl pl reason what) \<Longrightarrow> plain ''I6'' v" "v \<in> set (parentMismatch job p ref) \<Longrightarrow> plain ''I6'' v"
  "v \<in> set (I7_job s job) \<Longrightarrow> plain ''I7'' v"
  "v \<in> set (fenceLabelViolation job p) \<Longrightarrow> plain ''I11'' v"
  by (auto simp: gatedOnJob_def I4_migration_def labelMismatch_def parentMismatch_def I7_job_def fenceLabelViolation_def Let_def split: if_splits option.splits)

lemma plain_I4: "v \<in> set (I4_job K now job) \<Longrightarrow> plain ''I4'' v"
  by (cases "deadlineAnchor job") (simp add: I4_job_def Let_def split: if_splits)

lemma plain_ready: "v \<in> set (fenceReadyViolation job p) \<Longrightarrow> plain ''I11'' v"
  by (cases "find (\<lambda>c. c_Type c = ConditionReady) (pod_Conditions p)") (simp_all add: fenceReadyViolation_def Let_def split: if_splits)

lemma plain_I12: "v \<in> set (I12_job job) \<Longrightarrow> plain ''I12'' v"
  by (cases "FindStatusCondition (st_Conditions (pmj_Status job)) ConditionRestored") (auto simp: I12_job_def Let_def split: if_splits)

lemma plain_I6: "v \<in> set (I6_job s job) \<Longrightarrow> plain ''I6'' v"
  by (cases "byKey podRef (allPods s) (pmj_Namespace job @ ''/'' @ st_RestoredPodName (pmj_Status job))") (auto simp: I6_job_def split: if_splits)

lemma default_plain:
  assumes "r \<in> set (DefaultRules K)" and "v \<in> set (ru_Evaluate r wall s)"
  shows "plain (ru_ID r) v"
proof -
  have "v \<in> set (EvaluateI1 s) \<Longrightarrow> plain ''I1'' v"
    by (auto simp: EvaluateI1_def reboundViolation_def dest: plain_duplicates split: if_splits)
  moreover note plain_I2
  moreover have "v \<in> set (EvaluateI3 wall s) \<Longrightarrow> plain ''I3'' v"
    by (auto simp: EvaluateI3_def I3_pod_def Let_def split: if_splits option.splits)
  moreover have "v \<in> set (EvaluateI4 K wall s) \<Longrightarrow> plain ''I4'' v"
    by (auto simp: EvaluateI4_def plain_I4 split: option.splits)
  moreover have "v \<in> set (EvaluateI5 s) \<Longrightarrow> plain ''I5'' v" by (auto simp: EvaluateI5_def split: if_splits option.splits)
  moreover have "v \<in> set (EvaluateI6 s) \<Longrightarrow> plain ''I6'' v" by (auto simp: EvaluateI6_def plain_I6)
  moreover have "v \<in> set (EvaluateI7 s) \<Longrightarrow> plain ''I7'' v" by (auto simp: EvaluateI7_def)
  moreover have "v \<in> set (EvaluateI8 s) \<Longrightarrow> plain ''I8'' v" by (auto simp: EvaluateI8_def)
  moreover have "v \<in> set (EvaluateI9 s) \<Longrightarrow> plain ''I9'' v" by (auto simp: EvaluateI9_def)
  moreover have "v \<in> set (EvaluateI10 s) \<Longrightarrow> plain ''I10'' v" by (auto simp: EvaluateI10_def split: if_splits option.splits)
  moreover have "v \<in> set (EvaluateI11 wall s) \<Longrightarrow> plain ''I11'' v"
    by (auto simp: EvaluateI11_def I11_job_def plain_ready split: if_splits)
  moreover have "v \<in> set (EvaluateI12 s) \<Longrightarrow> plain ''I12'' v" by (auto simp: EvaluateI12_def plain_I12)
  ultimately show ?thesis using assms
    by (auto simp: DefaultRules_def funcRule_def NewDebouncedRule_def RuleI10_def RuleI11_def RuleI12_def)
qed

lemma default_threshold:
  assumes "v \<in> set (runRules (DefaultRules K) wall s)"
  shows "violationThreshold v (ruleByID (DefaultRules K) (vi_InvariantID v)) =
    (if vi_InvariantID v \<in> {''I10'', ''I11''} then (3, 30 * second) else (1, 0))"
proof -
  obtain r where r: "r \<in> set (DefaultRules K)" "v \<in> set (ru_Evaluate r wall s)" using assms by (auto simp: runRules_def)
  from default_plain [OF r] have v: "vi_InvariantID v = ru_ID r" "vi_ConsecutiveRequired v = 0" "vi_DurationRequired v = 0" by (simp_all add: plain_def)
  from r(1) v show ?thesis
    by (auto simp: DefaultRules_def funcRule_def NewDebouncedRule_def RuleI10_def RuleI11_def RuleI12_def ruleByID_def violationThreshold_def)
qed

lemma new_backed: "backedGuard rules [] (NewEngine K first m recorder)"
  by (simp add: backedGuard_def NewEngine_def countsOf_def seenOf_def)

subsection \<open>Properties\<close>

text \<open>
  C13 (refinement). Whatever the history of samples and forgotten objects, the engine fails a job
  only in strict mode, and only for an immediate violation in this sample, or for a debounced
  rule (I10, I11) that the abstract counter confirms: the subject is not concluded, and there
  are at least three conclusive violating samples of it since its last clean one, one of them at
  least thirty seconds old.
\<close>

theorem strict_abort_is_debounced:
  assumes "ev_ShouldFail (Evaluate K wall s (afterOps K (NewEngine K first m recorder) ops))"
  shows "m = ModeStrict \<and>
    ((\<exists>v \<in> set (runRules (DefaultRules K) wall s). vi_InvariantID v \<notin> {''I10'', ''I11''}) \<or>
     \<not> primaryTerminal s \<and>
     (\<exists>i \<in> {''I10'', ''I11''}. violates (DefaultRules K) wall s i \<and>
        3 \<le> length (streak (DefaultRules K) (debounceSubjectKey s) i (Sample wall s # ops)) \<and>
        (\<exists>t \<in> set (streak (DefaultRules K) (debounceSubjectKey s) i (Sample wall s # ops)). 30 * second \<le> time_sub (snapshotTime wall s) t)))"
proof -
  let ?new = "NewEngine K first m recorder"
  let ?g = "afterOps K ?new ops"
  let ?R = "DefaultRules K"
  let ?vs = "runRules ?R wall s"
  let ?now = "snapshotTime wall s"
  let ?k = "debounceSubjectKey s"
  have rules: "rulesOf K ?new = ?R" by (simp add: rulesOf_def NewEngine_def)
  have set: "gd_Mode ?g = gd_Mode ?new" "rulesOf K ?g = ?R" using afterOps_settings [of K ?new ops] by (simp_all add: rulesOf_def NewEngine_def)
  have en: "Enabled ?g" "?vs \<noteq> []" using assms set(2) by (auto simp: Evaluate_def noEvaluation_def Let_def split: if_splits)
  then have "Enabled ?new" using set(1) by (simp add: Enabled_def)
  from afterOps_backed [OF this new_backed, of K ops] have "backedGuard ?R ops ?g" unfolding rules .
  from Evaluate_backed [OF this set(2)] en(1) have fin: "backedGuard ?R (Sample wall s # ops) (ev_Guard (Evaluate K wall s ?g))" by blast
  have ev: "Evaluate K wall s ?g = violatingSample K ?now s ?vs (clearTerminal s ?g)" using en set(2) by (simp add: Evaluate_def Let_def)
  define h where "h = makeRoom (snapshotScopeKey s) ?k (clearTerminal s ?g)"
  have h: "gd_Mode h = gd_Mode ?new" "rulesOf K h = ?R"
    using keptOrDropped_trans [OF clearTerminal_kept [of ?g s] makeRoom_kept [of _ "snapshotScopeKey s" ?k]] set by (auto simp: h_def keptOrDropped_def rulesOf_def)
  define start where "start = startTally (isDegraded s) ?vs ?k h"
  define t where "t = fold (tallyViolation (gd_Mode h) (primaryTerminal s) (isDegraded s) ?now (ruleByID (rulesOf K h))) ?vs start"
  have tal: "tallied ?vs (isDegraded s) ?now start t" unfolding t_def by (rule tally_loop) (simp_all add: start_def)
  have "ta_Fail t" using assms unfolding ev violatingSample_guard t_def h_def start_def .
  then have "failedBy (gd_Mode h) (primaryTerminal s) (ruleByID (rulesOf K h)) ?vs t"
    unfolding t_def by (rule tally_loop(2) [rotated 3]) (simp_all add: start_def)
  then obtain v where strict: "gd_Mode ?new = ModeStrict" and v: "v \<in> set ?vs" "due (primaryTerminal s) (ruleByID ?R) t v"
    unfolding failedBy_def h by blast
  have m: "m = ModeStrict" using strict by (auto simp: NewEngine_def const_defs split: if_splits)
  let ?i = "vi_InvariantID v"
  have "\<not> primaryTerminal s \<and> violates ?R wall s ?i \<and> 3 \<le> length (streak ?R ?k ?i (Sample wall s # ops)) \<and>
      (\<exists>t \<in> set (streak ?R ?k ?i (Sample wall s # ops)). 30 * second \<le> time_sub ?now t)" if deb: "?i \<in> {''I10'', ''I11''}"
  proof -
    let ?F = "mapOr zero_time (ta_FirstSeen t) ?i"
    have th: "violationThreshold v (ruleByID ?R ?i) = (3, 30 * second)" using default_threshold [OF v(1)] deb by simp
    with v(2) have d: "\<not> primaryTerminal s" "ta_Counted t ?i \<noteq> None" "thresholdMet 3 (30 * second) ?i t" by (simp_all add: due_def)
    then obtain n where n: "ta_Counted t ?i = Some n" by blast
    from d(3) n have n3: "3 \<le> n" and el: "30 * second \<le> mapOr 0 (ta_Elapsed t) ?i" by (auto simp: thresholdMet_def const_defs)
    from el obtain e where e: "ta_Elapsed t ?i = Some e" "30 * second \<le> e" by (cases "ta_Elapsed t ?i") (auto simp: const_defs)
    from tal n e(1) have facts: "n = mapOr 0 (ta_Counts t) ?i" "e = time_sub ?now ?F" "?F \<noteq> zero_time \<or> \<not> isDegraded s \<and> ?F = ?now"
      by (auto simp: tallied_def)
    have vio: "violates ?R wall s ?i" using v(1) by (auto simp: violates_def list_ex_iff)
    have b: "backed (streak ?R ?k ?i (Sample wall s # ops)) (ta_Counts t) (ta_FirstSeen t) ?i"
      using fin unfolding backedGuard_def ev violatingSample_guard t_def h_def start_def by (auto dest: spec [of _ ?k])
    have "?F \<in> set (streak ?R ?k ?i (Sample wall s # ops))"
      using b facts(3) vio by (auto simp: backed_def streak_sample nextStreak_def)
    with b n3 facts(1,2) e(2) d(1) vio show ?thesis by (auto simp: backed_def)
  qed
  with m v(1) show ?thesis by blast
qed

definition wedgedJob :: pmj where
  "wedgedJob = (jobOf ''pmj'' ''web-0'' ''u0'' PhaseRestoring)\<lparr>pmj_Status := (statusOf PhaseRestoring)\<lparr>st_RestoringStartTime := Some 1, st_RestoredPodName := ''web-1''\<rparr>\<rparr>"

text \<open>The replacement of the job has been missing since \<open>t\<close>.\<close>

definition wedged :: "time \<Rightarrow> reconcileSnapshot" where
  "wedged t = \<lparr>rs_Now = t, rs_Reconciler = ''PodMigrationJobReconciler'', rs_PrimaryPMJ = Some wedgedJob, rs_PrimaryPod = None, rs_PrimaryMigration = None,
     rs_NamespacePMJs = [], rs_NamespacePods = [], rs_TargetingPMJs = [], rs_PodListFailed = False, rs_PMJListFailed = False,
     rs_HasOrphanedTrigger = False, rs_RestoreCrashSignatureMatched = False, rs_RestoreOrders = None\<rparr>"

lemma strict_abort_is_debounced_witness:
  "let K = sampleLib; s = wedged (140 * second); ops = [Sample 0 (wedged (120 * second)), Sample 0 (wedged (100 * second))] in
   ev_ShouldFail (Evaluate K 0 s (afterOps K (NewEngine K hd ModeStrict True) ops)) \<and>
   (\<exists>i \<in> {''I10'', ''I11''}. violates (DefaultRules K) 0 s i \<and>
        3 \<le> length (streak (DefaultRules K) (debounceSubjectKey s) i (Sample 0 s # ops)) \<and>
        (\<exists>t \<in> set (streak (DefaultRules K) (debounceSubjectKey s) i (Sample 0 s # ops)). 30 * second \<le> time_sub (snapshotTime 0 s) t))"
proof -
  let ?s = "wedged (140 * second)"
  let ?ops = "[Sample 0 (wedged (120 * second)), Sample 0 (wedged (100 * second))]"
  have fail: "ev_ShouldFail (Evaluate sampleLib 0 ?s (afterOps sampleLib (NewEngine sampleLib hd ModeStrict True) ?ops))" by code_simp
  have "list_all (\<lambda>v. vi_InvariantID v = ''I10'') (runRules (DefaultRules sampleLib) 0 ?s)" by code_simp
  then have "\<not> (\<exists>v \<in> set (runRules (DefaultRules sampleLib) 0 ?s). vi_InvariantID v \<notin> {''I10'', ''I11''})" unfolding list_all_iff by blast
  with strict_abort_is_debounced [OF fail] fail show ?thesis unfolding Let_def by blast
qed

end
