(* ===== verification/Fence.thy ===== *)
theory Fence
  imports Reconciler
begin

text \<open>
  The source fence (\<open>controller/fence.go\<close>): before a checkpoint is triggered the source is
  labelled and held NotReady, its containers are recorded on the job, and a job that fails
  later either returns the source to service or keeps it fenced and evicts it.

  Each function returns the job and the \<open>origJob\<close> it leaves behind, also on an error: a
  status update that could not be written stays on the local copy, and the callers go on
  with it.
\<close>

section \<open>Definitions\<close>

definition ReasonTriggerCreateFailed :: string where
  [const_defs]: "ReasonTriggerCreateFailed = ''TriggerCreateFailed''"
definition ReasonFenceCapExceeded :: string where
  [const_defs]: "ReasonFenceCapExceeded = ''FenceCapExceeded''"
definition DefaultFencePreCheckpointCap :: duration where
  "DefaultFencePreCheckpointCap = 30 * second"
definition DefaultFenceLateStopWatch :: duration where
  "DefaultFenceLateStopWatch = 5 * minute"
definition DefaultFenceDeleteUnwedgeTimeout :: duration where
  "DefaultFenceDeleteUnwedgeTimeout = 2 * minute"
definition fenceSettleTimeout :: duration where
  "fenceSettleTimeout = 30 * second"
definition fenceSettleInterval :: duration where
  "fenceSettleInterval = 2 * second"
definition lateStopPollInterval :: duration where
  "lateStopPollInterval = 5 * second"
definition keptSourceEvictionRetryInterval :: duration where
  "keptSourceEvictionRetryInterval = 10 * second"

definition fencePreCheckpointCap :: "reconciler \<Rightarrow> duration" where
  "fencePreCheckpointCap r = (if rc_FencePreCheckpointCap r > 0 then rc_FencePreCheckpointCap r else DefaultFencePreCheckpointCap)"

definition fenceLateStopWatch :: "reconciler \<Rightarrow> duration" where
  "fenceLateStopWatch r = (if rc_FenceLateStopWatch r > 0 then rc_FenceLateStopWatch r else DefaultFenceLateStopWatch)"

definition fenceDeleteUnwedgeTimeout :: "reconciler \<Rightarrow> duration" where
  "fenceDeleteUnwedgeTimeout r = (if rc_FenceDeleteUnwedgeTimeout r > 0 then rc_FenceDeleteUnwedgeTimeout r else DefaultFenceDeleteUnwedgeTimeout)"

subsection \<open>The baseline\<close>

definition baselineOf :: "pod \<Rightarrow> fenceBaseline" where
  "baselineOf pod =
     fold (\<lambda>cs b. AList.update (cs_Name cs) \<lparr>fc_ID = cs_ContainerID cs, fc_Restarts = cs_RestartCount cs\<rparr> b) (pod_ContainerStatuses pod) []"

definition jobFenceBaseline :: "kubelib \<Rightarrow> pmj \<Rightarrow> fenceBaseline \<times> bool" where
  "jobFenceBaseline K job =
     (let raw = mget (pmj_Annotations job) AnnotationFenceBaseline in
      if raw = [] then ([], False)
      else case UnmarshalBaseline K raw of None \<Rightarrow> ([], True) | Some b \<Rightarrow> (b, True))"

definition statusNamed :: "pod \<Rightarrow> string \<Rightarrow> container_status option" where
  "statusNamed pod name = find (\<lambda>cs. cs_Name cs = name) (rev (pod_ContainerStatuses pod))"

definition containerDiff :: "fenceBaseline \<Rightarrow> pod \<Rightarrow> string \<Rightarrow> string option" where
  "containerDiff b pod name =
     (case map_of b name of
        None \<Rightarrow> None
      | Some want \<Rightarrow>
          (case statusNamed pod name of
             None \<Rightarrow> Some (''container '' @ name @ '' has no status'')
           | Some got \<Rightarrow>
               if fc_ID want = [] \<or> cs_ContainerID got \<noteq> fc_ID want then
                 Some (''container '' @ name @ '' changed from '' @ quoted (fc_ID want) @ '' to '' @ quoted (cs_ContainerID got))
               else if cs_RestartCount got \<noteq> fc_Restarts want then
                 Some (''container '' @ name @ '' restarted ('' @ showInt (cs_RestartCount got) @ '' restarts, '' @ showInt (fc_Restarts want) @ '' when fenced)'')
               else if \<not> cs_Running got then Some (''container '' @ name @ '' isn't running'')
               else None))"

definition unchanged :: "fenceBaseline \<Rightarrow> pod \<Rightarrow> bool \<times> string" where
  "unchanged b pod =
     (if pod_DeletionTimestamp pod \<noteq> None then (False, ''the source is terminating'')
      else if pod_Phase pod \<noteq> PodRunning then (False, ''the source's phase is '' @ quoted (pod_phase_string (pod_Phase pod)))
      else if b = [] then (False, ''no containers were recorded when the source was fenced'')
      else case List.map_filter (containerDiff b pod) (sort (remdups (map fst b))) of
             [] \<Rightarrow> (True, [])
           | d # _ \<Rightarrow> (False, d))"

subsection \<open>Fencing the source\<close>

definition readyHeldByFence :: "pod \<Rightarrow> bool" where
  "readyHeldByFence pod =
     (case find (\<lambda>c. c_Type c = ConditionReady) (pod_Conditions pod) of
        None \<Rightarrow> False
      | Some c \<Rightarrow> c_Status c = CondFalse \<and> c_Reason c = ReasonPodMigrationFenced)"

definition sourcePod :: "pmj \<Rightarrow> reader \<Rightarrow> (api_error + pod option) io" where
  "sourcePod job rd = do {
     g \<leftarrow> get_pod rd (pmj_PodRefName job);
     State_Monad.return (case g of
       Inl e \<Rightarrow> if isNotFound e then Inr None else Inl (wrapErr (''reading source pod '' @ pmj_PodRefName job) e)
     | Inr pod \<Rightarrow> if pmj_TargetPodUID job \<noteq> [] \<and> pod_UID pod \<noteq> pmj_TargetPodUID job then Inr None else Inr (Some pod))
   }"

definition patchSourceMetadata :: "pod \<Rightarrow> metaPatch \<Rightarrow> (api_error + pod) io" where
  "patchSourceMetadata pod lbls = patch_pod_meta (pod_Name pod) (pod_UID pod) None lbls []"

definition fenceCondition :: "time \<Rightarrow> condition" where
  "fenceCondition now = \<lparr>c_Type = ConditionReady, c_Status = CondFalse, c_Reason = ReasonPodMigrationFenced,
     c_Message = FenceReadyMessage, c_ObservedGeneration = 0, c_LastTransitionTime = now\<rparr>"

definition holdNotReady :: "pod \<Rightarrow> api_error option io" where
  "holdNotReady pod =
     (if readyHeldByFence pod then State_Monad.return None
      else do {
        now \<leftarrow> timeNow;
        s \<leftarrow> patch_pod_condition (pod_Name pod) (pod_UID pod) (fenceCondition now);
        State_Monad.return (case s of Inr _ \<Rightarrow> None | Inl e \<Rightarrow> Some (wrapErr (''holding source pod '' @ pod_Name pod @ '' NotReady'') e))
      })"

definition applyFence :: "pod \<Rightarrow> api_error option io" where
  "applyFence pod =
     (if mget (pod_Labels pod) LabelFenced \<noteq> ''true'' then do {
        l \<leftarrow> patchSourceMetadata pod [(LabelFenced, Some ''true'')];
        (case l of
           Inl e \<Rightarrow> State_Monad.return (Some (wrapErr (''labeling source pod '' @ pod_Name pod @ '' '' @ LabelFenced) e))
         | Inr _ \<Rightarrow> holdNotReady pod)
      }
      else holdNotReady pod)"

definition addSourceFenceFinalizer :: "pmj \<Rightarrow> pmj \<Rightarrow> (api_error option \<times> pmj \<times> pmj) io" where
  "addSourceFenceFinalizer job origJob =
     (if SourceFenceFinalizer \<in> set (pmj_Finalizers job) \<or> pmj_DeletionTimestamp job \<noteq> None then State_Monad.return (None, job, origJob)
      else do {
        let after = job\<lparr>pmj_Finalizers := pmj_Finalizers job @ [SourceFenceFinalizer]\<rparr>;
        p \<leftarrow> patchJobMeta after job True;
        State_Monad.return (case p of
          Inl e \<Rightarrow> (Some (wrapErr (''adding '' @ SourceFenceFinalizer @ '' finalizer'') e), after, origJob)
        | Inr job \<Rightarrow> (None, job, job))
      })"

definition removeSourceFenceFinalizer :: "pmj \<Rightarrow> pmj \<Rightarrow> (api_error option \<times> pmj \<times> pmj) io" where
  "removeSourceFenceFinalizer job origJob =
     (if SourceFenceFinalizer \<notin> set (pmj_Finalizers job) then State_Monad.return (None, job, origJob)
      else do {
        let after = job\<lparr>pmj_Finalizers := filter (\<lambda>f. f \<noteq> SourceFenceFinalizer) (pmj_Finalizers job)\<rparr>;
        p \<leftarrow> patchJobMeta after job True;
        State_Monad.return (case p of
          Inl e \<Rightarrow> if isNotFound e then (None, after, after)
                  else (Some (wrapErr (''removing '' @ SourceFenceFinalizer @ '' finalizer'') e), after, origJob)
        | Inr job \<Rightarrow> (None, job, job))
      })"

definition fencedMessage :: string where
  "fencedMessage = ''The source is fenced before its checkpoint: it's labeled '' @ LabelFenced @
     '' and held NotReady, so its Services don't send it traffic''"

definition markFenced :: "reconciler \<Rightarrow> pmj \<Rightarrow> pmj \<Rightarrow> (api_error option \<times> pmj \<times> pmj) io" where
  "markFenced r job origJob =
     (if IsStatusConditionTrue (st_Conditions (pmj_Status job)) ConditionSourceFenced then State_Monad.return (None, job, origJob)
      else do {
        now \<leftarrow> timeNow;
        let job = setCond (rc_lib r) now ConditionSourceFenced CondTrue ReasonFenced fencedMessage job;
        p \<leftarrow> patchStatus job origJob;
        State_Monad.return (case p of Inl e \<Rightarrow> (Some e, job, origJob) | Inr job \<Rightarrow> (None, job, job))
      })"

definition recordBaseline :: "reconciler \<Rightarrow> pmj \<Rightarrow> pmj \<Rightarrow> pod \<Rightarrow> (api_error option \<times> pmj \<times> pmj) io" where
  "recordBaseline r job origJob pod = do {
     let after = job\<lparr>pmj_Annotations := (pmj_Annotations job)(AnnotationFenceBaseline \<mapsto> MarshalBaseline (rc_lib r) (baselineOf pod))\<rparr>;
     p \<leftarrow> patchJobMeta after job False;
     (case p of
        Inl e \<Rightarrow> State_Monad.return (Some (wrapErr ''recording the fence baseline'' e), after, origJob)
      | Inr job \<Rightarrow> do {
          recordPodEvent r job EventTypeNormal ''SourceFenced'';
          State_Monad.return (None, job, job)
        })
   }"

definition fenceSource :: "reconciler \<Rightarrow> pmj \<Rightarrow> pmj \<Rightarrow> (api_error option \<times> pmj \<times> pmj) io" where
  "fenceSource r job origJob =
     (if snd (jobFenceBaseline (rc_lib r) job) then addSourceFenceFinalizer job origJob
      else do {
        g \<leftarrow> sourcePod job (liveReader r);
        (case g of
           Inl e \<Rightarrow> State_Monad.return (Some e, job, origJob)
         | Inr None \<Rightarrow> State_Monad.return (None, job, origJob)
         | Inr (Some pod) \<Rightarrow>
             if pod_Phase pod = PodSucceeded \<or> pod_Phase pod = PodFailed then State_Monad.return (None, job, origJob)
             else do {
               (e, job, origJob) \<leftarrow> addSourceFenceFinalizer job origJob;
               if e \<noteq> None then State_Monad.return (e, job, origJob)
               else do {
                 (e, job, origJob) \<leftarrow> markFenced r job origJob;
                 if e \<noteq> None then State_Monad.return (e, job, origJob)
                 else do {
                   e \<leftarrow> applyFence pod;
                   if e \<noteq> None then State_Monad.return (e, job, origJob)
                   else recordBaseline r job origJob pod
                 }
               }
             })
      })"

subsection \<open>Failures before the checkpoint\<close>

definition preCheckpointFenceDuration :: "pmj \<Rightarrow> duration io" where
  "preCheckpointFenceDuration job =
     (let byPhase = (case st_SnapshottingStartTime (pmj_Status job) of
            Some t \<Rightarrow> timeSince t
          | None \<Rightarrow> timeSince (pmj_CreationTimestamp job)) in
      case FindStatusCondition (st_Conditions (pmj_Status job)) ConditionSourceFenced of
        Some c \<Rightarrow> if c_Status c = CondTrue then timeSince (c_LastTransitionTime c) else byPhase
      | None \<Rightarrow> byPhase)"

definition fencePreCheckpointCapExceeded :: "reconciler \<Rightarrow> pmj \<Rightarrow> duration option io" where
  "fencePreCheckpointCapExceeded r job =
     (if st_SnapshotRef (pmj_Status job) \<noteq> [] then State_Monad.return None
      else do {
        d \<leftarrow> preCheckpointFenceDuration job;
        State_Monad.return (if d < fencePreCheckpointCap r then None else Some (fencePreCheckpointCap r))
      })"

definition fenceFailure :: "reconciler \<Rightarrow> pmj \<Rightarrow> api_error \<Rightarrow> (string \<times> string) option io" where
  "fenceFailure r job e = do {
     x \<leftarrow> fencePreCheckpointCapExceeded r job;
     State_Monad.return (case x of
       None \<Rightarrow> None
     | Some limit \<Rightarrow> Some (ReasonFenceCapExceeded,
         ''The source stayed fenced for '' @ durationString limit @ '' while fencing couldn't complete: '' @ ae_text e))
   }"

definition triggerFailure :: "reconciler \<Rightarrow> pmj \<Rightarrow> api_error \<Rightarrow> (string \<times> string) option io" where
  "triggerFailure r job e =
     (if ae_reason e = Forbidden \<or> ae_reason e = Invalid \<or> ae_reason e = BadRequest then
        State_Monad.return (Some (ReasonTriggerCreateFailed, ''The checkpoint trigger was rejected, so nothing was checkpointed: '' @ ae_text e))
      else if \<not> IsStatusConditionTrue (st_Conditions (pmj_Status job)) ConditionSourceFenced then State_Monad.return None
      else do {
        x \<leftarrow> fencePreCheckpointCapExceeded r job;
        State_Monad.return (case x of
          None \<Rightarrow> None
        | Some limit \<Rightarrow> Some (ReasonFenceCapExceeded,
            ''The source stayed fenced for '' @ durationString limit @ '' while its checkpoint trigger couldn't be created: '' @ ae_text e))
      })"

definition failSnapshotting :: "reconciler \<Rightarrow> pmj \<Rightarrow> pmj \<Rightarrow> string \<Rightarrow> string \<Rightarrow> (api_error + result) io" where
  "failSnapshotting r job origJob reason message = do {
     _ \<leftarrow> Cleanup (getSnapshotProvider r job) job (pmj_PodRefName job);
     now \<leftarrow> timeNow;
     persistFailure r (failedJob r now reason message job) origJob requeue_now
   }"

subsection \<open>Settling the fence of a job that concluded without a restore\<close>

text \<open>\<open>(ctrl.Result, handled, error)\<close>, and the two copies of the job.\<close>

record fenceStep =
  fs_Result :: result
  fs_Handled :: bool
  fs_Err :: "api_error option"
  fs_Job :: pmj
  fs_Orig :: pmj

definition fenceDone :: "pmj \<Rightarrow> pmj \<Rightarrow> fenceStep" where
  "fenceDone job origJob = \<lparr>fs_Result = no_requeue, fs_Handled = False, fs_Err = None, fs_Job = job, fs_Orig = origJob\<rparr>"

definition fenceRetry :: "duration \<Rightarrow> pmj \<Rightarrow> pmj \<Rightarrow> fenceStep" where
  "fenceRetry d job origJob = \<lparr>fs_Result = requeue_after d, fs_Handled = True, fs_Err = None, fs_Job = job, fs_Orig = origJob\<rparr>"

definition fenceError :: "api_error \<Rightarrow> pmj \<Rightarrow> pmj \<Rightarrow> fenceStep" where
  "fenceError e job origJob = \<lparr>fs_Result = no_requeue, fs_Handled = True, fs_Err = Some e, fs_Job = job, fs_Orig = origJob\<rparr>"

definition removeFenceLabel :: "pod \<Rightarrow> api_error option io" where
  "removeFenceLabel pod =
     (if pod_Labels pod LabelFenced = None then State_Monad.return None
      else do {
        p \<leftarrow> patchSourceMetadata pod [(LabelFenced, None)];
        State_Monad.return (case p of
          Inr _ \<Rightarrow> None
        | Inl e \<Rightarrow> if isNotFound e then None else Some (wrapErr (''removing '' @ LabelFenced @ '' from source pod '' @ pod_Name pod) e))
      })"

definition evictKeptSource :: "pmj \<Rightarrow> pmj \<Rightarrow> pod \<Rightarrow> fenceStep io" where
  "evictKeptSource job origJob pod = do {
     a \<leftarrow> applyFence pod;
     (case a of
        Some e \<Rightarrow> State_Monad.return (fenceError e job origJob)
      | None \<Rightarrow>
          if GetControllerOf pod = None then State_Monad.return (fenceDone job origJob)
          else do {
            v \<leftarrow> evict_pod (pod_Name pod) (pod_UID pod) None;
            State_Monad.return (case v of
              Inr _ \<Rightarrow> fenceRetry fenceSettleInterval job origJob
            | Inl e \<Rightarrow>
                if isNotFound e then fenceRetry fenceSettleInterval job origJob
                else if isTooManyRequests e \<or> isConflict e \<or> isInternalError e then fenceRetry keptSourceEvictionRetryInterval job origJob
                else fenceError (wrapErr (''evicting fenced source pod '' @ pod_Name pod) e) job origJob)
          })
   }"

definition keptAdvice :: "pod \<Rightarrow> string" where
  "keptAdvice pod =
     (if GetControllerOf pod = None
      then ''Nothing replaces a pod without a controller, so it isn't evicted; delete it to release it''
      else ''It's evicted so that its workload controller replaces it'')"

definition keepSourceFenced :: "reconciler \<Rightarrow> pmj \<Rightarrow> pmj \<Rightarrow> pod \<Rightarrow> string \<Rightarrow> fenceStep io" where
  "keepSourceFenced r job origJob pod why = do {
     now \<leftarrow> timeNow;
     let job = setCond (rc_lib r) now ConditionSourceFenced CondTrue ReasonFenceKept
                 (''The source stays fenced: '' @ why @ ''. '' @ keptAdvice pod) job;
     p \<leftarrow> patchStatus job origJob;
     (case p of
        Inl e \<Rightarrow> State_Monad.return (fenceError e job origJob)
      | Inr job \<Rightarrow> do {
          recordPodEvent r job EventTypeWarning ''SourceKeptFenced'';
          evictKeptSource job job pod
        })
   }"

definition unfenceSource :: "reconciler \<Rightarrow> pmj \<Rightarrow> pmj \<Rightarrow> pod \<Rightarrow> string \<Rightarrow> bool \<Rightarrow> fenceStep io" where
  "unfenceSource r job origJob pod why watch = do {
     now \<leftarrow> timeNow;
     let job = setCond (rc_lib r) now ConditionSourceFenced CondFalse ReasonUnfenced (why @ '', so the source is back in service'') job;
     p \<leftarrow> patchStatus job origJob;
     (case p of
        Inl e \<Rightarrow> State_Monad.return (fenceError e job origJob)
      | Inr job \<Rightarrow> do {
          d \<leftarrow> removeFenceLabel pod;
          (case d of
             Some e \<Rightarrow> State_Monad.return (fenceError e job job)
           | None \<Rightarrow> do {
               recordPodEvent r job EventTypeNormal ''SourceUnfenced'';
               State_Monad.return (if watch then fenceRetry lateStopPollInterval job job else fenceDone job job)
             })
        })
   }"

text \<open>A trigger that is still there can start a checkpoint; it is deleted again.\<close>

definition dropUnsettledTrigger :: "reconciler \<Rightarrow> pmj \<Rightarrow> checkpointState \<Rightarrow> unit io" where
  "dropUnsettledTrigger r job state =
     (if \<not> cps_Settled state \<and> \<not> cps_Completed state
      then Cleanup (getSnapshotProvider r job) job (pmj_PodRefName job) \<bind> (\<lambda>_. State_Monad.return ())
      else State_Monad.return ())"

text \<open>\<open>(completed, settled, why)\<close>\<close>

definition checkpointOutcome :: "reconciler \<Rightarrow> pmj \<Rightarrow> (api_error + (bool \<times> bool \<times> string)) io" where
  "checkpointOutcome r job =
     (if st_EvictingStartTime (pmj_Status job) \<noteq> None \<or> mget (pmj_Annotations job) AnnotationEvictingSince \<noteq> []
      then State_Monad.return (Inr (True, True, ''the snapshot was durable, so the engine stopped the source''))
      else (case CheckpointReporter (getSnapshotProvider r job) of
        None \<Rightarrow> State_Monad.return (Inr (True, True, ''the snapshot engine doesn't report whether its checkpoint completed''))
      | Some reporter \<Rightarrow> do {
          s \<leftarrow> reporter job (pmj_PodRefName job);
          (case s of
             Inl e \<Rightarrow> State_Monad.return (Inl e)
           | Inr state \<Rightarrow> do {
               dropUnsettledTrigger r job state;
               State_Monad.return (Inr (cps_Completed state, cps_Settled state, ''the checkpoint completed, so the engine may stop the source''))
             })
        }))"

definition withinFenceSettleTimeout :: "pmj \<Rightarrow> condition \<Rightarrow> bool io" where
  "withinFenceSettleTimeout job cond = do {
     d \<leftarrow> timeSince (case st_CompletionTime (pmj_Status job) of Some t \<Rightarrow> t | None \<Rightarrow> c_LastTransitionTime cond);
     State_Monad.return (d < fenceSettleTimeout)
   }"

definition unfinishedWhy :: "pmj \<Rightarrow> string" where
  "unfinishedWhy job = ''the checkpoint didn't finish within '' @ durationString fenceSettleTimeout @
     (if pmj_DeletionTimestamp job \<noteq> None then '' of deletion'' else '' of the failure'')"

definition untriggeredWhy :: "pmj \<Rightarrow> string" where
  "untriggeredWhy job =
     (if pmj_DeletionTimestamp job \<noteq> None then ''The migration was deleted before its checkpoint was triggered''
      else ''The migration failed before its checkpoint was triggered'')"

text \<open>The decision once it is known whether the checkpoint completed.\<close>

definition settleFence :: "reconciler \<Rightarrow> pmj \<Rightarrow> pmj \<Rightarrow> bool \<Rightarrow> string \<Rightarrow> fenceStep io" where
  "settleFence r job origJob completed why = do {
     g \<leftarrow> sourcePod job (liveReader r);
     (case g of
        Inl e \<Rightarrow> State_Monad.return (fenceError e job origJob)
      | Inr None \<Rightarrow> State_Monad.return (fenceDone job origJob)
      | Inr (Some pod) \<Rightarrow>
          if pod_DeletionTimestamp pod \<noteq> None then State_Monad.return (fenceDone job origJob)
          else if completed then keepSourceFenced r job origJob pod why
          else if \<not> snd (jobFenceBaseline (rc_lib r) job) then unfenceSource r job origJob pod (untriggeredWhy job) False
          else (case unchanged (fst (jobFenceBaseline (rc_lib r) job)) pod of
            (ok, diff) \<Rightarrow>
              if \<not> ok then keepSourceFenced r job origJob pod diff
              else unfenceSource r job origJob pod ''The source never stopped, and its checkpoint never completed''
                     (pmj_DeletionTimestamp job = None)))
   }"

definition decideSourceFence :: "reconciler \<Rightarrow> pmj \<Rightarrow> pmj \<Rightarrow> condition \<Rightarrow> fenceStep io" where
  "decideSourceFence r job origJob cond =
     (if \<not> snd (jobFenceBaseline (rc_lib r) job) \<and> CheckpointReporter (getSnapshotProvider r job) = None then do {
        g \<leftarrow> sourcePod job (liveReader r);
        (case g of
           Inl e \<Rightarrow> State_Monad.return (fenceError e job origJob)
         | Inr None \<Rightarrow> State_Monad.return (fenceDone job origJob)
         | Inr (Some pod) \<Rightarrow> unfenceSource r job origJob pod ''The migration failed before its checkpoint was triggered'' False)
      }
      else do {
        c \<leftarrow> checkpointOutcome r job;
        within \<leftarrow> withinFenceSettleTimeout job cond;
        (case c of
           Inl e \<Rightarrow>
             if within then State_Monad.return (fenceRetry fenceSettleInterval job origJob)
             else settleFence r job origJob True (''the engine's checkpoint state couldn't be read: '' @ ae_text e)
         | Inr (completed, settled, why) \<Rightarrow>
             if \<not> completed \<and> \<not> settled then
               (if within then State_Monad.return (fenceRetry fenceSettleInterval job origJob)
                else settleFence r job origJob True (unfinishedWhy job))
             else settleFence r job origJob completed why)
      })"

definition watchUnfencedSource :: "reconciler \<Rightarrow> pmj \<Rightarrow> pmj \<Rightarrow> condition \<Rightarrow> pod \<Rightarrow> fenceStep io" where
  "watchUnfencedSource r job origJob cond pod = do {
     d \<leftarrow> removeFenceLabel pod;
     (case d of
        Some e \<Rightarrow> State_Monad.return (fenceError e job origJob)
      | None \<Rightarrow> do {
          now \<leftarrow> timeNow;
          let (baseline, triggered) = jobFenceBaseline (rc_lib r) job;
          let remaining = time_sub (c_LastTransitionTime cond + fenceLateStopWatch r) now;
          if \<not> triggered \<or> remaining \<le> 0 \<or> pmj_DeletionTimestamp job \<noteq> None then State_Monad.return (fenceDone job origJob)
          else do {
            let next = fenceRetry (min lateStopPollInterval remaining) job origJob;
            if fst (unchanged baseline pod) then State_Monad.return next
            else do {
              g \<leftarrow> sourcePod job (liveReader r);
              (case g of
                 Inl e \<Rightarrow> State_Monad.return (fenceError e job origJob)
               | Inr None \<Rightarrow> State_Monad.return (fenceDone job origJob)
               | Inr (Some live) \<Rightarrow>
                   if pod_DeletionTimestamp live \<noteq> None then State_Monad.return (fenceDone job origJob)
                   else (case unchanged baseline live of
                     (ok, diff) \<Rightarrow>
                       if ok then State_Monad.return next
                       else do {
                         let job = setCond (rc_lib r) now ConditionSourceFenced CondTrue ReasonFenceKept
                               (''The source stopped after it was returned to service ('' @ diff @ ''), so it's fenced again. '' @ keptAdvice live) job;
                         p \<leftarrow> patchStatus job origJob;
                         (case p of
                            Inl e \<Rightarrow> State_Monad.return (fenceError e job origJob)
                          | Inr job \<Rightarrow> do {
                              recordPodEvent r job EventTypeWarning ''SourceRefencedLateStop'';
                              evictKeptSource job job live
                            })
                       }))
            }
          }
        })
   }"

definition resolveSourceFence :: "reconciler \<Rightarrow> pmj \<Rightarrow> pmj \<Rightarrow> fenceStep io" where
  "resolveSourceFence r job origJob =
     (if st_Phase (pmj_Status job) \<noteq> PhaseFailed \<and> st_Phase (pmj_Status job) \<noteq> PhaseSucceededWithoutRestore
      then State_Monad.return (fenceDone job origJob)
      else (case FindStatusCondition (st_Conditions (pmj_Status job)) ConditionSourceFenced of
        None \<Rightarrow> State_Monad.return (fenceDone job origJob)
      | Some cond \<Rightarrow> do {
          g \<leftarrow> sourcePod job Cached;
          (case g of
             Inl e \<Rightarrow> State_Monad.return (fenceError e job origJob)
           | Inr None \<Rightarrow> State_Monad.return (fenceDone job origJob)
           | Inr (Some pod) \<Rightarrow>
               if pod_DeletionTimestamp pod \<noteq> None then State_Monad.return (fenceDone job origJob)
               else if c_Status cond = CondTrue \<and> c_Reason cond = ReasonFenced then decideSourceFence r job origJob cond
               else if c_Status cond = CondTrue \<and> c_Reason cond = ReasonFenceKept then evictKeptSource job origJob pod
               else if c_Status cond = CondFalse \<and> c_Reason cond = ReasonUnfenced then watchUnfencedSource r job origJob cond pod
               else State_Monad.return (fenceDone job origJob))
        }))"

subsection \<open>Deleting a job that fences its source\<close>

definition failDeleted :: "reconciler \<Rightarrow> pmj \<Rightarrow> pmj \<Rightarrow> (api_error option \<times> pmj \<times> pmj) io" where
  "failDeleted r job origJob =
     (if IsTerminalPhase (st_Phase (pmj_Status job)) then State_Monad.return (None, job, origJob)
      else do {
        now \<leftarrow> timeNow;
        let job = setStatus (\<lambda>s. s\<lparr>st_Phase := PhaseFailed,
                    st_CompletionTime := (case st_CompletionTime s of None \<Rightarrow> Some now | Some t \<Rightarrow> Some t)\<rparr>) job;
        let job = setCond (rc_lib r) now ConditionReady CondFalse ''Deleted'' ''PodMigrationJob was deleted before migration completed'' job;
        p \<leftarrow> patchStatus job origJob;
        (case p of
           Inl e \<Rightarrow> State_Monad.return (Some e, job, origJob)
         | Inr job \<Rightarrow> do {
             recordPodEvent r job EventTypeWarning ''MigrationFailed'';
             State_Monad.return (None, job, job)
           })
      })"

definition dropFinalizer :: "pmj \<Rightarrow> pmj \<Rightarrow> (api_error + result) io" where
  "dropFinalizer job origJob = do {
     (e, _, _) \<leftarrow> removeSourceFenceFinalizer job origJob;
     State_Monad.return (case e of None \<Rightarrow> Inr no_requeue | Some e \<Rightarrow> Inl e)
   }"

text \<open>\<open>live, lerr := r.sourcePod(...)\<close> in the deletion path: the source is known to be gone or going.\<close>

definition sourceGone :: "reconciler \<Rightarrow> fenceStep \<Rightarrow> bool io" where
  "sourceGone r s =
     (if fs_Err s \<noteq> None then State_Monad.return False
      else do {
        g \<leftarrow> sourcePod (fs_Job s) (liveReader r);
        State_Monad.return (case g of
          Inl _ \<Rightarrow> False
        | Inr None \<Rightarrow> True
        | Inr (Some live) \<Rightarrow> pod_DeletionTimestamp live \<noteq> None)
      })"

text \<open>The job is being deleted, so it has a deletion timestamp.\<close>

definition unwedgeAnchor :: "pmj \<Rightarrow> time" where
  "unwedgeAnchor job =
     (let d = (case pmj_DeletionTimestamp job of Some d \<Rightarrow> d | None \<Rightarrow> zero_time) in
      case st_CompletionTime (pmj_Status job) of
        None \<Rightarrow> d
      | Some t \<Rightarrow> if d < t then t else d)"

definition finalizeSourceFence :: "reconciler \<Rightarrow> pmj \<Rightarrow> pmj \<Rightarrow> (api_error + result) io" where
  "finalizeSourceFence r job origJob = do {
     _ \<leftarrow> Cleanup (getSnapshotProvider r job) job (pmj_PodRefName job);
     (e, job, origJob) \<leftarrow> failDeleted r job origJob;
     (case e of
        Some e \<Rightarrow> State_Monad.return (Inl e)
      | None \<Rightarrow> do {
          s \<leftarrow> resolveSourceFence r job origJob;
          if \<not> fs_Handled s \<and> fs_Err s = None then dropFinalizer (fs_Job s) (fs_Orig s)
          else do {
            gone \<leftarrow> sourceGone r s;
            if gone then dropFinalizer (fs_Job s) (fs_Orig s)
            else do {
              d \<leftarrow> timeSince (unwedgeAnchor (fs_Job s));
              if d \<ge> fenceDeleteUnwedgeTimeout r then do {
                recordPodEvent r (fs_Job s) EventTypeWarning ''SourceFenceDeleteTimedOut'';
                dropFinalizer (fs_Job s) (fs_Orig s)
              }
              else State_Monad.return (case fs_Err s of Some e \<Rightarrow> Inl e | None \<Rightarrow> Inr (fs_Result s))
            }
          }
        })
   }"

end
