(* ===== verification/JobController.thy ===== *)
theory JobController
  imports Fence Verdict
begin

text \<open>
  \<open>PodMigrationJobReconciler.Reconcile\<close> (\<open>controller/podmigrationjob_controller.go\<close>): the state
  machine of a migration. One definition per phase, composed by \<open>Reconcile\<close>.

  \<^item> \<open>job\<close> is the working copy and \<open>origJob\<close> the copy the status patches are computed against;
    a successful patch or update replaces \<open>job\<close> by the server's copy and leaves \<open>origJob\<close>,
    as in the code.
  \<^item> The namespace and the name of the request are those of the job it reads.
  \<^item> The deferred evaluation of the invariant engine is \<open>Guarded.evaluateJob\<close>.
\<close>

section \<open>Definitions\<close>

subsection \<open>Deadlines\<close>

definition evictionBlocked :: "pmj \<Rightarrow> (string \<times> string) option" where
  "evictionBlocked job =
     (let conds = st_Conditions (pmj_Status job);
          isPDBBlocked = IsStatusConditionTrue conds ConditionBlockedByPDB;
          isMisconfigured = IsStatusConditionTrue conds ConditionEvictionMisconfigured
      in if st_Phase (pmj_Status job) \<noteq> PhaseEvicting then None
         else if isMisconfigured then Some (''EvictionMisconfiguredTimeout'',
           ''Origin pod eviction timed out due to eviction configuration error (500 InternalServerError / multiple PDBs)'')
         else if isPDBBlocked then Some (''PDBEvictionTimeout'', ''Origin pod eviction timed out while waiting for PDB budget'')
         else None)"

text \<open>The annotation that keeps the webhook from starting another migration of this pod.\<close>

definition markEvictionTimeout :: "pmj \<Rightarrow> api_error option io" where
  "markEvictionTimeout job = do {
     g \<leftarrow> get_pod Cached (pmj_PodRefName job);
     (case g of
        Inl _ \<Rightarrow> State_Monad.return None
      | Inr pod \<Rightarrow>
          if pmj_TargetPodUID job = [] \<or> pod_UID pod = pmj_TargetPodUID job then do {
            u \<leftarrow> update_pod (pod\<lparr>pod_Annotations := (pod_Annotations pod)(AnnotationPDBEvictionTimeout \<mapsto> ''true'')\<rparr>);
            State_Monad.return (case u of Inl e \<Rightarrow> Some e | Inr _ \<Rightarrow> None)
          }
          else State_Monad.return None)
   }"

definition timeoutReason :: "pmj \<Rightarrow> duration \<Rightarrow> string \<times> string" where
  "timeoutReason job migrationTimeout =
     (if refusedByDisruptionBudget job then
        (ReasonDisruptionBudgetTimeout, ''Migration job timed out (exceeded '' @ durationString migrationTimeout @
          '' limit) waiting for the PodDisruptionBudget; nothing was checkpointed, and the next eviction starts a new job'')
      else (''Timeout'', ''Migration job timed out (exceeded '' @ durationString migrationTimeout @ '' limit)''))"

definition timeOut :: "reconciler \<Rightarrow> pmj \<Rightarrow> pmj \<Rightarrow> duration \<Rightarrow> (api_error + result) io" where
  "timeOut r job origJob migrationTimeout =
     (case evictionBlocked job of
        Some (reason, message) \<Rightarrow> do {
          a \<leftarrow> markEvictionTimeout job;
          (case a of
             Some e \<Rightarrow> State_Monad.return (Inl e)
           | None \<Rightarrow> do {
               p \<leftarrow> markSucceededWithoutRestore r job origJob reason message;
               State_Monad.return (case p of Inl e \<Rightarrow> handleStatusError e | Inr _ \<Rightarrow> Inr no_requeue)
             })
        }
      | None \<Rightarrow> do {
          now \<leftarrow> timeNow;
          let job = failedJob r now (fst (timeoutReason job migrationTimeout)) (snd (timeoutReason job migrationTimeout)) job;
          _ \<leftarrow> Cleanup (getSnapshotProvider r job) job (pmj_PodRefName job);
          persistFailure r job origJob no_requeue
        })"

definition hasDeadline :: "phase \<Rightarrow> bool" where
  "hasDeadline ph = (ph = PhasePending \<or> ph = PhaseSnapshotting \<or> ph = PhaseEvicting)"

text \<open>\<open>None\<close>: the job goes on.\<close>

definition enforceDeadline :: "reconciler \<Rightarrow> pmj \<Rightarrow> pmj \<Rightarrow> (api_error + result) option io" where
  "enforceDeadline r job origJob =
     (if \<not> hasDeadline (st_Phase (pmj_Status job)) then State_Monad.return None
      else do {
        let migrationTimeout = getMigrationTimeout r job;
        d \<leftarrow> timeSince (migrationDeadlineAnchor job);
        if d \<le> migrationTimeout then State_Monad.return None
        else do {
          progressing \<leftarrow> isSnapshotProgressing r job migrationTimeout;
          if progressing then State_Monad.return None
          else do {
            within \<leftarrow> isEvictionWithinBudget r job;
            if within then State_Monad.return None
            else do {
              res \<leftarrow> timeOut r job origJob migrationTimeout;
              State_Monad.return (Some res)
            }
          }
        }
      })"

subsection \<open>Concluded jobs\<close>

definition ttlAfterCompletion :: duration where
  "ttlAfterCompletion = 30 * minute"

definition collectGarbage :: "pmj \<Rightarrow> (api_error + result) io" where
  "collectGarbage job = do {
     gated \<leftarrow> hasGatedClaimant job;
     (case gated of
        Inl e \<Rightarrow> State_Monad.return (Inl e)
      | Inr True \<Rightarrow> State_Monad.return (Inr (requeue_after (15 * second)))
      | Inr False \<Rightarrow> do {
          d \<leftarrow> deleteJob (pmj_Name job);
          State_Monad.return (case d of
            Inr _ \<Rightarrow> Inr no_requeue
          | Inl e \<Rightarrow> if isNotFound e then Inr no_requeue else Inl e)
        })
   }"

definition scaleDownKind :: "string \<Rightarrow> bool" where
  "scaleDownKind kind = (kind = ''Deployment'' \<or> kind = ''ReplicaSet'' \<or> kind = ''StatefulSet'')"

definition requeueAtTTL :: "pmj \<Rightarrow> time \<Rightarrow> result" where
  "requeueAtTTL job now =
     (case st_CompletionTime (pmj_Status job) of
        None \<Rightarrow> no_requeue
      | Some t \<Rightarrow> requeue_after (wrap64 (ttlAfterCompletion - time_sub now t)))"

definition requeueZombie :: "pmj \<Rightarrow> time \<Rightarrow> result" where
  "requeueZombie job now =
     (case st_CompletionTime (pmj_Status job) of
        None \<Rightarrow> requeue_after minute
      | Some t \<Rightarrow> (let requeueIn = wrap64 (ttlAfterCompletion - time_sub now t) in
          requeue_after (if requeueIn \<le> minute then requeueIn else minute)))"

definition reconcileConcluded :: "reconciler \<Rightarrow> pmj \<Rightarrow> (api_error + result) io" where
  "reconcileConcluded r job = do {
     now \<leftarrow> timeNow;
     if (case st_CompletionTime (pmj_Status job) of None \<Rightarrow> False | Some t \<Rightarrow> time_sub now t > ttlAfterCompletion)
     then collectGarbage job
     else if st_Phase (pmj_Status job) = PhaseSucceededWithoutRestore \<and> \<not> st_Consumed (pmj_Status job) then do {
       c \<leftarrow> cleanupScaleDownZombie r job;
       State_Monad.return (case c of
         Inl e \<Rightarrow> Inl e
       | Inr True \<Rightarrow> Inr no_requeue
       | Inr False \<Rightarrow>
           if scaleDownKind (mget (pmj_Labels job) LabelParentKind) then Inr (requeueZombie job now)
           else Inr (requeueAtTTL job now))
     }
     else State_Monad.return (Inr (requeueAtTTL job now))
   }"

subsection \<open>Pending\<close>

definition needsSource :: "pmj \<Rightarrow> bool" where
  "needsSource job =
     (st_PVsToDetach (pmj_Status job) = [] \<or> st_OriginNodeName (pmj_Status job) = [] \<or>
      mget (pmj_Annotations job) AnnotationMigrationTimeout = [] \<or> WaitingForDisruptionBudget job)"

fun collectPVs :: "string list \<Rightarrow> (api_error + string list) io" where
  "collectPVs [] = State_Monad.return (Inr [])"
| "collectPVs (claim # claims) = do {
     g \<leftarrow> get_pvc Cached claim;
     (case g of
        Inl e \<Rightarrow> if isNotFound e then collectPVs claims else State_Monad.return (Inl e)
      | Inr v \<Rightarrow> do {
          rest \<leftarrow> collectPVs claims;
          State_Monad.return (case rest of
            Inl e \<Rightarrow> Inl e
          | Inr pvs \<Rightarrow> Inr (if pvc_VolumeName v \<noteq> [] then pvc_VolumeName v # pvs else pvs))
        })
   }"

text \<open>The timeout annotation of a job is written only when it differs from the controller's default.\<close>

definition timeoutAnnotation :: "reconciler \<Rightarrow> pmj \<Rightarrow> pod \<Rightarrow> string option" where
  "timeoutAnnotation r job pod =
     (if mget (pmj_Annotations job) AnnotationMigrationTimeout \<noteq> [] then None
      else let calculated = CalculateMigrationTimeout (rc_lib r) (mget (pod_Annotations pod) AnnotationMigrationTimeout)
                 (CalculatePodMemoryRequest pod) (rc_DefaultMigrationTimeout r);
               base = (if rc_DefaultMigrationTimeout r \<le> 0 then DefaultMigrationTimeout else rc_DefaultMigrationTimeout r)
           in if calculated \<noteq> base then Some (durationString calculated) else None)"

definition terminatedReason :: "pod \<Rightarrow> bool \<Rightarrow> string \<times> string" where
  "terminatedReason pod isShutdown =
     (if isShutdown then (''NodeShutdown'', ''Origin pod was terminated due to node shutdown before snapshotting could start'')
      else (''OriginPodTerminated'', ''Origin pod entered terminal phase '' @ pod_phase_string (pod_Phase pod) @ '' before snapshotting could start''))"

text \<open>The origin node and the timeout annotation, and whether the annotation is new.\<close>

definition learnSource :: "reconciler \<Rightarrow> pmj \<Rightarrow> pod \<Rightarrow> pmj \<times> bool" where
  "learnSource r job pod =
     (let job = (if st_OriginNodeName (pmj_Status job) = [] \<and> pod_NodeName pod \<noteq> []
                 then setStatus (\<lambda>s. s\<lparr>st_OriginNodeName := pod_NodeName pod\<rparr>) job else job)
      in case timeoutAnnotation r job pod of
           None \<Rightarrow> (job, False)
         | Some v \<Rightarrow> (job\<lparr>pmj_Annotations := (pmj_Annotations job)(AnnotationMigrationTimeout \<mapsto> v)\<rparr>, True))"

text \<open>
  What the job learns from its source. \<open>Inl\<close>: the reconcile ends here; \<open>Inr\<close>: the job, and
  whether its annotation has to be written.
\<close>

definition inspectSource :: "reconciler \<Rightarrow> pmj \<Rightarrow> pmj \<Rightarrow> ((api_error + result) + (pmj \<times> bool)) io" where
  "inspectSource r job origJob = do {
     g \<leftarrow> get_pod Cached (pmj_PodRefName job);
     (case g of
        Inl e \<Rightarrow>
          if isNotFound e then do {
            res \<leftarrow> failJob r job origJob ''PodNotFound'' ''Origin pod no longer exists in Pending state'';
            State_Monad.return (Inl res)
          }
          else State_Monad.return (Inl (Inl e))
      | Inr pod \<Rightarrow>
          if pod_UID pod \<noteq> pmj_TargetPodUID job then do {
            res \<leftarrow> failJob r job origJob ''PodNotFound'' ''Origin pod UID mismatch in Pending state'';
            State_Monad.return (Inl res)
          }
          else if pod_Phase pod = PodFailed \<or> pod_Phase pod = PodSucceeded then do {
            isShutdown \<leftarrow> isOriginPodTerminatedDueToNodeShutdown (Some pod);
            res \<leftarrow> failJob r job origJob (fst (terminatedReason pod isShutdown)) (snd (terminatedReason pod isShutdown));
            State_Monad.return (Inl res)
          }
          else do {
            let (job, updated) = learnSource r job pod;
            if st_PVsToDetach (pmj_Status job) = [] then do {
              c \<leftarrow> collectPVs (pod_VolumeClaims pod);
              State_Monad.return (case c of
                Inl e \<Rightarrow> Inl (Inl e)
              | Inr pvs \<Rightarrow> Inr (setStatus (\<lambda>s. s\<lparr>st_PVsToDetach := pvs\<rparr>) job, updated))
            }
            else State_Monad.return (Inr (job, updated))
          })
   }"

text \<open>\<open>job.ObjectMeta = *jobToUpdate.ObjectMeta.DeepCopy()\<close>\<close>

definition withMeta :: "pmj \<Rightarrow> pmj \<Rightarrow> pmj" where
  "withMeta from job = from\<lparr>pmj_PodRefName := pmj_PodRefName job, pmj_TargetPodUID := pmj_TargetPodUID job, pmj_Status := pmj_Status job\<rparr>"

definition enterSnapshotting :: "reconciler \<Rightarrow> pmj \<Rightarrow> pmj \<Rightarrow> (api_error + result) io" where
  "enterSnapshotting r job origJob = do {
     now \<leftarrow> timeNow;
     let job = setStatus (\<lambda>s. s\<lparr>st_Phase := PhaseSnapshotting, st_SnapshottingStartTime := Some now\<rparr>) job;
     let job = setCond (rc_lib r) now ConditionReady CondFalse ''Snapshotting'' ''Taking pod snapshot'' job;
     p \<leftarrow> patchStatus job origJob;
     (case p of
        Inl e \<Rightarrow> State_Monad.return (handleStatusError e)
      | Inr job \<Rightarrow> do {
          recordPodEvent r job EventTypeNormal ''MigrationStarted'';
          State_Monad.return (Inr requeue_now)
        })
   }"

definition checkBudgetAndStart :: "reconciler \<Rightarrow> pmj \<Rightarrow> pmj \<Rightarrow> (api_error + result) io" where
  "checkBudgetAndStart r job origJob =
     (case rc_BudgetChecker r of
        None \<Rightarrow> enterSnapshotting r job origJob
      | Some Check \<Rightarrow>
          if skipsDisruptionBudgetCheck job then enterSnapshotting r job origJob
          else do {
            b \<leftarrow> checkDisruptionBudget r Check job origJob (pmj_PodRefName job);
            (case b of
               Inl e \<Rightarrow> State_Monad.return (handleStatusError e)
             | Inr (job, res, proceed) \<Rightarrow> if proceed then enterSnapshotting r job origJob else State_Monad.return (Inr res))
          })"

definition reconcilePending :: "reconciler \<Rightarrow> pmj \<Rightarrow> pmj \<Rightarrow> (api_error + result) io" where
  "reconcilePending r job origJob = do {
     i \<leftarrow> (if needsSource job then inspectSource r job origJob else State_Monad.return (Inr (job, False)));
     (case i of
        Inl res \<Rightarrow> State_Monad.return res
      | Inr (job, annotationUpdated) \<Rightarrow>
          if annotationUpdated then do {
            u \<leftarrow> updateJob job;
            (case u of
               Inl e \<Rightarrow> State_Monad.return (handleStatusError e)
             | Inr upd \<Rightarrow> checkBudgetAndStart r (withMeta upd job) (withMeta upd origJob))
          }
          else checkBudgetAndStart r job origJob)
   }"

subsection \<open>Snapshotting\<close>

definition snapshotFailureReason :: "snapStatus \<Rightarrow> string" where
  "snapshotFailureReason st =
     (if sst_Reason st \<noteq> [] then sst_Reason st
      else if sst_Phase st = SnapRefused then ''SnapshotRefused'' else ''SnapshotFailed'')"

definition enterEvicting :: "reconciler \<Rightarrow> pmj \<Rightarrow> pmj \<Rightarrow> string \<Rightarrow> (api_error + result) io" where
  "enterEvicting r job origJob ref = do {
     now \<leftarrow> timeNow;
     let job = setStatus (\<lambda>s. s\<lparr>st_Phase := PhaseEvicting, st_EvictingStartTime := Some now, st_SnapshotRef := ref\<rparr>) job;
     let job = setCond (rc_lib r) now ConditionReady CondFalse ''Evicting''
                 ''Snapshot durable; waiting for origin pod eviction and volume detachment'' job;
     p \<leftarrow> patchStatus job origJob;
     (case p of
        Inl e \<Rightarrow> State_Monad.return (handleStatusError e)
      | Inr job \<Rightarrow> do {
          recordPodEvent r job EventTypeNormal ''CheckpointReady'';
          State_Monad.return (Inr requeue_now)
        })
   }"

definition terminatedWhileSnapshotting :: "pod \<Rightarrow> bool \<Rightarrow> string \<times> string" where
  "terminatedWhileSnapshotting pod isShutdown =
     (if isShutdown then (''NodeShutdown'', ''Origin pod was terminated due to node shutdown during snapshotting'')
      else (''OriginPodTerminated'', ''Origin pod entered terminal phase '' @ pod_phase_string (pod_Phase pod) @ '' during snapshotting''))"

definition recordProgress :: "reconciler \<Rightarrow> pmj \<Rightarrow> pmj \<Rightarrow> snapStatus \<Rightarrow> (api_error + result) io" where
  "recordProgress r job origJob st = do {
     now \<leftarrow> timeNow;
     let condChanged = setCondChanges (rc_lib r) now ConditionReady CondFalse (sst_Reason st) (sst_Message st) job;
     let job = setCond (rc_lib r) now ConditionReady CondFalse (sst_Reason st) (sst_Message st) job;
     let refChanged = (sst_SnapshotRef st \<noteq> [] \<and> st_SnapshotRef (pmj_Status job) \<noteq> sst_SnapshotRef st);
     let job = (if refChanged then setStatus (\<lambda>s. s\<lparr>st_SnapshotRef := sst_SnapshotRef st\<rparr>) job else job);
     if condChanged \<or> refChanged then do {
       p \<leftarrow> patchStatus job origJob;
       State_Monad.return (case p of Inl e \<Rightarrow> handleStatusError e | Inr _ \<Rightarrow> Inr (requeue_after (30 * second)))
     }
     else State_Monad.return (Inr (requeue_after (30 * second)))
   }"

definition snapshotInProgress :: "reconciler \<Rightarrow> pmj \<Rightarrow> pmj \<Rightarrow> snapStatus \<Rightarrow> (api_error + result) io" where
  "snapshotInProgress r job origJob st = do {
     g \<leftarrow> get_pod Cached (pmj_PodRefName job);
     (case g of
        Inl _ \<Rightarrow> recordProgress r job origJob st
      | Inr pod \<Rightarrow>
          if pod_Phase pod = PodFailed \<or> pod_Phase pod = PodSucceeded then do {
            isShutdown \<leftarrow> isOriginPodTerminatedDueToNodeShutdown (Some pod);
            _ \<leftarrow> Cleanup (getSnapshotProvider r job) job (pmj_PodRefName job);
            failJob r job origJob (fst (terminatedWhileSnapshotting pod isShutdown)) (snd (terminatedWhileSnapshotting pod isShutdown))
          }
          else recordProgress r job origJob st)
   }"

definition monitorSnapshot :: "reconciler \<Rightarrow> pmj \<Rightarrow> pmj \<Rightarrow> (api_error + result) io" where
  "monitorSnapshot r job origJob = do {
     c \<leftarrow> CheckStatus (getSnapshotProvider r job) job (pmj_PodRefName job);
     (case c of
        Inl e \<Rightarrow> State_Monad.return (Inl e)
      | Inr st \<Rightarrow>
          (case sst_Phase st of
             SnapReady \<Rightarrow> enterEvicting r job origJob (sst_SnapshotRef st)
           | SnapInProgress \<Rightarrow> snapshotInProgress r job origJob st
           | _ \<Rightarrow> do {
               _ \<leftarrow> Cleanup (getSnapshotProvider r job) job (pmj_PodRefName job);
               failJob r job origJob (snapshotFailureReason st) (sst_Message st)
             }))
   }"

definition triggerAndMonitor :: "reconciler \<Rightarrow> pmj \<Rightarrow> pmj \<Rightarrow> (api_error + result) io" where
  "triggerAndMonitor r job origJob = do {
     t \<leftarrow> EnsureTrigger (getSnapshotProvider r job) job (pmj_PodRefName job);
     (case t of
        Inl e \<Rightarrow> do {
          f \<leftarrow> triggerFailure r job e;
          (case f of
             Some (reason, message) \<Rightarrow> failSnapshotting r job origJob reason message
           | None \<Rightarrow> State_Monad.return (Inl e))
        }
      | Inr res \<Rightarrow> if Requeue res \<or> RequeueAfter res \<noteq> 0 then State_Monad.return (Inr res) else monitorSnapshot r job origJob)
   }"

definition reconcileSnapshotting :: "reconciler \<Rightarrow> pmj \<Rightarrow> pmj \<Rightarrow> (api_error + result) io" where
  "reconcileSnapshotting r job origJob = do {
     (fenced, job, origJob) \<leftarrow> fenceSource r job origJob;
     (case fenced of
        Some e \<Rightarrow> do {
          f \<leftarrow> fenceFailure r job e;
          (case f of
             Some (reason, message) \<Rightarrow> failSnapshotting r job origJob reason message
           | None \<Rightarrow> State_Monad.return (handleStatusError e))
        }
      | None \<Rightarrow> triggerAndMonitor r job origJob)
   }"

subsection \<open>Evicting\<close>

definition initEvictingStart :: "reconciler \<Rightarrow> pmj \<Rightarrow> pmj \<Rightarrow> (api_error + pmj) io" where
  "initEvictingStart r job origJob =
     (if st_EvictingStartTime (pmj_Status job) \<noteq> None then State_Monad.return (Inr job)
      else do {
        now \<leftarrow> timeNow;
        let s = mget (pmj_Annotations job) AnnotationEvictingSince;
        let startTime = (if s = [] then now else case parseEvictingSince (rc_lib r) s of Some t \<Rightarrow> t | None \<Rightarrow> now);
        patchStatus (setStatus (\<lambda>s. s\<lparr>st_EvictingStartTime := Some startTime\<rparr>) job) origJob
      })"

text \<open>\<open>newPostCheckpointEviction\<close>: a one-second grace period, and no precondition on the pod's UID.\<close>

definition postCheckpointEviction :: "pod \<Rightarrow> (api_error + pod) io" where
  "postCheckpointEviction pod = evict_pod (pod_Name pod) [] (Some postCheckpointEvictionGracePeriodSeconds)"

definition stampEvictingSince :: "reconciler \<Rightarrow> time \<Rightarrow> pmj \<Rightarrow> pmj" where
  "stampEvictingSince r now job =
     job\<lparr>pmj_Annotations := (pmj_Annotations job)(AnnotationEvictingSince \<mapsto> FormatRFC3339Nano (rc_lib r) now)\<rparr>"

text \<open>A drain may have started the deletion with the pod's full grace period; shortening it is best effort.\<close>

definition shortenGrace :: "pod \<Rightarrow> unit io" where
  "shortenGrace pod =
     (case pod_DeletionGracePeriodSeconds pod of
        None \<Rightarrow> State_Monad.return ()
      | Some g \<Rightarrow>
          if g > postCheckpointEvictionGracePeriodSeconds
          then postCheckpointEviction pod \<bind> (\<lambda>_. State_Monad.return ())
          else State_Monad.return ())"

definition recordEvictingSince :: "reconciler \<Rightarrow> pmj \<Rightarrow> unit io" where
  "recordEvictingSince r job =
     (if mget (pmj_Annotations job) AnnotationEvictingSince = [] then do {
        now \<leftarrow> timeNow;
        _ \<leftarrow> updateJob (stampEvictingSince r now job);
        State_Monad.return ()
      }
      else State_Monad.return ())"

definition awaitTermination :: "reconciler \<Rightarrow> pmj \<Rightarrow> pod \<Rightarrow> (api_error + result) io" where
  "awaitTermination r job pod = do {
     shortenGrace pod;
     recordEvictingSince r job;
     State_Monad.return (Inr (requeue_after (2 * second)))
   }"

text \<open>A status patch that is only sent when \<open>meta.SetStatusCondition\<close> reported a change.\<close>

definition patchIfChanged :: "bool \<Rightarrow> pmj \<Rightarrow> pmj \<Rightarrow> result \<Rightarrow> (api_error + result) io" where
  "patchIfChanged changed job origJob res =
     (if changed then do {
        p \<leftarrow> patchStatus job origJob;
        State_Monad.return (case p of Inl e \<Rightarrow> handleStatusError e | Inr _ \<Rightarrow> Inr res)
      }
      else State_Monad.return (Inr res))"

definition evictionAccepted :: "reconciler \<Rightarrow> pmj \<Rightarrow> pmj \<Rightarrow> (api_error + result) io" where
  "evictionAccepted r job origJob = do {
     now \<leftarrow> timeNow;
     let message = ''Origin pod eviction accepted by eviction subresource'';
     let updatedPDB = setCondChanges (rc_lib r) now ConditionBlockedByPDB CondFalse ''EvictionInitiated'' message job;
     let job = setCond (rc_lib r) now ConditionBlockedByPDB CondFalse ''EvictionInitiated'' message job;
     let updatedMisconfig = setCondChanges (rc_lib r) now ConditionEvictionMisconfigured CondFalse ''EvictionInitiated'' message job;
     let job = setCond (rc_lib r) now ConditionEvictionMisconfigured CondFalse ''EvictionInitiated'' message job;
     patchIfChanged (updatedPDB \<or> updatedMisconfig) job origJob (requeue_after (2 * second))
   }"

definition evictionBlockedBy :: "reconciler \<Rightarrow> pmj \<Rightarrow> pmj \<Rightarrow> string \<Rightarrow> string \<Rightarrow> string \<Rightarrow> (api_error + result) io" where
  "evictionBlockedBy r job origJob typ reason message = do {
     now \<leftarrow> timeNow;
     patchIfChanged (setCondChanges (rc_lib r) now typ CondTrue reason message job)
       (setCond (rc_lib r) now typ CondTrue reason message job) origJob (requeue_after (5 * second))
   }"

definition requestEviction :: "reconciler \<Rightarrow> pmj \<Rightarrow> pmj \<Rightarrow> pod \<Rightarrow> (api_error + result) io" where
  "requestEviction r job origJob pod = do {
     v \<leftarrow> postCheckpointEviction pod;
     (case v of
        Inr _ \<Rightarrow> evictionAccepted r job origJob
      | Inl e \<Rightarrow>
          if isNotFound e then evictionAccepted r job origJob
          else if isTooManyRequests e \<or> isConflict e then
            evictionBlockedBy r job origJob ConditionBlockedByPDB ''PDBBudgetExhausted''
              ''Origin pod eviction delayed by PodDisruptionBudget; waiting for budget''
          else if isInternalError e then
            evictionBlockedBy r job origJob ConditionEvictionMisconfigured ''MultiplePDBsOrInternalError''
              ''Origin pod eviction failed with 500 InternalServerError; check if pod is covered by multiple conflicting PDBs''
          else State_Monad.return (Inl e))
   }"

definition evictOrigin :: "reconciler \<Rightarrow> pmj \<Rightarrow> pmj \<Rightarrow> pod \<Rightarrow> (api_error + result) io" where
  "evictOrigin r job origJob pod = do {
     p \<leftarrow> (if st_OriginNodeName (pmj_Status job) = [] \<and> pod_NodeName pod \<noteq> []
          then patchStatus (setStatus (\<lambda>s. s\<lparr>st_OriginNodeName := pod_NodeName pod\<rparr>) job) origJob
          else State_Monad.return (Inr job));
     (case p of
        Inl e \<Rightarrow> State_Monad.return (handleStatusError e)
      | Inr job \<Rightarrow>
          if pod_DeletionTimestamp pod \<noteq> None then awaitTermination r job pod
          else if mget (pmj_Annotations job) AnnotationEvictingSince = [] then do {
            now \<leftarrow> timeNow;
            let job = stampEvictingSince r now job;
            recordPodEvent r job EventTypeNormal ''EvictedForMigration'';
            u \<leftarrow> updateJob job;
            State_Monad.return (case u of Inl e \<Rightarrow> Inl e | Inr _ \<Rightarrow> Inr requeue_now)
          }
          else requestEviction r job origJob pod)
   }"

text \<open>Whether a volume of the job is still attached (to the origin node, when that is known).\<close>

definition blocksDetach :: "pmj \<Rightarrow> volume_attachment \<Rightarrow> bool" where
  "blocksDetach job va =
     (\<not> (st_OriginNodeName (pmj_Status job) \<noteq> [] \<and> va_NodeName va \<noteq> st_OriginNodeName (pmj_Status job)) \<and> va_Attached va)"

fun activeAttachment :: "pmj \<Rightarrow> string list \<Rightarrow> (api_error + bool) io" where
  "activeAttachment job [] = State_Monad.return (Inr False)"
| "activeAttachment job (targetPV # pvs) =
     (if targetPV = [] then activeAttachment job pvs
      else do {
        l \<leftarrow> list_vas Cached targetPV;
        (case l of
           Inl e \<Rightarrow> State_Monad.return (Inl e)
         | Inr vas \<Rightarrow> if list_ex (blocksDetach job) vas then State_Monad.return (Inr True) else activeAttachment job pvs)
      })"

definition enterRestoring :: "reconciler \<Rightarrow> pmj \<Rightarrow> pmj \<Rightarrow> (api_error + result) io" where
  "enterRestoring r job origJob = do {
     now \<leftarrow> timeNow;
     let job = setStatus (\<lambda>s. s\<lparr>st_Phase := PhaseRestoring, st_RestoringStartTime := Some now\<rparr>) job;
     let job = setCond (rc_lib r) now ConditionReady CondFalse ''RestoringState''
                 ''Snapshot durable and PVs detached; waiting for replacement pod restore'' job;
     p \<leftarrow> patchStatus job origJob;
     (case p of
        Inl e \<Rightarrow> State_Monad.return (handleStatusError e)
      | Inr job \<Rightarrow> dropFinalizer job origJob)
   }"

definition detachAndRestore :: "reconciler \<Rightarrow> pmj \<Rightarrow> pmj \<Rightarrow> (api_error + result) io" where
  "detachAndRestore r job origJob = do {
     c \<leftarrow> Cleanup (getSnapshotProvider r job) job (pmj_PodRefName job);
     (case c of
        Some e \<Rightarrow> State_Monad.return (Inl e)
      | None \<Rightarrow> do {
          a \<leftarrow> activeAttachment job (st_PVsToDetach (pmj_Status job));
          (case a of
             Inl e \<Rightarrow> State_Monad.return (Inl e)
           | Inr True \<Rightarrow> do {
               now \<leftarrow> timeNow;
               let message = ''Waiting for PVs to detach: ['' @ joinWith '' '' (st_PVsToDetach (pmj_Status job)) @ '']'';
               patchIfChanged (setCondChanges (rc_lib r) now ConditionReady CondFalse ''WaitingForVolumeDetach'' message job)
                 (setCond (rc_lib r) now ConditionReady CondFalse ''WaitingForVolumeDetach'' message job) origJob (requeue_after (3 * second))
             }
           | Inr False \<Rightarrow> enterRestoring r job origJob)
        })
   }"

definition originGone :: "reconciler \<Rightarrow> pmj \<Rightarrow> pmj \<Rightarrow> (api_error + result) io" where
  "originGone r job origJob = do {
     now \<leftarrow> timeNow;
     let (job, changed) = clearEvictionBlockageConditions r now job;
     p \<leftarrow> (if changed then patchStatus job origJob else State_Monad.return (Inr job));
     (case p of
        Inl e \<Rightarrow> State_Monad.return (handleStatusError e)
      | Inr job \<Rightarrow> detachAndRestore r job origJob)
   }"

definition reconcileEvicting :: "reconciler \<Rightarrow> pmj \<Rightarrow> pmj \<Rightarrow> (api_error + result) io" where
  "reconcileEvicting r job origJob = do {
     i \<leftarrow> initEvictingStart r job origJob;
     (case i of
        Inl e \<Rightarrow> State_Monad.return (handleStatusError e)
      | Inr job \<Rightarrow> do {
          _ \<leftarrow> Cleanup (getSnapshotProvider r job) job (pmj_PodRefName job);
          g \<leftarrow> get_pod Cached (pmj_PodRefName job);
          (case g of
             Inl e \<Rightarrow> if isNotFound e then originGone r job origJob else State_Monad.return (Inl e)
           | Inr pod \<Rightarrow> if pod_UID pod = pmj_TargetPodUID job then evictOrigin r job origJob pod else originGone r job origJob)
        })
   }"

subsection \<open>Restoring\<close>

definition initRestoringStart :: "pmj \<Rightarrow> pmj \<Rightarrow> (api_error + pmj) io" where
  "initRestoringStart job origJob =
     (if st_RestoringStartTime (pmj_Status job) \<noteq> None then State_Monad.return (Inr job)
      else do {
        now \<leftarrow> timeNow;
        patchStatus (setStatus (\<lambda>s. s\<lparr>st_RestoringStartTime := Some now\<rparr>) job) origJob
      })"

text \<open>Past the ceiling, a replacement that has been healthy through the window still counts.\<close>

definition healthyAtCeiling :: "reconciler \<Rightarrow> pmj \<Rightarrow> pod \<Rightarrow> time \<Rightarrow> bool" where
  "healthyAtCeiling r job pod now =
     (case effectiveReadySince (Some pod) job now of
        None \<Rightarrow> False
      | Some readySince \<Rightarrow> fst (containerRestarts pod) = 0 \<and>
          (rc_RestoreStabilizationWindow r \<le> 0 \<or> time_sub now readySince \<ge> rc_RestoreStabilizationWindow r))"

definition timeoutMessage :: "reconciler \<Rightarrow> string" where
  "timeoutMessage r =
     (if restoreCeiling r \<noteq> restoreTimeout then ''Restore timed out after '' @ durationString (restoreCeiling r)
      else ''Restore timed out after 5 minutes'')"

definition awaitedAtGate :: "pmj \<Rightarrow> (api_error + bool) io" where
  "awaitedAtGate job = (if st_Consumed (pmj_Status job) then State_Monad.return (Inr False) else hasGatedClaimant job)"

definition giveUpRestore :: "reconciler \<Rightarrow> pmj \<Rightarrow> pmj \<Rightarrow> (api_error + result) io" where
  "giveUpRestore r job origJob = do {
     gated \<leftarrow> awaitedAtGate job;
     (case gated of
        Inl e \<Rightarrow> State_Monad.return (Inl e)
      | Inr True \<Rightarrow> do {
          now \<leftarrow> timeNow;
          let message = ''Restore ceiling reached but replacement pod is still gated awaiting the PodGate worker'';
          patchIfChanged (setCondChanges (rc_lib r) now ConditionReady CondFalse ''WaitingOnGateRelease'' message job)
            (setCond (rc_lib r) now ConditionReady CondFalse ''WaitingOnGateRelease'' message job) origJob (requeue_after (15 * second))
        }
      | Inr False \<Rightarrow> do {
          p \<leftarrow> markSucceededWithoutRestore r job origJob ''RestoreTimeout'' (timeoutMessage r);
          State_Monad.return (case p of Inl e \<Rightarrow> handleStatusError e | Inr _ \<Rightarrow> Inr no_requeue)
        })
   }"

definition atCeiling :: "reconciler \<Rightarrow> pmj \<Rightarrow> pmj \<Rightarrow> (api_error + result) io" where
  "atCeiling r job origJob =
     (if \<not> st_Consumed (pmj_Status job) then giveUpRestore r job origJob
      else do {
        c \<leftarrow> classifyRecordedPodLive r job;
        (case c of
           Inl e \<Rightarrow> State_Monad.return (Inl e)
         | Inr (None, verdict) \<Rightarrow> giveUpRestore r job origJob
         | Inr (Some pod, verdict) \<Rightarrow>
             if f_Class verdict = FailureFatal then concludeRestoreCrash r job origJob pod verdict
             else do {
               now \<leftarrow> timeNow;
               if healthyAtCeiling r job pod now then do {
                 v \<leftarrow> restoreVerdictOf job pod (jobEngine r job);
                 (case v of
                    Inl e \<Rightarrow> State_Monad.return (Inl e)
                  | Inr verdict \<Rightarrow>
                      if rv_Outcome verdict = Restored then do {
                        forgetProbe (jobKey job);
                        concludeRestored r job origJob pod (eng_Name (jobEngine r job)) verdict
                      }
                      else giveUpRestore r job origJob)
               }
               else giveUpRestore r job origJob
             })
      })"

definition mismatchGrace :: duration where
  "mismatchGrace = 30 * second + 10 * second"

definition concludeMismatch :: "reconciler \<Rightarrow> pmj \<Rightarrow> pmj \<Rightarrow> (api_error + result) io" where
  "concludeMismatch r job origJob = do {
     now \<leftarrow> timeNow;
     let job = concluded PhaseSucceededWithoutRestore now job;
     let job = setCond (rc_lib r) now ConditionRestored CondFalse ''ReplacementPodMismatch''
                 ''Replacement pod was deleted and recreated (UID mismatch persisted > 30s)'' job;
     let job = setCond (rc_lib r) now ConditionReady CondTrue ''ReplacementPodMismatch''
                 ''Workload recreated with new instance; migration tracking concluded'' job;
     persistFailure r job origJob no_requeue
   }"

definition replacementMismatch :: "reconciler \<Rightarrow> pmj \<Rightarrow> pmj \<Rightarrow> (api_error + result) io" where
  "replacementMismatch r job origJob = do {
     now \<leftarrow> timeNow;
     let since = mget (pmj_Annotations job) AnnotationMismatchSince;
     if since = [] then do {
       u \<leftarrow> updateJob (job\<lparr>pmj_Annotations := (pmj_Annotations job)(AnnotationMismatchSince \<mapsto> FormatRFC3339 (rc_lib r) now)\<rparr>);
       State_Monad.return (case u of Inl e \<Rightarrow> Inl e | Inr _ \<Rightarrow> Inr (requeue_after (2 * second)))
     }
     else if (case ParseRFC3339 (rc_lib r) since of None \<Rightarrow> True | Some t \<Rightarrow> time_sub now t > mismatchGrace)
     then concludeMismatch r job origJob
     else State_Monad.return (Inr (requeue_after (2 * second)))
   }"

definition reportUnrecognized :: "reconciler \<Rightarrow> pmj \<Rightarrow> pmj \<Rightarrow> pod \<Rightarrow> failure \<Rightarrow> (api_error + result) io" where
  "reportUnrecognized r job origJob pod verdict = do {
     now \<leftarrow> timeNow;
     let message = ''Replacement pod '' @ pod_Name pod @
           '' hit a container start failure with no recognised restore-failure signature (container '' @ quoted (f_Container verdict) @ ''): '' @ f_Message verdict;
     if setCondChanges (rc_lib r) now ConditionUnrecognizedRestoreCrash CondTrue ReasonUnrecognizedRestoreCrash message job then do {
       p \<leftarrow> patchStatus (setCond (rc_lib r) now ConditionUnrecognizedRestoreCrash CondTrue ReasonUnrecognizedRestoreCrash message job) origJob;
       (case p of
          Inl e \<Rightarrow> State_Monad.return (handleStatusError e)
        | Inr job \<Rightarrow> do {
            eventf r (pmj_Name job) EventTypeWarning ReasonUnrecognizedRestoreCrash;
            State_Monad.return (Inr (requeue_after (2 * second)))
          })
     }
     else State_Monad.return (Inr (requeue_after (2 * second)))
   }"

definition probeRestore :: "reconciler \<Rightarrow> pmj \<Rightarrow> pmj \<Rightarrow> pod \<Rightarrow> (api_error + result) io" where
  "probeRestore r job origJob pod = do {
     probe \<leftarrow> shouldProbeFallbackEvents (jobKey job);
     if \<not> probe then State_Monad.return (Inr (requeue_after (2 * second)))
     else do {
       v \<leftarrow> restoreVerdictOf job pod (jobEngine r job);
       (case v of
          Inl e \<Rightarrow> State_Monad.return (Inl e)
        | Inr verdict \<Rightarrow>
            if rv_Outcome verdict = ColdStart \<or> rv_Outcome verdict = RestoreFailed then do {
              forgetProbe (jobKey job);
              concludeWithoutRestore r job origJob pod (eng_Name (jobEngine r job)) verdict
            }
            else State_Monad.return (Inr (requeue_after (2 * second))))
     }
   }"

definition replacementNotReady :: "reconciler \<Rightarrow> pmj \<Rightarrow> pmj \<Rightarrow> pod \<Rightarrow> (api_error + result) io" where
  "replacementNotReady r job origJob pod =
     (let verdict = Classify pod (restoreEngines r job) in
      case f_Class verdict of
        FailureFatal \<Rightarrow> do {
          c \<leftarrow> classifyRecordedPodLive r job;
          (case c of
             Inl e \<Rightarrow> State_Monad.return (Inl e)
           | Inr (None, _) \<Rightarrow> State_Monad.return (Inr (requeue_after (2 * second)))
           | Inr (Some livePod, liveVerdict) \<Rightarrow>
               if f_Class liveVerdict \<noteq> FailureFatal then State_Monad.return (Inr (requeue_after (2 * second)))
               else concludeRestoreCrash r job origJob livePod liveVerdict)
        }
      | FailureUnrecognized \<Rightarrow> reportUnrecognized r job origJob pod verdict
      | FailureNone \<Rightarrow> probeRestore r job origJob pod)"

definition replacementReady :: "reconciler \<Rightarrow> pmj \<Rightarrow> pmj \<Rightarrow> pod \<Rightarrow> (api_error + result) io" where
  "replacementReady r job origJob pod = do {
     let eng = jobEngine r job;
     v \<leftarrow> restoreVerdictOf job pod eng;
     (case v of
        Inl e \<Rightarrow> State_Monad.return (Inl e)
      | Inr verdict \<Rightarrow>
          if rv_Outcome verdict = ColdStart \<or> rv_Outcome verdict = RestoreFailed then do {
            forgetProbe (jobKey job);
            concludeWithoutRestore r job origJob pod (eng_Name eng) verdict
          }
          else if fst (containerRestarts pod) > 0 then do {
            forgetProbe (jobKey job);
            concludeRestoreLost r job origJob pod (fst (containerRestarts pod)) (snd (containerRestarts pod))
          }
          else if rv_Outcome verdict \<noteq> Restored then State_Monad.return (Inr (requeue_after (2 * second)))
          else do {
            now \<leftarrow> timeNow;
            let remaining = stabilizationRemainingAt r job pod now;
            if \<not> rv_Confirmed verdict \<and> remaining > 0
            then State_Monad.return (Inr (requeue_after (wrap64 (remaining + 500000000))))
            else do {
              forgetProbe (jobKey job);
              concludeRestored r job origJob pod (eng_Name eng) verdict
            }
          })
   }"

text \<open>Steps 4a and 4b: drop a stale mismatch annotation, and record a gate release that was not recorded.\<close>

definition healRecord :: "pmj \<Rightarrow> pmj \<Rightarrow> pod \<Rightarrow> ((api_error + result) + pmj) io" where
  "healRecord job origJob pod = do {
     u \<leftarrow> (if mget (pmj_Annotations job) AnnotationMismatchSince \<noteq> []
          then updateJob (job\<lparr>pmj_Annotations := (pmj_Annotations job)(AnnotationMismatchSince := None)\<rparr>)
          else State_Monad.return (Inr job));
     (case u of
        Inl e \<Rightarrow> State_Monad.return (Inl (Inl e))
      | Inr job \<Rightarrow>
          if \<not> st_GateReleased (pmj_Status job) \<and> \<not> podHasMigrationGate pod then do {
            p \<leftarrow> patchStatus (setStatus (\<lambda>s. s\<lparr>st_GateReleased := True\<rparr>) job) origJob;
            State_Monad.return (case p of Inl e \<Rightarrow> Inl (handleStatusError e) | Inr job \<Rightarrow> Inr job)
          }
          else State_Monad.return (Inr job))
   }"

definition observeReplacement :: "reconciler \<Rightarrow> pmj \<Rightarrow> pmj \<Rightarrow> (api_error + result) io" where
  "observeReplacement r job origJob =
     (if \<not> st_Consumed (pmj_Status job) \<or> st_RestoredPodUID (pmj_Status job) = [] \<or> st_RestoredPodName (pmj_Status job) = []
      then State_Monad.return (Inr (requeue_after (2 * second)))
      else do {
        g \<leftarrow> get_pod Cached (st_RestoredPodName (pmj_Status job));
        (case g of
           Inl e \<Rightarrow> State_Monad.return (if isNotFound e then Inr (requeue_after (2 * second)) else Inl e)
         | Inr pod \<Rightarrow>
             if pod_UID pod \<noteq> st_RestoredPodUID (pmj_Status job) then replacementMismatch r job origJob
             else do {
               h \<leftarrow> healRecord job origJob pod;
               (case h of
                  Inl res \<Rightarrow> State_Monad.return res
                | Inr job \<Rightarrow>
                    if \<not> isPodReady (Some pod) then replacementNotReady r job origJob pod
                    else replacementReady r job origJob pod)
             })
      })"

definition reconcileRestoring :: "reconciler \<Rightarrow> pmj \<Rightarrow> pmj \<Rightarrow> (api_error + result) io" where
  "reconcileRestoring r job origJob = do {
     i \<leftarrow> initRestoringStart job origJob;
     (case i of
        Inl e \<Rightarrow> State_Monad.return (handleStatusError e)
      | Inr job \<Rightarrow> do {
          d \<leftarrow> timeSince (case st_RestoringStartTime (pmj_Status job) of Some t \<Rightarrow> t | None \<Rightarrow> zero_time);
          if d > restoreCeiling r then atCeiling r job origJob else observeReplacement r job origJob
        })
   }"

subsection \<open>Reconcile\<close>

definition initPhase :: "pmj \<Rightarrow> pmj \<Rightarrow> (api_error + result) io" where
  "initPhase job origJob = do {
     p \<leftarrow> patchStatus (setStatus (\<lambda>s. s\<lparr>st_Phase := PhasePending\<rparr>) job) origJob;
     State_Monad.return (case p of Inl e \<Rightarrow> handleStatusError e | Inr _ \<Rightarrow> Inr requeue_now)
   }"

definition engineMissing :: "reconciler \<Rightarrow> pmj \<Rightarrow> bool" where
  "engineMissing r job =
     (case rc_Engines r of
        None \<Rightarrow> False
      | Some reg \<Rightarrow> \<not> IsTerminalPhase (st_Phase (pmj_Status job)) \<and>
          (case ForJob reg job of Inl e \<Rightarrow> ae_reason e = EngineNotRegistered | Inr _ \<Rightarrow> False))"

definition reconcilePhase :: "reconciler \<Rightarrow> pmj \<Rightarrow> pmj \<Rightarrow> (api_error + result) io" where
  "reconcilePhase r job origJob =
     (case st_Phase (pmj_Status job) of
        PhasePending \<Rightarrow> reconcilePending r job origJob
      | PhaseSnapshotting \<Rightarrow> reconcileSnapshotting r job origJob
      | PhaseEvicting \<Rightarrow> reconcileEvicting r job origJob
      | PhaseRestoring \<Rightarrow> reconcileRestoring r job origJob
      | _ \<Rightarrow> State_Monad.return (Inr no_requeue))"

text \<open>The fence of a concluded job is settled before the job may be collected.\<close>

definition settleThenRun :: "reconciler \<Rightarrow> pmj \<Rightarrow> pmj \<Rightarrow> (api_error + result) io" where
  "settleThenRun r job origJob = do {
     s \<leftarrow> resolveSourceFence r job origJob;
     (case fs_Err s of
        Some e \<Rightarrow> State_Monad.return (Inl e)
      | None \<Rightarrow>
          if fs_Handled s then State_Monad.return (Inr (fs_Result s))
          else if IsTerminalPhase (st_Phase (pmj_Status (fs_Job s))) then do {
            (e, job, origJob) \<leftarrow> removeSourceFenceFinalizer (fs_Job s) (fs_Orig s);
            (case e of
               Some e \<Rightarrow> State_Monad.return (Inl e)
             | None \<Rightarrow>
                 if IsTerminalPhase (st_Phase (pmj_Status job)) then reconcileConcluded r job else reconcilePhase r job origJob)
          }
          else reconcilePhase r (fs_Job s) (fs_Orig s))
   }"

definition redriveCrashDeletion :: "reconciler \<Rightarrow> pmj \<Rightarrow> api_error option io" where
  "redriveCrashDeletion r job =
     (if st_Phase (pmj_Status job) = PhaseFailed \<and> IsStatusConditionTrue (st_Conditions (pmj_Status job)) ConditionRestoreCrashed
      then ensureCrashedReplacementPodDeleted r job None
      else State_Monad.return None)"

definition reconcileJob :: "reconciler \<Rightarrow> pmj \<Rightarrow> (api_error + result) io" where
  "reconcileJob r job =
     (if pmj_DeletionTimestamp job \<noteq> None then
        (if SourceFenceFinalizer \<in> set (pmj_Finalizers job) then finalizeSourceFence r job job else State_Monad.return (Inr no_requeue))
      else if st_Phase (pmj_Status job) = PhaseNone then initPhase job job
      else if engineMissing r job then failEngineNotRegistered r job job
      else do {
        d \<leftarrow> enforceDeadline r job job;
        (case d of
           Some res \<Rightarrow> State_Monad.return res
         | None \<Rightarrow> do {
             c \<leftarrow> redriveCrashDeletion r job;
             (case c of
                Some e \<Rightarrow> State_Monad.return (Inl e)
              | None \<Rightarrow> settleThenRun r job job)
           })
      })"

definition Reconcile :: "reconciler \<Rightarrow> string \<Rightarrow> string \<Rightarrow> (api_error + result) io" where
  "Reconcile r namespace name = do {
     g \<leftarrow> get_job Cached name;
     (case g of
        Inl e \<Rightarrow>
          if isNotFound e then do {
            forgetProbe (namespace @ ''/'' @ name);
            State_Monad.return (Inr no_requeue)
          }
          else State_Monad.return (Inl e)
      | Inr job \<Rightarrow> reconcileJob r job)
   }"

subsection \<open>The reconciler that the controller runs\<close>

text \<open>\<open>cmd/main.go\<close>: both clients, a recorder, the engine registry and the in-flight budget checker.\<close>

definition mainReconciler :: "kubelib \<Rightarrow> registry \<Rightarrow> duration \<Rightarrow> duration \<Rightarrow> duration \<Rightarrow> duration \<Rightarrow> reconciler" where
  "mainReconciler K engines migrationTimeout restoreStabilization fenceCap lateStopWatch = \<lparr>
     rc_lib = K, rc_APIReader = True, rc_Recorder = True, rc_SnapshotProvider = None, rc_RestoreEngines = None,
     rc_Engines = Some engines,
     rc_BudgetChecker = Some (InFlightBudgetChecker_Check K EvictionBudgetChecker_Check),
     rc_DefaultMigrationTimeout = migrationTimeout,
     rc_FencePreCheckpointCap = fenceCap, rc_FenceLateStopWatch = lateStopWatch, rc_FenceDeleteUnwedgeTimeout = 0,
     rc_RestoreStabilizationWindow = restoreStabilization\<rparr>"

end
