(* ===== verification/Passes.thy ===== *)
theory Passes
  imports JobController
begin

text \<open>
  Triples that several properties of the job reconciler share. A property of its writes is proved
  handler by handler; what the handlers have in common does not depend on the property.

  \<^item> \<open>job_reconciler\<close> collects what the reconciler relies on: snapshot providers that leave the
    jobs alone, engines whose verdicts only read, and a budget checker that only reads.
  \<^item> \<open>lenient_writes\<close>: a property of writes that allows everything but a status patch. It gives the
    triples of the helpers, which patch no status.
  \<^item> \<open>status_pass\<close>: in addition an invariant of the stored status, and a relation of a working copy
    to the copy it is diffed against, such that patches between related copies keep the
    invariant. It gives the triples of the source fence, which only changes conditions.
\<close>

section \<open>Definitions\<close>

definition podWrite :: "effect \<Rightarrow> bool" where
  "podWrite e = (case e of PatchPodMeta _ _ _ \<Rightarrow> True | PatchPodStatus _ _ \<Rightarrow> True | UpdatePod _ \<Rightarrow> True | DeletePod _ \<Rightarrow> True | EvictPod _ _ \<Rightarrow> True | _ \<Rightarrow> False)"

definition jobMetaWrite :: "effect \<Rightarrow> bool" where
  "jobMetaWrite e = (case e of PatchJobMeta _ _ \<Rightarrow> True | UpdateJob _ \<Rightarrow> True | DeleteJob _ \<Rightarrow> True | _ \<Rightarrow> False)"

text \<open>The next version of a job, with the same status.\<close>

definition metaVersion :: "pmj \<Rightarrow> pmj \<Rightarrow> bool" where
  "metaVersion l l' \<longleftrightarrow> pmj_Name l' = pmj_Name l \<and> pmj_UID l' = pmj_UID l \<and> pmj_Status l' = pmj_Status l \<and>
     pmj_ResourceVersion l' = Suc (pmj_ResourceVersion l)"

definition copiesOf :: "(pmj \<Rightarrow> pmj \<Rightarrow> bool) \<Rightarrow> 'e \<times> pmj \<times> pmj \<Rightarrow> bool" where
  "copiesOf cop x \<longleftrightarrow> cop (fst (snd x)) (snd (snd x))"

definition stepCopies :: "(pmj \<Rightarrow> pmj \<Rightarrow> bool) \<Rightarrow> fenceStep \<Rightarrow> bool" where
  "stepCopies cop s \<longleftrightarrow> cop (fs_Job s) (fs_Orig s)"

locale job_reconciler =
  fixes r :: reconciler
  assumes provider: "snapshot_provider (getSnapshotProvider r job)"
    and verifier: "eng_VerifyRestore (jobEngine r job) = Some v \<Longrightarrow> wp (v job' p) (\<lambda>_. quiet w) w"
    and checker: "rc_BudgetChecker r = Some check \<Longrightarrow> budget_checker check"

locale lenient_writes =
  fixes P :: "effect \<Rightarrow> cluster \<Rightarrow> cluster \<Rightarrow> bool"
  assumes event: "P (Event obj kind rsn) c c"
    and pod_write: "podWrite e \<Longrightarrow> store_get pod_Name (cl_pods c) name = Some p \<Longrightarrow> pod_Name p' = pod_Name p \<Longrightarrow> pod_UID p' = pod_UID p \<Longrightarrow>
      P e c (c\<lparr>cl_pods := store_put pod_Name p' (cl_pods c)\<rparr>)"
    and job_write: "jobMetaWrite e \<Longrightarrow> store_get pmj_Name (cl_jobs c) name = Some l \<Longrightarrow> metaVersion l l' \<Longrightarrow>
      P e c (c\<lparr>cl_jobs := put_job l' (cl_jobs c)\<rparr>)"
    and engine_write: "providerStep e c c' \<Longrightarrow> P e c c'"

locale status_pass = lenient_writes P for P +
  fixes n :: string and S :: "pmj_status \<Rightarrow> bool" and cop :: "pmj \<Rightarrow> pmj \<Rightarrow> bool"
  assumes cop_name: "cop job orig \<Longrightarrow> pmj_Name job = n"
    and cop_patch: "cop job orig \<Longrightarrow> emits n P S (patchStatus job orig) (\<lambda>_. S) (storedJob n S)"
    and cop_stored: "storedJob n S (Inr j) \<Longrightarrow> cop j j"
    and cop_upd: "cop job orig \<Longrightarrow> pmj_Name job' = pmj_Name job \<Longrightarrow> pmj_Status job' = (pmj_Status job)\<lparr>st_Conditions := cs\<rparr> \<Longrightarrow> cop job' orig"
    and cop_orig: "cop job orig \<Longrightarrow> pmj_Status orig' = pmj_Status orig \<Longrightarrow> cop job orig'"
    and cop_both: "cop job orig \<Longrightarrow> cop job job"

section \<open>Lemmas\<close>

lemma setStatus_simps [simp]:
  "pmj_Status (setStatus f job) = f (pmj_Status job)" "pmj_Name (setStatus f job) = pmj_Name job"
  by (simp_all add: setStatus_def)

lemma copiesOf_simps [simp]: "copiesOf cop (e, j, o') = cop j o'"
  by (simp add: copiesOf_def)

lemma stepCopies_simps [simp]:
  "stepCopies cop (fenceDone j o') = cop j o'" "stepCopies cop (fenceRetry d j o') = cop j o'"
  "stepCopies cop (fenceError e j o') = cop j o'"
  by (simp_all add: stepCopies_def fenceDone_def fenceRetry_def fenceError_def)

lemma emits_providerFrame:
  assumes "\<And>w. wp m (\<lambda>_. providerFrame w) w"
  shows "emits n providerStep S m (\<lambda>_. S) anyResult"
proof (rule emitsI, rule wp_mono [OF assms])
  fix w w' :: world and a
  assume j: "jobIs n S (w_live w)" and "providerFrame w w'"
  then obtain k c es where w': "w' = w\<lparr>w_calls := k, w_live := c, w_log := w_log w @ es\<rparr>" and ch: "chain providerStep (w_live w) es c"
    by (auto simp: providerFrame_def)
  have "jobIs n S c" by (rule chain_invariant(1) [where I = "jobIs n S", OF ch j]) (auto simp: providerStep_def sameCore_def jobIs_def)
  with w' ch show "jobIs n S (w_live w') \<and> adds providerStep w w' \<and> True" by (simp add: adds_def)
qed

lemma emits_quiet:
  assumes "\<And>w. wp m (\<lambda>_. quiet w) w"
  shows "emits n P S m (\<lambda>_. S) anyResult"
  by (rule emitsI, rule wp_mono [OF assms]) (auto simp: quiet_def adds_refl)

lemma emits_budgetFrame:
  assumes "\<And>w. wp m (\<lambda>_. budgetFrame w) w"
  shows "emits n P S m (\<lambda>_. S) anyResult"
  by (rule emitsI, rule wp_mono [OF assms]) (auto simp: budgetFrame_def adds_refl)

context lenient_writes
begin

subsection \<open>Calls\<close>

lemma emits_engine: "(\<And>w. wp m (\<lambda>_. providerFrame w) w) \<Longrightarrow> emits n P S m (\<lambda>_. S) anyResult"
  by (rule emits_writes [OF emits_providerFrame engine_write])

lemma emits_pods [emits_rules]:
  "emits n P S (patch_pod_meta name uid rv l a) (\<lambda>_. S) anyResult"
  "emits n P S (patch_pod_condition name uid cnd) (\<lambda>_. S) anyResult"
  "emits n P S (update_pod p) (\<lambda>_. S) anyResult"
  "emits n P S (delete_pod name uid) (\<lambda>_. S) anyResult"
  "emits n P S (evict_pod name uid g) (\<lambda>_. S) anyResult"
  by (rule emits_patch_pod_meta emits_patch_pod_condition emits_update_pod emits_delete_pod emits_evict_pod,
      auto intro!: pod_write simp: mark_deleted_def podWrite_def)+

lemma emits_warning [emits_rules]: "emits n P S (emitEvent obj kind rsn) (\<lambda>_. S) anyResult"
  by (rule emits_event) (rule event)

lemma emits_meta [emits_rules]:
  "pmj_Name job = n \<Longrightarrow> emits n P S (patchJobMeta job prior lock) (\<lambda>_. S) (storedJob n S)"
  "pmj_Name job = n \<Longrightarrow> emits n P S (updateJob job) (\<lambda>_. S) (storedJob n S)"
  "emits n P S (deleteJob name) (\<lambda>_. S) anyResult"
  by (rule emits_patchJobMeta emits_updateJob emits_deleteJob; (rule job_write)?; auto simp: jobMetaWrite_def metaVersion_def)+

subsection \<open>Helpers\<close>

lemma emits_eventf [emits_rules]: "emits n P S (eventf r obj typ rsn) (\<lambda>_. S) anyResult"
  unfolding eventf_def by (rule emits_rules | (simp; fail))+

lemma emits_recordPodEvent [emits_rules]: "emits n P S (recordPodEvent r job typ rsn) (\<lambda>_. S) anyResult"
  unfolding recordPodEvent_def by (rule emits_rules | (simp; fail))+

lemma emits_forgetProbe [emits_rules]: "emits n P S (forgetProbe key) (\<lambda>_. S) anyResult"
  unfolding forgetProbe_def by (rule emits_rules)

lemma emits_shouldProbe [emits_rules]: "emits n P S (shouldProbeFallbackEvents key) (\<lambda>_. S) anyResult"
  unfolding shouldProbeFallbackEvents_def by (rule emits_rules | (simp; fail))+

lemma emits_deleteCrashed [emits_rules]: "emits n P S (deleteCrashed job pod) (\<lambda>_. S) anyResult"
  unfolding deleteCrashed_def by (rule emits_rules | (simp; fail))+

lemma emits_ensureCrashed [emits_rules]: "emits n P S (ensureCrashedReplacementPodDeleted r job pf) (\<lambda>_. S) anyResult"
  unfolding ensureCrashedReplacementPodDeleted_def by (rule emits_rules | (simp; fail))+

lemma emits_classifyLive [emits_rules]: "emits n P S (classifyRecordedPodLive r job) (\<lambda>_. S) anyResult"
  unfolding classifyRecordedPodLive_def by (rule emits_rules | (simp; fail))+

lemma emits_claimants [emits_rules]:
  "emits n P S (hasGatedClaimant job) (\<lambda>_. S) anyResult" "emits n P S (hasAssignedClaimant job) (\<lambda>_. S) anyResult"
  unfolding hasGatedClaimant_def hasAssignedClaimant_def by (rule emits_rules | (simp; fail))+

lemma emits_parentTarget [emits_rules]: "emits n P S (parentTarget r job k p) (\<lambda>_. S) anyResult"
  unfolding parentTarget_def by (rule emits_rules | (simp; fail))+

lemma emits_workloadPods [emits_rules]: "emits n P S (workloadPods K job sel) (\<lambda>_. S) anyResult"
  unfolding workloadPods_def by (rule emits_rules | (simp; fail))+

lemma emits_cleanupScaleDownZombie [emits_rules]: "emits n P S (cleanupScaleDownZombie r job) (\<lambda>_. S) anyResult"
  unfolding cleanupScaleDownZombie_def by (rule emits_rules | (simp; fail))+

lemma emits_nodeShutdown [emits_rules]: "emits n P S (isOriginPodTerminatedDueToNodeShutdown pod) (\<lambda>_. S) anyResult"
  unfolding isOriginPodTerminatedDueToNodeShutdown_def by (rule emits_rules | (simp; fail))+

lemma emits_withinBudget [emits_rules]: "emits n P S (isEvictionWithinBudget r job) (\<lambda>_. S) anyResult"
  unfolding isEvictionWithinBudget_def by (rule emits_rules | (simp; fail))+

lemma emits_sourcePod [emits_rules]: "emits n P S (sourcePod job rd) (\<lambda>_. S) anyResult"
  unfolding sourcePod_def by (rule emits_rules | (simp; fail))+

lemma emits_holdNotReady [emits_rules]: "emits n P S (holdNotReady pod) (\<lambda>_. S) anyResult"
  unfolding holdNotReady_def by (rule emits_rules | (simp; fail))+

lemma emits_applyFence [emits_rules]: "emits n P S (applyFence pod) (\<lambda>_. S) anyResult"
  unfolding applyFence_def patchSourceMetadata_def by (rule emits_rules | (simp; fail))+

lemma emits_removeFenceLabel [emits_rules]: "emits n P S (removeFenceLabel pod) (\<lambda>_. S) anyResult"
  unfolding removeFenceLabel_def patchSourceMetadata_def by (rule emits_rules | (simp; fail))+

lemma emits_dropFinalizer [emits_rules]:
  "pmj_Name job = n \<Longrightarrow> emits n P S (dropFinalizer job orig) (\<lambda>_. S) anyResult"
proof -
  assume n: "pmj_Name job = n"
  have "emits n P S (removeSourceFenceFinalizer job orig) (\<lambda>_. S) anyResult"
    unfolding removeSourceFenceFinalizer_def Let_def using n by - (rule emits_rules | (simp; fail))+
  then show ?thesis
    unfolding dropFinalizer_def by - (rule emits_bind, assumption, (rule emits_rules | (simp; fail))+)
qed

lemma emits_withinFence [emits_rules]: "emits n P S (withinFenceSettleTimeout job cond) (\<lambda>_. S) anyResult"
  unfolding withinFenceSettleTimeout_def by (rule emits_rules | (simp; fail))+

lemma emits_fencePreCheckpoint [emits_rules]: "emits n P S (fencePreCheckpointCapExceeded r job) (\<lambda>_. S) anyResult"
  unfolding fencePreCheckpointCapExceeded_def preCheckpointFenceDuration_def Let_def by (rule emits_rules | (simp; fail))+

lemma emits_fenceFailures [emits_rules]:
  "emits n P S (fenceFailure r job e) (\<lambda>_. S) anyResult" "emits n P S (triggerFailure r job e) (\<lambda>_. S) anyResult"
  unfolding fenceFailure_def triggerFailure_def by (rule emits_rules | (simp; fail))+

lemma emits_sourceGone [emits_rules]: "emits n P S (sourceGone r s) (\<lambda>_. S) anyResult"
  unfolding sourceGone_def by (rule emits_rules | (simp; fail))+

lemma emits_markEvictionTimeout [emits_rules]: "emits n P S (markEvictionTimeout job) (\<lambda>_. S) anyResult"
  unfolding markEvictionTimeout_def by (rule emits_rules | (simp; fail))+

lemma emits_collectGarbage [emits_rules]: "emits n P S (collectGarbage job) (\<lambda>_. S) anyResult"
  unfolding collectGarbage_def by (rule emits_rules | (simp; fail))+

lemma emits_reconcileConcluded [emits_rules]: "emits n P S (reconcileConcluded r job) (\<lambda>_. S) anyResult"
  unfolding reconcileConcluded_def by (rule emits_rules | (simp; fail))+

lemma emits_collectPVs [emits_rules]: "emits n P S (collectPVs cs) (\<lambda>_. S) anyResult"
  by (induction cs) (rule emits_rules | (simp; fail) | assumption | (unfold collectPVs.simps)[1])+

lemma emits_postCheckpointEviction [emits_rules]: "emits n P S (postCheckpointEviction pod) (\<lambda>_. S) anyResult"
  unfolding postCheckpointEviction_def by (rule emits_rules | (simp; fail))+

lemma emits_shortenGrace [emits_rules]: "emits n P S (shortenGrace pod) (\<lambda>_. S) anyResult"
  unfolding shortenGrace_def by (rule emits_rules | (simp; fail))+

lemma stampEvictingSince_name [simp]: "pmj_Name (stampEvictingSince r now job) = pmj_Name job"
  by (simp add: stampEvictingSince_def)

lemma emits_recordEvictingSince [emits_rules]: "pmj_Name job = n \<Longrightarrow> emits n P S (recordEvictingSince r job) (\<lambda>_. S) anyResult"
  unfolding recordEvictingSince_def by (rule emits_rules | (simp; fail))+

lemma emits_activeAttachment [emits_rules]: "emits n P S (activeAttachment job pvs) (\<lambda>_. S) anyResult"
  by (induction pvs) (rule emits_rules | (simp; fail) | assumption | (unfold activeAttachment.simps)[1])+

lemma emits_awaitedAtGate [emits_rules]: "emits n P S (awaitedAtGate job) (\<lambda>_. S) anyResult"
  unfolding awaitedAtGate_def by (rule emits_rules | (simp; fail))+

end

subsection \<open>The fence\<close>

context status_pass
begin

lemma cop_meta [simp]:
  "cop job orig \<Longrightarrow> cop (job\<lparr>pmj_Finalizers := fs\<rparr>) orig" "cop job orig \<Longrightarrow> cop (job\<lparr>pmj_Annotations := an\<rparr>) orig"
  "cop job orig \<Longrightarrow> cop job (orig\<lparr>pmj_Finalizers := fs\<rparr>)"
  by (auto intro: cop_upd [where cs = "st_Conditions (pmj_Status job)"] cop_orig)

lemma cop_meta_both: "cop job orig \<Longrightarrow> cop (job\<lparr>pmj_Finalizers := fs\<rparr>) (job\<lparr>pmj_Finalizers := fs\<rparr>)"
  by (blast intro: cop_both cop_meta(1))

lemma cop_setCond [simp]: "cop job orig \<Longrightarrow> cop (setCond K now t st rsn msg job) orig"
  by (erule cop_upd) (simp_all add: setCond_def)

lemma emits_addFinalizer [emits_rules]:
  "cop job orig \<Longrightarrow> emits n P S (addSourceFenceFinalizer job orig) (\<lambda>_. S) (copiesOf cop)"
  unfolding addSourceFenceFinalizer_def Let_def
  by (rule emits_rules | (simp add: cop_name; fail) | (auto intro: cop_stored split: sum.splits; fail))+

lemma emits_removeFinalizer [emits_rules]:
  "cop job orig \<Longrightarrow> emits n P S (removeSourceFenceFinalizer job orig) (\<lambda>_. S) (copiesOf cop)"
  unfolding removeSourceFenceFinalizer_def Let_def
  by (rule emits_rules | (simp add: cop_name; fail) | (auto intro: cop_stored cop_meta_both split: sum.splits; fail))+

lemma emits_markFenced [emits_rules]:
  "cop job orig \<Longrightarrow> emits n P S (markFenced r job orig) (\<lambda>_. S) (copiesOf cop)"
  unfolding markFenced_def Let_def
  by (rule emits_rules cop_patch | (simp; fail) | (auto intro: cop_stored split: sum.splits; fail))+

lemma emits_recordBaseline [emits_rules]:
  "cop job orig \<Longrightarrow> emits n P S (recordBaseline r job orig pod) (\<lambda>_. S) (copiesOf cop)"
  unfolding recordBaseline_def Let_def
  by (rule emits_rules | (simp add: cop_name cop_stored; fail))+

lemma emits_fenceSource:
  "cop job orig \<Longrightarrow> emits n P S (fenceSource r job orig) (\<lambda>_. S) (copiesOf cop)"
  unfolding fenceSource_def
  by (rule emits_rules | (simp; fail))+

lemma emits_evictKeptSource [emits_rules]:
  "cop job orig \<Longrightarrow> emits n P S (evictKeptSource job orig pod) (\<lambda>_. S) (stepCopies cop)"
  unfolding evictKeptSource_def by (rule emits_rules | (simp split: sum.split; fail))+

lemma emits_keepSourceFenced [emits_rules]:
  "cop job orig \<Longrightarrow> emits n P S (keepSourceFenced r job orig pod why) (\<lambda>_. S) (stepCopies cop)"
  unfolding keepSourceFenced_def Let_def
  by (rule emits_rules cop_patch | (simp add: cop_stored; fail))+

lemma emits_unfenceSource [emits_rules]:
  "cop job orig \<Longrightarrow> emits n P S (unfenceSource r job orig pod why watch) (\<lambda>_. S) (stepCopies cop)"
  unfolding unfenceSource_def Let_def
  by (rule emits_rules cop_patch | (simp add: cop_stored; fail))+

lemma emits_settleFence [emits_rules]:
  "cop job orig \<Longrightarrow> emits n P S (settleFence r job orig completed why) (\<lambda>_. S) (stepCopies cop)"
  unfolding settleFence_def by (rule emits_rules | (simp; fail))+

lemma emits_watchUnfencedSource [emits_rules]:
  "cop job orig \<Longrightarrow> emits n P S (watchUnfencedSource r job orig cond pod) (\<lambda>_. S) (stepCopies cop)"
  unfolding watchUnfencedSource_def Let_def
  by (rule emits_rules cop_patch | (simp add: cop_stored; fail))+

end

subsection \<open>Engines\<close>

locale engine_writes = lenient_writes P + job_reconciler r for P r
begin

lemma emits_provider:
  "emits n P S (EnsureTrigger (getSnapshotProvider r j) job podName) (\<lambda>_. S) anyResult"
  "emits n P S (CheckStatus (getSnapshotProvider r j) job podName) (\<lambda>_. S) anyResult"
  "emits n P S (Cleanup (getSnapshotProvider r j) job podName) (\<lambda>_. S) anyResult"
  using snapshot_provider.ensure [OF provider] snapshot_provider.cleanup [OF provider] snapshot_provider.status [OF provider]
  by (intro emits_engine emits_quiet; blast)+

lemma emits_reporter:
  "CheckpointReporter (getSnapshotProvider r j) = Some f \<Longrightarrow> emits n P S (f job podName) (\<lambda>_. S) anyResult"
  by (intro emits_quiet snapshot_provider.reporter [OF provider])

lemma emits_completer:
  "RestoreCompleter (getSnapshotProvider r j) = Some g \<Longrightarrow> emits n P S (g job podName uid) (\<lambda>_. S) anyResult"
  by (intro emits_engine snapshot_provider.completer [OF provider])

lemma emits_verify:
  "emits n P S (restoreVerdictOf job p (jobEngine r j)) (\<lambda>_. S) anyResult"
  unfolding restoreVerdictOf_def
  by (rule emits_rules emits_quiet verifier | (simp; fail))+

lemma emits_check: "rc_BudgetChecker r = Some check \<Longrightarrow> emits n P S (check job podName) (\<lambda>_. S) anyResult"
  by (intro emits_budgetFrame budget_checker.frame [OF checker])

lemma emits_dropUnsettledTrigger: "emits n P S (dropUnsettledTrigger r job state) (\<lambda>_. S) anyResult"
  unfolding dropUnsettledTrigger_def by (rule emits_rules emits_provider | (simp; fail))+

lemma emits_checkpointOutcome: "emits n P S (checkpointOutcome r job) (\<lambda>_. S) anyResult"
  unfolding checkpointOutcome_def
  by (rule emits_rules emits_dropUnsettledTrigger | (rule emits_reporter, assumption) | (simp; fail))+

lemma emits_isSnapshotProgressing: "emits n P S (isSnapshotProgressing r job t) (\<lambda>_. S) anyResult"
  unfolding isSnapshotProgressing_def by (rule emits_rules emits_provider | (simp; fail))+

end

locale engine_pass = status_pass P n S cop + engine_writes P r for P n S cop r
begin

lemma emits_decideSourceFence:
  "cop job orig \<Longrightarrow> emits n P S (decideSourceFence r job orig cond) (\<lambda>_. S) (stepCopies cop)"
  unfolding decideSourceFence_def
  by (rule emits_rules emits_checkpointOutcome | (simp; fail))+

lemma emits_resolveSourceFence:
  "cop job orig \<Longrightarrow> emits n P S (resolveSourceFence r job orig) (\<lambda>_. S) (stepCopies cop)"
  unfolding resolveSourceFence_def
  by (rule emits_rules emits_decideSourceFence | (simp; fail))+

end

end
