(* ===== verification/Transitions.thy ===== *)
theory Transitions
  imports Passes
begin

text \<open>
  The state machine of a migration, as the reconciler drives it: which phase may follow which,
  and that every status patch of \<open>Reconcile\<close> is one of these steps, whatever calls fail.

  \<^item> \<open>legalStep\<close> is the transition relation of the phases, \<open>legalPatch\<close> says that a status
    patch follows it and never concludes a job without its completion time.
  \<^item> The shared triples come from \<open>Passes\<close>; its locale \<open>job_reconciler\<close> is interpreted on the
    configuration that \<open>cmd/main.go\<close> builds.
\<close>

section \<open>Definitions\<close>

definition legalStep :: "phase \<Rightarrow> phase \<Rightarrow> bool" where
  "legalStep a b \<longleftrightarrow>
     a = b \<or>
     \<not> IsTerminalPhase a \<and> (b = PhaseFailed \<or>
       (a, b) \<in> {(PhaseNone, PhasePending), (PhasePending, PhaseSnapshotting), (PhaseSnapshotting, PhaseEvicting),
                 (PhaseEvicting, PhaseRestoring), (PhaseEvicting, PhaseSucceededWithoutRestore),
                 (PhaseRestoring, PhaseSucceeded), (PhaseRestoring, PhaseSucceededWithoutRestore)})"

definition legalPatch :: "effect \<Rightarrow> cluster \<Rightarrow> cluster \<Rightarrow> bool" where
  "legalPatch e c c' =
     (case e of
        PatchJobStatus orig job \<Rightarrow>
          legalStep (st_Phase (pmj_Status orig)) (st_Phase (pmj_Status job)) \<and>
          (IsTerminalPhase (st_Phase (pmj_Status job)) \<and> \<not> IsTerminalPhase (st_Phase (pmj_Status orig)) \<longrightarrow>
             st_CompletionTime (pmj_Status job) \<noteq> None)
      | _ \<Rightarrow> True)"

text \<open>The part of a status that the state machine is about.\<close>

definition stage :: "pmj_status \<Rightarrow> phase \<times> time option" where
  "stage s = (st_Phase s, st_CompletionTime s)"

definition atStage :: "phase \<times> time option \<Rightarrow> pmj_status \<Rightarrow> bool" where
  "atStage g s \<longleftrightarrow> stage s = g"

definition fromStage :: "phase \<times> time option \<Rightarrow> pmj_status \<Rightarrow> bool" where
  "fromStage g s \<longleftrightarrow> legalStep (fst g) (st_Phase s) \<and>
     (IsTerminalPhase (st_Phase s) \<longrightarrow> IsTerminalPhase (fst g) \<or> st_CompletionTime s \<noteq> None)"

definition stageOnly :: "(pmj_status \<Rightarrow> bool) \<Rightarrow> bool" where
  "stageOnly S \<longleftrightarrow> (\<forall>s s'. stage s = stage s' \<longrightarrow> S s = S s')"

text \<open>A working copy and the copy it is diffed against, in the same stage.\<close>

definition copies :: "string \<Rightarrow> (pmj_status \<Rightarrow> bool) \<Rightarrow> pmj \<Rightarrow> pmj \<Rightarrow> bool" where
  "copies n S job orig \<longleftrightarrow> pmj_Name job = n \<and> stage (pmj_Status job) = stage (pmj_Status orig) \<and> S (pmj_Status job)"

section \<open>Lemmas\<close>

subsection \<open>Stages\<close>

lemma stage_upd [simp]:
  "stage (s\<lparr>st_Conditions := cs\<rparr>) = stage s" "stage (s\<lparr>st_OriginNodeName := x\<rparr>) = stage s"
  "stage (s\<lparr>st_PVsToDetach := ps\<rparr>) = stage s" "stage (s\<lparr>st_SnapshotRef := x\<rparr>) = stage s"
  "stage (s\<lparr>st_EvictingStartTime := t\<rparr>) = stage s" "stage (s\<lparr>st_RestoringStartTime := t\<rparr>) = stage s"
  "stage (s\<lparr>st_GateReleased := b\<rparr>) = stage s" "stage (s\<lparr>st_SnapshottingStartTime := t\<rparr>) = stage s"
  by (simp_all add: stage_def)

lemma setCond_simps [simp]:
  "stage (pmj_Status (setCond K now t st rsn msg job)) = stage (pmj_Status job)"
  "st_Phase (pmj_Status (setCond K now t st rsn msg job)) = st_Phase (pmj_Status job)"
  "st_CompletionTime (pmj_Status (setCond K now t st rsn msg job)) = st_CompletionTime (pmj_Status job)"
  "pmj_Name (setCond K now t st rsn msg job) = pmj_Name job"
  by (simp_all add: setCond_def)

lemma concluded_simps [simp]:
  "st_Phase (pmj_Status (concluded ph now job)) = ph" "st_CompletionTime (pmj_Status (concluded ph now job)) = Some now"
  "pmj_Name (concluded ph now job) = pmj_Name job"
  by (simp_all add: concluded_def)

lemma failedJob_simps [simp]:
  "st_Phase (pmj_Status (failedJob r now rsn msg job)) = PhaseFailed"
  "st_CompletionTime (pmj_Status (failedJob r now rsn msg job)) = Some now"
  "pmj_Name (failedJob r now rsn msg job) = pmj_Name job"
  by (simp_all add: failedJob_def)

lemma clearUnrecognized_simps [simp]:
  "stage (pmj_Status (fst (clearUnrecognizedRestoreCrash r now job))) = stage (pmj_Status job)"
  "st_Phase (pmj_Status (fst (clearUnrecognizedRestoreCrash r now job))) = st_Phase (pmj_Status job)"
  "st_CompletionTime (pmj_Status (fst (clearUnrecognizedRestoreCrash r now job))) = st_CompletionTime (pmj_Status job)"
  "pmj_Name (fst (clearUnrecognizedRestoreCrash r now job)) = pmj_Name job"
  by (simp_all add: clearUnrecognizedRestoreCrash_def Let_def)

lemma clearBlockage_simps [simp]:
  "stage (pmj_Status (fst (clearBlockage r now t jc))) = stage (pmj_Status (fst jc))"
  "pmj_Name (fst (clearBlockage r now t jc)) = pmj_Name (fst jc)"
  by (simp_all add: clearBlockage_def Let_def split: prod.split)

lemma clearEviction_simps [simp]:
  "stage (pmj_Status (fst (clearEvictionBlockageConditions r now job))) = stage (pmj_Status job)"
  "pmj_Name (fst (clearEvictionBlockageConditions r now job)) = pmj_Name job"
  by (simp_all add: clearEvictionBlockageConditions_def)

lemma merge_same: "stage b = stage a \<Longrightarrow> stage (merge_status a b l) = stage l"
  by (simp add: stage_def merge_status_def merge_field_def)

lemma merge_changed: "stage l = stage a \<Longrightarrow> stage (merge_status a b l) = stage b"
  by (auto simp: stage_def merge_status_def merge_field_def)

lemma stageOnly_at [simp]: "stageOnly (atStage g)"
  by (simp add: stageOnly_def atStage_def)

lemma stageOnly_from [simp]: "stageOnly (fromStage g)"
  by (auto simp: stageOnly_def fromStage_def stage_def)

lemma legalStep_refl [simp]: "legalStep a a"
  by (simp add: legalStep_def)

lemma at_from [simp]: "atStage g s \<Longrightarrow> fromStage g s"
  by (auto simp: atStage_def fromStage_def stage_def)

lemma legalPatch_other [simp]:
  "legalPatch (Event a b d) c c'" "legalPatch (PatchPodMeta n l an) c c'" "legalPatch (PatchPodStatus n cd) c c'" "legalPatch (UpdatePod p) c c'"
  "legalPatch (DeletePod n) c c'" "legalPatch (EvictPod n g) c c'" "legalPatch (PatchJobMeta a' b') c c'" "legalPatch (UpdateJob j) c c'"
  "legalPatch (DeleteJob n) c c'" "legalPatch (CreateTrigger t) c c'" "legalPatch (DeleteTrigger n) c c'"
  by (simp_all add: legalPatch_def)

lemma copiesD: "copies n S job orig \<Longrightarrow> pmj_Name job = n" "copies n S job orig \<Longrightarrow> stage (pmj_Status job) = stage (pmj_Status orig)"
    "copies n S job orig \<Longrightarrow> S (pmj_Status job)"
  by (simp_all add: copies_def)

lemma copies_stored: "storedJob n S (Inr j) \<Longrightarrow> copies n S j j"
  by (simp add: copies_def storedJob_def)

lemma copies_upd: "copies n S job orig \<Longrightarrow> stageOnly S \<Longrightarrow> pmj_Name job' = pmj_Name job \<Longrightarrow> stage (pmj_Status job') = stage (pmj_Status job) \<Longrightarrow> copies n S job' orig"
  unfolding copies_def stageOnly_def by metis

lemma copies_at: "copies n (atStage g) job orig \<Longrightarrow> storedJob n (atStage g) (Inr j) \<Longrightarrow> copies n (atStage g) j orig"
  by (auto simp: copies_def storedJob_def atStage_def)

subsection \<open>The two kinds of status patches\<close>

text \<open>A patch that stays in the stage.\<close>

lemma emits_patch_same:
  assumes "copies n S job orig" "stageOnly S"
  shows "emits n legalPatch S (patchStatus job orig) (\<lambda>_. S) (storedJob n S)"
proof (rule emits_patchStatus)
  have "stage (pmj_Status job) = stage (pmj_Status orig)" using assms(1) by (rule copiesD)
  then show "legalPatch (PatchJobStatus orig job) c c'" for c c'
    by (auto simp: legalPatch_def stage_def)
  show "S s \<Longrightarrow> S (merge_status (pmj_Status orig) (pmj_Status job) s)" for s
    using assms merge_same [of "pmj_Status job" "pmj_Status orig" s] unfolding copies_def stageOnly_def by metis
qed (use assms in \<open>auto simp: copies_def\<close>)

text \<open>A patch that takes a step.\<close>

lemma emits_patch_step:
  assumes orig: "atStage g (pmj_Status orig)" and n: "pmj_Name job = n" and step: "legalStep (fst g) (st_Phase (pmj_Status job))"
    and ct: "IsTerminalPhase (st_Phase (pmj_Status job)) \<Longrightarrow> st_CompletionTime (pmj_Status job) \<noteq> None"
  shows "emits n legalPatch (atStage g) (patchStatus job orig) (\<lambda>_. fromStage g) (storedJob n (fromStage g))"
proof (rule emits_patchStatus)
  show "legalPatch (PatchJobStatus orig job) c c'" for c c'
    using orig step ct by (auto simp: legalPatch_def atStage_def stage_def)
  show "fromStage g (merge_status (pmj_Status orig) (pmj_Status job) s)" if "atStage g s" for s
  proof -
    have "stage (merge_status (pmj_Status orig) (pmj_Status job) s) = stage (pmj_Status job)"
      using orig that by (intro merge_changed) (simp add: atStage_def)
    with step ct show ?thesis by (auto simp: fromStage_def stage_def)
  qed
qed (simp_all add: n)

subsection \<open>The shared triples\<close>

lemma providerStep_legal: "providerStep e c c' \<Longrightarrow> legalPatch e c c'"
  by (auto simp: providerStep_def providerWrite_def legalPatch_def split: effect.splits)

interpretation legal: lenient_writes legalPatch
  by unfold_locales (auto intro: providerStep_legal simp: podWrite_def jobMetaWrite_def split: effect.splits)

lemma copies_pass: "stageOnly S \<Longrightarrow> status_pass legalPatch n S (copies n S)"
proof unfold_locales
  assume S: "stageOnly S"
  show "copies n S job orig \<Longrightarrow> pmj_Name job = n" for job orig by (rule copiesD)
  show "copies n S job orig \<Longrightarrow> emits n legalPatch S (patchStatus job orig) (\<lambda>_. S) (storedJob n S)" for job orig
    by (rule emits_patch_same [OF _ S])
  show "storedJob n S (Inr j) \<Longrightarrow> copies n S j j" for j by (rule copies_stored)
  show "copies n S job orig \<Longrightarrow> pmj_Name job' = pmj_Name job \<Longrightarrow> pmj_Status job' = (pmj_Status job)\<lparr>st_Conditions := cs\<rparr> \<Longrightarrow> copies n S job' orig"
    for job orig job' cs by (erule copies_upd [OF _ S]) simp_all
qed (simp_all add: copies_def)

interpretation atStage: status_pass legalPatch n "atStage g" "copies n (atStage g)" for n g
  by (rule copies_pass) simp

interpretation fromStage: status_pass legalPatch n "fromStage g" "copies n (fromStage g)" for n g
  by (rule copies_pass) simp

sublocale job_reconciler \<subseteq> legalWrites: engine_writes legalPatch r ..

sublocale job_reconciler \<subseteq> atStageWrites: engine_pass legalPatch n "atStage g" "copies n (atStage g)" r for n g ..

sublocale job_reconciler \<subseteq> fromStageWrites: engine_pass legalPatch n "fromStage g" "copies n (fromStage g)" r for n g ..

subsection \<open>Helpers\<close>

lemma emits_persistFailure:
  assumes "atStage g (pmj_Status orig)" "pmj_Name job = n" "legalStep (fst g) (st_Phase (pmj_Status job))"
    "st_CompletionTime (pmj_Status job) \<noteq> None"
  shows "emits n legalPatch (atStage g) (persistFailure r job orig res) (\<lambda>_. fromStage g) anyResult"
  unfolding persistFailure_def using assms
  by - (rule emits_rules emits_patch_step | (simp; fail))+

lemma legalStep_Failed [simp]: "\<not> IsTerminalPhase a \<Longrightarrow> legalStep a PhaseFailed"
  by (simp add: legalStep_def)

lemma copies_orig: "copies n (atStage g) job orig \<Longrightarrow> atStage g (pmj_Status orig)"
  by (auto simp: copies_def atStage_def)

lemmas copies_facts = copiesD(1) copies_orig

lemma emits_failJob:
  assumes "copies n (atStage g) job orig" "\<not> IsTerminalPhase (fst g)"
  shows "emits n legalPatch (atStage g) (failJob r job orig rsn msg) (\<lambda>_. fromStage g) anyResult"
  unfolding failJob_def using copies_facts [OF assms(1)] assms(2)
  by - (rule emits_rules emits_persistFailure | (simp; fail))+

lemma emits_failSourceGone:
  assumes "copies n (atStage g) job orig" "\<not> IsTerminalPhase (fst g)"
  shows "emits n legalPatch (atStage g) (failSourceGone r job orig) (\<lambda>_. fromStage g) anyResult"
  unfolding failSourceGone_def using copies_facts [OF assms(1)] assms(2)
  by - (rule emits_rules emits_patch_step | (simp; fail))+

lemma emits_markSWR:
  assumes "copies n (atStage g) job orig" "legalStep (fst g) PhaseSucceededWithoutRestore"
  shows "emits n legalPatch (atStage g) (markSucceededWithoutRestore r job orig rsn msg) (\<lambda>_. fromStage g) anyResult"
  unfolding markSucceededWithoutRestore_def Let_def using copies_facts [OF assms(1)] assms(2)
  by - (rule emits_rules emits_any [OF emits_patch_step] | (simp; fail))+

lemma emits_concludeRestoreCrash:
  assumes "copies n (atStage g) job orig" "\<not> IsTerminalPhase (fst g)"
  shows "emits n legalPatch (atStage g) (concludeRestoreCrash r job orig pod v) (\<lambda>_. fromStage g) anyResult"
  unfolding concludeRestoreCrash_def Let_def using copies_facts [OF assms(1)] assms(2)
  by - (rule emits_rules emits_patch_step | (simp; fail))+

subsection \<open>The fence\<close>

lemma copies_meta [simp]:
  "copies n S (job\<lparr>pmj_Finalizers := fs\<rparr>) orig = copies n S job orig" "copies n S (job\<lparr>pmj_Annotations := an\<rparr>) orig = copies n S job orig"
  "copies n S job (orig\<lparr>pmj_Finalizers := fs\<rparr>) = copies n S job orig"
  by (simp_all add: copies_def)

lemma copies_both [simp]: "copies n S job orig \<Longrightarrow> copies n S job job"
  by (simp add: copies_def)

lemma copies_setCond [simp]: "stageOnly S \<Longrightarrow> copies n S job orig \<Longrightarrow> copies n S (setCond K now t st rsn msg job) orig"
  by (rule copies_upd) simp_all

lemma emits_failDeleted:
  assumes "copies n (atStage g) job orig"
  shows "emits n legalPatch (atStage g) (failDeleted r job orig) (\<lambda>_. fromStage g) (\<lambda>x. fst x = None \<longrightarrow> copiesOf (copies n (fromStage g)) x)"
  unfolding failDeleted_def Let_def using copies_facts [OF assms] assms
  by - (rule emits_rules emits_patch_step
    | (simp add: copies_stored split: option.split; fail)
    | (fastforce simp: copies_def atStage_def fromStage_def stage_def; fail))+

context job_reconciler
begin

lemma emits_finalizeSourceFence:
  "copies n (atStage g) job orig \<Longrightarrow> emits n legalPatch (atStage g) (finalizeSourceFence r job orig) (\<lambda>_. fromStage g) anyResult"
  unfolding finalizeSourceFence_def
  by (rule emits_rules legalWrites.emits_provider emits_failDeleted atStageWrites.emits_resolveSourceFence fromStageWrites.emits_resolveSourceFence | (simp add: stepCopies_def copies_def; fail))+

lemma emits_failSnapshotting:
  assumes "copies n (atStage g) job orig" "\<not> IsTerminalPhase (fst g)"
  shows "emits n legalPatch (atStage g) (failSnapshotting r job orig rsn msg) (\<lambda>_. fromStage g) anyResult"
  unfolding failSnapshotting_def using copies_facts [OF assms(1)] assms(2)
  by - (rule emits_rules legalWrites.emits_provider emits_persistFailure | (simp; fail))+

end

subsection \<open>Deadlines and concluded jobs\<close>

lemma evictionBlocked_phase: "evictionBlocked job = Some x \<Longrightarrow> st_Phase (pmj_Status job) = PhaseEvicting"
  by (auto simp: evictionBlocked_def Let_def split: if_splits)

lemma copies_phase: "copies n (atStage g) job orig \<Longrightarrow> fst g = st_Phase (pmj_Status job)"
  by (auto simp: copies_def atStage_def stage_def)

lemma legalStep_concrete [simp]:
  "legalStep PhaseEvicting PhaseSucceededWithoutRestore" "legalStep PhaseRestoring PhaseSucceededWithoutRestore"
  "legalStep PhaseRestoring PhaseSucceeded" "legalStep PhaseNone PhasePending" "legalStep PhasePending PhaseSnapshotting"
  "legalStep PhaseSnapshotting PhaseEvicting" "legalStep PhaseEvicting PhaseRestoring"
  by (simp_all add: legalStep_def)

lemma hasDeadline_nonterminal: "hasDeadline ph \<Longrightarrow> \<not> IsTerminalPhase ph"
  by (auto simp: hasDeadline_def)

context job_reconciler
begin

lemma emits_timeOut:
  assumes "copies n (atStage g) job orig" "\<not> IsTerminalPhase (fst g)"
  shows "emits n legalPatch (atStage g) (timeOut r job orig t) (\<lambda>_. fromStage g) anyResult"
  unfolding timeOut_def Let_def using copies_facts [OF assms(1)] assms copies_phase [OF assms(1)]
  by - (rule emits_rules legalWrites.emits_provider emits_persistFailure emits_markSWR
    | (simp; fail) | (auto dest!: evictionBlocked_phase; fail))+

lemma emits_enforceDeadline:
  assumes "copies n (atStage g) job orig"
  shows "emits n legalPatch (atStage g) (enforceDeadline r job orig) (\<lambda>x. case x of None \<Rightarrow> atStage g | Some _ \<Rightarrow> fromStage g) anyResult"
  unfolding enforceDeadline_def Let_def using assms copies_phase [OF assms]
  by - (rule emits_rules legalWrites.emits_isSnapshotProgressing emits_timeOut
    | (simp; fail) | (simp add: hasDeadline_nonterminal; fail))+

end

subsection \<open>Pending\<close>

lemma emits_enterSnapshotting:
  assumes "copies n (atStage g) job orig" "fst g = PhasePending"
  shows "emits n legalPatch (atStage g) (enterSnapshotting r job orig) (\<lambda>_. fromStage g) anyResult"
  unfolding enterSnapshotting_def Let_def using copies_facts [OF assms(1)] assms(2)
  by - (rule emits_rules emits_patch_step | (simp; fail))+

lemma learnSource_copies: "learnSource r job pod = (j, b) \<Longrightarrow> copies n (atStage g) job orig \<Longrightarrow> copies n (atStage g) j orig"
  by (auto simp: learnSource_def copies_def atStage_def Let_def split: if_splits option.splits)

lemma copies_setStatus [simp]:
  "stageOnly S \<Longrightarrow> copies n S job orig \<Longrightarrow> (\<And>s. stage (f s) = stage s) \<Longrightarrow> copies n S (setStatus f job) orig"
  by (rule copies_upd) simp_all

lemma emits_inspectSource:
  assumes "copies n (atStage g) job orig" "fst g = PhasePending"
  shows "emits n legalPatch (atStage g) (inspectSource r job orig)
    (\<lambda>x. case x of Inl _ \<Rightarrow> fromStage g | Inr _ \<Rightarrow> atStage g) (\<lambda>x. \<forall>j b. x = Inr (j, b) \<longrightarrow> copies n (atStage g) j orig)"
  unfolding inspectSource_def Let_def using assms
  by - (rule emits_rules emits_failJob | (simp add: learnSource_copies; fail) | (auto simp: learnSource_copies split: sum.splits; fail))+

lemma emits_checkDisruptionBudget:
  assumes "copies n (atStage g) job orig" "fst g = PhasePending" and check: "\<And>j p. emits n legalPatch (atStage g) (check j p) (\<lambda>_. atStage g) anyResult"
  shows "emits n legalPatch (atStage g) (checkDisruptionBudget r check job orig podName)
    (\<lambda>x. case x of Inr (_, _, True) \<Rightarrow> atStage g | _ \<Rightarrow> fromStage g) (\<lambda>x. \<forall>j res. x = Inr (j, res, True) \<longrightarrow> copies n (atStage g) j orig)"
  unfolding checkDisruptionBudget_def Let_def using assms(1,2)
  by - (rule emits_rules emits_failSourceGone check emits_patch_same
    | (simp split: option.splits; fail) | (auto simp: storedJob_def copies_def atStage_def split: sum.splits option.splits; fail))+

context job_reconciler
begin

lemma emits_checkBudgetAndStart:
  assumes "copies n (atStage g) job orig" "fst g = PhasePending"
  shows "emits n legalPatch (atStage g) (checkBudgetAndStart r job orig) (\<lambda>_. fromStage g) anyResult"
  unfolding checkBudgetAndStart_def using assms
  by - (rule emits_rules emits_enterSnapshotting | rule emits_checkDisruptionBudget [OF _ _ legalWrites.emits_check]
    | assumption | (simp; fail) | (simp only: sum.case prod.case bool.case))+

lemma copies_withMeta: "copies n S job orig \<Longrightarrow> pmj_Name u = n \<Longrightarrow> copies n S (withMeta u job) (withMeta u orig)"
  by (simp add: copies_def withMeta_def)

lemma emits_reconcilePending:
  assumes "copies n (atStage g) job orig" "fst g = PhasePending"
  shows "emits n legalPatch (atStage g) (reconcilePending r job orig) (\<lambda>_. fromStage g) anyResult"
  unfolding reconcilePending_def using assms
  by - (rule emits_rules emits_inspectSource emits_checkBudgetAndStart
    | (simp; fail) | (auto simp: copiesD(1) storedJob_def intro: copies_withMeta; fail) | (simp only: sum.case))+

end

subsection \<open>Snapshotting\<close>

lemma emits_enterEvicting:
  assumes "copies n (atStage g) job orig" "fst g = PhaseSnapshotting"
  shows "emits n legalPatch (atStage g) (enterEvicting r job orig ref) (\<lambda>_. fromStage g) anyResult"
  unfolding enterEvicting_def Let_def using copies_facts [OF assms(1)] assms(2)
  by - (rule emits_rules emits_patch_step | (simp; fail))+

lemma emits_recordProgress:
  assumes "copies n (atStage g) job orig"
  shows "emits n legalPatch (atStage g) (recordProgress r job orig st) (\<lambda>_. fromStage g) anyResult"
  unfolding recordProgress_def Let_def using assms
  by - (rule emits_rules emits_patch_same | (simp; fail))+

context job_reconciler
begin

lemma emits_monitorSnapshot:
  assumes "copies n (atStage g) job orig" "fst g = PhaseSnapshotting"
  shows "emits n legalPatch (atStage g) (monitorSnapshot r job orig) (\<lambda>_. fromStage g) anyResult"
proof -
  have nt: "\<not> IsTerminalPhase (fst g)" using assms(2) by simp
  have "emits n legalPatch (atStage g) (snapshotInProgress r job orig st) (\<lambda>_. fromStage g) anyResult" for st
    unfolding snapshotInProgress_def using assms nt
    by - (rule emits_rules legalWrites.emits_provider emits_failJob emits_recordProgress | (simp; fail))+
  then have "emits n legalPatch (atStage g) (case sst_Phase st of
             SnapReady \<Rightarrow> enterEvicting r job orig (sst_SnapshotRef st)
           | SnapInProgress \<Rightarrow> snapshotInProgress r job orig st
           | _ \<Rightarrow> do {
               _ \<leftarrow> Cleanup (getSnapshotProvider r job) job (pmj_PodRefName job);
               failJob r job orig (snapshotFailureReason st) (sst_Message st)
             }) (\<lambda>_. fromStage g) anyResult" for st
    using emits_enterEvicting [OF assms] emits_failJob [OF assms(1) nt]
    by (cases "sst_Phase st") (auto intro!: emits_bind legalWrites.emits_provider)
  then show ?thesis
    unfolding monitorSnapshot_def
    by - (rule emits_rules legalWrites.emits_provider | assumption | (simp; fail))+
qed

lemma emits_reconcileSnapshotting:
  assumes "copies n (atStage g) job orig" "fst g = PhaseSnapshotting"
  shows "emits n legalPatch (atStage g) (reconcileSnapshotting r job orig) (\<lambda>_. fromStage g) anyResult"
  unfolding reconcileSnapshotting_def triggerAndMonitor_def using assms
  by - (rule emits_rules atStage.emits_fenceSource emits_failSnapshotting legalWrites.emits_provider emits_monitorSnapshot | (simp; fail))+

end

subsection \<open>Evicting\<close>

lemma emits_initEvictingStart:
  assumes "copies n (atStage g) job orig"
  shows "emits n legalPatch (atStage g) (initEvictingStart r job orig) (\<lambda>_. atStage g) (storedJob n (atStage g))"
  unfolding initEvictingStart_def Let_def using assms
  by - (rule emits_rules emits_patch_same | (simp; fail) | (auto simp: storedJob_def copies_def; fail))+

lemma emits_patchIfChanged:
  assumes "copies n (atStage g) job orig"
  shows "emits n legalPatch (atStage g) (patchIfChanged b job orig res) (\<lambda>_. fromStage g) anyResult"
  unfolding patchIfChanged_def using assms by - (rule emits_rules emits_patch_same | (simp; fail))+

lemma emits_requestEviction:
  assumes "copies n (atStage g) job orig"
  shows "emits n legalPatch (atStage g) (requestEviction r job orig pod) (\<lambda>_. fromStage g) anyResult"
  unfolding requestEviction_def evictionAccepted_def evictionBlockedBy_def Let_def using assms
  by - (rule emits_rules emits_patchIfChanged | (simp; fail))+

lemma emits_evictOrigin:
  assumes "copies n (atStage g) job orig"
  shows "emits n legalPatch (atStage g) (evictOrigin r job orig pod) (\<lambda>_. fromStage g) anyResult"
  unfolding evictOrigin_def awaitTermination_def Let_def using assms
  by - (rule emits_rules emits_patch_same emits_requestEviction
    | (simp; fail) | (auto simp: storedJob_def copies_def atStage_def; fail))+

lemma emits_enterRestoring:
  assumes "copies n (atStage g) job orig" "fst g = PhaseEvicting"
  shows "emits n legalPatch (atStage g) (enterRestoring r job orig) (\<lambda>_. fromStage g) anyResult"
  unfolding enterRestoring_def Let_def using copies_facts [OF assms(1)] assms(2)
  by - (rule emits_rules emits_patch_step | (simp; fail) | (simp add: storedJob_def; fail))+

context job_reconciler
begin

lemma emits_originGone:
  assumes "copies n (atStage g) job orig" "fst g = PhaseEvicting"
  shows "emits n legalPatch (atStage g) (originGone r job orig) (\<lambda>_. fromStage g) anyResult"
proof -
  have detach: "emits n legalPatch (atStage g) (detachAndRestore r j orig) (\<lambda>_. fromStage g) anyResult" if "copies n (atStage g) j orig" for j
    unfolding detachAndRestore_def Let_def using that assms(2)
    by - (rule emits_rules legalWrites.emits_provider emits_patchIfChanged emits_enterRestoring | (simp; fail))+
  have "copies n (atStage g) (fst (clearEvictionBlockageConditions r now job)) orig" for now
    by (rule copies_upd [OF assms(1)]) simp_all
  then show ?thesis
    unfolding originGone_def Let_def case_prod_beta
    by - (rule emits_rules emits_patch_same detach
      | (simp; fail) | (auto simp: storedJob_def copies_def atStage_def; fail))+
qed

lemma emits_reconcileEvicting:
  assumes "copies n (atStage g) job orig" "fst g = PhaseEvicting"
  shows "emits n legalPatch (atStage g) (reconcileEvicting r job orig) (\<lambda>_. fromStage g) anyResult"
  unfolding reconcileEvicting_def using assms
  by - (rule emits_rules emits_initEvictingStart legalWrites.emits_provider emits_originGone emits_evictOrigin
    | (simp; fail) | (auto simp: storedJob_def copies_def atStage_def; fail))+

end

subsection \<open>Restoring\<close>

lemma emits_giveUpRestore:
  assumes "copies n (atStage g) job orig" "fst g = PhaseRestoring"
  shows "emits n legalPatch (atStage g) (giveUpRestore r job orig) (\<lambda>_. fromStage g) anyResult"
  unfolding giveUpRestore_def Let_def using assms
  by - (rule emits_rules emits_patchIfChanged emits_markSWR | (simp; fail))+

lemma emits_concludeMismatch:
  assumes "copies n (atStage g) job orig" "fst g = PhaseRestoring"
  shows "emits n legalPatch (atStage g) (concludeMismatch r job orig) (\<lambda>_. fromStage g) anyResult"
  unfolding concludeMismatch_def Let_def using copies_facts [OF assms(1)] assms(2)
  by - (rule emits_rules emits_persistFailure | (simp; fail))+

lemma emits_replacementMismatch:
  assumes "copies n (atStage g) job orig" "fst g = PhaseRestoring"
  shows "emits n legalPatch (atStage g) (replacementMismatch r job orig) (\<lambda>_. fromStage g) anyResult"
  unfolding replacementMismatch_def Let_def using assms
  by - (rule emits_rules emits_concludeMismatch | (simp; fail) | (simp add: copies_def; fail))+

lemma emits_reportUnrecognized:
  assumes "copies n (atStage g) job orig"
  shows "emits n legalPatch (atStage g) (reportUnrecognized r job orig pod v) (\<lambda>_. fromStage g) anyResult"
  unfolding reportUnrecognized_def Let_def using assms
  by - (rule emits_rules emits_patch_same | (simp; fail))+

lemma emits_concludeWithout:
  assumes "copies n (atStage g) job orig" "fst g = PhaseRestoring"
  shows "emits n legalPatch (atStage g) (concludeWithoutRestore r job orig pod e v) (\<lambda>_. fromStage g) anyResult"
    "emits n legalPatch (atStage g) (concludeRestoreLost r job orig pod k c) (\<lambda>_. fromStage g) anyResult"
  unfolding concludeWithoutRestore_def concludeRestoreLost_def Let_def using assms
  by - (rule emits_rules emits_markSWR | (simp; fail))+

lemma emits_healRecord:
  assumes "copies n (atStage g) job orig"
  shows "emits n legalPatch (atStage g) (healRecord job orig pod) (\<lambda>_. atStage g) (\<lambda>x. \<forall>j. x = Inr j \<longrightarrow> copies n (atStage g) j orig)"
  unfolding healRecord_def using assms
  by - (rule emits_rules emits_patch_same | (simp; fail)
    | (auto simp: storedJob_def copies_def atStage_def split: sum.splits; fail))+

context job_reconciler
begin

lemma emits_concludeRestored:
  assumes "copies n (atStage g) job orig" "fst g = PhaseRestoring"
  shows "emits n legalPatch (atStage g) (concludeRestored r job orig pod e v) (\<lambda>_. fromStage g) anyResult"
proof -
  have complete: "emits n legalPatch (atStage g) (completeRestore r job pod) (\<lambda>_. atStage g) anyResult"
    unfolding completeRestore_def by (rule emits_rules | (rule legalWrites.emits_completer, assumption) | (simp; fail))+
  show ?thesis
    unfolding concludeRestored_def Let_def using copies_facts [OF assms(1)] assms(2)
    by - (rule emits_rules emits_patch_step complete | (simp; fail))+
qed

lemma emits_atCeiling:
  assumes "copies n (atStage g) job orig" "fst g = PhaseRestoring"
  shows "emits n legalPatch (atStage g) (atCeiling r job orig) (\<lambda>_. fromStage g) anyResult"
  unfolding atCeiling_def using assms
  by - (rule emits_rules emits_giveUpRestore emits_concludeRestoreCrash emits_concludeRestored legalWrites.emits_verify | (simp; fail))+

lemma emits_replacementNotReady:
  assumes "copies n (atStage g) job orig" "fst g = PhaseRestoring"
  shows "emits n legalPatch (atStage g) (replacementNotReady r job orig pod) (\<lambda>_. fromStage g) anyResult"
proof -
  have "emits n legalPatch (atStage g) (probeRestore r job orig pod) (\<lambda>_. fromStage g) anyResult"
    unfolding probeRestore_def using assms
    by - (rule emits_rules legalWrites.emits_verify emits_concludeWithout | (simp; fail))+
  moreover have "emits n legalPatch (atStage g) (do {
          c \<leftarrow> classifyRecordedPodLive r job;
          (case c of
             Inl e \<Rightarrow> State_Monad.return (Inl e)
           | Inr (None, _) \<Rightarrow> State_Monad.return (Inr (requeue_after (2 * second)))
           | Inr (Some livePod, liveVerdict) \<Rightarrow>
               if f_Class liveVerdict \<noteq> FailureFatal then State_Monad.return (Inr (requeue_after (2 * second)))
               else concludeRestoreCrash r job orig livePod liveVerdict)
        }) (\<lambda>_. fromStage g) anyResult"
    using assms by - (rule emits_rules emits_concludeRestoreCrash | (simp; fail))+
  ultimately show ?thesis
    using emits_reportUnrecognized [OF assms(1)]
    by (cases "f_Class (Classify pod (restoreEngines r job))") (simp_all add: replacementNotReady_def Let_def)
qed

lemma emits_replacementReady:
  assumes "copies n (atStage g) job orig" "fst g = PhaseRestoring"
  shows "emits n legalPatch (atStage g) (replacementReady r job orig pod) (\<lambda>_. fromStage g) anyResult"
  unfolding replacementReady_def Let_def using assms
  by - (rule emits_rules legalWrites.emits_verify emits_concludeWithout emits_concludeRestored | (simp; fail))+

lemma emits_reconcileRestoring:
  assumes "copies n (atStage g) job orig" "fst g = PhaseRestoring"
  shows "emits n legalPatch (atStage g) (reconcileRestoring r job orig) (\<lambda>_. fromStage g) anyResult"
proof -
  have observe: "emits n legalPatch (atStage g) (observeReplacement r j orig) (\<lambda>_. fromStage g) anyResult" if "copies n (atStage g) j orig" for j
    unfolding observeReplacement_def using that assms(2)
    by - (rule emits_rules emits_replacementMismatch emits_healRecord emits_replacementNotReady emits_replacementReady | (simp; fail))+
  have init: "emits n legalPatch (atStage g) (initRestoringStart job orig) (\<lambda>_. atStage g) (storedJob n (atStage g))"
    unfolding initRestoringStart_def using assms(1)
    by - (rule emits_rules emits_patch_same | (simp; fail) | (auto simp: storedJob_def copies_def; fail))+
  show ?thesis
    unfolding reconcileRestoring_def using assms
    by - (rule emits_rules init observe emits_atCeiling
      | (simp; fail) | (auto simp: storedJob_def copies_def atStage_def; fail))+
qed

subsection \<open>Reconcile\<close>

lemma emits_reconcilePhase:
  assumes "copies n (atStage g) job orig"
  shows "emits n legalPatch (atStage g) (reconcilePhase r job orig) (\<lambda>_. fromStage g) anyResult"
proof -
  have g: "fst g = st_Phase (pmj_Status job)" using copies_phase [OF assms] .
  note emits_reconcilePending [OF assms] emits_reconcileSnapshotting [OF assms] emits_reconcileEvicting [OF assms]
    emits_reconcileRestoring [OF assms]
  with g show ?thesis
    unfolding reconcilePhase_def by (cases "st_Phase (pmj_Status job)") (simp_all add: emits_return)
qed

lemma emits_reconcileJob:
  assumes n: "pmj_Name job = n" and g: "atStage g (pmj_Status job)"
  shows "emits n legalPatch (atStage g) (reconcileJob r job) (\<lambda>_. fromStage g) anyResult"
proof -
  have c: "copies n (atStage g) job job" using n g by (simp add: copies_def)
  have ph: "fst g = st_Phase (pmj_Status job)" using copies_phase [OF c] .
  have init: "emits n legalPatch (atStage g) (initPhase job job) (\<lambda>_. fromStage g) anyResult" if "st_Phase (pmj_Status job) = PhaseNone"
    unfolding initPhase_def using that ph n g
    by - (rule emits_rules emits_patch_step | (simp; fail))+
  have missing: "emits n legalPatch (atStage g) (failEngineNotRegistered r job job) (\<lambda>_. fromStage g) anyResult" if "engineMissing r job"
    unfolding failEngineNotRegistered_def using that ph
    by (intro emits_failJob c) (auto simp: engineMissing_def split: option.splits)
  have over: "emits n legalPatch (atStage g) (reconcileConcluded r j) (\<lambda>_. fromStage g) anyResult" for j
    by (rule emits_post [OF legal.emits_reconcileConcluded]) simp_all
  have settle: "emits n legalPatch (atStage g) (settleThenRun r job job) (\<lambda>_. fromStage g) anyResult"
    unfolding settleThenRun_def using c
    by - (rule over emits_rules atStageWrites.emits_resolveSourceFence fromStageWrites.emits_resolveSourceFence emits_reconcilePhase
      | (simp add: stepCopies_def; fail))+
  have redrive: "emits n legalPatch (atStage g) (redriveCrashDeletion r job) (\<lambda>_. atStage g) anyResult"
    unfolding redriveCrashDeletion_def by (rule emits_rules | (simp; fail))+
  have rest: "emits n legalPatch (atStage g) (do {
        c \<leftarrow> redriveCrashDeletion r job;
        (case c of Some e \<Rightarrow> State_Monad.return (Inl e) | None \<Rightarrow> settleThenRun r job job) }) (\<lambda>_. fromStage g) anyResult"
    by (rule emits_rules redrive settle | (simp; fail))+
  have "emits n legalPatch (case d of None \<Rightarrow> atStage g | Some _ \<Rightarrow> fromStage g) (case d of
           Some res \<Rightarrow> State_Monad.return res
         | None \<Rightarrow> do {
             c \<leftarrow> redriveCrashDeletion r job;
             (case c of Some e \<Rightarrow> State_Monad.return (Inl e) | None \<Rightarrow> settleThenRun r job job) }) (\<lambda>_. fromStage g) anyResult" for d
    using rest by (cases d) (simp_all add: emits_return)
  note deadline = emits_bind [OF emits_enforceDeadline [OF c] this]
  show ?thesis
    unfolding reconcileJob_def using c
    by - (rule deadline emits_if emits_return emits_finalizeSourceFence init missing | (simp; fail))+
qed

end

subsection \<open>The reconciler of cmd/main.go\<close>

lemma main_engine: "jobEngine (mainReconciler K (gkeRegistry K rs) t s c l) job = gkeEngine K Live"
  by (auto simp: jobEngine_def mainReconciler_def ForJob_def gkeRegistry_def defaultLocked_def reg_Get_def liveReader_def
      Let_def split: sum.splits option.splits if_splits)

interpretation main: job_reconciler "mainReconciler K (gkeRegistry K rs) t s c l" for K rs t s c l
proof (rule job_reconciler.intro)
  fix job
  show "snapshot_provider (getSnapshotProvider (mainReconciler K (gkeRegistry K rs) t s c l) job)"
    unfolding getSnapshotProvider_def main_engine by (simp add: mainReconciler_def gkeEng.snapshot_provider_axioms)
next
  fix job v job' p w
  assume "eng_VerifyRestore (jobEngine (mainReconciler K (gkeRegistry K rs) t s c l) job) = Some v"
  then show "wp (v job' p) (\<lambda>_. quiet w) w"
    unfolding main_engine by (rule gkeEng.verify)
next
  fix check
  assume "rc_BudgetChecker (mainReconciler K (gkeRegistry K rs) t s c l) = Some check"
  then show "budget_checker check"
    by (auto simp: mainReconciler_def intro: inFlight.budget_checker_axioms)
qed

subsection \<open>Every step is legal\<close>

context job_reconciler
begin

lemma reconcile_legal:
  assumes job: "store_get pmj_Name (cl_jobs (w_cache w)) name = Some job"
    and fresh: "jobIs name (atStage (stage (pmj_Status job))) (w_live w)"
    and run: "run_state (Reconcile r ns name) w = (res, w')"
  shows "adds legalPatch w w' \<and> jobIs name (fromStage (stage (pmj_Status job))) (w_live w')"
proof -
  let ?g = "stage (pmj_Status job)"
  let ?Q = "\<lambda>a v. adds legalPatch w v \<and> jobIs name (fromStage ?g) (w_live v)"
  have weak: "jobIs name (fromStage ?g) (w_live w)" using fresh by (rule jobIs_mono) simp
  have "wp (reconcileJob r job) ?Q (w\<lparr>w_calls := k\<rparr>)" for k
  proof -
    have "emits name legalPatch (atStage ?g) (reconcileJob r job) (\<lambda>_. fromStage ?g) anyResult"
      using store_get_key [OF job] by (intro emits_reconcileJob) (simp_all add: atStage_def)
    then have "wp (reconcileJob r job) (\<lambda>a v. jobIs name (fromStage ?g) (w_live v) \<and> adds legalPatch (w\<lparr>w_calls := k\<rparr>) v \<and> True) (w\<lparr>w_calls := k\<rparr>)"
      unfolding emits_def using fresh by simp
    then show ?thesis by (rule wp_mono) (auto simp: adds_def)
  qed
  then have "wp (Reconcile r ns name) ?Q w"
    unfolding Reconcile_def wp_bind forgetProbe_def using job weak
    by (intro wp_get_jobI) (auto simp: wp_simps view_def adds_refl)
  from wp_run [OF this run] show ?thesis .
qed

end

text \<open>
  C3 (safety). Whatever calls fail, as long as the stored job is in the phase, and has the completion
  time, of the cached copy that the reconcile starts from, every status patch follows the state machine:
  \<open>Pending\<close>, \<open>Snapshotting\<close>, \<open>Evicting\<close>, \<open>Restoring\<close> in this order, then \<open>Succeeded\<close>;
  \<open>SucceededWithoutRestore\<close> only from \<open>Evicting\<close> or \<open>Restoring\<close>; \<open>Failed\<close> from every phase that is not
  terminal; nothing leaves a terminal phase; and a job is never concluded without its
  completion time. The stored job takes at most one step. The condition is needed: a status patch is a merge patch
  without a resource version, so a patch that is made from a stale copy is applied to whatever is stored.
\<close>

theorem reconcile_takes_legal_steps:
  assumes "NewDefaultRegistry K Live policy = Inr engines"
    and "store_get pmj_Name (cl_jobs (w_cache w)) name = Some job"
    and "jobIs name (atStage (stage (pmj_Status job))) (w_live w)"
    and "run_state (Reconcile (mainReconciler K engines t s c l) ns name) w = (res, w')"
  shows "adds legalPatch w w' \<and> jobIs name (fromStage (stage (pmj_Status job))) (w_live w')"
proof -
  obtain rs where "engines = gkeRegistry K rs" using default_registry [OF assms(1)] by blast
  with main.reconcile_legal [OF assms(2,3)] assms(4) show ?thesis by blast
qed

lemma reconcile_takes_legal_steps_witness:
  "\<exists>w'. run_state (Reconcile (mainReconciler sampleLib stockRegistry 0 0 0 0) ''ns'' (pmj_Name job1)) (worldOf budgetScene) = (Inr requeue_now, w') \<and>
     adds legalPatch (worldOf budgetScene) w' \<and> w_log w' \<noteq> []"
proof -
  let ?run = "run_state (Reconcile (mainReconciler sampleLib stockRegistry 0 0 0 0) ''ns'' (pmj_Name job1)) (worldOf budgetScene)"
  have "fst ?run = Inr requeue_now \<and> w_log (snd ?run) \<noteq> []" by code_simp
  then have run: "?run = (Inr requeue_now, snd ?run)" and log: "w_log (snd ?run) \<noteq> []" by (metis prod.collapse)+
  have j: "store_get pmj_Name (cl_jobs (w_cache (worldOf budgetScene))) (pmj_Name job1) = Some job1"
    by (simp add: budgetScene_def clusterOf_def store_get_def)
  have "jobIs (pmj_Name job1) (atStage (stage (pmj_Status job1))) (w_live (worldOf budgetScene))"
    using j by (simp add: jobIs_def atStage_def)
  from reconcile_takes_legal_steps [OF stock_registry j this run] run log show ?thesis by blast
qed

end
