(* ===== verification/Guarded.thy ===== *)
theory Guarded
  imports Guard Transitions Gate Migrations
begin

text \<open>
  The invariant engine inside the reconcilers: what each of them shows the engine after a
  reconcile (\<open>evaluateInvariants\<close> of \<open>controller/podmigrationjob_controller.go\<close>,
  \<open>controller/pod_gate_controller.go\<close> and \<open>controller/podmigration_controller.go\<close>), and what the job
  reconciler does about it in strict mode.

  \<^item> \<open>evaluateJob\<close>, \<open>evaluateGate\<close> and \<open>evaluatePM\<close> are the deferred calls. Their argument is the object
    as the reconcile leaves it, their result the reconcile's result and the engine's new state.
  \<^item> The conditions of the PodSnapshot are read, but no rule looks at them.
  \<^item> The theorems say what the abort may write, and that what the reconcilers themselves write
    satisfies the rules: a concluded restore passes I12, a released pod passes I2.
\<close>

section \<open>Definitions\<close>

subsection \<open>The job reconciler\<close>

definition primaryPodName :: "pmj \<Rightarrow> string" where
  "primaryPodName job = (if st_RestoredPodName (pmj_Status job) = [] then pmj_PodRefName job else st_RestoredPodName (pmj_Status job))"

definition readTrigger :: "pmj \<Rightarrow> trigger option io" where
  "readTrigger job =
     (if pmj_PodRefName job = [] then State_Monad.return None
      else do {
        t \<leftarrow> get_trigger Live (FormatPSMTName (pmj_PodRefName job) (pmj_TargetPodUID job));
        State_Monad.return (case t of Inl _ \<Rightarrow> None | Inr trig \<Rightarrow> Some trig)
      })"

definition orphanedTrigger :: "pmj \<Rightarrow> trigger option \<Rightarrow> bool" where
  "orphanedTrigger job trig =
     (case trig of
        None \<Rightarrow> False
      | Some t \<Rightarrow> (st_Phase (pmj_Status job) = PhaseSucceeded \<or> st_Phase (pmj_Status job) = PhaseFailed) \<and> tg_DeletionTimestamp t = None)"

definition snapshotNamed :: "pmj \<Rightarrow> trigger option \<Rightarrow> string" where
  "snapshotNamed job trig =
     (if st_SnapshotRef (pmj_Status job) \<noteq> [] then st_SnapshotRef (pmj_Status job)
      else case trig of None \<Rightarrow> [] | Some t \<Rightarrow> (case tg_SnapshotCreated t of NestedStr name \<Rightarrow> name | _ \<Rightarrow> []))"

definition readSnapshot :: "string \<Rightarrow> unit io" where
  "readSnapshot name = (if name = [] then State_Monad.return () else do { _ \<leftarrow> get_snapshot Live name; State_Monad.return () })"

definition crashOf :: "reconciler \<Rightarrow> pmj \<Rightarrow> pod option \<Rightarrow> bool" where
  "crashOf r job primary =
     (case primary of
        None \<Rightarrow> False
      | Some p \<Rightarrow> st_RestoredPodName (pmj_Status job) \<noteq> [] \<and> pod_Name p = st_RestoredPodName (pmj_Status job) \<and>
          (st_RestoredPodUID (pmj_Status job) = [] \<or> pod_UID p = st_RestoredPodUID (pmj_Status job)) \<and>
          f_Class (Classify p (restoreEngines r job)) = FailureFatal)"

definition okOr :: "'a \<Rightarrow> api_error + 'a \<Rightarrow> 'a" where
  "okOr d x = (case x of Inl _ \<Rightarrow> d | Inr v \<Rightarrow> v)"

text \<open>What the reconciler shows the engine.\<close>

definition observeJob :: "reconciler \<Rightarrow> pmj \<Rightarrow> reconcileSnapshot io" where
  "observeJob r job = do {
     lj \<leftarrow> list_jobs Cached;
     lp \<leftarrow> list_pods Cached;
     trig \<leftarrow> readTrigger job;
     readSnapshot (snapshotNamed job trig);
     now \<leftarrow> timeNow;
     let primary = find (\<lambda>p. pod_Name p = primaryPodName job) (okOr [] lp);
     State_Monad.return \<lparr>rs_Now = now, rs_Reconciler = ''PodMigrationJobReconciler'', rs_PrimaryPMJ = Some job, rs_PrimaryPod = primary,
       rs_PrimaryMigration = None, rs_NamespacePMJs = okOr [] lj, rs_NamespacePods = okOr [] lp, rs_TargetingPMJs = [],
       rs_PodListFailed = isl lp, rs_PMJListFailed = isl lj, rs_HasOrphanedTrigger = orphanedTrigger job trig,
       rs_RestoreCrashSignatureMatched = crashOf r job primary,
       rs_RestoreOrders = map_option (\<lambda>reg. reg_InspectRestoreOrder (Some reg)) (rc_Engines r)\<rparr>
   }"

definition abortedJob :: "reconciler \<Rightarrow> time \<Rightarrow> violation \<Rightarrow> pmj \<Rightarrow> pmj" where
  "abortedJob r now v job =
     setCond (rc_lib r) now ConditionReady CondFalse EventReasonInvariantViolation
       (''['' @ vi_InvariantID v @ '':'' @ vi_InvariantName v @ ''] '' @ vi_Message v) (concluded PhaseFailed now job)"

text \<open>The status is persisted before the trigger is cleaned up.\<close>

definition abortJob :: "reconciler \<Rightarrow> pmj \<Rightarrow> violation \<Rightarrow> (api_error + result) io" where
  "abortJob r job v = do {
     now \<leftarrow> timeNow;
     p \<leftarrow> patchStatus (abortedJob r now v job) job;
     (case p of
        Inl e \<Rightarrow> State_Monad.return (Inl e)
      | Inr job' \<Rightarrow> do {
          _ \<leftarrow> Cleanup (getSnapshotProvider r job') job' (pmj_PodRefName job');
          State_Monad.return (Inr no_requeue)
        })
   }"

definition mustAbort :: "pmj \<Rightarrow> evaluation \<Rightarrow> violation option" where
  "mustAbort job e =
     (if ev_ShouldFail e \<and> \<not> IsTerminalPhase (st_Phase (pmj_Status job)) then (case ev_Violations e of [] \<Rightarrow> None | v # _ \<Rightarrow> Some v) else None)"

definition evaluateJob :: "reconciler \<Rightarrow> guard \<Rightarrow> pmj \<Rightarrow> api_error + result \<Rightarrow> ((api_error + result) \<times> guard) io" where
  "evaluateJob r g job res =
     (if \<not> Enabled g \<or> pmj_DeletionTimestamp job \<noteq> None \<or> isl res then State_Monad.return (res, g)
      else do {
        s \<leftarrow> observeJob r job;
        let e = Evaluate (rc_lib r) (rs_Now s) s g;
        reportViolations g s e;
        (case mustAbort job e of
           None \<Rightarrow> State_Monad.return (res, ev_Guard e)
         | Some v \<Rightarrow> do {
             res' \<leftarrow> abortJob r job v;
             State_Monad.return (res', ev_Guard e)
           })
      })"

subsection \<open>The gate controller\<close>

definition assignedJobOf :: "pmj option \<Rightarrow> pod \<Rightarrow> pmj option io" where
  "assignedJobOf job p =
     (let assigned = mget (pod_Annotations p) AnnotationAssignedPMJ in
      if job \<noteq> None \<or> assigned = [] then State_Monad.return job
      else do {
        g \<leftarrow> get_job Cached assigned;
        State_Monad.return (case g of Inl _ \<Rightarrow> None | Inr j \<Rightarrow> Some j)
      })"

definition targetingJobs :: "pod \<Rightarrow> pmj list io" where
  "targetingJobs p =
     (if pod_UID p = [] then State_Monad.return []
      else do {
        g \<leftarrow> get_job Cached (FormatPMJName (pod_Name p) (pod_UID p));
        State_Monad.return (case g of Inl _ \<Rightarrow> [] | Inr j \<Rightarrow> if pmj_TargetPodUID j = pod_UID p then [j] else [])
      })"

definition observeGate :: "gateReconciler \<Rightarrow> pod \<Rightarrow> pmj option \<Rightarrow> reconcileSnapshot io" where
  "observeGate G p job = do {
     j \<leftarrow> assignedJobOf job p;
     targeting \<leftarrow> targetingJobs p;
     now \<leftarrow> timeNow;
     State_Monad.return \<lparr>rs_Now = now, rs_Reconciler = ''PodGateReconciler'', rs_PrimaryPMJ = j, rs_PrimaryPod = Some p, rs_PrimaryMigration = None,
       rs_NamespacePMJs = [], rs_NamespacePods = [], rs_TargetingPMJs = targeting, rs_PodListFailed = False, rs_PMJListFailed = False,
       rs_HasOrphanedTrigger = False, rs_RestoreCrashSignatureMatched = False,
       rs_RestoreOrders = map_option (\<lambda>reg. reg_InspectRestoreOrder (Some reg)) (pg_Engines G)\<rparr>
   }"

definition evaluateGate :: "gateReconciler \<Rightarrow> guard \<Rightarrow> pod \<Rightarrow> pmj option \<Rightarrow> api_error + result \<Rightarrow> guard io" where
  "evaluateGate G g p job res =
     (if \<not> Enabled g \<or> isl res then State_Monad.return g
      else do {
        s \<leftarrow> observeGate G p job;
        let e = Evaluate (pg_lib G) (rs_Now s) s g;
        reportViolations g s e;
        State_Monad.return (ev_Guard e)
      })"

subsection \<open>The PodMigration controller\<close>

definition evaluatePM :: "pmReconciler \<Rightarrow> guard \<Rightarrow> podMigration \<Rightarrow> api_error + result \<Rightarrow> guard io" where
  "evaluatePM R g config res =
     (if \<not> Enabled g \<or> isl res \<and> pm_DeletionTimestamp config = None then State_Monad.return g
      else do {
        now \<leftarrow> timeNow;
        let s = \<lparr>rs_Now = now, rs_Reconciler = ''PodMigrationReconciler'', rs_PrimaryPMJ = None, rs_PrimaryPod = None, rs_PrimaryMigration = Some config,
          rs_NamespacePMJs = [], rs_NamespacePods = [], rs_TargetingPMJs = [], rs_PodListFailed = False, rs_PMJListFailed = False,
          rs_HasOrphanedTrigger = False, rs_RestoreCrashSignatureMatched = False, rs_RestoreOrders = None\<rparr>;
        let e = Evaluate (pmr_lib R) (rs_Now s) s g;
        reportViolations g s e;
        State_Monad.return (ev_Guard e)
      })"

section \<open>Lemmas\<close>

subsection \<open>What the engine's part of a reconcile writes\<close>

text \<open>
  Events, and in strict mode the failure of an active job; the trigger goes only once that
  failure is stored.
\<close>

definition guardWrite :: "reconciler \<Rightarrow> guard \<Rightarrow> pmj \<Rightarrow> effect \<Rightarrow> cluster \<Rightarrow> cluster \<Rightarrow> bool" where
  "guardWrite r g job e c c' \<longleftrightarrow>
     (\<exists>obj kind rsn. e = Event obj kind rsn) \<or>
     gd_Mode g = ModeStrict \<and> pmj_DeletionTimestamp job = None \<and> \<not> IsTerminalPhase (st_Phase (pmj_Status job)) \<and>
       ((\<exists>now v. e = PatchJobStatus job (abortedJob r now v job)) \<and> legalPatch e c c' \<or>
        (\<exists>n. e = DeleteTrigger n) \<and> (\<exists>l. store_get pmj_Name (cl_jobs c) (pmj_Name job) = Some l \<and> st_Phase (pmj_Status l) = PhaseFailed))"

lemma reads_observe: "onlyReads (observeJob r job)" "onlyReads (observeGate G p jo)"
  unfolding observeJob_def observeGate_def readTrigger_def readSnapshot_def assignedJobOf_def targetingJobs_def Let_def
  by (rule reads_rules | simp)+

lemma tally_lenient: "m \<noteq> ModeStrict \<Longrightarrow> ta_Fail (fold (tallyViolation m terminal degraded now rules) vs t) = ta_Fail t"
proof (induction vs arbitrary: t)
  case (Cons v vs)
  have "ta_Fail (tallyViolation m terminal degraded now rules v t) = ta_Fail t"
    using Cons.prems by (simp add: tallyViolation_def escalate_def countSample_def Let_def split: prod.split)
  with Cons show ?case by simp
qed simp

lemma Evaluate_strict: "ev_ShouldFail (Evaluate K wall s g) \<Longrightarrow> gd_Mode g = ModeStrict"
proof (rule ccontr)
  assume fail: "ev_ShouldFail (Evaluate K wall s g)" and "gd_Mode g \<noteq> ModeStrict"
  moreover have "gd_Mode (makeRoom a b (clearTerminal s g)) = gd_Mode g" for a b
    using keptOrDropped_trans [OF clearTerminal_kept [of g s] makeRoom_kept [of _ a b]] by (simp add: keptOrDropped_def)
  ultimately show False
    by (auto simp: Evaluate_def violatingSample_guard noEvaluation_def tally_lenient startTally_def Let_def split: if_splits)
qed

lemma does_eventOn:
  "(\<And>w'. w_live w' = w_live w \<Longrightarrow> Q () w') \<Longrightarrow> does (guardWrite r g job) (eventOn g' obj) Q w"
  by (auto simp: eventOn_def guardWrite_def intro!: does_return does_event split: option.split)

lemma does_report:
  "(\<And>w'. w_live w' = w_live w \<Longrightarrow> Q () w') \<Longrightarrow> does (guardWrite r g job) (reportNew g' s vs) Q w"
  "(\<And>w'. w_live w' = w_live w \<Longrightarrow> Q () w') \<Longrightarrow> does (guardWrite r g job) (reportEscalating g' s vs) Q w"
  by (induction vs arbitrary: w) (auto intro!: does_bind does_return does_eventOn)

lemma does_reportViolations:
  "(\<And>w'. w_live w' = w_live w \<Longrightarrow> Q () w') \<Longrightarrow> does (guardWrite r g job) (reportViolations g' s e) Q w"
  unfolding reportViolations_def by (auto intro!: does_bind does_report)

lemma aborted_legal: "\<not> IsTerminalPhase (st_Phase (pmj_Status job)) \<Longrightarrow> legalPatch (PatchJobStatus job (abortedJob r now v job)) c c'"
  by (simp add: legalPatch_def legalStep_def abortedJob_def concluded_def setCond_def setStatus_def)

lemma aborted_stored:
  "\<not> IsTerminalPhase (st_Phase (pmj_Status job)) \<Longrightarrow> st_Phase (merge_status (pmj_Status job) (pmj_Status (abortedJob r now v job)) s) = PhaseFailed"
  by (auto simp: merge_status_def merge_field_def abortedJob_def concluded_def setCond_def setStatus_def IsTerminalPhase_def)

lemma does_gkeCleanup:
  assumes "gd_Mode g = ModeStrict" "pmj_DeletionTimestamp job = None" "\<not> IsTerminalPhase (st_Phase (pmj_Status job))"
    and "store_get pmj_Name (cl_jobs (w_live w)) (pmj_Name job) = Some l" "st_Phase (pmj_Status l) = PhaseFailed" and "\<And>a w'. Q a w'"
  shows "does (guardWrite r g job) (GKE_Cleanup job' podName) Q w"
  unfolding GKE_Cleanup_def deleteTrigger_def
  by (intro does_bind does_write) (use assms in \<open>auto simp: guardWrite_def split: option.splits if_splits intro!: does_return\<close>)

lemma does_abortJob:
  assumes "tidy (w_live w)" "gd_Mode g = ModeStrict" "pmj_DeletionTimestamp job = None" "\<not> IsTerminalPhase (st_Phase (pmj_Status job))"
    and cleanup: "\<And>j. Cleanup (getSnapshotProvider r j) = GKE_Cleanup" and Q: "\<And>a w'. Q a w'"
  shows "does (guardWrite r g job) (abortJob r job v) Q w"
proof -
  have name: "pmj_Name (abortedJob r now v job) = pmj_Name job" for now by (simp add: abortedJob_def concluded_def setCond_def setStatus_def)
  show ?thesis
    unfolding abortJob_def
    by (intro does_bind does_timeNow does_patchStatus)
      (use assms in \<open>auto simp: guardWrite_def name aborted_legal aborted_stored intro!: does_return does_bind does_gkeCleanup\<close>)
qed

lemma does_evaluateJob:
  assumes "tidy (w_live w)" and cleanup: "\<And>j. Cleanup (getSnapshotProvider r j) = GKE_Cleanup"
  shows "does (guardWrite r g job) (evaluateJob r g job res)
    (\<lambda>out _. gd_Mode g \<noteq> ModeStrict \<or> IsTerminalPhase (st_Phase (pmj_Status job)) \<longrightarrow> fst out = res) w"
proof -
  let ?Q = "\<lambda>out (_ :: world). gd_Mode g \<noteq> ModeStrict \<or> IsTerminalPhase (st_Phase (pmj_Status job)) \<longrightarrow> fst out = res"
  have "does (guardWrite r g job) (case mustAbort job (Evaluate (rc_lib r) (rs_Now s) s g) of
      None \<Rightarrow> State_Monad.return (res, ev_Guard (Evaluate (rc_lib r) (rs_Now s) s g))
    | Some v \<Rightarrow> do { res' \<leftarrow> abortJob r job v; State_Monad.return (res', ev_Guard (Evaluate (rc_lib r) (rs_Now s) s g)) }) ?Q w'"
    if "pmj_DeletionTimestamp job = None" "tidy (w_live w')" for s w'
  proof (cases "mustAbort job (Evaluate (rc_lib r) (rs_Now s) s g)")
    case (Some v)
    then have "gd_Mode g = ModeStrict" "\<not> IsTerminalPhase (st_Phase (pmj_Status job))" by (auto simp: mustAbort_def dest!: Evaluate_strict split: if_splits)
    with that Some cleanup show ?thesis by (auto intro!: does_bind does_abortJob does_return)
  qed (simp add: does_return)
  with assms show ?thesis
    unfolding evaluateJob_def Let_def
    by (auto intro!: does_return does_bind does_onlyReads [OF reads_observe(1)] does_reportViolations)
qed

lemma main_cleanup: "Cleanup (getSnapshotProvider (mainReconciler K (gkeRegistry K rs) t s c l) job) = GKE_Cleanup"
  unfolding getSnapshotProvider_def main_engine by (simp add: mainReconciler_def gkeEngine_def gkeProvider_def)

subsection \<open>Properties\<close>

text \<open>
  C14 (safety). Whatever the invariant engine has seen, evaluating a reconcile writes nothing but
  events, except in strict mode on a job that is neither concluded nor being deleted: there it may
  fail the job, a legal step with its completion time, and it deletes a trigger only once the
  stored job has failed, so that no active job is left without its trigger. Outside strict mode
  the reconcile's result is the one it had.
\<close>

theorem guard_aborts_in_order:
  assumes "NewDefaultRegistry K Live policy = Inr engines" and "tidy (w_live w)"
    and "run_state (evaluateJob (mainReconciler K engines t s c l) g job res) w = (out, w')"
  shows "adds (guardWrite (mainReconciler K engines t s c l) g job) w w' \<and>
    (gd_Mode g \<noteq> ModeStrict \<or> IsTerminalPhase (st_Phase (pmj_Status job)) \<longrightarrow> fst out = res)"
proof -
  obtain rs where G: "engines = gkeRegistry K rs" using default_registry [OF assms(1)] by blast
  show ?thesis unfolding G
    by (rule does_run [OF does_evaluateJob [OF assms(2)] assms(3) [unfolded G]]) (rule main_cleanup)
qed

definition brokenJob :: pmj where
  "brokenJob = setCond sampleLib 0 ConditionRestored CondTrue ReasonRestoreInferred [] (jobOf ''pmj-web-0'' ''web-0'' ''u0'' PhaseSnapshotting)"

lemma guard_aborts_in_order_witness:
  "let r = mainReconciler sampleLib stockRegistry 0 0 0 0; g = NewEngine sampleLib hd ModeStrict True; c = clusterOf [] [brokenJob];
       run = run_state (evaluateJob r g brokenJob (Inr no_requeue)) (worldOf c) in
   adds (guardWrite r g brokenJob) (worldOf c) (snd run) \<and> list_ex (\<lambda>(e, _). case e of PatchJobStatus _ _ \<Rightarrow> True | _ \<Rightarrow> False) (w_log (snd run))"
proof -
  let ?r = "mainReconciler sampleLib stockRegistry 0 0 0 0"
  let ?g = "NewEngine sampleLib hd ModeStrict True"
  let ?c = "clusterOf [] [brokenJob]"
  let ?run = "run_state (evaluateJob ?r ?g brokenJob (Inr no_requeue)) (worldOf ?c)"
  have "list_ex (\<lambda>(e, _). case e of PatchJobStatus _ _ \<Rightarrow> True | _ \<Rightarrow> False) (w_log (snd ?run))" by code_simp
  moreover have "tidy (w_live (worldOf ?c))" by (simp add: tidy_def clusterOf_def store_get_def brokenJob_def setCond_def setStatus_def jobOf_def)
  moreover have "?run = (fst ?run, snd ?run)" by simp
  ultimately show ?thesis unfolding Let_def using guard_aborts_in_order [OF stock_registry] by blast
qed

subsection \<open>What the reconcilers write passes the rules\<close>

lemma afterMarker_suffix: "marker \<noteq> [] \<Longrightarrow> \<exists>x. afterMarker marker (pre @ marker @ ev) = Some (x @ ev)"
proof (induction pre)
  case Nil
  then show ?case by (cases marker) (auto simp: hasPrefix_def)
next
  case (Cons a pre)
  have "drop (length marker) (a # pre @ marker @ ev) = drop (length marker) (a # pre @ marker) @ ev"
    using drop_append [of "length marker" "a # pre @ marker" ev] by simp
  with Cons show ?case by auto
qed

lemma trimSpace_empty: "trimSpace s = [] \<longleftrightarrow> (\<forall>c \<in> set s. isSpace c)"
proof -
  have "trimSpace s = [] \<longleftrightarrow> (\<forall>c \<in> set (dropWhile isSpace s). isSpace c)" by (simp add: trimSpace_def)
  also have "\<dots> \<longleftrightarrow> (\<forall>c \<in> set s. isSpace c)" by (induction s) auto
  finally show ?thesis .
qed

lemma confirmed_message:
  assumes "rv_Confirmed v" "engineName \<noteq> []" "engineName \<noteq> DefaultEngineName" "trimSpace (rv_Evidence v) \<noteq> []"
  shows "hasConfirmedRestoreEvidence engineName (restoredMessage r pod engineName v)"
proof -
  obtain x where "afterMarker (''engine '' @ engineName @ '' confirmed the restore: '')
      ((''Pod state restored from snapshot and replacement pod '' @ pod_Name pod @ '' is Ready; '') @
       (''engine '' @ engineName @ '' confirmed the restore: '') @ rv_Evidence v) = Some (x @ rv_Evidence v)"
    using afterMarker_suffix [of "''engine '' @ engineName @ '' confirmed the restore: ''"] by blast
  moreover have "trimSpace (x @ rv_Evidence v) \<noteq> []" using assms(4) by (auto simp: trimSpace_empty)
  ultimately show ?thesis using assms(1-3) by (simp add: hasConfirmedRestoreEvidence_def restoredMessage_def)
qed

text \<open>The job as \<open>concludeRestored\<close> patches it.\<close>

definition restoredJob :: "reconciler \<Rightarrow> time \<Rightarrow> pod \<Rightarrow> string \<Rightarrow> restoreVerdict \<Rightarrow> pmj \<Rightarrow> pmj" where
  "restoredJob r now pod engineName verdict job =
     (let reason = (if rv_Confirmed verdict then ReasonRestoreVerified else ReasonRestoreInferred);
          message = restoredMessage r pod engineName verdict
      in fst (clearUnrecognizedRestoreCrash r now
           (setCond (rc_lib r) now ConditionReady CondTrue reason message
             (setCond (rc_lib r) now ConditionRestored CondTrue reason message (concluded PhaseSucceeded now job)))))"

lemma setCond_find:
  assumes "lawful_conditions K"
  shows "\<exists>t. FindStatusCondition (st_Conditions (pmj_Status (setCond K now typ status reason message job))) typ =
      Some \<lparr>c_Type = typ, c_Status = status, c_Reason = reason, c_Message = message, c_ObservedGeneration = pmj_Generation job, c_LastTransitionTime = t\<rparr>"
    "u \<noteq> typ \<Longrightarrow> FindStatusCondition (st_Conditions (pmj_Status (setCond K now typ status reason message job))) u =
      FindStatusCondition (st_Conditions (pmj_Status job)) u"
  using assms by (auto simp: setCond_def setStatus_def find_set_condition)

lemma setCond_keeps [simp]:
  "pmj_Annotations (setCond K now typ status reason message job) = pmj_Annotations job"
  "pmj_Generation (setCond K now typ status reason message job) = pmj_Generation job"
  "st_Phase (pmj_Status (setCond K now typ status reason message job)) = st_Phase (pmj_Status job)"
  by (simp_all add: setCond_def setStatus_def)

lemma restoredJob_conditions:
  fixes r now pod engineName verdict job
  defines "j \<equiv> restoredJob r now pod engineName verdict job" and "reason \<equiv> if rv_Confirmed verdict then ReasonRestoreVerified else ReasonRestoreInferred"
  assumes "lawful_conditions (rc_lib r)" and "typ \<in> {ConditionRestored, ConditionReady}"
  shows "\<exists>x. FindStatusCondition (st_Conditions (pmj_Status j)) typ = Some x \<and> c_Status x = CondTrue \<and> c_Reason x = reason \<and>
      c_Message x = restoredMessage r pod engineName verdict"
proof -
  note find = setCond_find [OF assms(3)]
  let ?ready = "\<lambda>k. setCond (rc_lib r) now ConditionReady CondTrue reason (restoredMessage r pod engineName verdict) k"
  let ?k = "?ready (setCond (rc_lib r) now ConditionRestored CondTrue reason (restoredMessage r pod engineName verdict) (concluded PhaseSucceeded now job))"
  have keep: "FindStatusCondition (st_Conditions (pmj_Status (fst (clearUnrecognizedRestoreCrash r now k)))) typ = FindStatusCondition (st_Conditions (pmj_Status k)) typ" for k
    using assms(4) find(2) by (auto simp: clearUnrecognizedRestoreCrash_def const_defs Let_def)
  have "\<exists>x. FindStatusCondition (st_Conditions (pmj_Status ?k)) typ = Some x \<and> c_Status x = CondTrue \<and> c_Reason x = reason \<and>
      c_Message x = restoredMessage r pod engineName verdict"
  proof (cases "typ = ConditionReady")
    case True
    then show ?thesis using find(1) [of now ConditionReady] by force
  next
    case False
    then have "FindStatusCondition (st_Conditions (pmj_Status ?k)) typ =
        FindStatusCondition (st_Conditions (pmj_Status (setCond (rc_lib r) now typ CondTrue reason (restoredMessage r pod engineName verdict) (concluded PhaseSucceeded now job)))) typ"
      using assms(4) find(2) by auto
    then show ?thesis using find(1) [of now "typ"] by force
  qed
  then show ?thesis unfolding j_def restoredJob_def Let_def keep reason_def .
qed

lemma restoredJob_keeps [simp]:
  "effectiveJobEngineName (restoredJob r now pod engineName verdict job) = effectiveJobEngineName job"
  "st_Phase (pmj_Status (restoredJob r now pod engineName verdict job)) = PhaseSucceeded"
  by (simp_all add: restoredJob_def clearUnrecognizedRestoreCrash_def effectiveJobEngineName_def jobEngineAnnotation_def concluded_def setStatus_def Let_def)

lemma restoredJob_I12:
  assumes "lawful_conditions (rc_lib r)" and "rv_Confirmed verdict \<Longrightarrow>
      engineName = effectiveJobEngineName job \<and> engineName \<noteq> DefaultEngineName \<and> trimSpace (rv_Evidence verdict) \<noteq> []"
  shows "I12_job (restoredJob r now pod engineName verdict job) = []"
proof -
  let ?j = "restoredJob r now pod engineName verdict job"
  let ?reason = "if rv_Confirmed verdict then ReasonRestoreVerified else ReasonRestoreInferred"
  obtain x y where x: "FindStatusCondition (st_Conditions (pmj_Status ?j)) ConditionRestored = Some x" "c_Status x = CondTrue" "c_Reason x = ?reason"
      "c_Message x = restoredMessage r pod engineName verdict"
    and y: "FindStatusCondition (st_Conditions (pmj_Status ?j)) ConditionReady = Some y" "c_Status y = CondTrue" "c_Reason y = ?reason"
    using restoredJob_conditions [OF assms(1)] by (metis insertCI)
  have ne: "effectiveJobEngineName job \<noteq> []" by (simp add: effectiveJobEngineName_def DefaultEngineName_def)
  show ?thesis
  proof (cases "rv_Confirmed verdict")
    case True
    with assms(2) ne have "hasConfirmedRestoreEvidence (effectiveJobEngineName job) (c_Message x)"
      using confirmed_message x(4) by metis
    with True x y show ?thesis by (simp add: I12_job_def Let_def trueWith_def hasReason_def confirmedIn_def absentOrTrue_def)
  next
    case False
    with x y show ?thesis by (simp add: I12_job_def Let_def trueWith_def hasReason_def validVerdict_def absentOrTrue_def const_defs)
  qed
qed

definition patchesPassI12 :: "effect \<Rightarrow> cluster \<Rightarrow> cluster \<Rightarrow> bool" where
  "patchesPassI12 e c c' \<longleftrightarrow> (\<forall>orig job. e = PatchJobStatus orig job \<longrightarrow> I12_job job = [])"

lemma does_completeRestore:
  assumes "snapshot_provider (getSnapshotProvider r job)" "\<And>a w'. Q a w'"
  shows "does patchesPassI12 (completeRestore r job pod) Q w"
proof -
  have "adds patchesPassI12 w w'" if frame: "providerFrame w w'" for w'
  proof -
    obtain k c es where w': "w' = w\<lparr>w_calls := k, w_live := c, w_log := w_log w @ es\<rparr>" and "chain providerStep (w_live w) es c"
      using frame unfolding providerFrame_def by blast
    then have "chain patchesPassI12 (w_live w) es c"
      by (elim chain_mono) (auto simp: providerStep_def providerWrite_def patchesPassI12_def)
    with w' show ?thesis by (auto simp: adds_def)
  qed
  with assms(2) show ?thesis
    unfolding completeRestore_def does_def
    by (auto simp: wp_simps adds_refl split: option.split intro!: snapshot_provider.completerI [OF assms(1)])
qed

text \<open>
  A restore that the job reconciler concludes satisfies rule I12: the patched job is
  Succeeded, its Restored and Ready conditions agree, and a verdict is called verified only with
  the engine's evidence in the message, so that the rule finds it. It needs what the engines
  document: a confirmed verdict comes from the job's own engine, not from the one that only infers
  restores, and carries evidence.
\<close>

theorem concluded_restore_passes_I12:
  assumes "lawful_conditions (rc_lib r)" and "snapshot_provider (getSnapshotProvider r job)" and "w_log w = []"
    and "rv_Confirmed verdict \<Longrightarrow> engineName = effectiveJobEngineName job \<and> engineName \<noteq> DefaultEngineName \<and> trimSpace (rv_Evidence verdict) \<noteq> []"
    and "run_state (concludeRestored r job origJob pod engineName verdict) w = (res, w')" and "(PatchJobStatus orig job', c) \<in> set (w_log w')"
  shows "I12_job job' = []"
proof -
  have I12: "I12_job (restoredJob r now pod engineName verdict job) = []" for now using restoredJob_I12 assms(1,4) by blast
  have "does patchesPassI12 (concludeRestored r job origJob pod engineName verdict) (\<lambda>_ _. True) w"
    unfolding concludeRestored_def patchStatus_def Let_def
    by (intro does_bind does_completeRestore assms(2))
      (auto split: option.split split del: if_split simp: patchesPassI12_def I12 [unfolded restoredJob_def Let_def] intro!: does_return does_bind does_timeNow does_write_job)
  from adds_write [OF conjunct1 [OF does_run [OF this assms(5)]] assms(6)] assms(3) show ?thesis by (auto simp: patchesPassI12_def)
qed

definition inferredVerdict :: restoreVerdict where
  "inferredVerdict = \<lparr>rv_Outcome = Restored, rv_Reason = [], rv_Evidence = ''pod Ready'', rv_Confirmed = False\<rparr>"

lemma concluded_restore_passes_I12_witness:
  "\<exists>orig job' c. (PatchJobStatus orig job', c) \<in> set (w_log (snd (run_state
       (concludeRestored (mainReconciler sampleLib stockRegistry 0 0 0 0) durableJob durableJob gatedPod GKEPodSnapshotsName inferredVerdict) (worldOf gateScene)))) \<and>
     I12_job job' = []"
proof -
  let ?r = "mainReconciler sampleLib stockRegistry 0 0 0 0"
  let ?run = "run_state (concludeRestored ?r durableJob durableJob gatedPod GKEPodSnapshotsName inferredVerdict) (worldOf gateScene)"
  have "list_ex (\<lambda>(e, c). case e of PatchJobStatus _ _ \<Rightarrow> True | _ \<Rightarrow> False) (w_log (snd ?run))" by code_simp
  then obtain orig job' c where p: "(PatchJobStatus orig job', c) \<in> set (w_log (snd ?run))" by (auto simp: list_ex_iff split: effect.splits)
  obtain rs where "stockRegistry = gkeRegistry sampleLib rs" using default_registry [OF stock_registry] by blast
  then have prov: "snapshot_provider (getSnapshotProvider ?r durableJob)" using main.provider by metis
  have lib: "rc_lib ?r = sampleLib" by (simp add: mainReconciler_def)
  have run: "?run = (fst ?run, snd ?run)" by simp
  have "I12_job job' = []"
    by (rule concluded_restore_passes_I12 [OF _ prov worldOf_log _ run p])
      (simp_all add: lib sampleLib_conditions inferredVerdict_def)
  with p show ?thesis by blast
qed

lemma gke_order_inspected:
  "GKE_InspectRestoreOrder q = (ref, b, True) \<Longrightarrow> reg_InspectRestoreOrder (Some (gkeRegistry K rs)) [] q = (ref, b, True)"
  by (simp add: reg_InspectRestoreOrder_def gkeRegistry_def defaultLocked_def reg_Get_def inspectWith_def gkeEngine_def gkeOrderer_def trimSpace_def)

lemma released_passes_I2:
  assumes "rs_RestoreOrders s = Some (reg_InspectRestoreOrder (Some (gkeRegistry K rs)))" and "GKE_InspectRestoreOrder q = (ref, b, True)"
  shows "I2_pod s q = []"
  using gke_order_inspected [OF assms(2)] by (auto simp: I2_pod_def Let_def inspectPodRestoreOrder_def assms(1))

text \<open>
  A pod that the gate controller lets go is no silent cold start to rule I2: in every
  snapshot that inspects restore orders through the controller's registry, the released pod
  carries an order, a snapshot or the explicit bypass. The snapshot reference of the job it waits
  for is taken to be an object name, without blanks around it.
\<close>

theorem released_pod_passes_I2:
  assumes "NewDefaultRegistry K Live policy = Inr engines" and "tidy (w_live w)" and "honest w" and "coherent w" and "w_log w = []"
    and "store_get pod_Name (cl_pods (w_cache w)) name = Some p"
    and "\<And>j. store_get pmj_Name (cl_jobs (w_cache w)) (mget (pod_Annotations p) AnnotationAssignedPMJ) = Some j \<Longrightarrow>
      trimSpace (st_SnapshotRef (pmj_Status j)) = st_SnapshotRef (pmj_Status j)"
    and "run_state (Gate_Reconcile (mainGate K engines) name) w = (res, w')" and "(UpdatePod q, c) \<in> set (w_log w')"
    and "rs_RestoreOrders s = Some (reg_InspectRestoreOrder (Some engines))"
  shows "I2_pod s q = []"
proof (cases "podHasMigrationGate q")
  case True
  then show ?thesis by (simp add: I2_pod_def Let_def)
next
  case False
  obtain rs where G: "engines = gkeRegistry K rs" using default_registry [OF assms(1)] by blast
  have "podHasMigrationGate p" using ungated_pod_is_left_alone [OF assms(6) _ assms(8,5)] assms(9) by blast
  with main_gate_update [OF assms(1-6,8,9)] False
  have "coldRelease GKE_InspectRestoreOrder q \<or> restoreRelease GKE_InspectRestoreOrder (store_get pmj_Name (cl_jobs (w_cache w))) p q c"
    by (auto simp: gateWrite_def podHasMigrationGate_def)
  then obtain ref b where "GKE_InspectRestoreOrder q = (ref, b, True)"
    using assms(7) by (auto simp: coldRelease_def restoreRelease_def Let_def)
  with released_passes_I2 assms(10) G show ?thesis by blast
qed

lemma released_pod_passes_I2_witness:
  "\<exists>q c. (UpdatePod q, c) \<in> set (w_log (snd (run_state (Gate_Reconcile (mainGate sampleLib stockRegistry) ''web-0'') (worldOf gateScene)))) \<and>
     \<not> podHasMigrationGate q \<and> I2_pod ((wedged 0)\<lparr>rs_RestoreOrders := Some (reg_InspectRestoreOrder (Some stockRegistry))\<rparr>) q = []"
proof -
  let ?run = "run_state (Gate_Reconcile (mainGate sampleLib stockRegistry) ''web-0'') (worldOf gateScene)"
  have "list_ex (\<lambda>(e, c). case e of UpdatePod q \<Rightarrow> \<not> podHasMigrationGate q | _ \<Rightarrow> False) (w_log (snd ?run))" by code_simp
  then obtain q c where q: "(UpdatePod q, c) \<in> set (w_log (snd ?run))" "\<not> podHasMigrationGate q"
    by (auto simp: list_ex_iff split: effect.splits)
  have run: "?run = (fst ?run, snd ?run)" by simp
  have "I2_pod ((wedged 0)\<lparr>rs_RestoreOrders := Some (reg_InspectRestoreOrder (Some stockRegistry))\<rparr>) q = []"
    by (rule released_pod_passes_I2 [OF stock_registry _ worldOf_honest worldOf_coherent worldOf_log _ _ run q(1)])
      (auto simp: gateScene_tidy gateScene_lookups gatedPod_def, simp add: durableJob_def setStatus_def trimSpace_def isSpace_def)
  with q show ?thesis by blast
qed

end
