(* ===== verification/Claims.thy ===== *)
theory Claims
  imports Transitions
begin

text \<open>
  What the job reconciler leaves alone: the record of which pod consumes a job's snapshot. The
  gate controller writes that record; the job reconciler patches the same status from a copy that
  may be stale, and must neither undo nor invent a claim.

  \<^item> \<open>holder\<close> is the record (\<open>Consumed\<close>, \<open>RestoredPodUID\<close>, \<open>RestoredPodName\<close>, \<open>GateReleased\<close>).
  \<^item> \<open>claimsKept\<close> relates two states of the API server: each job of the later one is a later
    version of the same object with the same consumer, a released gate stays released, and no pod
    has appeared.
  \<^item> The triples of the helpers and of the fence come from \<open>Passes\<close>; those of the handlers follow
    \<open>JobController\<close>.
\<close>

section \<open>Definitions\<close>

definition holder :: "pmj_status \<Rightarrow> bool \<times> string \<times> string \<times> bool" where
  "holder s = (st_Consumed s, st_RestoredPodUID s, st_RestoredPodName s, st_GateReleased s)"

text \<open>The same record, or the same with the gate released.\<close>

definition heldFrom :: "bool \<times> string \<times> string \<times> bool \<Rightarrow> pmj_status \<Rightarrow> bool" where
  "heldFrom k s \<longleftrightarrow> (case k of (cn, uid, name, rel) \<Rightarrow>
     st_Consumed s = cn \<and> st_RestoredPodUID s = uid \<and> st_RestoredPodName s = name \<and> (rel \<longrightarrow> st_GateReleased s))"

definition held :: "bool \<times> string \<times> string \<times> bool \<Rightarrow> pmj_status \<Rightarrow> bool" where
  "held k s \<longleftrightarrow> holder s = k"

text \<open>A later version of a job.\<close>

definition laterVersion :: "pmj \<Rightarrow> pmj \<Rightarrow> bool" where
  "laterVersion l l' \<longleftrightarrow> pmj_UID l' = pmj_UID l \<and> heldFrom (holder (pmj_Status l)) (pmj_Status l') \<and>
     (l' = l \<or> pmj_ResourceVersion l < pmj_ResourceVersion l')"

definition samePods :: "cluster \<Rightarrow> cluster \<Rightarrow> bool" where
  "samePods c c' \<longleftrightarrow> (\<forall>n q'. store_get pod_Name (cl_pods c') n = Some q' \<longrightarrow>
     (\<exists>q. store_get pod_Name (cl_pods c) n = Some q \<and> pod_UID q' = pod_UID q))"

definition laterJobs :: "cluster \<Rightarrow> cluster \<Rightarrow> bool" where
  "laterJobs c c' \<longleftrightarrow> (\<forall>n l'. store_get pmj_Name (cl_jobs c') n = Some l' \<longrightarrow>
     (\<exists>l. store_get pmj_Name (cl_jobs c) n = Some l \<and> laterVersion l l'))"

definition claimsKept :: "cluster \<Rightarrow> cluster \<Rightarrow> bool" where
  "claimsKept c c' \<longleftrightarrow> (tidy c \<longrightarrow> tidy c') \<and> samePods c c' \<and> laterJobs c c'"

definition keepsClaims :: "effect \<Rightarrow> cluster \<Rightarrow> cluster \<Rightarrow> bool" where
  "keepsClaims e c c' \<longleftrightarrow> claimsKept c c'"

text \<open>Each field of a working copy is that of the copy it is diffed against, or the stored one.\<close>

definition blend :: "bool \<times> string \<times> string \<times> bool \<Rightarrow> bool \<times> string \<times> string \<times> bool \<Rightarrow> bool \<times> string \<times> string \<times> bool \<Rightarrow> bool" where
  "blend a b k \<longleftrightarrow> (case (a, b, k) of ((a1, a2, a3, a4), (b1, b2, b3, b4), (k1, k2, k3, k4)) \<Rightarrow>
     (a1 = b1 \<or> a1 = k1) \<and> (a2 = b2 \<or> a2 = k2) \<and> (a3 = b3 \<or> a3 = k3) \<and> (a4 = b4 \<or> a4 = k4))"

definition carries :: "string \<Rightarrow> bool \<times> string \<times> string \<times> bool \<Rightarrow> pmj \<Rightarrow> pmj \<Rightarrow> bool" where
  "carries n k job orig \<longleftrightarrow> pmj_Name job = n \<and> blend (holder (pmj_Status job)) (holder (pmj_Status orig)) k"

section \<open>Lemmas\<close>

subsection \<open>Records\<close>

lemma holder_upd [simp]:
  "holder (s\<lparr>st_Phase := x1\<rparr>) = holder s" "holder (s\<lparr>st_SnapshotRef := x2\<rparr>) = holder s" "holder (s\<lparr>st_PVsToDetach := x3\<rparr>) = holder s"
  "holder (s\<lparr>st_OriginNodeName := x4\<rparr>) = holder s" "holder (s\<lparr>st_CompletionTime := x5\<rparr>) = holder s"
  "holder (s\<lparr>st_SnapshottingStartTime := x6\<rparr>) = holder s" "holder (s\<lparr>st_EvictingStartTime := x6\<rparr>) = holder s"
  "holder (s\<lparr>st_RestoringStartTime := x6\<rparr>) = holder s" "holder (s\<lparr>st_Conditions := x7\<rparr>) = holder s"
  by (simp_all add: holder_def)

lemma holder_jobs [simp]:
  "holder (pmj_Status (setCond K now t st rsn msg job)) = holder (pmj_Status job)"
  "holder (pmj_Status (concluded ph now job)) = holder (pmj_Status job)"
  "holder (pmj_Status (failedJob r now rsn msg job)) = holder (pmj_Status job)"
  "holder (pmj_Status (fst (clearUnrecognizedRestoreCrash r now job))) = holder (pmj_Status job)"
  "holder (pmj_Status (fst (clearBlockage r now t jc))) = holder (pmj_Status (fst jc))"
  "holder (pmj_Status (fst (clearEvictionBlockageConditions r now job))) = holder (pmj_Status job)"
  by (simp_all add: setCond_def concluded_def failedJob_def clearUnrecognizedRestoreCrash_def clearBlockage_def clearEvictionBlockageConditions_def Let_def split: prod.split)

lemma blend_simps [simp]: "blend k b k" "blend b b k"
  by (simp_all add: blend_def split: prod.split)

lemma held_self [simp]: "held (holder s) s"
  by (simp add: held_def)

lemma heldD: "held k s \<Longrightarrow> holder s = k"
  by (simp add: held_def)

lemma held_from [simp]: "held k s \<Longrightarrow> heldFrom k s" "holder s = k \<Longrightarrow> heldFrom k s"
  by (auto simp: held_def heldFrom_def holder_def)

lemma merge_held: "blend (holder b) (holder a) k \<Longrightarrow> held k l \<Longrightarrow> held k (merge_status a b l)"
  by (cases k) (simp add: blend_def held_def holder_def merge_status_def merge_field_def, blast)

lemma merge_held_released: "blend (holder b) (holder a) k \<Longrightarrow> held k l \<Longrightarrow> heldFrom k (merge_status a (b\<lparr>st_GateReleased := True\<rparr>) l)"
  by (cases k) (simp add: blend_def held_def heldFrom_def holder_def merge_status_def merge_field_def, blast)

subsection \<open>What a write keeps\<close>

lemma later_refl [simp]: "laterVersion l l"
  by (simp add: laterVersion_def)

lemma kept_refl [simp]: "claimsKept c c" "keepsClaims e c c"
  by (auto simp: keepsClaims_def claimsKept_def samePods_def laterJobs_def)

lemma kept_pod:
  "store_get pod_Name (cl_pods c) name = Some p \<Longrightarrow> pod_Name p' = pod_Name p \<Longrightarrow> pod_UID p' = pod_UID p \<Longrightarrow>
   keepsClaims e c (c\<lparr>cl_pods := store_put pod_Name p' (cl_pods c)\<rparr>)"
  by (auto simp: keepsClaims_def claimsKept_def samePods_def laterJobs_def store_get_put dest: store_get_key intro: later_refl)

lemma kept_job:
  assumes "store_get pmj_Name (cl_jobs c) n = Some l" "pmj_Name l' = n" "laterVersion l l'"
  shows "keepsClaims e c (c\<lparr>cl_jobs := put_job l' (cl_jobs c)\<rparr>)"
proof -
  have "laterJobs c (c\<lparr>cl_jobs := put_job l' (cl_jobs c)\<rparr>)"
    using assms by (auto simp: laterJobs_def put_job_def store_get_put store_get_del)
  then show ?thesis by (auto simp: keepsClaims_def claimsKept_def samePods_def tidy_put_job)
qed

lemma kept_provider: "providerStep e c c' \<Longrightarrow> keepsClaims e c c'"
proof -
  assume "providerStep e c c'"
  then have jobs: "cl_jobs c' = cl_jobs c"
    and pods: "map_option podCore (store_get pod_Name (cl_pods c') n) = map_option podCore (store_get pod_Name (cl_pods c) n)" for n
    by (auto simp: providerStep_def sameCore_def)
  have "pod_UID q = pod_UID q'" if "podCore q = podCore q'" for q q' using arg_cong [OF that, of pod_UID] by (simp add: podCore_def)
  then have "samePods c c'" unfolding samePods_def using pods by (metis map_option_eq_Some option.simps(9))
  with jobs show ?thesis by (auto simp: keepsClaims_def claimsKept_def laterJobs_def tidy_def)
qed

lemma later_status:
  "heldFrom (holder (pmj_Status l)) s \<Longrightarrow> laterVersion l (l\<lparr>pmj_Status := s, pmj_ResourceVersion := Suc (pmj_ResourceVersion l)\<rparr>)"
  by (simp add: laterVersion_def)

lemma later_meta: "metaVersion l l' \<Longrightarrow> laterVersion l l'"
  by (simp add: metaVersion_def laterVersion_def heldFrom_def holder_def)

lemma stored_simps [simp]: "storedJob n S (Inl e)" "storedJob n S (Inr j) \<longleftrightarrow> pmj_Name j = n \<and> S (pmj_Status j)"
  by (simp_all add: storedJob_def)

subsection \<open>The shared triples\<close>

lemma claims_patch_stored:
  assumes "carries n k job orig"
  shows "emits n keepsClaims (held k) (patchStatus job orig) (\<lambda>_. held k) (storedJob n (held k))"
proof (rule emits_patchStatus)
  fix c l l'
  assume j: "jobIs n (held k) c" and l: "store_get pmj_Name (cl_jobs c) n = Some l"
    and l': "l' = l\<lparr>pmj_Status := merge_status (pmj_Status orig) (pmj_Status job) (pmj_Status l), pmj_ResourceVersion := Suc (pmj_ResourceVersion l)\<rparr>"
  have k: "held k (pmj_Status l)" using j l by (simp add: jobIs_def)
  then have "heldFrom (holder (pmj_Status l)) (merge_status (pmj_Status orig) (pmj_Status job) (pmj_Status l))"
    using merge_held [of "pmj_Status job" "pmj_Status orig" k] assms heldD [OF k] by (simp add: carries_def)
  then show "keepsClaims (PatchJobStatus orig job) c (c\<lparr>cl_jobs := put_job l' (cl_jobs c)\<rparr>)"
    using l store_get_key [OF l] by (auto simp: l' intro!: kept_job later_status)
qed (use assms in \<open>auto intro: merge_held simp: carries_def\<close>)

interpretation claimed: lenient_writes keepsClaims
proof unfold_locales
  show "keepsClaims e c (c\<lparr>cl_jobs := put_job l' (cl_jobs c)\<rparr>)"
    if "store_get pmj_Name (cl_jobs c) name = Some l" "metaVersion l l'" for e c name l l'
    using that store_get_key [OF that(1)] by (auto intro!: kept_job [where l = l] later_meta simp: metaVersion_def)
qed (auto intro: kept_pod kept_provider)

interpretation claim: status_pass keepsClaims n "held k" "carries n k" for n k
  by unfold_locales (auto intro: claims_patch_stored simp: held_def carries_def)

sublocale job_reconciler \<subseteq> claimPass: engine_pass keepsClaims n "held k" "carries n k" r for n k ..

declare held_def [simp] carries_def [simp]

text \<open>What the rest of a handler needs of a job that a patch returned.\<close>

definition carried :: "string \<Rightarrow> bool \<times> string \<times> string \<times> bool \<Rightarrow> pmj \<Rightarrow> api_error + pmj \<Rightarrow> bool" where
  "carried n k orig x \<longleftrightarrow> (\<forall>j. x = Inr j \<longrightarrow> carries n k j orig)"

lemma carried_simps [simp]: "carried n k orig (Inl e)" "carried n k orig (Inr j) \<longleftrightarrow> carries n k j orig"
  by (simp_all add: carried_def)

lemma claims_patch [emits_rules]:
  "carries n k job orig \<Longrightarrow> emits n keepsClaims (held k) (patchStatus job orig) (\<lambda>_. held k) (carried n k orig)"
  by (erule emits_post [OF claims_patch_stored]) (auto simp: carried_def storedJob_def)

subsection \<open>The handlers\<close>

lemma claims_conclusions [emits_rules]:
  assumes "carries n k job orig"
  shows "emits n keepsClaims (held k) (persistFailure r job orig res) (\<lambda>_. held k) anyResult"
    "emits n keepsClaims (held k) (failSourceGone r job orig) (\<lambda>_. held k) anyResult"
    "emits n keepsClaims (held k) (markSucceededWithoutRestore r job orig rsn msg) (\<lambda>_. held k) anyResult"
    "emits n keepsClaims (held k) (concludeRestoreCrash r job orig pod v) (\<lambda>_. held k) anyResult"
    "emits n keepsClaims (held k) (patchIfChanged b job orig res) (\<lambda>_. held k) anyResult"
  unfolding persistFailure_def failSourceGone_def markSucceededWithoutRestore_def concludeRestoreCrash_def patchIfChanged_def Let_def using assms
  by - (rule emits_rules emits_any [OF claims_patch] | (simp; fail))+

lemma claims_failJob [emits_rules]:
  "carries n k job orig \<Longrightarrow> emits n keepsClaims (held k) (failJob r job orig rsn msg) (\<lambda>_. held k) anyResult"
  unfolding failJob_def by (rule emits_rules | (simp; fail))+

lemma claims_failDeleted [emits_rules]:
  "carries n k job orig \<Longrightarrow> emits n keepsClaims (held k) (failDeleted r job orig) (\<lambda>_. held k) (\<lambda>x. fst x = None \<longrightarrow> copiesOf (carries n k) x)"
  unfolding failDeleted_def Let_def by (rule emits_rules | (simp split: option.split; fail))+

lemma learnSource_carries: "learnSource r job pod = (j, b) \<Longrightarrow> carries n k job orig \<Longrightarrow> carries n k j orig"
  by (auto simp: learnSource_def Let_def split: if_splits option.splits)

lemma claims_phases [emits_rules]:
  assumes "carries n k job orig"
  shows "emits n keepsClaims (held k) (enterSnapshotting r job orig) (\<lambda>_. held k) anyResult"
    "emits n keepsClaims (held k) (enterEvicting r job orig ref) (\<lambda>_. held k) anyResult"
    "emits n keepsClaims (held k) (enterRestoring r job orig) (\<lambda>_. held k) anyResult"
    "emits n keepsClaims (held k) (recordProgress r job orig st) (\<lambda>_. held k) anyResult"
    "emits n keepsClaims (held k) (initEvictingStart r job orig) (\<lambda>_. held k) (carried n k orig)"
    "emits n keepsClaims (held k) (initRestoringStart job orig) (\<lambda>_. held k) (carried n k orig)"
    "emits n keepsClaims (held k) (initPhase job orig) (\<lambda>_. held k) anyResult"
  unfolding enterSnapshotting_def enterEvicting_def enterRestoring_def recordProgress_def initEvictingStart_def initRestoringStart_def initPhase_def Let_def
  using assms by - (rule emits_rules | (simp; fail))+

lemma claims_inspectSource [emits_rules]:
  "carries n k job orig \<Longrightarrow> emits n keepsClaims (held k) (inspectSource r job orig) (\<lambda>_. held k) (\<lambda>x. \<forall>j b. x = Inr (j, b) \<longrightarrow> carries n k j orig)"
  unfolding inspectSource_def Let_def
  by (rule emits_rules | (simp; fail) | (auto dest: learnSource_carries split: sum.splits; fail))+

lemma claims_checkDisruptionBudget:
  assumes "carries n k job orig" and "\<And>j p. emits n keepsClaims (held k) (check j p) (\<lambda>_. held k) anyResult"
  shows "emits n keepsClaims (held k) (checkDisruptionBudget r check job orig podName) (\<lambda>_. held k) (\<lambda>x. \<forall>j res. x = Inr (j, res, True) \<longrightarrow> carries n k j orig)"
  unfolding checkDisruptionBudget_def Let_def using assms(1)
  by - (rule emits_rules assms(2) | (simp split: option.splits; fail) | (auto split: sum.splits option.splits; fail))+

lemma claims_eviction [emits_rules]:
  assumes "carries n k job orig"
  shows "emits n keepsClaims (held k) (requestEviction r job orig pod) (\<lambda>_. held k) anyResult"
    "emits n keepsClaims (held k) (giveUpRestore r job orig) (\<lambda>_. held k) anyResult"
    "emits n keepsClaims (held k) (concludeMismatch r job orig) (\<lambda>_. held k) anyResult"
    "emits n keepsClaims (held k) (reportUnrecognized r job orig pod v) (\<lambda>_. held k) anyResult"
    "emits n keepsClaims (held k) (concludeWithoutRestore r job orig pod e v') (\<lambda>_. held k) anyResult"
    "emits n keepsClaims (held k) (concludeRestoreLost r job orig pod m c) (\<lambda>_. held k) anyResult"
  unfolding requestEviction_def evictionAccepted_def evictionBlockedBy_def giveUpRestore_def concludeMismatch_def reportUnrecognized_def
    concludeWithoutRestore_def concludeRestoreLost_def Let_def
  using assms by - (rule emits_rules | (simp; fail))+

lemma claims_evictOrigin [emits_rules]:
  "carries n k job orig \<Longrightarrow> emits n keepsClaims (held k) (evictOrigin r job orig pod) (\<lambda>_. held k) anyResult"
  unfolding evictOrigin_def awaitTermination_def Let_def by (rule emits_rules | (simp; fail))+

lemma claims_replacementMismatch [emits_rules]:
  "carries n k job orig \<Longrightarrow> emits n keepsClaims (held k) (replacementMismatch r job orig) (\<lambda>_. held k) anyResult"
  unfolding replacementMismatch_def Let_def by (rule emits_rules | (simp; fail))+

text \<open>Recording the release of the gate is the one change the reconciler makes to the record.\<close>

lemma claims_healPatch:
  assumes "carries n k job orig"
  shows "emits n keepsClaims (held k) (patchStatus (setStatus (\<lambda>s. s\<lparr>st_GateReleased := True\<rparr>) job) orig)
    (\<lambda>x. case x of Inl _ \<Rightarrow> heldFrom k | Inr j \<Rightarrow> held (holder (pmj_Status j))) (\<lambda>x. \<forall>j. x = Inr j \<longrightarrow> pmj_Name j = n \<and> heldFrom k (pmj_Status j))"
  unfolding patchStatus_def write_job_def
proof (rule emits_write, goal_cases)
  case (1 w l' e c')
  let ?job = "setStatus (\<lambda>s. s\<lparr>st_GateReleased := True\<rparr>) job"
  have n: "pmj_Name ?job = n" using assms by simp
  from 1(2) n obtain l where l: "store_get pmj_Name (cl_jobs (w_live w)) n = Some l"
    and l': "l' = l\<lparr>pmj_Status := merge_status (pmj_Status orig) (pmj_Status ?job) (pmj_Status l), pmj_ResourceVersion := Suc (pmj_ResourceVersion l)\<rparr>"
    and c': "c' = (w_live w)\<lparr>cl_jobs := put_job l' (cl_jobs (w_live w))\<rparr>" by (auto simp: Let_def split: option.splits)
  have k: "held k (pmj_Status l)" using 1(1) l by (simp add: jobIs_def)
  have hf: "heldFrom k (pmj_Status l')" using merge_held_released [OF _ k, of "pmj_Status job" "pmj_Status orig"] assms by (simp add: l')
  with l' k have "laterVersion l l'" by (auto intro: later_status)
  moreover have "pmj_Name l' = n" using store_get_key [OF l] by (simp add: l')
  ultimately have "keepsClaims e (w_live w) c'" unfolding c' by (intro kept_job [OF l])
  moreover have "jobIs n (held (holder (pmj_Status l'))) c'" "jobIs n (heldFrom k) c'"
    using \<open>pmj_Name l' = n\<close> hf by (auto simp: c' jobIs_def put_job_def store_get_put store_get_del)
  ultimately show ?case using \<open>pmj_Name l' = n\<close> hf by auto
qed auto

lemma stored_carried: "storedJob n (held k) a \<Longrightarrow> carried n k orig a"
  by (cases a) simp_all

lemma emits_pre: "emits n P S m S' R \<Longrightarrow> (\<And>s. T s \<Longrightarrow> S s) \<Longrightarrow> emits n P T m S' R"
  unfolding emits_def by (blast intro: jobIs_mono)

lemma claims_healRecord:
  assumes "carries n k job orig"
    and cont: "\<And>k' j. carries n k' j orig \<Longrightarrow> emits n keepsClaims (held k') (f (Inr j)) (\<lambda>_. held k') anyResult"
    and fail: "\<And>e. \<exists>a. f (Inl e) = State_Monad.return a"
  shows "emits n keepsClaims (held k) (State_Monad.bind (healRecord job orig pod) f) (\<lambda>_. heldFrom k) anyResult"
proof -
  have failed: "emits n keepsClaims (heldFrom k) (f (Inl e)) (\<lambda>_. heldFrom k) anyResult" for e
    using fail [of e] by (auto intro: emits_return)
  have kept: "emits n keepsClaims (held k) (f (Inr j)) (\<lambda>_. heldFrom k) anyResult" if "carries n k j orig" for j
    by (rule emits_post [OF cont [OF that]]) simp_all
  have released: "emits n keepsClaims (held (holder (pmj_Status j))) (f (Inr j)) (\<lambda>_. heldFrom k) anyResult"
    if "pmj_Name j = n" "heldFrom k (pmj_Status j)" for j
    by (rule emits_post [OF cont [where k' = "holder (pmj_Status j)"]]) (use that in \<open>auto simp: heldFrom_def holder_def\<close>)
  have patch: "emits n keepsClaims (held k) (State_Monad.bind (patchStatus (setStatus (\<lambda>s. s\<lparr>st_GateReleased := True\<rparr>) j) orig)
      (\<lambda>p. f (case p of Inl e \<Rightarrow> Inl (handleStatusError e) | Inr job \<Rightarrow> Inr job))) (\<lambda>_. heldFrom k) anyResult" if "carries n k j orig" for j
    by (rule emits_bind [OF claims_healPatch [OF that]]) (auto split: sum.split intro: failed released)
  have update: "emits n keepsClaims (held k) (if b then updateJob (job\<lparr>pmj_Annotations := an\<rparr>) else State_Monad.return (Inr job)) (\<lambda>_. held k) (carried n k orig)" for b an
    using assms(1) by (intro emits_if emits_post [OF claimed.emits_meta(2)] emits_return) (simp_all add: stored_carried)
  have "emits n keepsClaims (held k) (State_Monad.bind (case u of Inl e \<Rightarrow> State_Monad.return (Inl (Inl e)) | Inr job \<Rightarrow>
      if \<not> st_GateReleased (pmj_Status job) \<and> \<not> podHasMigrationGate pod then do {
        p \<leftarrow> patchStatus (setStatus (\<lambda>s. s\<lparr>st_GateReleased := True\<rparr>) job) orig;
        State_Monad.return (case p of Inl e \<Rightarrow> Inl (handleStatusError e) | Inr job \<Rightarrow> Inr job)
      } else State_Monad.return (Inr job)) f) (\<lambda>_. heldFrom k) anyResult" if "carried n k orig u" for u
    using that by (cases u) (auto simp del: carries_def intro!: kept patch emits_pre [OF failed])
  then show ?thesis unfolding healRecord_def bind_assoc by (rule emits_bind [OF update])
qed

context job_reconciler
begin

lemmas [emits_rules] = claimPass.emits_provider claimPass.emits_verify claimPass.emits_isSnapshotProgressing claimPass.emits_resolveSourceFence claim.emits_fenceSource

lemma claims_completeRestore [emits_rules]: "emits n keepsClaims S (completeRestore r job pod) (\<lambda>_. S) anyResult"
  unfolding completeRestore_def by (rule emits_rules | (rule claimPass.emits_completer, assumption) | (simp; fail))+

lemma claims_conclude [emits_rules]:
  assumes "carries n k job orig"
  shows "emits n keepsClaims (held k) (concludeRestored r job orig pod e v) (\<lambda>_. held k) anyResult"
    "emits n keepsClaims (held k) (failSnapshotting r job orig rsn msg) (\<lambda>_. held k) anyResult"
    "emits n keepsClaims (held k) (timeOut r job orig t) (\<lambda>_. held k) anyResult"
    "emits n keepsClaims (held k) (snapshotInProgress r job orig st) (\<lambda>_. held k) anyResult"
    "emits n keepsClaims (held k) (probeRestore r job orig pod) (\<lambda>_. held k) anyResult"
  unfolding concludeRestored_def failSnapshotting_def timeOut_def snapshotInProgress_def probeRestore_def Let_def using assms
  by - (rule emits_rules | (simp; fail))+

lemma claims_enforceDeadline [emits_rules]:
  "carries n k job orig \<Longrightarrow> emits n keepsClaims (held k) (enforceDeadline r job orig) (\<lambda>_. held k) anyResult"
  unfolding enforceDeadline_def Let_def by (rule emits_rules | (simp; fail))+

lemma claims_finalizeSourceFence [emits_rules]:
  "carries n k job orig \<Longrightarrow> emits n keepsClaims (held k) (finalizeSourceFence r job orig) (\<lambda>_. held k) anyResult"
  unfolding finalizeSourceFence_def by (rule emits_rules | (simp add: stepCopies_def; fail))+

lemma claims_withMeta: "carries n k job orig \<Longrightarrow> pmj_Name u = n \<Longrightarrow> carries n k (withMeta u job) (withMeta u orig)"
  by (simp add: withMeta_def)

lemma claims_checkBudgetAndStart [emits_rules]:
  "carries n k job orig \<Longrightarrow> emits n keepsClaims (held k) (checkBudgetAndStart r job orig) (\<lambda>_. held k) anyResult"
  unfolding checkBudgetAndStart_def
  by (rule emits_rules | rule claims_checkDisruptionBudget [OF _ claimPass.emits_check] | assumption | (simp; fail))+

lemma claims_pending [emits_rules]:
  "carries n k job orig \<Longrightarrow> emits n keepsClaims (held k) (reconcilePending r job orig) (\<lambda>_. held k) anyResult"
  unfolding reconcilePending_def
  by (rule emits_rules | (simp; fail) | (auto simp: storedJob_def withMeta_def; fail))+

lemma claims_monitorSnapshot [emits_rules]:
  assumes "carries n k job orig"
  shows "emits n keepsClaims (held k) (monitorSnapshot r job orig) (\<lambda>_. held k) anyResult"
proof -
  have "emits n keepsClaims (held k) (case sst_Phase st of
       SnapReady \<Rightarrow> enterEvicting r job orig (sst_SnapshotRef st)
     | SnapInProgress \<Rightarrow> snapshotInProgress r job orig st
     | _ \<Rightarrow> do {
         _ \<leftarrow> Cleanup (getSnapshotProvider r job) job (pmj_PodRefName job);
         failJob r job orig (snapshotFailureReason st) (sst_Message st)
       }) (\<lambda>_. held k) anyResult" for st
    using assms by (cases "sst_Phase st") (auto simp del: carries_def intro!: emits_rules)
  then show ?thesis unfolding monitorSnapshot_def by - (rule emits_rules | assumption | (simp; fail))+
qed

lemma claims_snapshotting [emits_rules]:
  "carries n k job orig \<Longrightarrow> emits n keepsClaims (held k) (reconcileSnapshotting r job orig) (\<lambda>_. held k) anyResult"
  unfolding reconcileSnapshotting_def triggerAndMonitor_def by (rule emits_rules | (simp; fail))+

lemma claims_originGone [emits_rules]:
  assumes "carries n k job orig"
  shows "emits n keepsClaims (held k) (originGone r job orig) (\<lambda>_. held k) anyResult"
  unfolding originGone_def detachAndRestore_def Let_def case_prod_beta using assms
  by - (rule emits_rules | (simp; fail))+

lemma claims_evicting [emits_rules]:
  "carries n k job orig \<Longrightarrow> emits n keepsClaims (held k) (reconcileEvicting r job orig) (\<lambda>_. held k) anyResult"
  unfolding reconcileEvicting_def by (rule emits_rules | (simp; fail))+

lemma claims_replacement [emits_rules]:
  assumes "carries n k job orig"
  shows "emits n keepsClaims (held k) (atCeiling r job orig) (\<lambda>_. held k) anyResult"
    "emits n keepsClaims (held k) (replacementReady r job orig pod) (\<lambda>_. held k) anyResult"
  unfolding atCeiling_def replacementReady_def Let_def using assms
  by - (rule emits_rules | (simp; fail))+

lemma claims_replacementNotReady [emits_rules]:
  assumes "carries n k job orig"
  shows "emits n keepsClaims (held k) (replacementNotReady r job orig pod) (\<lambda>_. held k) anyResult"
proof -
  have "emits n keepsClaims (held k) (do {
      c \<leftarrow> classifyRecordedPodLive r job;
      (case c of
         Inl e \<Rightarrow> State_Monad.return (Inl e)
       | Inr (None, _) \<Rightarrow> State_Monad.return (Inr (requeue_after (2 * second)))
       | Inr (Some livePod, liveVerdict) \<Rightarrow>
           if f_Class liveVerdict \<noteq> FailureFatal then State_Monad.return (Inr (requeue_after (2 * second)))
           else concludeRestoreCrash r job orig livePod liveVerdict)
    }) (\<lambda>_. held k) anyResult"
    using assms by - (rule emits_rules | (simp; fail))+
  with claims_conclude(5) [OF assms] claims_eviction(4) [OF assms] show ?thesis
    by (cases "f_Class (Classify pod (restoreEngines r job))") (simp_all add: replacementNotReady_def Let_def)
qed

lemma claims_observe:
  assumes "carries n k job orig"
  shows "emits n keepsClaims (held k) (observeReplacement r job orig) (\<lambda>_. heldFrom k) anyResult"
proof -
  note mismatch = emits_post [OF claims_replacementMismatch [OF assms]]
  have "emits n keepsClaims (held k) (State_Monad.bind (healRecord job orig pod) (\<lambda>h. case h of
      Inl res \<Rightarrow> State_Monad.return res
    | Inr job \<Rightarrow> if \<not> isPodReady (Some pod) then replacementNotReady r job orig pod else replacementReady r job orig pod)) (\<lambda>_. heldFrom k) anyResult" for pod
    by (rule claims_healRecord [OF assms]) (auto simp del: carries_def intro: claims_replacementNotReady claims_replacement)
  then show ?thesis
    unfolding observeReplacement_def
    by - (rule emits_if emits_case_sum emits_bind [OF emits_reads(1)] emits_return mismatch | assumption | (simp; fail))+
qed

lemma claims_restoring:
  assumes "carries n k job orig"
  shows "emits n keepsClaims (held k) (reconcileRestoring r job orig) (\<lambda>_. heldFrom k) anyResult"
  unfolding reconcileRestoring_def using assms
  by - (rule emits_bind [OF claims_phases(6)] emits_bind [OF emits_timeSince] emits_if emits_case_sum emits_return claims_observe
    emits_post [OF claims_replacement(1)] | (simp; fail))+

lemma claims_weak: "emits n keepsClaims (held k) m (\<lambda>_. held k) R \<Longrightarrow> emits n keepsClaims (held k) m (\<lambda>_. heldFrom k) R"
  by (erule emits_post) simp_all

lemma claims_reconcilePhase:
  assumes "carries n k job orig"
  shows "emits n keepsClaims (held k) (reconcilePhase r job orig) (\<lambda>_. heldFrom k) anyResult"
proof -
  have over: "emits n keepsClaims (held k) (State_Monad.return a) (\<lambda>_. heldFrom k) anyResult" for a :: "api_error + result"
    by (rule emits_return) simp_all
  note claims_weak [OF claims_pending [OF assms]] claims_weak [OF claims_snapshotting [OF assms]] claims_weak [OF claims_evicting [OF assms]]
  with claims_restoring [OF assms] show ?thesis
    unfolding reconcilePhase_def by (cases "st_Phase (pmj_Status job)") (simp_all add: over)
qed

lemma claims_reconcileJob:
  assumes "pmj_Name job = n"
  shows "emits n keepsClaims (held k) (reconcileJob r job) (\<lambda>_. heldFrom k) anyResult"
proof -
  have c: "carries n k job job" using assms by simp
  have over: "emits n keepsClaims (held k) (reconcileConcluded r j) (\<lambda>_. heldFrom k) anyResult" for j
    by (rule claims_weak [OF claimed.emits_reconcileConcluded])
  have settle: "emits n keepsClaims (held k) (settleThenRun r job job) (\<lambda>_. heldFrom k) anyResult"
    unfolding settleThenRun_def
    by (rule over emits_bind [OF claimPass.emits_resolveSourceFence [OF c]] emits_bind [OF claim.emits_removeFinalizer] emits_if emits_case_option
        emits_case_prod emits_return claims_reconcilePhase
      | (simp add: stepCopies_def; fail))+
  have redrive: "emits n keepsClaims (held k) (redriveCrashDeletion r job) (\<lambda>_. held k) anyResult"
    unfolding redriveCrashDeletion_def by (rule emits_rules | (simp; fail))+
  show ?thesis
    unfolding reconcileJob_def failEngineNotRegistered_def
    by (rule emits_if claims_weak [OF claims_finalizeSourceFence [OF c]] claims_weak [OF claims_phases(7) [OF c]] claims_weak [OF claims_failJob [OF c]]
      emits_bind [OF claims_enforceDeadline [OF c]] emits_bind [OF redrive] settle emits_case_option emits_return | (simp; fail))+
qed

lemma reconcile_keeps_claims:
  assumes run: "run_state (Reconcile r ns name) w = (res, w')"
  shows "adds keepsClaims w w'"
proof (cases "store_get pmj_Name (cl_jobs (w_cache w)) name")
  case None
  then have "wp (Reconcile r ns name) (\<lambda>_. adds keepsClaims w) w"
    unfolding Reconcile_def wp_bind forgetProbe_def by (intro wp_get_jobI) (auto simp: wp_simps view_def adds_refl)
  from wp_run [OF this run] show ?thesis .
next
  case (Some job)
  obtain k where k: "jobIs name (held k) (w_live w)"
    by (cases "store_get pmj_Name (cl_jobs (w_live w)) name") (auto simp: jobIs_def)
  have "wp (reconcileJob r job) (\<lambda>_. adds keepsClaims w) (w\<lparr>w_calls := c\<rparr>)" for c
  proof -
    have "emits name keepsClaims (held k) (reconcileJob r job) (\<lambda>_. heldFrom k) anyResult"
      using store_get_key [OF Some] by (intro claims_reconcileJob) simp
    then have "wp (reconcileJob r job) (\<lambda>a v. jobIs name (heldFrom k) (w_live v) \<and> adds keepsClaims (w\<lparr>w_calls := c\<rparr>) v \<and> True) (w\<lparr>w_calls := c\<rparr>)"
      unfolding emits_def using k by simp
    then show ?thesis by (rule wp_mono) (auto simp: adds_def)
  qed
  then have "wp (Reconcile r ns name) (\<lambda>_. adds keepsClaims w) w"
    unfolding Reconcile_def wp_bind forgetProbe_def using Some
    by (intro wp_get_jobI) (auto simp: wp_simps view_def adds_refl)
  from wp_run [OF this run] show ?thesis .
qed

end

end
