(* ===== verification/SingleUse.thy ===== *)
theory SingleUse
  imports Claims Gate
begin

text \<open>
  The whole system, and the promise it makes: a snapshot is restored at most once.

  \<^item> \<open>reach\<close> are the executions: reconciles of the gate controller and of the job reconciler, each
    with its own informer cache, interleaved with steps of the environment (workload controllers,
    scheduler, kubelet, users, the webhooks and the other controllers).
  \<^item> A cache holds for every object some version that the API server once had, or none. Every call
    may fail, except that a failure does not claim that an object is gone.
  \<^item> The environment keeps the record of the consumer, which is in the status of the job; it never
    brings back a UID, and gives a new job a later resource version than any job of this name.
  \<^item> A reconcile is one step; its writes go through the states in its log. The invariant is proved
    for each write, so that it holds in these states, too.
\<close>

section \<open>Definitions\<close>

subsection \<open>What has been seen\<close>

definition jobsOf :: "cluster \<Rightarrow> pmj set" where
  "jobsOf c = {j. \<exists>n. store_get pmj_Name (cl_jobs c) n = Some j}"

definition podsOf :: "cluster \<Rightarrow> pod set" where
  "podsOf c = {p. \<exists>n. store_get pod_Name (cl_pods c) n = Some p}"

definition jobsIn :: "cluster set \<Rightarrow> pmj set" where
  "jobsIn H = (\<Union>c \<in> H. jobsOf c)"

definition podsIn :: "cluster set \<Rightarrow> pod set" where
  "podsIn H = (\<Union>c \<in> H. podsOf c)"

definition cachedFrom :: "cluster set \<Rightarrow> cluster \<Rightarrow> bool" where
  "cachedFrom H c \<longleftrightarrow> jobsOf c \<subseteq> jobsIn H \<and> podsOf c \<subseteq> podsIn H"

definition gone :: "string \<Rightarrow> cluster \<Rightarrow> bool" where
  "gone uid c \<longleftrightarrow> (\<forall>q \<in> podsOf c. pod_UID q \<noteq> uid)"

subsection \<open>Steps\<close>

text \<open>A job is created with an empty record, a fresh UID and a later resource version.\<close>

definition freshJob :: "cluster set \<Rightarrow> pmj \<Rightarrow> bool" where
  "freshJob H j \<longleftrightarrow> \<not> st_Consumed (pmj_Status j) \<and>
     (\<forall>i \<in> jobsIn H. pmj_UID i \<noteq> pmj_UID j \<and> (pmj_Name i = pmj_Name j \<longrightarrow> pmj_ResourceVersion i < pmj_ResourceVersion j))"

definition freshPod :: "cluster set \<Rightarrow> pod \<Rightarrow> bool" where
  "freshPod H p \<longleftrightarrow> pod_UID p \<noteq> [] \<and> pod_Name p \<noteq> [] \<and> (\<forall>q \<in> podsIn H. pod_UID q \<noteq> pod_UID p)"

definition envStep :: "cluster set \<Rightarrow> cluster \<Rightarrow> cluster \<Rightarrow> bool" where
  "envStep H c c' \<longleftrightarrow> tidy c' \<and>
     (\<forall>n l'. store_get pmj_Name (cl_jobs c') n = Some l' \<longrightarrow>
        freshJob H l' \<or> (\<exists>l. store_get pmj_Name (cl_jobs c) n = Some l \<and> laterVersion l l')) \<and>
     (\<forall>n p'. store_get pod_Name (cl_pods c') n = Some p' \<longrightarrow>
        freshPod H p' \<or> (\<exists>p. store_get pod_Name (cl_pods c) n = Some p \<and> pod_UID p' = pod_UID p)) \<and>
     (\<forall>i \<in> jobsOf c'. \<forall>j \<in> jobsOf c'. pmj_UID i = pmj_UID j \<longrightarrow> i = j) \<and>
     (\<forall>p \<in> podsOf c'. \<forall>q \<in> podsOf c'. pod_UID p = pod_UID q \<longrightarrow> p = q)"

text \<open>
  The pods that a write of a gate reconcile lets go to restore, with the UID of the job whose
  snapshot they restore.
\<close>

definition restores :: "cluster \<Rightarrow> string \<Rightarrow> effect \<Rightarrow> (string \<times> string) set" where
  "restores cache name e =
     {(u, v). \<exists>p j q ref. store_get pod_Name (cl_pods cache) name = Some p \<and>
        store_get pmj_Name (cl_jobs cache) (mget (pod_Annotations p) AnnotationAssignedPMJ) = Some j \<and>
        e = UpdatePod q \<and> podHasMigrationGate p \<and> \<not> podHasMigrationGate q \<and>
        GKE_InspectRestoreOrder q = (ref, False, True) \<and> u = pmj_UID j \<and> v = pod_UID q}"

text \<open>A state of the system: the API server, what it has held, and who has been let go to restore what.\<close>

record sys =
  sy_now :: cluster
  sy_seen :: "cluster set"
  sy_restored :: "(string \<times> string) set"

definition runs :: "sys \<Rightarrow> world \<Rightarrow> bool" where
  "runs s w \<longleftrightarrow> w_live w = sy_now s \<and> cachedFrom (sy_seen s) (w_cache w) \<and> honest w \<and> w_log w = []"

definition after :: "sys \<Rightarrow> world \<Rightarrow> (string \<times> string) set \<Rightarrow> sys" where
  "after s w' new = \<lparr>sy_now = w_live w', sy_seen = sy_seen s \<union> snd ` set (w_log w') \<union> {w_live w'}, sy_restored = sy_restored s \<union> new\<rparr>"

inductive reach :: "kubelib \<Rightarrow> registry \<Rightarrow> sys \<Rightarrow> bool" for K engines where
  start: "cl_jobs c = [] \<Longrightarrow> cl_pods c = [] \<Longrightarrow> reach K engines \<lparr>sy_now = c, sy_seen = {c}, sy_restored = {}\<rparr>"
| env: "reach K engines s \<Longrightarrow> envStep (sy_seen s) (sy_now s) c' \<Longrightarrow>
    reach K engines (s\<lparr>sy_now := c', sy_seen := insert c' (sy_seen s)\<rparr>)"
| gate: "reach K engines s \<Longrightarrow> runs s w \<Longrightarrow> run_state (Gate_Reconcile (mainGate K engines) name) w = (res, w') \<Longrightarrow>
    reach K engines (after s w' (\<Union>(e, c) \<in> set (w_log w'). restores (w_cache w) name e))"
| job: "reach K engines s \<Longrightarrow> runs s w \<Longrightarrow> run_state (Reconcile (mainReconciler K engines t sw c l) ns name) w = (res, w') \<Longrightarrow>
    reach K engines (after s w' {})"

section \<open>Lemmas\<close>

subsection \<open>What has been seen\<close>

lemma jobsIn_insert [simp]: "jobsIn (insert c H) = jobsOf c \<union> jobsIn H" "podsIn (insert c H) = podsOf c \<union> podsIn H"
  by (auto simp: jobsIn_def podsIn_def)

lemma jobsIn_empty [simp]: "jobsIn {} = {}" "podsIn {} = {}"
  by (simp_all add: jobsIn_def podsIn_def)

lemma jobsOf_get: "store_get pmj_Name (cl_jobs c) n = Some j \<Longrightarrow> j \<in> jobsOf c \<and> pmj_Name j = n"
  unfolding jobsOf_def using store_get_key [of pmj_Name] by blast

lemma podsOf_get: "store_get pod_Name (cl_pods c) n = Some p \<Longrightarrow> p \<in> podsOf c \<and> pod_Name p = n"
  unfolding podsOf_def using store_get_key [of pod_Name] by blast

lemma jobsOfD: "j \<in> jobsOf c \<Longrightarrow> store_get pmj_Name (cl_jobs c) (pmj_Name j) = Some j"
  unfolding jobsOf_def using store_get_key [of pmj_Name] by fastforce

lemma podsOfD: "p \<in> podsOf c \<Longrightarrow> store_get pod_Name (cl_pods c) (pod_Name p) = Some p"
  unfolding podsOf_def using store_get_key [of pod_Name] by fastforce

lemma one_per_name:
  "i \<in> jobsOf c \<Longrightarrow> j \<in> jobsOf c \<Longrightarrow> pmj_Name i = pmj_Name j \<Longrightarrow> i = j"
  "p \<in> podsOf c \<Longrightarrow> q \<in> podsOf c \<Longrightarrow> pod_Name p = pod_Name q \<Longrightarrow> p = q"
  using jobsOfD [of i c] jobsOfD [of j c] podsOfD [of p c] podsOfD [of q c] by (metis option.inject)+

lemma jobsIn_get: "store_get pmj_Name (cl_jobs c) n = Some j \<Longrightarrow> c \<in> H \<Longrightarrow> j \<in> jobsIn H"
  by (auto simp: jobsIn_def jobsOf_def)

lemma podsIn_get: "store_get pod_Name (cl_pods c) n = Some p \<Longrightarrow> c \<in> H \<Longrightarrow> p \<in> podsIn H"
  by (auto simp: podsIn_def podsOf_def)

subsection \<open>One write\<close>

text \<open>A version in which a pod takes an unclaimed job, or one whose consumer is gone and was never let go.\<close>

definition claimVersion :: "cluster set \<Rightarrow> cluster \<Rightarrow> pmj \<Rightarrow> pmj \<Rightarrow> bool" where
  "claimVersion H c l l' \<longleftrightarrow> pmj_UID l' = pmj_UID l \<and> pmj_ResourceVersion l < pmj_ResourceVersion l' \<and>
     (\<exists>p \<in> podsIn H. claims (pod_UID p) l' \<and> st_RestoredPodName (pmj_Status l') = pod_Name p) \<and>
     (st_Consumed (pmj_Status l) \<longrightarrow> \<not> st_GateReleased (pmj_Status l) \<and> gone (st_RestoredPodUID (pmj_Status l)) c)"

definition nextVersion :: "cluster set \<Rightarrow> cluster \<Rightarrow> pmj \<Rightarrow> pmj \<Rightarrow> bool" where
  "nextVersion H c l l' \<longleftrightarrow> laterVersion l l' \<or> claimVersion H c l l'"

definition allowed :: "cluster set \<Rightarrow> cluster \<Rightarrow> cluster \<Rightarrow> bool" where
  "allowed H c c' \<longleftrightarrow>
     (\<forall>l' \<in> jobsOf c'. freshJob H l' \<or> (\<exists>l \<in> jobsOf c. pmj_Name l = pmj_Name l' \<and> nextVersion H c l l')) \<and>
     (\<forall>p' \<in> podsOf c'. freshPod H p' \<or> (\<exists>p \<in> podsOf c. pod_Name p = pod_Name p' \<and> pod_UID p = pod_UID p')) \<and>
     (\<forall>i \<in> jobsOf c'. \<forall>j \<in> jobsOf c'. pmj_UID i = pmj_UID j \<longrightarrow> i = j) \<and>
     (\<forall>p \<in> podsOf c'. \<forall>q \<in> podsOf c'. pod_UID p = pod_UID q \<longrightarrow> p = q)"

lemma freshJobD:
  "freshJob H j \<Longrightarrow> i \<in> jobsIn H \<Longrightarrow> pmj_UID i \<noteq> pmj_UID j"
  "freshJob H j \<Longrightarrow> i \<in> jobsIn H \<Longrightarrow> pmj_Name i = pmj_Name j \<Longrightarrow> pmj_ResourceVersion i < pmj_ResourceVersion j"
  unfolding freshJob_def by blast+

lemma next_uid: "nextVersion H c l l' \<Longrightarrow> pmj_UID l' = pmj_UID l"
  by (auto simp: nextVersion_def laterVersion_def claimVersion_def)

lemma next_version: "nextVersion H c l l' \<Longrightarrow> l' = l \<or> pmj_ResourceVersion l < pmj_ResourceVersion l'"
  by (auto simp: nextVersion_def laterVersion_def claimVersion_def)

lemma next_consumed: "nextVersion H c l l' \<Longrightarrow> claims A l \<Longrightarrow> st_Consumed (pmj_Status l') \<and> (claims A l' \<or> gone A c)"
  by (auto simp: nextVersion_def laterVersion_def claimVersion_def heldFrom_def holder_def claims_def)

lemma next_released:
  "nextVersion H c l l' \<Longrightarrow> claims A l \<Longrightarrow> st_GateReleased (pmj_Status l) \<Longrightarrow> claims A l' \<and> st_GateReleased (pmj_Status l')"
  by (auto simp: nextVersion_def laterVersion_def claimVersion_def heldFrom_def holder_def claims_def)

lemma next_claim:
  "nextVersion H c l l' \<Longrightarrow> claims A l' \<Longrightarrow>
   claims A l \<and> st_RestoredPodName (pmj_Status l') = st_RestoredPodName (pmj_Status l) \<or>
   (\<exists>p \<in> podsIn H. pod_UID p = A \<and> pod_Name p = st_RestoredPodName (pmj_Status l')) \<and> (\<forall>B. claims B l \<longrightarrow> gone B c)"
  by (auto simp: nextVersion_def laterVersion_def claimVersion_def heldFrom_def holder_def claims_def)

subsection \<open>The invariant\<close>

text \<open>Resource versions and UIDs identify versions and objects.\<close>

definition versioned :: "cluster set \<Rightarrow> cluster \<Rightarrow> bool" where
  "versioned H c \<longleftrightarrow>
     (\<forall>i \<in> jobsIn H. \<forall>j \<in> jobsIn H. pmj_Name i = pmj_Name j \<and> pmj_ResourceVersion i = pmj_ResourceVersion j \<longrightarrow> i = j) \<and>
     (\<forall>i \<in> jobsIn H. \<forall>l \<in> jobsOf c. pmj_Name i = pmj_Name l \<longrightarrow> pmj_ResourceVersion i \<le> pmj_ResourceVersion l) \<and>
     (\<forall>i \<in> jobsIn H. \<forall>j \<in> jobsIn H. pmj_UID i = pmj_UID j \<longrightarrow> pmj_Name i = pmj_Name j)"

text \<open>Pods keep their names, and a consumer is a pod that has been seen.\<close>

definition identified :: "cluster set \<Rightarrow> bool" where
  "identified H \<longleftrightarrow>
     (\<forall>p \<in> podsIn H. pod_UID p \<noteq> [] \<and> pod_Name p \<noteq> []) \<and>
     (\<forall>p \<in> podsIn H. \<forall>q \<in> podsIn H. pod_UID p = pod_UID q \<longrightarrow> pod_Name p = pod_Name q) \<and>
     (\<forall>A. \<forall>j \<in> jobsIn H. claims A j \<longrightarrow> (\<exists>p \<in> podsIn H. pod_UID p = A \<and> pod_Name p = st_RestoredPodName (pmj_Status j)))"

text \<open>A claim is given up only when its pod is gone, and never after its gate is released.\<close>

definition claimedOnce :: "cluster set \<Rightarrow> cluster \<Rightarrow> bool" where
  "claimedOnce H c \<longleftrightarrow>
     (\<forall>A. \<forall>j \<in> jobsIn H. \<forall>l \<in> jobsOf c. pmj_UID j = pmj_UID l \<and> claims A j \<longrightarrow>
        st_Consumed (pmj_Status l) \<and> (st_GateReleased (pmj_Status j) \<longrightarrow> st_GateReleased (pmj_Status l)) \<and> (claims A l \<or> gone A c)) \<and>
     (\<forall>A B. \<forall>i \<in> jobsIn H. \<forall>j \<in> jobsIn H. pmj_UID i = pmj_UID j \<and> claims A i \<and> claims B j \<and> A \<noteq> B \<longrightarrow> gone A c \<or> gone B c)"

text \<open>A restored job belongs to the pod that restores it; no other claimant is left.\<close>

definition restoredOnce :: "cluster set \<Rightarrow> cluster \<Rightarrow> (string \<times> string) set \<Rightarrow> bool" where
  "restoredOnce H c R \<longleftrightarrow> (\<forall>u A. (u, A) \<in> R \<longrightarrow>
     (\<forall>l \<in> jobsOf c. pmj_UID l = u \<longrightarrow> claims A l \<and> st_GateReleased (pmj_Status l)) \<and>
     (\<forall>B. \<forall>j \<in> jobsIn H. pmj_UID j = u \<and> claims B j \<and> B \<noteq> A \<longrightarrow> gone B c) \<and>
     (\<forall>B. (u, B) \<in> R \<longrightarrow> B = A) \<and> u \<in> pmj_UID ` jobsIn H)"

definition inv :: "cluster set \<Rightarrow> cluster \<Rightarrow> (string \<times> string) set \<Rightarrow> bool" where
  "inv H c R \<longleftrightarrow> c \<in> H \<and> tidy c \<and> versioned H c \<and> identified H \<and> claimedOnce H c \<and> restoredOnce H c R"

lemma gone_stays:
  assumes "allowed H c c'" "p \<in> podsIn H" "pod_UID p = A" "gone A c"
  shows "gone A c'"
  using assms unfolding allowed_def gone_def freshPod_def by (metis (no_types, lifting))

lemma versionedD:
  "versioned H c \<Longrightarrow> i \<in> jobsIn H \<Longrightarrow> j \<in> jobsIn H \<Longrightarrow> pmj_Name i = pmj_Name j \<Longrightarrow> pmj_ResourceVersion i = pmj_ResourceVersion j \<Longrightarrow> i = j"
  "versioned H c \<Longrightarrow> i \<in> jobsIn H \<Longrightarrow> l \<in> jobsOf c \<Longrightarrow> pmj_Name i = pmj_Name l \<Longrightarrow> pmj_ResourceVersion i \<le> pmj_ResourceVersion l"
  "versioned H c \<Longrightarrow> i \<in> jobsIn H \<Longrightarrow> j \<in> jobsIn H \<Longrightarrow> pmj_UID i = pmj_UID j \<Longrightarrow> pmj_Name i = pmj_Name j"
  unfolding versioned_def by blast+

lemma identifiedD:
  "identified H \<Longrightarrow> p \<in> podsIn H \<Longrightarrow> pod_UID p \<noteq> [] \<and> pod_Name p \<noteq> []"
  "identified H \<Longrightarrow> p \<in> podsIn H \<Longrightarrow> q \<in> podsIn H \<Longrightarrow> pod_UID p = pod_UID q \<Longrightarrow> pod_Name p = pod_Name q"
  "identified H \<Longrightarrow> j \<in> jobsIn H \<Longrightarrow> claims A j \<Longrightarrow> \<exists>p \<in> podsIn H. pod_UID p = A \<and> pod_Name p = st_RestoredPodName (pmj_Status j)"
  unfolding identified_def by blast+

lemma allowed_versioned:
  assumes "allowed H c c'" "versioned H c" "c \<in> H"
  shows "versioned (insert c' H) c'"
proof -
  have live: "l \<in> jobsIn H" if "l \<in> jobsOf c" for l using that assms(3) by (auto simp: jobsIn_def)
  have new: "freshJob H l' \<or> (\<exists>l \<in> jobsOf c. pmj_Name l = pmj_Name l' \<and> pmj_UID l' = pmj_UID l \<and> (l' = l \<or> pmj_ResourceVersion l < pmj_ResourceVersion l'))"
    if "l' \<in> jobsOf c'" for l'
    using assms(1) that next_uid next_version unfolding allowed_def by meson
  have rv: "pmj_ResourceVersion i \<le> pmj_ResourceVersion l' \<and> (pmj_ResourceVersion i = pmj_ResourceVersion l' \<longrightarrow> l' \<in> jobsOf c)"
    if "l' \<in> jobsOf c'" "i \<in> jobsIn H" "pmj_Name i = pmj_Name l'" for i l'
  proof (cases "freshJob H l'")
    case True
    from freshJobD(2) [OF this that(2,3)] show ?thesis by simp
  next
    case False
    with new [OF that(1)] obtain l where l: "l \<in> jobsOf c" "pmj_Name l = pmj_Name l'" "l' = l \<or> pmj_ResourceVersion l < pmj_ResourceVersion l'" by blast
    have "pmj_ResourceVersion i \<le> pmj_ResourceVersion l" by (rule versionedD(2) [OF assms(2) that(2) l(1)]) (simp add: that l)
    with l show ?thesis by auto
  qed
  have same: "i = j" if "i \<in> jobsOf c'" "j \<in> jobsOf c'" "pmj_Name i = pmj_Name j" for i j
    using that by (rule one_per_name)
  have name: "pmj_Name i = pmj_Name l'" if "l' \<in> jobsOf c'" "i \<in> jobsIn H" "pmj_UID i = pmj_UID l'" for i l'
    using new [OF that(1)] that(2,3) live versionedD(3) [OF assms(2)] freshJobD(1) by metis
  have uid: "i = j" if "i \<in> jobsOf c'" "j \<in> jobsOf c'" "pmj_UID i = pmj_UID j" for i j
    using assms(1) that unfolding allowed_def by blast
  have "i = j" if ij: "i \<in> jobsIn (insert c' H)" "j \<in> jobsIn (insert c' H)" and eq: "pmj_Name i = pmj_Name j" "pmj_ResourceVersion i = pmj_ResourceVersion j" for i j
  proof (cases "i \<in> jobsOf c' \<and> j \<in> jobsOf c'")
    case False
    with ij rv [of i j] rv [of j i] eq live have "i \<in> jobsIn H" "j \<in> jobsIn H" by auto
    with eq show ?thesis by (blast intro: versionedD(1) [OF assms(2)])
  qed (use eq same in blast)
  moreover have "pmj_ResourceVersion i \<le> pmj_ResourceVersion l" if "i \<in> jobsIn (insert c' H)" "l \<in> jobsOf c'" "pmj_Name i = pmj_Name l" for i l
    using that same rv by auto
  moreover have "pmj_Name i = pmj_Name j" if "i \<in> jobsIn (insert c' H)" "j \<in> jobsIn (insert c' H)" "pmj_UID i = pmj_UID j" for i j
    using that uid name versionedD(3) [OF assms(2)] unfolding jobsIn_insert(1) Un_iff by metis
  ultimately show ?thesis unfolding versioned_def by blast
qed

lemma allowed_identified:
  assumes "allowed H c c'" "identified H" "c \<in> H"
  shows "identified (insert c' H)"
proof -
  have live: "l \<in> jobsOf c \<Longrightarrow> l \<in> jobsIn H" "p \<in> podsOf c \<Longrightarrow> p \<in> podsIn H" for l p using assms(3) by (auto simp: jobsIn_def podsIn_def)
  have pod: "freshPod H p' \<or> (\<exists>p \<in> podsIn H. pod_Name p = pod_Name p' \<and> pod_UID p = pod_UID p')" if "p' \<in> podsOf c'" for p'
    using assms(1) that live(2) unfolding allowed_def by meson
  have uid: "p = q" if "p \<in> podsOf c'" "q \<in> podsOf c'" "pod_UID p = pod_UID q" for p q
    using assms(1) that unfolding allowed_def by blast
  have old: "pod_Name p' = pod_Name q" if "p' \<in> podsOf c'" "q \<in> podsIn H" "pod_UID p' = pod_UID q" for p' q
    using pod [OF that(1)] that(2,3) identifiedD(2) [OF assms(2)] unfolding freshPod_def by metis
  have "pod_UID p \<noteq> [] \<and> pod_Name p \<noteq> []" if "p \<in> podsIn (insert c' H)" for p
    using that pod identifiedD(1) [OF assms(2)] unfolding freshPod_def jobsIn_insert Un_iff by metis
  moreover have "pod_Name p = pod_Name q" if "p \<in> podsIn (insert c' H)" "q \<in> podsIn (insert c' H)" "pod_UID p = pod_UID q" for p q
    using that uid old identifiedD(2) [OF assms(2)] unfolding jobsIn_insert Un_iff by metis
  moreover have "\<exists>p \<in> podsIn (insert c' H). pod_UID p = A \<and> pod_Name p = st_RestoredPodName (pmj_Status j)" if "j \<in> jobsIn (insert c' H)" "claims A j" for A j
  proof (cases "j \<in> jobsIn H")
    case True
    with identifiedD(3) [OF assms(2) True that(2)] show ?thesis by auto
  next
    case False
    with that(1) have "j \<in> jobsOf c'" by simp
    with assms(1) that(2) obtain l where l: "l \<in> jobsOf c" "nextVersion H c l j"
      unfolding allowed_def by (auto simp: freshJob_def claims_def)
    from next_claim [OF l(2) that(2)] identifiedD(3) [OF assms(2) live(1) [OF l(1)], of A] show ?thesis by auto
  qed
  ultimately show ?thesis unfolding identified_def by blast
qed

lemma claimedOnceD:
  assumes "claimedOnce H c" "j \<in> jobsIn H" "claims A j"
  shows "l \<in> jobsOf c \<Longrightarrow> pmj_UID j = pmj_UID l \<Longrightarrow> st_Consumed (pmj_Status l)"
    and "l \<in> jobsOf c \<Longrightarrow> pmj_UID j = pmj_UID l \<Longrightarrow> st_GateReleased (pmj_Status j) \<Longrightarrow> st_GateReleased (pmj_Status l)"
    and "l \<in> jobsOf c \<Longrightarrow> pmj_UID j = pmj_UID l \<Longrightarrow> claims A l \<or> gone A c"
    and "i \<in> jobsIn H \<Longrightarrow> pmj_UID i = pmj_UID j \<Longrightarrow> claims B i \<Longrightarrow> A \<noteq> B \<Longrightarrow> gone A c \<or> gone B c"
  using assms unfolding claimedOnce_def by blast+

text \<open>The versions of a job after a write: the old ones, and at most one more.\<close>

lemma allowed_claimedOnce:
  assumes step: "allowed H c c'" and "c \<in> H" and ver: "versioned H c" and id: "identified H" and once: "claimedOnce H c"
  shows "claimedOnce (insert c' H) c'"
proof -
  note ver' = allowed_versioned [OF step ver \<open>c \<in> H\<close>]
  have stays: "gone A c'" if "j \<in> jobsIn H" "claims A j" "gone A c" for A j
    using identifiedD(3) [OF id that(1,2)] gone_stays [OF step _ _ that(3)] by blast
  have now: "\<exists>l \<in> jobsOf c. pmj_UID l = pmj_UID l' \<and> nextVersion H c l l'" if "l' \<in> jobsOf c'" "j \<in> jobsIn H" "pmj_UID j = pmj_UID l'" for l' j
    using step that freshJobD(1) next_uid unfolding allowed_def by metis
  have live: "l \<in> jobsIn H" if "l \<in> jobsOf c" for l using that assms(2) by (auto simp: jobsIn_def)
  have next': "st_Consumed (pmj_Status l') \<and> (st_GateReleased (pmj_Status j) \<longrightarrow> st_GateReleased (pmj_Status l')) \<and> (claims A l' \<or> gone A c')"
    if "l' \<in> jobsOf c'" "j \<in> jobsIn H" "pmj_UID j = pmj_UID l'" "claims A j" for A j l'
  proof -
    from now [OF that(1-3)] obtain l where l: "l \<in> jobsOf c" "pmj_UID l = pmj_UID l'" "nextVersion H c l l'" by blast
    have uid: "pmj_UID j = pmj_UID l" using l(2) that(3) by simp
    from claimedOnceD(1) [OF once that(2,4) l(1) uid] obtain B where B: "claims B l" by (auto simp: claims_def)
    from next_consumed [OF l(3) B] next_released [OF l(3) B] claimedOnceD(2,3) [OF once that(2,4) l(1) uid] stays [OF that(2,4)] stays [OF live [OF l(1)]]
      next_consumed [OF l(3), of A]
    show ?thesis by blast
  qed
  have first: "claims A l' \<Longrightarrow> j \<in> jobsIn H \<Longrightarrow> pmj_UID j = pmj_UID l' \<Longrightarrow> claims B j \<Longrightarrow> A \<noteq> B \<Longrightarrow> gone B c'" if "l' \<in> jobsOf c'" for A B l' j
    using next' [OF that, of j B] by (auto simp: claims_def)
  have same: "i = j" if "i \<in> jobsOf c'" "j \<in> jobsOf c'" "pmj_UID i = pmj_UID j" for i j
    using step that unfolding allowed_def by blast
  have "gone A c' \<or> gone B c'" if ij: "i \<in> jobsIn (insert c' H)" "j \<in> jobsIn (insert c' H)" and u: "pmj_UID i = pmj_UID j"
    and cl: "claims A i" "claims B j" and ne: "A \<noteq> B" for i j A B
  proof -
    have "gone A c' \<or> gone B c'" if "i \<in> jobsIn H" "j \<in> jobsIn H"
      using claimedOnceD(4) [OF once that(1) cl(1) that(2) _ cl(2) ne] u stays that cl by metis
    moreover have False if "i \<in> jobsOf c'" "j \<in> jobsOf c'"
      using same [OF that u] cl ne by (simp add: claims_def)
    ultimately show ?thesis using ij first [of i A j B] first [of j B i A] u cl ne by auto
  qed
  moreover have "st_Consumed (pmj_Status l') \<and> (st_GateReleased (pmj_Status j) \<longrightarrow> st_GateReleased (pmj_Status l')) \<and> (claims A l' \<or> gone A c')"
    if "j \<in> jobsIn (insert c' H)" "l' \<in> jobsOf c'" "pmj_UID j = pmj_UID l'" "claims A j" for A j l'
    using that next' same by (auto simp: claims_def)
  ultimately show ?thesis unfolding claimedOnce_def by blast
qed

lemma restoredOnceD:
  assumes "restoredOnce H c R" "(u, A) \<in> R"
  shows "l \<in> jobsOf c \<Longrightarrow> pmj_UID l = u \<Longrightarrow> claims A l \<and> st_GateReleased (pmj_Status l)"
    and "j \<in> jobsIn H \<Longrightarrow> pmj_UID j = u \<Longrightarrow> claims B j \<Longrightarrow> B \<noteq> A \<Longrightarrow> gone B c"
    and "(u, B) \<in> R \<Longrightarrow> B = A" and "\<exists>j \<in> jobsIn H. pmj_UID j = u"
  using assms unfolding restoredOnce_def by blast+

lemma allowed_restoredOnce:
  assumes step: "allowed H c c'" and "c \<in> H" and id: "identified H" and once: "restoredOnce H c R"
  shows "restoredOnce (insert c' H) c' R"
proof -
  have now: "\<exists>l \<in> jobsOf c. pmj_UID l = pmj_UID l' \<and> nextVersion H c l l'" if "l' \<in> jobsOf c'" "j \<in> jobsIn H" "pmj_UID j = pmj_UID l'" for l' j
    using step that freshJobD(1) next_uid unfolding allowed_def by metis
  have live: "claims A l' \<and> st_GateReleased (pmj_Status l')" if "(u, A) \<in> R" "l' \<in> jobsOf c'" "pmj_UID l' = u" for u A l'
    using restoredOnceD(4) [OF once that(1)] now that(2,3) restoredOnceD(1) [OF once that(1)] next_released by metis
  have "gone B c'" if "(u, A) \<in> R" "j \<in> jobsIn (insert c' H)" "pmj_UID j = u" "claims B j" "B \<noteq> A" for u A B j
  proof (cases "j \<in> jobsIn H")
    case True
    have "gone B c" by (rule restoredOnceD(2) [OF once that(1) True that(3-5)])
    then show ?thesis using identifiedD(3) [OF id True that(4)] gone_stays [OF step] by blast
  qed (use live [OF that(1), of j] that in \<open>auto simp: claims_def\<close>)
  moreover have "u \<in> pmj_UID ` jobsIn (insert c' H)" if "(u, A) \<in> R" for u A using restoredOnceD(4) [OF once that] by auto
  ultimately show ?thesis unfolding restoredOnce_def using live restoredOnceD(3) [OF once] by blast
qed

lemma allowed_inv:
  assumes "inv H c R" "allowed H c c'" "tidy c'"
  shows "inv (insert c' H) c' R"
  using assms allowed_versioned [OF assms(2)] allowed_identified [OF assms(2)] allowed_claimedOnce [OF assms(2)] allowed_restoredOnce [OF assms(2)]
  unfolding inv_def by blast

subsection \<open>The writes are allowed\<close>

lemma env_allowed:
  assumes "envStep H c c'"
  shows "allowed H c c'"
proof -
  have "freshJob H l' \<or> (\<exists>l \<in> jobsOf c. pmj_Name l = pmj_Name l' \<and> nextVersion H c l l')" if "l' \<in> jobsOf c'" for l'
    using assms jobsOfD [OF that] jobsOf_get unfolding envStep_def nextVersion_def by metis
  moreover have "freshPod H p' \<or> (\<exists>p \<in> podsOf c. pod_Name p = pod_Name p' \<and> pod_UID p = pod_UID p')" if "p' \<in> podsOf c'" for p'
    using assms podsOfD [OF that] podsOf_get unfolding envStep_def by metis
  ultimately show ?thesis using assms unfolding allowed_def envStep_def by blast
qed

text \<open>Within one state of the API server, a UID is that of one object.\<close>

lemma inv_unique:
  assumes "inv H c R"
  shows "i \<in> jobsOf c \<Longrightarrow> j \<in> jobsOf c \<Longrightarrow> pmj_UID i = pmj_UID j \<Longrightarrow> i = j"
    and "p \<in> podsOf c \<Longrightarrow> q \<in> podsOf c \<Longrightarrow> pod_UID p = pod_UID q \<Longrightarrow> p = q"
proof -
  have live: "i \<in> jobsOf c \<Longrightarrow> i \<in> jobsIn H" "p \<in> podsOf c \<Longrightarrow> p \<in> podsIn H" for i p using assms by (auto simp: inv_def jobsIn_def podsIn_def)
  show "i = j" if ij: "i \<in> jobsOf c" "j \<in> jobsOf c" "pmj_UID i = pmj_UID j"
  proof -
    have "pmj_Name i = pmj_Name j" using versionedD(3) assms live(1) [OF ij(1)] live(1) [OF ij(2)] ij(3) unfolding inv_def by blast
    with ij(1,2) show ?thesis by (rule one_per_name)
  qed
  show "p = q" if pq: "p \<in> podsOf c" "q \<in> podsOf c" "pod_UID p = pod_UID q"
  proof -
    have "pod_Name p = pod_Name q" using identifiedD(2) assms live(2) [OF pq(1)] live(2) [OF pq(2)] pq(3) unfolding inv_def by blast
    with pq(1,2) show ?thesis by (rule one_per_name)
  qed
qed

text \<open>A write that keeps the pods and makes next versions of jobs.\<close>

lemma write_allowed:
  assumes inv: "inv H c R" and pods: "samePods c c'"
    and jobs: "\<And>n l'. store_get pmj_Name (cl_jobs c') n = Some l' \<Longrightarrow> \<exists>l. store_get pmj_Name (cl_jobs c) n = Some l \<and> nextVersion H c l l'"
  shows "allowed H c c'"
proof -
  have job: "\<exists>l \<in> jobsOf c. pmj_Name l = pmj_Name l' \<and> nextVersion H c l l'" if "l' \<in> jobsOf c'" for l'
    using jobs [OF jobsOfD [OF that]] jobsOf_get by blast
  have pod: "\<exists>p \<in> podsOf c. pod_Name p = pod_Name p' \<and> pod_UID p = pod_UID p'" if "p' \<in> podsOf c'" for p'
    using pods podsOfD [OF that] podsOf_get unfolding samePods_def by metis
  have "i = j" if ij: "i \<in> jobsOf c'" "j \<in> jobsOf c'" "pmj_UID i = pmj_UID j" for i j
  proof -
    have "pmj_Name i = pmj_Name j" using job [OF ij(1)] job [OF ij(2)] ij(3) next_uid inv_unique(1) [OF inv] by metis
    with ij(1,2) show ?thesis by (rule one_per_name)
  qed
  moreover have "p = q" if pq: "p \<in> podsOf c'" "q \<in> podsOf c'" "pod_UID p = pod_UID q" for p q
  proof -
    have "pod_Name p = pod_Name q" using pod [OF pq(1)] pod [OF pq(2)] pq(3) inv_unique(2) [OF inv] by metis
    with pq(1,2) show ?thesis by (rule one_per_name)
  qed
  ultimately show ?thesis using job pod unfolding allowed_def by blast
qed

lemma kept_inv: "inv H c R \<Longrightarrow> claimsKept c c' \<Longrightarrow> inv (insert c' H) c' R"
  by (rule allowed_inv, assumption, rule write_allowed) (auto simp: inv_def claimsKept_def laterJobs_def nextVersion_def)

subsection \<open>Reconciles\<close>

lemma inv_live: "inv H c R \<Longrightarrow> i \<in> jobsOf c \<Longrightarrow> i \<in> jobsIn H" "inv H c R \<Longrightarrow> p \<in> podsOf c \<Longrightarrow> p \<in> podsIn H"
  by (auto simp: inv_def jobsIn_def podsIn_def)

text \<open>The consumer that the gate controller does not find by its name is gone.\<close>

lemma consumer_gone:
  assumes inv: "inv H c R" and j: "j \<in> jobsIn H" "claims A j" and lost: "consumerGone j c"
  shows "gone A c"
  unfolding gone_def
proof (intro ballI notI)
  fix q
  assume q: "q \<in> podsOf c" "pod_UID q = A"
  have id: "identified H" using inv by (simp add: inv_def)
  obtain p where p: "p \<in> podsIn H" "pod_UID p = A" "pod_Name p = st_RestoredPodName (pmj_Status j)" using identifiedD(3) [OF id j] by blast
  have "pod_Name q = pod_Name p" using identifiedD(2) [OF id inv_live(2) [OF inv q(1)] p(1)] q(2) p(2) by simp
  then have "store_get pod_Name (cl_pods c) (st_RestoredPodName (pmj_Status j)) = Some q" using podsOfD [OF q(1)] p(3) by metis
  moreover have "st_RestoredPodUID (pmj_Status j) = A" "A \<noteq> []" "st_RestoredPodName (pmj_Status j) \<noteq> []"
    using j(2) identifiedD(1) [OF id p(1)] p(2,3) by (simp_all add: claims_def)
  ultimately show False using lost q(2) by (auto simp: consumerGone_def Let_def)
qed

lemma claim_inv:
  assumes inv: "inv H c R" and p: "p \<in> podsIn H" and j: "j \<in> jobsIn H" "pmj_Name j = pmj_Name job"
    and l: "store_get pmj_Name (cl_jobs c) (pmj_Name job) = Some l" "pmj_ResourceVersion l = pmj_ResourceVersion j" and claim: "claimStep p j job c"
    and c': "c' = c\<lparr>cl_jobs := put_job (l\<lparr>pmj_Status := pmj_Status job, pmj_ResourceVersion := Suc (pmj_ResourceVersion l)\<rparr>) (cl_jobs c)\<rparr>"
  shows "inv (insert c' H) c' R"
proof -
  let ?l = "l\<lparr>pmj_Status := pmj_Status job, pmj_ResourceVersion := Suc (pmj_ResourceVersion l)\<rparr>"
  have lc: "l \<in> jobsOf c" "pmj_Name l = pmj_Name j" using jobsOf_get [OF l(1)] j(2) by auto
  have ver: "versioned H c" using inv by (simp add: inv_def)
  have eq: "l = j" by (rule versionedD(1) [OF ver inv_live(1) [OF inv lc(1)] j(1) lc(2) l(2)])
  have "gone A c" if "claims A j" "st_Consumed (pmj_Status j)" for A
    using claim that consumer_gone [OF inv j(1) that(1)] by (auto simp: claimStep_def)
  with claim p have next': "nextVersion H c l ?l"
    by (auto simp: nextVersion_def claimVersion_def claimStep_def eq claims_def)
  have "allowed H c c'"
  proof (rule write_allowed [OF inv])
    show "samePods c c'" by (auto simp: c' samePods_def)
    show "\<exists>l. store_get pmj_Name (cl_jobs c) n = Some l \<and> nextVersion H c l l'" if "store_get pmj_Name (cl_jobs c') n = Some l'" for n l'
      using that l(1) next' jobsOf_get [OF l(1)]
      by (auto simp: c' put_job_def store_get_put store_get_del nextVersion_def split: if_splits)
  qed
  moreover have "tidy c'" using inv by (simp add: c' inv_def tidy_put_job)
  ultimately show ?thesis by (rule allowed_inv [OF inv])
qed

lemma release_inv:
  assumes inv: "inv H c R" and j: "j \<in> jobsIn H" and q: "q \<in> podsOf c" "pod_UID q = A" and rec: "releaseRecorded A j c"
  shows "inv H c (insert (pmj_UID j, A) R)"
proof -
  have once: "claimedOnce H c" "restoredOnce H c R" using inv by (simp_all add: inv_def)
  have here: "\<not> gone A c" using q by (auto simp: gone_def)
  obtain i where i: "i \<in> jobsIn H" "pmj_UID i = pmj_UID j" "claims A i"
  proof (cases "claims A j")
    case False
    with rec obtain l where "store_get pmj_Name (cl_jobs c) (pmj_Name j) = Some l" "pmj_UID l = pmj_UID j" "claims A l"
      by (auto simp: releaseRecorded_def)
    then show ?thesis using that inv_live(1) [OF inv] jobsOf_get by blast
  qed (use that j in blast)
  have live: "claims A l \<and> st_GateReleased (pmj_Status l)" if l: "l \<in> jobsOf c" "pmj_UID l = pmj_UID j" for l
  proof -
    have "claims A l" using claimedOnceD(3) [OF once(1) i(1,3) l(1)] i(2) l(2) here by metis
    moreover have "st_GateReleased (pmj_Status l)"
    proof (cases "claims A j \<and> st_GateReleased (pmj_Status j)")
      case True
      then show ?thesis using claimedOnceD(2) [OF once(1) j _ l(1)] l(2) by metis
    next
      case False
      with rec obtain l' where l': "store_get pmj_Name (cl_jobs c) (pmj_Name j) = Some l'" "st_GateReleased (pmj_Status l')"
        by (auto simp: releaseRecorded_def)
      have "pmj_Name l = pmj_Name j" using versionedD(3) inv inv_live(1) [OF inv l(1)] j l(2) unfolding inv_def by blast
      then have "l = l'" using one_per_name(1) [OF l(1)] jobsOf_get [OF l'(1)] by metis
      with l'(2) show ?thesis by simp
    qed
    ultimately show ?thesis ..
  qed
  have others: "gone B c" if "k \<in> jobsIn H" "pmj_UID k = pmj_UID j" "claims B k" "B \<noteq> A" for B k
    using claimedOnceD(4) [OF once(1) i(1,3) that(1) _ that(3)] that(2,4) i(2) here by metis
  have same: "B = A" if "(pmj_UID j, B) \<in> R" for B
    using restoredOnceD(2) [OF once(2) that i(1) i(2) i(3)] here by blast
  have "restoredOnce H c (insert (pmj_UID j, A) R)"
    unfolding restoredOnce_def
  proof (intro allI impI)
    fix u B
    assume uB: "(u, B) \<in> insert (pmj_UID j, A) R"
    show "(\<forall>l \<in> jobsOf c. pmj_UID l = u \<longrightarrow> claims B l \<and> st_GateReleased (pmj_Status l)) \<and>
        (\<forall>D. \<forall>j \<in> jobsIn H. pmj_UID j = u \<and> claims D j \<and> D \<noteq> B \<longrightarrow> gone D c) \<and>
        (\<forall>D. (u, D) \<in> insert (pmj_UID j, A) R \<longrightarrow> D = B) \<and> u \<in> pmj_UID ` jobsIn H"
    proof (cases "u = pmj_UID j")
      case True
      then have "B = A" using uB same by auto
      with True live others same j show ?thesis by blast
    next
      case False
      with uB have R: "(u, B) \<in> R" by simp
      with False restoredOnceD [OF once(2) R] show ?thesis by blast
    qed
  qed
  with inv show ?thesis by (simp add: inv_def)
qed

text \<open>A write of the gate controller, from a cache of things seen.\<close>

lemma gate_write_inv:
  assumes inv: "inv H c R" and cache: "cachedFrom H cache" and p: "store_get pod_Name (cl_pods cache) name = Some p"
    and step: "gateWrite GKE_InspectRestoreOrder (store_get pmj_Name (cl_jobs cache)) p e c c'"
  shows "inv (insert c' H) c' (R \<union> restores cache name e)"
proof -
  have pH: "p \<in> podsIn H" using cache podsOf_get [OF p] by (auto simp: cachedFrom_def)
  have jH: "j \<in> jobsIn H \<and> pmj_Name j = n" if "store_get pmj_Name (cl_jobs cache) n = Some j" for j n
    using cache jobsOf_get [OF that] by (auto simp: cachedFrom_def)
  show ?thesis
  proof (cases e)
    case (UpdatePod q)
    with step obtain l where l: "store_get pod_Name (cl_pods c) (pod_Name p) = Some l" "precond (pod_UID p) (Some (pod_ResourceVersion p)) l"
        "c' = c\<lparr>cl_pods := store_put pod_Name (l\<lparr>pod_Labels := pod_Labels q, pod_Annotations := pod_Annotations q,
              pod_SchedulingGates := pod_SchedulingGates q, pod_ResourceVersion := Suc (pod_ResourceVersion l)\<rparr>) (cl_pods c)\<rparr>"
      and q: "pod_UID q = pod_UID p" "pod_SchedulingGates q = pod_SchedulingGates p \<or> coldRelease GKE_InspectRestoreOrder q \<or>
            restoreRelease GKE_InspectRestoreOrder (store_get pmj_Name (cl_jobs cache)) p q c"
      by (auto simp: gateWrite_def)
    have uid: "pod_UID l = pod_UID p" using l(2) identifiedD(1) [of H p] inv pH by (auto simp: precond_def inv_def)
    have "inv H c (R \<union> restores cache name e)"
    proof (cases "restores cache name e = {}")
      case False
      then obtain j ref where j: "store_get pmj_Name (cl_jobs cache) (mget (pod_Annotations p) AnnotationAssignedPMJ) = Some j"
        and g: "podHasMigrationGate p" "\<not> podHasMigrationGate q" "GKE_InspectRestoreOrder q = (ref, False, True)"
        and eq: "restores cache name e = {(pmj_UID j, pod_UID p)}"
        using p q(1) UpdatePod by (auto simp: restores_def)
      have "releaseRecorded (pod_UID p) j c"
        using q(2) g j by (auto simp: restoreRelease_def coldRelease_def podHasMigrationGate_def)
      from release_inv [OF inv _ _ uid this] jH [OF j] podsOf_get [OF l(1)] show ?thesis by (simp add: eq)
    qed (use inv in simp)
    moreover have "claimsKept c c'"
      using kept_pod [OF l(1), of "l\<lparr>pod_Labels := pod_Labels q, pod_Annotations := pod_Annotations q, pod_SchedulingGates := pod_SchedulingGates q, pod_ResourceVersion := Suc (pod_ResourceVersion l)\<rparr>"]
      by (simp add: keepsClaims_def l(3))
    ultimately show ?thesis by (rule kept_inv)
  next
    case (UpdateJobStatus job)
    with step obtain j l where j: "store_get pmj_Name (cl_jobs cache) (pmj_Name job) = Some j"
      and l: "store_get pmj_Name (cl_jobs c) (pmj_Name job) = Some l" "pmj_ResourceVersion l = pmj_ResourceVersion j" "claimStep p j job c"
        "c' = c\<lparr>cl_jobs := put_job (l\<lparr>pmj_Status := pmj_Status job, pmj_ResourceVersion := Suc (pmj_ResourceVersion l)\<rparr>) (cl_jobs c)\<rparr>"
      by (auto simp: gateWrite_def)
    have "restores cache name e = {}" using UpdateJobStatus by (simp add: restores_def)
    with claim_inv [OF inv pH _ _ l] jH [OF j] show ?thesis by simp
  next
    case (PatchJobStatus orig job)
    with step obtain l where l: "store_get pmj_Name (cl_jobs c) (pmj_Name orig) = Some l"
      "c' = c\<lparr>cl_jobs := put_job (l\<lparr>pmj_Status := (pmj_Status l)\<lparr>st_GateReleased := True\<rparr>, pmj_ResourceVersion := Suc (pmj_ResourceVersion l)\<rparr>) (cl_jobs c)\<rparr>"
      by (auto simp: gateWrite_def)
    have "claimsKept c c'"
      using kept_job [OF l(1) _ later_status, of "(pmj_Status l)\<lparr>st_GateReleased := True\<rparr>"] jobsOf_get [OF l(1)]
      by (simp add: keepsClaims_def l(2) heldFrom_def holder_def)
    moreover have "restores cache name e = {}" using PatchJobStatus by (simp add: restores_def)
    ultimately show ?thesis using kept_inv [OF inv] by simp
  next
    case (Event a b d)
    then show ?thesis using step kept_inv [OF inv kept_refl(1)] by (simp add: gateWrite_def restores_def)
  qed (use step in \<open>simp_all add: gateWrite_def\<close>)
qed

lemma chain_inv:
  assumes "chain P c es c'" and "inv H c R"
    and "\<And>H' d R e d'. H \<subseteq> H' \<Longrightarrow> inv H' d R \<Longrightarrow> P e d d' \<Longrightarrow> inv (insert d' H') d' (R \<union> new e)"
  shows "inv (H \<union> snd ` set es \<union> {c'}) c' (R \<union> (\<Union>(e, d) \<in> set es. new e))"
  using assms
proof (induction es arbitrary: c H R)
  case Nil
  then have "inv H c R" "c' = c" "insert c H = H" by (auto simp: inv_def)
  then show ?case by simp
next
  case (Cons x es)
  obtain e where x: "x = (e, c)" using Cons.prems(1) by (cases x) auto
  with Cons.prems(1) obtain m where m: "P e c m" "chain P m es c'" by auto
  have "inv (insert m H) m (R \<union> new e)" using Cons.prems(2,3) m(1) by blast
  from Cons.IH [OF m(2) this] Cons.prems(3)
  have "inv (insert m H \<union> snd ` set es \<union> {c'}) c' (R \<union> new e \<union> (\<Union>(e, d) \<in> set es. new e))" by blast
  moreover have "m \<in> snd ` set es \<union> {c'}" using m(2) by (cases es) (auto simp: image_iff)
  then have "insert m H \<union> snd ` set es \<union> {c'} = H \<union> snd ` set (x # es) \<union> {c'}"
    using Cons.prems(2) x by (auto simp: inv_def)
  ultimately show ?case by (simp add: x Un_assoc)
qed

text \<open>A reconcile that starts from the state of the system leads to the next.\<close>

lemma adds_inv:
  assumes "adds P w w'" and "runs s w" and "inv (sy_seen s) (sy_now s) (sy_restored s)"
    and "\<And>H d R e d'. sy_seen s \<subseteq> H \<Longrightarrow> inv H d R \<Longrightarrow> P e d d' \<Longrightarrow> inv (insert d' H) d' (R \<union> new e)"
    and "s' = after s w' (\<Union>(e, d) \<in> set (w_log w'). new e)"
  shows "inv (sy_seen s') (sy_now s') (sy_restored s')"
  using assms(1,2) chain_inv [OF _ assms(3,4)] unfolding adds_def runs_def assms(5) after_def by auto

lemma cachedFrom_mono: "cachedFrom H c \<Longrightarrow> H \<subseteq> H' \<Longrightarrow> cachedFrom H' c"
  unfolding cachedFrom_def jobsIn_def podsIn_def by blast

lemma runs_coherent:
  assumes "runs s w" "inv (sy_seen s) (sy_now s) (sy_restored s)"
  shows "coherent w"
  unfolding coherent_def sameVersion_def
proof (intro allI impI)
  fix n j l
  assume j: "store_get pmj_Name (cl_jobs (w_cache w)) n = Some j"
    and l: "store_get pmj_Name (cl_jobs (w_live w)) (pmj_Name j) = Some l" "pmj_ResourceVersion l = pmj_ResourceVersion j"
  have "j \<in> jobsIn (sy_seen s)" using assms(1) jobsOf_get [OF j] by (auto simp: runs_def cachedFrom_def)
  moreover have "l \<in> jobsIn (sy_seen s)" "pmj_Name l = pmj_Name j"
    using inv_live(1) [OF assms(2)] jobsOf_get [OF l(1)] assms(1) by (auto simp: runs_def)
  ultimately have "l = j" using versionedD(1) l(2) assms(2) unfolding inv_def by blast
  then show "pmj_UID l = pmj_UID j" by simp
qed

lemma gate_step_inv:
  assumes "inv (sy_seen s) (sy_now s) (sy_restored s)" and s: "runs s w"
    and run: "run_state (Gate_Reconcile (mainGate K (gkeRegistry K rs)) name) w = (res, w')"
    and s': "s' = after s w' (\<Union>(e, c) \<in> set (w_log w'). restores (w_cache w) name e)"
  shows "inv (sy_seen s') (sy_now s') (sy_restored s')"
proof (cases "store_get pod_Name (cl_pods (w_cache w)) name")
  case None
  have "does keepsClaims (Gate_Reconcile (mainGate K (gkeRegistry K rs)) name) (\<lambda>_ _. True) w"
    unfolding Gate_Reconcile_def get_pod_def using None by (auto simp: view_def split: sum.splits intro!: does_bind does_read does_return)
  then have kept: "adds keepsClaims w w'" using does_run [OF _ run] by blast
  have none: "restores (w_cache w) name e = {}" for e using None by (simp add: restores_def)
  show ?thesis by (rule adds_inv [OF kept s assms(1) _ s']) (simp add: none keepsClaims_def kept_inv)
next
  case (Some p)
  have w: "tidy (w_live w)" "honest w" "cachedFrom (sy_seen s) (w_cache w)" using assms(1) s by (simp_all add: runs_def inv_def)
  note writes = mainGate.gate_writes [OF w(1,2) runs_coherent [OF s assms(1)] run Some]
  show ?thesis by (rule adds_inv [OF writes s assms(1) _ s']) (rule gate_write_inv [OF _ cachedFrom_mono [OF w(3)] Some])
qed

lemma job_step_inv:
  assumes "inv (sy_seen s) (sy_now s) (sy_restored s)" and "runs s w" and "adds keepsClaims w w'" and "s' = after s w' {}"
  shows "inv (sy_seen s') (sy_now s') (sy_restored s')"
  by (rule adds_inv [OF assms(3,2,1), where new = "\<lambda>_. {}"]) (use kept_inv assms(4) in \<open>auto simp: keepsClaims_def\<close>)

lemma start_inv: "cl_jobs c = [] \<Longrightarrow> cl_pods c = [] \<Longrightarrow> inv {c} c {}"
  by (simp add: inv_def tidy_def versioned_def identified_def claimedOnce_def restoredOnce_def jobsOf_def podsOf_def store_get_def)

lemma reach_inv:
  assumes "NewDefaultRegistry K Live policy = Inr engines" and "reach K engines s"
  shows "inv (sy_seen s) (sy_now s) (sy_restored s)"
proof -
  obtain rs where G: "engines = gkeRegistry K rs" using default_registry [OF assms(1)] by blast
  show ?thesis
    using assms(2)
  proof induction
    case (start c)
    then show ?case using start_inv by simp
  next
    case (env s c')
    have "tidy c'" using env.hyps by (simp add: envStep_def)
    with allowed_inv [OF env.IH env_allowed [OF env.hyps(2)]] show ?case by simp
  next
    case (gate s w name res w')
    show ?case by (rule gate_step_inv [OF gate.IH gate.hyps(2) gate.hyps(3) [unfolded G] refl])
  next
    case (job s w t sw c l ns name res w')
    show ?case by (rule job_step_inv [OF job.IH job.hyps(2) main.reconcile_keeps_claims [OF job.hyps(3) [unfolded G]] refl])
  qed
qed

subsection \<open>Properties\<close>

text \<open>
  C1 (invariant). In every execution of the two controllers, interleaved as they may be with each
  other and with the environment, on stale caches and with failing calls, the snapshot of a job is
  restored by at most one pod: once a pod is let go to restore it, no other pod ever is, the job
  records that pod for as long as it exists, and any other pod it has ever recorded is gone.
\<close>

theorem restored_at_most_once:
  assumes "NewDefaultRegistry K Live policy = Inr engines" and "reach K engines s" and "(u, A) \<in> sy_restored s"
  shows "((u, B) \<in> sy_restored s \<longrightarrow> B = A) \<and>
    (\<forall>l \<in> jobsOf (sy_now s). pmj_UID l = u \<longrightarrow> claims A l \<and> st_GateReleased (pmj_Status l)) \<and>
    (\<forall>j \<in> jobsIn (sy_seen s). pmj_UID j = u \<and> claims B j \<and> B \<noteq> A \<longrightarrow> gone B (sy_now s))"
proof -
  have "restoredOnce (sy_seen s) (sy_now s) (sy_restored s)" using reach_inv [OF assms(1,2)] by (simp add: inv_def)
  note once = restoredOnceD [OF this assms(3)]
  show ?thesis using once(1-3) by blast
qed

definition beforeScene :: cluster where
  "beforeScene = gateScene\<lparr>cl_jobs := [], cl_pods := []\<rparr>"

lemma gateScene_things: "jobsOf gateScene = {durableJob}" "podsOf gateScene = {gatedPod}"
  by (auto simp: jobsOf_def podsOf_def gateScene_def clusterOf_def store_get_def split: if_splits)

lemma gateScene_arises: "envStep {beforeScene} beforeScene gateScene"
proof -
  have "freshJob {beforeScene} durableJob" "freshPod {beforeScene} gatedPod"
    by (simp_all add: freshJob_def freshPod_def jobsOf_def podsOf_def beforeScene_def store_get_def durableJob_def gatedPod_def setStatus_def jobOf_def podOf_def statusOf_def)
  then show ?thesis
    using jobsOf_get [of gateScene] podsOf_get [of gateScene] unfolding envStep_def gateScene_things by (auto simp: gateScene_tidy)
qed

lemma restored_at_most_once_witness:
  "\<exists>s u. reach sampleLib stockRegistry s \<and> (u, ''u9'') \<in> sy_restored s \<and> (\<forall>B. (u, B) \<in> sy_restored s \<longrightarrow> B = ''u9'')"
proof -
  let ?run = "run_state (Gate_Reconcile (mainGate sampleLib stockRegistry) ''web-0'') (worldOf gateScene)"
  let ?s = "\<lparr>sy_now = gateScene, sy_seen = {gateScene, beforeScene}, sy_restored = {}\<rparr>"
  let ?t = "after ?s (snd ?run) (\<Union>(e, c) \<in> set (w_log (snd ?run)). restores gateScene ''web-0'' e)"
  have "reach sampleLib stockRegistry \<lparr>sy_now = beforeScene, sy_seen = {beforeScene}, sy_restored = {}\<rparr>"
    by (rule reach.start) (simp_all add: beforeScene_def)
  from reach.env [OF this, of gateScene] gateScene_arises have s: "reach sampleLib stockRegistry ?s" by simp
  have "runs ?s (worldOf gateScene)"
    by (simp add: runs_def cachedFrom_def worldOf_honest worldOf_log)
  then have t: "reach sampleLib stockRegistry ?t" using reach.gate [OF s, of "worldOf gateScene" "''web-0''" "fst ?run" "snd ?run"] by simp
  have "list_ex (\<lambda>(e, c). case e of UpdatePod q \<Rightarrow> \<not> podHasMigrationGate q \<and> pod_UID q = ''u9'' \<and> GKE_InspectRestoreOrder q = (''snap-1'', False, True) | _ \<Rightarrow> False) (w_log (snd ?run))"
    by code_simp
  then obtain q c where q: "(UpdatePod q, c) \<in> set (w_log (snd ?run))" "\<not> podHasMigrationGate q" "pod_UID q = ''u9''" "GKE_InspectRestoreOrder q = (''snap-1'', False, True)"
    by (auto simp: list_ex_iff split: effect.splits)
  have "podHasMigrationGate gatedPod" "mget (pod_Annotations gatedPod) AnnotationAssignedPMJ = ''pmj-web-0''" by code_simp+
  with q(2-4) gateScene_lookups have "(pmj_UID durableJob, ''u9'') \<in> restores gateScene ''web-0'' (UpdatePod q)"
    by (auto simp: restores_def)
  with q(1) have u: "(pmj_UID durableJob, ''u9'') \<in> sy_restored ?t" by (auto simp: after_def)
  from t u restored_at_most_once [OF stock_registry t u] show ?thesis by blast
qed

end
