(* ===== verification/Paths.thy ===== *)
theory Paths
  imports Prelude
begin

text \<open>
  Go's \<open>path\<close> and \<open>path/filepath\<close> on Unix, with \<open>strings.ReplaceAll\<close>, \<open>strings.Index\<close>, \<open>strings.Cut\<close>
  and \<open>strconv.Atoi\<close>: what the CRIU engine uses of the standard library. \<open>Clean\<close> resolves the elements of
  a path on a stack; the lemmas say which elements are left, and that joining a clean relative path
  below a directory stays there.
\<close>

section \<open>Definitions\<close>

definition isAbs :: "string \<Rightarrow> bool" where
  "isAbs p \<longleftrightarrow> hasPrefix p ''/''"

definition pathElems :: "string \<Rightarrow> string list" where
  "pathElems p = filter (\<lambda>e. e \<noteq> [] \<and> e \<noteq> ''.'') (splitOn CHR ''/'' p)"

text \<open>One element on the stack of those before it; \<open>..\<close> takes one off, and stays at the front of a relative path.\<close>

fun pathStep :: "bool \<Rightarrow> string list \<Rightarrow> string \<Rightarrow> string list" where
  "pathStep rooted st e =
     (if e = ''..'' then
        (case st of
           [] \<Rightarrow> if rooted then [] else [''..'']
         | s # st' \<Rightarrow> if s = ''..'' then ''..'' # st else st')
      else e # st)"

definition resolve :: "bool \<Rightarrow> string list \<Rightarrow> string list" where
  "resolve rooted es = rev (foldl (pathStep rooted) [] es)"

definition Clean :: "string \<Rightarrow> string" where
  "Clean p = (let es = resolve (isAbs p) (pathElems p) in
     if isAbs p then CHR ''/'' # joinWith ''/'' es else if es = [] then ''.'' else joinWith ''/'' es)"

definition Join :: "string list \<Rightarrow> string" where
  "Join ps = (let qs = filter (\<lambda>p. p \<noteq> []) ps in if qs = [] then [] else Clean (joinWith ''/'' qs))"

text \<open>\<open>path.Dir\<close>: what is before the last slash, cleaned. \<open>path.Base\<close>: the last element.\<close>

definition Dir :: "string \<Rightarrow> string" where
  "Dir p = Clean (joinWith ''/'' (butlast (splitOn CHR ''/'' p) @ [[]]))"

definition Base :: "string \<Rightarrow> string" where
  "Base p = (if p = [] then ''.'' else
     (case filter (\<lambda>e. e \<noteq> []) (splitOn CHR ''/'' p) of [] \<Rightarrow> ''/'' | es \<Rightarrow> last es))"

text \<open>
  What follows \<open>strings.Index\<close>; \<open>strings.Cut\<close>; \<open>strings.ReplaceAll\<close> of a nonempty text, from the left and
  without overlap.
\<close>

fun afterSub :: "string \<Rightarrow> string \<Rightarrow> string option" where
  "afterSub s sub = (if hasPrefix s sub then Some (drop (length sub) s)
     else case s of [] \<Rightarrow> None | c # cs \<Rightarrow> afterSub cs sub)"

definition cut :: "char \<Rightarrow> string \<Rightarrow> (string \<times> string) option" where
  "cut d s = (if d \<in> set s then Some (takeWhile (\<lambda>c. c \<noteq> d) s, tl (dropWhile (\<lambda>c. c \<noteq> d) s)) else None)"

function replaceAll :: "string \<Rightarrow> string \<Rightarrow> string \<Rightarrow> string" where
  "replaceAll s old new =
     (if old = [] then s
      else if hasPrefix s old then new @ replaceAll (drop (length old) s) old new
      else case s of [] \<Rightarrow> [] | c # cs \<Rightarrow> c # replaceAll cs old new)"
  by auto
termination
proof (relation "measure (\<lambda>(s, old, new). length s)", goal_cases)
  case (2 s old new)
  then have "length old \<le> length s" "0 < length old" by (auto simp: hasPrefix_def prefix_length_le)
  then have "length s - length old < length s" by linarith
  then show ?case by simp
qed auto

declare replaceAll.simps [simp del] afterSub.simps [simp del] pathStep.simps [simp del]

text \<open>\<open>strconv.Atoi\<close>: an optional sign and digits, in the range of \<open>int64\<close>.\<close>

definition decDigit :: "char \<Rightarrow> int option" where
  "decDigit c = (let n = of_char c :: nat in if 48 \<le> n \<and> n \<le> 57 then Some (int n - 48) else None)"

fun decDigits :: "int \<Rightarrow> string \<Rightarrow> int option" where
  "decDigits acc [] = Some acc"
| "decDigits acc (c # cs) = (case decDigit c of None \<Rightarrow> None | Some d \<Rightarrow> decDigits (10 * acc + d) cs)"

definition Atoi :: "string \<Rightarrow> int option" where
  "Atoi s =
     (let neg = hasPrefix s ''-''; ds = (if neg \<or> hasPrefix s ''+'' then tl s else s) in
      if ds = [] then None
      else case decDigits 0 ds of
        None \<Rightarrow> None
      | Some n \<Rightarrow> let v = (if neg then - n else n) in if - (2 ^ 63) \<le> v \<and> v < 2 ^ 63 then Some v else None)"

section \<open>Lemmas\<close>

subsection \<open>Splitting and joining\<close>

lemma splitOn_split: "splitOn d (a @ d # b) = splitOn d a @ splitOn d b"
  by (induction a) (auto split: list.splits)

lemma splitOn_elem: "e \<in> set (splitOn d s) \<Longrightarrow> d \<notin> set e"
  by (induction s arbitrary: e) (auto split: list.splits if_splits)

lemma joinWith_append: "xs \<noteq> [] \<Longrightarrow> ys \<noteq> [] \<Longrightarrow> joinWith sep (xs @ ys) = joinWith sep xs @ sep @ joinWith sep ys"
  by (induction sep xs rule: joinWith.induct) (auto simp: neq_Nil_conv)

text \<open>An element of a path, as a name in a directory.\<close>

definition plainElem :: "string \<Rightarrow> bool" where
  "plainElem e \<longleftrightarrow> e \<noteq> [] \<and> e \<noteq> ''.'' \<and> CHR ''/'' \<notin> set e"

lemma pathElems_plain: "e \<in> set (pathElems p) \<Longrightarrow> plainElem e"
  by (auto simp: pathElems_def plainElem_def dest: splitOn_elem)

lemma pathElems_append: "pathElems (a @ CHR ''/'' # b) = pathElems a @ pathElems b"
  by (simp add: pathElems_def splitOn_split)

lemma pathElems_root [simp]: "pathElems (CHR ''/'' # b) = pathElems b"
  by (simp add: pathElems_def)

lemma pathElems_Nil [simp]: "pathElems [] = []"
  by (simp add: pathElems_def)

lemma pathElems_join: "\<forall>e \<in> set es. plainElem e \<Longrightarrow> pathElems (joinWith ''/'' es) = es"
  by (cases "es = []") (auto simp: pathElems_def splitOn_joinWith plainElem_def intro!: filter_True)

subsection \<open>Cleaning\<close>

lemma resolve_Nil [simp]: "resolve b [] = []"
  by (simp add: resolve_def)

text \<open>What \<open>..\<close> leaves: a few of them at the front of a relative path, then none.\<close>

definition settled :: "bool \<Rightarrow> string list \<Rightarrow> bool" where
  "settled rooted es \<longleftrightarrow> (\<exists>k xs. es = replicate k ''..'' @ xs \<and> ''..'' \<notin> set xs \<and> (rooted \<longrightarrow> k = 0))"

lemma settled_step: "settled rooted (rev st) \<Longrightarrow> settled rooted (rev (pathStep rooted st e))"
proof -
  assume "settled rooted (rev st)"
  then obtain k xs where st: "rev st = replicate k ''..'' @ xs" "''..'' \<notin> set xs" "rooted \<longrightarrow> k = 0" by (auto simp: settled_def)
  show ?thesis
  proof (cases "e = ''..''")
    case False
    then show ?thesis using st by (auto simp: pathStep.simps settled_def intro!: exI [of _ k] exI [of _ "xs @ [e]"])
  next
    case True
    show ?thesis
    proof (cases xs rule: rev_cases)
      case Nil
      then have "st = replicate k ''..''" using st(1) by (metis append_Nil2 rev_replicate rev_rev_ident)
      then show ?thesis using True st(3)
        by (cases k) (auto simp: pathStep.simps settled_def replicate_append_same intro: exI [of _ "[]"] exI [of _ "Suc 0"] exI [of _ "Suc k"])
    next
      case (snoc ys y)
      then have "st = y # rev (replicate k ''..'' @ ys)" using st(1) by (metis append_assoc rev.simps(2) rev_append rev_rev_ident rev_singleton_conv append_Cons append_Nil)
      then show ?thesis using True st(2,3) snoc by (auto simp: pathStep.simps settled_def)
    qed
  qed
qed

lemma settled_resolve: "settled rooted (resolve rooted es)"
proof -
  have "settled rooted (rev (foldl (pathStep rooted) [] es))"
    by (induction es rule: rev_induct) (simp_all add: settled_step, simp add: settled_def)
  then show ?thesis by (simp add: resolve_def)
qed

lemma step_elems: "set (pathStep rooted st e) \<subseteq> insert e (set st)"
  by (auto simp: pathStep.simps split: list.splits if_splits)

lemma resolve_elems: "set (resolve rooted es) \<subseteq> set es"
proof -
  have "set (foldl (pathStep rooted) [] es) \<subseteq> set es"
    by (induction es rule: rev_induct) (use step_elems in fastforce)+
  then show ?thesis by (simp add: resolve_def)
qed

text \<open>Without \<open>..\<close> nothing is resolved.\<close>

lemma foldl_plain: "''..'' \<notin> set es \<Longrightarrow> foldl (pathStep rooted) st es = rev es @ st"
  by (induction es arbitrary: st) (auto simp: pathStep.simps)

lemma resolve_plain: "''..'' \<notin> set es \<Longrightarrow> resolve rooted es = es"
  by (simp add: resolve_def foldl_plain)

lemma settled_plain: "settled True es \<Longrightarrow> ''..'' \<notin> set es"
  by (auto simp: settled_def)

lemma clean_abs:
  assumes "isAbs p"
  obtains es where "Clean p = CHR ''/'' # joinWith ''/'' es" "''..'' \<notin> set es" "\<forall>e \<in> set es. plainElem e"
proof
  show "Clean p = CHR ''/'' # joinWith ''/'' (resolve True (pathElems p))" using assms by (simp add: Clean_def Let_def)
  show "''..'' \<notin> set (resolve True (pathElems p))" by (rule settled_plain [OF settled_resolve])
  show "\<forall>e \<in> set (resolve True (pathElems p)). plainElem e" using resolve_elems pathElems_plain by blast
qed

text \<open>A clean relative path that does not begin with \<open>..\<close> has none.\<close>

lemma clean_inside:
  assumes "\<not> hasPrefix (Clean p) ''..''" "\<not> isAbs (Clean p)"
  shows "''..'' \<notin> set (pathElems (Clean p))"
proof -
  have rel: "\<not> isAbs p" using assms(2) by (auto simp: Clean_def Let_def isAbs_def hasPrefix_def)
  let ?es = "resolve False (pathElems p)"
  have plain: "\<forall>e \<in> set ?es. plainElem e" using resolve_elems pathElems_plain by blast
  obtain k xs where es: "?es = replicate k ''..'' @ xs" "''..'' \<notin> set xs" using settled_resolve [of False "pathElems p"] by (auto simp: settled_def)
  show ?thesis
  proof (cases "?es = []")
    case True
    then show ?thesis using rel by (simp add: Clean_def Let_def pathElems_def)
  next
    case False
    then have clean: "Clean p = joinWith ''/'' ?es" using rel by (simp add: Clean_def Let_def)
    have "k = 0"
    proof (rule ccontr)
      assume "k \<noteq> 0"
      then obtain n where "k = Suc n" by (cases k) auto
      then have "hasPrefix (joinWith ''/'' ?es) ''..''"
        unfolding es(1) by (cases "replicate n ''..'' @ xs") (simp_all add: hasPrefix_def)
      with assms(1) clean show False by simp
    qed
    with es have "''..'' \<notin> set ?es" by simp
    then show ?thesis unfolding clean pathElems_join [OF plain] .
  qed
qed

text \<open>Below a directory.\<close>

definition below :: "string \<Rightarrow> string \<Rightarrow> bool" where
  "below d p \<longleftrightarrow> p = d \<or> hasPrefix p (d @ ''/'')"

definition rootedAt :: "string list \<Rightarrow> string" where
  "rootedAt es = CHR ''/'' # joinWith ''/'' es"

definition plainPath :: "string list \<Rightarrow> bool" where
  "plainPath es \<longleftrightarrow> ''..'' \<notin> set es \<and> (\<forall>e \<in> set es. plainElem e)"

lemma plainPath_append [simp]: "plainPath (xs @ ys) \<longleftrightarrow> plainPath xs \<and> plainPath ys"
  by (auto simp: plainPath_def)

lemma pathElems_rooted: "plainPath es \<Longrightarrow> pathElems (rootedAt es) = es"
  by (simp add: rootedAt_def plainPath_def pathElems_join)

lemma rooted_below: "es \<noteq> [] \<Longrightarrow> below (rootedAt es) (rootedAt (es @ ns))"
  by (cases "ns = []") (simp_all add: below_def rootedAt_def joinWith_append hasPrefix_def)

lemma clean_rooted: "isAbs d \<Longrightarrow> Clean d = d \<Longrightarrow> d \<noteq> ''/'' \<Longrightarrow> \<exists>es. d = rootedAt es \<and> plainPath es \<and> es \<noteq> []"
  using clean_abs [of d] unfolding rootedAt_def plainPath_def by (metis joinWith.simps(1))

lemma join_rooted:
  assumes es: "plainPath es" and n: "''..'' \<notin> set (pathElems n)"
  shows "Join [rootedAt es, n] = rootedAt (es @ pathElems n)"
proof (cases "n = []")
  case True
  then show ?thesis using es
    by (simp add: Join_def rootedAt_def Clean_def Let_def isAbs_def hasPrefix_def plainPath_def pathElems_join resolve_plain)
next
  case False
  then have "Join [rootedAt es, n] = Clean (rootedAt es @ CHR ''/'' # n)" by (simp add: Join_def rootedAt_def)
  then show ?thesis
    using n es unfolding Clean_def Let_def pathElems_append pathElems_rooted [OF es]
    by (simp add: isAbs_def hasPrefix_def rootedAt_def plainPath_def resolve_plain)
qed

lemma Dir_rooted:
  assumes "plainPath es" "es \<noteq> []"
  shows "Dir (rootedAt es) = rootedAt (butlast es)"
proof -
  have "splitOn CHR ''/'' (rootedAt es) = [] # es"
    using splitOn_joinWith [OF assms(2)] assms(1) by (simp add: rootedAt_def plainPath_def plainElem_def)
  then have dir: "Dir (rootedAt es) = Clean (joinWith ''/'' ([] # butlast es @ [[]]))" using assms(2) by (simp add: Dir_def)
  have "joinWith ''/'' ([] # butlast es @ [[]]) = CHR ''/'' # joinWith ''/'' (butlast es @ [[]])" by (cases "butlast es") simp_all
  moreover have "pathElems (joinWith ''/'' (butlast es @ [[]])) = butlast es"
    using assms(1) pathElems_join [of "butlast es"]
    by (cases "butlast es = []") (auto simp: joinWith_append pathElems_append plainPath_def dest: in_set_butlastD)
  moreover have "''..'' \<notin> set (butlast es)" using assms(1) in_set_butlastD by (fastforce simp: plainPath_def)
  ultimately show ?thesis unfolding dir by (simp add: Clean_def Let_def isAbs_def hasPrefix_def rootedAt_def resolve_plain)
qed

text \<open>Joined to a clean directory, such a path stays below it, and so does its parent, if it is not the directory itself.\<close>

lemma join_below:
  assumes d: "isAbs d" "Clean d = d" "d \<noteq> ''/''" and n: "''..'' \<notin> set (pathElems n)"
  shows "below d (Join [d, n])" and "below d (Dir (Join [d, n])) \<or> Join [d, n] = d"
proof -
  obtain es where es: "d = rootedAt es" "plainPath es" "es \<noteq> []" using clean_rooted [OF d] by blast
  note join = join_rooted [OF es(2) n]
  show "below d (Join [d, n])" using rooted_below [OF es(3)] by (simp add: es(1) join)
  have plain: "plainPath (es @ pathElems n)" using es(2) n pathElems_plain by (auto simp: plainPath_def)
  show "below d (Dir (Join [d, n])) \<or> Join [d, n] = d"
  proof (cases "pathElems n = []")
    case False
    then have "Dir (Join [d, n]) = rootedAt (es @ butlast (pathElems n))"
      using Dir_rooted [OF plain] es(3) by (simp add: es(1) join butlast_append)
    then show ?thesis using rooted_below [OF es(3)] by (simp add: es(1))
  qed (simp add: es(1) join)
qed

text \<open>Cleaning a clean path changes nothing.\<close>

lemma step_dots: "pathStep False (replicate n ''..'') ''..'' = replicate (Suc n) ''..''"
  by (cases n) (simp_all add: pathStep.simps)

lemma foldl_dots: "foldl (pathStep False) (replicate n ''..'') (replicate k ''..'') = replicate (n + k) ''..''"
proof (induction k arbitrary: n)
  case (Suc k)
  from Suc [of "Suc n"] show ?case using step_dots [of n] by simp
qed simp

lemma resolve_settled: "settled rooted es \<Longrightarrow> resolve rooted es = es"
proof -
  assume "settled rooted es"
  then obtain k xs where es: "es = replicate k ''..'' @ xs" "''..'' \<notin> set xs" "rooted \<longrightarrow> k = 0" by (auto simp: settled_def)
  then have "foldl (pathStep rooted) [] (replicate k ''..'') = replicate k ''..''"
    using foldl_dots [of 0 k] by (cases rooted) simp_all
  then show ?thesis using es by (simp add: resolve_def foldl_plain)
qed

lemma joinWith_Nil: "\<forall>e \<in> set es. plainElem e \<Longrightarrow> joinWith sep es = [] \<longleftrightarrow> es = []"
  by (cases es rule: remdups_adj.cases) (auto simp: plainElem_def)

lemma Clean_not_Nil [simp]: "Clean p \<noteq> []"
proof -
  have "\<forall>e \<in> set (resolve r (pathElems p)). plainElem e" for r using resolve_elems pathElems_plain by blast
  then show ?thesis by (simp add: Clean_def Let_def joinWith_Nil)
qed

text \<open>A name joined to a clean directory, when the result is below it.\<close>

lemma join_name:
  assumes "plainElem v" "CHR ''.'' \<notin> set v" "hasPrefix (Join [Clean d, v]) (Clean d @ ''/'')"
  shows "Join [Clean d, v] = Clean d @ ''/'' @ v"
proof -
  have v: "pathElems v = [v]" "v \<noteq> ''..''" "v \<noteq> []"
    using assms(1,2) pathElems_join [of "[v]"] by (auto simp: plainElem_def)
  let ?es = "resolve (isAbs d) (pathElems d)"
  have plain: "\<forall>e \<in> set ?es. plainElem e" using resolve_elems pathElems_plain by blast
  have set: "settled (isAbs d) (?es @ [v])" using settled_resolve [of "isAbs d" "pathElems d"] v(2) unfolding settled_def by fastforce
  have join: "Join [Clean d, v] = Clean (Clean d @ CHR ''/'' # v)"
    using v(3) by (simp add: Join_def)
  show ?thesis
  proof (cases "?es = []")
    case True
    have plainv: "resolve r [v] = [v]" for r using v(2) by (simp add: resolve_plain)
    have dot: "pathElems ''.'' = []" by (simp add: pathElems_def)
    show ?thesis
    proof (cases "isAbs d")
      case abs: True
      then have "Clean d = ''/''" using True by (simp add: Clean_def Let_def)
      moreover have "Clean (''/'' @ CHR ''/'' # v) = CHR ''/'' # v" by (simp add: Clean_def Let_def isAbs_def hasPrefix_def v(1) plainv)
      ultimately have "prefix ''//'' (CHR ''/'' # v)" using assms(3) [unfolded join] by (simp add: hasPrefix_def)
      then show ?thesis using assms(1) by (cases v) (auto simp: plainElem_def)
    next
      case rel: False
      then have "Clean d = ''.''" using True by (simp add: Clean_def Let_def)
      moreover have "Clean (''.'' @ CHR ''/'' # v) = v" unfolding Clean_def Let_def pathElems_append dot by (simp add: isAbs_def hasPrefix_def v(1) plainv)
      ultimately have "prefix ''./'' v" using assms(3) [unfolded join] by (simp add: hasPrefix_def)
      then show ?thesis using assms(2) by (cases v) auto
    qed
  next
    case False
    have elems: "pathElems (Clean d) = ?es" using False pathElems_join [OF plain] by (cases "isAbs d") (simp_all add: Clean_def Let_def)
    have abs: "isAbs (Clean d @ CHR ''/'' # v) = isAbs d"
    proof (cases "isAbs d")
      case False
      obtain e es' where e: "?es = e # es'" using \<open>?es \<noteq> []\<close> by (cases ?es) auto
      then have "e \<noteq> []" "CHR ''/'' \<notin> set e" using plain by (auto simp: plainElem_def)
      then show ?thesis using False e by (cases es'; cases e) (auto simp: Clean_def Let_def isAbs_def hasPrefix_def)
    qed (simp add: Clean_def Let_def isAbs_def hasPrefix_def)
    have "Clean (Clean d @ CHR ''/'' # v) = Clean d @ ''/'' @ v"
      unfolding Clean_def [of "Clean d @ CHR ''/'' # v"] Let_def abs pathElems_append elems v(1) resolve_settled [OF set]
      using False by (cases "isAbs d") (simp_all add: Clean_def Let_def joinWith_append)
    then show ?thesis using join by simp
  qed
qed

text \<open>The last element of a joined path is the name that was joined last.\<close>

lemma join_last:
  assumes v: "plainElem v" "v \<noteq> ''..''"
  shows "last (pathElems (Join [p, v])) = v"
proof -
  have "pathElems v = [v]" using v(1) pathElems_join [of "[v]"] by simp
  then obtain q es where q: "Join [p, v] = Clean q" "pathElems q = es @ [v]"
    using v(1) by (cases "p = []") (auto simp: Join_def plainElem_def pathElems_append)
  let ?es = "resolve (isAbs q) (pathElems q)"
  have last: "?es \<noteq> []" "last ?es = v" using v(2) by (simp_all add: q(2) resolve_def pathStep.simps)
  have plain: "\<forall>e \<in> set ?es. plainElem e" using resolve_elems pathElems_plain by blast
  have "pathElems (Clean q) = ?es" using last(1) pathElems_join [OF plain] by (cases "isAbs q") (simp_all add: Clean_def Let_def)
  with q(1) last(2) show ?thesis by simp
qed

lemma join_names: "plainElem v \<Longrightarrow> v \<noteq> ''..'' \<Longrightarrow> plainElem w \<Longrightarrow> w \<noteq> ''..'' \<Longrightarrow> v \<noteq> w \<Longrightarrow> Join [p, v] \<noteq> Join [p, w]"
  using join_last by metis

subsection \<open>Numbers\<close>

lemma decDigits_append: "decDigits acc (xs @ ys) = (case decDigits acc xs of None \<Rightarrow> None | Some n \<Rightarrow> decDigits n ys)"
  by (induction xs arbitrary: acc) (auto split: option.splits)

lemma decDigit_digitChar: "decDigit (digitChar n) = Some (int (n mod 10))"
  by (simp add: decDigit_def digitChar_def Let_def zmod_int)

lemma decDigits_showNat: "decDigits 0 (showNat n) = Some (int n)"
proof (induction n rule: showNat.induct)
  case (1 n)
  show ?case
  proof (cases "n < 10")
    case True
    then show ?thesis by (subst showNat.simps) (simp add: decDigit_digitChar)
  next
    case False
    then have "decDigits 0 (showNat (n div 10)) = Some (int (n div 10))" using 1 by simp
    moreover have "10 * int (n div 10) + int (n mod 10) = int n" by presburger
    ultimately show ?thesis using False by (subst showNat.simps) (simp add: decDigits_append decDigit_digitChar)
  qed
qed

lemma showNat_digits: "c \<in> set (showNat n) \<Longrightarrow> decDigit c \<noteq> None"
  by (induction n rule: showNat.induct) (subst (asm) (2) showNat.simps, auto simp: decDigit_digitChar split: if_splits)

lemma Atoi_showNat:
  assumes "n < 2 ^ 63"
  shows "Atoi (showNat n) = Some (int n)"
proof -
  have ne: "showNat n \<noteq> []" by (subst showNat.simps) simp
  then have "hd (showNat n) \<noteq> CHR ''-''" "hd (showNat n) \<noteq> CHR ''+''"
    using showNat_digits [of "hd (showNat n)" n] by (auto simp: decDigit_def)
  with ne have "\<not> hasPrefix (showNat n) ''-''" "\<not> hasPrefix (showNat n) ''+''" by (auto simp: hasPrefix_def neq_Nil_conv)
  moreover have "int n < 2 ^ 63" using assms by (metis of_nat_less_iff of_nat_numeral of_nat_power)
  ultimately show ?thesis using ne by (simp add: Atoi_def Let_def decDigits_showNat)
qed

end
