(* ===== verification/OciSpec.thy ===== *)
theory OciSpec
  imports Paths
begin

text \<open>
  The CRIU engine's bundle specification (\<open>engines/criu/internal/node/ocispec.go\<close>,
  \<open>capability.go\<close>, \<open>checkpoint.go\<close>, and \<open>projectedVolumeRewrites\<close> and \<open>buildAdaptParams\<close> of \<open>restore.go\<close>).
  The archive of a checkpoint carries the OCI spec of the source container; it is not trusted.
  \<open>AdaptSpec\<close> turns it into the spec of the restored container.

  \<^item> A spec is a record with the fields the code reads or writes. A value that is only copied
    (capabilities, seccomp profile, devices and so on) is a text, its JSON.
  \<^item> The notes that \<open>AdaptSpec\<close> collects for error messages are left out.
\<close>

section \<open>Definitions\<close>

subsection \<open>OCI runtime specs\<close>

type_synonym blob = string

record mount =
  mt_Destination :: string
  mt_Type :: string
  mt_Source :: string
  mt_Options :: "string list"
  mt_UIDMappings :: "(nat \<times> nat \<times> nat) list"
  mt_GIDMappings :: "(nat \<times> nat \<times> nat) list"

datatype nsType = PIDNamespace | NetworkNamespace | MountNamespace | IPCNamespace | UTSNamespace | UserNamespace | CgroupNamespace | TimeNamespace

record ociRoot =
  rt_Path :: string
  rt_Readonly :: bool

record ociProcess =
  pr_Args :: "string list"
  pr_Env :: "string list"
  pr_Cwd :: string
  pr_Capabilities :: "blob option"
  pr_User :: blob
  pr_NoNewPrivileges :: bool
  pr_ApparmorProfile :: string
  pr_SelinuxLabel :: string
  pr_OOMScoreAdj :: "int option"
  pr_Rlimits :: "blob list"
  pr_Terminal :: bool
  pr_ConsoleSize :: "blob option"
  pr_Scheduler :: "blob option"
  pr_IOPriority :: "blob option"
  pr_ExecCPUAffinity :: "blob option"

record ociLinux =
  ln_Namespaces :: "(nsType \<times> string) list"
  ln_CgroupsPath :: string
  ln_Seccomp :: "blob option"
  ln_MaskedPaths :: "string list"
  ln_ReadonlyPaths :: "string list"
  ln_Devices :: "blob list"
  ln_Resources :: "blob option"
  ln_Sysctl :: "(string \<times> string) list"
  ln_RootfsPropagation :: string
  ln_MountLabel :: string
  ln_UIDMappings :: "(nat \<times> nat \<times> nat) list"
  ln_GIDMappings :: "(nat \<times> nat \<times> nat) list"
  ln_Personality :: "blob option"
  ln_IntelRdt :: "blob option"
  ln_TimeOffsets :: "blob list"

record ociSpec =
  sp_Process :: "ociProcess option"
  sp_Root :: "ociRoot option"
  sp_Mounts :: "mount list"
  sp_Hooks :: "blob option"
  sp_Annotations :: strmap
  sp_Linux :: "ociLinux option"

subsection \<open>Anonymous volumes\<close>






subsection \<open>Adapting a spec\<close>

record adaptParams =
  ap_RootfsPath :: string
  ap_HolderPid :: nat
  ap_CgroupsPath :: string
  ap_SourcePodUID :: string
  ap_TargetPodUID :: string
  ap_SourceSandboxID :: string
  ap_TargetSandboxID :: string
  ap_ExtraRewrites :: "(string \<times> string) list"
  ap_AnonVolumeDir :: string
  ap_TargetSpec :: "ociSpec option"


















subsection \<open>Cgroups\<close>

datatype cgroupError = RootCgroup | NoCgroupV2 string

definition PodSliceFromProcCgroup :: "string \<Rightarrow> cgroupError + string" where
  "PodSliceFromProcCgroup procCgroup =
     (case find (\<lambda>line. hasPrefix line ''0::'') (splitOn CHR 0x0A (trimSpace procCgroup)) of
        None \<Rightarrow> Inl (NoCgroupV2 procCgroup)
      | Some line \<Rightarrow>
          let p = trimPrefix (trimSpace (trimPrefix line ''0::'')) ''/'' in
          if p = [] then Inl RootCgroup else Inr (Dir p))"

subsection \<open>Checkpoint archives\<close>

definition missingOf :: "(bool \<times> string) list \<Rightarrow> string list" where
  "missingOf cs = map snd (filter (\<lambda>(have, _). \<not> have) cs)"

text \<open>The names that are missing; none when the entries are those of a checkpoint.\<close>

definition ValidateCheckpointTar :: "string list \<Rightarrow> string list" where
  "ValidateCheckpointTar entries =
     (let hasSpec = ''spec.dump'' \<in> set entries; hasConfig = ''config.dump'' \<in> set entries;
          hasKubeletPages = list_ex (\<lambda>e. hasPrefix e ''checkpoint/pages-'') entries;
          hasKubeletPstree = ''checkpoint/pstree.img'' \<in> set entries;
          hasRawPages = list_ex (\<lambda>e. hasPrefix e ''pages-'') entries; hasRawPstree = ''pstree.img'' \<in> set entries in
      if hasSpec \<or> hasConfig \<or> hasKubeletPages \<or> hasKubeletPstree
      then missingOf [(hasSpec, ''spec.dump''), (hasConfig, ''config.dump''), (hasKubeletPages, ''checkpoint/pages-*.img''),
        (hasKubeletPstree, ''checkpoint/pstree.img'')]
      else missingOf [(hasRawPages, ''pages-*.img''), (hasRawPstree, ''pstree.img'')])"

datatype tarType = TypeReg | TypeDir | TypeOther

record tarHeader =
  th_Name :: string
  th_Type :: tarType
  th_Mode :: nat
  th_Body :: string
  th_Complete :: bool

text \<open>What \<open>tar.Reader.Next\<close> returns in turn: headers, or an error; then the end of the archive.\<close>

type_synonym tarStream = "(string + tarHeader) list"

datatype tarError = TooManyEntries | BadTar string | UnsafePath string | UnsupportedEntry | FileError string | TarMissing "string list"

definition maxTarEntries :: nat where
  "maxTarEntries = 4096"

fun listTar :: "nat \<Rightarrow> tarStream \<Rightarrow> tarError + string list" where
  "listTar n [] = Inr []"
| "listTar n (x # xs) =
     (if maxTarEntries < Suc n then Inl TooManyEntries
      else (case x of
          Inl e \<Rightarrow> Inl (BadTar e)
        | Inr h \<Rightarrow> (case listTar (Suc n) xs of Inl e \<Rightarrow> Inl e | Inr es \<Rightarrow> Inr (th_Name h # es))))"

definition validated :: "string list \<Rightarrow> tarError + string list" where
  "validated entries = (case ValidateCheckpointTar entries of [] \<Rightarrow> Inr entries | ms \<Rightarrow> Inl (TarMissing ms))"

definition validateCheckpointTarFile :: "tarStream \<Rightarrow> tarError + string list" where
  "validateCheckpointTarFile xs = (case listTar 0 xs of Inl e \<Rightarrow> Inl e | Inr es \<Rightarrow> validated es)"

text \<open>What extraction does to the file system; \<open>ok\<close> says on which paths its calls succeed.\<close>

datatype fileWrite = MkdirAll string | WriteFile (wf_Path: string) (wf_Mode: nat) (wf_Body: string)

definition extractEntry :: "(string \<Rightarrow> bool) \<Rightarrow> string \<Rightarrow> tarHeader \<Rightarrow> tarError option \<times> fileWrite list" where
  "extractEntry ok dst h =
     (let name = Clean (th_Name h); target = Join [dst, name] in
      if hasPrefix name ''..'' \<or> isAbs name then (Some (UnsafePath (th_Name h)), [])
      else
        (case th_Type h of
           TypeOther \<Rightarrow> (Some UnsupportedEntry, [])
         | TypeDir \<Rightarrow> if ok target then (None, [MkdirAll target]) else (Some (FileError target), [])
         | TypeReg \<Rightarrow>
             if \<not> ok (Dir target) then (Some (FileError (Dir target)), [])
             else if \<not> ok target then (Some (FileError target), [MkdirAll (Dir target)])
             else (if th_Complete h then None else Some (FileError target),
               [MkdirAll (Dir target), WriteFile target (th_Mode h mod 512) (th_Body h)])))"

fun extractEntries :: "(string \<Rightarrow> bool) \<Rightarrow> string \<Rightarrow> nat \<Rightarrow> tarStream \<Rightarrow> (tarError + string list) \<times> fileWrite list" where
  "extractEntries ok dst n [] = (Inr [], [])"
| "extractEntries ok dst n (x # xs) =
     (if maxTarEntries < Suc n then (Inl TooManyEntries, [])
      else (case x of
          Inl e \<Rightarrow> (Inl (BadTar e), [])
        | Inr h \<Rightarrow>
            (case extractEntry ok dst h of
               (Some e, ws) \<Rightarrow> (Inl e, ws)
             | (None, ws) \<Rightarrow>
                 (case extractEntries ok dst (Suc n) xs of
                    (Inl e, ws') \<Rightarrow> (Inl e, ws @ ws')
                  | (Inr es, ws') \<Rightarrow> (Inr (th_Name h # es), ws @ ws')))))"

definition extractCheckpoint :: "(string \<Rightarrow> bool) \<Rightarrow> string \<Rightarrow> tarStream \<Rightarrow> (tarError + string list) \<times> fileWrite list" where
  "extractCheckpoint ok dst xs =
     (case extractEntries ok dst 0 xs of (Inl e, ws) \<Rightarrow> (Inl e, ws) | (Inr es, ws) \<Rightarrow> (validated es, ws))"

subsection \<open>Parameters of a restore\<close>

definition kubeletRoot :: "string \<Rightarrow> string" where
  "kubeletRoot uid = ''/var/lib/kubelet/pods/'' @ uid"

text \<open>What the target pod calls a projected volume, a container's file and a volume's subpath; \<open>glob\<close> lists files.\<close>

definition projectedRewrites :: "(string \<Rightarrow> string list) \<Rightarrow> string \<Rightarrow> string \<Rightarrow> (string \<times> string) list" where
  "projectedRewrites glob tgtRoot src =
     (case afterSub src ''volumes/kubernetes.io~projected/'' of
        None \<Rightarrow> []
      | Some rest \<Rightarrow>
          let srcName = hd (splitOn CHR ''/'' rest) in
          map (\<lambda>n. (srcName, n)) (filter (\<lambda>n. n \<noteq> srcName) (map Base (glob (tgtRoot @ ''/volumes/kubernetes.io~projected/*'')))))"

definition containerRewrites :: "(string \<Rightarrow> string list) \<Rightarrow> string \<Rightarrow> string \<Rightarrow> (string \<times> string) list" where
  "containerRewrites glob tgtRoot src =
     (case afterSub src ''/containers/'' of
        None \<Rightarrow> []
      | Some rest \<Rightarrow>
          if \<not> contains src ''/var/lib/kubelet/pods/'' then []
          else
            let srcRel = ''containers/'' @ rest; ctrName = hd (splitOn CHR ''/'' rest);
                named = glob (tgtRoot @ ''/containers/'' @ ctrName @ ''/*'');
                matches = (if named = [] then glob (tgtRoot @ ''/containers/*/*'') else named) in
            (case matches of
               [] \<Rightarrow> []
             | f # _ \<Rightarrow>
                 let tgtRel = ''containers/'' @ trimPrefix f (tgtRoot @ ''/containers/'') in
                 if tgtRel \<noteq> srcRel then [(srcRel, tgtRel)] else []))"

definition subpathRewrites :: "(string \<Rightarrow> string list) \<Rightarrow> string \<Rightarrow> string \<Rightarrow> (string \<times> string) list" where
  "subpathRewrites glob tgtRoot src =
     (case afterSub src ''volume-subpaths/'' of
        None \<Rightarrow> []
      | Some rest \<Rightarrow>
          (case splitOn CHR ''/'' rest of
             volName # ctrName # srcIdx # _ \<Rightarrow>
               let at = ''volume-subpaths/'' @ volName @ ''/'' @ ctrName @ ''/'' in
               (case glob (tgtRoot @ ''/'' @ at @ ''*'') of
                  [] \<Rightarrow> []
                | f # _ \<Rightarrow> let tgtIdx = Base f in if tgtIdx \<noteq> srcIdx then [(at @ srcIdx, at @ tgtIdx)] else [])
           | _ \<Rightarrow> []))"

definition projectedVolumeRewrites :: "(string \<Rightarrow> string list) \<Rightarrow> ociSpec option \<Rightarrow> string \<Rightarrow> (string \<times> string) list" where
  "projectedVolumeRewrites glob srcSpec targetPodUID =
     (case srcSpec of
        None \<Rightarrow> []
      | Some spec \<Rightarrow>
          let tgtRoot = kubeletRoot targetPodUID in
          concat (map (\<lambda>m. let src = mt_Source m in
            projectedRewrites glob tgtRoot src @ containerRewrites glob tgtRoot src @ subpathRewrites glob tgtRoot src) (sp_Mounts spec)))"

record containerRef =
  cr_ID :: string
  cr_SandboxID :: string
  cr_Pid :: nat
  cr_Spec :: "ociSpec option"
  cr_ImageName :: string

datatype paramsError = NoSourceSpec | NoHolderSpec | NoHolderImage

definition buildAdaptParams ::
    "ociSpec option \<Rightarrow> string \<Rightarrow> string \<Rightarrow> containerRef option \<Rightarrow> string \<Rightarrow> string \<Rightarrow> string \<Rightarrow> string \<Rightarrow> (string \<times> string) list \<Rightarrow> paramsError + adaptParams \<times> string" where
  "buildAdaptParams srcSpec sourcePodUID targetPodUID holder rootfsPath podSlice cid anonVolDir rewrites =
     (case srcSpec of
        None \<Rightarrow> Inl NoSourceSpec
      | Some spec \<Rightarrow>
          (case holder of
             None \<Rightarrow> Inl NoHolderSpec
           | Some h \<Rightarrow>
               if cr_Spec h = None then Inl NoHolderSpec
               else if cr_ImageName h = [] then Inl NoHolderImage
               else Inr (\<lparr>ap_RootfsPath = rootfsPath, ap_HolderPid = cr_Pid h, ap_CgroupsPath = podSlice @ ''/'' @ cid,
                 ap_SourcePodUID = sourcePodUID, ap_TargetPodUID = targetPodUID,
                 ap_SourceSandboxID = mget (sp_Annotations spec) ''io.kubernetes.cri.sandbox-id'', ap_TargetSandboxID = cr_SandboxID h,
                 ap_ExtraRewrites = rewrites, ap_AnonVolumeDir = anonVolDir, ap_TargetSpec = cr_Spec h\<rparr>, cr_ImageName h)))"

subsection \<open>Capability of a node\<close>

datatype versionError = UnrecognizedVersion string | UnparsedVersion string | OldMajor | VulnerableVersion string

definition CheckContainerdVersion :: "string \<Rightarrow> versionError option" where
  "CheckContainerdVersion v =
     (case splitOn CHR ''.'' (trimPrefix v ''containerd://'') of
        p0 # p1 # p2 # _ \<Rightarrow>
          (case (Atoi p0, Atoi p1, Atoi (hd (splitOn CHR ''-'' p2))) of
             (Some major, Some minor, Some patch) \<Rightarrow>
               if major < 2 then Some OldMajor
               else if major = 2 \<and> (minor = 1 \<or> minor = 2 \<and> patch < 7 \<or> minor = 3 \<and> patch < 4) then Some (VulnerableVersion v)
               else None
           | _ \<Rightarrow> Some (UnparsedVersion v))
      | _ \<Rightarrow> Some (UnrecognizedVersion v))"

section \<open>Lemmas\<close>




subsection \<open>What a restored container may be\<close>
















subsection \<open>Extraction\<close>

lemma extractEntry_below:
  assumes d: "isAbs dst" "Clean dst = dst" "dst \<noteq> ''/''" and w: "w \<in> set (snd (extractEntry ok dst h))"
  shows "(\<forall>p m b. w = WriteFile p m b \<longrightarrow> below dst p) \<and> (\<forall>p. w = MkdirAll p \<longrightarrow> below dst p \<or> p = Dir dst)"
proof (cases "hasPrefix (Clean (th_Name h)) ''..'' \<or> isAbs (Clean (th_Name h))")
  case False
  note below = join_below [OF d clean_inside, of "th_Name h"]
  show ?thesis using w False below
    by (cases "th_Type h") (auto simp: extractEntry_def Let_def split: if_splits)
qed (use w in \<open>simp add: extractEntry_def\<close>)

lemma extractEntries_below:
  assumes d: "isAbs dst" "Clean dst = dst" "dst \<noteq> ''/''"
  shows "w \<in> set (snd (extractEntries ok dst n xs)) \<Longrightarrow>
    (\<forall>p m b. w = WriteFile p m b \<longrightarrow> below dst p) \<and> (\<forall>p. w = MkdirAll p \<longrightarrow> below dst p \<or> p = Dir dst)"
proof (induction xs arbitrary: n)
  case (Cons x xs)
  then have "w \<in> set (snd (extractEntries ok dst (Suc n) xs)) \<or> (\<exists>h. w \<in> set (snd (extractEntry ok dst h)))"
    by (auto split: if_splits sum.splits option.splits prod.splits) (metis snd_conv)+
  then show ?case using Cons.IH extractEntry_below [OF d] by blast
qed simp

lemma extractEntries_names:
  "fst (extractEntries ok dst n xs) = Inr es \<Longrightarrow> n \<le> maxTarEntries \<Longrightarrow>
   \<exists>hs. xs = map Inr hs \<and> es = map th_Name hs \<and> n + length es \<le> maxTarEntries \<and> (\<forall>h \<in> set hs. th_Type h \<noteq> TypeOther \<and> th_Complete h \<or> th_Type h = TypeDir)"
proof (induction xs arbitrary: n es)
  case (Cons x xs)
  then obtain h es' where h: "x = Inr h" "fst (extractEntry ok dst h) = None" "fst (extractEntries ok dst (Suc n) xs) = Inr es'" "es = th_Name h # es'" "Suc n \<le> maxTarEntries"
    by (auto split: if_splits sum.splits option.splits prod.splits)
  have "th_Type h \<noteq> TypeOther \<and> th_Complete h \<or> th_Type h = TypeDir"
    using h(2) by (cases "th_Type h") (auto simp: extractEntry_def Let_def split: if_splits)
  with Cons.IH [OF h(3,5)] h show ?case by (metis (no_types, lifting) add_Suc_shift length_Cons list.simps(9) set_ConsD)
qed simp

text \<open>
  C31 (safety). Extracting a checkpoint never writes a file outside the directory it extracts to,
  whatever the archive contains and whichever calls fail; and it succeeds only for an archive
  of at most 4096 plain files and directories that has the files of a checkpoint.
\<close>

theorem extraction_stays_below:
  assumes "isAbs dst" and "Clean dst = dst" and "dst \<noteq> ''/''" and "extractCheckpoint ok dst xs = (res, ws)"
  shows "(\<forall>p m b. WriteFile p m b \<in> set ws \<longrightarrow> below dst p) \<and> (\<forall>p. MkdirAll p \<in> set ws \<longrightarrow> below dst p \<or> p = Dir dst) \<and>
    (\<forall>es. res = Inr es \<longrightarrow> ValidateCheckpointTar es = [] \<and> length es \<le> 4096 \<and>
       (\<exists>hs. xs = map Inr hs \<and> es = map th_Name hs \<and> (\<forall>h \<in> set hs. th_Type h = TypeReg \<or> th_Type h = TypeDir)))"
proof -
  obtain r where r: "extractEntries ok dst 0 xs = (r, ws)" "res = (case r of Inl e \<Rightarrow> Inl e | Inr es \<Rightarrow> validated es)"
    using assms(4) by (auto simp: extractCheckpoint_def split: prod.splits sum.splits)
  have "ValidateCheckpointTar es = [] \<and> length es \<le> 4096 \<and> (\<exists>hs. xs = map Inr hs \<and> es = map th_Name hs \<and> (\<forall>h \<in> set hs. th_Type h = TypeReg \<or> th_Type h = TypeDir))"
    if "res = Inr es" for es
  proof -
    have "r = Inr es" "ValidateCheckpointTar es = []" using that r(2) by (auto simp: validated_def split: sum.splits list.splits)
    moreover from this have "\<exists>hs. xs = map Inr hs \<and> es = map th_Name hs \<and> length es \<le> 4096 \<and> (\<forall>h \<in> set hs. th_Type h \<noteq> TypeOther)"
      using extractEntries_names [of ok dst 0 xs es] r(1) by (fastforce simp: maxTarEntries_def)
    ultimately show ?thesis by (metis tarType.exhaust)
  qed
  moreover have "below dst p" if "WriteFile p m b \<in> set ws" for p m b
    using extractEntries_below [OF assms(1-3), of "WriteFile p m b" ok 0 xs] that r(1) by simp
  moreover have "below dst p \<or> p = Dir dst" if "MkdirAll p \<in> set ws" for p
    using extractEntries_below [OF assms(1-3), of "MkdirAll p" ok 0 xs] that r(1) by simp
  ultimately show ?thesis by blast
qed

definition checkpointTar :: tarStream where
  "checkpointTar = map (\<lambda>n. Inr \<lparr>th_Name = n, th_Type = (if n = ''checkpoint/'' then TypeDir else TypeReg), th_Mode = 420, th_Body = ''x'', th_Complete = True\<rparr>)
     [''spec.dump'', ''config.dump'', ''checkpoint/'', ''checkpoint/pages-1.img'', ''checkpoint/pstree.img'']"

lemma extraction_stays_below_witness:
  "\<exists>es ws. extractCheckpoint (\<lambda>_. True) ''/w/ps'' checkpointTar = (Inr es, ws) \<and> WriteFile ''/w/ps/checkpoint/pstree.img'' 420 ''x'' \<in> set ws \<and>
     (\<forall>p m b. WriteFile p m b \<in> set ws \<longrightarrow> below ''/w/ps'' p)"
proof -
  obtain res ws where run: "extractCheckpoint (\<lambda>_. True) ''/w/ps'' checkpointTar = (res, ws)" by fastforce
  have "case extractCheckpoint (\<lambda>_. True) ''/w/ps'' checkpointTar of (r, ws') \<Rightarrow> (case r of Inl _ \<Rightarrow> False | Inr _ \<Rightarrow> True) \<and> WriteFile ''/w/ps/checkpoint/pstree.img'' 420 ''x'' \<in> set ws'"
    by code_simp
  then obtain es where es: "res = Inr es" "WriteFile ''/w/ps/checkpoint/pstree.img'' 420 ''x'' \<in> set ws" using run by (auto split: sum.splits)
  have "isAbs ''/w/ps''" "Clean ''/w/ps'' = ''/w/ps''" by code_simp+
  from extraction_stays_below [OF this _ run] es run show ?thesis by auto
qed

text \<open>An archive with a path that leads out is refused, and nothing of that entry is written.\<close>

lemma escaping_entry_refused:
  "extractCheckpoint (\<lambda>_. True) ''/w/ps'' [Inr \<lparr>th_Name = ''a/../../../etc/cron.d/x'', th_Type = TypeReg, th_Mode = 420, th_Body = ''x'', th_Complete = True\<rparr>] =
     (Inl (UnsafePath ''a/../../../etc/cron.d/x''), [])"
  by code_simp

end
