(* ===== verification/Archive.thy ===== *)
theory Archive
  imports Cluster OciSpec Sample Scenario
begin

text \<open>
  The archive of a checkpoint in the CRIU engine: how it is uploaded and how it is fetched
  (\<open>engines/criu/internal/psengine\<close>: \<open>gcs.go\<close>, \<open>run\<close> of \<open>pipeline.go\<close>, \<open>restore\<close> and \<open>fetch\<close> of
  \<open>restore_node.go\<close>).

  \<^item> An \<open>agent\<close> is the node agent with what it meets: the API server, the object store, the files of
    the node, and the node's mechanisms (kubelet, containerd, runc) behind the interfaces \<open>NodeOps\<close> and
    \<open>RestoreOps\<close>, which answer as an oracle says. Every call may fail; the store may record
    and deliver other bytes than it was given, but reports the size and MD5 of what it recorded.
  \<^item> The log has every request to the node's mechanisms, with the objects and files at that time, and
    \<open>ag_answers\<close> has it with the answer. The
    other clients of the API server may change snapshots before any call (\<open>ag_others\<close>); every write of a
    snapshot is recorded with what it replaced (\<open>ag_writes\<close>).
  \<^item> An HTTP request is represented by what it asks for, instead of the text of its URL. A reader is
    the list of the chunks it delivers.
\<close>

section \<open>Definitions\<close>

subsection \<open>The archive's manifest\<close>

record manifest =
  mf_Snapshot :: string
  mf_SourcePod :: string
  mf_SourcePodUID :: string
  mf_Container :: string
  mf_Node :: string
  mf_ImageName :: string
  mf_TarSHA256 :: string
  mf_TarBytes :: int
  mf_SpecSHA256 :: string
  mf_CPUFamily :: string
  mf_EngineVersion :: string
  mf_CreatedAt :: time

definition engineVersion :: string where
  "engineVersion = ''psengine/v1alpha1''"

text \<open>
  Hashes, and the JSON of a manifest. A hash in hexadecimal or base 64 is not empty, and a manifest
  can be read back.
\<close>

record hashlib =
  Md5Base64 :: "string \<Rightarrow> string"
  Sha256 :: "string \<Rightarrow> string"
  MarshalManifest :: "manifest \<Rightarrow> string"
  UnmarshalManifest :: "string \<Rightarrow> manifest option"

definition lawful_hashes :: "hashlib \<Rightarrow> bool" where
  "lawful_hashes C \<longleftrightarrow> (\<forall>m. UnmarshalManifest C (MarshalManifest C m) = Some m) \<and> (\<forall>s. Sha256 C s \<noteq> [] \<and> Md5Base64 C s \<noteq> [])"

record snapshotSpec =
  ss_SourcePod :: string
  ss_SourcePodUID :: string
  ss_Container :: string
  ss_NodeName :: string
  ss_Bucket :: string
  ss_Path :: string

record restoreInputs =
  ri_SnapshotName :: string
  ri_PodNamespace :: string
  ri_TargetPod :: string
  ri_ContainerName :: string
  ri_SourcePodUID :: string
  ri_TargetPodUID :: string
  ri_CheckpointDir :: string
  ri_SpecJSON :: string
  ri_ImageName :: string

subsection \<open>The agent and what it meets\<close>

type_synonym objects = "(string \<times> string) \<rightharpoonup> string"
type_synonym files = "string \<rightharpoonup> string"

datatype nodeReq =
    CheckpointReq string string string
  | SourceInfoReq string string string
  | StopReq string string string
  | ExtractReq string string
  | RestoreReq restoreInputs

text \<open>An answer of the node: an error, a done, a new file with its contents, or a container's spec and image.\<close>

datatype nodeReply = NodeError string | NodeDone | NodeFile string string | NodeInfo string string

datatype httpReq = TokenReq | Upload string string string | Download string string | Delete string string

datatype httpBody = Text string | Chunks "string list" bool | ObjectMeta string string | TokenBody string int

datatype httpFault = Answers | NoAnswer string | AnswerLost string | StatusCode int string

text \<open>A pod snapshot: the work order in its spec, and its conditions.\<close>

record engineSnapshot =
  ps_Name :: string
  ps_Labels :: strmap
  ps_Spec :: strmap
  ps_Conditions :: "condition list"
  ps_ResourceVersion :: nat

text \<open>The other objects that the engine shares with the controller, as far as it reads them.\<close>

record enginePolicy =
  ep_Name :: string
  ep_Labels :: strmap
  ep_Generation :: int
  ep_TriggerType :: nested_string
  ep_PostCheckpoint :: nested_string
  ep_Selector :: "label_selector option"
  ep_StorageConfigName :: nested_string
  ep_Conditions :: "condition list"

record storageConfig =
  sc_Name :: string
  sc_Bucket :: nested_string
  sc_Path :: nested_string

record engineNode = node +
  nd_Annotations :: strmap

record crd =
  crd_Name :: string
  crd_Labels :: strmap
  crd_Managers :: "string list"

record agent =
  ag_now :: time
  ag_calls :: nat
  ag_fault :: "nat \<Rightarrow> fault"
  ag_http :: "nat \<Rightarrow> httpFault"
  ag_recorded :: "nat \<Rightarrow> string \<Rightarrow> string"
  ag_hashed :: "nat \<Rightarrow> bool"
  ag_delivered :: "nat \<Rightarrow> string \<Rightarrow> string list \<times> bool"
  ag_node :: "nat \<Rightarrow> nodeReply"
  ag_objects :: objects
  ag_files :: files
  ag_token :: string
  ag_tokenExp :: time
  ag_snapshots :: "engineSnapshot list"
  ag_jobs :: "pmj list"
  ag_pods :: "pod list"
  ag_cachedPods :: "pod list"
  ag_log :: "(nodeReq \<times> objects \<times> files) list"
  ag_answers :: "(nodeReq \<times> nodeReply) list"
  ag_policies :: "enginePolicy list"
  ag_configs :: "storageConfig list"
  ag_triggers :: "trigger list"
  ag_nodes :: "engineNode list"
  ag_crds :: "crd list"
  ag_inflight :: "string list"
  ag_others :: "nat \<Rightarrow> engineSnapshot list \<Rightarrow> engineSnapshot list"
  ag_writes :: "(engineSnapshot option \<times> engineSnapshot) list"

type_synonym 'a act = "(agent, 'a) state"

text \<open>A call of the API server or of the file system.\<close>

definition attempt :: "(agent \<Rightarrow> (api_error + 'a) \<times> agent) \<Rightarrow> (api_error + 'a) act" where
  "attempt f = State (\<lambda>a. let a' = a\<lparr>ag_calls := Suc (ag_calls a)\<rparr> in
     case ag_fault a (ag_calls a) of
       Served \<Rightarrow> f a'
     | Refused e \<Rightarrow> (Inl e, a')
     | LostReply e \<Rightarrow> (Inl e, snd (f a')))"

definition failWith :: "string \<Rightarrow> api_error" where
  "failWith txt = err OtherReason txt"

text \<open>A checkpoint leaves its tar in a new file.\<close>

definition nodeFiles :: "nodeReq \<Rightarrow> nodeReply \<Rightarrow> files \<Rightarrow> files" where
  "nodeFiles q r fs = (case (q, r) of (CheckpointReq _ _ _, NodeFile path content) \<Rightarrow> fs(path \<mapsto> content) | _ \<Rightarrow> fs)"

definition nodeCall :: "nodeReq \<Rightarrow> nodeReply act" where
  "nodeCall q = State (\<lambda>a. let r = ag_node a (ag_calls a) in
     (r, a\<lparr>ag_calls := Suc (ag_calls a), ag_log := ag_log a @ [(q, ag_objects a, ag_files a)], ag_answers := ag_answers a @ [(q, r)], ag_files := nodeFiles q r (ag_files a)\<rparr>))"

definition now :: "time act" where
  "now = gets ag_now"

subsection \<open>Files\<close>

definition openFile :: "string \<Rightarrow> (api_error + string list) act" where
  "openFile path = attempt (\<lambda>a. (case ag_files a path of None \<Rightarrow> Inl (failWith ''no such file'') | Some c \<Rightarrow> Inr [c], a))"

definition writeFile :: "string \<Rightarrow> string \<Rightarrow> (api_error + unit) act" where
  "writeFile path content = attempt (\<lambda>a. (Inr (), a\<lparr>ag_files := (ag_files a)(path \<mapsto> content)\<rparr>))"

definition mkdirAll :: "string \<Rightarrow> (api_error + unit) act" where
  "mkdirAll path = attempt (\<lambda>a. (Inr (), a))"

definition removeFile :: "string \<Rightarrow> (api_error + unit) act" where
  "removeFile path = attempt (\<lambda>a. (Inr (), a\<lparr>ag_files := (ag_files a)(path := None)\<rparr>))"

definition osRemoveAll :: "string \<Rightarrow> (api_error + unit) act" where
  "osRemoveAll dir = attempt (\<lambda>a. (Inr (), a\<lparr>ag_files := (\<lambda>p. if below dir p then None else ag_files a p)\<rparr>))"

subsection \<open>The object store\<close>

definition takeInt :: "int \<Rightarrow> 'a list \<Rightarrow> 'a list" where
  "takeInt n xs = (if int (length xs) \<le> n then xs else take (nat n) xs)"

text \<open>An object of the store has at most 5 TiB.\<close>

definition maxObjectBytes :: int where
  "maxObjectBytes = 5 * 2 ^ 40"

record objectInfo =
  oi_Bytes :: int
  oi_MD5 :: string

text \<open>What the server does with a request, and its answer.\<close>

definition serve :: "hashlib \<Rightarrow> httpReq \<Rightarrow> agent \<Rightarrow> (int \<times> httpBody) \<times> agent" where
  "serve C q a =
     (let n = ag_calls a in
      case q of
        TokenReq \<Rightarrow> ((200, TokenBody (''token-'' @ showNat n) 3600), a)
      | Upload b o' body \<Rightarrow>
          let rec = takeInt maxObjectBytes (ag_recorded a n body) in
          ((200, ObjectMeta (showNat (length rec)) (if ag_hashed a n then Md5Base64 C rec else [])), a\<lparr>ag_objects := (ag_objects a)((b, o') \<mapsto> rec)\<rparr>)
      | Download b o' \<Rightarrow>
          (case ag_objects a (b, o') of
             None \<Rightarrow> ((404, Text ''Not Found''), a)
           | Some content \<Rightarrow> (case ag_delivered a n content of (chunks, ok) \<Rightarrow> ((200, Chunks chunks ok), a)))
      | Delete b o' \<Rightarrow>
          ((if ag_objects a (b, o') = None then 404 else 204, Text []), a\<lparr>ag_objects := (ag_objects a)((b, o') := None)\<rparr>))"

definition httpDo :: "hashlib \<Rightarrow> httpReq \<Rightarrow> (api_error + int \<times> httpBody) act" where
  "httpDo C q = State (\<lambda>a. let next' = (\<lambda>a'. a'\<lparr>ag_calls := Suc (ag_calls a)\<rparr>) in
     case ag_http a (ag_calls a) of
       Answers \<Rightarrow> (case serve C q a of (r, a') \<Rightarrow> (Inr r, next' a'))
     | NoAnswer e \<Rightarrow> (Inl (failWith e), next' a)
     | AnswerLost e \<Rightarrow> (Inl (failWith e), next' (snd (serve C q a)))
     | StatusCode code txt \<Rightarrow> (Inr (code, Text txt), next' a))"

definition bearer :: "hashlib \<Rightarrow> (api_error + string) act" where
  "bearer C = do {
     tok \<leftarrow> gets ag_token; ex \<leftarrow> gets ag_tokenExp; t \<leftarrow> now;
     if tok \<noteq> [] \<and> t < ex - 30 * second then State_Monad.return (Inr tok)
     else do {
       r \<leftarrow> httpDo C TokenReq;
       (case r of
          Inl e \<Rightarrow> State_Monad.return (Inl (wrapErr ''metadata token'' e))
        | Inr (code, body) \<Rightarrow>
            if code \<noteq> 200 then State_Monad.return (Inl (failWith (''metadata token: HTTP '' @ showInt code)))
            else (case body of
                TokenBody tok' expiresIn \<Rightarrow> do {
                  t' \<leftarrow> now;
                  modify (\<lambda>a. a\<lparr>ag_token := tok', ag_tokenExp := t' + wrap64 (expiresIn * second)\<rparr>);
                  State_Monad.return (Inr tok')
                }
              | _ \<Rightarrow> State_Monad.return (Inl (failWith ''decode''))))
     }
   }"

definition gcsDo :: "hashlib \<Rightarrow> httpReq \<Rightarrow> (api_error + int \<times> httpBody) act" where
  "gcsDo C q = do {
     b \<leftarrow> bearer C;
     (case b of Inl e \<Rightarrow> State_Monad.return (Inl e) | Inr _ \<Rightarrow> httpDo C q)
   }"

text \<open>The chunks of a reader go up as one body.\<close>

definition GCS_Put :: "hashlib \<Rightarrow> string \<Rightarrow> string \<Rightarrow> string list \<Rightarrow> (api_error + objectInfo) act" where
  "GCS_Put C bucket obj r = do {
     x \<leftarrow> gcsDo C (Upload bucket obj (concat r));
     State_Monad.return (case x of
       Inl e \<Rightarrow> Inl e
     | Inr (code, body) \<Rightarrow>
         if code \<noteq> 200 then Inl (failWith (''gcs put '' @ obj @ '': HTTP '' @ showInt code))
         else (case body of
             ObjectMeta sz md5 \<Rightarrow> Inr \<lparr>oi_Bytes = (case Atoi sz of Some n \<Rightarrow> n | None \<Rightarrow> 0), oi_MD5 = md5\<rparr>
           | _ \<Rightarrow> Inl (failWith (''gcs put '' @ obj @ '': decode response''))))
   }"

definition GCS_Get :: "hashlib \<Rightarrow> string \<Rightarrow> string \<Rightarrow> (api_error + string list \<times> bool) act" where
  "GCS_Get C bucket obj = do {
     x \<leftarrow> gcsDo C (Download bucket obj);
     State_Monad.return (case x of
       Inl e \<Rightarrow> Inl e
     | Inr (code, body) \<Rightarrow>
         if code \<noteq> 200 then Inl (failWith (''gcs get '' @ obj @ '': HTTP '' @ showInt code))
         else (case body of
             Chunks cs ok \<Rightarrow> Inr (cs, ok)
           | Text t \<Rightarrow> Inr ([t], True)
           | _ \<Rightarrow> Inr ([], True)))
   }"

definition GCS_Delete :: "hashlib \<Rightarrow> string \<Rightarrow> string \<Rightarrow> (api_error + unit) act" where
  "GCS_Delete C bucket obj = do {
     x \<leftarrow> gcsDo C (Delete bucket obj);
     State_Monad.return (case x of
       Inl e \<Rightarrow> Inl e
     | Inr (code, body) \<Rightarrow>
         if code \<noteq> 204 \<and> code \<noteq> 200 \<and> code \<noteq> 404 then Inl (failWith (''gcs delete '' @ obj @ '': HTTP '' @ showInt code)) else Inr ())
   }"

text \<open>\<open>countingReader\<close>: the bytes that have gone through it.\<close>

definition countBytes :: "string list \<Rightarrow> int" where
  "countBytes cs = foldl (\<lambda>n c. n + int (length c)) 0 cs"

definition VerifiedPut :: "hashlib \<Rightarrow> string \<Rightarrow> string \<Rightarrow> string list \<Rightarrow> (api_error + int) act" where
  "VerifiedPut C bucket obj r = do {
     x \<leftarrow> GCS_Put C bucket obj r;
     State_Monad.return (case x of
       Inl e \<Rightarrow> Inl e
     | Inr info \<Rightarrow>
         let localMD5 = Md5Base64 C (concat r); n = countBytes r in
         if oi_Bytes info \<noteq> n then Inl (failWith (''verify '' @ obj @ '': sizes differ''))
         else if oi_MD5 info \<noteq> [] \<and> oi_MD5 info \<noteq> localMD5 then Inl (failWith (''verify '' @ obj @ '': local md5 differs''))
         else if oi_MD5 info = [] then Inl (failWith (''verify '' @ obj @ '': store reported no md5; refusing unverified upload''))
         else Inr n)
   }"

definition SHA256Reader :: "hashlib \<Rightarrow> string list \<Rightarrow> string \<times> int" where
  "SHA256Reader C r = (Sha256 C (concat r), countBytes r)"

text \<open>\<open>NewGCSProber\<close>: write, read back and delete an object with a random name.\<close>

definition gcsProbe :: "hashlib \<Rightarrow> string \<Rightarrow> string \<Rightarrow> string \<Rightarrow> string \<Rightarrow> (api_error + unit) act" where
  "gcsProbe C rnd stamp bucket pathPrefix = do {
     let obj = Join [pathPrefix, ''.pm-probe-'' @ rnd];
     let payload = ''pod-migrate psengine probe '' @ stamp;
     x \<leftarrow> VerifiedPut C bucket obj [payload];
     (case x of
        Inl e \<Rightarrow> State_Monad.return (Inl e)
      | Inr _ \<Rightarrow> do {
          g \<leftarrow> GCS_Get C bucket obj;
          (case g of
             Inl e \<Rightarrow> State_Monad.return (Inl (wrapErr ''probe read-back'' e))
           | Inr (cs, ok) \<Rightarrow>
               if \<not> ok then State_Monad.return (Inl (failWith ''read''))
               else if concat cs \<noteq> payload then State_Monad.return (Inl (failWith ''probe read-back mismatch''))
               else GCS_Delete C bucket obj)
        })
   }"

subsection \<open>Pod snapshots\<close>

definition CondReady :: string where "CondReady = ''Ready''"
definition CondCheckpoint :: string where "CondCheckpoint = ''Checkpoint''"
definition ReasonSucceeded :: string where "ReasonSucceeded = ''Succeeded''"
definition ReasonFailed :: string where "ReasonFailed = ''Failed''"
definition ReasonRefused :: string where "ReasonRefused = ''Refused''"
definition ReasonPending :: string where "ReasonPending = ''Pending''"
definition AnnotationPSName :: string where "AnnotationPSName = ''podsnapshot.gke.io/ps-name''"
definition AnnotationRestoreStatus :: string where "AnnotationRestoreStatus = ''pod-migrate.io/psengine-restore''"
definition AnnotationInjected :: string where "AnnotationInjected = ''pod-migrate.io/psengine-injected''"

definition IsSnapshotReady :: "engineSnapshot \<Rightarrow> bool" where
  "IsSnapshotReady ps = list_ex (\<lambda>c. c_Type c = CondReady \<and> c_Status c = CondTrue \<or>
     c_Type c = CondCheckpoint \<and> c_Status c = CondTrue \<and> c_Reason c = ReasonSucceeded) (ps_Conditions ps)"

definition hasTerminalCheckpoint :: "engineSnapshot \<Rightarrow> bool" where
  "hasTerminalCheckpoint ps = list_ex (\<lambda>c. c_Type c = CondCheckpoint \<and> c_Status c = CondFalse \<and>
     (c_Reason c = ReasonFailed \<or> c_Reason c = ReasonRefused)) (ps_Conditions ps)"

definition readSnapshotSpec :: "engineSnapshot \<Rightarrow> api_error + snapshotSpec" where
  "readSnapshotSpec ps =
     (let f = mget (ps_Spec ps);
          s = \<lparr>ss_SourcePod = f ''sourcePod'', ss_SourcePodUID = f ''sourcePodUID'', ss_Container = f ''container'',
            ss_NodeName = f ''nodeName'', ss_Bucket = f ''bucket'', ss_Path = f ''path''\<rparr> in
      if ss_SourcePod s = [] \<or> ss_Container s = [] \<or> ss_NodeName s = [] \<or> ss_Bucket s = []
      then Inl (failWith ''incomplete work order'') else Inr s)"

definition ArchivePrefix :: "string \<Rightarrow> string \<Rightarrow> string" where
  "ArchivePrefix pathPrefix snapshot = Join [pathPrefix, snapshot]"

definition get_podSnapshot :: "string \<Rightarrow> (api_error + engineSnapshot) act" where
  "get_podSnapshot name = attempt (\<lambda>a. (found ''podsnapshot'' (store_get ps_Name (ag_snapshots a) name), a))"

definition get_jobLive :: "string \<Rightarrow> (api_error + pmj) act" where
  "get_jobLive name = attempt (\<lambda>a. (found ''podmigrationjob'' (store_get pmj_Name (ag_jobs a) name), a))"

subsection \<open>Uploading a checkpoint\<close>

record nodeAgent =
  na_NodeName :: string
  na_CPUFamily :: string
  na_WorkDir :: string

definition stopAfterUpload :: "string \<Rightarrow> snapshotSpec \<Rightarrow> (api_error + unit) act" where
  "stopAfterUpload ns spec = do {
     r \<leftarrow> nodeCall (StopReq ns (ss_SourcePod spec) (ss_Container spec));
     State_Monad.return (case r of
       NodeError e \<Rightarrow> Inl (failWith (''archive durable but container stop failed: '' @ e))
     | _ \<Rightarrow> Inr ())
   }"

definition manifestOf :: "hashlib \<Rightarrow> nodeAgent \<Rightarrow> string \<Rightarrow> snapshotSpec \<Rightarrow> string \<Rightarrow> string \<times> int \<Rightarrow> string \<Rightarrow> time \<Rightarrow> manifest" where
  "manifestOf C A snapshot spec imageName tar specSHA t =
     \<lparr>mf_Snapshot = snapshot, mf_SourcePod = ss_SourcePod spec, mf_SourcePodUID = ss_SourcePodUID spec, mf_Container = ss_Container spec,
      mf_Node = ss_NodeName spec, mf_ImageName = imageName, mf_TarSHA256 = fst tar, mf_TarBytes = snd tar, mf_SpecSHA256 = specSHA,
      mf_CPUFamily = na_CPUFamily A, mf_EngineVersion = engineVersion, mf_CreatedAt = t\<rparr>"

definition uploadManifest :: "hashlib \<Rightarrow> nodeAgent \<Rightarrow> string \<Rightarrow> string \<Rightarrow> snapshotSpec \<Rightarrow> string \<Rightarrow> string \<times> int \<Rightarrow> string \<Rightarrow> (api_error + unit) act" where
  "uploadManifest C A snapshot ns spec imageName tar specSHA = do {
     t \<leftarrow> now;
     let mfJSON = MarshalManifest C (manifestOf C A snapshot spec imageName tar specSHA t);
     x \<leftarrow> VerifiedPut C (ss_Bucket spec) (Join [ArchivePrefix (ss_Path spec) snapshot, ''manifest.json'']) [mfJSON];
     (case x of
        Inl e \<Rightarrow> State_Monad.return (Inl (wrapErr ''upload manifest.json'' e))
      | Inr _ \<Rightarrow> stopAfterUpload ns spec)
   }"

definition putTar :: "hashlib \<Rightarrow> nodeAgent \<Rightarrow> string \<Rightarrow> string \<Rightarrow> snapshotSpec \<Rightarrow> string \<Rightarrow> string \<times> int \<Rightarrow> string \<Rightarrow> string list \<Rightarrow> (api_error + unit) act" where
  "putTar C A snapshot ns spec imageName tar specSHA r = do {
     x \<leftarrow> VerifiedPut C (ss_Bucket spec) (Join [ArchivePrefix (ss_Path spec) snapshot, ''checkpoint.tar'']) r;
     (case x of
        Inl e \<Rightarrow> State_Monad.return (Inl (wrapErr ''upload checkpoint.tar'' e))
      | Inr n \<Rightarrow>
          if n \<noteq> snd tar then State_Monad.return (Inl (failWith ''upload checkpoint.tar: streamed and hashed sizes differ''))
          else uploadManifest C A snapshot ns spec imageName tar specSHA)
   }"

definition putSpec :: "hashlib \<Rightarrow> nodeAgent \<Rightarrow> string \<Rightarrow> string \<Rightarrow> string \<Rightarrow> snapshotSpec \<Rightarrow> string \<Rightarrow> string \<Rightarrow> string list \<Rightarrow> (api_error + unit) act" where
  "putSpec C A tarPath snapshot ns spec specJSON imageName r = do {
     let tar = SHA256Reader C r;
     let specSHA = fst (SHA256Reader C [specJSON]);
     x \<leftarrow> VerifiedPut C (ss_Bucket spec) (Join [ArchivePrefix (ss_Path spec) snapshot, ''spec.json'']) [specJSON];
     (case x of
        Inl e \<Rightarrow> State_Monad.return (Inl (wrapErr ''upload spec.json'' e))
      | Inr _ \<Rightarrow> do {
          f \<leftarrow> openFile tarPath;
          (case f of Inl e \<Rightarrow> State_Monad.return (Inl e) | Inr r' \<Rightarrow> putTar C A snapshot ns spec imageName tar specSHA r')
        })
   }"

definition uploadArchive :: "hashlib \<Rightarrow> nodeAgent \<Rightarrow> string \<Rightarrow> string \<Rightarrow> string \<Rightarrow> snapshotSpec \<Rightarrow> (api_error + unit) act" where
  "uploadArchive C A tarPath snapshot ns spec = do {
     i \<leftarrow> nodeCall (SourceInfoReq ns (ss_SourcePod spec) (ss_Container spec));
     (case i of
        NodeInfo specJSON imageName \<Rightarrow> do {
          f \<leftarrow> openFile tarPath;
          (case f of Inl e \<Rightarrow> State_Monad.return (Inl e) | Inr r \<Rightarrow> putSpec C A tarPath snapshot ns spec specJSON imageName r)
        }
      | NodeError e \<Rightarrow> State_Monad.return (Inl (failWith (''source spec capture: '' @ e)))
      | _ \<Rightarrow> State_Monad.return (Inl (failWith ''source spec capture'')))
   }"

definition run :: "hashlib \<Rightarrow> nodeAgent \<Rightarrow> string \<Rightarrow> string \<Rightarrow> snapshotSpec \<Rightarrow> (api_error + unit) act" where
  "run C A snapshot ns spec = do {
     c \<leftarrow> nodeCall (CheckpointReq ns (ss_SourcePod spec) (ss_Container spec));
     (case c of
        NodeFile tarPath _ \<Rightarrow> do {
          r \<leftarrow> uploadArchive C A tarPath snapshot ns spec;
          _ \<leftarrow> removeFile tarPath;
          State_Monad.return r
        }
      | NodeError e \<Rightarrow> State_Monad.return (Inl (failWith (''kubelet checkpoint: '' @ e)))
      | _ \<Rightarrow> State_Monad.return (Inl (failWith ''kubelet checkpoint'')))
   }"

subsection \<open>Fetching and restoring\<close>

text \<open>\<open>boundedBuffer.Write\<close>: keeps the first \<open>limit\<close> bytes.\<close>

definition boundedWrite :: "int \<Rightarrow> string \<Rightarrow> string \<Rightarrow> string" where
  "boundedWrite limit buf p = (if int (length buf) < limit then buf @ takeInt (limit - int (length buf)) p else buf)"

definition smallLimit :: int where
  "smallLimit = 4 * 2 ^ 20"

definition maxDownloadBytes :: int where
  "maxDownloadBytes = 8 * 2 ^ 30"

text \<open>What \<open>fetch\<close> makes of the chunks it read, the last one with or without an error.\<close>

definition fetched :: "hashlib \<Rightarrow> string \<Rightarrow> string \<Rightarrow> string list \<Rightarrow> bool \<Rightarrow> api_error + string" where
  "fetched C obj expectedSHA cs ok =
     (let content = takeInt (maxDownloadBytes + 1) (concat cs) in
      if \<not> ok \<and> int (length (concat cs)) \<le> maxDownloadBytes then Inl (failWith ''read'')
      else if int (length content) > maxDownloadBytes then Inl (failWith (obj @ '' exceeds maximum allowed download size''))
      else if expectedSHA \<noteq> [] \<and> Sha256 C content \<noteq> expectedSHA then Inl (failWith (obj @ '': sha256 differs from the manifest''))
      else Inr (foldl (boundedWrite smallLimit) [] cs))"

definition fetch :: "hashlib \<Rightarrow> string \<Rightarrow> string \<Rightarrow> string \<Rightarrow> string \<Rightarrow> (api_error + string) act" where
  "fetch C bucket obj dst expectedSHA = do {
     g \<leftarrow> GCS_Get C bucket obj;
     (case g of
        Inl e \<Rightarrow> State_Monad.return (Inl e)
      | Inr (cs, ok) \<Rightarrow> do {
          w \<leftarrow> writeFile dst (takeInt (maxDownloadBytes + 1) (concat cs));
          State_Monad.return (case w of Inl e \<Rightarrow> Inl e | Inr _ \<Rightarrow> fetched C obj expectedSHA cs ok)
        })
   }"

definition workDir :: "nodeAgent \<Rightarrow> string" where
  "workDir A = (if na_WorkDir A \<noteq> [] then na_WorkDir A else ''/var/lib/pod-migrate/psengine'')"

text \<open>The checks before anything is fetched: is this pod the one that the job restores from this snapshot?\<close>

definition checkBinding :: "pod \<Rightarrow> string \<Rightarrow> snapshotSpec \<Rightarrow> engineSnapshot \<Rightarrow> pmj \<Rightarrow> api_error option" where
  "checkBinding p psName spec ps job =
     (let s = pmj_Status job in
      if pmj_PodRefName job = [] \<or> pmj_PodRefName job \<noteq> ss_SourcePod spec then Some (failWith ''targets another pod'')
      else if st_Phase s \<noteq> PhaseRestoring \<and> st_Phase s \<noteq> PhaseSucceeded then Some (failWith ''refusing restore in this phase'')
      else if st_SnapshotRef s = [] \<or> st_SnapshotRef s \<noteq> psName then Some (failWith ''another snapshotRef'')
      else if st_RestoredPodUID s = [] \<or> st_RestoredPodUID s \<noteq> pod_UID p then Some (failWith ''bound to another pod UID'')
      else if st_RestoredPodName s = [] \<or> st_RestoredPodName s \<noteq> pod_Name p then Some (failWith ''bound to another pod name'')
      else if \<not> IsSnapshotReady ps then Some (failWith ''refusing to restore an unverified archive'')
      else None)"

definition restoreInputsOf :: "pod \<Rightarrow> string \<Rightarrow> snapshotSpec \<Rightarrow> string \<Rightarrow> manifest \<Rightarrow> string \<Rightarrow> restoreInputs" where
  "restoreInputsOf p psName spec dir mf specJSON =
     \<lparr>ri_SnapshotName = psName, ri_PodNamespace = pod_Namespace p, ri_TargetPod = pod_Name p,
      ri_ContainerName = (case pod_Containers p of [] \<Rightarrow> ss_Container spec | c # _ \<Rightarrow> ct_Name c), ri_SourcePodUID = mf_SourcePodUID mf,
      ri_TargetPodUID = pod_UID p, ri_CheckpointDir = Join [dir, ''extracted''], ri_SpecJSON = specJSON, ri_ImageName = mf_ImageName mf\<rparr>"

definition extractAndRestore :: "pod \<Rightarrow> string \<Rightarrow> snapshotSpec \<Rightarrow> string \<Rightarrow> manifest \<Rightarrow> string \<Rightarrow> (api_error + unit) act" where
  "extractAndRestore p psName spec dir mf specJSON = do {
     x \<leftarrow> nodeCall (ExtractReq (Join [dir, ''checkpoint.tar'']) (Join [dir, ''extracted'']));
     (case x of
        NodeError e \<Rightarrow> State_Monad.return (Inl (failWith (''extract: '' @ e)))
      | _ \<Rightarrow> do {
          r \<leftarrow> nodeCall (RestoreReq (restoreInputsOf p psName spec dir mf specJSON));
          State_Monad.return (case r of NodeError e \<Rightarrow> Inl (failWith e) | _ \<Rightarrow> Inr ())
        })
   }"

definition restoreTar :: "hashlib \<Rightarrow> pod \<Rightarrow> string \<Rightarrow> snapshotSpec \<Rightarrow> string \<Rightarrow> manifest \<Rightarrow> string \<Rightarrow> (api_error + unit) act" where
  "restoreTar C p psName spec dir mf specJSON = do {
     t \<leftarrow> fetch C (ss_Bucket spec) (Join [ArchivePrefix (ss_Path spec) psName, ''checkpoint.tar'']) (Join [dir, ''checkpoint.tar'']) (mf_TarSHA256 mf);
     (case t of
        Inl e \<Rightarrow> State_Monad.return (Inl (wrapErr ''fetch checkpoint.tar'' e))
      | Inr _ \<Rightarrow> extractAndRestore p psName spec dir mf specJSON)
   }"

definition restoreFiles :: "hashlib \<Rightarrow> pod \<Rightarrow> string \<Rightarrow> snapshotSpec \<Rightarrow> string \<Rightarrow> manifest \<Rightarrow> (api_error + unit) act" where
  "restoreFiles C p psName spec dir mf = do {
     s \<leftarrow> fetch C (ss_Bucket spec) (Join [ArchivePrefix (ss_Path spec) psName, ''spec.json'']) (Join [dir, ''spec.json'']) (mf_SpecSHA256 mf);
     (case s of
        Inl e \<Rightarrow> State_Monad.return (Inl (wrapErr ''fetch spec.json'' e))
      | Inr specJSON \<Rightarrow> restoreTar C p psName spec dir mf specJSON)
   }"

text \<open>\<open>restore\<close> after its checks: the manifest, and what it vouches for.\<close>

definition restoreArchive :: "hashlib \<Rightarrow> nodeAgent \<Rightarrow> pod \<Rightarrow> string \<Rightarrow> snapshotSpec \<Rightarrow> string \<Rightarrow> (api_error + unit) act" where
  "restoreArchive C A p psName spec dir = do {
     m \<leftarrow> fetch C (ss_Bucket spec) (Join [ArchivePrefix (ss_Path spec) psName, ''manifest.json'']) (Join [dir, ''manifest.json'']) [];
     (case m of
        Inl e \<Rightarrow> State_Monad.return (Inl (wrapErr ''fetch manifest'' e))
      | Inr mfBytes \<Rightarrow>
          (case UnmarshalManifest C mfBytes of
             None \<Rightarrow> State_Monad.return (Inl (failWith ''manifest decode''))
           | Some mf \<Rightarrow>
               if mf_SpecSHA256 mf = [] \<or> mf_TarSHA256 mf = [] then State_Monad.return (Inl (failWith ''manifest missing required sha256 digests''))
               else if mf_CPUFamily mf \<noteq> [] \<and> na_CPUFamily A \<noteq> [] \<and> mf_CPUFamily mf \<noteq> na_CPUFamily A
               then State_Monad.return (Inl (failWith ''cpu family mismatch''))
               else restoreFiles C p psName spec dir mf))
   }"

definition restoreStaged :: "hashlib \<Rightarrow> nodeAgent \<Rightarrow> pod \<Rightarrow> string \<Rightarrow> snapshotSpec \<Rightarrow> (api_error + unit) act" where
  "restoreStaged C A p psName spec = do {
     let dir = Join [workDir A, psName];
     d \<leftarrow> mkdirAll dir;
     (case d of
        Inl e \<Rightarrow> State_Monad.return (Inl e)
      | Inr _ \<Rightarrow> do {
          r \<leftarrow> restoreArchive C A p psName spec dir;
          _ \<leftarrow> osRemoveAll dir;
          State_Monad.return r
        })
   }"

definition restoreAssigned :: "hashlib \<Rightarrow> nodeAgent \<Rightarrow> pod \<Rightarrow> string \<Rightarrow> snapshotSpec \<Rightarrow> engineSnapshot \<Rightarrow> string \<Rightarrow> (api_error + unit) act" where
  "restoreAssigned C A p psName spec ps pmjName = do {
     j \<leftarrow> get_jobLive pmjName;
     (case j of
        Inl e \<Rightarrow> State_Monad.return (Inl (wrapErr (''resolve assigned PodMigrationJob '' @ pmjName) e))
      | Inr job \<Rightarrow>
          (case checkBinding p psName spec ps job of
             Some e \<Rightarrow> State_Monad.return (Inl e)
           | None \<Rightarrow> restoreStaged C A p psName spec))
   }"

definition restore :: "hashlib \<Rightarrow> nodeAgent \<Rightarrow> pod \<Rightarrow> string \<Rightarrow> (api_error + unit) act" where
  "restore C A p psName = do {
     g \<leftarrow> get_podSnapshot psName;
     (case g of
        Inl e \<Rightarrow> State_Monad.return (Inl (wrapErr (''resolve PodSnapshot '' @ psName) e))
      | Inr ps \<Rightarrow>
          (case readSnapshotSpec ps of
             Inl e \<Rightarrow> State_Monad.return (Inl e)
           | Inr spec \<Rightarrow>
               let pmjName = mget (pod_Annotations p) AnnotationAssignedPMJ in
               if pmjName = [] then State_Monad.return (Inl (failWith ''refusing unverified restore''))
               else restoreAssigned C A p psName spec ps pmjName))
   }"

section \<open>Lemmas\<close>

subsection \<open>Calls\<close>

text \<open>Between two states only calls were counted and a token renewed; or one object touched, too.\<close>

definition steady :: "agent \<Rightarrow> agent \<Rightarrow> bool" where
  "steady a a' \<longleftrightarrow> ag_now a' = ag_now a \<and> ag_fault a' = ag_fault a \<and> ag_http a' = ag_http a \<and> ag_recorded a' = ag_recorded a \<and>
     ag_hashed a' = ag_hashed a \<and> ag_delivered a' = ag_delivered a \<and> ag_node a' = ag_node a \<and> ag_snapshots a' = ag_snapshots a \<and>
     ag_jobs a' = ag_jobs a \<and> ag_pods a' = ag_pods a \<and> ag_cachedPods a' = ag_cachedPods a \<and>
     ag_inflight a' = ag_inflight a \<and> ag_writes a' = ag_writes a \<and> ag_others a' = ag_others a \<and> prefix (ag_answers a) (ag_answers a')"

definition idle :: "agent \<Rightarrow> agent \<Rightarrow> bool" where
  "idle a a' \<longleftrightarrow> steady a a' \<and> ag_files a' = ag_files a \<and> ag_log a' = ag_log a \<and> ag_answers a' = ag_answers a \<and> ag_objects a' = ag_objects a"

definition moved :: "string \<times> string \<Rightarrow> agent \<Rightarrow> agent \<Rightarrow> bool" where
  "moved key a a' \<longleftrightarrow> steady a a' \<and> ag_files a' = ag_files a \<and> ag_log a' = ag_log a \<and> ag_answers a' = ag_answers a \<and> (\<forall>key'. key' \<noteq> key \<longrightarrow> ag_objects a' key' = ag_objects a key')"

lemma steady_refl [simp]: "steady a a"
  by (simp add: steady_def)

lemma steady_trans: "steady a a' \<Longrightarrow> steady a' a'' \<Longrightarrow> steady a a''"
  using prefix_order.trans [of "ag_answers a" "ag_answers a'"] by (simp add: steady_def)

lemma steady_upd [simp]:
  "steady a (b\<lparr>ag_calls := k\<rparr>) = steady a b" "steady a (b\<lparr>ag_token := t\<rparr>) = steady a b" "steady a (b\<lparr>ag_tokenExp := x\<rparr>) = steady a b"
  "steady a (b\<lparr>ag_objects := os\<rparr>) = steady a b" "steady a (b\<lparr>ag_files := fs\<rparr>) = steady a b" "steady a (b\<lparr>ag_log := l\<rparr>) = steady a b"
  by (simp_all add: steady_def)

lemma idle_refl [simp]: "idle a a"
  by (simp add: idle_def)

lemma idle_trans: "idle a a' \<Longrightarrow> idle a' a'' \<Longrightarrow> idle a a''"
  using steady_trans by (auto simp: idle_def)

lemma idle_upd [simp]: "idle a (b\<lparr>ag_calls := k\<rparr>) = idle a b" "idle a (b\<lparr>ag_token := t\<rparr>) = idle a b" "idle a (b\<lparr>ag_tokenExp := x\<rparr>) = idle a b"
  by (simp_all add: idle_def)

lemma idle_moved: "idle a a' \<Longrightarrow> moved key a a'"
  by (auto simp: idle_def moved_def)

lemma wp_attempt_read:
  "(\<And>e a'. idle a a' \<Longrightarrow> Q (Inl e) a') \<Longrightarrow> (\<And>a'. idle a a' \<Longrightarrow> Q (f a') a') \<Longrightarrow> wp (attempt (\<lambda>a. (f a, a))) Q a"
  by (auto simp: wp_def attempt_def Let_def split: fault.splits)

lemma wp_httpDo:
  assumes "\<And>e a'. idle a a' \<Longrightarrow> Q (Inl e) a'" and "\<And>code txt a'. idle a a' \<Longrightarrow> Q (Inr (code, Text txt)) a'"
    and "\<And>r b. serve C q a = (r, b) \<Longrightarrow> Q (Inr r) (b\<lparr>ag_calls := Suc (ag_calls a)\<rparr>)" and "\<And>e r b. serve C q a = (r, b) \<Longrightarrow> Q (Inl e) (b\<lparr>ag_calls := Suc (ag_calls a)\<rparr>)"
  shows "wp (httpDo C q) Q a"
proof -
  obtain r b where "serve C q a = (r, b)" by fastforce
  then show ?thesis using assms by (auto simp: wp_def httpDo_def Let_def split: httpFault.splits)
qed

lemma wp_bearer:
  assumes "\<And>x a'. idle a a' \<Longrightarrow> Q x a'"
  shows "wp (bearer C) Q a"
  unfolding bearer_def now_def
  by (auto simp: wp_simps serve_def Let_def split: httpBody.splits intro!: wp_httpDo assms)

lemma wp_gcsDo:
  assumes "\<And>e a'. idle a a' \<Longrightarrow> Q (Inl e) a'" and "\<And>code txt a'. idle a a' \<Longrightarrow> Q (Inr (code, Text txt)) a'"
    and "\<And>a' r b. idle a a' \<Longrightarrow> serve C q a' = (r, b) \<Longrightarrow> Q (Inr r) (b\<lparr>ag_calls := Suc (ag_calls a')\<rparr>)"
    and "\<And>e a' r b. idle a a' \<Longrightarrow> serve C q a' = (r, b) \<Longrightarrow> Q (Inl e) (b\<lparr>ag_calls := Suc (ag_calls a')\<rparr>)"
  shows "wp (gcsDo C q) Q a"
proof -
  have "wp (httpDo C q) Q a'" if "idle a a'" for a'
    by (rule wp_httpDo) (blast intro: assms(1) [OF idle_trans] assms(2) [OF idle_trans] that, blast intro: assms(2) [OF idle_trans] that,
      blast intro: assms(3) that, blast intro: assms(4) that)
  with assms(1) show ?thesis unfolding gcsDo_def by (auto simp: wp_simps intro!: wp_bearer split: sum.splits)
qed

text \<open>A successful upload is recorded with the size and the MD5 of what was sent.\<close>

definition verified :: "hashlib \<Rightarrow> string \<Rightarrow> string \<Rightarrow> bool" where
  "verified C rec s \<longleftrightarrow> length rec = length s \<and> Md5Base64 C rec = Md5Base64 C s"

lemma countBytes: "countBytes cs = int (length (concat cs))"
proof -
  have "foldl (\<lambda>n c. n + int (length c)) m cs = m + int (length (concat cs))" for m by (induction cs arbitrary: m) auto
  then show ?thesis by (simp add: countBytes_def)
qed

lemma serve_upload:
  assumes "serve C (Upload b o' body) a = (r, a')"
  shows "moved (b, o') a a' \<and> (let rec = takeInt maxObjectBytes (ag_recorded a (ag_calls a) body) in ag_objects a' (b, o') = Some rec \<and>
    r = (200, ObjectMeta (showNat (length rec)) (if ag_hashed a (ag_calls a) then Md5Base64 C rec else [])))"
  using assms by (auto simp: serve_def Let_def moved_def)

lemma takeInt_take: "0 \<le> n \<Longrightarrow> takeInt n xs = take (nat n) xs"
  by (auto simp: takeInt_def)

lemma length_object: "length (takeInt maxObjectBytes xs) < 2 ^ 63"
  by (auto simp: takeInt_def maxObjectBytes_def)

lemma moved_upd [simp]: "moved key a (b\<lparr>ag_calls := k\<rparr>) = moved key a b"
  by (simp add: moved_def)

lemma moved_trans: "idle a a' \<Longrightarrow> moved key a' a'' \<Longrightarrow> moved key a a''"
  using steady_trans by (auto simp: idle_def moved_def)

lemma wp_VerifiedPut:
  assumes "\<And>e a'. moved (b, o') a a' \<Longrightarrow> Q (Inl e) a'"
    and "\<And>a' rec n. moved (b, o') a a' \<Longrightarrow> ag_objects a' (b, o') = Some rec \<Longrightarrow> rec = takeInt maxObjectBytes (ag_recorded a n (concat r)) \<Longrightarrow>
      verified C rec (concat r) \<Longrightarrow> Q (Inr (int (length (concat r)))) a'"
  shows "wp (VerifiedPut C b o' r) Q a"
proof -
  have fail: "Q (Inl e) a'" if "idle a a'" for e a' using that assms(1) idle_moved by blast
  have up: "Q (Inl e) (a''\<lparr>ag_calls := k\<rparr>)" if "idle a a'" "serve C (Upload b o' (concat r)) a' = (x, a'')" for e a' a'' k x
    by (rule assms(1)) (use moved_trans [OF that(1)] serve_upload [OF that(2)] in simp)
  have ok: "Q (Inr (countBytes r)) (a''\<lparr>ag_calls := k\<rparr>)"
    if "idle a a'" "serve C (Upload b o' (concat r)) a' = ((code, ObjectMeta sz md5), a'')" "(case Atoi sz of Some n \<Rightarrow> n | None \<Rightarrow> 0) = countBytes r"
      "md5 = Md5Base64 C (concat r)" "md5 \<noteq> []" for a' a'' k code sz md5
  proof -
    let ?rec = "takeInt maxObjectBytes (ag_recorded a' (ag_calls a') (concat r))"
    have up: "moved (b, o') a' a''" "ag_objects a'' (b, o') = Some ?rec" "sz = showNat (length ?rec)" "md5 = Md5Base64 C ?rec"
      using serve_upload [OF that(2)] that(5) by (auto simp: Let_def split: if_splits)
    have "verified C ?rec (concat r)"
      using Atoi_showNat [OF length_object, of "ag_recorded a' (ag_calls a') (concat r)"] that(3,4) up(3,4) by (simp add: verified_def countBytes)
    moreover have "?rec = takeInt maxObjectBytes (ag_recorded a (ag_calls a') (concat r))" using that(1) by (simp add: idle_def steady_def)
    ultimately show ?thesis using assms(2) [of "a''\<lparr>ag_calls := k\<rparr>" ?rec "ag_calls a'"] moved_trans [OF that(1) up(1)] up(2)
      by (simp add: countBytes)
  qed
  show ?thesis
    unfolding VerifiedPut_def GCS_Put_def wp_simps
    by (rule wp_gcsDo) (auto simp: Let_def fail up ok countBytes [symmetric] split: httpBody.splits intro!: fail up ok)
qed

subsection \<open>Uploading\<close>

definition archiveKey :: "snapshotSpec \<Rightarrow> string \<Rightarrow> string \<Rightarrow> string \<times> string" where
  "archiveKey spec snapshot name = (ss_Bucket spec, Join [ArchivePrefix (ss_Path spec) snapshot, name])"

lemma archive_keys:
  "archiveKey spec snapshot ''spec.json'' \<noteq> archiveKey spec snapshot ''checkpoint.tar''" "archiveKey spec snapshot ''spec.json'' \<noteq> archiveKey spec snapshot ''manifest.json''"
  "archiveKey spec snapshot ''checkpoint.tar'' \<noteq> archiveKey spec snapshot ''manifest.json''"
  by (simp_all add: archiveKey_def join_names plainElem_def)

text \<open>The store has \<open>s\<close>, as far as size and MD5 tell; and exactly, when it records what it is sent.\<close>

definition intact :: "agent \<Rightarrow> bool" where
  "intact a \<longleftrightarrow> (\<forall>n s. ag_recorded a n s = s)"

definition holds :: "hashlib \<Rightarrow> bool \<Rightarrow> objects \<Rightarrow> string \<times> string \<Rightarrow> string \<Rightarrow> bool" where
  "holds C i objs key s \<longleftrightarrow> (\<exists>rec. objs key = Some rec \<and> verified C rec s \<and> (i \<longrightarrow> rec = s))"

text \<open>The archive of the captured \<open>specJSON\<close>, image and tar is in the store.\<close>

definition durableArchive :: "hashlib \<Rightarrow> bool \<Rightarrow> nodeAgent \<Rightarrow> string \<Rightarrow> snapshotSpec \<Rightarrow> string \<Rightarrow> string \<Rightarrow> string \<Rightarrow> time \<Rightarrow> objects \<Rightarrow> bool" where
  "durableArchive C i A snapshot spec specJSON imageName tar t objs \<longleftrightarrow>
     holds C i objs (archiveKey spec snapshot ''spec.json'') specJSON \<and> holds C i objs (archiveKey spec snapshot ''checkpoint.tar'') tar \<and>
     holds C i objs (archiveKey spec snapshot ''manifest.json'')
       (MarshalManifest C (manifestOf C A snapshot spec imageName (Sha256 C tar, int (length tar)) (Sha256 C specJSON) t))"

lemma holds_moved: "moved key a a' \<Longrightarrow> key' \<noteq> key \<Longrightarrow> holds C i (ag_objects a) key' s \<Longrightarrow> holds C i (ag_objects a') key' s"
  unfolding holds_def moved_def by metis

lemma wp_put_holds:
  assumes "\<And>e a'. moved key a a' \<Longrightarrow> Q (Inl e) a'"
    and "\<And>a'. moved key a a' \<Longrightarrow> holds C (intact a) (ag_objects a') key s \<Longrightarrow> Q (Inr (int (length s))) a'"
    and "concat r = s" "key = (b, o')"
  shows "wp (VerifiedPut C b o' r) Q a"
proof (rule wp_VerifiedPut)
  fix a' rec n
  assume *: "moved (b, o') a a'" "ag_objects a' (b, o') = Some rec" "rec = takeInt maxObjectBytes (ag_recorded a n (concat r))" "verified C rec (concat r)"
  have "rec = s" if "intact a"
    using *(3,4) that assms(3) by (auto simp: intact_def verified_def takeInt_def split: if_splits)
  with * show "Q (Inr (int (length (concat r)))) a'" using assms(2) [of a'] by (simp add: assms(3,4) holds_def)
qed (use assms(1,4) in auto)

text \<open>A source is stopped only with \<open>D\<close> in the store, and success means that it is.\<close>

definition stopsWith :: "(objects \<Rightarrow> bool) \<Rightarrow> api_error + unit \<Rightarrow> agent \<Rightarrow> bool" where
  "stopsWith D r a \<longleftrightarrow> (\<forall>q objs fs. (q, objs, fs) \<in> set (ag_log a) \<longrightarrow> (\<exists>x y z. q = StopReq x y z) \<longrightarrow> D objs) \<and> (r = Inr () \<longrightarrow> D (ag_objects a))"

lemma wp_nodeCall: "wp (nodeCall q) Q a = Q (ag_node a (ag_calls a)) (a\<lparr>ag_calls := Suc (ag_calls a), ag_log := ag_log a @ [(q, ag_objects a, ag_files a)],
     ag_answers := ag_answers a @ [(q, ag_node a (ag_calls a))],
    ag_files := nodeFiles q (ag_node a (ag_calls a)) (ag_files a)\<rparr>)"
  by (simp add: wp_def nodeCall_def Let_def)

lemma stops_moved: "moved key a a' \<Longrightarrow> stopsWith D (Inl e) a \<Longrightarrow> stopsWith D (Inl e') a'"
  by (simp add: stopsWith_def moved_def)

lemma wp_stop: "stopsWith D (Inl e) a \<Longrightarrow> D (ag_objects a) \<Longrightarrow> wp (stopAfterUpload ns spec) (stopsWith D) a"
  unfolding stopAfterUpload_def by (auto simp: wp_simps wp_nodeCall stopsWith_def split: nodeReply.splits)

lemma wp_uploadManifest:
  assumes "stopsWith D (Inl e) a" and D: "\<And>objs. D objs = durableArchive C (intact a) A snapshot spec specJSON imageName tar (ag_now a) objs"
    and "holds C (intact a) (ag_objects a) (archiveKey spec snapshot ''spec.json'') specJSON" "holds C (intact a) (ag_objects a) (archiveKey spec snapshot ''checkpoint.tar'') tar"
  shows "wp (uploadManifest C A snapshot ns spec imageName (Sha256 C tar, int (length tar)) (Sha256 C specJSON)) (stopsWith D) a"
  unfolding uploadManifest_def now_def Let_def wp_simps
proof (rule wp_put_holds [where key = "archiveKey spec snapshot ''manifest.json''"])
  fix a'
  let ?m = "MarshalManifest C (manifestOf C A snapshot spec imageName (Sha256 C tar, int (length tar)) (Sha256 C specJSON) (ag_now a))"
  assume a': "moved (archiveKey spec snapshot ''manifest.json'') a a'" "holds C (intact a) (ag_objects a') (archiveKey spec snapshot ''manifest.json'') ?m"
  have "durableArchive C (intact a) A snapshot spec specJSON imageName tar (ag_now a) (ag_objects a')"
    using a'(2) holds_moved [OF a'(1) archive_keys(2) assms(3)] holds_moved [OF a'(1) archive_keys(3) assms(4)] by (simp add: durableArchive_def)
  then show "case Inr (int (length ?m)) of Inl e \<Rightarrow> stopsWith D (Inl (wrapErr ''upload manifest.json'' e)) a' | Inr _ \<Rightarrow> wp (stopAfterUpload ns spec) (stopsWith D) a'"
    using wp_stop [OF stops_moved [OF a'(1) assms(1)]] D by simp
qed (auto simp: archiveKey_def intro: stops_moved [OF _ assms(1)])

lemma wp_openFile:
  "(\<And>e a'. idle a a' \<Longrightarrow> Q (Inl e) a') \<Longrightarrow> (\<And>c a'. idle a a' \<Longrightarrow> ag_files a path = Some c \<Longrightarrow> Q (Inr [c]) a') \<Longrightarrow> wp (openFile path) Q a"
  unfolding openFile_def by (rule wp_attempt_read) (auto simp: idle_def split: option.splits)

lemma intact_steady: "steady a a' \<Longrightarrow> intact a' = intact a \<and> ag_now a' = ag_now a"
  by (simp add: steady_def intact_def)

lemma stops_idle: "idle a a' \<Longrightarrow> stopsWith D (Inl e) a \<Longrightarrow> stopsWith D (Inl e') a'"
  by (simp add: stopsWith_def idle_def)

lemma same_steady:
  assumes "steady a a'"
  shows "intact a' = intact a" "ag_now a' = ag_now a" "ag_node a' = ag_node a"
  using assms by (simp_all add: steady_def intact_def)

lemma wp_putTar:
  assumes "stopsWith D (Inl e) a" and D: "\<And>objs. D objs = durableArchive C (intact a) A snapshot spec specJSON imageName tar (ag_now a) objs"
    and "holds C (intact a) (ag_objects a) (archiveKey spec snapshot ''spec.json'') specJSON"
  shows "wp (putTar C A snapshot ns spec imageName (Sha256 C tar, int (length tar)) (Sha256 C specJSON) [tar]) (stopsWith D) a"
  unfolding putTar_def wp_simps
proof (rule wp_put_holds [where key = "archiveKey spec snapshot ''checkpoint.tar''"])
  fix a'
  assume a': "moved (archiveKey spec snapshot ''checkpoint.tar'') a a'" "holds C (intact a) (ag_objects a') (archiveKey spec snapshot ''checkpoint.tar'') tar"
  have same: "intact a' = intact a" "ag_now a' = ag_now a" using a'(1) same_steady [of a a'] by (auto simp: moved_def)
  have "wp (uploadManifest C A snapshot ns spec imageName (Sha256 C tar, int (length tar)) (Sha256 C specJSON)) (stopsWith D) a'"
    by (rule wp_uploadManifest [OF stops_moved [OF a'(1) assms(1)]]) (use D same a'(2) holds_moved [OF a'(1) archive_keys(1) assms(3)] in simp_all)
  then show "case Inr (int (length tar)) of Inl e \<Rightarrow> stopsWith D (Inl (wrapErr ''upload checkpoint.tar'' e)) a'
     | Inr n \<Rightarrow> if n \<noteq> snd (Sha256 C tar, int (length tar)) then stopsWith D (Inl (failWith ''upload checkpoint.tar: streamed and hashed sizes differ'')) a'
        else wp (uploadManifest C A snapshot ns spec imageName (Sha256 C tar, int (length tar)) (Sha256 C specJSON)) (stopsWith D) a'" by simp
qed (auto simp: archiveKey_def intro: stops_moved [OF _ assms(1)])

lemma wp_putSpec:
  assumes "stopsWith D (Inl e) a" and D: "\<And>objs. D objs = durableArchive C (intact a) A snapshot spec specJSON imageName tar (ag_now a) objs"
    and tar: "ag_files a tarPath = Some tar"
  shows "wp (putSpec C A tarPath snapshot ns spec specJSON imageName [tar]) (stopsWith D) a"
proof -
  have put: "wp (openFile tarPath \<bind> (\<lambda>f. case f of Inl e \<Rightarrow> State_Monad.return (Inl e) | Inr r' \<Rightarrow>
      putTar C A snapshot ns spec imageName (SHA256Reader C [tar]) (fst (SHA256Reader C [specJSON])) r')) (stopsWith D) a1"
    if a1: "moved (archiveKey spec snapshot ''spec.json'') a a1" "holds C (intact a) (ag_objects a1) (archiveKey spec snapshot ''spec.json'') specJSON" for a1
  proof -
    note stops = stops_moved [OF a1(1) assms(1)]
    have tars: "wp (putTar C A snapshot ns spec imageName (SHA256Reader C [tar]) (fst (SHA256Reader C [specJSON])) [tar]) (stopsWith D) a2" if "idle a1 a2" for a2
    proof -
      have "intact a2 = intact a" "ag_now a2 = ag_now a" "ag_objects a2 = ag_objects a1"
        using a1(1) that same_steady [OF steady_trans, of a a1 a2] by (auto simp: moved_def idle_def)
      then show ?thesis using wp_putTar [OF stops_idle [OF that stops], of C A snapshot spec specJSON imageName tar] D a1(2) by (simp add: SHA256Reader_def countBytes)
    qed
    show ?thesis unfolding wp_bind
      by (rule wp_openFile) (use tar a1(1) tars in \<open>auto simp: moved_def wp_return stops_idle [OF _ stops]\<close>)
  qed
  show ?thesis
    unfolding putSpec_def Let_def wp_bind [of "VerifiedPut _ _ _ _"]
    by (rule wp_put_holds [where key = "archiveKey spec snapshot ''spec.json''"])
      (use put stops_moved [OF _ assms(1)] in \<open>simp_all add: archiveKey_def wp_return\<close>)
qed

lemma wp_uploadArchive:
  assumes "stopsWith D (Inl e) a" and D: "\<And>objs. D objs = durableArchive C (intact a) A snapshot spec specJSON imageName tar (ag_now a) objs"
    and info: "ag_node a (ag_calls a) = NodeInfo specJSON imageName" and tar: "ag_files a tarPath = Some tar"
  shows "wp (uploadArchive C A tarPath snapshot ns spec) (stopsWith D) a"
proof -
  let ?a = "a\<lparr>ag_calls := Suc (ag_calls a), ag_log := ag_log a @ [(SourceInfoReq ns (ss_SourcePod spec) (ss_Container spec), ag_objects a, ag_files a)], ag_answers := ag_answers a @ [(SourceInfoReq ns (ss_SourcePod spec) (ss_Container spec), NodeInfo specJSON imageName)], ag_files := ag_files a\<rparr>"
  have stops: "stopsWith D (Inl e) ?a" using assms(1) by (auto simp: stopsWith_def)
  have put: "wp (putSpec C A tarPath snapshot ns spec specJSON imageName [tar]) (stopsWith D) a1" if "idle ?a a1" for a1
    by (rule wp_putSpec [OF stops_idle [OF that stops]]) (use that same_steady [of ?a a1] D tar in \<open>auto simp: idle_def intact_def\<close>)
  show ?thesis
    unfolding uploadArchive_def wp_bind wp_nodeCall info nodeReply.case nodeFiles_def prod.case nodeReq.case
    by (rule wp_openFile) (use put tar stops_idle [OF _ stops] in \<open>auto simp: wp_return\<close>)
qed

lemma wp_return_eta: "wp (State_Monad.return x) Q = Q x"
  by (simp add: fun_eq_iff wp_return)

lemma wp_bind_eta: "wp (State_Monad.bind m f) Q = wp m (\<lambda>x. wp (f x) Q)"
  by (simp add: fun_eq_iff wp_bind)

lemma wp_removeFile: "(\<And>x a'. ag_log a' = ag_log a \<Longrightarrow> ag_objects a' = ag_objects a \<Longrightarrow> steady a a' \<Longrightarrow> Q x a') \<Longrightarrow> wp (removeFile path) Q a"
  by (auto simp: removeFile_def wp_def attempt_def Let_def split: fault.splits)

text \<open>What the node answers to the two requests that capture the source.\<close>

definition captured :: "agent \<Rightarrow> string \<Rightarrow> string \<Rightarrow> string \<Rightarrow> bool" where
  "captured a tar specJSON imageName \<longleftrightarrow> (\<exists>tarPath. ag_node a (ag_calls a) = NodeFile tarPath tar) \<and> ag_node a (Suc (ag_calls a)) = NodeInfo specJSON imageName"

lemma wp_run_captured:
  assumes "stopsWith D (Inl e) a" and D: "\<And>objs. D objs = durableArchive C (intact a) A snapshot spec specJSON imageName tar (ag_now a) objs"
    and cap: "captured a tar specJSON imageName"
  shows "wp (run C A snapshot ns spec) (stopsWith D) a"
proof -
  obtain tarPath where node: "ag_node a (ag_calls a) = NodeFile tarPath tar" "ag_node a (Suc (ag_calls a)) = NodeInfo specJSON imageName"
    using cap by (auto simp: captured_def)
  let ?a = "a\<lparr>ag_calls := Suc (ag_calls a), ag_log := ag_log a @ [(CheckpointReq ns (ss_SourcePod spec) (ss_Container spec), ag_objects a, ag_files a)], ag_answers := ag_answers a @ [(CheckpointReq ns (ss_SourcePod spec) (ss_Container spec), NodeFile tarPath tar)], ag_files := (ag_files a)(tarPath \<mapsto> tar)\<rparr>"
  have "wp (uploadArchive C A tarPath snapshot ns spec) (stopsWith D) ?a"
    by (rule wp_uploadArchive [where e = e]) (use assms(1) D node in \<open>auto simp: stopsWith_def intact_def\<close>)
  then have "wp (uploadArchive C A tarPath snapshot ns spec) (\<lambda>r. wp (removeFile tarPath) (\<lambda>_. stopsWith D r)) ?a"
    by (rule wp_mono) (auto simp: stopsWith_def intro!: wp_removeFile)
  then show ?thesis unfolding run_def wp_bind wp_nodeCall node nodeReply.case nodeFiles_def prod.case nodeReq.case by (simp add: wp_return_eta wp_bind)
qed

lemma wp_run_not_captured:
  assumes "stopsWith (\<lambda>_. False) (Inl e) a" and "\<nexists>tar specJSON imageName. captured a tar specJSON imageName"
  shows "wp (run C A snapshot ns spec) (stopsWith (\<lambda>_. False)) a"
proof (cases "\<exists>tarPath tar. ag_node a (ag_calls a) = NodeFile tarPath tar")
  case True
  then obtain tarPath tar where node: "ag_node a (ag_calls a) = NodeFile tarPath tar" by blast
  have "wp (uploadArchive C A tarPath snapshot ns spec) (\<lambda>r. wp (removeFile tarPath) (\<lambda>_. stopsWith (\<lambda>_. False) r))
     (a\<lparr>ag_calls := Suc (ag_calls a), ag_log := ag_log a @ [(CheckpointReq ns (ss_SourcePod spec) (ss_Container spec), ag_objects a, ag_files a)], ag_answers := ag_answers a @ [(CheckpointReq ns (ss_SourcePod spec) (ss_Container spec), NodeFile tarPath tar)], ag_files := (ag_files a)(tarPath \<mapsto> tar)\<rparr>)"
    unfolding uploadArchive_def wp_bind wp_nodeCall using assms node
    by (auto simp: captured_def stopsWith_def wp_return split: nodeReply.splits intro!: wp_removeFile)
  then show ?thesis unfolding run_def wp_bind wp_nodeCall node nodeReply.case nodeFiles_def prod.case nodeReq.case by (simp add: wp_return_eta wp_bind)
next
  case False
  then show ?thesis unfolding run_def wp_bind wp_nodeCall using assms(1) by (auto simp: stopsWith_def wp_return split: nodeReply.splits)
qed

subsection \<open>Fetching\<close>

text \<open>Everything is answered, and downloads deliver what the store has.\<close>

definition reliable :: "agent \<Rightarrow> bool" where
  "reliable a \<longleftrightarrow> (\<forall>n. ag_fault a n = Served) \<and> (\<forall>n. ag_http a n = Answers) \<and>
     (\<forall>n c. concat (fst (ag_delivered a n c)) = c \<and> snd (ag_delivered a n c)) \<and> (\<forall>n. \<nexists>e. ag_node a n = NodeError e)"

lemma reliable_steady: "steady a a' \<Longrightarrow> reliable a' = reliable a"
  by (simp add: steady_def reliable_def)

lemma wp_call:
  assumes "\<And>e a'. idle a a' \<Longrightarrow> \<not> reliable a \<Longrightarrow> Q (Inl e) a'" and "\<And>a'. idle a a' \<Longrightarrow> Q (f a') a'"
  shows "wp (attempt (\<lambda>a. (f a, a))) Q a"
proof -
  have "\<not> reliable a" if "ag_fault a (ag_calls a) \<noteq> Served" using that by (auto simp: reliable_def)
  then show ?thesis using assms by (auto simp: wp_def attempt_def Let_def split: fault.splits)
qed

definition got :: "agent \<Rightarrow> string \<times> string \<Rightarrow> api_error + string list \<times> bool \<Rightarrow> bool" where
  "got a key x \<longleftrightarrow> (reliable a \<longrightarrow> (case x of Inl _ \<Rightarrow> ag_objects a key = None | Inr (cs, ok) \<Rightarrow> ok \<and> ag_objects a key = Some (concat cs)))"

lemma bearer_served: "ag_http a (ag_calls a) = Answers \<Longrightarrow> wp (bearer C) (\<lambda>x a'. (\<exists>t. x = Inr t) \<and> idle a a') a"
  unfolding bearer_def now_def by (auto simp: wp_simps wp_def httpDo_def serve_def Let_def)

lemma wp_bearer_reliable:
  assumes "\<And>e a'. idle a a' \<Longrightarrow> \<not> reliable a \<Longrightarrow> Q (Inl e) a'" and "\<And>t a'. idle a a' \<Longrightarrow> Q (Inr t) a'"
  shows "wp (bearer C) Q a"
proof (cases "reliable a")
  case True
  then have "ag_http a (ag_calls a) = Answers" by (simp add: reliable_def)
  then show ?thesis by (rule wp_mono [OF bearer_served]) (use assms(2) in auto)
next
  case False
  show ?thesis
  proof (rule wp_bearer)
    fix x a' assume "idle a a'" then show "Q x a'" using assms False by (cases x) auto
  qed
qed

lemma serve_download:
  "serve C (Download b o') a = (r, a') \<Longrightarrow> a' = a \<and> (case ag_objects a (b, o') of None \<Rightarrow> r = (404, Text ''Not Found'')
     | Some c \<Rightarrow> r = (200, Chunks (fst (ag_delivered a (ag_calls a) c)) (snd (ag_delivered a (ag_calls a) c))))"
  by (auto simp: serve_def Let_def split: option.splits prod.splits)

lemma wp_download:
  assumes "\<And>x a'. idle a a' \<Longrightarrow> got a (b, o') x \<Longrightarrow> Q x a'"
  shows "wp (GCS_Get C b o') Q a"
proof -
  have http: "wp (httpDo C (Download b o')) (\<lambda>x a'. idle a a' \<and> (reliable a \<longrightarrow> (case ag_objects a (b, o') of None \<Rightarrow> x = Inr (404, Text ''Not Found'')
      | Some c \<Rightarrow> \<exists>cs. concat cs = c \<and> x = Inr (200, Chunks cs True)))) a1" if "idle a a1" for a1
  proof -
    have same: "ag_objects a1 = ag_objects a" "reliable a1 = reliable a" using that reliable_steady [of a a1] by (auto simp: idle_def)
    obtain r b1 where "serve C (Download b o') a1 = (r, b1)" by fastforce
    with serve_download [OF this] same that show ?thesis
      by (auto simp: wp_def httpDo_def Let_def reliable_def split: httpFault.splits option.splits)
  qed
  have post: "Q (case x of Inl e \<Rightarrow> Inl e | Inr (code, body) \<Rightarrow>
      if code \<noteq> 200 then Inl (failWith (''gcs get '' @ o' @ '': HTTP '' @ showInt code))
      else (case body of Chunks cs ok \<Rightarrow> Inr (cs, ok) | Text t \<Rightarrow> Inr ([t], True) | _ \<Rightarrow> Inr ([], True))) a'"
    if "idle a a'" "reliable a \<longrightarrow> (case ag_objects a (b, o') of None \<Rightarrow> x = Inr (404, Text ''Not Found'')
      | Some c \<Rightarrow> \<exists>cs. concat cs = c \<and> x = Inr (200, Chunks cs True))" for x a'
    by (rule assms [OF that(1)]) (use that(2) in \<open>auto simp: got_def split: option.splits\<close>)
  have "wp (httpDo C (Download b o')) (\<lambda>x. wp (State_Monad.return (case x of Inl e \<Rightarrow> Inl e | Inr (code, body) \<Rightarrow>
      if code \<noteq> 200 then Inl (failWith (''gcs get '' @ o' @ '': HTTP '' @ showInt code))
      else (case body of Chunks cs ok \<Rightarrow> Inr (cs, ok) | Text t \<Rightarrow> Inr ([t], True) | _ \<Rightarrow> Inr ([], True)))) Q) a1" if "idle a a1" for a1
    by (rule wp_mono [OF http [OF that]]) (use post in \<open>auto simp: wp_return\<close>)
  then show ?thesis
    unfolding GCS_Get_def gcsDo_def wp_bind
    by (intro wp_bearer_reliable) (auto simp: wp_return got_def intro!: assms)
qed

lemma bounded_writes: "0 \<le> n \<Longrightarrow> foldl (boundedWrite n) [] cs = takeInt n (concat cs)"
proof -
  assume n: "0 \<le> n"
  have step: "boundedWrite n (takeInt n b) p = takeInt n (b @ p)" for b p
    using n by (auto simp: boundedWrite_def takeInt_def min_def nat_diff_distrib take_all_iff)
  have "foldl (boundedWrite n) (takeInt n b) cs = takeInt n (b @ concat cs)" for b
    by (induction cs arbitrary: b) (simp_all add: step)
  from this [of "[]"] show ?thesis using n by (simp add: takeInt_def)
qed

text \<open>The download of a whole object: what is staged is what is hashed.\<close>

definition staged :: "agent \<Rightarrow> agent \<Rightarrow> bool" where
  "staged a a' \<longleftrightarrow> steady a a' \<and> ag_log a' = ag_log a \<and> ag_answers a' = ag_answers a \<and> ag_objects a' = ag_objects a"

definition fetchable :: "hashlib \<Rightarrow> agent \<Rightarrow> string \<times> string \<Rightarrow> string \<Rightarrow> bool" where
  "fetchable C a key sha \<longleftrightarrow> reliable a \<and> (\<exists>c. ag_objects a key = Some c \<and> int (length c) \<le> maxDownloadBytes \<and> (sha \<noteq> [] \<longrightarrow> Sha256 C c = sha))"

lemma wp_writeFile:
  assumes "\<And>e a'. staged a a' \<Longrightarrow> \<not> reliable a \<Longrightarrow> Q (Inl e) a'" and "\<And>a'. staged a a' \<Longrightarrow> ag_files a' = (ag_files a)(path \<mapsto> c) \<Longrightarrow> Q (Inr ()) a'"
  shows "wp (writeFile path c) Q a"
proof -
  have "\<not> reliable a" if "ag_fault a (ag_calls a) \<noteq> Served" using that by (auto simp: reliable_def)
  then show ?thesis using assms by (auto simp: wp_def writeFile_def attempt_def Let_def staged_def split: fault.splits)
qed

lemma takeInt_long: "0 \<le> n \<Longrightarrow> int (length (takeInt (n + 1) xs)) \<le> n \<Longrightarrow> takeInt (n + 1) xs = xs \<and> int (length xs) \<le> n"
  by (auto simp: takeInt_def split: if_splits)

lemma fetched_bad: "fetched C obj sha cs ok = Inl e \<Longrightarrow> \<not> ok \<or> maxDownloadBytes < int (length (concat cs)) \<or> sha \<noteq> [] \<and> Sha256 C (concat cs) \<noteq> sha"
  by (auto simp: fetched_def Let_def takeInt_def split: if_splits)

lemma fetched_good:
  assumes "fetched C obj sha cs ok = Inr x"
  shows "takeInt (maxDownloadBytes + 1) (concat cs) = concat cs \<and> (sha = [] \<or> Sha256 C (concat cs) = sha) \<and> x = takeInt smallLimit (concat cs)"
proof -
  have "takeInt (maxDownloadBytes + 1) (concat cs) = concat cs"
    by (rule takeInt_long [THEN conjunct1]) (use assms in \<open>auto simp: fetched_def Let_def maxDownloadBytes_def split: if_splits\<close>)
  moreover have "0 \<le> smallLimit" by (simp add: smallLimit_def)
  ultimately show ?thesis using assms by (auto simp: fetched_def Let_def bounded_writes split: if_splits)
qed

lemma wp_fetch:
  assumes fail: "\<And>e a'. staged a a' \<Longrightarrow> \<not> fetchable C a (b, o') sha \<Longrightarrow> Q (Inl e) a'"
    and ok: "\<And>c a'. staged a a' \<Longrightarrow> ag_files a' = (ag_files a)(dst \<mapsto> c) \<Longrightarrow> sha = [] \<or> Sha256 C c = sha \<Longrightarrow> reliable a \<longrightarrow> ag_objects a (b, o') = Some c \<Longrightarrow>
      Q (Inr (takeInt smallLimit c)) a'"
  shows "wp (fetch C b o' dst sha) Q a"
proof -
  have down: "wp (writeFile dst (takeInt (maxDownloadBytes + 1) (concat cs))) (\<lambda>w. Q (case w of Inl e \<Rightarrow> Inl e | Inr _ \<Rightarrow> fetched C o' sha cs ok)) a1"
    if a1: "idle a a1" "got a (b, o') (Inr (cs, ok))" for cs ok a1
  proof -
    have st: "staged a a2" if "staged a1 a2" for a2 using that a1(1) steady_trans by (auto simp: idle_def staged_def)
    have "reliable a1 = reliable a" using a1(1) reliable_steady by (auto simp: idle_def)
    then have lost: "Q (Inl e) a2" if "staged a1 a2" "\<not> reliable a1" for e a2 using fail [OF st [OF that(1)]] that(2) by (simp add: fetchable_def)
    have "Q (fetched C o' sha cs ok) a2" if a2: "staged a1 a2" "ag_files a2 = (ag_files a1)(dst \<mapsto> takeInt (maxDownloadBytes + 1) (concat cs))" for a2
    proof (cases "fetched C o' sha cs ok")
      case (Inl e)
      then have "\<not> fetchable C a (b, o') sha" using fetched_bad [OF Inl] a1(2) by (auto simp: got_def fetchable_def)
      then show ?thesis using fail [OF st [OF a2(1)]] Inl by simp
    next
      case (Inr x)
      note x = fetched_good [OF Inr]
      have "ag_files a2 = (ag_files a)(dst \<mapsto> concat cs)" using a1(1) a2(2) x by (simp add: idle_def)
      moreover have "reliable a \<longrightarrow> ag_objects a (b, o') = Some (concat cs)" using a1(2) by (auto simp: got_def)
      ultimately show ?thesis using ok [OF st [OF a2(1)], of "concat cs"] x Inr by simp
    qed
    with lost show ?thesis by (intro wp_writeFile) auto
  qed
  have none: "Q (Inl e) a1" if "idle a a1" "got a (b, o') (Inl e)" for e a1
    using that fail [of a1] by (auto simp: got_def idle_def staged_def fetchable_def)
  show ?thesis unfolding fetch_def wp_bind by (intro wp_download) (auto simp: wp_return wp_return_eta wp_bind none down split: sum.splits)
qed

subsection \<open>Restoring\<close>

text \<open>
  Every restore that is asked for has \<open>D\<close>, success means that there is one which the node carried out without an error, and with \<open>must\<close> it succeeds.
\<close>

definition nodeOk :: "nodeReply \<Rightarrow> bool" where
  "nodeOk k \<longleftrightarrow> (case k of NodeError _ \<Rightarrow> False | _ \<Rightarrow> True)"

definition restoresWith :: "(restoreInputs \<Rightarrow> files \<Rightarrow> bool) \<Rightarrow> bool \<Rightarrow> agent \<Rightarrow> api_error + unit \<Rightarrow> agent \<Rightarrow> bool" where
  "restoresWith D must a r a' \<longleftrightarrow> (must \<longrightarrow> r = Inr ()) \<and>
     (\<exists>l m. ag_log a' = ag_log a @ l \<and> ag_answers a' = ag_answers a @ m \<and> (\<forall>i objs fs. (RestoreReq i, objs, fs) \<in> set l \<longrightarrow> D i fs) \<and>
        (r = Inr () \<longrightarrow> (\<exists>i objs fs k. (RestoreReq i, objs, fs) \<in> set l \<and> (RestoreReq i, k) \<in> set m \<and> nodeOk k)))"

lemma restores_staged: "staged a a1 \<Longrightarrow> restoresWith D must a1 r a' \<Longrightarrow> restoresWith D must a r a'"
  by (simp add: staged_def restoresWith_def)

lemma restores_not: "\<not> must \<Longrightarrow> ag_log a' = ag_log a \<Longrightarrow> ag_answers a' = ag_answers a \<Longrightarrow> restoresWith D must a (Inl e) a'"
  by (simp add: restoresWith_def)

lemma staged_trans: "staged a a1 \<Longrightarrow> staged a1 a2 \<Longrightarrow> staged a a2"
  using steady_trans by (auto simp: staged_def)

lemma fetchable_staged: "staged a a' \<Longrightarrow> fetchable C a' key sha = fetchable C a key sha"
  using reliable_steady by (auto simp: staged_def fetchable_def)

lemma reliable_staged: "staged a a' \<Longrightarrow> reliable a' = reliable a \<and> ag_objects a' = ag_objects a"
  using reliable_steady by (auto simp: staged_def)

lemma wp_extractAndRestore:
  assumes "must \<Longrightarrow> reliable a" and "D (restoreInputsOf p psName spec dir mf specJSON) (ag_files a)"
  shows "wp (extractAndRestore p psName spec dir mf specJSON) (restoresWith D must a) a"
proof -
  have "\<not> must" if "ag_node a n = NodeError e" for n e using assms(1) that by (auto simp: reliable_def)
  then show ?thesis using assms(2) unfolding extractAndRestore_def
    by (auto simp: wp_simps wp_nodeCall nodeFiles_def restoresWith_def nodeOk_def split: nodeReply.splits)
qed

lemma wp_restoreTar:
  assumes D: "\<And>tar. mf_TarSHA256 mf = [] \<or> Sha256 C tar = mf_TarSHA256 mf \<Longrightarrow> reliable a \<longrightarrow> ag_objects a (archiveKey spec psName ''checkpoint.tar'') = Some tar \<Longrightarrow>
      D (restoreInputsOf p psName spec dir mf specJSON) ((ag_files a)(Join [dir, ''checkpoint.tar''] \<mapsto> tar))"
    and must: "must \<Longrightarrow> fetchable C a (archiveKey spec psName ''checkpoint.tar'') (mf_TarSHA256 mf)"
  shows "wp (restoreTar C p psName spec dir mf specJSON) (restoresWith D must a) a"
proof -
  have fail: "restoresWith D must a (Inl e) a'" if "staged a a'" "\<not> fetchable C a (archiveKey spec psName ''checkpoint.tar'') (mf_TarSHA256 mf)" for e a'
    using that must by (intro restores_not) (auto simp: staged_def)
  have ok: "wp (extractAndRestore p psName spec dir mf specJSON) (restoresWith D must a) a'"
    if "staged a a'" "ag_files a' = (ag_files a)(Join [dir, ''checkpoint.tar''] \<mapsto> tar)" "mf_TarSHA256 mf = [] \<or> Sha256 C tar = mf_TarSHA256 mf"
      "reliable a \<longrightarrow> ag_objects a (archiveKey spec psName ''checkpoint.tar'') = Some tar" for tar a'
    by (rule wp_mono [OF wp_extractAndRestore [where D = D and must = must]]) (use must D [OF that(3,4)] that(1,2) reliable_staged [OF that(1)] restores_staged [OF that(1)] in \<open>auto simp: fetchable_def\<close>)
  show ?thesis unfolding restoreTar_def wp_bind
    by (rule wp_fetch) (use fail ok in \<open>auto simp: archiveKey_def wp_return\<close>)
qed

lemma wp_restoreFiles:
  assumes D: "\<And>specText tar. mf_SpecSHA256 mf = [] \<or> Sha256 C specText = mf_SpecSHA256 mf \<Longrightarrow> mf_TarSHA256 mf = [] \<or> Sha256 C tar = mf_TarSHA256 mf \<Longrightarrow>
      reliable a \<longrightarrow> ag_objects a (archiveKey spec psName ''spec.json'') = Some specText \<and> ag_objects a (archiveKey spec psName ''checkpoint.tar'') = Some tar \<Longrightarrow>
      D (restoreInputsOf p psName spec dir mf (takeInt smallLimit specText))
        ((ag_files a)(Join [dir, ''spec.json''] \<mapsto> specText, Join [dir, ''checkpoint.tar''] \<mapsto> tar))"
    and must: "must \<Longrightarrow> fetchable C a (archiveKey spec psName ''spec.json'') (mf_SpecSHA256 mf) \<and> fetchable C a (archiveKey spec psName ''checkpoint.tar'') (mf_TarSHA256 mf)"
  shows "wp (restoreFiles C p psName spec dir mf) (restoresWith D must a) a"
proof -
  have fail: "restoresWith D must a (Inl e) a'" if "staged a a'" "\<not> fetchable C a (archiveKey spec psName ''spec.json'') (mf_SpecSHA256 mf)" for e a'
    using that must by (intro restores_not) (auto simp: staged_def)
  have ok: "wp (restoreTar C p psName spec dir mf (takeInt smallLimit c)) (restoresWith D must a) a'"
    if c: "staged a a'" "ag_files a' = (ag_files a)(Join [dir, ''spec.json''] \<mapsto> c)" "mf_SpecSHA256 mf = [] \<or> Sha256 C c = mf_SpecSHA256 mf"
      "reliable a \<longrightarrow> ag_objects a (archiveKey spec psName ''spec.json'') = Some c" for c a'
  proof (rule wp_mono [OF wp_restoreTar [where D = D and must = must]])
    show "D (restoreInputsOf p psName spec dir mf (takeInt smallLimit c)) ((ag_files a')(Join [dir, ''checkpoint.tar''] \<mapsto> tar))"
      if "mf_TarSHA256 mf = [] \<or> Sha256 C tar = mf_TarSHA256 mf" "reliable a' \<longrightarrow> ag_objects a' (archiveKey spec psName ''checkpoint.tar'') = Some tar" for tar
      using D [OF c(3) that(1)] c(2,4) that(2) reliable_staged [OF c(1)] by simp
  qed (use must fetchable_staged [OF c(1)] restores_staged [OF c(1)] in auto)
  show ?thesis unfolding restoreFiles_def wp_bind
    by (rule wp_fetch) (use fail ok in \<open>auto simp: archiveKey_def wp_return\<close>)
qed

lemma wp_restoreArchive:
  assumes D: "\<And>mtext mf specText tar. UnmarshalManifest C (takeInt smallLimit mtext) = Some mf \<Longrightarrow> Sha256 C specText = mf_SpecSHA256 mf \<Longrightarrow> Sha256 C tar = mf_TarSHA256 mf \<Longrightarrow>
      mf_CPUFamily mf = [] \<or> na_CPUFamily A = [] \<or> mf_CPUFamily mf = na_CPUFamily A \<Longrightarrow>
      reliable a \<longrightarrow> ag_objects a (archiveKey spec psName ''manifest.json'') = Some mtext \<and> ag_objects a (archiveKey spec psName ''spec.json'') = Some specText \<and>
        ag_objects a (archiveKey spec psName ''checkpoint.tar'') = Some tar \<Longrightarrow>
      D (restoreInputsOf p psName spec dir mf (takeInt smallLimit specText))
        ((ag_files a)(Join [dir, ''manifest.json''] \<mapsto> mtext, Join [dir, ''spec.json''] \<mapsto> specText, Join [dir, ''checkpoint.tar''] \<mapsto> tar))"
    and must: "must \<Longrightarrow> (\<exists>mtext mf. ag_objects a (archiveKey spec psName ''manifest.json'') = Some mtext \<and> int (length mtext) \<le> smallLimit \<and> UnmarshalManifest C mtext = Some mf \<and>
        mf_SpecSHA256 mf \<noteq> [] \<and> mf_TarSHA256 mf \<noteq> [] \<and> (mf_CPUFamily mf = [] \<or> na_CPUFamily A = [] \<or> mf_CPUFamily mf = na_CPUFamily A) \<and>
        fetchable C a (archiveKey spec psName ''spec.json'') (mf_SpecSHA256 mf) \<and> fetchable C a (archiveKey spec psName ''checkpoint.tar'') (mf_TarSHA256 mf))"
  shows "wp (restoreArchive C A p psName spec dir) (restoresWith D must a) a"
proof -
  let ?key = "archiveKey spec psName ''manifest.json''"
  have fail: "restoresWith D must a (Inl e) a'" if "staged a a'" "\<not> fetchable C a ?key []" for e a'
  proof (rule restores_not)
    show "\<not> must" using that(2) must by (auto simp: fetchable_def smallLimit_def maxDownloadBytes_def)
  qed (use that in \<open>simp_all add: staged_def\<close>)
  have ok: "wp (case UnmarshalManifest C (takeInt smallLimit c) of
             None \<Rightarrow> State_Monad.return (Inl (failWith ''manifest decode''))
           | Some mf \<Rightarrow>
               if mf_SpecSHA256 mf = [] \<or> mf_TarSHA256 mf = [] then State_Monad.return (Inl (failWith ''manifest missing required sha256 digests''))
               else if mf_CPUFamily mf \<noteq> [] \<and> na_CPUFamily A \<noteq> [] \<and> mf_CPUFamily mf \<noteq> na_CPUFamily A
               then State_Monad.return (Inl (failWith ''cpu family mismatch''))
               else restoreFiles C p psName spec dir mf) (restoresWith D must a) a'"
    if c: "staged a a'" "ag_files a' = (ag_files a)(Join [dir, ''manifest.json''] \<mapsto> c)" "reliable a \<longrightarrow> ag_objects a ?key = Some c" for c a'
  proof -
    have same: "takeInt smallLimit c = c \<and> (\<exists>mf. UnmarshalManifest C c = Some mf \<and> mf_SpecSHA256 mf \<noteq> [] \<and> mf_TarSHA256 mf \<noteq> [] \<and>
        (mf_CPUFamily mf = [] \<or> na_CPUFamily A = [] \<or> mf_CPUFamily mf = na_CPUFamily A) \<and>
        fetchable C a (archiveKey spec psName ''spec.json'') (mf_SpecSHA256 mf) \<and> fetchable C a (archiveKey spec psName ''checkpoint.tar'') (mf_TarSHA256 mf))" if must
      using must [OF that] c(3) by (auto simp: fetchable_def takeInt_def)
    have stop: "restoresWith D must a (Inl e) a'" if "\<not> must" for e using restores_not [OF that] c(1) by (simp add: staged_def)
    have go: "wp (restoreFiles C p psName spec dir mf) (restoresWith D must a) a'"
      if mf: "UnmarshalManifest C (takeInt smallLimit c) = Some mf" "mf_SpecSHA256 mf \<noteq> []" "mf_TarSHA256 mf \<noteq> []"
        "mf_CPUFamily mf = [] \<or> na_CPUFamily A = [] \<or> mf_CPUFamily mf = na_CPUFamily A" for mf
    proof (rule wp_mono [OF wp_restoreFiles [where D = D and must = must]])
      show "D (restoreInputsOf p psName spec dir mf (takeInt smallLimit specText))
          ((ag_files a')(Join [dir, ''spec.json''] \<mapsto> specText, Join [dir, ''checkpoint.tar''] \<mapsto> tar))"
        if "mf_SpecSHA256 mf = [] \<or> Sha256 C specText = mf_SpecSHA256 mf" "mf_TarSHA256 mf = [] \<or> Sha256 C tar = mf_TarSHA256 mf"
          "reliable a' \<longrightarrow> ag_objects a' (archiveKey spec psName ''spec.json'') = Some specText \<and> ag_objects a' (archiveKey spec psName ''checkpoint.tar'') = Some tar" for specText tar
        using D [OF mf(1) _ _ mf(4), of specText tar] mf(2,3) that c(2,3) reliable_staged [OF c(1)] by simp
      show "fetchable C a' (archiveKey spec psName ''spec.json'') (mf_SpecSHA256 mf) \<and> fetchable C a' (archiveKey spec psName ''checkpoint.tar'') (mf_TarSHA256 mf)" if must
        using same [OF that] mf(1) fetchable_staged [OF c(1)] by auto
    qed (use restores_staged [OF c(1)] in blast)
    show ?thesis using same stop go by (fastforce simp: wp_return split: option.splits)
  qed
  show ?thesis unfolding restoreArchive_def wp_bind
    by (rule wp_fetch) (use fail ok in \<open>simp_all add: archiveKey_def wp_return\<close>)
qed

text \<open>What a restore of \<open>spec\<close>'s archive by the pod \<open>p\<close> has staged in \<open>dir\<close>, and what it asks the node for.\<close>

definition verifiedRestore :: "hashlib \<Rightarrow> nodeAgent \<Rightarrow> pod \<Rightarrow> string \<Rightarrow> snapshotSpec \<Rightarrow> manifest \<Rightarrow> string \<Rightarrow> string \<Rightarrow> restoreInputs \<Rightarrow> files \<Rightarrow> bool" where
  "verifiedRestore C A p psName spec mf specText tar i fs \<longleftrightarrow>
     (let dir = Join [workDir A, psName] in
      i = restoreInputsOf p psName spec dir mf (takeInt smallLimit specText) \<and>
      (\<exists>mtext. fs (Join [dir, ''manifest.json'']) = Some mtext \<and> UnmarshalManifest C (takeInt smallLimit mtext) = Some mf) \<and>
      fs (Join [dir, ''spec.json'']) = Some specText \<and> Sha256 C specText = mf_SpecSHA256 mf \<and>
      fs (Join [dir, ''checkpoint.tar'']) = Some tar \<and> Sha256 C tar = mf_TarSHA256 mf \<and>
      (mf_CPUFamily mf = [] \<or> na_CPUFamily A = [] \<or> mf_CPUFamily mf = na_CPUFamily A))"

lemma wp_get_podSnapshot:
  assumes "\<And>e a'. idle a a' \<Longrightarrow> \<not> reliable a \<or> store_get ps_Name (ag_snapshots a) name = None \<Longrightarrow> Q (Inl e) a'"
    and "\<And>ps a'. idle a a' \<Longrightarrow> store_get ps_Name (ag_snapshots a) name = Some ps \<Longrightarrow> Q (Inr ps) a'"
  shows "wp (get_podSnapshot name) Q a"
  unfolding get_podSnapshot_def
proof (rule wp_call)
  fix a' assume a': "idle a a'"
  then have "ag_snapshots a' = ag_snapshots a" by (simp add: idle_def steady_def)
  then show "Q (found ''podsnapshot'' (store_get ps_Name (ag_snapshots a') name)) a'" using assms a' by (auto simp: found_def split: option.splits)
qed (use assms in auto)

lemma wp_get_jobLive:
  assumes "\<And>e a'. idle a a' \<Longrightarrow> \<not> reliable a \<or> store_get pmj_Name (ag_jobs a) name = None \<Longrightarrow> Q (Inl e) a'"
    and "\<And>j a'. idle a a' \<Longrightarrow> store_get pmj_Name (ag_jobs a) name = Some j \<Longrightarrow> Q (Inr j) a'"
  shows "wp (get_jobLive name) Q a"
  unfolding get_jobLive_def
proof (rule wp_call)
  fix a' assume a': "idle a a'"
  then have "ag_jobs a' = ag_jobs a" by (simp add: idle_def steady_def)
  then show "Q (found ''podmigrationjob'' (store_get pmj_Name (ag_jobs a') name)) a'" using assms a' by (auto simp: found_def split: option.splits)
qed (use assms in auto)

lemma wp_osRemoveAll: "(\<And>x a'. ag_log a' = ag_log a \<Longrightarrow> ag_answers a' = ag_answers a \<Longrightarrow> Q x a') \<Longrightarrow> wp (osRemoveAll dir) Q a"
  by (auto simp: osRemoveAll_def wp_def attempt_def Let_def split: fault.splits)

lemma staged_names:
  "Join [dir, ''manifest.json''] \<noteq> Join [dir, ''spec.json'']" "Join [dir, ''manifest.json''] \<noteq> Join [dir, ''checkpoint.tar'']" "Join [dir, ''spec.json''] \<noteq> Join [dir, ''checkpoint.tar'']"
  by (simp_all add: join_names plainElem_def)

text \<open>The pod \<open>p\<close> is the recorded consumer of the snapshot.\<close>

definition consumerOf :: "agent \<Rightarrow> pod \<Rightarrow> string \<Rightarrow> snapshotSpec \<Rightarrow> bool" where
  "consumerOf a p psName spec \<longleftrightarrow> (\<exists>ps job. store_get ps_Name (ag_snapshots a) psName = Some ps \<and> readSnapshotSpec ps = Inr spec \<and>
     mget (pod_Annotations p) AnnotationAssignedPMJ \<noteq> [] \<and>
     store_get pmj_Name (ag_jobs a) (mget (pod_Annotations p) AnnotationAssignedPMJ) = Some job \<and> checkBinding p psName spec ps job = None)"

lemma consumerOf_unique: "consumerOf a p psName spec \<Longrightarrow> consumerOf a p psName spec' \<Longrightarrow> spec' = spec"
  by (auto simp: consumerOf_def)

text \<open>The archive in the store can be restored on this node.\<close>

definition restorable :: "hashlib \<Rightarrow> nodeAgent \<Rightarrow> string \<Rightarrow> snapshotSpec \<Rightarrow> agent \<Rightarrow> bool" where
  "restorable C A psName spec a \<longleftrightarrow>
     (\<exists>mtext mf. ag_objects a (archiveKey spec psName ''manifest.json'') = Some mtext \<and> int (length mtext) \<le> smallLimit \<and> UnmarshalManifest C mtext = Some mf \<and>
        mf_SpecSHA256 mf \<noteq> [] \<and> mf_TarSHA256 mf \<noteq> [] \<and> (mf_CPUFamily mf = [] \<or> na_CPUFamily A = [] \<or> mf_CPUFamily mf = na_CPUFamily A) \<and>
        fetchable C a (archiveKey spec psName ''spec.json'') (mf_SpecSHA256 mf) \<and> fetchable C a (archiveKey spec psName ''checkpoint.tar'') (mf_TarSHA256 mf))"

text \<open>The archive's three objects, as this restore has read them, when downloads are reliable.\<close>

definition fromStore :: "hashlib \<Rightarrow> string \<Rightarrow> snapshotSpec \<Rightarrow> manifest \<Rightarrow> string \<Rightarrow> string \<Rightarrow> agent \<Rightarrow> bool" where
  "fromStore C psName spec mf specText tar a \<longleftrightarrow> (reliable a \<longrightarrow>
     (\<exists>mtext. ag_objects a (archiveKey spec psName ''manifest.json'') = Some mtext \<and> UnmarshalManifest C (takeInt smallLimit mtext) = Some mf) \<and>
     ag_objects a (archiveKey spec psName ''spec.json'') = Some specText \<and> ag_objects a (archiveKey spec psName ''checkpoint.tar'') = Some tar)"

lemma restorable_idle: "staged a a' \<Longrightarrow> restorable C A psName spec a' = restorable C A psName spec a"
  by (simp add: restorable_def fetchable_staged reliable_staged)

lemma idle_staged: "idle a a' \<Longrightarrow> staged a a'"
  by (simp add: idle_def staged_def)

lemma wp_restoreArchive_verified:
  assumes "must \<Longrightarrow> restorable C A psName spec a"
    and D: "\<And>mf specText tar i fs. verifiedRestore C A p psName spec mf specText tar i fs \<Longrightarrow> fromStore C psName spec mf specText tar a \<Longrightarrow> D i fs"
  shows "wp (restoreArchive C A p psName spec (Join [workDir A, psName])) (restoresWith D must a) a"
proof (rule wp_restoreArchive)
  fix mtext mf specText tar
  let ?dir = "Join [workDir A, psName]"
  assume *: "UnmarshalManifest C (takeInt smallLimit mtext) = Some mf" "Sha256 C specText = mf_SpecSHA256 mf" "Sha256 C tar = mf_TarSHA256 mf"
    "mf_CPUFamily mf = [] \<or> na_CPUFamily A = [] \<or> mf_CPUFamily mf = na_CPUFamily A"
    "reliable a \<longrightarrow> ag_objects a (archiveKey spec psName ''manifest.json'') = Some mtext \<and> ag_objects a (archiveKey spec psName ''spec.json'') = Some specText \<and>
        ag_objects a (archiveKey spec psName ''checkpoint.tar'') = Some tar"
  show "D (restoreInputsOf p psName spec ?dir mf (takeInt smallLimit specText))
    ((ag_files a)(Join [?dir, ''manifest.json''] \<mapsto> mtext, Join [?dir, ''spec.json''] \<mapsto> specText, Join [?dir, ''checkpoint.tar''] \<mapsto> tar))"
    by (rule D [of mf specText tar]) (use * in \<open>simp_all add: verifiedRestore_def Let_def staged_names staged_names [symmetric] fromStore_def\<close>)
qed (use assms(1) in \<open>simp add: restorable_def\<close>)

lemma wp_mkdirAll: "(\<And>e a'. idle a a' \<Longrightarrow> \<not> reliable a \<Longrightarrow> Q (Inl e) a') \<Longrightarrow> (\<And>a'. idle a a' \<Longrightarrow> Q (Inr ()) a') \<Longrightarrow> wp (mkdirAll path) Q a"
  unfolding mkdirAll_def by (rule wp_call) auto

lemma restores_log: "restoresWith D must a r a' \<Longrightarrow> ag_log a'' = ag_log a' \<Longrightarrow> ag_answers a'' = ag_answers a' \<Longrightarrow> restoresWith D must a r a''"
  by (simp add: restoresWith_def)

lemma wp_restoreStaged:
  assumes "must \<Longrightarrow> reliable a \<and> restorable C A psName spec a"
    and D: "\<And>mf specText tar i fs. verifiedRestore C A p psName spec mf specText tar i fs \<Longrightarrow> fromStore C psName spec mf specText tar a \<Longrightarrow> D i fs"
  shows "wp (restoreStaged C A p psName spec) (restoresWith D must a) a"
proof -
  have run: "wp (restoreArchive C A p psName spec (Join [workDir A, psName])) (\<lambda>r. wp (osRemoveAll (Join [workDir A, psName])) (\<lambda>_. restoresWith D must a r)) a3" if "idle a a3" for a3
  proof -
    note st = idle_staged [OF that]
    have "wp (restoreArchive C A p psName spec (Join [workDir A, psName])) (restoresWith D must a3) a3"
      by (rule wp_restoreArchive_verified) (use assms(1) D restorable_idle [OF st] reliable_staged [OF st] in \<open>auto simp: fromStore_def\<close>)
    then show ?thesis by (rule wp_mono) (auto intro!: wp_osRemoveAll intro: restores_log restores_staged [OF st])
  qed
  have stop: "restoresWith D must a (Inl e) a'" if "\<not> reliable a" "idle a a'" for e a'
    by (rule restores_not) (use that assms(1) in \<open>auto simp: idle_def\<close>)
  show ?thesis unfolding restoreStaged_def Let_def wp_bind [of "mkdirAll _"]
    by (rule wp_mkdirAll) (use stop run in \<open>auto simp: wp_return wp_return_eta wp_bind_eta\<close>)
qed

lemma wp_restore:
  assumes D: "\<And>spec mf specText tar i fs. consumerOf a p psName spec \<Longrightarrow> verifiedRestore C A p psName spec mf specText tar i fs \<Longrightarrow>
      fromStore C psName spec mf specText tar a \<Longrightarrow> D i fs"
    and must: "must \<Longrightarrow> reliable a \<and> (\<exists>spec. consumerOf a p psName spec \<and> restorable C A psName spec a)"
  shows "wp (restore C A p psName) (restoresWith D must a) a"
proof -
  let ?job = "mget (pod_Annotations p) AnnotationAssignedPMJ"
  have stop: "restoresWith D must a (Inl e) a'" if "idle a a'" "\<not> reliable a \<or> (\<forall>spec. \<not> consumerOf a p psName spec)" for e a'
    by (rule restores_not) (use that must in \<open>auto simp: idle_def\<close>)
  have arch: "wp (restoreStaged C A p psName spec) (restoresWith D must a) a2" if a2: "staged a a2" "consumerOf a p psName spec" for spec a2
  proof (rule wp_mono [OF wp_restoreStaged [where D = D and must = must]])
    show "reliable a2 \<and> restorable C A psName spec a2" if must
      using must [OF that] consumerOf_unique [OF a2(2)] restorable_idle [OF a2(1)] reliable_staged [OF a2(1)] by metis
    show "D i fs" if "verifiedRestore C A p psName spec mf specText tar i fs" "fromStore C psName spec mf specText tar a2" for mf specText tar i fs
      using D [OF a2(2) that(1)] that(2) reliable_staged [OF a2(1)] by (simp add: fromStore_def)
  qed (rule restores_staged [OF a2(1)])
  have live: "wp (restoreAssigned C A p psName spec ps ?job) (restoresWith D must a) a1"
    if a1: "idle a a1" "store_get ps_Name (ag_snapshots a) psName = Some ps" "readSnapshotSpec ps = Inr spec" "?job \<noteq> []" for ps spec a1
    unfolding restoreAssigned_def wp_bind
  proof (rule wp_get_jobLive, goal_cases)
    case (1 e a2)
    have "ag_jobs a1 = ag_jobs a" "reliable a1 = reliable a" using a1(1) reliable_steady [of a a1] by (simp_all add: idle_def steady_def)
    then have "restoresWith D must a (Inl e) a2" for e using stop [OF idle_trans [OF a1(1) 1(1)]] 1(2) by (auto simp: consumerOf_def)
    then show ?case by (simp add: wp_return)
  next
    case (2 j a2)
    have "store_get pmj_Name (ag_jobs a) ?job = Some j" using a1(1) 2(2) by (simp add: idle_def steady_def)
    with a1 have "checkBinding p psName spec ps j = None \<Longrightarrow> consumerOf a p psName spec" "checkBinding p psName spec ps j \<noteq> None \<Longrightarrow> \<forall>spec. \<not> consumerOf a p psName spec"
      by (auto simp: consumerOf_def)
    with stop [OF idle_trans [OF a1(1) 2(1)]] arch [OF idle_staged [OF idle_trans [OF a1(1) 2(1)]]] show ?case
      by (auto simp: wp_return split: option.splits)
  qed
  have no: "\<forall>spec. \<not> consumerOf a p psName spec" if "store_get ps_Name (ag_snapshots a) psName = Some ps" "?job = [] \<or> readSnapshotSpec ps = Inl e" for ps e
    using that by (auto simp: consumerOf_def)
  show ?thesis unfolding restore_def wp_bind Let_def
  proof (rule wp_get_podSnapshot, goal_cases)
    case (1 e a')
    then have "restoresWith D must a (Inl e) a'" for e using stop [OF 1(1)] by (auto simp: consumerOf_def)
    then show ?case by (simp add: wp_return)
  next
    case (2 ps a')
    then show ?case using live [OF 2(1,2)] stop [OF 2(1)] no [OF 2(2)] by (auto simp: wp_return wp_bind split: sum.splits)
  qed
qed

text \<open>
  C9 (safety). The source container is stopped only when its checkpoint is durable: the store
  then has the source's spec, the checkpoint and a manifest with the SHA-256 of both, each with
  the size and the MD5 of what the agent has. Nothing else ever asks for the stop, so a failed
  upload leaves the source running; and the pipeline succeeds only with such an archive.
\<close>

theorem source_stopped_only_when_durable:
  assumes "run_state (run C A snapshot ns spec) a = (res, a')" and "ag_log a = []"
  shows "((StopReq x y z, objs, fs) \<in> set (ag_log a') \<longrightarrow>
      (\<exists>tar specJSON imageName. captured a tar specJSON imageName \<and> durableArchive C (intact a) A snapshot spec specJSON imageName tar (ag_now a) objs)) \<and>
    (res = Inr () \<longrightarrow>
      (\<exists>tar specJSON imageName. captured a tar specJSON imageName \<and> durableArchive C (intact a) A snapshot spec specJSON imageName tar (ag_now a) (ag_objects a')))"
proof (cases "\<exists>tar specJSON imageName. captured a tar specJSON imageName")
  case True
  then obtain tar specJSON imageName where cap: "captured a tar specJSON imageName" by blast
  have "wp (run C A snapshot ns spec) (stopsWith (durableArchive C (intact a) A snapshot spec specJSON imageName tar (ag_now a))) a"
    by (rule wp_run_captured [OF _ refl cap]) (use assms(2) in \<open>simp add: stopsWith_def\<close>)
  from wp_run [OF this assms(1)] cap show ?thesis unfolding stopsWith_def by metis
next
  case False
  then have "wp (run C A snapshot ns spec) (stopsWith (\<lambda>_. False)) a"
    using assms(2) by (intro wp_run_not_captured) (auto simp: stopsWith_def)
  from wp_run [OF this assms(1)] show ?thesis unfolding stopsWith_def by metis
qed

text \<open>
  C11 (safety). The node agent asks for a restore only into the recorded consumer of a ready
  snapshot: the job that the pod is assigned to is restoring or has succeeded, it records
  this snapshot and this pod's name and UID, and it migrates the snapshot's source. What is
  restored has the SHA-256 digests of the manifest, and was not taken on a CPU family that is known to
  differ from this node's (the guard is off where either family is unknown); the spec is cut to its first 4 MiB.
\<close>

theorem restored_into_recorded_consumer:
  assumes "run_state (restore C A p psName) a = (res, a')" and "ag_log a = []" and "(RestoreReq i, objs, fs) \<in> set (ag_log a')"
  shows "\<exists>ps spec job mf specText tar. store_get ps_Name (ag_snapshots a) psName = Some ps \<and> readSnapshotSpec ps = Inr spec \<and> IsSnapshotReady ps \<and>
    store_get pmj_Name (ag_jobs a) (mget (pod_Annotations p) AnnotationAssignedPMJ) = Some job \<and> pmj_PodRefName job = ss_SourcePod spec \<and>
    st_Phase (pmj_Status job) \<in> {PhaseRestoring, PhaseSucceeded} \<and> st_SnapshotRef (pmj_Status job) = psName \<and>
    st_RestoredPodUID (pmj_Status job) = pod_UID p \<and> st_RestoredPodName (pmj_Status job) = pod_Name p \<and>
    verifiedRestore C A p psName spec mf specText tar i fs"
proof -
  have "wp (restore C A p psName) (restoresWith (\<lambda>i fs. \<exists>spec mf specText tar. consumerOf a p psName spec \<and> verifiedRestore C A p psName spec mf specText tar i fs) False a) a"
    by (rule wp_restore) auto
  from wp_run [OF this assms(1)] obtain spec mf specText tar where "consumerOf a p psName spec" "verifiedRestore C A p psName spec mf specText tar i fs"
    using assms(2,3) unfolding restoresWith_def by simp blast
  then show ?thesis unfolding consumerOf_def checkBinding_def Let_def by (auto split: if_splits)
qed

text \<open>
  C32 (roundtrip). What the pipeline uploaded is what is restored on the other side: after a
  run that succeeded, with a store that keeps and delivers what it is given, the recorded consumer's restore
  succeeds and gets the captured checkpoint, image and source UID, and the captured spec
  up to 4 MiB: a longer one is cut after its digest was found to be right.
\<close>

theorem archive_round_trip:
  assumes up: "run_state (run C A snapshot ns spec) a = (Inr (), a')" "ag_log a = []" "captured a tar specJSON imageName"
    and "intact a" "lawful_hashes C" "int (length tar) \<le> maxDownloadBytes" "int (length specJSON) \<le> maxDownloadBytes"
      "int (length (MarshalManifest C (manifestOf C A snapshot spec imageName (Sha256 C tar, int (length tar)) (Sha256 C specJSON) (ag_now a)))) \<le> smallLimit"
    and down: "run_state (restore C B p snapshot) b = (res, b')" "ag_log b = []" "ag_objects b = ag_objects a'" "reliable b" "consumerOf b p snapshot spec"
      "na_CPUFamily A = [] \<or> na_CPUFamily B = [] \<or> na_CPUFamily A = na_CPUFamily B"
  shows "res = Inr () \<and> (\<exists>i objs fs. (RestoreReq i, objs, fs) \<in> set (ag_log b')) \<and>
    (\<forall>i objs fs. (RestoreReq i, objs, fs) \<in> set (ag_log b') \<longrightarrow>
       ri_SpecJSON i = takeInt smallLimit specJSON \<and> ri_ImageName i = imageName \<and> ri_SourcePodUID i = ss_SourcePodUID spec \<and> ri_TargetPodUID i = pod_UID p \<and>
       fs (Join [Join [workDir B, snapshot], ''checkpoint.tar'']) = Some tar)"
proof -
  let ?m = "manifestOf C A snapshot spec imageName (Sha256 C tar, int (length tar)) (Sha256 C specJSON) (ag_now a)"
  have "wp (run C A snapshot ns spec) (stopsWith (durableArchive C (intact a) A snapshot spec specJSON imageName tar (ag_now a))) a"
    by (rule wp_run_captured [OF _ refl up(3)]) (use up(2) in \<open>simp add: stopsWith_def\<close>)
  from wp_run [OF this up(1)] have "durableArchive C True A snapshot spec specJSON imageName tar (ag_now a) (ag_objects b)"
    using assms(4) down(3) by (simp add: stopsWith_def)
  then have store: "ag_objects b (archiveKey spec snapshot ''spec.json'') = Some specJSON" "ag_objects b (archiveKey spec snapshot ''checkpoint.tar'') = Some tar"
    "ag_objects b (archiveKey spec snapshot ''manifest.json'') = Some (MarshalManifest C ?m)" by (simp_all add: durableArchive_def holds_def)
  have law: "UnmarshalManifest C (MarshalManifest C ?m) = Some ?m" "Sha256 C s \<noteq> []" for s using assms(5) by (simp_all add: lawful_hashes_def)
  have can: "restorable C B snapshot spec b"
    using store law assms(6-8) down(4,6) unfolding restorable_def fetchable_def by (simp add: manifestOf_def)
  have short: "takeInt smallLimit (MarshalManifest C ?m) = MarshalManifest C ?m" using assms(8) by (simp add: takeInt_def)
  let ?D = "\<lambda>i fs. ri_SpecJSON i = takeInt smallLimit specJSON \<and> ri_ImageName i = imageName \<and> ri_SourcePodUID i = ss_SourcePodUID spec \<and> ri_TargetPodUID i = pod_UID p \<and>
       fs (Join [Join [workDir B, snapshot], ''checkpoint.tar'']) = Some tar"
  have "wp (restore C B p snapshot) (restoresWith ?D True b) b"
  proof (rule wp_restore)
    fix spec' mf specText tar' i fs
    assume *: "consumerOf b p snapshot spec'" "verifiedRestore C B p snapshot spec' mf specText tar' i fs" "fromStore C snapshot spec' mf specText tar' b"
    have "spec' = spec" using consumerOf_unique [OF down(5) *(1)] .
    then have "mf = ?m" "specText = specJSON" "tar' = tar" using *(3) store law(1) short down(4) by (auto simp: fromStore_def)
    then show "?D i fs" using *(2) by (simp add: verifiedRestore_def Let_def restoreInputsOf_def manifestOf_def)
  qed (use can down(4,5) in auto)
  from wp_run [OF this down(1)] down(2) show ?thesis by (auto simp: restoresWith_def)
qed

subsection \<open>Scenes\<close>

fun encStrs :: "string list \<Rightarrow> string" where
  "encStrs [] = []"
| "encStrs (s # ss) = encStr s @ encStrs ss"

fun decStrs :: "nat \<Rightarrow> string \<Rightarrow> (string list \<times> string) option" where
  "decStrs 0 s = Some ([], s)"
| "decStrs (Suc n) s = (case decStr s of None \<Rightarrow> None | Some (x, r) \<Rightarrow> map_option (apfst ((#) x)) (decStrs n r))"

lemma decStrs_encStrs: "decStrs (length ss) (encStrs ss @ r) = Some (ss, r)"
  by (induction ss) simp_all

definition encManifest :: "manifest \<Rightarrow> string" where
  "encManifest m = encStrs [mf_Snapshot m, mf_SourcePod m, mf_SourcePodUID m, mf_Container m, mf_Node m, mf_ImageName m, mf_TarSHA256 m,
     mf_SpecSHA256 m, mf_CPUFamily m, mf_EngineVersion m] @ encInt (mf_TarBytes m) @ encInt (mf_CreatedAt m)"

definition decManifest :: "string \<Rightarrow> manifest option" where
  "decManifest s = (case decStrs 10 s of
       Some ([a, b, c, d, e, f, g, h, i, j], r) \<Rightarrow>
         (case decInt r of None \<Rightarrow> None | Some (n, r') \<Rightarrow>
            map_option (\<lambda>(t, _). \<lparr>mf_Snapshot = a, mf_SourcePod = b, mf_SourcePodUID = c, mf_Container = d, mf_Node = e, mf_ImageName = f, mf_TarSHA256 = g,
              mf_TarBytes = n, mf_SpecSHA256 = h, mf_CPUFamily = i, mf_EngineVersion = j, mf_CreatedAt = t\<rparr>) (decInt r'))
     | _ \<Rightarrow> None)"

definition sampleHashes :: hashlib where
  "sampleHashes = \<lparr>Md5Base64 = (\<lambda>s. ''m'' @ s), Sha256 = (\<lambda>s. ''s'' @ s), MarshalManifest = encManifest, UnmarshalManifest = decManifest\<rparr>"

lemma sampleHashes_lawful: "lawful_hashes sampleHashes"
proof -
  have "decManifest (encManifest m) = Some m" for m
  proof -
    let ?l = "[mf_Snapshot m, mf_SourcePod m, mf_SourcePodUID m, mf_Container m, mf_Node m, mf_ImageName m, mf_TarSHA256 m, mf_SpecSHA256 m, mf_CPUFamily m, mf_EngineVersion m]"
    have len: "length ?l = 10" by simp
    show ?thesis
      unfolding decManifest_def encManifest_def decStrs_encStrs [of ?l, unfolded len] using decInt_encInt [of "mf_CreatedAt m" "[]"] by simp
  qed
  then show ?thesis by (simp add: lawful_hashes_def sampleHashes_def)
qed

definition sceneSpec :: snapshotSpec where
  "sceneSpec = \<lparr>ss_SourcePod = ''web-0'', ss_SourcePodUID = ''u0'', ss_Container = ''app'', ss_NodeName = ''n1'', ss_Bucket = ''b'', ss_Path = ''p''\<rparr>"

definition sceneSnapshot :: engineSnapshot where
  "sceneSnapshot = \<lparr>ps_Name = ''snap'', ps_Labels = Map.empty,
     ps_Spec = [''sourcePod'' \<mapsto> ''web-0'', ''sourcePodUID'' \<mapsto> ''u0'', ''container'' \<mapsto> ''app'', ''nodeName'' \<mapsto> ''n1'', ''bucket'' \<mapsto> ''b'', ''path'' \<mapsto> ''p''],
     ps_Conditions = [\<lparr>c_Type = ''Ready'', c_Status = CondTrue, c_Reason = ''Succeeded'', c_Message = [], c_ObservedGeneration = 0, c_LastTransitionTime = 0\<rparr>],
     ps_ResourceVersion = 1\<rparr>"

definition agentOf :: "(nat \<Rightarrow> nodeReply) \<Rightarrow> objects \<Rightarrow> engineSnapshot list \<Rightarrow> pmj list \<Rightarrow> pod list \<Rightarrow> agent" where
  "agentOf replies objs snaps jobs pods = \<lparr>ag_now = 7, ag_calls = 0, ag_fault = (\<lambda>_. Served), ag_http = (\<lambda>_. Answers), ag_recorded = (\<lambda>_ s. s), ag_hashed = (\<lambda>_. True),
     ag_delivered = (\<lambda>_ s. ([s], True)), ag_node = replies, ag_objects = objs, ag_files = Map.empty, ag_token = [], ag_tokenExp = 0,
     ag_snapshots = snaps, ag_jobs = jobs, ag_pods = pods, ag_cachedPods = pods, ag_log = [], ag_answers = [],
     ag_policies = [], ag_configs = [], ag_triggers = [], ag_nodes = [], ag_crds = [], ag_inflight = [], ag_others = (\<lambda>_ l. l), ag_writes = []\<rparr>"

text \<open>The source's node, which captures the tar and the spec, and the replacement's node.\<close>

definition sourceReplies :: "nat \<Rightarrow> nodeReply" where
  "sourceReplies n = (if n = 0 then NodeFile ''/c.tar'' ''T'' else if n = 1 then NodeInfo ''S'' ''img'' else NodeDone)"

definition sourceAgent :: agent where
  "sourceAgent = agentOf sourceReplies Map.empty [] [] []"

definition sceneNode :: nodeAgent where
  "sceneNode = \<lparr>na_NodeName = ''n1'', na_CPUFamily = ''c'', na_WorkDir = ''/w''\<rparr>"

definition replacement :: pod where
  "replacement = (podOf ''web-1'' ''u1'')\<lparr>pod_Annotations := [AnnotationAssignedPMJ \<mapsto> ''pmj'']\<rparr>"

definition restoringJob :: pmj where
  "restoringJob = (jobOf ''pmj'' ''web-0'' ''u0'' PhaseRestoring)\<lparr>pmj_Status := (statusOf PhaseRestoring)\<lparr>st_SnapshotRef := ''snap'', st_RestoredPodUID := ''u1'', st_RestoredPodName := ''web-1''\<rparr>\<rparr>"

definition targetAgent :: agent where
  "targetAgent = agentOf (\<lambda>_. NodeDone) (ag_objects (snd (run_state (run sampleHashes sceneNode ''snap'' ''ns'' sceneSpec) sourceAgent))) [sceneSnapshot] [restoringJob] [replacement]"

lemma scene_uploads: "fst (run_state (run sampleHashes sceneNode ''snap'' ''ns'' sceneSpec) sourceAgent) = Inr ()"
  by code_simp

lemma scene_restores: "list_ex (\<lambda>(q, _, _). case q of RestoreReq _ \<Rightarrow> True | _ \<Rightarrow> False) (ag_log (snd (run_state (restore sampleHashes sceneNode replacement ''snap'') targetAgent)))"
  by code_simp

lemma scene_captured: "captured sourceAgent ''T'' ''S'' ''img''"
  by (simp add: captured_def sourceAgent_def agentOf_def sourceReplies_def)

lemma scene_start: "ag_log sourceAgent = []" "ag_log targetAgent = []" "intact sourceAgent" "reliable targetAgent"
  by (simp_all add: sourceAgent_def targetAgent_def agentOf_def intact_def reliable_def)

lemma source_stopped_only_when_durable_witness:
  "let r = run_state (run sampleHashes sceneNode ''snap'' ''ns'' sceneSpec) sourceAgent in ag_log sourceAgent = [] \<and> fst r = Inr () \<and>
     (\<exists>tar specJSON imageName. captured sourceAgent tar specJSON imageName \<and>
        durableArchive sampleHashes (intact sourceAgent) sceneNode ''snap'' sceneSpec specJSON imageName tar (ag_now sourceAgent) (ag_objects (snd r)))"
  using source_stopped_only_when_durable [where C = sampleHashes and A = sceneNode and snapshot = "''snap''" and ns = "''ns''" and spec = sceneSpec, OF surjective_pairing scene_start(1)] scene_uploads scene_start(1)
  unfolding Let_def by blast

lemma restored_into_recorded_consumer_witness:
  "let r = run_state (restore sampleHashes sceneNode replacement ''snap'') targetAgent in ag_log targetAgent = [] \<and>
     (\<exists>i objs fs spec mf specText tar. (RestoreReq i, objs, fs) \<in> set (ag_log (snd r)) \<and> verifiedRestore sampleHashes sceneNode replacement ''snap'' spec mf specText tar i fs)"
proof -
  obtain i objs fs where "(RestoreReq i, objs, fs) \<in> set (ag_log (snd (run_state (restore sampleHashes sceneNode replacement ''snap'') targetAgent)))"
    using scene_restores by (auto simp: list_ex_iff split: nodeReq.splits)
  with restored_into_recorded_consumer [OF surjective_pairing scene_start(2) this] scene_start(2) show ?thesis unfolding Let_def by blast
qed

lemma archive_round_trip_witness:
  "let b = run_state (restore sampleHashes sceneNode replacement ''snap'') targetAgent in fst b = Inr () \<and> intact sourceAgent \<and> reliable targetAgent \<and> lawful_hashes sampleHashes \<and>
     (\<exists>i objs fs. (RestoreReq i, objs, fs) \<in> set (ag_log (snd b)) \<and> ri_SpecJSON i = ''S'' \<and> ri_ImageName i = ''img'' \<and> fs (Join [''/w/snap'', ''checkpoint.tar'']) = Some ''T'')"
proof -
  have up: "run_state (run sampleHashes sceneNode ''snap'' ''ns'' sceneSpec) sourceAgent = (Inr (), snd (run_state (run sampleHashes sceneNode ''snap'' ''ns'' sceneSpec) sourceAgent))"
    using scene_uploads by (metis prod.collapse)
  have m: "int (length (MarshalManifest sampleHashes (manifestOf sampleHashes sceneNode ''snap'' sceneSpec ''img'' (Sha256 sampleHashes ''T'', int (length ''T''))
      (Sha256 sampleHashes ''S'') (ag_now sourceAgent)))) \<le> smallLimit" by code_simp
  have obj: "ag_objects targetAgent = ag_objects (snd (run_state (run sampleHashes sceneNode ''snap'' ''ns'' sceneSpec) sourceAgent))"
    by (simp add: targetAgent_def agentOf_def)
  have cons: "consumerOf targetAgent replacement ''snap'' sceneSpec"
  proof -
    have "store_get ps_Name (ag_snapshots targetAgent) ''snap'' = Some sceneSnapshot" "store_get pmj_Name (ag_jobs targetAgent) ''pmj'' = Some restoringJob"
      by (simp_all add: targetAgent_def agentOf_def store_get_def sceneSnapshot_def restoringJob_def jobOf_def)
    moreover have "readSnapshotSpec sceneSnapshot = Inr sceneSpec" "checkBinding replacement ''snap'' sceneSpec sceneSnapshot restoringJob = None"
      "mget (pod_Annotations replacement) AnnotationAssignedPMJ = ''pmj''" by code_simp+
    ultimately show ?thesis by (simp add: consumerOf_def)
  qed
  have dir: "Join [workDir sceneNode, ''snap''] = ''/w/snap''" "takeInt smallLimit ''S'' = ''S''" by code_simp+
  have sz: "int (length ''T'') \<le> maxDownloadBytes" "int (length ''S'') \<le> maxDownloadBytes" by (simp_all add: maxDownloadBytes_def)
  show ?thesis
    using archive_round_trip [OF up scene_start(1) scene_captured scene_start(3) sampleHashes_lawful sz m surjective_pairing scene_start(2) obj scene_start(4) cons disjI2 [OF disjI2 [OF refl]]]
      scene_start(3,4) sampleHashes_lawful
    unfolding Let_def dir by blast
qed

end
