(* ===== verification/SnapshotEngine.thy ===== *)
theory SnapshotEngine
  imports Archive Provider Preemption
begin

text \<open>
  The control plane of the CRIU engine (\<open>engines/criu/internal/psengine\<close>: \<open>contract/contract.go\<close>,
  \<open>psp_reconciler.go\<close>, \<open>psmt_reconciler.go\<close>, \<open>preflight.go\<close>) and the reconcilers of its node agent
  (\<open>pipeline.go\<close>, \<open>restore_node.go\<close>), on the \<open>agent\<close> of theory \<open>Archive\<close>.

  \<^item> The engine's own kinds are read from the API server, pods and nodes from a cache. Before each
    access to a snapshot the other clients may have changed it (\<open>ag_others\<close>); an update carries the resource version it was made from.
  \<^item> What the controller reads of these objects (theories \<open>Provider\<close> and \<open>Preemption\<close>) is what is written
    here: \<open>asStatus\<close> and \<open>asPolicy\<close> are the same objects in the controller's representation.
\<close>

section \<open>Definitions\<close>

subsection \<open>The contract\<close>

definition LabelEngine :: string where "LabelEngine = ''pod-migrate.io/engine''"
definition EngineCRIU :: string where "EngineCRIU = ''criu''"
definition CondScopeSingleContainer :: string where "CondScopeSingleContainer = ''ScopeSingleContainer''"
definition NodeReadyLabel :: string where "NodeReadyLabel = ''pod-migrate.io/criu-ready''"
definition ComponentLabel :: string where "ComponentLabel = ''pod-migrate.io/component''"
definition ComponentLabelValue :: string where "ComponentLabelValue = ''psengine''"

definition PodSnapshotName :: "string \<Rightarrow> string \<Rightarrow> string" where
  "PodSnapshotName podName podUID = ''ps-'' @ podName @ ''-'' @ ShortUID podUID"

definition GCSLocation :: "storageConfig \<Rightarrow> api_error + (string \<times> string)" where
  "GCSLocation pssc =
     (case sc_Bucket pssc of
        NestedStr b \<Rightarrow>
          if b = [] then Inl (failWith (''PSSC '' @ sc_Name pssc @ '': missing bucket''))
          else Inr (b, case sc_Path pssc of NestedStr p \<Rightarrow> p | _ \<Rightarrow> [])
      | _ \<Rightarrow> Inl (failWith (''PSSC '' @ sc_Name pssc @ '': missing bucket'')))"

definition PolicyStorageConfigName :: "enginePolicy \<Rightarrow> string option" where
  "PolicyStorageConfigName psp = (case ep_StorageConfigName psp of NestedStr n \<Rightarrow> if n = [] then None else Some n | _ \<Rightarrow> None)"

definition PolicyIsManualStop :: "enginePolicy \<Rightarrow> bool" where
  "PolicyIsManualStop psp = (ep_TriggerType psp = NestedStr ''manual'' \<and> ep_PostCheckpoint psp = NestedStr ''stop'')"

definition PolicySelector :: "kubelib \<Rightarrow> enginePolicy \<Rightarrow> (strmap \<Rightarrow> bool) option" where
  "PolicySelector K psp = (case ep_Selector psp of None \<Rightarrow> None | Some ls \<Rightarrow> LabelSelectorAsSelector K ls)"

definition TriggerTargetPod :: "trigger \<Rightarrow> string option" where
  "TriggerTargetPod psmt = (if tg_TargetPod psmt = [] then None else Some (tg_TargetPod psmt))"

definition TriggerSnapshotCreated :: "trigger \<Rightarrow> string" where
  "TriggerSnapshotCreated psmt = (case tg_SnapshotCreated psmt of NestedStr s \<Rightarrow> s | _ \<Rightarrow> [])"

definition SetTriggerSnapshotCreated :: "trigger \<Rightarrow> string \<Rightarrow> trigger" where
  "SetTriggerSnapshotCreated psmt name = psmt\<lparr>tg_SnapshotCreated := NestedStr name\<rparr>"

definition cond :: "string \<Rightarrow> cond_status \<Rightarrow> string \<Rightarrow> string \<Rightarrow> int \<Rightarrow> condition" where
  "cond ty st rsn msg gen = \<lparr>c_Type = ty, c_Status = st, c_Reason = rsn, c_Message = msg, c_ObservedGeneration = gen, c_LastTransitionTime = 0\<rparr>"

definition SetCondition :: "kubelib \<Rightarrow> time \<Rightarrow> condition list \<Rightarrow> condition \<Rightarrow> condition list" where
  "SetCondition K t cs c = fst (SetStatusCondition K t cs c)"

definition SetConditions :: "kubelib \<Rightarrow> time \<Rightarrow> engineSnapshot \<Rightarrow> condition list \<Rightarrow> engineSnapshot" where
  "SetConditions K t ps cs = ps\<lparr>ps_Conditions := foldl (SetCondition K t) (ps_Conditions ps) cs\<rparr>"

subsection \<open>The API server\<close>

definition others :: "unit act" where
  "others = modify (\<lambda>a. a\<lparr>ag_snapshots := ag_others a (ag_calls a) (ag_snapshots a)\<rparr>)"

definition getSnapshot :: "string \<Rightarrow> (api_error + engineSnapshot) act" where
  "getSnapshot name = do { _ \<leftarrow> others; get_podSnapshot name }"

definition createSnapshot :: "engineSnapshot \<Rightarrow> (api_error + unit) act" where
  "createSnapshot ps = do {
     _ \<leftarrow> others;
     attempt (\<lambda>a. case store_get ps_Name (ag_snapshots a) (ps_Name ps) of
         Some _ \<Rightarrow> (Inl (err AlreadyExists ''podsnapshot exists''), a)
       | None \<Rightarrow> (Inr (), a\<lparr>ag_snapshots := store_put ps_Name ps (ag_snapshots a), ag_writes := ag_writes a @ [(None, ps)]\<rparr>))
   }"

text \<open>\<open>Status().Update\<close>: only the status is written, and only over the version that was read.\<close>

definition updateSnapshotStatus :: "engineSnapshot \<Rightarrow> (api_error + unit) act" where
  "updateSnapshotStatus ps = do {
     _ \<leftarrow> others;
     attempt (\<lambda>a. case store_get ps_Name (ag_snapshots a) (ps_Name ps) of
         None \<Rightarrow> (Inl (err NotFound ''podsnapshot not found''), a)
       | Some l \<Rightarrow>
           if ps_ResourceVersion l \<noteq> ps_ResourceVersion ps then (Inl (err Conflict ''the object has been modified''), a)
           else let ps' = l\<lparr>ps_Conditions := ps_Conditions ps, ps_ResourceVersion := Suc (ps_ResourceVersion l)\<rparr> in
             (Inr (), a\<lparr>ag_snapshots := store_put ps_Name ps' (ag_snapshots a), ag_writes := ag_writes a @ [(Some l, ps')]\<rparr>))
   }"

definition getTrigger :: "string \<Rightarrow> (api_error + trigger) act" where
  "getTrigger name = attempt (\<lambda>a. (found ''podsnapshotmanualtrigger'' (store_get tg_Name (ag_triggers a) name), a))"

definition updateTriggerStatus :: "trigger \<Rightarrow> (api_error + unit) act" where
  "updateTriggerStatus psmt = attempt (\<lambda>a. case store_get tg_Name (ag_triggers a) (tg_Name psmt) of
       None \<Rightarrow> (Inl (err NotFound ''podsnapshotmanualtrigger not found''), a)
     | Some _ \<Rightarrow> (Inr (), a\<lparr>ag_triggers := store_put tg_Name psmt (ag_triggers a)\<rparr>))"

definition getPodCached :: "string \<Rightarrow> (api_error + pod) act" where
  "getPodCached name = attempt (\<lambda>a. (found ''pod'' (store_get pod_Name (ag_cachedPods a) name), a))"


definition getNodeCached :: "string \<Rightarrow> (api_error + engineNode) act" where
  "getNodeCached name = attempt (\<lambda>a. (found ''node'' (store_get nd_Name (ag_nodes a) name), a))"

definition getStorageConfig :: "string \<Rightarrow> (api_error + storageConfig) act" where
  "getStorageConfig name = attempt (\<lambda>a. (found ''podsnapshotstorageconfig'' (store_get sc_Name (ag_configs a) name), a))"

definition listPolicies :: "(api_error + enginePolicy list) act" where
  "listPolicies = attempt (\<lambda>a. (Inr (ag_policies a), a))"

definition getPolicy :: "string \<Rightarrow> (api_error + enginePolicy) act" where
  "getPolicy name = attempt (\<lambda>a. (found ''podsnapshotpolicy'' (store_get ep_Name (ag_policies a) name), a))"

definition updatePolicyStatus :: "enginePolicy \<Rightarrow> (api_error + unit) act" where
  "updatePolicyStatus psp = attempt (\<lambda>a. case store_get ep_Name (ag_policies a) (ep_Name psp) of
       None \<Rightarrow> (Inl (err NotFound ''podsnapshotpolicy not found''), a)
     | Some l \<Rightarrow> (Inr (), a\<lparr>ag_policies := store_put ep_Name (l\<lparr>ep_Conditions := ep_Conditions psp\<rparr>) (ag_policies a)\<rparr>))"

definition getCRD :: "string \<Rightarrow> (api_error + crd) act" where
  "getCRD name = attempt (\<lambda>a. (found ''customresourcedefinition'' (store_get crd_Name (ag_crds a) name), a))"

subsection \<open>Preflight\<close>

definition contractCRDs :: "string list" where
  "contractCRDs = [''podsnapshotstorageconfigs.podsnapshot.gke.io'', ''podsnapshotpolicies.podsnapshot.gke.io'',
     ''podsnapshotmanualtriggers.podsnapshot.gke.io'', ''podsnapshots.podsnapshot.gke.io'']"

definition ownerUnknown :: string where
  "ownerUnknown = ''; owner unknown (no addon markers found)''"

definition foreignManager :: "string \<Rightarrow> bool" where
  "foreignManager mgr = (let m = toLower mgr in contains m ''google'' \<or> contains m ''gke'' \<or> contains m ''addon'')"

definition describeForeignOwner :: "crd \<Rightarrow> string" where
  "describeForeignOwner c =
     (case crd_Labels c ''addonmanager.kubernetes.io/mode'' of
        Some mode \<Rightarrow> ''; owner looks like the managed GKE Pod Snapshots addon (addonmanager.kubernetes.io/mode='' @ mode @ '')''
      | None \<Rightarrow>
          (case crd_Labels c ''app.kubernetes.io/managed-by'' of
             Some by \<Rightarrow> ''; owner: app.kubernetes.io/managed-by='' @ by
           | None \<Rightarrow>
               (case find foreignManager (crd_Managers c) of
                  Some m \<Rightarrow> ''; owner looks like the managed GKE addon (field manager '' @ m @ '')''
                | None \<Rightarrow> ownerUnknown)))"

fun verifyCRDs :: "string list \<Rightarrow> (api_error + unit) act" where
  "verifyCRDs [] = State_Monad.return (Inr ())"
| "verifyCRDs (name # names) = do {
     g \<leftarrow> getCRD name;
     (case g of
        Inl e \<Rightarrow>
          State_Monad.return (Inl (if isNotFound e then failWith (''preflight: CRD '' @ name @ '' not installed'')
            else wrapErr (''preflight: reading CRD '' @ name) e))
      | Inr c \<Rightarrow>
          if mget (crd_Labels c) ComponentLabel \<noteq> ComponentLabelValue
          then State_Monad.return (Inl (failWith (''preflight: CRD '' @ name @ '' exists but is not ours'' @ describeForeignOwner c)))
          else if describeForeignOwner c \<noteq> ownerUnknown
          then State_Monad.return (Inl (failWith (''preflight: CRD '' @ name @ '' has our component label but also carries foreign markers'' @ describeForeignOwner c)))
          else verifyCRDs names)
   }"

definition VerifyCRDOwnership :: "(api_error + unit) act" where
  "VerifyCRDOwnership = verifyCRDs contractCRDs"

subsection \<open>Policies\<close>

type_synonym prober = "(string \<Rightarrow> string \<Rightarrow> (api_error + unit) act) option"

definition resolvePSSC :: "string \<Rightarrow> (api_error + (string \<times> string)) act" where
  "resolvePSSC name = do {
     g \<leftarrow> getStorageConfig name;
     State_Monad.return (case g of
       Inl e \<Rightarrow> Inl (wrapErr (''storageConfigName '' @ name) e)
     | Inr pssc \<Rightarrow> GCSLocation pssc)
   }"

definition probeWith :: "prober \<Rightarrow> string \<Rightarrow> string \<Rightarrow> (api_error + unit) act" where
  "probeWith probe bucket path = (case probe of None \<Rightarrow> State_Monad.return (Inr ()) | Some f \<Rightarrow> f bucket path)"

definition validatePolicy :: "kubelib \<Rightarrow> prober \<Rightarrow> enginePolicy \<Rightarrow> (bool \<times> string \<times> string) act" where
  "validatePolicy K probe psp =
     (if \<not> PolicyIsManualStop psp then State_Monad.return (False, ''UnsupportedTrigger'', ''criu engine serves only triggerConfig {type: manual, postCheckpoint: stop}'')
      else if PolicySelector K psp = None then State_Monad.return (False, ''InvalidSelector'', ''spec.selector does not parse'')
      else case PolicyStorageConfigName psp of
        None \<Rightarrow> State_Monad.return (False, ''MissingStorageConfig'', ''spec.storageConfigName is empty'')
      | Some scName \<Rightarrow> do {
          r \<leftarrow> resolvePSSC scName;
          (case r of
             Inl e \<Rightarrow> State_Monad.return (False, ''StorageConfigUnresolved'', ae_text e)
           | Inr (bucket, path) \<Rightarrow> do {
               p \<leftarrow> probeWith probe bucket path;
               State_Monad.return (case p of
                 Inl e \<Rightarrow> (False, ''StorageUnwritable'', ''gs://'' @ bucket @ ''/'' @ path @ '': '' @ ae_text e)
               | Inr _ \<Rightarrow> (True, ''Serviceable'', ''criu engine will serve this policy (archives to gs://'' @ bucket @ ''/'' @ path @ '')''))
             })
        })"

definition sameCondition :: "condition \<Rightarrow> condition \<Rightarrow> bool" where
  "sameCondition a b = (c_Type a = c_Type b \<and> c_Status a = c_Status b \<and> c_Reason a = c_Reason b \<and> c_Message a = c_Message b \<and>
     c_ObservedGeneration a = c_ObservedGeneration b)"

definition conditionsEqual :: "condition list \<Rightarrow> condition list \<Rightarrow> bool" where
  "conditionsEqual a b = (length a = length b \<and> list_all2 sameCondition a b)"

definition policyConditions :: "kubelib \<Rightarrow> time \<Rightarrow> enginePolicy \<Rightarrow> bool \<times> string \<times> string \<Rightarrow> condition list" where
  "policyConditions K t psp v =
     (case v of (ready, rsn, msg) \<Rightarrow>
        foldl (SetCondition K t) (ep_Conditions psp)
          [cond CondReady (if ready then CondTrue else CondFalse) rsn msg (ep_Generation psp),
           cond CondScopeSingleContainer CondTrue ''V1Scope'' ''criu engine v1 serves single-container runc pods on criu-ready nodes'' (ep_Generation psp)])"

definition PSP_Reconcile :: "kubelib \<Rightarrow> prober \<Rightarrow> string \<Rightarrow> (api_error + result) act" where
  "PSP_Reconcile K probe name = do {
     g \<leftarrow> getPolicy name;
     (case g of
        Inl e \<Rightarrow> State_Monad.return (if isNotFound e then Inr no_requeue else Inl e)
      | Inr psp \<Rightarrow>
          if mget (ep_Labels psp) LabelEngine \<noteq> EngineCRIU then State_Monad.return (Inr no_requeue)
          else do {
            v \<leftarrow> validatePolicy K probe psp;
            t \<leftarrow> now;
            let cs = policyConditions K t psp v;
            if conditionsEqual (ep_Conditions psp) cs then State_Monad.return (Inr no_requeue)
            else do {
              u \<leftarrow> updatePolicyStatus (psp\<lparr>ep_Conditions := cs\<rparr>);
              State_Monad.return (case u of Inl e \<Rightarrow> Inl e | Inr _ \<Rightarrow> Inr no_requeue)
            }
          })
   }"

subsection \<open>Manual triggers\<close>

record checkpointRequest =
  cq_Namespace :: string
  cq_PodName :: string
  cq_PodUID :: string
  cq_Container :: string
  cq_NodeName :: string
  cq_SnapshotName :: string
  cq_Bucket :: string
  cq_Path :: string

type_synonym checkpointer = "(checkpointRequest \<Rightarrow> (api_error + unit) act) option"

definition hasReadyTrue :: "condition list \<Rightarrow> bool" where
  "hasReadyTrue cs = list_ex (\<lambda>c. c_Type c = CondReady \<and> c_Status c = CondTrue) cs"

definition servesPod :: "kubelib \<Rightarrow> strmap \<Rightarrow> enginePolicy \<Rightarrow> bool" where
  "servesPod K podLabels psp =
     (mget (ep_Labels psp) LabelEngine = EngineCRIU \<and> hasReadyTrue (ep_Conditions psp) \<and> PolicyIsManualStop psp \<and>
      (case PolicySelector K psp of None \<Rightarrow> False | Some sel \<Rightarrow> sel podLabels))"

definition matchingEnginePSP :: "kubelib \<Rightarrow> strmap \<Rightarrow> (api_error + enginePolicy option) act" where
  "matchingEnginePSP K podLabels = do {
     l \<leftarrow> listPolicies;
     State_Monad.return (case l of Inl e \<Rightarrow> Inl e | Inr psps \<Rightarrow> Inr (find (servesPod K podLabels) psps))
   }"

definition storageFor :: "enginePolicy \<Rightarrow> (api_error + (string \<times> string)) act" where
  "storageFor psp =
     (case PolicyStorageConfigName psp of
        None \<Rightarrow> State_Monad.return (Inl (failWith (''PSP '' @ ep_Name psp @ '' has no storageConfigName'')))
      | Some scName \<Rightarrow> do {
          g \<leftarrow> getStorageConfig scName;
          State_Monad.return (case g of Inl e \<Rightarrow> Inl e | Inr pssc \<Rightarrow> GCSLocation pssc)
        })"

definition refusalReason :: "pod \<Rightarrow> string act" where
  "refusalReason p =
     (if mget (pod_Labels p) LabelEnabled \<noteq> ''true'' then State_Monad.return ''pod is not opted in (pod-migration.gke.io/enabled != true)''
      else if length (pod_Containers p) \<noteq> 1 then State_Monad.return ''multi-container pods unsupported by criu engine v1''
      else if pod_NodeName p = [] then State_Monad.return ''pod is not scheduled''
      else do {
        g \<leftarrow> getNodeCached (pod_NodeName p);
        State_Monad.return (case g of
          Inl e \<Rightarrow> ''cannot resolve node '' @ pod_NodeName p @ '': '' @ ae_text e
        | Inr nd \<Rightarrow>
            if mget (nd_Annotations nd) NodeReadyLabel \<noteq> ''true'' then ''node '' @ pod_NodeName p @ '' is not criu-ready'' else [])
      })"

definition patchSnapshotConditions :: "kubelib \<Rightarrow> string \<Rightarrow> condition list \<Rightarrow> (api_error + unit) act" where
  "patchSnapshotConditions K name conds = do {
     g \<leftarrow> getSnapshot name;
     (case g of
        Inl e \<Rightarrow> State_Monad.return (Inl e)
      | Inr ps \<Rightarrow>
          if IsSnapshotReady ps \<or> hasTerminalCheckpoint ps then State_Monad.return (Inr ())
          else do { t \<leftarrow> now; updateSnapshotStatus (SetConditions K t ps conds) })
   }"

definition terminalConditions :: "cond_status \<Rightarrow> string \<Rightarrow> string \<Rightarrow> condition list" where
  "terminalConditions st rsn msg = [cond CondCheckpoint st rsn msg 0, cond CondReady st rsn msg 0]"

definition pendingConditions :: "string \<Rightarrow> condition list" where
  "pendingConditions msg = [cond CondCheckpoint CondUnknown ReasonPending msg 0]"

definition setSnapshotTerminal :: "kubelib \<Rightarrow> string \<Rightarrow> string \<Rightarrow> string \<Rightarrow> (api_error + unit) act" where
  "setSnapshotTerminal K name rsn msg = patchSnapshotConditions K name (terminalConditions CondFalse rsn msg)"

definition setSnapshotPending :: "kubelib \<Rightarrow> string \<Rightarrow> string \<Rightarrow> (api_error + unit) act" where
  "setSnapshotPending K name msg = patchSnapshotConditions K name (pendingConditions msg)"

text \<open>The new snapshot; only an eligible pod whose storage is known gets a bucket.\<close>

definition workOrder :: "pod \<Rightarrow> string \<Rightarrow> api_error + (string \<times> string) \<Rightarrow> strmap" where
  "workOrder p refusal storage =
     (let m = [''sourcePod'' \<mapsto> pod_Name p, ''sourcePodUID'' \<mapsto> pod_UID p, ''nodeName'' \<mapsto> pod_NodeName p];
          m' = (case pod_Containers p of [] \<Rightarrow> m | c # _ \<Rightarrow> m(''container'' \<mapsto> ct_Name c)) in
      case storage of
        Inr (bucket, path) \<Rightarrow> if refusal = [] then m'(''bucket'' \<mapsto> bucket, ''path'' \<mapsto> path) else m'
      | Inl _ \<Rightarrow> m')"

definition newSnapshot :: "pod \<Rightarrow> string \<Rightarrow> api_error + (string \<times> string) \<Rightarrow> engineSnapshot" where
  "newSnapshot p refusal storage =
     \<lparr>ps_Name = PodSnapshotName (pod_Name p) (pod_UID p), ps_Labels = [LabelEngine \<mapsto> EngineCRIU], ps_Spec = workOrder p refusal storage,
      ps_Conditions = [], ps_ResourceVersion = 1\<rparr>"

definition materialize :: "engineSnapshot \<Rightarrow> (api_error + unit) act" where
  "materialize ps = do {
     g \<leftarrow> getSnapshot (ps_Name ps);
     (case g of
        Inr _ \<Rightarrow> State_Monad.return (Inr ())
      | Inl e \<Rightarrow>
          if isNotFound e then do {
            c \<leftarrow> createSnapshot ps;
            State_Monad.return (case c of Inl e' \<Rightarrow> if ae_reason e' = AlreadyExists then Inr () else Inl e' | Inr _ \<Rightarrow> Inr ())
          }
          else State_Monad.return (Inl e))
   }"

definition answerTrigger :: "trigger \<Rightarrow> string \<Rightarrow> (api_error + unit) act" where
  "answerTrigger psmt snapshotName =
     (if TriggerSnapshotCreated psmt \<noteq> snapshotName then updateTriggerStatus (SetTriggerSnapshotCreated psmt snapshotName)
      else State_Monad.return (Inr ()))"

definition handOff :: "kubelib \<Rightarrow> checkpointer \<Rightarrow> pod \<Rightarrow> string \<Rightarrow> string \<Rightarrow> api_error + (string \<times> string) \<Rightarrow> (api_error + result) act" where
  "handOff K chk p snapshotName refusal storage =
     (if refusal \<noteq> [] then do {
        r \<leftarrow> setSnapshotTerminal K snapshotName ReasonRefused refusal;
        State_Monad.return (map_sum id (\<lambda>_. no_requeue) r)
      }
      else case storage of
        Inl e \<Rightarrow> do {
          r \<leftarrow> setSnapshotTerminal K snapshotName ReasonFailed (''resolving storage: '' @ ae_text e);
          State_Monad.return (map_sum id (\<lambda>_. no_requeue) r)
        }
      | Inr (bucket, path) \<Rightarrow>
          (case chk of
             Some f \<Rightarrow> do {
               c \<leftarrow> f \<lparr>cq_Namespace = pod_Namespace p, cq_PodName = pod_Name p, cq_PodUID = pod_UID p, cq_Container = ct_Name (hd (pod_Containers p)),
                 cq_NodeName = pod_NodeName p, cq_SnapshotName = snapshotName, cq_Bucket = bucket, cq_Path = path\<rparr>;
               (case c of
                  Inl e \<Rightarrow> do {
                    r \<leftarrow> setSnapshotTerminal K snapshotName ReasonFailed (ae_text e);
                    State_Monad.return (map_sum id (\<lambda>_. no_requeue) r)
                  }
                | Inr _ \<Rightarrow> State_Monad.return (Inr \<lparr>Requeue = False, RequeueAfter = 30 * second\<rparr>))
             }
           | None \<Rightarrow> do {
               r \<leftarrow> setSnapshotPending K snapshotName (''awaiting node agent on '' @ pod_NodeName p);
               State_Monad.return (map_sum id (\<lambda>_. \<lparr>Requeue = False, RequeueAfter = 30 * second\<rparr>) r)
             }))"

definition concludeTrigger :: "kubelib \<Rightarrow> checkpointer \<Rightarrow> trigger \<Rightarrow> pod \<Rightarrow> string \<Rightarrow> api_error + (string \<times> string) \<Rightarrow> (api_error + result) act" where
  "concludeTrigger K chk psmt p refusal storage = do {
     let snapshotName = PodSnapshotName (pod_Name p) (pod_UID p);
     u \<leftarrow> answerTrigger psmt snapshotName;
     (case u of Inl e \<Rightarrow> State_Monad.return (Inl e) | Inr _ \<Rightarrow> handOff K chk p snapshotName refusal storage)
   }"

definition orderSnapshot :: "kubelib \<Rightarrow> checkpointer \<Rightarrow> trigger \<Rightarrow> pod \<Rightarrow> string \<Rightarrow> api_error + (string \<times> string) \<Rightarrow> (api_error + result) act" where
  "orderSnapshot K chk psmt p refusal storage = do {
     m \<leftarrow> materialize (newSnapshot p refusal storage);
     (case m of Inl e \<Rightarrow> State_Monad.return (Inl e) | Inr _ \<Rightarrow> concludeTrigger K chk psmt p refusal storage)
   }"

definition serveTrigger :: "kubelib \<Rightarrow> checkpointer \<Rightarrow> trigger \<Rightarrow> pod \<Rightarrow> enginePolicy \<Rightarrow> (api_error + result) act" where
  "serveTrigger K chk psmt p psp = do {
     refusal \<leftarrow> refusalReason p;
     storage \<leftarrow> storageFor psp;
     orderSnapshot K chk psmt p refusal storage
   }"

definition PSMT_Reconcile :: "kubelib \<Rightarrow> checkpointer \<Rightarrow> string \<Rightarrow> (api_error + result) act" where
  "PSMT_Reconcile K chk name = do {
     g \<leftarrow> getTrigger name;
     (case g of
        Inl e \<Rightarrow> State_Monad.return (if isNotFound e then Inr no_requeue else Inl e)
      | Inr psmt \<Rightarrow>
          (case TriggerTargetPod psmt of
             None \<Rightarrow> State_Monad.return (Inr no_requeue)
           | Some podName \<Rightarrow> do {
               h \<leftarrow> getPodCached podName;
               (case h of
                  Inl e \<Rightarrow> State_Monad.return (if isNotFound e then Inr no_requeue else Inl e)
                | Inr p \<Rightarrow> do {
                    m \<leftarrow> matchingEnginePSP K (pod_Labels p);
                    (case m of
                       Inl e \<Rightarrow> State_Monad.return (Inl e)
                     | Inr None \<Rightarrow> State_Monad.return (Inr no_requeue)
                     | Inr (Some psp) \<Rightarrow> serveTrigger K chk psmt p psp)
                  })
             }))
   }"

subsection \<open>The node agent\<close>

definition loadOrStore :: "string \<Rightarrow> bool act" where
  "loadOrStore key = do {
     l \<leftarrow> gets ag_inflight;
     if key \<in> set l then State_Monad.return True
     else do { _ \<leftarrow> modify (\<lambda>a. a\<lparr>ag_inflight := key # ag_inflight a\<rparr>); State_Monad.return False }
   }"

definition deleteKey :: "string \<Rightarrow> unit act" where
  "deleteKey key = modify (\<lambda>a. a\<lparr>ag_inflight := filter (\<lambda>k. k \<noteq> key) (ag_inflight a)\<rparr>)"

definition truncateMsg :: "string \<Rightarrow> int \<Rightarrow> string" where
  "truncateMsg s n = (if int (length s) \<le> n then s else takeInt n s @ [CHR 0xE2, CHR 0x80, CHR 0xA6])"

definition finish :: "kubelib \<Rightarrow> string \<Rightarrow> string \<Rightarrow> string \<Rightarrow> (api_error + unit) act" where
  "finish K name rsn msg = do {
     g \<leftarrow> getSnapshot name;
     (case g of
        Inl e \<Rightarrow> State_Monad.return (if isNotFound e then Inr () else Inl e)
      | Inr ps \<Rightarrow> do {
          t \<leftarrow> now;
          updateSnapshotStatus (SetConditions K t ps (terminalConditions (if rsn = ReasonSucceeded then CondTrue else CondFalse) rsn msg))
        })
   }"

definition finishPass :: "kubelib \<Rightarrow> string \<Rightarrow> string \<Rightarrow> string \<Rightarrow> (api_error + result) act" where
  "finishPass K name rsn msg = do { r \<leftarrow> finish K name rsn msg; State_Monad.return (map_sum id (\<lambda>_. no_requeue) r) }"

definition concludeRun :: "kubelib \<Rightarrow> string \<Rightarrow> api_error + unit \<Rightarrow> (api_error + result) act" where
  "concludeRun K name x =
     (case x of
        Inl e \<Rightarrow> finishPass K name ReasonFailed (truncateMsg (ae_text e) 1500)
      | Inr _ \<Rightarrow> finishPass K name ReasonSucceeded ''archive uploaded + verified; source container stopped'')"

definition runOnce :: "hashlib \<Rightarrow> kubelib \<Rightarrow> nodeAgent \<Rightarrow> string \<Rightarrow> string \<Rightarrow> snapshotSpec \<Rightarrow> (api_error + result) act" where
  "runOnce C K A ns name spec = do {
     busy \<leftarrow> loadOrStore (''snapshot/'' @ name);
     if busy then State_Monad.return (Inr \<lparr>Requeue = False, RequeueAfter = 5 * second\<rparr>)
     else do {
       x \<leftarrow> run C A name ns spec;
       r \<leftarrow> concludeRun K name x;
       _ \<leftarrow> deleteKey (''snapshot/'' @ name);
       State_Monad.return r
     }
   }"

definition NodeSnapshot_Reconcile :: "hashlib \<Rightarrow> kubelib \<Rightarrow> nodeAgent \<Rightarrow> string \<Rightarrow> string \<Rightarrow> (api_error + result) act" where
  "NodeSnapshot_Reconcile C K A ns name = do {
     g \<leftarrow> getSnapshot name;
     (case g of
        Inl e \<Rightarrow> State_Monad.return (if isNotFound e then Inr no_requeue else Inl e)
      | Inr ps \<Rightarrow>
          if mget (ps_Labels ps) LabelEngine \<noteq> EngineCRIU then State_Monad.return (Inr no_requeue)
          else if IsSnapshotReady ps \<or> hasTerminalCheckpoint ps then State_Monad.return (Inr no_requeue)
          else (case readSnapshotSpec ps of
              Inl e \<Rightarrow> finishPass K name ReasonFailed (ae_text e)
            | Inr spec \<Rightarrow>
                if ss_NodeName spec \<noteq> na_NodeName A then State_Monad.return (Inr no_requeue)
                else runOnce C K A ns (ps_Name ps) spec))
   }"




section \<open>Lemmas\<close>

subsection \<open>Frames\<close>

text \<open>
  The laws of the surroundings: a snapshot changed by another client has a later resource
  version; \<open>meta.SetStatusCondition\<close> replaces the condition of its type or appends it.
\<close>

definition lawfulOthers :: "(nat \<Rightarrow> engineSnapshot list \<Rightarrow> engineSnapshot list) \<Rightarrow> bool" where
  "lawfulOthers f \<longleftrightarrow> (\<forall>n S name ps ps'. store_get ps_Name S name = Some ps \<longrightarrow> store_get ps_Name (f n S) name = Some ps' \<longrightarrow>
     ps' = ps \<or> ps_ResourceVersion ps < ps_ResourceVersion ps')"

lemma lawfulOthersD:
  "lawfulOthers f \<Longrightarrow> store_get ps_Name S name = Some ps \<Longrightarrow> store_get ps_Name (f n S) name = Some ps' \<Longrightarrow> ps' = ps \<or> ps_ResourceVersion ps < ps_ResourceVersion ps'"
  unfolding lawfulOthers_def by blast

definition lawful_upsert :: "kubelib \<Rightarrow> bool" where
  "lawful_upsert K \<longleftrightarrow> (\<forall>now cs c. map c_Type (fst (SetStatusCondition K now cs c)) =
     (if c_Type c \<in> set (map c_Type cs) then map c_Type cs else map c_Type cs @ [c_Type c]))"

text \<open>Between two states, only the snapshots of others have changed; or some were written, all with \<open>W\<close>.\<close>

definition still :: "agent \<Rightarrow> agent \<Rightarrow> bool" where
  "still a a' \<longleftrightarrow> ag_now a' = ag_now a \<and> ag_others a' = ag_others a \<and> ag_nodes a' = ag_nodes a \<and> ag_configs a' = ag_configs a \<and>
     ag_policies a' = ag_policies a \<and> ag_cachedPods a' = ag_cachedPods a \<and> ag_triggers a' = ag_triggers a \<and> ag_writes a' = ag_writes a \<and>
     ag_objects a' = ag_objects a \<and> ag_log a' = ag_log a \<and> ag_answers a' = ag_answers a \<and> ag_node a' = ag_node a \<and> ag_recorded a' = ag_recorded a"

definition wroteOnly :: "(engineSnapshot option \<times> engineSnapshot \<Rightarrow> bool) \<Rightarrow> agent \<Rightarrow> agent \<Rightarrow> bool" where
  "wroteOnly W a a' \<longleftrightarrow> ag_answers a' = ag_answers a \<and> ag_others a' = ag_others a \<and> ag_now a' = ag_now a \<and> ag_objects a' = ag_objects a \<and> (\<exists>l. ag_writes a' = ag_writes a @ l \<and> (\<forall>w \<in> set l. W w))"

lemma still_refl [simp]: "still a a"
  by (simp add: still_def)

lemma still_trans: "still a a' \<Longrightarrow> still a' a'' \<Longrightarrow> still a a''"
  by (simp add: still_def)

lemma wroteOnly_still: "still a a' \<Longrightarrow> wroteOnly W a a'"
  by (simp add: still_def wroteOnly_def)

lemma wroteOnly_trans: "wroteOnly W a a' \<Longrightarrow> wroteOnly W a' a'' \<Longrightarrow> wroteOnly W a a''"
  by (auto simp: wroteOnly_def)

lemma wroteOnly_after: "still a a' \<Longrightarrow> wroteOnly W a' a'' \<Longrightarrow> wroteOnly W a a''"
  by (simp add: still_def wroteOnly_def)

lemma wp_read:
  assumes "\<And>e a'. still a a' \<Longrightarrow> Q (Inl e) a'" and "\<And>a'. still a a' \<Longrightarrow> a' = a\<lparr>ag_calls := Suc (ag_calls a)\<rparr> \<Longrightarrow> Q (f a') a'"
  shows "wp (attempt (\<lambda>a. (f a, a))) Q a"
  using assms by (auto simp: wp_def attempt_def Let_def still_def split: fault.splits)

lemma wp_others: "wp others Q a = Q () (a\<lparr>ag_snapshots := ag_others a (ag_calls a) (ag_snapshots a)\<rparr>)"
  by (simp add: others_def wp_modify)

lemma wp_getSnapshot:
  assumes "\<And>e a'. still a a' \<Longrightarrow> Q (Inl e) a'" and "\<And>ps a'. still a a' \<Longrightarrow> store_get ps_Name (ag_snapshots a') name = Some ps \<Longrightarrow>
      ag_snapshots a' = ag_others a (ag_calls a) (ag_snapshots a) \<Longrightarrow> Q (Inr ps) a'"
  shows "wp (getSnapshot name) Q a"
  unfolding getSnapshot_def wp_bind wp_others get_podSnapshot_def
proof (rule wp_read)
  fix a' assume *: "still (a\<lparr>ag_snapshots := ag_others a (ag_calls a) (ag_snapshots a)\<rparr>) a'"
    "a' = a\<lparr>ag_snapshots := ag_others a (ag_calls a) (ag_snapshots a), ag_calls := Suc (ag_calls (a\<lparr>ag_snapshots := ag_others a (ag_calls a) (ag_snapshots a)\<rparr>))\<rparr>"
  then have "still a a'" "ag_snapshots a' = ag_others a (ag_calls a) (ag_snapshots a)" by (simp_all add: still_def)
  with assms show "Q (found ''podsnapshot'' (store_get ps_Name (ag_snapshots a') name)) a'" by (auto simp: found_def split: option.splits)
qed (use assms(1) in \<open>simp add: still_def\<close>)

lemma wp_updateSnapshotStatus:
  assumes "\<And>e a'. still a a' \<Longrightarrow> Q (Inl e) a'"
    and "\<And>l x a'. store_get ps_Name (ag_others a (ag_calls a) (ag_snapshots a)) (ps_Name ps) = Some l \<Longrightarrow> ps_ResourceVersion l = ps_ResourceVersion ps \<Longrightarrow>
      ag_writes a' = ag_writes a @ [(Some l, l\<lparr>ps_Conditions := ps_Conditions ps, ps_ResourceVersion := Suc (ps_ResourceVersion l)\<rparr>)] \<Longrightarrow>
      ag_others a' = ag_others a \<Longrightarrow> ag_now a' = ag_now a \<Longrightarrow> ag_objects a' = ag_objects a \<Longrightarrow> ag_answers a' = ag_answers a \<Longrightarrow> Q x a'"
  shows "wp (updateSnapshotStatus ps) Q a"
  unfolding updateSnapshotStatus_def wp_bind wp_others
  using assms by (auto simp: wp_def attempt_def Let_def still_def split: fault.splits option.splits)

text \<open>A status that is computed from the snapshot just read is written over exactly that version.\<close>

lemma wp_readModifyWrite:
  assumes "lawfulOthers (ag_others a)" and "\<And>x a'. still a a' \<Longrightarrow> Q x a'"
    and "\<And>ps x a'. \<not> P ps \<Longrightarrow> ps_Name ps = name \<Longrightarrow> store_get ps_Name (ag_others a (ag_calls a) (ag_snapshots a)) name = Some ps \<Longrightarrow> ag_writes a' = ag_writes a @ [(Some ps, (SetConditions K (ag_now a) ps cs)\<lparr>ps_ResourceVersion := Suc (ps_ResourceVersion ps)\<rparr>)] \<Longrightarrow>
      ag_others a' = ag_others a \<Longrightarrow> ag_now a' = ag_now a \<Longrightarrow> ag_objects a' = ag_objects a \<Longrightarrow> ag_answers a' = ag_answers a \<Longrightarrow> Q x a'"
  shows "wp (getSnapshot name) (\<lambda>g. wp (case g of Inl e \<Rightarrow> State_Monad.return (h e)
    | Inr ps \<Rightarrow> if P ps then State_Monad.return (Inr ()) else do { t \<leftarrow> now; updateSnapshotStatus (SetConditions K t ps cs) }) Q) a"
proof (rule wp_getSnapshot, goal_cases)
  case (1 e a')
  then show ?case using assms(2) by (simp add: wp_return)
next
  case (2 ps a')
  have nm: "ps_Name ps = name" by (rule store_get_key [OF 2(2), THEN conjunct1])
  have read: "store_get ps_Name (ag_others a (ag_calls a) (ag_snapshots a)) name = Some ps" using 2(2,3) by simp
  have same: "l = ps" if "store_get ps_Name (ag_others a' (ag_calls a') (ag_snapshots a')) (ps_Name ps) = Some l" "ps_ResourceVersion l = ps_ResourceVersion ps" for l
  proof -
    have "l = ps \<or> ps_ResourceVersion ps < ps_ResourceVersion l"
      using lawfulOthersD [OF assms(1) 2(2)] 2(1) that(1) nm by (simp add: still_def)
    with that(2) show ?thesis by simp
  qed
  have upd: "wp (updateSnapshotStatus (SetConditions K (ag_now a) ps cs)) Q a'" if "\<not> P ps"
  proof (rule wp_updateSnapshotStatus, goal_cases)
    case (1 e a'')
    then show ?case using assms(2) still_trans [OF 2(1)] by blast
  next
    case (2 l x a'')
    have l: "l = ps" by (rule same) (use 2(1,2) in \<open>simp_all add: SetConditions_def\<close>)
    show ?case
      by (rule assms(3) [OF that nm]) (use 2(3-) l read \<open>still a a'\<close> in \<open>simp_all add: still_def SetConditions_def\<close>)
  qed
  show ?case using assms(2) [OF 2(1)] upd 2(1) by (simp add: wp_simps now_def still_def)
qed

subsection \<open>What is written\<close>

definition unfinished :: "engineSnapshot \<Rightarrow> bool" where
  "unfinished ps \<longleftrightarrow> \<not> IsSnapshotReady ps \<and> \<not> hasTerminalCheckpoint ps"

text \<open>A snapshot with its new conditions.\<close>

definition nextStatus :: "kubelib \<Rightarrow> time \<Rightarrow> condition list \<Rightarrow> engineSnapshot \<Rightarrow> engineSnapshot \<Rightarrow> bool" where
  "nextStatus K t conds ps ps' \<longleftrightarrow> ps' = (SetConditions K t ps conds)\<lparr>ps_ResourceVersion := Suc (ps_ResourceVersion ps)\<rparr>"

definition controlConds :: "condition list \<Rightarrow> bool" where
  "controlConds cs \<longleftrightarrow> (\<exists>msg. cs = pendingConditions msg) \<or> (\<exists>rsn msg. rsn \<in> {ReasonRefused, ReasonFailed} \<and> cs = terminalConditions CondFalse rsn msg)"

lemma wp_patch:
  assumes "lawfulOthers (ag_others a)" and W: "\<And>ps ps'. unfinished ps \<Longrightarrow> nextStatus K (ag_now a) conds ps ps' \<Longrightarrow> W (Some ps, ps')"
  shows "wp (patchSnapshotConditions K name conds) (\<lambda>_ a'. wroteOnly W a a') a"
  unfolding patchSnapshotConditions_def wp_bind
  by (rule wp_readModifyWrite [OF assms(1)]) (use W wroteOnly_still in \<open>auto simp: wroteOnly_def unfinished_def nextStatus_def\<close>)

lemma wp_finish:
  assumes "lawfulOthers (ag_others a)"
    and W: "\<And>ps ps'. ps_Name ps = name \<Longrightarrow> store_get ps_Name (ag_others a (ag_calls a) (ag_snapshots a)) name = Some ps \<Longrightarrow> nextStatus K (ag_now a) (terminalConditions (if rsn = ReasonSucceeded then CondTrue else CondFalse) rsn msg) ps ps' \<Longrightarrow> W (Some ps, ps')"
  shows "wp (finish K name rsn msg) (\<lambda>_ a'. wroteOnly W a a') a"
proof -
  have "wp (getSnapshot name) (\<lambda>g. wp (case g of Inl e \<Rightarrow> State_Monad.return (if isNotFound e then Inr () else Inl e)
    | Inr ps \<Rightarrow> if False then State_Monad.return (Inr ()) else do { t \<leftarrow> now;
        updateSnapshotStatus (SetConditions K t ps (terminalConditions (if rsn = ReasonSucceeded then CondTrue else CondFalse) rsn msg)) }) (\<lambda>_ a'. wroteOnly W a a')) a"
    by (rule wp_readModifyWrite [OF assms(1)]) (use W wroteOnly_still in \<open>auto simp: wroteOnly_def nextStatus_def\<close>)
  then show ?thesis unfolding finish_def wp_bind if_False .
qed

subsection \<open>Work orders\<close>

definition eligible :: "agent \<Rightarrow> pod \<Rightarrow> bool" where
  "eligible a p \<longleftrightarrow> mget (pod_Labels p) LabelEnabled = ''true'' \<and> (\<exists>c. pod_Containers p = [c]) \<and>
     (\<exists>nd. store_get nd_Name (ag_nodes a) (pod_NodeName p) = Some nd \<and> mget (nd_Annotations nd) NodeReadyLabel = ''true'')"

definition storedAt :: "agent \<Rightarrow> enginePolicy \<Rightarrow> string \<Rightarrow> string \<Rightarrow> bool" where
  "storedAt a psp bucket path \<longleftrightarrow> (\<exists>n sc. PolicyStorageConfigName psp = Some n \<and> store_get sc_Name (ag_configs a) n = Some sc \<and> GCSLocation sc = Inr (bucket, path))"

lemma wp_refusalReason: "wp (refusalReason p) (\<lambda>r a'. still a a' \<and> (r = [] \<longrightarrow> eligible a p)) a"
proof -
  have node: "wp (getNodeCached (pod_NodeName p)) (\<lambda>g a'. still a a' \<and> (\<forall>nd. g = Inr nd \<longrightarrow> store_get nd_Name (ag_nodes a) (pod_NodeName p) = Some nd)) a"
    unfolding getNodeCached_def by (rule wp_read) (auto simp: found_def split: option.splits)
  have one: "\<exists>c. pod_Containers p = [c]" if "length (pod_Containers p) = 1" using that by (cases "pod_Containers p") auto
  show ?thesis unfolding refusalReason_def
  proof (split if_splits, intro conjI impI, simp add: wp_return, split if_splits, intro conjI impI, simp add: wp_return, split if_splits, intro conjI impI, simp add: wp_return, goal_cases)
    case 1
    then show ?case unfolding wp_bind
      by (intro wp_mono [OF node]) (use one in \<open>auto simp: wp_return eligible_def split: sum.splits if_splits\<close>)
  qed
qed

lemma wp_storageFor: "wp (storageFor psp) (\<lambda>r a'. still a a' \<and> (\<forall>b q. r = Inr (b, q) \<longrightarrow> storedAt a psp b q)) a"
proof (cases "PolicyStorageConfigName psp")
  case (Some n)
  have "wp (getStorageConfig n) (\<lambda>g a'. still a a' \<and> (\<forall>sc. g = Inr sc \<longrightarrow> store_get sc_Name (ag_configs a) n = Some sc)) a"
    unfolding getStorageConfig_def by (rule wp_read) (auto simp: found_def split: option.splits)
  then show ?thesis unfolding storageFor_def Some option.case wp_bind
    by (rule wp_mono) (auto simp: wp_return storedAt_def Some split: sum.splits)
qed (simp add: storageFor_def wp_return)

text \<open>A snapshot can be acted on only when the pod was eligible and its storage known.\<close>

lemma order_readable:
  assumes "readSnapshotSpec (newSnapshot p refusal storage) = Inr spec"
  shows "refusal = [] \<and> storage = Inr (ss_Bucket spec, ss_Path spec) \<and> ss_SourcePod spec = pod_Name p \<and> ss_SourcePodUID spec = pod_UID p \<and> ss_NodeName spec = pod_NodeName p"
proof -
  have *: "mget (workOrder p refusal storage) ''bucket'' \<noteq> []" using assms by (auto simp: readSnapshotSpec_def newSnapshot_def Let_def split: if_splits)
  then obtain b q where "refusal = []" "storage = Inr (b, q)"
    by (auto simp: workOrder_def Let_def mget_def split: sum.splits list.splits if_splits prod.splits)
  then show ?thesis using assms by (auto simp: readSnapshotSpec_def newSnapshot_def workOrder_def Let_def mget_def split: if_splits list.splits)
qed

lemma wp_createSnapshot: "W (None, ps) \<Longrightarrow> wp (createSnapshot ps) (\<lambda>_ a'. wroteOnly W a a') a"
  unfolding createSnapshot_def wp_bind wp_others
  by (auto simp: wp_def attempt_def Let_def wroteOnly_def split: fault.splits option.splits)

lemma wp_materialize:
  assumes "W (None, ps)"
  shows "wp (materialize ps) (\<lambda>_ a'. wroteOnly W a a') a"
proof -
  have new: "wp (createSnapshot ps) (\<lambda>c. wp (State_Monad.return (h c)) (\<lambda>_ a'. wroteOnly W a a')) a1" if "still a a1" for a1 and h :: "api_error + unit \<Rightarrow> api_error + unit"
    by (rule wp_mono [OF wp_createSnapshot [where W = W and a = a1]]) (use assms wroteOnly_after [OF that] in \<open>auto simp: wp_return\<close>)
  show ?thesis unfolding materialize_def wp_bind
    by (rule wp_getSnapshot) (use new wroteOnly_still in \<open>auto simp: wp_return wp_bind_eta\<close>)
qed

lemma wp_answerTrigger: "wp (answerTrigger psmt n) (\<lambda>_ a'. wroteOnly W a a') a"
  unfolding answerTrigger_def updateTriggerStatus_def
  by (auto simp: wp_def attempt_def Let_def wroteOnly_def split: fault.splits option.splits)

lemma wroteOnly_others: "wroteOnly W a a' \<Longrightarrow> ag_others a' = ag_others a \<and> ag_now a' = ag_now a"
  by (simp add: wroteOnly_def)

lemma wp_handOff:
  assumes "lawfulOthers (ag_others a)" and W: "\<And>conds ps ps'. controlConds conds \<Longrightarrow> unfinished ps \<Longrightarrow> nextStatus K (ag_now a) conds ps ps' \<Longrightarrow> W (Some ps, ps')"
  shows "wp (handOff K None p n refusal storage) (\<lambda>_ a'. wroteOnly W a a') a"
proof -
  have final: "wp (setSnapshotTerminal K n rsn msg) (\<lambda>_ a'. wroteOnly W a a') a" if "rsn \<in> {ReasonRefused, ReasonFailed}" for rsn msg
    unfolding setSnapshotTerminal_def by (rule wp_patch [OF assms(1)], rule W) (use that in \<open>auto simp: controlConds_def\<close>)
  have pend: "wp (setSnapshotPending K n msg) (\<lambda>_ a'. wroteOnly W a a') a" for msg
    unfolding setSnapshotPending_def by (rule wp_patch [OF assms(1)], rule W) (auto simp: controlConds_def)
  show ?thesis unfolding handOff_def using final pend
    by (auto simp: wp_bind wp_return_eta split: sum.splits prod.splits)
qed

text \<open>All that a pass of the trigger reconciler writes.\<close>

definition psmtWrite :: "kubelib \<Rightarrow> agent \<Rightarrow> string \<Rightarrow> engineSnapshot option \<times> engineSnapshot \<Rightarrow> bool" where
  "psmtWrite K a name w \<longleftrightarrow> (case fst w of
     None \<Rightarrow> (\<exists>psmt p psp refusal storage. store_get tg_Name (ag_triggers a) name = Some psmt \<and> store_get pod_Name (ag_cachedPods a) (tg_TargetPod psmt) = Some p \<and>
       psp \<in> set (ag_policies a) \<and> servesPod K (pod_Labels p) psp \<and> snd w = newSnapshot p refusal storage \<and> (refusal = [] \<longrightarrow> eligible a p) \<and>
       (\<forall>b q. storage = Inr (b, q) \<longrightarrow> storedAt a psp b q))
   | Some ps \<Rightarrow> unfinished ps \<and> (\<exists>conds. controlConds conds \<and> nextStatus K (ag_now a) conds ps (snd w)))"

lemma wp_serveTrigger:
  assumes law: "lawfulOthers (ag_others a)" and "store_get tg_Name (ag_triggers a0) name = Some psmt" "store_get pod_Name (ag_cachedPods a0) (tg_TargetPod psmt) = Some p"
    "psp \<in> set (ag_policies a0)" "servesPod K (pod_Labels p) psp" and a: "still a0 a"
  shows "wp (serveTrigger K None psmt p psp) (\<lambda>_ a'. wroteOnly (psmtWrite K a0 name) a a') a"
proof -
  let ?W = "psmtWrite K a0 name"
  have W: "?W (Some ps, ps')" if "controlConds conds" "unfinished ps" "nextStatus K (ag_now a0) conds ps ps'" for conds ps ps'
    using that by (auto simp: psmtWrite_def)
  have hand: "wp (handOff K None p n refusal storage) (\<lambda>_ a'. wroteOnly ?W a a') a1" if "wroteOnly ?W a a1" for a1 n refusal storage
    by (rule wp_mono [OF wp_handOff [where W = ?W]]) (use law W that wroteOnly_others [OF that] a wroteOnly_trans [OF that] in \<open>auto simp: still_def\<close>)
  have conclude: "wp (concludeTrigger K None psmt p refusal storage) (\<lambda>_ a'. wroteOnly ?W a a') a1" if "wroteOnly ?W a a1" for a1 refusal storage
    unfolding concludeTrigger_def Let_def wp_bind
    by (rule wp_mono [OF wp_answerTrigger [where W = ?W]]) (use hand [OF wroteOnly_trans [OF that]] wroteOnly_trans [OF that] in \<open>auto simp: wp_return split: sum.splits\<close>)
  have order: "wp (orderSnapshot K None psmt p refusal storage) (\<lambda>_ a'. wroteOnly ?W a a') a1"
    if a1: "still a a1" "refusal = [] \<longrightarrow> eligible a p" "\<forall>b q. storage = Inr (b, q) \<longrightarrow> storedAt a psp b q" for a1 refusal storage
    unfolding orderSnapshot_def wp_bind
  proof (rule wp_mono [OF wp_materialize [where W = ?W]])
    have "eligible a p = eligible a0 p" "storedAt a psp b q = storedAt a0 psp b q" for b q using a by (simp_all add: eligible_def storedAt_def still_def)
    then show "?W (None, newSnapshot p refusal storage)" using assms(2-5) a1(2,3) by (auto simp: psmtWrite_def)
  qed (use conclude wroteOnly_after [OF a1(1)] in \<open>auto simp: wp_return split: sum.splits\<close>)
  have stor: "wp (storageFor psp) (\<lambda>storage. wp (orderSnapshot K None psmt p refusal storage) (\<lambda>_ a'. wroteOnly ?W a a')) a1"
    if a1: "still a a1" "refusal = [] \<longrightarrow> eligible a p" for a1 refusal
  proof (rule wp_mono [OF wp_storageFor])
    fix storage :: "api_error + (string \<times> string)" and a2 assume *: "still a1 a2 \<and> (\<forall>b q. storage = Inr (b, q) \<longrightarrow> storedAt a1 psp b q)"
    have "storedAt a1 psp b q = storedAt a psp b q" for b q using a1(1) by (simp add: storedAt_def still_def)
    with * show "wp (orderSnapshot K None psmt p refusal storage) (\<lambda>_ a'. wroteOnly ?W a a') a2"
      by (intro order still_trans [OF a1(1)] a1(2)) auto
  qed
  show ?thesis unfolding serveTrigger_def wp_bind
    by (rule wp_mono [OF wp_refusalReason]) (use stor in \<open>simp add: wp_bind_eta\<close>)
qed

lemma wp_matchingEnginePSP: "wp (matchingEnginePSP K ls) (\<lambda>m a'. still a a' \<and> (\<forall>psp. m = Inr (Some psp) \<longrightarrow> psp \<in> set (ag_policies a) \<and> servesPod K ls psp)) a"
  unfolding matchingEnginePSP_def listPolicies_def wp_bind by (rule wp_read) (auto simp: wp_return find_Some_iff)

lemma wp_PSMT_Reconcile:
  assumes law: "lawfulOthers (ag_others a)"
  shows "wp (PSMT_Reconcile K None name) (\<lambda>_ a'. wroteOnly (psmtWrite K a name) a a') a"
proof -
  let ?W = "psmtWrite K a name"
  have trig: "wp (getTrigger name) (\<lambda>g a'. still a a' \<and> (\<forall>psmt. g = Inr psmt \<longrightarrow> store_get tg_Name (ag_triggers a) name = Some psmt)) a"
    unfolding getTrigger_def by (rule wp_read) (auto simp: found_def split: option.splits)
  have pods: "wp (getPodCached n) (\<lambda>h a'. still a1 a' \<and> (\<forall>p. h = Inr p \<longrightarrow> store_get pod_Name (ag_cachedPods a1) n = Some p)) a1" for n a1
    unfolding getPodCached_def by (rule wp_read) (auto simp: found_def split: option.splits)
  have serve: "wp (serveTrigger K None psmt p psp) (\<lambda>_ a'. wroteOnly ?W a a') a1"
    if "still a a1" "store_get tg_Name (ag_triggers a) name = Some psmt" "store_get pod_Name (ag_cachedPods a) (tg_TargetPod psmt) = Some p"
      "psp \<in> set (ag_policies a)" "servesPod K (pod_Labels p) psp" for a1 psmt p psp
    by (rule wp_mono [OF wp_serveTrigger [OF _ that(2-5,1)]]) (use law that(1) wroteOnly_after [OF that(1)] in \<open>auto simp: still_def\<close>)
  have psp: "wp (matchingEnginePSP K (pod_Labels p)) (\<lambda>m. wp (case m of Inl e \<Rightarrow> State_Monad.return (Inl e) | Inr None \<Rightarrow> State_Monad.return (Inr no_requeue)
      | Inr (Some psp) \<Rightarrow> serveTrigger K None psmt p psp) (\<lambda>_ a'. wroteOnly ?W a a')) a1"
    if a1: "still a a1" "store_get tg_Name (ag_triggers a) name = Some psmt" "store_get pod_Name (ag_cachedPods a) (tg_TargetPod psmt) = Some p" for a1 psmt p
    by (rule wp_mono [OF wp_matchingEnginePSP]) (use serve [OF still_trans [OF a1(1)] a1(2,3)] wroteOnly_still [OF still_trans [OF a1(1)]] a1(1) in
      \<open>auto simp: wp_return still_def split: sum.splits option.splits\<close>)
  have pod: "wp (getPodCached (tg_TargetPod psmt)) (\<lambda>h. wp (case h of Inl e \<Rightarrow> State_Monad.return (if isNotFound e then Inr no_requeue else Inl e)
      | Inr p \<Rightarrow> do { m \<leftarrow> matchingEnginePSP K (pod_Labels p); (case m of Inl e \<Rightarrow> State_Monad.return (Inl e) | Inr None \<Rightarrow> State_Monad.return (Inr no_requeue)
          | Inr (Some psp) \<Rightarrow> serveTrigger K None psmt p psp) }) (\<lambda>_ a'. wroteOnly ?W a a')) a1"
    if a1: "still a a1" "store_get tg_Name (ag_triggers a) name = Some psmt" for a1 psmt
    by (rule wp_mono [OF pods]) (use psp [OF still_trans [OF a1(1)] a1(2)] wroteOnly_still [OF still_trans [OF a1(1)]] a1(1) in
      \<open>auto simp: wp_return wp_bind still_def split: sum.splits\<close>)
  show ?thesis unfolding PSMT_Reconcile_def wp_bind
    by (rule wp_mono [OF trig]) (use pod wroteOnly_still in \<open>auto simp: wp_return wp_bind_eta TriggerTargetPod_def split: sum.splits option.splits if_splits\<close>)
qed

subsection \<open>Operations that leave the API server alone\<close>

definition keepsSteady :: "'a act \<Rightarrow> bool" where
  "keepsSteady m \<longleftrightarrow> (\<forall>a. wp m (\<lambda>_ a'. steady a a') a)"

lemma steady_return: "keepsSteady (State_Monad.return x)"
  by (simp add: keepsSteady_def wp_return)

lemma steady_bind: "keepsSteady m \<Longrightarrow> (\<And>x. keepsSteady (f x)) \<Longrightarrow> keepsSteady (m \<bind> f)"
proof (unfold keepsSteady_def wp_bind, intro allI)
  fix a assume m: "\<forall>a. wp m (\<lambda>_ a'. steady a a') a" and f: "\<And>x. \<forall>a. wp (f x) (\<lambda>_ a'. steady a a') a"
  show "wp m (\<lambda>x. wp (f x) (\<lambda>_ a'. steady a a')) a"
    by (rule wp_mono [OF m [rule_format]], rule wp_mono [OF f [rule_format]]) (rule steady_trans)
qed

lemma steady_prims:
  "keepsSteady (nodeCall q)" "keepsSteady (httpDo C r)" "keepsSteady (gets f)" "keepsSteady (openFile path)" "keepsSteady (writeFile path c)" "keepsSteady (mkdirAll path)"
  "keepsSteady (removeFile path)" "keepsSteady (osRemoveAll path)" "keepsSteady (get_podSnapshot n)" "keepsSteady (get_jobLive n)"
  "keepsSteady (modify (\<lambda>a. a\<lparr>ag_token := tok, ag_tokenExp := x\<rparr>))"
  by (auto simp: keepsSteady_def wp_def nodeCall_def httpDo_def serve_def openFile_def writeFile_def mkdirAll_def removeFile_def osRemoveAll_def get_podSnapshot_def get_jobLive_def
      attempt_def Let_def steady_def run_state_modify run_state_gets split: fault.splits httpFault.splits httpReq.splits option.splits prod.splits)

lemma steady_cases:
  "(\<And>e. keepsSteady (f e)) \<Longrightarrow> (\<And>x. keepsSteady (g x)) \<Longrightarrow> keepsSteady (case s of Inl e \<Rightarrow> f e | Inr x \<Rightarrow> g x)"
  "keepsSteady h \<Longrightarrow> (\<And>y. keepsSteady (k y)) \<Longrightarrow> keepsSteady (case v of None \<Rightarrow> h | Some y \<Rightarrow> k y)"
  "(\<And>c d. keepsSteady (r c d)) \<Longrightarrow> keepsSteady (case p of (c, d) \<Rightarrow> r c d)"
  "(\<And>e. keepsSteady (n1 e)) \<Longrightarrow> keepsSteady n2 \<Longrightarrow> (\<And>p c. keepsSteady (n3 p c)) \<Longrightarrow> (\<And>s i. keepsSteady (n4 s i)) \<Longrightarrow>
     keepsSteady (case reply of NodeError e \<Rightarrow> n1 e | NodeDone \<Rightarrow> n2 | NodeFile p c \<Rightarrow> n3 p c | NodeInfo s i \<Rightarrow> n4 s i)"
  "(\<And>t. keepsSteady (b1 t)) \<Longrightarrow> (\<And>c d. keepsSteady (b2 c d)) \<Longrightarrow> (\<And>c d. keepsSteady (b3 c d)) \<Longrightarrow> (\<And>c d. keepsSteady (b4 c d)) \<Longrightarrow>
     keepsSteady (case body of Text t \<Rightarrow> b1 t | Chunks c d \<Rightarrow> b2 c d | ObjectMeta c d \<Rightarrow> b3 c d | TokenBody c' d' \<Rightarrow> b4 c' d')"
  "keepsSteady t \<Longrightarrow> keepsSteady u \<Longrightarrow> keepsSteady (if q then t else u)"
  by (simp_all split: sum.split option.split prod.split nodeReply.split httpBody.split)

lemmas steady_rules = steady_return steady_bind steady_prims steady_cases

lemma steady_bearer: "keepsSteady (bearer C)"
  unfolding bearer_def now_def by (intro steady_rules)

lemma steady_GCS: "keepsSteady (VerifiedPut C b o' r)" "keepsSteady (GCS_Get C b o')"
  unfolding VerifiedPut_def GCS_Put_def GCS_Get_def gcsDo_def by (intro steady_rules steady_bearer)+

lemma steady_run: "keepsSteady (run C A snapshot ns spec)"
  unfolding run_def uploadArchive_def putSpec_def putTar_def uploadManifest_def stopAfterUpload_def now_def Let_def
  by (intro steady_rules steady_GCS)


subsection \<open>The node agent's writes\<close>

lemma wp_conjI: "wp m P a \<Longrightarrow> wp m Q a \<Longrightarrow> wp m (\<lambda>x a'. P x a' \<and> Q x a') a"
  by (simp add: wp_def split: prod.splits)

text \<open>What the node has nodeAnswered since \<open>a\<close>.\<close>

definition nodeAnswered :: "agent \<Rightarrow> agent \<Rightarrow> nodeReq \<Rightarrow> nodeReply \<Rightarrow> bool" where
  "nodeAnswered a a' q k \<longleftrightarrow> (q, k) \<in> set (drop (length (ag_answers a)) (ag_answers a'))"

text \<open>
  The archive that a work order asks for is in the store: in its bucket, under its path, with the
  checkpoint and the spec that the node has delivered since \<open>a\<close> for its source pod and container.
\<close>

definition archived :: "hashlib \<Rightarrow> nodeAgent \<Rightarrow> string \<Rightarrow> agent \<Rightarrow> agent \<Rightarrow> string \<Rightarrow> snapshotSpec \<Rightarrow> bool" where
  "archived C A ns a a' name spec \<longleftrightarrow> (\<exists>path tar specJSON imageName.
     nodeAnswered a a' (CheckpointReq ns (ss_SourcePod spec) (ss_Container spec)) (NodeFile path tar) \<and>
     nodeAnswered a a' (SourceInfoReq ns (ss_SourcePod spec) (ss_Container spec)) (NodeInfo specJSON imageName) \<and>
     durableArchive C (intact a) A name spec specJSON imageName tar (ag_now a) (ag_objects a'))"

lemma archived_cong:
  "ag_answers b = ag_answers a \<Longrightarrow> ag_recorded b = ag_recorded a \<Longrightarrow> ag_now b = ag_now a \<Longrightarrow> ag_answers b' = ag_answers a' \<Longrightarrow> ag_objects b' = ag_objects a' \<Longrightarrow>
     archived C A ns b b' name spec = archived C A ns a a' name spec"
  by (simp add: archived_def nodeAnswered_def intact_def)

lemma nodeAnswered_prefix: "prefix (ag_answers a @ l) (ag_answers a') \<Longrightarrow> (q, k) \<in> set l \<Longrightarrow> nodeAnswered a a' q k"
  by (auto simp: nodeAnswered_def prefix_def)

lemma steady_answers: "keepsSteady m \<Longrightarrow> prefix l (ag_answers a) \<Longrightarrow> wp m (\<lambda>_ a'. prefix l (ag_answers a')) a"
  unfolding keepsSteady_def by (rule wp_mono, erule spec) (auto simp: steady_def intro: prefix_order.trans)

text \<open>The pipeline's first two answers.\<close>

lemma wp_run_answers:
  assumes "captured a tar specJSON imageName"
  shows "wp (run C A snapshot ns spec) (\<lambda>_ a'. \<exists>path. nodeAnswered a a' (CheckpointReq ns (ss_SourcePod spec) (ss_Container spec)) (NodeFile path tar) \<and>
    nodeAnswered a a' (SourceInfoReq ns (ss_SourcePod spec) (ss_Container spec)) (NodeInfo specJSON imageName)) a"
proof -
  let ?c = "CheckpointReq ns (ss_SourcePod spec) (ss_Container spec)" let ?i = "SourceInfoReq ns (ss_SourcePod spec) (ss_Container spec)"
  obtain path where node: "ag_node a (ag_calls a) = NodeFile path tar" "ag_node a (Suc (ag_calls a)) = NodeInfo specJSON imageName" using assms by (auto simp: captured_def)
  let ?l = "[(?c, NodeFile path tar), (?i, NodeInfo specJSON imageName)]"
  let ?a = "a\<lparr>ag_calls := Suc (ag_calls a), ag_log := ag_log a @ [(?c, ag_objects a, ag_files a)], ag_answers := ag_answers a @ [(?c, NodeFile path tar)], ag_files := (ag_files a)(path \<mapsto> tar)\<rparr>"
  let ?m = "do { f \<leftarrow> openFile path; (case f of Inl e \<Rightarrow> State_Monad.return (Inl e) | Inr r \<Rightarrow> putSpec C A path snapshot ns spec specJSON imageName r) }"
  let ?Q = "\<lambda>a'. prefix (ag_answers a @ ?l) (ag_answers a')"
  have rest: "keepsSteady ?m" unfolding putSpec_def putTar_def uploadManifest_def stopAfterUpload_def now_def Let_def by (intro steady_rules steady_GCS)
  have up: "wp (uploadArchive C A path snapshot ns spec) (\<lambda>_. ?Q) ?a"
    unfolding uploadArchive_def wp_bind [of "nodeCall _"] wp_nodeCall
    using node by (simp add: steady_answers [OF rest])
  have "wp (uploadArchive C A path snapshot ns spec) (\<lambda>r. wp (removeFile path) (\<lambda>_. ?Q)) ?a"
    by (rule wp_mono [OF up]) (auto simp: removeFile_def wp_def attempt_def Let_def split: fault.splits)
  then have "wp (run C A snapshot ns spec) (\<lambda>_. ?Q) a"
    unfolding run_def wp_bind wp_nodeCall node nodeReply.case nodeFiles_def prod.case nodeReq.case by (simp add: wp_return_eta wp_bind)
  then show ?thesis by (rule wp_mono) (auto dest: nodeAnswered_prefix)
qed

lemma wp_run_archives:
  assumes "ag_log a = []"
  shows "wp (run C A snapshot ns spec) (\<lambda>r a'. steady a a' \<and> (r = Inr () \<longrightarrow> archived C A ns a a' snapshot spec)) a"
proof (rule wp_conjI)
  show "wp (run C A snapshot ns spec) (\<lambda>_ a'. steady a a') a" using steady_run by (simp add: keepsSteady_def)
  show "wp (run C A snapshot ns spec) (\<lambda>r a'. r = Inr () \<longrightarrow> archived C A ns a a' snapshot spec) a"
  proof (cases "\<exists>tar specJSON imageName. captured a tar specJSON imageName")
    case True
    then obtain tar specJSON imageName where cap: "captured a tar specJSON imageName" by blast
    have "wp (run C A snapshot ns spec) (stopsWith (durableArchive C (intact a) A snapshot spec specJSON imageName tar (ag_now a))) a"
      by (rule wp_run_captured [OF _ refl cap]) (use assms in \<open>simp add: stopsWith_def\<close>)
    from wp_conjI [OF this wp_run_answers [OF cap]] show ?thesis
      by (rule wp_mono) (auto simp: stopsWith_def archived_def)
  next
    case False
    then have "wp (run C A snapshot ns spec) (stopsWith (\<lambda>_. False)) a"
      using assms by (intro wp_run_not_captured) (auto simp: stopsWith_def)
    then show ?thesis by (rule wp_mono) (simp add: stopsWith_def)
  qed
qed

text \<open>
  The work order that a pass reads first: it is for this node, and its snapshot has no verdict yet. Other clients
  may change the snapshot before the verdict is written; \<open>keepsSpecs\<close> says that they leave its spec alone.
\<close>

definition ordered :: "nodeAgent \<Rightarrow> agent \<Rightarrow> string \<Rightarrow> snapshotSpec \<Rightarrow> bool" where
  "ordered A a name spec \<longleftrightarrow> (\<exists>ps. store_get ps_Name (ag_others a (ag_calls a) (ag_snapshots a)) name = Some ps \<and> unfinished ps \<and>
     readSnapshotSpec ps = Inr spec \<and> ss_NodeName spec = na_NodeName A)"

definition keepsSpecs :: "(nat \<Rightarrow> engineSnapshot list \<Rightarrow> engineSnapshot list) \<Rightarrow> bool" where
  "keepsSpecs f \<longleftrightarrow> (\<forall>n S name ps ps'. store_get ps_Name S name = Some ps \<longrightarrow> store_get ps_Name (f n S) name = Some ps' \<longrightarrow> ps_Spec ps' = ps_Spec ps)"

lemma readSpec_cong: "ps_Spec ps' = ps_Spec ps \<Longrightarrow> readSnapshotSpec ps' = readSnapshotSpec ps"
  by (simp add: readSnapshotSpec_def)

text \<open>A write of the node agent over the snapshot \<open>fst w\<close>: a final verdict, and a success only for an archived work order.\<close>

definition nodeWrite :: "hashlib \<Rightarrow> kubelib \<Rightarrow> nodeAgent \<Rightarrow> string \<Rightarrow> string \<Rightarrow> agent \<Rightarrow> agent \<Rightarrow> engineSnapshot option \<times> engineSnapshot \<Rightarrow> bool" where
  "nodeWrite C K A ns name a a' w \<longleftrightarrow> (\<exists>ps rsn msg. fst w = Some ps \<and> ps_Name ps = name \<and> rsn \<in> {ReasonSucceeded, ReasonFailed} \<and>
     nextStatus K (ag_now a) (terminalConditions (if rsn = ReasonSucceeded then CondTrue else CondFalse) rsn msg) ps (snd w) \<and>
     (rsn = ReasonSucceeded \<longrightarrow> (\<exists>spec. ordered A a name spec \<and> archived C A ns a a' name spec \<and> (keepsSpecs (ag_others a) \<longrightarrow> readSnapshotSpec ps = Inr spec))))"

definition nodeWrites :: "hashlib \<Rightarrow> kubelib \<Rightarrow> nodeAgent \<Rightarrow> string \<Rightarrow> string \<Rightarrow> agent \<Rightarrow> agent \<Rightarrow> bool" where
  "nodeWrites C K A ns name a a' \<longleftrightarrow> (\<exists>l. ag_writes a' = ag_writes a @ l \<and> (\<forall>w \<in> set l. nodeWrite C K A ns name a a' w))"

lemma nodeWrite_cong: "ag_answers b' = ag_answers a' \<Longrightarrow> ag_objects b' = ag_objects a' \<Longrightarrow> nodeWrite C K A ns name a b' w = nodeWrite C K A ns name a a' w"
  by (simp add: nodeWrite_def archived_cong [of a a b' a'])

lemma nodeWrites_still: "still a a' \<Longrightarrow> nodeWrites C K A ns name a a'"
  by (simp add: nodeWrites_def still_def)

lemma nodeWrites_wrote: "wroteOnly (nodeWrite C K A ns name a a1) a1 a' \<Longrightarrow> ag_writes a1 = ag_writes a \<Longrightarrow> nodeWrites C K A ns name a a'"
  using nodeWrite_cong [of a' a1] by (auto simp: nodeWrites_def wroteOnly_def)

lemma wp_finishPass:
  assumes law: "lawfulOthers (ag_others a)" and same: "ag_now a1 = ag_now a" "ag_others a1 = ag_others a" "ag_writes a1 = ag_writes a"
    and "rsn \<in> {ReasonSucceeded, ReasonFailed}"
    and good: "\<And>ps. rsn = ReasonSucceeded \<Longrightarrow> store_get ps_Name (ag_others a (ag_calls a1) (ag_snapshots a1)) name = Some ps \<Longrightarrow>
      \<exists>spec. ordered A a name spec \<and> archived C A ns a a1 name spec \<and> (keepsSpecs (ag_others a) \<longrightarrow> readSnapshotSpec ps = Inr spec)"
  shows "wp (finishPass K name rsn msg) (\<lambda>_ a'. nodeWrites C K A ns name a a') a1"
  unfolding finishPass_def wp_bind wp_return_eta
proof (rule wp_mono [OF wp_finish [where W = "nodeWrite C K A ns name a a1"]])
  show "nodeWrite C K A ns name a a1 (Some ps, ps')"
    if "ps_Name ps = name" "store_get ps_Name (ag_others a1 (ag_calls a1) (ag_snapshots a1)) name = Some ps"
      "nextStatus K (ag_now a1) (terminalConditions (if rsn = ReasonSucceeded then CondTrue else CondFalse) rsn msg) ps ps'" for ps ps'
    unfolding nodeWrite_def by (rule exI [of _ ps], rule exI [of _ rsn], rule exI [of _ msg]) (use that assms(5) good [of ps] same in simp)
qed (use law same nodeWrites_wrote in auto)

lemma wp_runOnce:
  assumes law: "lawfulOthers (ag_others a)" and "ag_log a = []" and a1: "still a a1"
    and ps0: "store_get ps_Name (ag_snapshots a1) name = Some ps0" "readSnapshotSpec ps0 = Inr spec" and order: "ordered A a name spec"
  shows "wp (runOnce C K A ns name spec) (\<lambda>_ a'. nodeWrites C K A ns name a a') a1"
proof -
  have del: "wp (deleteKey k) (\<lambda>_. wp (State_Monad.return r) (\<lambda>_ a'. nodeWrites C K A ns name a a')) a3" if "nodeWrites C K A ns name a a3" for k r a3
    using that by (simp add: deleteKey_def wp_simps nodeWrites_def nodeWrite_cong [of "a3\<lparr>ag_inflight := _\<rparr>" a3])
  have run: "wp (run C A name ns spec) (\<lambda>x. wp (concludeRun K name x) (\<lambda>_ a'. nodeWrites C K A ns name a a')) (a1\<lparr>ag_inflight := y\<rparr>)" for y
  proof (rule wp_mono [OF wp_run_archives])
    fix x :: "api_error + unit" and a2 assume *: "steady (a1\<lparr>ag_inflight := y\<rparr>) a2 \<and> (x = Inr () \<longrightarrow> archived C A ns (a1\<lparr>ag_inflight := y\<rparr>) a2 name spec)"
    have same: "ag_now a2 = ag_now a" "ag_others a2 = ag_others a" "ag_writes a2 = ag_writes a" using a1 * by (simp_all add: still_def steady_def)
    have snaps: "ag_snapshots a2 = ag_snapshots a1" using * by (simp add: steady_def)
    have arch: "archived C A ns a a2 name spec" if "x = Inr ()"
      using * that a1 archived_cong [of "a1\<lparr>ag_inflight := y\<rparr>" a a2 a2] by (simp add: still_def)
    have kept: "keepsSpecs (ag_others a) \<longrightarrow> readSnapshotSpec ps = Inr spec" if "store_get ps_Name (ag_others a (ag_calls a2) (ag_snapshots a2)) name = Some ps" for ps
      using that ps0 snaps readSpec_cong [of ps ps0] unfolding keepsSpecs_def by metis
    show "wp (concludeRun K name x) (\<lambda>_ a'. nodeWrites C K A ns name a a') a2"
    proof (cases x)
      case (Inl e)
      then show ?thesis using wp_finishPass [OF law same, of ReasonFailed] by (simp add: concludeRun_def ReasonFailed_def ReasonSucceeded_def)
    next
      case (Inr u)
      have "wp (finishPass K name ReasonSucceeded msg) (\<lambda>_ a'. nodeWrites C K A ns name a a') a2" for msg
        by (rule wp_finishPass [OF law same]) (use order arch Inr kept in auto)
      then show ?thesis using Inr by (simp add: concludeRun_def)
    qed
  qed (use a1 assms(2) in \<open>simp add: still_def\<close>)
  have "wp (run C A name ns spec) (\<lambda>x. wp (concludeRun K name x) (\<lambda>r. wp (deleteKey k) (\<lambda>_. wp (State_Monad.return r) (\<lambda>_ a'. nodeWrites C K A ns name a a')))) (a1\<lparr>ag_inflight := y\<rparr>)" for k y
    by (rule wp_mono [OF run], rule wp_mono, assumption) (rule del)
  then show ?thesis unfolding runOnce_def loadOrStore_def
    by (simp add: wp_simps wp_bind_eta nodeWrites_still [OF a1])
qed

lemma wp_NodeSnapshot_Reconcile:
  assumes law: "lawfulOthers (ag_others a)" and "ag_log a = []"
  shows "wp (NodeSnapshot_Reconcile C K A ns name) (\<lambda>_ a'. nodeWrites C K A ns name a a') a"
  unfolding NodeSnapshot_Reconcile_def wp_bind
proof (rule wp_getSnapshot, goal_cases)
  case (1 e a1)
  then show ?case by (simp add: wp_return nodeWrites_still)
next
  case (2 ps a1)
  have same: "ag_now a1 = ag_now a" "ag_others a1 = ag_others a" "ag_writes a1 = ag_writes a" using 2(1) by (simp_all add: still_def)
  have bad: "wp (finishPass K name ReasonFailed msg) (\<lambda>_ a'. nodeWrites C K A ns name a a') a1" for msg
    using wp_finishPass [OF law same, of ReasonFailed] by (simp add: ReasonFailed_def ReasonSucceeded_def)
  have nm: "ps_Name ps = name" by (rule store_get_key [OF 2(2), THEN conjunct1])
  have go: "wp (runOnce C K A ns name spec) (\<lambda>_ a'. nodeWrites C K A ns name a a') a1"
    if "readSnapshotSpec ps = Inr spec" "ss_NodeName spec = na_NodeName A" "\<not> (IsSnapshotReady ps \<or> hasTerminalCheckpoint ps)" for spec
    by (rule wp_runOnce [OF law assms(2) 2(1,2) that(1)]) (use 2(2,3) that in \<open>auto simp: ordered_def unfinished_def\<close>)
  show ?case using bad go nodeWrites_still [OF 2(1)] by (simp add: wp_return nm split: sum.splits)
qed

subsection \<open>Well-formed conditions\<close>

text \<open>
  A snapshot has at most the conditions \<open>Checkpoint\<close> and \<open>Ready\<close>, each once. \<open>Checkpoint\<close> is pending,
  succeeded, failed or refused; \<open>Ready\<close> is there only with the same final verdict.
\<close>

definition checkpointVerdict :: "condition \<Rightarrow> bool" where
  "checkpointVerdict c \<longleftrightarrow> (c_Status c, c_Reason c) \<in> {(CondUnknown, ReasonPending), (CondTrue, ReasonSucceeded), (CondFalse, ReasonFailed), (CondFalse, ReasonRefused)}"

definition wfConditions :: "condition list \<Rightarrow> bool" where
  "wfConditions cs \<longleftrightarrow> distinct (map c_Type cs) \<and> (\<forall>c \<in> set cs. c_Type c \<in> {CondCheckpoint, CondReady}) \<and>
     (\<forall>c \<in> set cs. c_Type c = CondCheckpoint \<longrightarrow> checkpointVerdict c) \<and>
     (\<forall>r \<in> set cs. c_Type r = CondReady \<longrightarrow> c_Status r \<noteq> CondUnknown \<and>
        (\<exists>c \<in> set cs. c_Type c = CondCheckpoint \<and> c_Status c = c_Status r \<and> c_Reason c = c_Reason r))"

lemma cond_names: "CondCheckpoint \<noteq> CondReady" "CondReady \<noteq> CondCheckpoint" "ReasonFailed \<noteq> ReasonSucceeded" "ReasonRefused \<noteq> ReasonSucceeded"
  "ReasonFailed \<noteq> ReasonRefused" "ReasonPending \<noteq> ReasonSucceeded"
  by (simp_all add: CondCheckpoint_def CondReady_def ReasonFailed_def ReasonSucceeded_def ReasonRefused_def ReasonPending_def)

lemma find_in: "distinct (map c_Type cs) \<Longrightarrow> c \<in> set cs \<Longrightarrow> FindStatusCondition cs (c_Type c) = Some c"
  by (induction cs) (auto simp: FindStatusCondition_def image_iff)

lemma find_set: "FindStatusCondition cs t = Some c \<Longrightarrow> c \<in> set cs \<and> c_Type c = t"
  by (auto simp: FindStatusCondition_def find_Some_iff)

text \<open>The conditions after one of them was set.\<close>

lemma SetCondition_facts:
  assumes "lawful_conditions K" "lawful_upsert K"
  shows "FindStatusCondition (SetCondition K t cs (cond ty st rsn msg g)) ty = Some c \<Longrightarrow> c_Status c = st \<and> c_Reason c = rsn"
    and "FindStatusCondition (SetCondition K t cs (cond ty st rsn msg g)) ty \<noteq> None"
    and "ty' \<noteq> ty \<Longrightarrow> FindStatusCondition (SetCondition K t cs (cond ty st rsn msg g)) ty' = FindStatusCondition cs ty'"
    and "distinct (map c_Type cs) \<Longrightarrow> distinct (map c_Type (SetCondition K t cs (cond ty st rsn msg g)))"
    and "c_Type ` set (SetCondition K t cs (cond ty st rsn msg g)) = insert ty (c_Type ` set cs)"
proof -
  note up = assms(2) [unfolded lawful_upsert_def, rule_format, of t cs "cond ty st rsn msg g"]
  show "FindStatusCondition (SetCondition K t cs (cond ty st rsn msg g)) ty = Some c \<Longrightarrow> c_Status c = st \<and> c_Reason c = rsn"
    "FindStatusCondition (SetCondition K t cs (cond ty st rsn msg g)) ty \<noteq> None"
    "ty' \<noteq> ty \<Longrightarrow> FindStatusCondition (SetCondition K t cs (cond ty st rsn msg g)) ty' = FindStatusCondition cs ty'"
    using find_set_condition [OF assms(1)] by (auto simp: SetCondition_def cond_def)
  show "distinct (map c_Type cs) \<Longrightarrow> distinct (map c_Type (SetCondition K t cs (cond ty st rsn msg g)))"
    using up by (auto simp: SetCondition_def cond_def split: if_splits)
  have "set (map c_Type (SetCondition K t cs (cond ty st rsn msg g))) = insert ty (set (map c_Type cs))"
    unfolding SetCondition_def up by (auto simp: cond_def)
  then show "c_Type ` set (SetCondition K t cs (cond ty st rsn msg g)) = insert ty (c_Type ` set cs)" by simp
qed

lemma wf_types: "wfConditions cs \<Longrightarrow> distinct (map c_Type cs) \<and> c_Type ` set cs \<subseteq> {CondCheckpoint, CondReady}"
  by (auto simp: wfConditions_def)

lemma wfI:
  assumes "distinct (map c_Type cs)" "c_Type ` set cs \<subseteq> {CondCheckpoint, CondReady}"
    and "\<And>c. FindStatusCondition cs CondCheckpoint = Some c \<Longrightarrow> checkpointVerdict c"
    and "\<And>r. FindStatusCondition cs CondReady = Some r \<Longrightarrow> c_Status r \<noteq> CondUnknown \<and>
      (\<exists>c. FindStatusCondition cs CondCheckpoint = Some c \<and> c_Status c = c_Status r \<and> c_Reason c = c_Reason r)"
  shows "wfConditions cs"
  unfolding wfConditions_def
proof (intro conjI ballI impI)
  fix c assume "c \<in> set cs"
  note c = find_in [OF assms(1) this]
  show "c_Type c \<in> {CondCheckpoint, CondReady}" using assms(2) \<open>c \<in> set cs\<close> by blast
  show "checkpointVerdict c" if "c_Type c = CondCheckpoint" using assms(3) c that by simp
  show "c_Status c \<noteq> CondUnknown" if "c_Type c = CondReady" using assms(4) c that by simp
  show "\<exists>d \<in> set cs. c_Type d = CondCheckpoint \<and> c_Status d = c_Status c \<and> c_Reason d = c_Reason c" if "c_Type c = CondReady"
    using assms(4) [of c] c that find_set by metis
qed (rule assms(1))

lemma wf_terminal:
  assumes "lawful_conditions K" "lawful_upsert K" "wfConditions cs" "(st, rsn) \<in> {(CondTrue, ReasonSucceeded), (CondFalse, ReasonFailed), (CondFalse, ReasonRefused)}"
  shows "wfConditions (foldl (SetCondition K t) cs (terminalConditions st rsn msg))"
proof -
  note f = SetCondition_facts [OF assms(1,2)]
  let ?c1 = "SetCondition K t cs (cond CondCheckpoint st rsn msg 0)" let ?c2 = "SetCondition K t ?c1 (cond CondReady st rsn msg 0)"
  have cp: "FindStatusCondition ?c2 CondCheckpoint = FindStatusCondition ?c1 CondCheckpoint" by (rule f(3)) (rule cond_names)
  have "FindStatusCondition ?c1 CondCheckpoint \<noteq> None" by (rule f(2))
  then obtain c where c1: "FindStatusCondition ?c1 CondCheckpoint = Some c" by blast
  note c = c1 f(1) [OF c1]
  have "wfConditions ?c2"
  proof (rule wfI)
    show "distinct (map c_Type ?c2)" using wf_types [OF assms(3)] by (intro f(4)) simp
    show "c_Type ` set ?c2 \<subseteq> {CondCheckpoint, CondReady}" using wf_types [OF assms(3)] by (simp add: f(5))
    show "checkpointVerdict d" if "FindStatusCondition ?c2 CondCheckpoint = Some d" for d using that c assms(4) by (auto simp: cp checkpointVerdict_def)
    show "c_Status r \<noteq> CondUnknown \<and> (\<exists>c. FindStatusCondition ?c2 CondCheckpoint = Some c \<and> c_Status c = c_Status r \<and> c_Reason c = c_Reason r)"
      if "FindStatusCondition ?c2 CondReady = Some r" for r using f(1) [OF that] c assms(4) by (auto simp: cp)
  qed
  then show ?thesis by (simp add: terminalConditions_def)
qed

text \<open>What the conditions of a well-formed snapshot can be.\<close>

lemma wf_unfinished:
  assumes "wfConditions (ps_Conditions ps)" "unfinished ps"
  shows "FindStatusCondition (ps_Conditions ps) CondReady = None"
proof (rule ccontr)
  assume "FindStatusCondition (ps_Conditions ps) CondReady \<noteq> None"
  then obtain r where r: "r \<in> set (ps_Conditions ps)" "c_Type r = CondReady" using find_set by blast
  then obtain c where c: "c \<in> set (ps_Conditions ps)" "c_Type c = CondCheckpoint" "c_Status c = c_Status r" "c_Status r \<noteq> CondUnknown" "checkpointVerdict c"
    using assms(1) unfolding wfConditions_def by blast
  then show False using assms(2) r unfolding unfinished_def IsSnapshotReady_def hasTerminalCheckpoint_def list_ex_iff checkpointVerdict_def by auto
qed

lemma wf_pending:
  assumes "lawful_conditions K" "lawful_upsert K" "wfConditions cs" "FindStatusCondition cs CondReady = None"
  shows "wfConditions (foldl (SetCondition K t) cs (pendingConditions msg))"
proof -
  note f = SetCondition_facts [OF assms(1,2)]
  let ?c = "SetCondition K t cs (cond CondCheckpoint CondUnknown ReasonPending msg 0)"
  have rd: "FindStatusCondition ?c CondReady = None" using assms(4) f(3) [of CondReady CondCheckpoint] cond_names(2) by simp
  have "wfConditions ?c"
  proof (rule wfI)
    show "distinct (map c_Type ?c)" using wf_types [OF assms(3)] by (intro f(4)) simp
    show "c_Type ` set ?c \<subseteq> {CondCheckpoint, CondReady}" using wf_types [OF assms(3)] by (simp add: f(5))
    show "checkpointVerdict d" if "FindStatusCondition ?c CondCheckpoint = Some d" for d using f(1) [OF that] by (simp add: checkpointVerdict_def)
  qed (simp add: rd)
  then show ?thesis by (simp add: pendingConditions_def)
qed

subsection \<open>Theorems\<close>

text \<open>
  C33 (safety). A snapshot that the node agent can act on is ordered only for an eligible pod: opted in, with one
  container, on a node that is ready for CRIU, served by a ready policy of this engine, and with the
  policy's storage. For a refused pod the snapshot has no bucket, so no agent ever checkpoints it.
\<close>

theorem only_eligible_pods_are_ordered:
  assumes "run_state (PSMT_Reconcile K None name) a = (r, a')" and "lawfulOthers (ag_others a)" and "ag_writes a = []"
    and "(None, ps) \<in> set (ag_writes a')" and "readSnapshotSpec ps = Inr spec"
  shows "\<exists>psmt p psp. store_get tg_Name (ag_triggers a) name = Some psmt \<and> store_get pod_Name (ag_cachedPods a) (tg_TargetPod psmt) = Some p \<and> eligible a p \<and>
    psp \<in> set (ag_policies a) \<and> servesPod K (pod_Labels p) psp \<and> storedAt a psp (ss_Bucket spec) (ss_Path spec) \<and>
    ss_SourcePod spec = pod_Name p \<and> ss_SourcePodUID spec = pod_UID p \<and> ss_NodeName spec = pod_NodeName p"
proof -
  have "psmtWrite K a name (None, ps)"
    using wp_run [OF wp_PSMT_Reconcile [OF assms(2)] assms(1)] assms(3,4) by (auto simp: wroteOnly_def)
  then obtain psmt p psp refusal storage where *: "store_get tg_Name (ag_triggers a) name = Some psmt" "store_get pod_Name (ag_cachedPods a) (tg_TargetPod psmt) = Some p"
    "psp \<in> set (ag_policies a)" "servesPod K (pod_Labels p) psp" "ps = newSnapshot p refusal storage" "refusal = [] \<longrightarrow> eligible a p" "\<forall>b q. storage = Inr (b, q) \<longrightarrow> storedAt a psp b q"
    unfolding psmtWrite_def by auto
  show ?thesis using order_readable [of p refusal storage spec] assms(5) * by blast
qed

text \<open>
  C34 (invariant). The trigger reconciler never takes a verdict back: whatever other clients do in
  between, a snapshot whose status it writes is, at that instant, neither ready nor failed nor refused, and
  only its status changes.
\<close>

theorem verdicts_are_final:
  assumes "run_state (PSMT_Reconcile K None name) a = (r, a')" and "lawfulOthers (ag_others a)" and "ag_writes a = []" and "(Some l, ps) \<in> set (ag_writes a')"
  shows "\<not> IsSnapshotReady l \<and> \<not> hasTerminalCheckpoint l \<and> ps_Spec ps = ps_Spec l \<and> ps_Labels ps = ps_Labels l \<and> ps_Name ps = ps_Name l"
proof -
  have "psmtWrite K a name (Some l, ps)"
    using wp_run [OF wp_PSMT_Reconcile [OF assms(2)] assms(1)] assms(3,4) by (auto simp: wroteOnly_def)
  then show ?thesis by (auto simp: psmtWrite_def unfinished_def nextStatus_def SetConditions_def)
qed

text \<open>
  The contract of the reconcilers that write snapshots: a new snapshot has no conditions, and a status is
  either a final verdict, or pending where there was no verdict yet.
\<close>

definition finalVerdict :: "condition list \<Rightarrow> bool" where
  "finalVerdict cs \<longleftrightarrow> (\<exists>st rsn msg. (st, rsn) \<in> {(CondTrue, ReasonSucceeded), (CondFalse, ReasonFailed), (CondFalse, ReasonRefused)} \<and> cs = terminalConditions st rsn msg)"

definition engineWrite :: "kubelib \<Rightarrow> time \<Rightarrow> engineSnapshot option \<times> engineSnapshot \<Rightarrow> bool" where
  "engineWrite K t w \<longleftrightarrow> (case fst w of
     None \<Rightarrow> ps_Conditions (snd w) = []
   | Some l \<Rightarrow> (\<exists>conds. nextStatus K t conds l (snd w) \<and> (finalVerdict conds \<or> unfinished l \<and> (\<exists>msg. conds = pendingConditions msg))))"

locale snapshot_writer =
  fixes K :: kubelib and m :: "(api_error + result) act"
  assumes writes: "lawfulOthers (ag_others a) \<Longrightarrow> ag_log a = [] \<Longrightarrow> ag_writes a = [] \<Longrightarrow> run_state m a = (r, a') \<Longrightarrow> w \<in> set (ag_writes a') \<Longrightarrow> engineWrite K (ag_now a) w"
begin

lemma keeps_wf:
  assumes "lawful_conditions K" "lawful_upsert K" and "lawfulOthers (ag_others a)" "ag_log a = []" "ag_writes a = []" "run_state m a = (r, a')" "(before, ps) \<in> set (ag_writes a')"
    and "\<And>l. before = Some l \<Longrightarrow> wfConditions (ps_Conditions l)"
  shows "wfConditions (ps_Conditions ps)"
proof (cases before)
  case None
  then show ?thesis using writes [OF assms(3-7)] by (simp add: engineWrite_def wfConditions_def)
next
  case (Some l)
  note wf = assms(8) [OF Some]
  obtain conds where c: "nextStatus K (ag_now a) conds l ps" "finalVerdict conds \<or> unfinished l \<and> (\<exists>msg. conds = pendingConditions msg)"
    using writes [OF assms(3-7)] Some by (auto simp: engineWrite_def)
  have eq: "ps_Conditions ps = foldl (SetCondition K (ag_now a)) (ps_Conditions l) conds" using c(1) by (simp add: nextStatus_def SetConditions_def)
  from c(2) show ?thesis unfolding eq
    using wf_terminal [OF assms(1,2) wf] wf_pending [OF assms(1,2) wf wf_unfinished [OF wf]] by (auto simp: finalVerdict_def)
qed

end

interpretation psmt: snapshot_writer K "PSMT_Reconcile K None name" for K name
proof
  fix a r a' w assume *: "lawfulOthers (ag_others a)" "ag_writes a = []" "run_state (PSMT_Reconcile K None name) a = (r, a')" "w \<in> set (ag_writes a')"
  have "psmtWrite K a name w" using wp_run [OF wp_PSMT_Reconcile [OF *(1)] *(3)] *(2,4) by (auto simp: wroteOnly_def)
  then show "engineWrite K (ag_now a) w"
    by (auto simp: psmtWrite_def engineWrite_def newSnapshot_def controlConds_def finalVerdict_def split: option.splits)
qed

interpretation node: snapshot_writer K "NodeSnapshot_Reconcile C K A ns name" for K C A ns name
proof
  fix a r a' w assume *: "lawfulOthers (ag_others a)" "ag_log a = []" "ag_writes a = []" "run_state (NodeSnapshot_Reconcile C K A ns name) a = (r, a')" "w \<in> set (ag_writes a')"
  have "nodeWrite C K A ns name a a' w" using wp_run [OF wp_NodeSnapshot_Reconcile [OF *(1,2)] *(4)] *(3,5) by (auto simp: nodeWrites_def)
  then obtain l rsn msg where c: "fst w = Some l" "rsn \<in> {ReasonSucceeded, ReasonFailed}"
    "nextStatus K (ag_now a) (terminalConditions (if rsn = ReasonSucceeded then CondTrue else CondFalse) rsn msg) l (snd w)" unfolding nodeWrite_def by blast
  have "finalVerdict (terminalConditions (if rsn = ReasonSucceeded then CondTrue else CondFalse) rsn msg)" using c(2) cond_names unfolding finalVerdict_def by auto
  with c show "engineWrite K (ag_now a) w" unfolding engineWrite_def by auto
qed

text \<open>
  C35 (type). Every status that the engine writes is well formed when the one it replaces is:
  one condition of each type, and the two conditions never contradict each other.
\<close>

theorem engine_conditions_are_well_formed:
  assumes "m \<in> {PSMT_Reconcile K None name, NodeSnapshot_Reconcile C K A ns name}" and "run_state m a = (r, a')"
    and "lawful_conditions K" "lawful_upsert K" "lawfulOthers (ag_others a)" and "ag_writes a = []" "ag_log a = []" and "(before, ps) \<in> set (ag_writes a')"
    and "case before of None \<Rightarrow> True | Some l \<Rightarrow> wfConditions (ps_Conditions l)"
  shows "wfConditions (ps_Conditions ps)"
proof -
  have wf: "wfConditions (ps_Conditions l)" if "before = Some l" for l using assms(9) that by simp
  from assms(1) consider "m = PSMT_Reconcile K None name" | "m = NodeSnapshot_Reconcile C K A ns name" by blast
  then show ?thesis
  proof cases
    case 1
    show ?thesis by (rule psmt.keeps_wf [OF assms(3-5,7,6) _ assms(8) wf]) (use assms(2) 1 in simp_all)
  next
    case 2
    show ?thesis by (rule node.keeps_wf [OF assms(3-5,7,6) _ assms(8) wf]) (use assms(2) 2 in simp_all)
  qed
qed

text \<open>The conditions as the controller reads them.\<close>

definition statusString :: "cond_status \<Rightarrow> string" where
  "statusString st = (case st of CondTrue \<Rightarrow> ''True'' | CondFalse \<Rightarrow> ''False'' | CondUnknown \<Rightarrow> ''Unknown'')"

definition asUcond :: "kubelib \<Rightarrow> condition \<Rightarrow> ucond" where
  "asUcond K c = \<lparr>uc_Type = c_Type c, uc_Status = statusString (c_Status c), uc_Reason = c_Reason c, uc_Message = c_Message c,
     uc_LastTransitionTime = Some (FormatRFC3339 K (c_LastTransitionTime c))\<rparr>"

definition asStatus :: "kubelib \<Rightarrow> engineSnapshot \<Rightarrow> snapStatusObj" where
  "asStatus K ps = \<lparr>ss_Conditions = map (\<lambda>c. Some (asUcond K c)) (ps_Conditions ps), ss_Phase = None\<rparr>"

lemma condIn_as: "condIn P (map (\<lambda>c. Some (asUcond K c)) cs) \<longleftrightarrow> (\<exists>c \<in> set cs. P (asUcond K c))"
  by (induction cs) simp_all

lemma status_strings: "statusString st = ''True'' \<longleftrightarrow> st = CondTrue" "statusString st = ''False'' \<longleftrightarrow> st = CondFalse"
  by (cases st; simp add: statusString_def)+

lemma terminalSubcond_in: "sc_terminalSubcond (scanConditions K cs) = Some c \<Longrightarrow> Some c \<in> set cs \<and> subconditionFailed c"
proof (induction cs rule: rev_induct)
  case (snoc x cs)
  then show ?case by (cases x) (auto simp: scanConditions_snoc scanCond_fields split: if_splits)
qed (simp add: emptyScan_def)

text \<open>The three kinds of verdict on a well-formed snapshot.\<close>

lemma wf_ready:
  assumes wf: "wfConditions (ps_Conditions ps)" and "IsSnapshotReady ps"
  shows "\<forall>c \<in> set (ps_Conditions ps). c_Status c = CondTrue"
proof -
  obtain d where d: "d \<in> set (ps_Conditions ps)" "c_Status d = CondTrue" using assms(2) by (auto simp: IsSnapshotReady_def list_ex_iff)
  have one: "c = c'" if "c \<in> set (ps_Conditions ps)" "c' \<in> set (ps_Conditions ps)" "c_Type c = c_Type c'" for c c'
    using find_in [OF wf_types [OF wf, THEN conjunct1]] that by (metis option.inject)
  have cp: "\<exists>c \<in> set (ps_Conditions ps). c_Type c = CondCheckpoint \<and> c_Status c = c_Status r" if "r \<in> set (ps_Conditions ps)" for r
    using wf that unfolding wfConditions_def by blast
  show ?thesis using d cp one by metis
qed

lemma reasons_terminal: "isTerminalSnapshotFailureReason ReasonFailed" "isTerminalSnapshotFailureReason ReasonRefused"
  "phaseForTerminalReason ReasonFailed = SnapFailed" "phaseForTerminalReason ReasonRefused = SnapRefused"
  by code_simp+

lemma ucond_verdicts:
  assumes wf: "wfConditions cs" and c: "c \<in> set cs"
  shows "subconditionFailed (asUcond K c) \<longleftrightarrow> c_Type c = CondCheckpoint \<and> c_Status c = CondFalse"
    and "readyEvidence (asUcond K c) \<longleftrightarrow> c_Status c = CondTrue"
    and "readyFailed (asUcond K c) \<Longrightarrow> c_Type c = CondReady \<and> c_Status c = CondFalse"
proof -
  have ty: "c_Type c = CondCheckpoint \<or> c_Type c = CondReady" using wf c by (auto simp: wfConditions_def)
  have v: "checkpointVerdict c" if "c_Type c = CondCheckpoint" using wf c that by (auto simp: wfConditions_def)
  show "subconditionFailed (asUcond K c) \<longleftrightarrow> c_Type c = CondCheckpoint \<and> c_Status c = CondFalse"
    using ty v reasons_terminal by (auto simp: subconditionFailed_def isSubcondition_def asUcond_def status_strings checkpointVerdict_def CondCheckpoint_def CondReady_def)
  show "readyEvidence (asUcond K c) \<longleftrightarrow> c_Status c = CondTrue"
    using ty v by (auto simp: readyEvidence_def asUcond_def status_strings checkpointVerdict_def CondCheckpoint_def CondReady_def ReasonSucceeded_def)
  show "c_Type c = CondReady \<and> c_Status c = CondFalse" if "readyFailed (asUcond K c)"
    using that by (auto simp: readyFailed_def asUcond_def status_strings CondReady_def)
qed

lemma terminal_exactly:
  assumes wf: "wfConditions (ps_Conditions ps)"
  shows "hasTerminalCheckpoint ps \<longleftrightarrow> (\<exists>c \<in> set (ps_Conditions ps). c_Type c = CondCheckpoint \<and> c_Status c = CondFalse)"
  using wf by (auto simp: hasTerminalCheckpoint_def list_ex_iff wfConditions_def checkpointVerdict_def)

text \<open>
  C36 (equivalence). The controller and the engine agree on every snapshot: on well-formed conditions
  the controller's scan says ready, refused, failed or in progress exactly as the engine's own predicates do.
\<close>

theorem controller_reads_the_engines_verdict:
  assumes wf: "wfConditions (ps_Conditions ps)"
  shows "sst_Phase (statusOfSnapshot K t n created (asStatus K ps)) =
    (if IsSnapshotReady ps then SnapReady
     else if hasTerminalCheckpoint ps then
       (if list_ex (\<lambda>c. c_Type c = CondCheckpoint \<and> c_Reason c = ReasonRefused) (ps_Conditions ps) then SnapRefused else SnapFailed)
     else SnapInProgress)"
proof -
  let ?l = "map (\<lambda>c. Some (asUcond K c)) (ps_Conditions ps)"
  note sc = scanConditions_fields [of K ?l, unfolded condIn_as]
  note uv = ucond_verdicts [OF wf]
  have one: "c = c'" if "c \<in> set (ps_Conditions ps)" "c' \<in> set (ps_Conditions ps)" "c_Type c = c_Type c'" for c c'
    using find_in [OF wf_types [OF wf, THEN conjunct1]] that by (metis option.inject)
  consider "IsSnapshotReady ps" | "\<not> IsSnapshotReady ps" "hasTerminalCheckpoint ps" | "unfinished ps" by (auto simp: unfinished_def)
  then show ?thesis
  proof cases
    case 1
    note true = wf_ready [OF wf 1]
    have "sc_terminalSubcond (scanConditions K ?l) = None" "sc_readyTerminalCond (scanConditions K ?l) = None" "sc_isReady (scanConditions K ?l)"
      using sc uv true 1 by (auto simp: IsSnapshotReady_def list_ex_iff)
    then show ?thesis using 1 by (simp add: statusOfSnapshot_def asStatus_def Let_def)
  next
    case 2
    then obtain c where c: "c \<in> set (ps_Conditions ps)" "c_Type c = CondCheckpoint" "c_Status c = CondFalse" using terminal_exactly [OF wf] by blast
    then obtain u where u: "sc_terminalSubcond (scanConditions K ?l) = Some u" using sc(2) uv(1) by fastforce
    obtain d where "d \<in> set (ps_Conditions ps)" "u = asUcond K d" "subconditionFailed (asUcond K d)" using terminalSubcond_in [OF u] by auto
    then have "u = asUcond K c" using uv(1) one c by metis
    moreover have "checkpointVerdict c" using wf c by (auto simp: wfConditions_def)
    moreover have "list_ex (\<lambda>c. c_Type c = CondCheckpoint \<and> c_Reason c = ReasonRefused) (ps_Conditions ps) \<longleftrightarrow> c_Reason c = ReasonRefused"
      using c one [OF c(1)] unfolding list_ex_iff by metis
    ultimately show ?thesis using 2 u c(3) reasons_terminal cond_names
      by (auto simp: statusOfSnapshot_def asStatus_def Let_def failStatus_def asUcond_def checkpointVerdict_def)
  next
    case 3
    have none: "c_Type c = CondCheckpoint" if "c \<in> set (ps_Conditions ps)" for c
      using wf_unfinished [OF wf 3] find_in [OF wf_types [OF wf, THEN conjunct1] that] wf_types [OF wf] that by force
    have "sc_terminalSubcond (scanConditions K ?l) = None" "sc_readyTerminalCond (scanConditions K ?l) = None" "\<not> sc_isReady (scanConditions K ?l)"
      using sc uv none 3 wf terminal_exactly [OF wf] cond_names
      by (auto simp: unfinished_def IsSnapshotReady_def list_ex_iff wfConditions_def checkpointVerdict_def)
    then show ?thesis using 3 by (simp add: statusOfSnapshot_def asStatus_def Let_def unfinished_def)
  qed
qed

text \<open>A snapshot that was just recorded as failed has a final verdict, and is not ready.\<close>

lemma failed_for_good:
  assumes "lawful_conditions K" "lawful_upsert K" "wfConditions cs" "ps_Conditions ps = foldl (SetCondition K t) cs (terminalConditions CondFalse ReasonFailed msg)"
  shows "hasTerminalCheckpoint ps \<and> \<not> IsSnapshotReady ps"
proof -
  note f = SetCondition_facts [OF assms(1,2)]
  let ?c1 = "SetCondition K t cs (cond CondCheckpoint CondFalse ReasonFailed msg 0)"
  have eq: "ps_Conditions ps = SetCondition K t ?c1 (cond CondReady CondFalse ReasonFailed msg 0)" by (simp add: assms(4) terminalConditions_def)
  have wf: "wfConditions (ps_Conditions ps)" unfolding assms(4) by (rule wf_terminal [OF assms(1-3)]) simp
  have "FindStatusCondition (ps_Conditions ps) CondReady \<noteq> None" unfolding eq by (rule f(2))
  then obtain c where c: "FindStatusCondition (ps_Conditions ps) CondReady = Some c" by blast
  then have ready: "c \<in> set (ps_Conditions ps)" "c_Type c = CondReady" "c_Status c = CondFalse" using find_set [OF c] f(1) [OF c [unfolded eq]] by auto
  obtain d where d: "d \<in> set (ps_Conditions ps)" "c_Type d = CondCheckpoint" "c_Status d = CondFalse" using wf ready unfolding wfConditions_def by metis
  show ?thesis using terminal_exactly [OF wf] d wf_ready [OF wf] ready by force
qed

text \<open>
  C10 (safety). A snapshot is marked ready only when its archive is durable: the pass has read its
  work order, for this node and without a verdict yet, the node has then delivered the checkpoint and the spec of the pod
  and container that the order names, and the store has exactly these in the order's bucket and path, with a manifest
  that has the digests of both. Unless another client changes the snapshot's spec in the meantime, that is the order of the
  snapshot that is marked.
\<close>

theorem ready_means_archived:
  assumes "run_state (NodeSnapshot_Reconcile C K A ns name) a = (r, a')"
    and "lawful_conditions K" "lawful_upsert K" "lawfulOthers (ag_others a)" and "ag_writes a = []" "ag_log a = []"
    and "(Some l, ps) \<in> set (ag_writes a')" "wfConditions (ps_Conditions l)" "IsSnapshotReady ps"
  shows "\<exists>spec. ordered A a name spec \<and> archived C A ns a a' name spec \<and> ps_Name ps = name \<and> (keepsSpecs (ag_others a) \<longrightarrow> readSnapshotSpec ps = Inr spec)"
proof -
  have "nodeWrite C K A ns name a a' (Some l, ps)"
    using wp_run [OF wp_NodeSnapshot_Reconcile [OF assms(4,6)] assms(1)] assms(5,7) by (auto simp: nodeWrites_def)
  then obtain rsn msg where w: "rsn \<in> {ReasonSucceeded, ReasonFailed}" "ps_Name l = name"
    "rsn = ReasonSucceeded \<longrightarrow> (\<exists>spec. ordered A a name spec \<and> archived C A ns a a' name spec \<and> (keepsSpecs (ag_others a) \<longrightarrow> readSnapshotSpec l = Inr spec))"
    "nextStatus K (ag_now a) (terminalConditions (if rsn = ReasonSucceeded then CondTrue else CondFalse) rsn msg) l ps"
    unfolding nodeWrite_def by fastforce
  have "rsn \<noteq> ReasonFailed"
  proof
    assume "rsn = ReasonFailed"
    then have "ps_Conditions ps = foldl (SetCondition K (ag_now a)) (ps_Conditions l) (terminalConditions CondFalse ReasonFailed msg)"
      using w(4) cond_names(3) by (simp add: nextStatus_def SetConditions_def)
    then show False using failed_for_good [OF assms(2,3,8)] assms(9) by blast
  qed
  moreover have "ps_Name ps = name" "readSnapshotSpec ps = readSnapshotSpec l"
    using w(2,4) readSpec_cong [of ps l] by (auto simp: nextStatus_def SetConditions_def)
  ultimately show ?thesis using w(1,3) by auto
qed






subsection \<open>Scenes\<close>

definition criuPolicy :: enginePolicy where
  "criuPolicy = \<lparr>ep_Name = ''psp'', ep_Labels = [LabelEngine \<mapsto> EngineCRIU], ep_Generation = 1, ep_TriggerType = NestedStr ''manual'',
     ep_PostCheckpoint = NestedStr ''stop'', ep_Selector = Some (LabelSelector [] []), ep_StorageConfigName = NestedStr ''sc'',
     ep_Conditions = [cond CondReady CondTrue ''Serviceable'' [] 1]\<rparr>"

definition criuNode :: engineNode where
  "criuNode = \<lparr>nd_Name = ''n1'', nd_Labels = Map.empty, nd_Taints = [], nd_Unschedulable = False, nd_Conditions = [], nd_Annotations = [NodeReadyLabel \<mapsto> ''true'']\<rparr>"

definition criuPod :: pod where
  "criuPod = (podOf ''web-0'' ''u0'')\<lparr>pod_Labels := [LabelEnabled \<mapsto> ''true''],
     pod_Containers := [\<lparr>ct_Name = ''app'', ct_RestartPolicy = None, ct_RequestsMemory = 0, ct_LimitsMemory = 0\<rparr>]\<rparr>"

definition criuTrigger :: trigger where
  "criuTrigger = \<lparr>tg_Name = ''t'', tg_TargetPod = ''web-0'', tg_OwnerUIDs = [], tg_DeletionTimestamp = None, tg_Conditions = [], tg_SnapshotCreated = NestedAbsent\<rparr>"

definition controlAgent :: "engineSnapshot list \<Rightarrow> agent" where
  "controlAgent snaps = (agentOf sourceReplies Map.empty snaps [] [criuPod])\<lparr>ag_policies := [criuPolicy],
     ag_configs := [\<lparr>sc_Name = ''sc'', sc_Bucket = NestedStr ''b'', sc_Path = NestedStr ''p''\<rparr>], ag_triggers := [criuTrigger], ag_nodes := [criuNode]\<rparr>"

lemma sampleLib_upsert: "lawful_upsert sampleLib"
proof -
  have none: "FindStatusCondition cs ty = None \<longleftrightarrow> ty \<notin> set (map c_Type cs)" for cs ty
    by (auto simp: FindStatusCondition_def find_None_iff)
  have "map c_Type (fst (sampleSetCondition t cs c)) = (if c_Type c \<in> set (map c_Type cs) then map c_Type cs else map c_Type cs @ [c_Type c])" for t cs c
  proof (cases "FindStatusCondition cs (c_Type c)")
    case None
    then show ?thesis using none [of cs "c_Type c"] by (auto simp: sampleSetCondition_def)
  next
    case (Some old)
    then have mem: "c_Type c \<in> set (map c_Type cs)" using none [of cs "c_Type c"] by simp
    show ?thesis unfolding if_P [OF mem] sampleSetCondition_def Some option.case Let_def by (simp split: if_split)
  qed
  then show ?thesis by (simp add: lawful_upsert_def sampleLib_def)
qed

lemma quiet_others: "lawfulOthers (\<lambda>_ l. l)"
  by (simp add: lawfulOthers_def)

lemma control_start: "lawfulOthers (ag_others (controlAgent l))" "ag_writes (controlAgent l) = []" "ag_log (controlAgent l) = []"
  by (simp_all add: controlAgent_def agentOf_def quiet_others)

lemma psmt_writes: "let ws = ag_writes (snd (run_state (PSMT_Reconcile sampleLib None ''t'') (controlAgent []))) in
    length ws = 2 \<and> Option.is_none (fst (ws ! 0)) \<and> (case readSnapshotSpec (snd (ws ! 0)) of Inr spec \<Rightarrow> ss_Bucket spec = ''b'' | Inl _ \<Rightarrow> False) \<and>
    (case fst (ws ! 1) of Some l \<Rightarrow> wfConditions (ps_Conditions l) | None \<Rightarrow> False)"
  by code_simp

lemma only_eligible_pods_are_ordered_witness:
  "let a = controlAgent []; a' = snd (run_state (PSMT_Reconcile sampleLib None ''t'') a) in lawfulOthers (ag_others a) \<and> ag_writes a = [] \<and>
     (\<exists>ps spec p. (None, ps) \<in> set (ag_writes a') \<and> readSnapshotSpec ps = Inr spec \<and> eligible a p \<and> ss_SourcePod spec = pod_Name p)"
proof -
  let ?ws = "ag_writes (snd (run_state (PSMT_Reconcile sampleLib None ''t'') (controlAgent [])))"
  obtain spec where w: "length ?ws = 2" "fst (?ws ! 0) = None" "readSnapshotSpec (snd (?ws ! 0)) = Inr spec"
    using psmt_writes by (auto simp: Let_def Option.is_none_def split: sum.splits)
  have "?ws ! 0 \<in> set ?ws" using w(1) by simp
  with w(2) have "(None, snd (?ws ! 0)) \<in> set ?ws" by (metis prod.collapse)
  with only_eligible_pods_are_ordered [OF surjective_pairing control_start(1,2) this w(3)] w(3) control_start show ?thesis unfolding Let_def by blast
qed

lemma verdicts_are_final_witness:
  "let a = controlAgent []; a' = snd (run_state (PSMT_Reconcile sampleLib None ''t'') a) in lawfulOthers (ag_others a) \<and> ag_writes a = [] \<and>
     (\<exists>l ps. (Some l, ps) \<in> set (ag_writes a') \<and> \<not> IsSnapshotReady l \<and> \<not> hasTerminalCheckpoint l \<and> ps_Spec ps = ps_Spec l)"
proof -
  let ?ws = "ag_writes (snd (run_state (PSMT_Reconcile sampleLib None ''t'') (controlAgent [])))"
  obtain l where w: "length ?ws = 2" "fst (?ws ! 1) = Some l" using psmt_writes by (auto simp: Let_def split: option.splits)
  have "?ws ! 1 \<in> set ?ws" using w(1) by simp
  with w(2) have "(Some l, snd (?ws ! 1)) \<in> set ?ws" by (metis prod.collapse)
  with verdicts_are_final [OF surjective_pairing control_start(1,2) this] control_start show ?thesis unfolding Let_def by blast
qed

lemma engine_conditions_are_well_formed_witness:
  "let a = controlAgent []; a' = snd (run_state (PSMT_Reconcile sampleLib None ''t'') a) in lawful_conditions sampleLib \<and> lawful_upsert sampleLib \<and>
     (\<exists>l ps. (Some l, ps) \<in> set (ag_writes a') \<and> wfConditions (ps_Conditions l) \<and> wfConditions (ps_Conditions ps))"
proof -
  let ?ws = "ag_writes (snd (run_state (PSMT_Reconcile sampleLib None ''t'') (controlAgent [])))"
  obtain l where w: "length ?ws = 2" "fst (?ws ! 1) = Some l" "wfConditions (ps_Conditions l)" using psmt_writes by (auto simp: Let_def split: option.splits)
  have "?ws ! 1 \<in> set ?ws" using w(1) by simp
  with w(2) have in_ws: "(Some l, snd (?ws ! 1)) \<in> set ?ws" by (metis prod.collapse)
  have "wfConditions (ps_Conditions (snd (?ws ! 1)))"
    using engine_conditions_are_well_formed [OF insertI1 surjective_pairing sampleLib_conditions sampleLib_upsert control_start in_ws] w(3) by simp
  with in_ws w(3) sampleLib_conditions sampleLib_upsert show ?thesis unfolding Let_def by blast
qed

text \<open>The snapshot ordered for the pod, and the node that serves it: at first the source runs, later it is stopped.\<close>

definition orderedSnapshot :: engineSnapshot where
  "orderedSnapshot = newSnapshot criuPod [] (Inr (''b'', ''p''))"

definition nodeReplies :: "nat \<Rightarrow> nodeReply" where
  "nodeReplies n = (if n = 1 then NodeFile ''/c.tar'' ''T'' else if n = 2 then NodeInfo ''S'' ''img'' else if n < 13 then NodeDone else NodeError ''container not running'')"

definition servingAgent :: agent where
  "servingAgent = agentOf nodeReplies Map.empty [orderedSnapshot] [] []"

definition nodePass :: "agent \<Rightarrow> (api_error + result) \<times> agent" where
  "nodePass a = run_state (NodeSnapshot_Reconcile sampleHashes sampleLib sceneNode ''ns'' ''ps-web-0-u0'') a"

lemma serving_writes: "let ws = ag_writes (snd (nodePass servingAgent)) in
    length ws = 1 \<and> (case fst (ws ! 0) of Some l \<Rightarrow> wfConditions (ps_Conditions l) | None \<Rightarrow> False) \<and> IsSnapshotReady (snd (ws ! 0))"
  by code_simp

lemma controller_reads_the_engines_verdict_witness:
  "let ps = snd (ag_writes (snd (nodePass servingAgent)) ! 0) in wfConditions (ps_Conditions ps) \<and> sst_Phase (statusOfSnapshot sampleLib 0 ''s'' 0 (asStatus sampleLib ps)) = SnapReady"
proof -
  let ?ps = "snd (ag_writes (snd (nodePass servingAgent)) ! 0)"
  have "wfConditions (ps_Conditions ?ps)" "IsSnapshotReady ?ps" by code_simp+
  then show ?thesis using controller_reads_the_engines_verdict [of ?ps sampleLib 0 "''s''" 0] by (simp add: Let_def)
qed

lemma ready_means_archived_witness:
  "let a' = snd (nodePass servingAgent) in \<exists>l ps spec. (Some l, ps) \<in> set (ag_writes a') \<and> IsSnapshotReady ps \<and> readSnapshotSpec ps = Inr spec \<and>
     archived sampleHashes sceneNode ''ns'' servingAgent a' ''ps-web-0-u0'' spec"
proof -
  let ?ws = "ag_writes (snd (nodePass servingAgent))"
  have start: "lawfulOthers (ag_others servingAgent)" "ag_writes servingAgent = []" "ag_log servingAgent = []" "keepsSpecs (ag_others servingAgent)"
    by (simp_all add: servingAgent_def agentOf_def quiet_others keepsSpecs_def)
  obtain l where w: "length ?ws = 1" "fst (?ws ! 0) = Some l" "wfConditions (ps_Conditions l)" "IsSnapshotReady (snd (?ws ! 0))"
    using serving_writes by (auto simp: Let_def split: option.splits)
  have "?ws ! 0 \<in> set ?ws" using w(1) by simp
  with w(2) have in_ws: "(Some l, snd (?ws ! 0)) \<in> set ?ws" by (metis prod.collapse)
  show ?thesis
    using ready_means_archived [OF surjective_pairing sampleLib_conditions sampleLib_upsert start(1-3) in_ws [unfolded nodePass_def] w(3) w(4) [unfolded nodePass_def]] in_ws w(4) start(4)
    unfolding Let_def nodePass_def by blast
qed

definition conflictAgent :: agent where
  "conflictAgent = servingAgent\<lparr>ag_fault := (\<lambda>n. if n = 12 then Refused (err Conflict ''modified'') else Served)\<rparr>"

lemma wp_served: "ag_fault a (ag_calls a) = Served \<Longrightarrow> wp (attempt f) Q a = (case f (a\<lparr>ag_calls := Suc (ag_calls a)\<rparr>) of (x, a') \<Rightarrow> Q x a')"
  by (simp add: wp_def attempt_def Let_def)

text \<open>A pass whose checkpoint fails, with nobody else writing: the state it ends in.\<close>

lemma wp_failed_checkpoint:
  assumes quiet: "\<And>n l. ag_others a n l = l" and served: "\<And>n. ag_calls a \<le> n \<Longrightarrow> ag_fault a n = Served"
    and ps: "store_get ps_Name (ag_snapshots a) name = Some ps" "mget (ps_Labels ps) LabelEngine = EngineCRIU" "unfinished ps"
      "readSnapshotSpec ps = Inr spec" "ss_NodeName spec = na_NodeName A"
    and free: "''snapshot/'' @ name \<notin> set (ag_inflight a)" and node: "ag_node a (Suc (ag_calls a)) = NodeError e"
  shows "wp (NodeSnapshot_Reconcile C K A ns name) (\<lambda>r a'. r = Inr no_requeue \<and> ag_objects a' = ag_objects a \<and> prefix (ag_answers a) (ag_answers a') \<and>
    (\<exists>ps' msg. store_get ps_Name (ag_snapshots a') name = Some ps' \<and>
       ps_Conditions ps' = foldl (SetCondition K (ag_now a)) (ps_Conditions ps) (terminalConditions CondFalse ReasonFailed msg))) a"
proof -
  have nm: "ps_Name ps = name" by (rule store_get_key [OF ps(1), THEN conjunct1])
  have got: "wp (getSnapshot name) Q b = Q (Inr ps) (b\<lparr>ag_snapshots := ag_snapshots a, ag_calls := Suc (ag_calls b)\<rparr>)"
    if "ag_others b = ag_others a" "ag_fault b = ag_fault a" "ag_calls a \<le> ag_calls b" "ag_snapshots b = ag_snapshots a" for Q b
    using that served quiet ps(1) by (simp add: getSnapshot_def wp_bind wp_others get_podSnapshot_def wp_served found_def)
  have upd: "wp (updateSnapshotStatus (SetConditions K t ps cs)) Q b =
      Q (Inr ()) (let ps' = (SetConditions K t ps cs)\<lparr>ps_ResourceVersion := Suc (ps_ResourceVersion ps)\<rparr> in
        b\<lparr>ag_calls := Suc (ag_calls b), ag_snapshots := store_put ps_Name ps' (ag_snapshots b), ag_writes := ag_writes b @ [(Some ps, ps')]\<rparr>)"
    if "ag_others b = ag_others a" "ag_fault b = ag_fault a" "ag_calls a \<le> ag_calls b" "ag_snapshots b = ag_snapshots a" for Q b t cs
    using that served quiet ps(1) nm by (simp add: updateSnapshotStatus_def wp_bind wp_others wp_served Let_def SetConditions_def)
  have sc: "ps_Name (SetConditions K t ps cs) = name" "ps_Conditions (SetConditions K t ps cs) = foldl (SetCondition K t) (ps_Conditions ps) cs" for t cs
    by (simp_all add: SetConditions_def nm)
  show ?thesis
    unfolding NodeSnapshot_Reconcile_def runOnce_def loadOrStore_def run_def concludeRun_def finishPass_def finish_def deleteKey_def now_def
    using ps free node
    by (simp add: wp_simps wp_bind_eta got upd nm unfinished_def wp_nodeCall nodeFiles_def Let_def store_get_put sc cond_names(3))
      blast
qed

lemma archived_mono: "archived C A ns a a1 name spec \<Longrightarrow> prefix (ag_answers a1) (ag_answers a') \<Longrightarrow> ag_objects a' = ag_objects a1 \<Longrightarrow> archived C A ns a a' name spec"
  unfolding archived_def nodeAnswered_def prefix_def by fastforce

text \<open>
  C37 (error). A run that succeeded can still end as a failed snapshot. Once the archive of a work order is
  complete in the store but the verdict was not recorded, the next pass starts the pipeline again with a new checkpoint; and
  when the node refuses that, since the source container is stopped, the pass records the snapshot as failed for good, with
  the archive still in the store. This is the behaviour with a served API server and no other writer.
\<close>

theorem lost_verdict_fails_a_durable_snapshot:
  assumes "run_state (NodeSnapshot_Reconcile C K A ns name) a = (r, a')" and "archived C A ns a0 a name spec"
    and "lawful_conditions K" "lawful_upsert K" and "\<And>n l. ag_others a n l = l" and "\<And>n. ag_calls a \<le> n \<Longrightarrow> ag_fault a n = Served"
    and "store_get ps_Name (ag_snapshots a) name = Some ps" "mget (ps_Labels ps) LabelEngine = EngineCRIU" "unfinished ps" "wfConditions (ps_Conditions ps)"
    and "readSnapshotSpec ps = Inr spec" "ss_NodeName spec = na_NodeName A" "''snapshot/'' @ name \<notin> set (ag_inflight a)"
    and "ag_node a (Suc (ag_calls a)) = NodeError e"
  shows "r = Inr no_requeue \<and> archived C A ns a0 a' name spec \<and>
    (\<exists>ps'. store_get ps_Name (ag_snapshots a') name = Some ps' \<and> hasTerminalCheckpoint ps' \<and> \<not> IsSnapshotReady ps')"
proof -
  from wp_run [OF wp_failed_checkpoint [OF assms(5-9,11-14)] assms(1)] obtain ps' msg where
    "r = Inr no_requeue" "ag_objects a' = ag_objects a" "prefix (ag_answers a) (ag_answers a')" "store_get ps_Name (ag_snapshots a') name = Some ps'"
    "ps_Conditions ps' = foldl (SetCondition K (ag_now a)) (ps_Conditions ps) (terminalConditions CondFalse ReasonFailed msg)" by blast
  then show ?thesis using archived_mono [OF assms(2)] failed_for_good [OF assms(3,4,10)] by blast
qed

text \<open>
  The scene: the first pass stops the source and loses its verdict to a conflict; the next one meets the same
  snapshot, the objects and answers that the first has left, and a container that does not run.
\<close>

definition lostAgent :: agent where
  "lostAgent = snd (nodePass conflictAgent)"

definition retryingAgent :: agent where
  "retryingAgent = (agentOf (\<lambda>_. NodeError ''container not running'') (ag_objects lostAgent) [orderedSnapshot] [] [])\<lparr>ag_answers := ag_answers lostAgent\<rparr>"

lemma lost_verdict_scene:
  "(case fst (nodePass conflictAgent) of Inl e \<Rightarrow> isConflict e | Inr _ \<Rightarrow> False)"
  "map (\<lambda>ps. (ps_Name ps, ps_Conditions ps)) (ag_snapshots lostAgent) = [(''ps-web-0-u0'', [])]"
  "map fst (ag_answers lostAgent) = [CheckpointReq ''ns'' ''web-0'' ''app'', SourceInfoReq ''ns'' ''web-0'' ''app'', StopReq ''ns'' ''web-0'' ''app'']"
  by code_simp+

lemma lost_archive:
  "(CheckpointReq ''ns'' ''web-0'' ''app'', NodeFile ''/c.tar'' ''T'') \<in> set (ag_answers lostAgent)"
  "(SourceInfoReq ''ns'' ''web-0'' ''app'', NodeInfo ''S'' ''img'') \<in> set (ag_answers lostAgent)"
  "ag_objects lostAgent (archiveKey sceneSpec ''ps-web-0-u0'' ''spec.json'') = Some ''S''"
  "ag_objects lostAgent (archiveKey sceneSpec ''ps-web-0-u0'' ''checkpoint.tar'') = Some ''T''"
  "ag_objects lostAgent (archiveKey sceneSpec ''ps-web-0-u0'' ''manifest.json'') = Some (MarshalManifest sampleHashes
     (manifestOf sampleHashes sceneNode ''ps-web-0-u0'' sceneSpec ''img'' (Sha256 sampleHashes ''T'', int (length ''T'')) (Sha256 sampleHashes ''S'') 7))"
  by code_simp+

lemma ordered_scene: "ps_Name orderedSnapshot = ''ps-web-0-u0''" "mget (ps_Labels orderedSnapshot) LabelEngine = EngineCRIU" "unfinished orderedSnapshot"
  "wfConditions (ps_Conditions orderedSnapshot)" "readSnapshotSpec orderedSnapshot = Inr sceneSpec" "ss_NodeName sceneSpec = na_NodeName sceneNode"
  by code_simp+

lemma retrying_archived: "archived sampleHashes sceneNode ''ns'' conflictAgent retryingAgent ''ps-web-0-u0'' sceneSpec"
proof -
  have start: "ag_answers conflictAgent = []" "ag_now conflictAgent = 7" by code_simp+
  have spec: "ss_SourcePod sceneSpec = ''web-0''" "ss_Container sceneSpec = ''app''" by (simp_all add: sceneSpec_def)
  have ret: "ag_answers retryingAgent = ag_answers lostAgent" "ag_objects retryingAgent = ag_objects lostAgent" by (simp_all add: retryingAgent_def agentOf_def)
  have same: "holds sampleHashes i objs key s" if "objs key = Some s" for i objs key s using that by (simp add: holds_def verified_def)
  have "durableArchive sampleHashes (intact conflictAgent) sceneNode ''ps-web-0-u0'' sceneSpec ''S'' ''img'' ''T'' 7 (ag_objects lostAgent)"
    unfolding durableArchive_def by (intro conjI same lost_archive)
  then show ?thesis unfolding archived_def nodeAnswered_def start ret spec using lost_archive(1,2) by (metis drop0 list.size(3))
qed

lemma lost_verdict_fails_a_durable_snapshot_witness:
  "archived sampleHashes sceneNode ''ns'' conflictAgent retryingAgent ''ps-web-0-u0'' sceneSpec \<and>
   (let a' = snd (nodePass retryingAgent) in archived sampleHashes sceneNode ''ns'' conflictAgent a' ''ps-web-0-u0'' sceneSpec \<and>
     (\<exists>ps'. store_get ps_Name (ag_snapshots a') ''ps-web-0-u0'' = Some ps' \<and> hasTerminalCheckpoint ps' \<and> \<not> IsSnapshotReady ps'))"
proof -
  have ret: "ag_others retryingAgent n l = l" "ag_fault retryingAgent n = Served" "store_get ps_Name (ag_snapshots retryingAgent) ''ps-web-0-u0'' = Some orderedSnapshot"
    "''snapshot/'' @ ''ps-web-0-u0'' \<notin> set (ag_inflight retryingAgent)" "ag_node retryingAgent n = NodeError ''container not running''" for n l
    by (simp_all add: retryingAgent_def agentOf_def store_get_def ordered_scene(1))
  show ?thesis unfolding Let_def nodePass_def
    using lost_verdict_fails_a_durable_snapshot [OF surjective_pairing retrying_archived sampleLib_conditions sampleLib_upsert ret(1,2) ret(3) ordered_scene(2-6) ret(4,5)] retrying_archived
    by blast
qed





end
