(* ===== verification/Holder.thy ===== *)
theory Holder
  imports SnapshotEngine "HOL-Library.Monad_Syntax"
begin

text \<open>
  The holder of the CRIU engine: the webhook that puts it in front of a replacement's command
  (\<open>psengine/restore_webhook.go\<close>) and the program itself (\<open>cmd/holder\<close>), which waits for the restore and
  either keeps the sandbox or starts the original command.

  \<^item> The annotations file is what the kubelet shows of the pod at each time, a function of the clock;
    its text is parsed as in the source, with Go's quoting. The text is taken to be valid UTF-8.
  \<^item> The two polling loops are partial functions: not returning is \<open>None\<close>. Each sleep may last longer than asked.
\<close>

section \<open>Definitions\<close>

subsection \<open>Injection at admission\<close>

record volumeMount =
  vm_Name :: string
  vm_MountPath :: string
  vm_ReadOnly :: bool

record appContainer =
  ac_Name :: string
  ac_Image :: string
  ac_Command :: "string list"
  ac_Args :: "string list"
  ac_VolumeMounts :: "volumeMount list"

datatype volumeSource = EmptyDir | AnnotationsFile string | OtherVolume string

record podTemplate =
  pt_Annotations :: strmap
  pt_SchedulingGates :: "string list"
  pt_Volumes :: "(string \<times> volumeSource) list"
  pt_InitContainers :: "appContainer list"
  pt_Containers :: "appContainer list"

definition SchedulingGate :: string where "SchedulingGate = ''gke.io/pod-migration-gate''"
definition holdVolume :: string where "holdVolume = ''pmhold''"
definition infoVolume :: string where "infoVolume = ''pminfo''"
definition holdMount :: string where "holdMount = ''/pmhold''"
definition infoMount :: string where "infoMount = ''/pminfo''"
definition annotationsRel :: string where "annotationsRel = ''annotations''"
definition seedInitName :: string where "seedInitName = ''pm-holder-seed''"

definition wrapped :: "appContainer \<Rightarrow> appContainer" where
  "wrapped app =
     app\<lparr>ac_VolumeMounts := ac_VolumeMounts app @ [\<lparr>vm_Name = holdVolume, vm_MountPath = holdMount, vm_ReadOnly = True\<rparr>, \<lparr>vm_Name = infoVolume, vm_MountPath = infoMount, vm_ReadOnly = True\<rparr>],
      ac_Command := [holdMount @ ''/holder'', ''wrap'', infoMount @ ''/'' @ annotationsRel, ''--''] @ (ac_Command app @ ac_Args app),
      ac_Args := []\<rparr>"

definition seedContainer :: "string \<Rightarrow> appContainer" where
  "seedContainer holderImage =
     \<lparr>ac_Name = seedInitName, ac_Image = holderImage, ac_Command = [''/holder'', ''seed'', holdMount @ ''/holder''], ac_Args = [],
      ac_VolumeMounts = [\<lparr>vm_Name = holdVolume, vm_MountPath = holdMount, vm_ReadOnly = False\<rparr>]\<rparr>"

text \<open>The pod after the mutation, or why it is left alone.\<close>

definition InjectHolder :: "podTemplate \<Rightarrow> string \<Rightarrow> string + podTemplate" where
  "InjectHolder p holderImage =
     (if SchedulingGate \<notin> set (pt_SchedulingGates p) \<or> mget (pt_Annotations p) AnnotationAssignedPMJ = [] then Inl ''not a gated migration replacement pod''
      else if mget (pt_Annotations p) AnnotationInjected = ''true'' then Inl ''already injected''
      else case pt_Containers p of
        [app] \<Rightarrow>
          if ac_Command app = [] then Inl ''container has no explicit command; cold-start fall-through impossible, skipping injection''
          else Inr (p\<lparr>pt_Volumes := pt_Volumes p @ [(holdVolume, EmptyDir), (infoVolume, AnnotationsFile annotationsRel)],
            pt_InitContainers := pt_InitContainers p @ [seedContainer holderImage],
            pt_Containers := [wrapped app],
            pt_Annotations := (pt_Annotations p)(AnnotationInjected \<mapsto> ''true'')\<rparr>)
      | _ \<Rightarrow> Inl ''multi-container pod: outside criu engine v1 scope'')"

text \<open>\<open>RestoreInjector.Handle\<close>: a pod that is not injected is admitted as it is; \<open>decoded\<close> is the request's object.\<close>

definition RestoreInjector_Handle :: "string \<Rightarrow> podTemplate option \<Rightarrow> int + podTemplate" where
  "RestoreInjector_Handle holderImage decoded =
     (case decoded of
        None \<Rightarrow> Inl 400
      | Some p \<Rightarrow> (case InjectHolder p holderImage of Inl _ \<Rightarrow> Inr p | Inr p' \<Rightarrow> Inr p'))"

subsection \<open>Go's quoted strings\<close>

definition hexDigit :: "char \<Rightarrow> nat option" where
  "hexDigit c =
     (if CHR ''0'' \<le> c \<and> c \<le> CHR ''9'' then Some (of_char c - 48)
      else if CHR ''a'' \<le> c \<and> c \<le> CHR ''f'' then Some (of_char c - 87)
      else if CHR ''A'' \<le> c \<and> c \<le> CHR ''F'' then Some (of_char c - 55)
      else None)"

definition baseVal :: "nat \<Rightarrow> (char \<Rightarrow> nat option) \<Rightarrow> string \<Rightarrow> nat option" where
  "baseVal base dig s = fold (\<lambda>c acc. case (acc, dig c) of (Some n, Some d) \<Rightarrow> Some (n * base + d) | _ \<Rightarrow> None) s (Some 0)"

definition octDigit :: "char \<Rightarrow> nat option" where
  "octDigit c = (if CHR ''0'' \<le> c \<and> c \<le> CHR ''7'' then Some (of_char c - 48) else None)"

definition encodeRune :: "nat \<Rightarrow> string option" where
  "encodeRune r =
     (if r < 128 then Some [char_of r]
      else if r < 2048 then Some [char_of (192 + r div 64), char_of (128 + r mod 64)]
      else if 55296 \<le> r \<and> r < 57344 then None
      else if r < 65536 then Some [char_of (224 + r div 4096), char_of (128 + r div 64 mod 64), char_of (128 + r mod 64)]
      else if r < 1114112 then Some [char_of (240 + r div 262144), char_of (128 + r div 4096 mod 64), char_of (128 + r div 64 mod 64), char_of (128 + r mod 64)]
      else None)"

text \<open>What follows a backslash: the bytes it stands for, and how many characters it takes.\<close>

definition escape :: "char \<Rightarrow> string \<Rightarrow> (string \<times> nat) option" where
  "escape q s =
     (case s of
        [] \<Rightarrow> None
      | c # r \<Rightarrow>
          if c = CHR ''a'' then Some ([CHR 0x07], 1)
          else if c = CHR ''b'' then Some ([CHR 0x08], 1)
          else if c = CHR ''f'' then Some ([CHR 0x0C], 1)
          else if c = CHR ''n'' then Some ([CHR 0x0A], 1)
          else if c = CHR ''r'' then Some ([CHR 0x0D], 1)
          else if c = CHR ''t'' then Some ([CHR 0x09], 1)
          else if c = CHR ''v'' then Some ([CHR 0x0B], 1)
          else if c = CHR 0x5C \<or> c = q then Some ([c], 1)
          else if c = CHR ''x'' then
            (if length r < 2 then None else map_option (\<lambda>n. ([char_of n], 3)) (baseVal 16 hexDigit (take 2 r)))
          else if c = CHR ''u'' then
            (if length r < 4 then None else Option.bind (baseVal 16 hexDigit (take 4 r)) (\<lambda>n. map_option (\<lambda>b. (b, 5)) (encodeRune n)))
          else if c = CHR ''U'' then
            (if length r < 8 then None else Option.bind (baseVal 16 hexDigit (take 8 r)) (\<lambda>n. map_option (\<lambda>b. (b, 9)) (encodeRune n)))
          else if octDigit c \<noteq> None then
            (if length s < 3 then None else Option.bind (baseVal 8 octDigit (take 3 s)) (\<lambda>n. if n < 256 then Some ([char_of n], 3) else None))
          else None)"

function unescape :: "char \<Rightarrow> string \<Rightarrow> string option" where
  "unescape q [] = Some []"
| "unescape q (c # cs) =
     (if c = q \<or> c = CHR 0x0A then None
      else if c \<noteq> CHR 0x5C then map_option ((#) c) (unescape q cs)
      else case escape q cs of None \<Rightarrow> None | Some (b, n) \<Rightarrow> map_option ((@) b) (unescape q (drop n cs)))"
  by pat_completeness auto
termination by (relation "measure (\<lambda>(q, s). length s)") auto

definition runes :: "string \<Rightarrow> nat" where
  "runes s = length (filter (\<lambda>c. \<not> (CHR 0x80 \<le> c \<and> c \<le> CHR 0xBF)) s)"

definition Unquote :: "string \<Rightarrow> string option" where
  "Unquote s =
     (if length s < 2 \<or> hd s \<noteq> last s then None
      else let q = hd s; inner = butlast (tl s) in
        if q = CHR 0x60 then (if CHR 0x60 \<in> set inner then None else Some (filter (\<lambda>c. c \<noteq> CHR 0x0D) inner))
        else if q = CHR 0x22 then unescape q inner
        else if q = CHR 0x27 then Option.bind (unescape q inner) (\<lambda>x. if runes x = 1 then Some x else None)
        else None)"

definition trimQuotes :: "string \<Rightarrow> string" where
  "trimQuotes s = rev (dropWhile (\<lambda>c. c = CHR 0x22) (rev (dropWhile (\<lambda>c. c = CHR 0x22) s)))"

text \<open>\<open>strings.Cut\<close> at the first equals sign.\<close>

definition cutLine :: "string \<Rightarrow> (string \<times> string) option" where
  "cutLine s = (if CHR ''='' \<in> set s then Some (takeWhile (\<lambda>c. c \<noteq> CHR ''='') s, tl (dropWhile (\<lambda>c. c \<noteq> CHR ''='') s)) else None)"

definition readLine :: "string \<Rightarrow> (string \<times> string) option" where
  "readLine line =
     (case cutLine (trimSpace line) of
        None \<Rightarrow> None
      | Some (k, v) \<Rightarrow> Some (k, case Unquote v of Some u \<Rightarrow> u | None \<Rightarrow> trimQuotes v))"

definition readAnnotationsFile :: "string option \<Rightarrow> strmap" where
  "readAnnotationsFile content =
     (case content of
        None \<Rightarrow> Map.empty
      | Some b \<Rightarrow> foldl (\<lambda>out line. case readLine line of None \<Rightarrow> out | Some (k, v) \<Rightarrow> out(k \<mapsto> v)) Map.empty (splitOn (CHR 0x0A) b))"

subsection \<open>Waiting for the restore\<close>

definition annPSName :: string where "annPSName = ''podsnapshot.gke.io/ps-name''"
definition annRestoreStatus :: string where "annRestoreStatus = ''pod-migrate.io/psengine-restore''"
definition statusRestored :: string where "statusRestored = ''restored''"
definition statusFailed :: string where "statusFailed = ''failed''"
definition defaultAssignWait :: duration where "defaultAssignWait = 2 * second"
definition defaultRestoreWait :: duration where "defaultRestoreWait = 90 * second"
definition pollInterval :: duration where "pollInterval = 100 * (second div 1000)"

datatype wrapOutcome = OutcomeColdStart | OutcomeHold

text \<open>The pod's surroundings: each file at each time, and by how much a sleep that starts then is late.\<close>

record surroundings =
  su_file :: "string \<Rightarrow> time \<Rightarrow> string option"
  su_late :: "time \<Rightarrow> duration"

partial_function (option) awaitAssignment :: "surroundings \<Rightarrow> string \<Rightarrow> duration \<Rightarrow> time \<Rightarrow> time \<Rightarrow> (string option \<times> time) option" where
  "awaitAssignment S path poll deadline t =
     (case readAnnotationsFile (su_file S path t) annPSName of
        Some v \<Rightarrow> if v \<noteq> [] then Some (Some v, t) else Some (None, t)
      | None \<Rightarrow> if deadline < t then Some (None, t) else awaitAssignment S path poll deadline (t + poll + su_late S t))"

partial_function (option) awaitRestore :: "surroundings \<Rightarrow> string \<Rightarrow> duration \<Rightarrow> time \<Rightarrow> time \<Rightarrow> (wrapOutcome \<times> time) option" where
  "awaitRestore S path poll deadline t =
     (let st = mget (readAnnotationsFile (su_file S path t)) annRestoreStatus in
      if st = statusRestored then Some (OutcomeHold, t)
      else if st = statusFailed then Some (OutcomeColdStart, t)
      else if deadline < t then Some (OutcomeColdStart, t)
      else awaitRestore S path poll deadline (t + poll + su_late S t))"

definition decideAction :: "surroundings \<Rightarrow> string \<Rightarrow> duration \<Rightarrow> duration \<Rightarrow> duration \<Rightarrow> time \<Rightarrow> (wrapOutcome \<times> time) option" where
  "decideAction S path assignWait restoreWait poll t =
     (case awaitAssignment S path poll (t + assignWait) t of
        None \<Rightarrow> None
      | Some (None, t') \<Rightarrow> Some (OutcomeColdStart, t')
      | Some (Some psName, t') \<Rightarrow> awaitRestore S path poll (t' + restoreWait) t')"

subsection \<open>The program\<close>

text \<open>
  The operating system under the holder: where a command is found, whether the kernel accepts an \<open>execve\<close>, the
  bytes of the running program, and which steps of a copy succeed. A process holds, becomes another program, exits, or
  has written a file.
\<close>

record holderOS =
  ho_LookPath :: "string \<Rightarrow> string option"
  ho_Exec :: "string \<Rightarrow> string list \<Rightarrow> bool"
  ho_Self :: "string option"
  ho_Create :: "string \<Rightarrow> bool"
  ho_Copy :: "string \<Rightarrow> bool"
  ho_Close :: "string \<Rightarrow> bool"

datatype holderResult = Holds | Execs string "string list" | Exits int | Seeds string string

definition runWrap :: "surroundings \<Rightarrow> holderOS \<Rightarrow> time \<Rightarrow> string list \<Rightarrow> holderResult option" where
  "runWrap S O' t args =
     (if length args < 3 \<or> args ! 1 \<noteq> ''--'' then Some (Exits 2)
      else let orig = drop 2 args in
        case decideAction S (args ! 0) defaultAssignWait defaultRestoreWait pollInterval t of
          None \<Rightarrow> None
        | Some (OutcomeHold, _) \<Rightarrow> Some Holds
        | Some (OutcomeColdStart, _) \<Rightarrow> Some (case ho_LookPath O' (hd orig) of
              None \<Rightarrow> Exits 127
            | Some bin \<Rightarrow> if ho_Exec O' bin orig then Execs bin orig else Exits 126))"

definition seedSelf :: "holderOS \<Rightarrow> string \<Rightarrow> string option" where
  "seedSelf O' dst =
     (case ho_Self O' of
        None \<Rightarrow> None
      | Some exe \<Rightarrow> if \<not> ho_Create O' dst then None else if \<not> ho_Copy O' dst then None else if \<not> ho_Close O' dst then None else Some exe)"

definition holderMain :: "surroundings \<Rightarrow> holderOS \<Rightarrow> time \<Rightarrow> string list \<Rightarrow> holderResult option" where
  "holderMain S O' t argv =
     (if 3 \<le> length argv \<and> argv ! 1 = ''seed'' then Some (case seedSelf O' (argv ! 2) of None \<Rightarrow> Exits 1 | Some exe \<Rightarrow> Seeds (argv ! 2) exe)
      else if 4 \<le> length argv \<and> argv ! 1 = ''wrap'' then runWrap S O' t (drop 2 argv)
      else Some Holds)"

section \<open>Lemmas\<close>

definition punctual :: "surroundings \<Rightarrow> duration \<Rightarrow> bool" where
  "punctual S late \<longleftrightarrow> (\<forall>t. 0 \<le> su_late S t \<and> su_late S t \<le> late)"

text \<open>
  Each loop returns, soon after its deadline: by induction on the time that is left.
\<close>

lemma awaitAssignment_returns:
  assumes "0 < poll" "punctual S late"
  shows "\<exists>r t'. awaitAssignment S path poll deadline t = Some (r, t') \<and> t \<le> t' \<and> t' \<le> max t (deadline + poll + late) \<and>
    (\<forall>v. r = Some v \<longrightarrow> v \<noteq> [] \<and> readAnnotationsFile (su_file S path t') annPSName = Some v)"
proof (induction "nat (deadline + 1 - t)" arbitrary: t rule: less_induct)
  case less
  have late: "0 \<le> su_late S t" "su_late S t \<le> late" using assms(2) by (auto simp: punctual_def)
  show ?case
  proof (cases "readAnnotationsFile (su_file S path t) annPSName = None \<and> t \<le> deadline")
    case True
    let ?t = "t + poll + su_late S t"
    have step: "awaitAssignment S path poll deadline t = awaitAssignment S path poll deadline ?t"
      by (subst awaitAssignment.simps) (use True in simp)
    have "nat (deadline + 1 - ?t) < nat (deadline + 1 - t)" using True assms(1) late by simp
    from less [OF this] show ?thesis unfolding step using late assms(1) True by (auto simp: max_def split: if_splits)
  next
    case False
    then show ?thesis by (subst (1) awaitAssignment.simps) (auto split: option.splits)
  qed
qed

lemma awaitRestore_returns:
  assumes "0 < poll" "punctual S late"
  shows "\<exists>r t'. awaitRestore S path poll deadline t = Some (r, t') \<and> t \<le> t' \<and> t' \<le> max t (deadline + poll + late) \<and>
    (r = OutcomeHold \<longrightarrow> mget (readAnnotationsFile (su_file S path t')) annRestoreStatus = statusRestored)"
proof (induction "nat (deadline + 1 - t)" arbitrary: t rule: less_induct)
  case less
  have late: "0 \<le> su_late S t" "su_late S t \<le> late" using assms(2) by (auto simp: punctual_def)
  let ?st = "mget (readAnnotationsFile (su_file S path t)) annRestoreStatus"
  show ?case
  proof (cases "?st \<noteq> statusRestored \<and> ?st \<noteq> statusFailed \<and> t \<le> deadline")
    case True
    let ?t = "t + poll + su_late S t"
    have step: "awaitRestore S path poll deadline t = awaitRestore S path poll deadline ?t"
      by (subst awaitRestore.simps) (use True in \<open>simp add: Let_def\<close>)
    have "nat (deadline + 1 - ?t) < nat (deadline + 1 - t)" using True assms(1) late by simp
    from less [OF this] show ?thesis unfolding step using late assms(1) True by (auto simp: max_def split: if_splits)
  next
    case False
    then show ?thesis by (subst (1) awaitRestore.simps) (auto simp: Let_def)
  qed
qed

lemma decideAction_returns:
  assumes "0 < poll" "punctual S late"
  shows "\<exists>r t'. decideAction S path assignWait restoreWait poll t = Some (r, t') \<and>
    (r = OutcomeHold \<longrightarrow> mget (readAnnotationsFile (su_file S path t')) annRestoreStatus = statusRestored)"
proof -
  obtain r1 t1 where 1: "awaitAssignment S path poll (t + assignWait) t = Some (r1, t1)" using awaitAssignment_returns [OF assms] by metis
  obtain r2 t2 where "awaitRestore S path poll (t1 + restoreWait) t1 = Some (r2, t2)"
    "r2 = OutcomeHold \<longrightarrow> mget (readAnnotationsFile (su_file S path t2)) annRestoreStatus = statusRestored" using awaitRestore_returns [OF assms] by metis
  with 1 show ?thesis by (cases r1) (auto simp: decideAction_def)
qed

text \<open>
  C39 (termination). The holder always decides: whatever the annotations file shows, and however the
  polls are delayed within a bound, it returns soon after its two waiting times. It keeps the sandbox only when the
  pod was ordered to restore and the node agent reported the restore as done.
\<close>

theorem holder_always_decides:
  assumes "0 < poll" "punctual S late" "0 \<le> assignWait" "0 \<le> restoreWait" "0 \<le> late"
  shows "\<exists>r t'. decideAction S path assignWait restoreWait poll t = Some (r, t') \<and> t' \<le> t + assignWait + restoreWait + 2 * (poll + late) \<and>
    (r = OutcomeHold \<longrightarrow> mget (readAnnotationsFile (su_file S path t')) annRestoreStatus = statusRestored \<and>
       (\<exists>t1 v. t \<le> t1 \<and> t1 \<le> t' \<and> readAnnotationsFile (su_file S path t1) annPSName = Some v \<and> v \<noteq> []))"
proof -
  obtain r1 t1 where 1: "awaitAssignment S path poll (t + assignWait) t = Some (r1, t1)" "t \<le> t1" "t1 \<le> max t (t + assignWait + poll + late)"
    "\<And>v. r1 = Some v \<Longrightarrow> v \<noteq> [] \<and> readAnnotationsFile (su_file S path t1) annPSName = Some v" using awaitAssignment_returns [OF assms(1,2)] by metis
  obtain r2 t2 where 2: "awaitRestore S path poll (t1 + restoreWait) t1 = Some (r2, t2)" "t1 \<le> t2" "t2 \<le> max t1 (t1 + restoreWait + poll + late)"
    "r2 = OutcomeHold \<Longrightarrow> mget (readAnnotationsFile (su_file S path t2)) annRestoreStatus = statusRestored" using awaitRestore_returns [OF assms(1,2)] by metis
  have t1: "t1 \<le> t + assignWait + poll + late" using 1(3) assms by simp
  show ?thesis
  proof (cases r1)
    case None
    then show ?thesis using 1(1) t1 assms by (auto simp: decideAction_def)
  next
    case (Some v)
    have "t2 \<le> t + assignWait + restoreWait + 2 * (poll + late)" using 2(3) t1 assms by simp
    then show ?thesis using 1(1,2) 1(4) [OF Some] 2 Some by (auto simp: decideAction_def)
  qed
qed

text \<open>
  C40 (roundtrip). The holder gives back the command that the webhook took. In every injected pod the
  container's new command decides on the annotations file that the webhook mounts. It holds exactly when the decision is
  to hold, which it is only for a restore reported as done. Otherwise it becomes the original command with the original
  arguments, found by the original name, or exits with 127 where there is no such program and with 126 where the
  kernel refuses it. The pod's other fields only grow, and it is injected only once.
\<close>

theorem cold_start_runs_the_original_command:
  assumes "InjectHolder p img = Inr p'" "punctual S late"
  shows "\<exists>app app' r t'. pt_Containers p = [app] \<and> pt_Containers p' = [app'] \<and>
    decideAction S (infoMount @ ''/'' @ annotationsRel) defaultAssignWait defaultRestoreWait pollInterval t = Some (r, t') \<and>
    (r = OutcomeHold \<longrightarrow> mget (readAnnotationsFile (su_file S (infoMount @ ''/'' @ annotationsRel) t')) annRestoreStatus = statusRestored) \<and>
    holderMain S O' t (ac_Command app' @ ac_Args app') = Some (if r = OutcomeHold then Holds
      else case ho_LookPath O' (hd (ac_Command app)) of
          None \<Rightarrow> Exits 127
        | Some bin \<Rightarrow> if ho_Exec O' bin (ac_Command app @ ac_Args app) then Execs bin (ac_Command app @ ac_Args app) else Exits 126) \<and>
    set (ac_VolumeMounts app) \<subseteq> set (ac_VolumeMounts app') \<and> ac_Image app' = ac_Image app \<and> set (pt_Volumes p) \<subseteq> set (pt_Volumes p') \<and>
    set (pt_InitContainers p) \<subseteq> set (pt_InitContainers p') \<and> (\<exists>why. InjectHolder p' img = Inl why)"
proof -
  let ?path = "infoMount @ ''/'' @ annotationsRel"
  obtain app where app: "pt_Containers p = [app]" "ac_Command app \<noteq> []" "p' = p\<lparr>pt_Volumes := pt_Volumes p @ [(holdVolume, EmptyDir), (infoVolume, AnnotationsFile annotationsRel)],
      pt_InitContainers := pt_InitContainers p @ [seedContainer img], pt_Containers := [wrapped app], pt_Annotations := (pt_Annotations p)(AnnotationInjected \<mapsto> ''true'')\<rparr>"
    using assms(1) by (auto simp: InjectHolder_def split: if_splits list.splits)
  have "0 < pollInterval" by (simp add: pollInterval_def)
  then obtain r t' where d: "decideAction S ?path defaultAssignWait defaultRestoreWait pollInterval t = Some (r, t')"
    "r = OutcomeHold \<longrightarrow> mget (readAnnotationsFile (su_file S ?path t')) annRestoreStatus = statusRestored"
    using decideAction_returns [OF _ assms(2)] by blast
  obtain c cs where cmd: "ac_Command app = c # cs" using app(2) by (cases "ac_Command app") auto
  have "holderMain S O' t (ac_Command (wrapped app) @ ac_Args (wrapped app)) = Some (if r = OutcomeHold then Holds
      else case ho_LookPath O' (hd (ac_Command app)) of
          None \<Rightarrow> Exits 127
        | Some bin \<Rightarrow> if ho_Exec O' bin (ac_Command app @ ac_Args app) then Execs bin (ac_Command app @ ac_Args app) else Exits 126)"
    using d(1) by (cases r) (simp_all add: holderMain_def runWrap_def wrapped_def cmd Let_def split: option.splits)
  then show ?thesis using app d by (intro exI [of _ app] exI [of _ "wrapped app"] exI [of _ r] exI [of _ t']) (auto simp: wrapped_def InjectHolder_def mget_def)
qed

subsection \<open>Scenes\<close>

text \<open>The restore is reported from the second poll on.\<close>

definition sceneFile :: "time \<Rightarrow> string" where
  "sceneFile t = ''podsnapshot.gke.io/ps-name='' @ [CHR 0x22] @ ''snap'' @ [CHR 0x22] @ (if t < 5 then [] else [CHR 0x0A] @ ''pod-migrate.io/psengine-restore='' @ [CHR 0x22] @ ''restored'' @ [CHR 0x22])"

definition sceneSurroundings :: surroundings where
  "sceneSurroundings = \<lparr>su_file = (\<lambda>_ t. Some (sceneFile t)), su_late = (\<lambda>_. 1)\<rparr>"

definition gatedTemplate :: podTemplate where
  "gatedTemplate = \<lparr>pt_Annotations = [AnnotationAssignedPMJ \<mapsto> ''pmj''], pt_SchedulingGates = [SchedulingGate], pt_Volumes = [], pt_InitContainers = [],
     pt_Containers = [\<lparr>ac_Name = ''app'', ac_Image = ''i'', ac_Command = [''/srv''], ac_Args = [''-v''], ac_VolumeMounts = []\<rparr>]\<rparr>"

lemma scene_punctual: "punctual sceneSurroundings 1"
  by (simp add: punctual_def sceneSurroundings_def)

lemma scene_annotations: "readAnnotationsFile (su_file sceneSurroundings path 7) annPSName = Some ''snap''"
  "mget (readAnnotationsFile (su_file sceneSurroundings path 7)) annRestoreStatus = ''restored''"
  by code_simp+

lemma holder_always_decides_witness:
  "punctual sceneSurroundings 1 \<and> (\<exists>r t'. decideAction sceneSurroundings ''/pminfo/annotations'' 2 90 4 0 = Some (r, t') \<and> t' \<le> 102)"
  using holder_always_decides [of 4 sceneSurroundings 1 2 90 "''/pminfo/annotations''" 0] scene_punctual by auto

definition sceneOS :: holderOS where
  "sceneOS = \<lparr>ho_LookPath = Some, ho_Exec = (\<lambda>_ _. True), ho_Self = Some ''ELF'', ho_Create = (\<lambda>_. True), ho_Copy = (\<lambda>_. True), ho_Close = (\<lambda>_. True)\<rparr>"

text \<open>A pod that never gets a restore order: the loop gives up after the waiting time.\<close>

definition orderless :: surroundings where
  "orderless = \<lparr>su_file = (\<lambda>_ _. None), su_late = (\<lambda>_. 0)\<rparr>"

lemma orderless_never_restored: "mget (readAnnotationsFile (su_file orderless path t)) annRestoreStatus \<noteq> statusRestored"
  by (simp add: orderless_def readAnnotationsFile_def mget_def statusRestored_def)

lemma cold_start_runs_the_original_command_witness:
  "\<exists>p' app'. InjectHolder gatedTemplate ''holder'' = Inr p' \<and> pt_Containers p' = [app'] \<and>
     holderMain orderless sceneOS 0 (ac_Command app' @ ac_Args app') = Some (Execs ''/srv'' [''/srv'', ''-v''])"
proof -
  obtain p' where p': "InjectHolder gatedTemplate ''holder'' = Inr p'"
    by (simp add: InjectHolder_def gatedTemplate_def mget_def AnnotationAssignedPMJ_def AnnotationInjected_def)
  have "punctual orderless 0" by (simp add: punctual_def orderless_def)
  from cold_start_runs_the_original_command [OF p' this, of 0 sceneOS] obtain app app' r t' where c: "pt_Containers gatedTemplate = [app]" "pt_Containers p' = [app']"
    "r = OutcomeHold \<longrightarrow> mget (readAnnotationsFile (su_file orderless (infoMount @ ''/'' @ annotationsRel) t')) annRestoreStatus = statusRestored"
    "holderMain orderless sceneOS 0 (ac_Command app' @ ac_Args app') = Some (if r = OutcomeHold then Holds
      else case ho_LookPath sceneOS (hd (ac_Command app)) of
          None \<Rightarrow> Exits 127
        | Some bin \<Rightarrow> if ho_Exec sceneOS bin (ac_Command app @ ac_Args app) then Execs bin (ac_Command app @ ac_Args app) else Exits 126)" by blast
  have "r \<noteq> OutcomeHold" using c(3) orderless_never_restored by blast
  moreover have "app = \<lparr>ac_Name = ''app'', ac_Image = ''i'', ac_Command = [''/srv''], ac_Args = [''-v''], ac_VolumeMounts = []\<rparr>" using c(1) by (simp add: gatedTemplate_def)
  ultimately have "holderMain orderless sceneOS 0 (ac_Command app' @ ac_Args app') = Some (Execs ''/srv'' [''/srv'', ''-v''])" using c(4) by (simp add: sceneOS_def)
  with p' c(2) show ?thesis by blast
qed

end
