(* ===== verification/Spec2Isabelle.thy ===== *)
theory Spec2Isabelle
  imports Timeout Eligibility Election Assignment Preemption Classifier Provider Engine Budget
    Eviction Admission NodePreemption Migrations Guarded SingleUse Holder
begin

text \<open>
  A verification development for the pod-migration controller (\<open>src/controller\<close>), a Kubernetes
  operator that live-migrates pods: it checkpoints a running pod, evicts it, and restores its
  replacement from the snapshot, exactly once and without ever running the workload twice.

  \<^bold>\<open>The program.\<close> A namespace opts in with a \<open>PodMigration\<close>. When an opted-in pod is evicted, the
  \<^emph>\<open>eviction webhook\<close> refuses the eviction and creates a \<open>PodMigrationJob\<close>; a spot preemption
  of the node makes the \<^emph>\<open>spot-preemption controller\<close> create them. The \<^emph>\<open>job reconciler\<close>
  drives the job through Pending, Snapshotting, Evicting, Restoring and a terminal phase: it
  checks the disruption budget, fences the source, triggers the checkpoint through a
  \<^emph>\<open>snapshot provider\<close>, evicts the source, waits for its volumes, and watches the restore. The
  workload's controller creates a replacement, which the \<^emph>\<open>gate injector\<close> holds with a
  scheduling gate and assigns to the job; the \<^emph>\<open>gate controller\<close> orders the restore and opens
  the gate. Two more webhooks keep a fenced source NotReady and a checkpointed Job pod from
  counting as completed. The \<^emph>\<open>PodMigration controller\<close> keeps the policy and storage objects of
  the \<^emph>\<open>engines\<close>. The components share no memory: they meet at the API server, through an
  informer cache that may be stale, and every call may fail.

  \<^bold>\<open>Foundations.\<close>
  \<^item> \<open>Prelude\<close>: Go's integers, clock and \<open>strings\<close> functions, a weakest-precondition calculus for
    the state monad, keyed stores and elections as locales.
  \<^item> \<open>Kube\<close>, \<open>Api\<close>: the API objects as records, and the custom resources
    (\<open>api/v1alpha1\<close>) with the shared names. \<open>kubelib\<close> holds the library code the controller
    calls and does not contain; what a theorem needs of it is a named hypothesis
    (\<open>lawful_conditions\<close>, \<open>lawful_merge\<close>, \<open>lawful_baseline\<close> and so on), which \<open>Sample.sampleLib\<close>
    satisfies.
  \<^item> \<open>Cluster\<close>: the API server and the informer cache. A reconcile runs in a \<open>world\<close>: the live
    objects, a cache that is any cluster whatever, the clock, an oracle that fails any call before
    or after its effect, and the log of the accepted writes, each with the state of the server
    before it. Writes have the server's semantics (merge patches, preconditions on UID and
    resource version, the status subresource, finalizers).
  \<^item> \<open>Effects\<close>: the Hoare triples \<open>emits\<close> for "every write satisfies P", and \<open>does\<close> and \<open>served\<close> in
    \<open>Cluster\<close> for what an operation achieves when its calls are served.
  \<^item> \<open>Scenario\<close>, \<open>Sample\<close>: the concrete clusters and library on which the theorems with
    hypotheses are run.

  \<^bold>\<open>Components\<close>, each with its source under \<open>src/controller/internal\<close>.
  \<^item> \<open>Timeout\<close> (\<open>util/timeout.go\<close>): the deadline of a migration, with the parser and printer
    of \<open>time.Duration\<close>. Bounds on the deadline, the round trip through the annotation, and the
    overflow of the 64-bit arithmetic.
  \<^item> \<open>Eligibility\<close> (\<open>eligibility/runtimeclass.go\<close>): the allow list of runtime classes.
  \<^item> \<open>Election\<close> (\<open>util/podmigration.go\<close>): the one active \<open>PodMigration\<close> of a namespace.
  \<^item> \<open>Assignment\<close> (\<open>util/assignment.go\<close>): parents of pods, replica identities, and which job a
    replacement adopts: only a free one, and at most one of two claimants wins.
  \<^item> \<open>Preemption\<close> (\<open>util/preemption.go\<close>): signals of a node, policies and the metadata of jobs.
  \<^item> \<open>Classifier\<close> (\<open>restore/\<close>): which container failures are fatal restore failures.
  \<^item> \<open>Provider\<close> (\<open>snapshot/\<close>): triggers and snapshots of GKE; a trigger is created only after the
    source is ordered to start cold, and a snapshot counts as ready only on evidence.
  \<^item> \<open>Engine\<close> (\<open>engine/\<close>): the engine interface as a record of operations, the GKE engine, the
    registry and the routes from runtime classes to engines.
  \<^item> \<open>Budget\<close> (\<open>controller/budget_*.go\<close>): the disruption-budget checkers; a chain of reads, so
    that two jobs cannot both take the last unit of a budget.
  \<^item> \<open>Reconciler\<close>, \<open>Fence\<close>, \<open>Verdict\<close>, \<open>JobController\<close>
    (\<open>controller/podmigrationjob_controller.go\<close>, \<open>fence.go\<close>, \<open>restore_verdict.go\<close>): the job
    reconciler, one definition per phase and per early return. \<open>Passes\<close> has the triples of its
    helpers and of the fence, proved once for any relation on writes that is lenient enough;
    \<open>Transitions\<close> shows with them that its status patches follow the state machine of the phases,
    and \<open>Claims\<close> that it neither undoes nor invents the record of the pod that consumes a job.
  \<^item> \<open>Gate\<close> (\<open>controller/pod_gate_controller.go\<close>): the release of the gate. The order of restore
    always precedes the release, the release goes to the recorded consumer, and a durable job
    is released in one reconcile when the calls are served.
  \<^item> \<open>Eviction\<close>, \<open>Admission\<close> (\<open>webhook/\<close>): the four webhooks.
  \<^item> \<open>NodePreemption\<close> (\<open>controller/node_preemption_controller.go\<close>): the spot-preemption
    controller; the budget holds for every pass, and no other choice saves more pods.
  \<^item> \<open>Migrations\<close> (\<open>controller/podmigration_controller.go\<close>): the PodMigration controller; storage is
    kept while migrations need it, and the rendered objects match the configuration.
  \<^item> \<open>Rules\<close>, \<open>Guard\<close> (\<open>invariants/\<close>): the twelve rules of the invariant engine, and the engine with
    its deduplication and debouncing. The scan of rule I1 decides at-most-once consumption, and
    a strict abort refines an abstract counter of violating samples.
  \<^item> \<open>Guarded\<close> (\<open>evaluateInvariants\<close> of the three reconcilers): what the reconcilers show the
    engine, and the abort of a job in strict mode. An abort is a legal step and cleans up only
    after it is stored; what the gate controller and the conclusion of a restore write passes
    the rules I2 and I12.
  \<^item> \<open>SingleUse\<close>: the executions of the system, in which reconciles of the gate controller and of
    the job reconciler, each with its own stale cache, alternate with steps of the environment
    (\<open>reach\<close>). An invariant of them shows that a snapshot is restored at most once. A reconcile is
    one step of an execution; the invariant is proved for each write of it. The environment is
    assumed to keep the consumer's record of a job and never to bring back a UID.

  \<^bold>\<open>The CRIU engine\<close>, with its sources under \<open>src/engines/criu/internal\<close>.
  \<^item> \<open>Paths\<close>: Go's \<open>path\<close> package and the \<open>strings\<close> functions the engine uses.
  \<^item> \<open>OciSpec\<close> (\<open>node/ocispec.go\<close>, \<open>checkpoint.go\<close>, \<open>capability.go\<close>): the spec of the restored container and
    the extraction of an archive. Neither is trusted: the container is confined like its
    destination, and nothing is written outside the directory of the archive.
  \<^item> \<open>Archive\<close> (\<open>psengine/gcs.go\<close>, \<open>pipeline.go\<close>, \<open>restore_node.go\<close>): the state of an engine process, \<open>agent\<close>, with
    the objects of the store, the local files, the custom resources, the clock, and the requests
    made to the node with their answers; uploads and downloads with their checks, the pipeline that ends with the stop of the
    source, and the restore. The source is stopped only when the archive is durable, and what is
    restored is what was archived.
  \<^item> \<open>SnapshotEngine\<close> (\<open>psengine/contract\<close>, \<open>preflight.go\<close> and the reconcilers): the control plane, which turns
    triggers into orders, and the node agent, which carries them out. Every status write of
    either is logged with the object it replaced (\<open>ag_writes\<close>), and the other writers of the custom
    resources are a parameter (\<open>ag_others\<close>). Only eligible pods are ordered, verdicts are final and well
    formed, the controller's \<open>Provider\<close> reads them as they are meant, ready means that the archive of the
    snapshot's own order is in the store, and restored means that the node has carried the restore out.
  \<^item> \<open>Holder\<close> (\<open>psengine/restore_webhook.go\<close>, \<open>cmd/holder\<close>): the injection of the holder into a replacement pod and the
    holder itself, which waits for the restore and otherwise starts the original command.

  \<^bold>\<open>Interfaces.\<close> Where a component relies on another, a locale names what it relies on:
  \<open>keyed_store\<close> and \<open>precedence\<close> (\<open>Prelude\<close>), the snapshot providers and engines
  (\<open>Provider\<close>, \<open>Engine\<close>), the budget checkers (\<open>Budget\<close>), the job reconciler's dependencies
  (\<open>job_reconciler\<close>) and the relations on its writes (\<open>lenient_writes\<close>, \<open>status_pass\<close>,
  \<open>engine_pass\<close>, all in \<open>Passes\<close>), the restore orderers (\<open>Gate\<close>) and the engines of the other
  controllers. Each is interpreted on the configuration that \<open>cmd/main.go\<close> builds. The two writers of
  snapshot statuses share \<open>snapshot_writer\<close>, interpreted on the trigger reconciler and on the node agent.

  \<^bold>\<open>Bounds.\<close> Every loop but two runs over data it has read, so the definitions are structurally
  recursive, or recursive with a measure, and total: none uses fuel. The two polling loops of the
  holder may run forever and are partial functions; that they return is a theorem. Nothing
  bounds the cluster, the cache, the oracle or the number of calls.

  \<^bold>\<open>Not modelled.\<close> The registration of controllers, webhooks and indexes with the manager, flag
  parsing, metrics and logging, which decide nothing; the texts of events, of which the reason
  is kept; generated deep copies, since values are not shared. One namespace is modelled, as
  every list of the controllers is restricted to one. Each reconcile reads the clock once per
  call of \<open>time.Now\<close>, but the clock stands still during a reconcile. The invariant
  engine's evaluation takes the object as the reconcile leaves it; it is a definition beside the
  reconcile, not a part of it. Of the CRIU engine, the start-up of its processes and what
  the node agent does with system calls, \<open>runc\<close> and cgroups (\<open>node/restore.go\<close> and the mechanisms
  beside it) are requests in the model, answered by an oracle; a local file that was opened can be read
  to its end, and no other process changes it while the pipeline runs, so that the hashed and the streamed bytes
  agree. The object store follows the documented JSON API of Cloud Storage (\<open>serve\<close>); which requests fail, and
  which bytes are recorded or delivered, is arbitrary. The round trip of a manifest through JSON
  (\<open>lawful_hashes\<close>) is that of strings in valid UTF-8, and \<open>strings.ToLower\<close> and the trimming of spaces
  are those of ASCII, which names, labels and annotations of Kubernetes are. \<open>SetControllerReference\<close> is
  taken to succeed on the new trigger, which has no owner and is in the job's namespace, and the status update
  of a manual trigger has no conflict, since only the trigger reconciler writes it. The tools (\<open>tools/\<close>) and the demos are separate programs.
\<close>

end
